(* ===== verification/OWA_Prelude.thy ===== *)
theory OWA_Prelude
  imports Complex_Main "HOL-Library.Char_ord" "HOL-Library.List_Lexorder" "HOL-Library.Product_Lexorder"
    "HOL-Library.AList"
begin

text \<open>
  Shared material of the development: the error-result combinators in which every fallible
  routine of the source is written, the named collections its proofs draw on, generic facts
  about lists, lexicographic order and SQL-like row selection, and the locale of finite state
  machines that the Page Job and the Crawl Run tables both instantiate.
\<close>

section \<open>Named collections\<close>

named_theorems result_simps \<open>inversion rules of the error-result combinators\<close>
named_theorems policy_defs \<open>constants and tables of the policy modules\<close>

section \<open>Results that may be an error\<close>

text \<open>
  A routine that throws returns \<open>Inl\<close> of the error, one that returns normally \<open>Inr\<close>
  of its value. \<open>ebind\<close> sequences two such routines, \<open>ensure\<close> is the guard
  \<open>if (!b) throw e\<close>.
\<close>

definition ebind :: "'e + 'a \<Rightarrow> ('a \<Rightarrow> 'e + 'b) \<Rightarrow> 'e + 'b" where
  "ebind m f = (case m of Inl e \<Rightarrow> Inl e | Inr a \<Rightarrow> f a)"

definition ensure :: "bool \<Rightarrow> 'e \<Rightarrow> 'e + unit" where
  "ensure b e = (if b then Inr () else Inl e)"

definition is_ok :: "'e + 'a \<Rightarrow> bool" where
  "is_ok m = (case m of Inl _ \<Rightarrow> False | Inr _ \<Rightarrow> True)"

lemma ebind_simps [simp]:
  "ebind (Inl e) f = Inl e"
  "ebind (Inr a) f = f a"
  by (simp_all add: ebind_def)

lemma ensure_simps [simp]:
  "b \<Longrightarrow> ensure b e = Inr ()"
  "\<not> b \<Longrightarrow> ensure b e = Inl e"
  by (simp_all add: ensure_def)

lemma is_ok_simps [simp]: "is_ok (Inr a)" "\<not> is_ok (Inl e)"
  by (simp_all add: is_ok_def)

lemma ebind_Inr_iff [result_simps]:
  "ebind m f = Inr b \<longleftrightarrow> (\<exists>a. m = Inr a \<and> f a = Inr b)"
  by (cases m) auto

lemma ebind_Inl_iff [result_simps]:
  "ebind m f = Inl e \<longleftrightarrow> m = Inl e \<or> (\<exists>a. m = Inr a \<and> f a = Inl e)"
  by (cases m) auto

lemma ensure_Inr_iff [result_simps]: "ensure b e = Inr u \<longleftrightarrow> b"
  by (simp add: ensure_def)

lemma ensure_Inl_iff [result_simps]: "ensure b e = Inl e' \<longleftrightarrow> \<not> b \<and> e' = e"
  by (auto simp: ensure_def)

lemma is_ok_iff: "is_ok m \<longleftrightarrow> (\<exists>a. m = Inr a)"
  by (cases m) auto

lemma is_ok_ebind [simp]: "is_ok (ebind m f) \<longleftrightarrow> (\<exists>a. m = Inr a \<and> is_ok (f a))"
  by (cases m) auto

lemma is_ok_ensure [simp]: "is_ok (ensure b e) \<longleftrightarrow> b"
  by (simp add: ensure_def)

lemma ensure_eq_if: "ebind (ensure b e) f = (if b then f () else Inl e)"
  by (simp add: ensure_def)

text \<open>\<open>for (const x of xs) f(x)\<close> with an early exit at the first error.\<close>

fun emap :: "('a \<Rightarrow> 'e + 'b) \<Rightarrow> 'a list \<Rightarrow> 'e + 'b list" where
  "emap f [] = Inr []"
| "emap f (x # xs) = ebind (f x) (\<lambda>y. ebind (emap f xs) (\<lambda>ys. Inr (y # ys)))"

lemma emap_Inr_iff:
  "emap f xs = Inr ys \<longleftrightarrow> list_all2 (\<lambda>x y. f x = Inr y) xs ys"
  by (induction xs arbitrary: ys) (auto simp: result_simps list_all2_Cons1)

lemma emap_member: "emap f xs = Inr ys \<Longrightarrow> x \<in> set xs \<Longrightarrow> \<exists>y \<in> set ys. f x = Inr y"
  by (induction xs arbitrary: ys) (auto simp: result_simps)

lemma emap_length: "emap f xs = Inr ys \<Longrightarrow> length ys = length xs"
  by (auto simp: emap_Inr_iff list_all2_lengthD)

section \<open>Lists and row selection\<close>

text \<open>
  \<open>SELECT ... WHERE p ORDER BY k LIMIT n\<close> over a table held as a list of rows, and
  \<open>UPDATE ... SET f WHERE p\<close>.
\<close>

definition select_order :: "('a \<Rightarrow> bool) \<Rightarrow> ('a \<Rightarrow> 'k::linorder) \<Rightarrow> 'a list \<Rightarrow> 'a list" where
  "select_order p k rows = sort_key k (filter p rows)"

definition select_first :: "('a \<Rightarrow> bool) \<Rightarrow> ('a \<Rightarrow> 'k::linorder) \<Rightarrow> 'a list \<Rightarrow> 'a option" where
  "select_first p k rows = (case select_order p k rows of [] \<Rightarrow> None | r # _ \<Rightarrow> Some r)"

definition update_where :: "('a \<Rightarrow> bool) \<Rightarrow> ('a \<Rightarrow> 'a) \<Rightarrow> 'a list \<Rightarrow> 'a list" where
  "update_where p f rows = map (\<lambda>r. if p r then f r else r) rows"

definition count_where :: "('a \<Rightarrow> bool) \<Rightarrow> 'a list \<Rightarrow> nat" where
  "count_where p rows = length (filter p rows)"

lemma set_select_order [simp]: "set (select_order p k rows) = {r \<in> set rows. p r}"
  by (simp add: select_order_def)

lemma sorted_select_order: "sorted (map k (select_order p k rows))"
  by (simp add: select_order_def)

lemma select_first_None_iff: "select_first p k rows = None \<longleftrightarrow> (\<forall>r \<in> set rows. \<not> p r)"
proof -
  have "select_first p k rows = None \<longleftrightarrow> set (select_order p k rows) = {}"
    by (auto simp: select_first_def simp del: set_select_order split: list.splits)
  then show ?thesis by auto
qed

lemma select_first_SomeD:
  assumes "select_first p k rows = Some r"
  shows "r \<in> set rows" and "p r" and "\<And>r'. r' \<in> set rows \<Longrightarrow> p r' \<Longrightarrow> k r \<le> k r'"
proof -
  obtain rs where rs: "select_order p k rows = r # rs"
    using assms by (auto simp: select_first_def split: list.splits)
  then have "r \<in> set (select_order p k rows)" by simp
  then show "r \<in> set rows" and "p r" by auto
  fix r' assume "r' \<in> set rows" "p r'"
  then have "r' \<in> set (r # rs)" using rs by (metis (mono_tags, lifting) mem_Collect_eq set_select_order)
  moreover have "sorted (map k (r # rs))" using rs sorted_select_order[of k p rows] by simp
  ultimately show "k r \<le> k r'" by auto
qed

lemma length_update_where [simp]: "length (update_where p f rows) = length rows"
  by (simp add: update_where_def)

lemma update_where_Nil [simp]: "update_where p f [] = []"
  by (simp add: update_where_def)

lemma update_where_Cons [simp]:
  "update_where p f (r # rows) = (if p r then f r else r) # update_where p f rows"
  by (simp add: update_where_def)

lemma set_update_where: "set (update_where p f rows) = (\<lambda>r. if p r then f r else r) ` set rows"
  by (simp add: update_where_def)

lemma map_key_update_where:
  "(\<And>r. r \<in> set rows \<Longrightarrow> p r \<Longrightarrow> g (f r) = g r) \<Longrightarrow> map g (update_where p f rows) = map g rows"
  by (simp add: update_where_def)

lemma update_where_id: "(\<And>r. r \<in> set rows \<Longrightarrow> \<not> p r) \<Longrightarrow> update_where p f rows = rows"
  by (induction rows) auto

lemma in_update_whereE:
  assumes "r \<in> set (update_where p f rows)"
  obtains r0 where "r0 \<in> set rows" and "r = (if p r0 then f r0 else r0)"
  using assms by (auto simp: set_update_where)

lemma count_where_append [simp]: "count_where p (xs @ ys) = count_where p xs + count_where p ys"
  by (simp add: count_where_def)

lemma count_where_Cons [simp]: "count_where p (x # xs) = (if p x then 1 else 0) + count_where p xs"
  by (simp add: count_where_def)

lemma count_where_Nil [simp]: "count_where p [] = 0"
  by (simp add: count_where_def)

lemma count_where_0_iff [simp]: "count_where p rows = 0 \<longleftrightarrow> (\<forall>r \<in> set rows. \<not> p r)"
  by (auto simp: count_where_def filter_empty_conv)

lemma count_where_le_length: "count_where p rows \<le> length rows"
  by (simp add: count_where_def)

lemma find_SomeD: "List.find p xs = Some x \<Longrightarrow> x \<in> set xs \<and> p x"
  by (auto simp: find_Some_iff)

lemma find_unique_key:
  assumes "distinct (map k xs)" "x \<in> set xs"
  shows "List.find (\<lambda>r. k r = k x) xs = Some x"
  using assms by (induction xs) (auto simp: image_iff)

lemma distinct_key_eq:
  "distinct (map k xs) \<Longrightarrow> x \<in> set xs \<Longrightarrow> y \<in> set xs \<Longrightarrow> k x = k y \<Longrightarrow> x = y"
  by (metis distinct_map inj_on_def)

section \<open>Association lists\<close>

lemma update_new: "k \<notin> fst ` set al \<Longrightarrow> AList.update k v al = al @ [(k, v)]"
  by (induction al) auto

section \<open>Lexicographic order of strings with equally long parts\<close>

lemma append_less_iff_same_length:
  fixes xs ys us vs :: "'a::linorder list"
  assumes "length xs = length ys"
  shows "xs @ us < ys @ vs \<longleftrightarrow> xs < ys \<or> (xs = ys \<and> us < vs)"
  using assms
  by (induction xs ys rule: list_induct2) auto

section \<open>Finite state machines given by a table\<close>

text \<open>
  Both the Page Job queue and the Crawl Run describe their states by a table of permitted
  targets. The laws that clients rely on are stated once: what a path through the table is, and
  that a state with an empty row is never left.
\<close>

locale transition_table =
  fixes targets :: "'s \<Rightarrow> 's list"
    and terminal :: "'s \<Rightarrow> bool"
  assumes terminal_stuck: "terminal s \<Longrightarrow> targets s = []"
    and live_moves: "\<not> terminal s \<Longrightarrow> targets s \<noteq> []"
    and irreflexive: "s \<notin> set (targets s)"
begin

abbreviation step :: "'s \<Rightarrow> 's \<Rightarrow> bool" where
  "step s t \<equiv> t \<in> set (targets s)"

lemma terminal_absorbing: "step\<^sup>*\<^sup>* s t \<Longrightarrow> terminal s \<Longrightarrow> t = s"
  by (induction rule: rtranclp_induct) (auto simp: terminal_stuck)

lemma terminal_iff: "terminal s \<longleftrightarrow> targets s = []"
  using terminal_stuck live_moves by blast

end

end
