(* ===== verification/Js_Values.thy ===== *)
theory Js_Values
  imports OWA_Prelude
begin

text \<open>
  The JavaScript values the source computes with. A \<open>number\<close> is a \<open>jsnum\<close>: an exact
  rational, an infinity or NaN (rounding of doubles is not modelled; every number the source
  persists passes an integer check first). A string is a list of characters read as its UTF-16
  code units, restricted to the range 0 to 255; on that range \<open>toLowerCase\<close>,
  \<open>trim\<close>, the relational operators and UTF-8 lengths are exactly those of ECMAScript.
\<close>

section \<open>Numbers\<close>

datatype jsnum = NaN | Infinity | NegInfinity | Num rat

definition int_value :: "jsnum \<Rightarrow> int option" where
  "int_value n = (case n of Num q \<Rightarrow> if of_int \<lfloor>q\<rfloor> = q then Some \<lfloor>q\<rfloor> else None | _ \<Rightarrow> None)"

definition is_integer :: "jsnum \<Rightarrow> bool" where
  "is_integer n = (int_value n \<noteq> None)"

definition max_safe_integer :: int where
  "max_safe_integer = 9007199254740991"

definition safe_int :: "jsnum \<Rightarrow> int option" where
  "safe_int n = (case int_value n of
     None \<Rightarrow> None
   | Some i \<Rightarrow> if \<bar>i\<bar> \<le> max_safe_integer then Some i else None)"

definition is_finite :: "jsnum \<Rightarrow> bool" where
  "is_finite n = (case n of Num _ \<Rightarrow> True | _ \<Rightarrow> False)"

abbreviation js_int :: "int \<Rightarrow> jsnum" where
  "js_int i \<equiv> Num (of_int i)"

lemma int_value_js_int [simp]: "int_value (js_int i) = Some i"
  by (simp add: int_value_def)

lemma int_value_Some_iff: "int_value n = Some i \<longleftrightarrow> n = js_int i"
  by (auto simp: int_value_def split: jsnum.splits if_splits)

lemma int_value_numeral [simp]:
  "int_value (Num (numeral k)) = Some (numeral k)"
  "int_value (Num 0) = Some 0" "int_value (Num 1) = Some 1"
  by (simp_all add: int_value_def)

lemma safe_int_Some_iff: "safe_int n = Some i \<longleftrightarrow> n = js_int i \<and> \<bar>i\<bar> \<le> max_safe_integer"
  by (auto simp: safe_int_def int_value_Some_iff split: option.splits if_splits)

lemma safe_int_js_int [simp]: "safe_int (js_int i) = (if \<bar>i\<bar> \<le> max_safe_integer then Some i else None)"
  by (simp add: safe_int_def)

text \<open>
  \<open>!Number.isInteger(v) || v < lo || v > hi\<close> and its safe-integer variant, as the
  integer that passes.
\<close>

definition bounded_int :: "int \<Rightarrow> int \<Rightarrow> jsnum \<Rightarrow> int option" where
  "bounded_int lo hi n = (case int_value n of
     None \<Rightarrow> None | Some i \<Rightarrow> if i < lo \<or> hi < i then None else Some i)"

definition bounded_safe_int :: "int \<Rightarrow> int \<Rightarrow> jsnum \<Rightarrow> int option" where
  "bounded_safe_int lo hi n = (case safe_int n of
     None \<Rightarrow> None | Some i \<Rightarrow> if i < lo \<or> hi < i then None else Some i)"

lemma bounded_int_Some_iff:
  "bounded_int lo hi n = Some i \<longleftrightarrow> n = js_int i \<and> lo \<le> i \<and> i \<le> hi"
  by (auto simp: bounded_int_def int_value_Some_iff split: option.splits if_splits)

lemma bounded_safe_int_Some_iff:
  "bounded_safe_int lo hi n = Some i \<longleftrightarrow>
     n = js_int i \<and> lo \<le> i \<and> i \<le> hi \<and> \<bar>i\<bar> \<le> max_safe_integer"
  by (auto simp: bounded_safe_int_def safe_int_Some_iff split: option.splits if_splits)

lemma bounded_int_js_int [simp]:
  "bounded_int lo hi (js_int i) = (if i < lo \<or> hi < i then None else Some i)"
  "bounded_int lo hi (Num (of_nat n)) = (if int n < lo \<or> hi < int n then None else Some (int n))"
proof -
  have *: "bounded_int lo hi (js_int i) = (if i < lo \<or> hi < i then None else Some i)" for i
    by (simp add: bounded_int_def)
  show "bounded_int lo hi (js_int i) = (if i < lo \<or> hi < i then None else Some i)" by (rule *)
  show "bounded_int lo hi (Num (of_nat n)) = (if int n < lo \<or> hi < int n then None else Some (int n))"
    using *[of "int n"] by simp
qed

lemma bounded_safe_int_js_int [simp]:
  "bounded_safe_int lo hi (js_int i) =
     (if \<bar>i\<bar> \<le> max_safe_integer \<and> lo \<le> i \<and> i \<le> hi then Some i else None)"
  by (auto simp: bounded_safe_int_def)

section \<open>Characters\<close>

definition code :: "char \<Rightarrow> nat" where
  "code c = of_char c"

definition is_digit :: "char \<Rightarrow> bool" where
  "is_digit c = (48 \<le> code c \<and> code c \<le> 57)"

definition is_upper :: "char \<Rightarrow> bool" where
  "is_upper c = (65 \<le> code c \<and> code c \<le> 90)"

definition is_lower :: "char \<Rightarrow> bool" where
  "is_lower c = (97 \<le> code c \<and> code c \<le> 122)"

definition is_alnum :: "char \<Rightarrow> bool" where
  "is_alnum c = (is_digit c \<or> is_upper c \<or> is_lower c)"

definition is_control :: "char \<Rightarrow> bool" where
  "is_control c = (code c \<le> 31 \<or> code c = 127)"

definition is_hex_lower :: "char \<Rightarrow> bool" where
  "is_hex_lower c = (is_digit c \<or> (97 \<le> code c \<and> code c \<le> 102))"

text \<open>The characters of \<open>\s\<close> and of \<open>trim\<close> below 256.\<close>

definition is_space :: "char \<Rightarrow> bool" where
  "is_space c = (code c \<in> {9, 10, 11, 12, 13, 32, 160})"

definition lower_char :: "char \<Rightarrow> char" where
  "lower_char c = (if is_upper c \<or> (192 \<le> code c \<and> code c \<le> 222 \<and> code c \<noteq> 215)
     then char_of (code c + 32) else c)"

definition to_lower :: "string \<Rightarrow> string" where
  "to_lower s = map lower_char s"

lemma code_less_256 [simp]: "code c < 256"
  using nat_of_char_less_256[of c] by (simp add: code_def)

lemma code_char_of [simp]: "n < 256 \<Longrightarrow> code (char_of n) = n"
  by (simp add: code_def)

lemma char_of_code [simp]: "char_of (code c) = c"
  by (simp add: code_def)

lemma char_less_iff_code: "c < d \<longleftrightarrow> code c < code d"
  by (simp add: less_char_def code_def)

lemma lower_char_idem: "lower_char (lower_char c) = lower_char c"
proof -
  have "code c < 256" by simp
  then show ?thesis by (auto simp: lower_char_def is_upper_def)
qed

lemma to_lower_idem: "to_lower (to_lower s) = to_lower s"
  by (simp add: to_lower_def lower_char_idem)

lemma length_to_lower [simp]: "length (to_lower s) = length s"
  by (simp add: to_lower_def)

section \<open>Strings\<close>

definition trim_start :: "string \<Rightarrow> string" where
  "trim_start s = dropWhile is_space s"

definition js_trim :: "string \<Rightarrow> string" where
  "js_trim s = rev (dropWhile is_space (rev (dropWhile is_space s)))"

definition starts_with :: "string \<Rightarrow> string \<Rightarrow> bool" where
  "starts_with s p = (take (length p) s = p)"

definition ends_with :: "string \<Rightarrow> string \<Rightarrow> bool" where
  "ends_with s p = starts_with (rev s) (rev p)"

fun includes_str :: "string \<Rightarrow> string \<Rightarrow> bool" where
  "includes_str [] p = (p = [])"
| "includes_str (c # cs) p = (starts_with (c # cs) p \<or> includes_str cs p)"

text \<open>\<open>s.split(sep)\<close> for a one-character separator.\<close>

fun split_on :: "'a \<Rightarrow> 'a list \<Rightarrow> 'a list list" where
  "split_on x [] = [[]]"
| "split_on x (c # cs) = (case split_on x cs of
     [] \<Rightarrow> [[c]]
   | w # ws \<Rightarrow> if c = x then [] # w # ws else (c # w) # ws)"

definition utf8_bytes :: "string \<Rightarrow> nat" where
  "utf8_bytes s = sum_list (map (\<lambda>c. if code c \<le> 127 then 1 else 2) s)"

text \<open>
  \<open>/^[A-Za-z0-9][A-Za-z0-9._:-]{0,n-1}$/\<close>, the identifier pattern shared by the queue keys,
  the scheduler and the proxies.
\<close>

definition ident_char :: "char \<Rightarrow> bool" where
  "ident_char c = (is_alnum c \<or> c \<in> set ''._:-'')"

definition ident_pattern :: "nat \<Rightarrow> string \<Rightarrow> bool" where
  "ident_pattern n s = (case s of [] \<Rightarrow> False
     | c # cs \<Rightarrow> is_alnum c \<and> list_all ident_char cs \<and> length s \<le> n)"

definition safe_identifier :: "string \<Rightarrow> bool" where
  "safe_identifier s = ident_pattern 128 s"

definition sha256_hex :: "string \<Rightarrow> bool" where
  "sha256_hex s = (length s = 64 \<and> list_all is_hex_lower s)"

lemma split_on_not_Nil [simp]: "split_on x cs \<noteq> []"
  by (induction cs) (auto split: list.splits)

text \<open>Splitting is inverted by joining with the separator, and no part contains it.\<close>

fun join_on :: "'a \<Rightarrow> 'a list list \<Rightarrow> 'a list" where
  "join_on x [] = []"
| "join_on x [w] = w"
| "join_on x (w # v # ws) = w @ x # join_on x (v # ws)"

lemma join_split: "join_on x (split_on x cs) = cs"
proof (induction cs)
  case Nil
  then show ?case by simp
next
  case (Cons c cs)
  obtain w ws where w: "split_on x cs = w # ws"
    by (cases "split_on x cs") auto
  with Cons show ?case by (cases ws) auto
qed

lemma split_on_parts: "w \<in> set (split_on x cs) \<Longrightarrow> x \<notin> set w"
proof (induction cs arbitrary: w)
  case Nil
  then show ?case by simp
next
  case (Cons c cs)
  obtain v vs where v: "split_on x cs = v # vs"
    by (cases "split_on x cs") auto
  with Cons show ?case by (auto split: if_splits)
qed

lemma utf8_bytes_ge_length: "length s \<le> utf8_bytes s"
  unfolding utf8_bytes_def by (induction s) auto

lemma utf8_bytes_append [simp]: "utf8_bytes (s @ t) = utf8_bytes s + utf8_bytes t"
  by (simp add: utf8_bytes_def)

lemma ident_pattern_not_Nil: "ident_pattern n s \<Longrightarrow> s \<noteq> []"
  by (auto simp: ident_pattern_def)

section \<open>Numerals\<close>

text \<open>Decimal and lower-case hexadecimal digits of a natural number, as \<open>String(n)\<close> prints them.\<close>

definition digit_char :: "nat \<Rightarrow> char" where
  "digit_char d = (if d < 10 then char_of (48 + d) else char_of (87 + d))"

fun show_base :: "nat \<Rightarrow> nat \<Rightarrow> string" where
  "show_base b n = (if b < 2 \<or> n < b then [digit_char n] else show_base b (n div b) @ [digit_char (n mod b)])"

declare show_base.simps [simp del]

definition show_nat :: "nat \<Rightarrow> string" where
  "show_nat n = show_base 10 n"

definition show_int :: "int \<Rightarrow> string" where
  "show_int i = (if i < 0 then ''-'' @ show_nat (nat (- i)) else show_nat (nat i))"

text \<open>\<open>s.padStart(k, "0")\<close>.\<close>

definition pad_zero :: "nat \<Rightarrow> string \<Rightarrow> string" where
  "pad_zero k s = replicate (k - length s) (CHR ''0'') @ s"

text \<open>The value of a string of decimal digits.\<close>

definition digit_value :: "char \<Rightarrow> nat" where
  "digit_value c = code c - 48"

definition dec_value :: "string \<Rightarrow> nat" where
  "dec_value s = foldl (\<lambda>n c. 10 * n + digit_value c) 0 s"

text \<open>Exactly \<open>k\<close> decimal digits of \<open>n\<close> (the low ones).\<close>

fun digits :: "nat \<Rightarrow> nat \<Rightarrow> string" where
  "digits 0 n = []"
| "digits (Suc k) n = digits k (n div 10) @ [digit_char (n mod 10)]"

lemma length_digits [simp]: "length (digits k n) = k"
  by (induction k arbitrary: n) auto

lemma code_digit_char [simp]: "d < 10 \<Longrightarrow> code (digit_char d) = 48 + d"
  by (simp add: digit_char_def)

lemma digits_are_digits: "list_all is_digit (digits k n)"
  by (induction k arbitrary: n) (auto simp: is_digit_def)

lemma dec_value_snoc: "dec_value (s @ [c]) = 10 * dec_value s + digit_value c"
  by (simp add: dec_value_def)

lemma dec_value_digits: "n < 10 ^ k \<Longrightarrow> dec_value (digits k n) = n"
proof (induction k arbitrary: n)
  case 0
  then show ?case by (simp add: dec_value_def)
next
  case (Suc k)
  then have "n div 10 < 10 ^ k" by (simp add: less_mult_imp_div_less)
  with Suc.IH[of "n div 10"] show ?case
    by (simp add: dec_value_snoc digit_value_def)
qed

lemma digits_less_iff:
  "m < 10 ^ k \<Longrightarrow> n < 10 ^ k \<Longrightarrow> digits k m < digits k n \<longleftrightarrow> m < n"
proof (induction k arbitrary: m n)
  case 0
  then show ?case by simp
next
  case (Suc k)
  then have le: "m div 10 < 10 ^ k" "n div 10 < 10 ^ k" by (simp_all add: less_mult_imp_div_less)
  have eq: "digits k (m div 10) = digits k (n div 10) \<longleftrightarrow> m div 10 = n div 10"
    using dec_value_digits[OF le(1)] dec_value_digits[OF le(2)] by metis
  have "digits (Suc k) m < digits (Suc k) n \<longleftrightarrow>
      m div 10 < n div 10 \<or> (m div 10 = n div 10 \<and> m mod 10 < n mod 10)"
    using Suc.IH[OF le] eq by (simp add: append_less_iff_same_length char_less_iff_code)
  also have "\<dots> \<longleftrightarrow> m < n"
  proof -
    have "m = 10 * (m div 10) + m mod 10" "n = 10 * (n div 10) + n mod 10" by simp_all
    moreover have "m mod 10 < 10" "n mod 10 < 10" by simp_all
    ultimately show ?thesis by linarith
  qed
  finally show ?case .
qed

lemma digits_eq_iff: "m < 10 ^ k \<Longrightarrow> n < 10 ^ k \<Longrightarrow> digits k m = digits k n \<longleftrightarrow> m = n"
  by (metis dec_value_digits)

section \<open>Trimming\<close>

lemma dropWhile_hd: "dropWhile p xs \<noteq> [] \<Longrightarrow> \<not> p (hd (dropWhile p xs))"
  by (induction xs) auto

lemma trim_end_prefix: "\<exists>zs. u = rev (dropWhile p (rev u)) @ zs"
  by (metis rev_append rev_rev_ident takeWhile_dropWhile_id)

lemma js_trim_ends:
  assumes "js_trim s \<noteq> []" shows "\<not> is_space (hd (js_trim s))" "\<not> is_space (last (js_trim s))"
proof -
  let ?u = "dropWhile is_space s"
  have t: "js_trim s = rev (dropWhile is_space (rev ?u))" by (simp add: js_trim_def)
  obtain zs where "?u = js_trim s @ zs" using trim_end_prefix[of ?u is_space] t by metis
  then have "?u \<noteq> []" "hd ?u = hd (js_trim s)" using assms by (metis append_is_Nil_conv, metis hd_append2)
  then show "\<not> is_space (hd (js_trim s))" using dropWhile_hd[of is_space s] by simp
  show "\<not> is_space (last (js_trim s))"
    using assms dropWhile_hd[of is_space "rev ?u"] t by (simp add: last_rev)
qed

lemma js_trim_id:
  assumes "s \<noteq> []" "\<not> is_space (hd s)" "\<not> is_space (last s)" shows "js_trim s = s"
proof -
  have "dropWhile is_space s = s" using assms by (cases s) auto
  moreover have "dropWhile is_space (rev s) = rev s"
    using assms by (cases "rev s") (auto simp: last_rev hd_rev dest: arg_cong[of _ _ hd])
  ultimately show ?thesis by (simp add: js_trim_def)
qed

lemma js_trim_idem [simp]: "js_trim (js_trim s) = js_trim s"
proof (cases "js_trim s = []")
  case True
  moreover have "js_trim [] = []" by (simp add: js_trim_def)
  ultimately show ?thesis by simp
next
  case False
  then show ?thesis using js_trim_id js_trim_ends by metis
qed

lemma js_trim_plain: "list_all (\<lambda>c. \<not> is_space c) s \<Longrightarrow> js_trim s = s"
proof (cases "s = []")
  case True
  then show ?thesis by (simp add: js_trim_def)
next
  case False
  moreover assume "list_all (\<lambda>c. \<not> is_space c) s"
  ultimately show ?thesis by (intro js_trim_id) (auto simp: list_all_iff)
qed

lemma length_js_trim: "length (js_trim s) \<le> length s"
  by (metis js_trim_def length_dropWhile_le length_rev order_trans)

end
