(* ===== verification/Js_Time.thy ===== *)
theory Js_Time
  imports Js_Values
begin

text \<open>
  UTC timestamps. The source stores times as ISO-8601 text, compares the text in SQL, and
  converts with \<open>Date.parse\<close> and \<open>toISOString\<close>. The conversions are those of
  ECMAScript (proleptic Gregorian calendar, days of 86,400,000 ms, no leap seconds); like V8, the
  engine the product ships, \<open>Date.parse\<close> takes any day from 1 to 31 in any month and lets it
  overflow into the next. The two results of the theory are that parsing inverts printing, and
  that for printed times of four-digit years the order of the text is the order of the times.
\<close>

section \<open>Calendar\<close>

definition leap_year :: "int \<Rightarrow> bool" where
  "leap_year y = (y mod 4 = 0 \<and> (y mod 100 \<noteq> 0 \<or> y mod 400 = 0))"

definition year_days :: "int \<Rightarrow> int" where
  "year_days y = (if leap_year y then 366 else 365)"

text \<open>\<open>DayFromYear\<close>: days from 1970-01-01 to the first of January of year \<open>y\<close>.\<close>

definition day_from_year :: "int \<Rightarrow> int" where
  "day_from_year y =
     365 * (y - 1970) + (y - 1969) div 4 - (y - 1901) div 100 + (y - 1601) div 400"

text \<open>\<open>YearFromTime\<close>: an estimate from the mean length of a year, off by at most one.\<close>

definition year_from_days :: "int \<Rightarrow> int" where
  "year_from_days z =
     (let y = 1970 + (400 * z) div 146097
      in if z < day_from_year y then y - 1
         else if day_from_year (y + 1) \<le> z then y + 1 else y)"

definition month_start :: "bool \<Rightarrow> int \<Rightarrow> int" where
  "month_start l m = (let k = (if l then 1 else 0) in
     if m = 1 then 0 else if m = 2 then 31 else if m = 3 then 59 + k else if m = 4 then 90 + k
     else if m = 5 then 120 + k else if m = 6 then 151 + k else if m = 7 then 181 + k
     else if m = 8 then 212 + k else if m = 9 then 243 + k else if m = 10 then 273 + k
     else if m = 11 then 304 + k else 334 + k)"

definition month_from_day :: "bool \<Rightarrow> int \<Rightarrow> int" where
  "month_from_day l d = (let k = (if l then 1 else 0) in
     if d < 31 then 1 else if d < 59 + k then 2 else if d < 90 + k then 3
     else if d < 120 + k then 4 else if d < 151 + k then 5 else if d < 181 + k then 6
     else if d < 212 + k then 7 else if d < 243 + k then 8 else if d < 273 + k then 9
     else if d < 304 + k then 10 else if d < 334 + k then 11 else 12)"

definition days_from_ymd :: "int \<Rightarrow> int \<Rightarrow> int \<Rightarrow> int" where
  "days_from_ymd y m d = day_from_year y + month_start (leap_year y) m + (d - 1)"

definition ymd_from_days :: "int \<Rightarrow> int \<times> int \<times> int" where
  "ymd_from_days z =
     (let y = year_from_days z; doy = z - day_from_year y; m = month_from_day (leap_year y) doy
      in (y, m, doy - month_start (leap_year y) m + 1))"

lemma div_bounds: "0 < n \<Longrightarrow> n * (x div n) \<le> x" "0 < n \<Longrightarrow> x < n * (x div n) + n" for x n :: int
proof -
  assume n: "0 < n"
  have "n * (x div n) + x mod n = x" by (rule mult_div_mod_eq)
  moreover have "0 \<le> x mod n" "x mod n < n" using n by simp_all
  ultimately show "n * (x div n) \<le> x" "x < n * (x div n) + n" by linarith+
qed

lemma div_succ: "0 < n \<Longrightarrow> (x + 1) div n = x div n + (if (x + 1) mod n = 0 then 1 else 0)" for x n :: int
proof -
  assume n: "0 < n"
  have x: "n * (x div n) + x mod n = x" by (rule mult_div_mod_eq)
  have r: "0 \<le> x mod n" "x mod n < n" using n by simp_all
  show ?thesis
  proof (cases "x mod n = n - 1")
    case True
    with x have e: "x + 1 = n * (x div n + 1)" by (simp add: algebra_simps)
    have "(x + 1) mod n = 0" "(x + 1) div n = x div n + 1"
      using n by (subst e, simp)+
    then show ?thesis by simp
  next
    case False
    with r have lt: "x mod n + 1 < n" "0 \<le> x mod n + 1" by linarith+
    have e: "x + 1 = n * (x div n) + (x mod n + 1)" using x by linarith
    have "(x + 1) div n = x div n" by (rule int_div_pos_eq[OF e lt(2) lt(1)])
    moreover have "(x + 1) mod n = x mod n + 1" by (rule int_mod_pos_eq[OF e lt(2) lt(1)])
    ultimately show ?thesis using r by simp
  qed
qed

lemma leap_count:
  assumes "C \<longrightarrow> B" "B \<longrightarrow> A"
  shows "365 + (if A then 1 else 0) - (if B then 1 else 0) + (if C then 1 else 0) =
    (if A \<and> (\<not> B \<or> C) then 366 else 365 :: int)"
  using assms by (cases A; cases B; cases C; simp)

lemma leap_divs:
  "(y + 1 - 1969) div 4 = (y - 1969) div 4 + (if y mod 4 = 0 then 1 else 0)"
  "(y + 1 - 1901) div 100 = (y - 1901) div 100 + (if y mod 100 = 0 then 1 else 0)"
  "(y + 1 - 1601) div 400 = (y - 1601) div 400 + (if y mod 400 = 0 then 1 else 0)" for y :: int
proof -
  have eqs: "y + 1 - 1969 = (y - 1969) + 1" "y + 1 - 1901 = (y - 1901) + 1" "y + 1 - 1601 = (y - 1601) + 1"
    by simp_all
  have "(y - 1969 + 1) mod 4 = y mod 4" using mod_mult_self1[of y "-492" 4] by simp
  then show "(y + 1 - 1969) div 4 = (y - 1969) div 4 + (if y mod 4 = 0 then 1 else 0)"
    unfolding eqs by (subst div_succ) simp_all
  have "(y - 1901 + 1) mod 100 = y mod 100" using mod_mult_self1[of y "-19" 100] by simp
  then show "(y + 1 - 1901) div 100 = (y - 1901) div 100 + (if y mod 100 = 0 then 1 else 0)"
    unfolding eqs by (subst div_succ) simp_all
  have "(y - 1601 + 1) mod 400 = y mod 400" using mod_mult_self1[of y "-4" 400] by simp
  then show "(y + 1 - 1601) div 400 = (y - 1601) div 400 + (if y mod 400 = 0 then 1 else 0)"
    unfolding eqs by (subst div_succ) simp_all
qed

lemma day_from_year_Suc: "day_from_year (y + 1) = day_from_year y + year_days y"
proof -
  have "y mod 400 = 0 \<longrightarrow> y mod 100 = 0"
    by (auto simp: mod_eq_0_iff_dvd intro: dvd_trans[of 100 400])
  moreover have "y mod 100 = 0 \<longrightarrow> y mod 4 = 0"
    by (auto simp: mod_eq_0_iff_dvd intro: dvd_trans[of 4 100])
  moreover have "day_from_year (y + 1) = day_from_year y + (365 + (if y mod 4 = 0 then 1 else 0)
      - (if y mod 100 = 0 then 1 else 0) + (if y mod 400 = 0 then 1 else 0))"
    unfolding day_from_year_def leap_divs by (simp add: algebra_simps)
  ultimately show ?thesis
    by (simp only: leap_count year_days_def leap_year_def)
qed

lemma day_from_year_bounds:
  "400 * day_from_year y \<le> 146097 * (y - 1970) + 589"
  "146097 * (y - 1970) - 506 \<le> 400 * day_from_year y"
  using div_bounds[of 4 "y - 1969"] div_bounds[of 100 "y - 1901"] div_bounds[of 400 "y - 1601"]
  by (simp_all add: day_from_year_def)

lemma year_from_days_bounds:
  "day_from_year (year_from_days z) \<le> z" "z < day_from_year (year_from_days z + 1)"
proof -
  define e where "e = (400 * z) div 146097"
  have e: "146097 * e \<le> 400 * z" "400 * z < 146097 * e + 146097"
    unfolding e_def by (rule div_bounds; simp)+
  have lo: "day_from_year (e + 1969) \<le> z"
    using day_from_year_bounds(1)[of "e + 1969"] e by (simp add: algebra_simps)
  have hi: "z < day_from_year (e + 1972)"
    using day_from_year_bounds(2)[of "e + 1972"] e by (simp add: algebra_simps)
  show "day_from_year (year_from_days z) \<le> z" "z < day_from_year (year_from_days z + 1)"
    using lo hi unfolding year_from_days_def Let_def e_def[symmetric]
    by (auto simp: algebra_simps)
qed

lemma day_from_year_mono: "x \<le> y \<Longrightarrow> day_from_year x \<le> day_from_year y"
proof (induction y rule: int_ge_induct)
  case base
  then show ?case by simp
next
  case (step y)
  then show ?case using day_from_year_Suc[of y] by (simp add: year_days_def split: if_splits)
qed

lemma day_from_year_strict_mono: "x < y \<Longrightarrow> day_from_year (x + 1) \<le> day_from_year y"
  by (rule day_from_year_mono) simp

text \<open>The year of a day is the only one whose days contain it.\<close>

lemma year_from_days_unique:
  assumes "day_from_year y \<le> z" "z < day_from_year (y + 1)"
  shows "year_from_days z = y"
  using assms year_from_days_bounds[of z] day_from_year_strict_mono
  by (metis linorder_less_linear not_less order_less_le_trans order_le_less_trans)

lemma year_from_days_mono: "z \<le> z' \<Longrightarrow> year_from_days z \<le> year_from_days z'"
  using year_from_days_bounds[of z] year_from_days_bounds[of z'] day_from_year_strict_mono
  by (smt (verit))

lemma day_of_year_bounds:
  "0 \<le> z - day_from_year (year_from_days z)"
  "z - day_from_year (year_from_days z) < year_days (year_from_days z)"
  using year_from_days_bounds[of z] day_from_year_Suc[of "year_from_days z"] by linarith+

lemma month_from_day_range: "1 \<le> month_from_day l d" "month_from_day l d \<le> 12"
  unfolding month_from_day_def Let_def by simp_all

lemma month_start_simps [simp]:
  "month_start l 1 = 0" "month_start l 2 = 31" "month_start l 3 = 59 + (if l then 1 else 0)"
  "month_start l 4 = 90 + (if l then 1 else 0)" "month_start l 5 = 120 + (if l then 1 else 0)"
  "month_start l 6 = 151 + (if l then 1 else 0)" "month_start l 7 = 181 + (if l then 1 else 0)"
  "month_start l 8 = 212 + (if l then 1 else 0)" "month_start l 9 = 243 + (if l then 1 else 0)"
  "month_start l 10 = 273 + (if l then 1 else 0)" "month_start l 11 = 304 + (if l then 1 else 0)"
  "month_start l 12 = 334 + (if l then 1 else 0)"
  by (simp_all add: month_start_def)

lemma month_day_range:
  assumes "0 \<le> d" "d < (if l then 366 else 365)"
  shows "month_start l (month_from_day l d) \<le> d" "d < month_start l (month_from_day l d) + 31"
  using assms by (cases l; simp add: month_from_day_def Let_def if_distrib[of "month_start _"])+

text \<open>Later days of a year have a month that is not earlier.\<close>

lemma month_from_day_mono: "d \<le> d' \<Longrightarrow> month_from_day l d \<le> month_from_day l d'"
  unfolding month_from_day_def Let_def by simp

lemma days_from_ymd_from_days: "(case ymd_from_days z of (y, m, d) \<Rightarrow> days_from_ymd y m d) = z"
  by (simp add: ymd_from_days_def days_from_ymd_def Let_def)

lemma ymd_from_days_range:
  assumes "ymd_from_days z = (y, m, d)"
  shows "1 \<le> m" "m \<le> 12" "1 \<le> d" "d \<le> 31"
proof -
  have y: "y = year_from_days z" and m: "m = month_from_day (leap_year y) (z - day_from_year y)"
    and d: "d = z - day_from_year y - month_start (leap_year y) m + 1"
    using assms by (auto simp: ymd_from_days_def Let_def)
  show "1 \<le> m" "m \<le> 12" using m month_from_day_range by auto
  have "0 \<le> z - day_from_year y" "z - day_from_year y < (if leap_year y then 366 else 365)"
    using day_of_year_bounds[of z] y by (simp_all add: year_days_def)
  from month_day_range[OF this] show "1 \<le> d" "d \<le> 31" using m d by auto
qed

section \<open>Parsing and printing\<close>

fun template_match :: "string \<Rightarrow> string \<Rightarrow> bool" where
  "template_match [] [] = True"
| "template_match (t # ts) (c # cs) =
     ((if t = CHR ''d'' then is_digit c else c = t) \<and> template_match ts cs)"
| "template_match _ _ = False"

text \<open>\<open>/^\d{4}-\d{2}-\d{2}T\d{2}:\d{2}:\d{2}\.\d{3}Z$/\<close>\<close>

definition utc_pattern :: "string \<Rightarrow> bool" where
  "utc_pattern s = template_match ''dddd-dd-ddTdd:dd:dd.dddZ'' s"

definition field :: "nat \<Rightarrow> nat \<Rightarrow> string \<Rightarrow> int" where
  "field i n s = int (dec_value (take n (drop i s)))"

definition make_time :: "int \<Rightarrow> int \<Rightarrow> int \<Rightarrow> int \<Rightarrow> int \<Rightarrow> int \<Rightarrow> int \<Rightarrow> int" where
  "make_time y mo d h mi s ms =
     days_from_ymd y mo d * 86400000 + h * 3600000 + mi * 60000 + s * 1000 + ms"

definition time_fields_ok :: "int \<Rightarrow> int \<Rightarrow> int \<Rightarrow> int \<Rightarrow> int \<Rightarrow> int \<Rightarrow> bool" where
  "time_fields_ok mo d h mi s ms =
     (1 \<le> mo \<and> mo \<le> 12 \<and> 1 \<le> d \<and> d \<le> 31 \<and>
      (h \<le> 23 \<and> mi \<le> 59 \<and> s \<le> 59 \<or> h = 24 \<and> mi = 0 \<and> s = 0 \<and> ms = 0))"

text \<open>
  \<open>Date.parse\<close> of a text that matches the timestamp patterns, with or without the
  milliseconds; \<open>None\<close> is NaN.
\<close>

definition date_parse :: "string \<Rightarrow> int option" where
  "date_parse s =
     (let y = field 0 4 s; mo = field 5 2 s; d = field 8 2 s;
          h = field 11 2 s; mi = field 14 2 s; sec = field 17 2 s;
          ms = (if length s = 24 then field 20 3 s else 0)
      in if (utc_pattern s \<or> template_match ''dddd-dd-ddTdd:dd:ddZ'' s)
            \<and> time_fields_ok mo d h mi sec ms
         then Some (make_time y mo d h mi sec ms) else None)"

definition show_year :: "int \<Rightarrow> string" where
  "show_year y = (if 0 \<le> y \<and> y \<le> 9999 then digits 4 (nat y)
     else (if y < 0 then ''-'' else ''+'') @ digits 6 (nat \<bar>y\<bar>))"

text \<open>\<open>new Date(t).toISOString()\<close>, for a time in the range of \<open>Date\<close>.\<close>

definition to_iso :: "int \<Rightarrow> string" where
  "to_iso t =
     (let r = t mod 86400000 in
      case ymd_from_days (t div 86400000) of (y, m, d) \<Rightarrow>
        show_year y @ ''-'' @ digits 2 (nat m) @ ''-'' @ digits 2 (nat d) @ ''T'' @
        digits 2 (nat (r div 3600000)) @ '':'' @ digits 2 (nat (r div 60000 mod 60)) @ '':'' @
        digits 2 (nat (r div 1000 mod 60)) @ ''.'' @ digits 3 (nat (r mod 1000)) @ ''Z'')"

text \<open>The times whose year prints with four digits.\<close>

definition four_digit_time :: "int \<Rightarrow> bool" where
  "four_digit_time t = (-62167219200000 \<le> t \<and> t < 253402300800000)"

lemma four_digit_time_year:
  assumes "four_digit_time t"
  shows "0 \<le> year_from_days (t div 86400000)" "year_from_days (t div 86400000) \<le> 9999"
proof -
  have z: "-719528 \<le> t div 86400000" "t div 86400000 < 2932897"
    using assms unfolding four_digit_time_def by linarith+
  have "year_from_days (-719528) = 0" "year_from_days 2932896 = 9999"
    by (simp_all add: year_from_days_def day_from_year_def)
  then show "0 \<le> year_from_days (t div 86400000)" "year_from_days (t div 86400000) \<le> 9999"
    using year_from_days_mono[OF z(1)] year_from_days_mono[of "t div 86400000" 2932896] z(2) by auto
qed

lemma template_match_append:
  "length t = length s \<Longrightarrow> template_match (t @ t') (s @ s') \<longleftrightarrow> template_match t s \<and> template_match t' s'"
  by (induction t s rule: list_induct2) auto

lemma template_match_digits: "template_match (replicate k (CHR ''d'')) (digits k n)"
proof -
  have "list_all is_digit s \<Longrightarrow> template_match (replicate (length s) (CHR ''d'')) s" for s
    by (induction s) auto
  from this[OF digits_are_digits[of k n]] show ?thesis by simp
qed

text \<open>The printed form of a four-digit time, with its fields as natural numbers.\<close>

definition iso_text :: "nat \<Rightarrow> nat \<Rightarrow> nat \<Rightarrow> nat \<Rightarrow> nat \<Rightarrow> nat \<Rightarrow> nat \<Rightarrow> string" where
  "iso_text y m d h i s u = digits 4 y @ ''-'' @ digits 2 m @ ''-'' @ digits 2 d @ ''T'' @ digits 2 h @ '':'' @
     digits 2 i @ '':'' @ digits 2 s @ ''.'' @ digits 3 u @ ''Z''"

definition day_ms :: "nat \<Rightarrow> nat \<Rightarrow> nat \<Rightarrow> nat \<Rightarrow> nat" where
  "day_ms h i s u = ((h * 60 + i) * 60 + s) * 1000 + u"

lemma day_ms_split:
  assumes "0 \<le> r" "r < 86400000"
  obtains h i s u where "r = int (day_ms h i s u)" "h < 24" "i < 60" "s < 60" "u < 1000"
    "nat (r div 3600000) = h" "nat (r div 60000 mod 60) = i" "nat (r div 1000 mod 60) = s"
    "nat (r mod 1000) = u"
proof
  let ?n = "nat r"
  have n: "?n < 86400000" "r = int ?n" using assms by simp_all
  have "?n div 60000 = ?n div 1000 div 60" "?n div 3600000 = ?n div 1000 div 60 div 60"
    by (simp_all add: div_mult2_eq[symmetric])
  then have "?n = day_ms (?n div 3600000) (?n div 60000 mod 60) (?n div 1000 mod 60) (?n mod 1000)"
    unfolding day_ms_def by simp
  with n(2) show "r = int (day_ms (?n div 3600000) (?n div 60000 mod 60) (?n div 1000 mod 60) (?n mod 1000))"
    by simp
  show "?n div 3600000 < 24" using n(1) by (simp add: less_mult_imp_div_less)
  show "?n div 60000 mod 60 < 60" "?n div 1000 mod 60 < 60" "?n mod 1000 < 1000" by simp_all
  show "nat (r div 3600000) = ?n div 3600000" "nat (r div 60000 mod 60) = ?n div 60000 mod 60"
    "nat (r div 1000 mod 60) = ?n div 1000 mod 60" "nat (r mod 1000) = ?n mod 1000"
    using assms(1) by (simp_all add: nat_div_distrib nat_mod_distrib pos_imp_zdiv_nonneg_iff)
qed

lemma to_iso_parts:
  assumes t: "four_digit_time t"
  obtains y m d h i s u where
    "to_iso t = iso_text y m d h i s u"
    "ymd_from_days (t div 86400000) = (int y, int m, int d)"
    "t mod 86400000 = int (day_ms h i s u)"
    "y < 10 ^ 4" "1 \<le> m" "m \<le> 12" "1 \<le> d" "d \<le> 31" "h < 24" "i < 60" "s < 60" "u < 1000"
proof -
  obtain y m d where ymd: "ymd_from_days (t div 86400000) = (y, m, d)" by (metis prod_cases3)
  have y: "0 \<le> y" "y \<le> 9999"
    using four_digit_time_year[OF t] ymd by (auto simp: ymd_from_days_def Let_def)
  note md = ymd_from_days_range[OF ymd]
  have rr: "0 \<le> t mod 86400000" "t mod 86400000 < 86400000" by simp_all
  obtain h i s u where r: "t mod 86400000 = int (day_ms h i s u)" "h < 24" "i < 60" "s < 60" "u < 1000"
    "nat (t mod 86400000 div 3600000) = h" "nat (t mod 86400000 div 60000 mod 60) = i"
    "nat (t mod 86400000 div 1000 mod 60) = s" "nat (t mod 86400000 mod 1000) = u"
    by (rule day_ms_split[OF rr])
  have "to_iso t = iso_text (nat y) (nat m) (nat d) h i s u"
    using y unfolding to_iso_def Let_def ymd r(6-9) iso_text_def by (simp add: show_year_def)
  moreover have "ymd_from_days (t div 86400000) = (int (nat y), int (nat m), int (nat d))"
    using ymd y md by simp
  moreover have "nat y < 10 ^ 4" "1 \<le> nat m" "nat m \<le> 12" "1 \<le> nat d" "nat d \<le> 31"
    using y md by simp_all
  ultimately show ?thesis using that[OF _ _ r(1)] r(2-5) by blast
qed

lemma utc_template:
  "''dddd-dd-ddTdd:dd:dd.dddZ'' = replicate 4 (CHR ''d'') @ ''-'' @ replicate 2 (CHR ''d'') @ ''-'' @
     replicate 2 (CHR ''d'') @ ''T'' @ replicate 2 (CHR ''d'') @ '':'' @ replicate 2 (CHR ''d'') @ '':'' @
     replicate 2 (CHR ''d'') @ ''.'' @ replicate 3 (CHR ''d'') @ ''Z''"
  by (simp add: numeral_eq_Suc)

lemma utc_pattern_iso_text: "utc_pattern (iso_text y m d h i s u)"
  unfolding utc_pattern_def utc_template iso_text_def
  by (simp add: template_match_append template_match_digits del: digits.simps)

lemma length_iso_text [simp]: "length (iso_text y m d h i s u) = 24"
  by (simp add: iso_text_def)

lemma utc_pattern_to_iso: "four_digit_time t \<Longrightarrow> utc_pattern (to_iso t)"
  by (erule to_iso_parts) (simp add: utc_pattern_iso_text)

lemma length_to_iso: "four_digit_time t \<Longrightarrow> length (to_iso t) = 24"
  by (erule to_iso_parts) simp

lemma iso_fields:
  "field 0 4 (iso_text y m d h i s u) = int (dec_value (digits 4 y))"
  "field 5 2 (iso_text y m d h i s u) = int (dec_value (digits 2 m))"
  "field 8 2 (iso_text y m d h i s u) = int (dec_value (digits 2 d))"
  "field 11 2 (iso_text y m d h i s u) = int (dec_value (digits 2 h))"
  "field 14 2 (iso_text y m d h i s u) = int (dec_value (digits 2 i))"
  "field 17 2 (iso_text y m d h i s u) = int (dec_value (digits 2 s))"
  "field 20 3 (iso_text y m d h i s u) = int (dec_value (digits 3 u))"
  unfolding iso_text_def field_def by (simp_all del: digits.simps)

lemma date_parse_iso_text:
  assumes "y < 10 ^ 4" "1 \<le> m" "m \<le> 12" "1 \<le> d" "d \<le> 31" "h < 24" "i < 60" "s < 60" "u < 1000"
  shows "date_parse (iso_text y m d h i s u) =
    Some (days_from_ymd (int y) (int m) (int d) * 86400000 + int (day_ms h i s u))"
  using assms
  by (simp add: date_parse_def iso_fields dec_value_digits utc_pattern_iso_text time_fields_ok_def
      make_time_def day_ms_def algebra_simps)

lemma date_parse_to_iso:
  assumes t: "four_digit_time t"
  shows "date_parse (to_iso t) = Some t"
proof -
  obtain y m d h i s u where p: "to_iso t = iso_text y m d h i s u"
    "ymd_from_days (t div 86400000) = (int y, int m, int d)" "t mod 86400000 = int (day_ms h i s u)"
    and "y < 10 ^ 4" "1 \<le> m" "m \<le> 12" "1 \<le> d" "d \<le> 31" "h < 24" "i < 60" "s < 60" "u < 1000"
    using to_iso_parts[OF t] by blast
  then have "date_parse (to_iso t) =
      Some (days_from_ymd (int y) (int m) (int d) * 86400000 + t mod 86400000)"
    by (simp add: date_parse_iso_text)
  also have "days_from_ymd (int y) (int m) (int d) = t div 86400000"
    using days_from_ymd_from_days[of "t div 86400000"] p(2) by simp
  finally show ?thesis by simp
qed

section \<open>The order of timestamps\<close>

lemma lex_sum:
  fixes a b x y n :: nat
  assumes "a < n" "b < n"
  shows "x * n + a < y * n + b \<longleftrightarrow> x < y \<or> (x = y \<and> a < b)"
proof -
  have m: "x * n + a < y * n + b" if "x < y" "a < n" for x y a b :: nat
  proof -
    from that(1) have "(x + 1) * n \<le> y * n" by (intro mult_le_mono1) simp
    with that(2) show ?thesis by simp
  qed
  show ?thesis using m[of x y a b] m[of y x b a] assms by (cases x y rule: linorder_cases) auto
qed

lemma sum_eq:
  fixes a b x y n :: nat
  assumes "a < n" "b < n"
  shows "x * n + a = y * n + b \<longleftrightarrow> x = y \<and> a = b"
  using lex_sum[OF assms, of x y] lex_sum[OF assms(2,1), of y x] by linarith

lemma day_ms_less:
  assumes "i < 60" "s < 60" "u < 1000" "i' < 60" "s' < 60" "u' < 1000"
  shows "day_ms h i s u < day_ms h' i' s' u' \<longleftrightarrow>
    h < h' \<or> (h = h' \<and> (i < i' \<or> (i = i' \<and> (s < s' \<or> (s = s' \<and> u < u')))))"
  unfolding day_ms_def lex_sum[OF assms(3,6)] lex_sum[OF assms(2,5)] lex_sum[OF assms(1,4)]
    sum_eq[OF assms(2,5)] sum_eq[OF assms(1,4)] by blast

lemma iso_text_less:
  assumes "y < 10 ^ 4" "y' < 10 ^ 4" "m < 10 ^ 2" "m' < 10 ^ 2" "d < 10 ^ 2" "d' < 10 ^ 2"
    "h < 10 ^ 2" "h' < 10 ^ 2" "i < 10 ^ 2" "i' < 10 ^ 2" "s < 10 ^ 2" "s' < 10 ^ 2" "u < 10 ^ 3" "u' < 10 ^ 3"
  shows "iso_text y m d h i s u < iso_text y' m' d' h' i' s' u' \<longleftrightarrow>
    y < y' \<or> (y = y' \<and> (m < m' \<or> (m = m' \<and> (d < d' \<or> (d = d' \<and>
      (h < h' \<or> (h = h' \<and> (i < i' \<or> (i = i' \<and> (s < s' \<or> (s = s' \<and> u < u')))))))))))"
proof -
  note lt = digits_less_iff[OF assms(1,2)] digits_less_iff[OF assms(3,4)] digits_less_iff[OF assms(5,6)]
    digits_less_iff[OF assms(7,8)] digits_less_iff[OF assms(9,10)] digits_less_iff[OF assms(11,12)]
    digits_less_iff[OF assms(13,14)]
  note eq = digits_eq_iff[OF assms(1,2)] digits_eq_iff[OF assms(3,4)] digits_eq_iff[OF assms(5,6)]
    digits_eq_iff[OF assms(7,8)] digits_eq_iff[OF assms(9,10)] digits_eq_iff[OF assms(11,12)]
    digits_eq_iff[OF assms(13,14)]
  show ?thesis
    unfolding iso_text_def
    by (simp add: append_less_iff_same_length lt eq del: digits.simps)
qed

lemma int_lex_div:
  fixes a b n :: int
  assumes "0 < n"
  shows "a < b \<longleftrightarrow> a div n < b div n \<or> (a div n = b div n \<and> a mod n < b mod n)"
proof -
  have e: "n * (a div n) + a mod n = a" "n * (b div n) + b mod n = b" by (simp_all add: mult_div_mod_eq)
  have m: "a div n < b div n \<Longrightarrow> a < b"
    using assms by (metis linorder_not_less zdiv_mono1)
  have m': "b div n < a div n \<Longrightarrow> b < a"
    using assms by (metis linorder_not_less zdiv_mono1)
  show ?thesis using m m' e by (metis add_less_cancel_left less_asym linorder_neqE)
qed

lemma ymd_less:
  assumes "ymd_from_days z = (y, m, d)" "ymd_from_days z' = (y', m', d')"
  shows "z < z' \<longleftrightarrow> y < y' \<or> (y = y' \<and> (m < m' \<or> (m = m' \<and> d < d')))"
proof -
  have lex: "y1 < y2 \<or> (y1 = y2 \<and> (m1 < m2 \<or> (m1 = m2 \<and> d1 < d2)))"
    if "z1 < z2" "ymd_from_days z1 = (y1, m1, d1)" "ymd_from_days z2 = (y2, m2, d2)"
    for z1 z2 y1 m1 d1 y2 m2 d2
    using that year_from_days_mono[of z1 z2]
      month_from_day_mono[of "z1 - day_from_year y1" "z2 - day_from_year y1" "leap_year y1"]
    by (auto simp: ymd_from_days_def Let_def)
  have eq: "z = z'" if "(y, m, d) = (y', m', d')"
    using that assms days_from_ymd_from_days[of z] days_from_ymd_from_days[of z'] by simp
  show ?thesis
  proof (cases z z' rule: linorder_cases)
    case less
    then show ?thesis using lex[OF less assms] by blast
  next
    case equal
    then show ?thesis using assms by simp
  next
    case greater
    then show ?thesis using lex[OF greater assms(2,1)] by auto
  qed
qed

lemma to_iso_less_iff:
  assumes t: "four_digit_time t" and t': "four_digit_time t'"
  shows "to_iso t < to_iso t' \<longleftrightarrow> t < t'"
proof -
  obtain y m d h i s u where p: "to_iso t = iso_text y m d h i s u"
    "ymd_from_days (t div 86400000) = (int y, int m, int d)" "t mod 86400000 = int (day_ms h i s u)"
    and b: "y < 10 ^ 4" "1 \<le> m" "m \<le> 12" "1 \<le> d" "d \<le> 31" "h < 24" "i < 60" "s < 60" "u < 1000"
    using to_iso_parts[OF t] by blast
  obtain y' m' d' h' i' s' u' where p': "to_iso t' = iso_text y' m' d' h' i' s' u'"
    "ymd_from_days (t' div 86400000) = (int y', int m', int d')" "t' mod 86400000 = int (day_ms h' i' s' u')"
    and b': "y' < 10 ^ 4" "1 \<le> m'" "m' \<le> 12" "1 \<le> d'" "d' \<le> 31" "h' < 24" "i' < 60" "s' < 60" "u' < 1000"
    using to_iso_parts[OF t'] by blast
  have "to_iso t < to_iso t' \<longleftrightarrow> (y < y' \<or> (y = y' \<and> (m < m' \<or> (m = m' \<and> d < d')))) \<or>
      (y = y' \<and> m = m' \<and> d = d') \<and> day_ms h i s u < day_ms h' i' s' u'"
    unfolding p p' using b b' by (subst iso_text_less) (auto simp: day_ms_less)
  also have "\<dots> \<longleftrightarrow> t div 86400000 < t' div 86400000 \<or>
      t div 86400000 = t' div 86400000 \<and> t mod 86400000 < t' mod 86400000"
  proof -
    have "t div 86400000 = t' div 86400000 \<longleftrightarrow> y = y' \<and> m = m' \<and> d = d'"
      using p(2) p'(2) days_from_ymd_from_days[of "t div 86400000"]
        days_from_ymd_from_days[of "t' div 86400000"] by auto
    then show ?thesis using ymd_less[OF p(2) p'(2)] p(3) p'(3) by simp
  qed
  also have "\<dots> \<longleftrightarrow> t < t'" by (rule int_lex_div[symmetric]) simp
  finally show ?thesis .
qed

lemma to_iso_le_iff:
  assumes "four_digit_time t" "four_digit_time t'"
  shows "to_iso t \<le> to_iso t' \<longleftrightarrow> t \<le> t'"
  using to_iso_less_iff[OF assms(2,1)] by (meson not_less)

end
