(* ===== verification/Json_Canon.thy ===== *)
theory Json_Canon
  imports Js_Time "HOL-Library.Multiset"
begin

text \<open>
  The JSON values the repositories hash, measure and store: \<open>ordered\<close> and
  \<open>canonicalJson\<close> of the two repositories, the nesting depth of both policy modules, the
  UTF-8 length and the credential-key scan of the Recovery policy. Numbers are integers (the
  values the source hashes are) and object keys are not array indices, which JavaScript would
  enumerate first.
\<close>

datatype json = JNull | JBool bool | JNum int | JStr string | JArr "json list"
  | JObj "(string \<times> json) list"

section \<open>Canonical text\<close>

text \<open>
  \<open>ordered\<close>: every object with its entries sorted by key. The queue repository compares
  keys by code units, the Recovery code by \<open>localeCompare\<close>; the collation key that
  comparison uses is the argument \<open>col\<close>.
\<close>

primrec ordered_with :: "(string \<Rightarrow> string) \<Rightarrow> json \<Rightarrow> json" where
  "ordered_with col JNull = JNull"
| "ordered_with col (JBool b) = JBool b"
| "ordered_with col (JNum n) = JNum n"
| "ordered_with col (JStr s) = JStr s"
| "ordered_with col (JArr xs) = JArr (map (ordered_with col) xs)"
| "ordered_with col (JObj kvs) = JObj (sort_key (col \<circ> fst) (map (map_prod id (ordered_with col)) kvs))"

definition ordered :: "json \<Rightarrow> json" where
  "ordered v = ordered_with (\<lambda>k. k) v"

definition quote_char :: "char \<Rightarrow> string" where
  "quote_char c = (let n = code c in
     if n = 34 then [char_of (92::nat), char_of (34::nat)]
     else if n = 92 then [char_of (92::nat), char_of (92::nat)]
     else if n = 8 then [char_of (92::nat), CHR ''b'']
     else if n = 9 then [char_of (92::nat), CHR ''t'']
     else if n = 10 then [char_of (92::nat), CHR ''n'']
     else if n = 12 then [char_of (92::nat), CHR ''f'']
     else if n = 13 then [char_of (92::nat), CHR ''r'']
     else if n < 32 then char_of (92::nat) # ''u00'' @ [digit_char (n div 16), digit_char (n mod 16)]
     else [c])"

definition json_quote :: "string \<Rightarrow> string" where
  "json_quote s = char_of (34::nat) # concat (map quote_char s) @ [char_of (34::nat)]"

fun commas :: "string list \<Rightarrow> string" where
  "commas [] = []"
| "commas [s] = s"
| "commas (s # t # ss) = s @ '','' @ commas (t # ss)"

text \<open>\<open>JSON.stringify\<close>.\<close>

primrec stringify :: "json \<Rightarrow> string" where
  "stringify JNull = ''null''"
| "stringify (JBool b) = (if b then ''true'' else ''false'')"
| "stringify (JNum n) = show_int n"
| "stringify (JStr s) = json_quote s"
| "stringify (JArr xs) = ''['' @ commas (map stringify xs) @ '']''"
| "stringify (JObj kvs) =
     ''{'' @ commas (map (\<lambda>(k, v). json_quote k @ '':'' @ v) (map (map_prod id stringify) kvs)) @ ''}''"

definition canonical_json :: "json \<Rightarrow> string" where
  "canonical_json v = stringify (ordered v)"

section \<open>Depth and key scan\<close>

text \<open>\<open>metadataDepth\<close> of the queue policy and \<open>valueDepth\<close> of the Recovery policy.\<close>

primrec value_depth :: "json \<Rightarrow> nat \<Rightarrow> nat" where
  "value_depth JNull = (\<lambda>d. d)"
| "value_depth (JBool b) = (\<lambda>d. d)"
| "value_depth (JNum n) = (\<lambda>d. d)"
| "value_depth (JStr s) = (\<lambda>d. d)"
| "value_depth (JArr xs) = (\<lambda>d. foldl max d (map (\<lambda>f. f (d + 1)) (map value_depth xs)))"
| "value_depth (JObj kvs) =
     (\<lambda>d. foldl max d (map (\<lambda>f. f (d + 1)) (map snd (map (map_prod id value_depth) kvs))))"

text \<open>\<open>SECRET_KEY_PATTERN\<close>, matched anywhere in a key and without regard to case.\<close>

definition secret_words :: "string list" where
  "secret_words = [''token'', ''secret'', ''password'', ''cookie'', ''authorization'', ''credential'',
     ''apikey'', ''api-key'', ''api_key'']"

definition secret_key :: "string \<Rightarrow> bool" where
  "secret_key k = list_ex (includes_str (to_lower k)) secret_words"

text \<open>The visitor of \<open>validateCheckpointPayload\<close>: does any object have a credential-like key?\<close>

primrec has_secret_key :: "json \<Rightarrow> bool" where
  "has_secret_key JNull = False"
| "has_secret_key (JBool b) = False"
| "has_secret_key (JNum n) = False"
| "has_secret_key (JStr s) = False"
| "has_secret_key (JArr xs) = list_ex id (map has_secret_key xs)"
| "has_secret_key (JObj kvs) =
     list_ex (\<lambda>(k, b). secret_key k \<or> b) (map (map_prod id has_secret_key) kvs)"

section \<open>Laws\<close>

lemma map_prod_id_map_fst: "map fst (map (map_prod id f) kvs) = map fst kvs"
  by (induction kvs) auto

lemma sort_key_map_snd:
  fixes col :: "'a \<Rightarrow> 'k::linorder"
  shows "sort_key (col \<circ> fst) (map (map_prod id f) kvs) = map (map_prod id f) (sort_key (col \<circ> fst) kvs)"
proof -
  have ins: "insort_key (col \<circ> fst) (map_prod id f x) (map (map_prod id f) ys) =
      map (map_prod id f) (insort_key (col \<circ> fst) x ys)" for x ys
    by (induction ys) (auto simp: map_prod_def split: prod.splits)
  show ?thesis
  proof (induction kvs)
    case Nil
    then show ?case by simp
  next
    case (Cons x xs)
    then show ?case by (simp only: list.map sort_key_simps ins)
  qed
qed

lemma sort_key_sorted_id:
  "sort_key k (sort_key k xs) = sort_key k xs"
  by (rule sort_key_id_if_sorted) simp

lemma ordered_with_idem: "ordered_with col (ordered_with col v) = ordered_with col v"
proof (induction v)
  case (JArr xs)
  then show ?case by simp
next
  case (JObj kvs)
  let ?M = "map (map_prod id (ordered_with col)) kvs"
  have again: "map (map_prod id (ordered_with col)) ?M = ?M"
    using JObj by (auto simp: snds.simps)
  have "sort_key (col \<circ> fst) (map (map_prod id (ordered_with col)) (sort_key (col \<circ> fst) ?M)) =
      map (map_prod id (ordered_with col)) (sort_key (col \<circ> fst) (sort_key (col \<circ> fst) ?M))"
    by (rule sort_key_map_snd)
  also have "\<dots> = map (map_prod id (ordered_with col)) (sort_key (col \<circ> fst) ?M)"
    by (simp only: sort_key_sorted_id)
  also have "\<dots> = sort_key (col \<circ> fst) ?M"
    by (simp only: sort_key_map_snd[symmetric] again)
  finally show ?case by simp
qed simp_all

text \<open>
  Two objects with the same entries in another order have the same canonical text: the request
  hash does not depend on how the caller built the request.
\<close>

lemma ordered_with_perm:
  assumes perm: "mset kvs = mset kvs'" and dist: "distinct (map fst kvs)"
    and inj: "inj_on col (fst ` set kvs)"
  shows "ordered_with col (JObj kvs) = ordered_with col (JObj kvs')"
proof -
  let ?M = "map (map_prod id (ordered_with col)) kvs" and ?M' = "map (map_prod id (ordered_with col)) kvs'"
  have m: "mset ?M = mset ?M'" using perm by simp
  have d: "distinct (map (col \<circ> fst) ?M)"
  proof -
    have "map (col \<circ> fst) ?M = map col (map fst kvs)" by simp
    then show ?thesis using dist inj by (simp only: distinct_map set_map)
  qed
  have "sort_key (col \<circ> fst) ?M = sort_key (col \<circ> fst) ?M'"
  proof (rule map_sorted_distinct_set_unique[where f = "col \<circ> fst"])
    show "inj_on (col \<circ> fst) (set (sort_key (col \<circ> fst) ?M) \<union> set (sort_key (col \<circ> fst) ?M'))"
      using d by (simp only: set_sort mset_eq_setD[OF m] Un_absorb distinct_map)
    show "distinct (map (col \<circ> fst) (sort_key (col \<circ> fst) ?M))"
      using d by (metis mset_map mset_sort mset_eq_imp_distinct_iff)
    show "distinct (map (col \<circ> fst) (sort_key (col \<circ> fst) ?M'))"
      using d m by (metis mset_map mset_sort mset_eq_imp_distinct_iff)
    show "set (sort_key (col \<circ> fst) ?M) = set (sort_key (col \<circ> fst) ?M')"
      using mset_eq_setD[OF m] by (simp only: set_sort)
  qed simp_all
  then show ?thesis by simp
qed

lemma canonical_json_perm:
  assumes "mset kvs = mset kvs'" "distinct (map fst kvs)"
  shows "canonical_json (JObj kvs) = canonical_json (JObj kvs')"
  using ordered_with_perm[OF assms, of "\<lambda>k. k"] by (simp add: canonical_json_def ordered_def inj_on_def)

end
