(* ===== verification/Core_Types.thy ===== *)
theory Core_Types
  imports Json_Canon
begin

text \<open>
  The data model of packages/archive-core/src/index.ts that the Page Job queue and the recovery
  layer share: states, error codes, and one record per interface, with the source's field names
  behind a short prefix. Optional and nullable fields are \<open>option\<close>; numbers the code
  validates at run time are \<open>jsnum\<close>, numbers it has validated or read from an INTEGER
  column are \<open>int\<close>.
\<close>

section \<open>Page Jobs\<close>

datatype page_job_state = JobPending | JobProcessing | JobCompleted | JobFailed | JobRetrying
  | JobSkipped | JobBlocked | JobInterrupted | JobPaused

datatype discovery_type = Seed | DomLink | Canonical | Redirect | Sitemap | HistoryApi
  | NavigationAction | JsonDiscovery | Manual

datatype failure_category = FcValidation | FcConfiguration | FcApplication | FcDomain | FcPlatform
  | FcInternal

datatype queue_error_code =
    QUEUE_JOB_NOT_FOUND | QUEUE_JOB_ALREADY_EXISTS | QUEUE_JOB_NOT_ELIGIBLE | QUEUE_JOB_STATE_CONFLICT
  | QUEUE_INVALID_TRANSITION | QUEUE_CLAIM_CONFLICT | QUEUE_CLAIM_TOKEN_INVALID
  | QUEUE_JOB_ALREADY_COMPLETED | QUEUE_COMPLETION_CONFLICT | QUEUE_FAILURE_CONFLICT
  | QUEUE_RETRY_NOT_ALLOWED | QUEUE_MAX_ATTEMPTS_REACHED | QUEUE_BATCH_LIMIT_EXCEEDED
  | QUEUE_OPERATION_IDEMPOTENCY_CONFLICT | QUEUE_PROFILE_REVISION_MISMATCH
  | QUEUE_ENGINE_VERSION_MISMATCH | QUEUE_RUN_NOT_FOUND | QUEUE_PROJECT_NOT_OPEN
  | QUEUE_PERSISTENCE_FAILURE | QUEUE_TRANSACTION_FAILED | QUEUE_INPUT_INVALID | QUEUE_RESULT_TOO_LARGE
  | QUEUE_PAGINATION_LIMIT_EXCEEDED | QUEUE_CLEAR_NOT_ALLOWED

datatype recovery_error_code =
    LEASE_NOT_FOUND | LEASE_EXPIRED | LEASE_OWNER_MISMATCH | LEASE_TOKEN_INVALID
  | FENCING_GENERATION_STALE | LEASE_RENEWAL_INVALID | RUN_NOT_ACTIVE | RUN_PAUSE_CONFLICT
  | RECOVERY_ALREADY_RUNNING | RECOVERY_OPERATION_NOT_FOUND | RECOVERY_CONFIRMATION_REQUIRED
  | CHECKPOINT_NOT_FOUND | CHECKPOINT_INVALID | CHECKPOINT_TOO_LARGE | CHECKPOINT_OWNERSHIP_INVALID
  | ARTIFACT_CHECKPOINT_INVALID | OUTPUT_DESCRIPTOR_INVALID | OUTPUT_VERIFICATION_FAILED
  | RECOVERY_INPUT_INVALID | RECOVERY_TRANSACTION_FAILED

text \<open>
  What a repository routine can throw: the two operation errors with their code, a constraint
  failure raised by SQLite, or any other \<open>Error\<close>.
\<close>

datatype op_error = QueueError queue_error_code | RecoveryError recovery_error_code
  | SqliteError | PlainError

datatype priority_source = PolicyPriority | ExplicitPriority

text \<open>\<open>QueueResultSummary\<close>: the queue-test and the render variant.\<close>

datatype result_summary =
    QueueTest (qt_statusCode: "jsnum option") (qt_contentStored: bool)
      (qt_metadata: "(string \<times> json) list option")
  | RenderSummary (rs_statusCode: "jsnum option") (rs_contentStored: bool) (rs_renderResultId: string)
      (rs_htmlSha256: string) (rs_relativePath: string)

record page_job =
  pj_jobId :: string
  pj_projectId :: string
  pj_runId :: string
  pj_projectRevisionId :: string
  pj_profileId :: string
  pj_profileRevisionId :: string
  pj_normalizationEngineVersion :: int
  pj_normalizedUrl :: string
  pj_identityUrl :: string
  pj_safeDisplayUrl :: string
  pj_identityHash :: string
  pj_scopeDecisionId :: string
  pj_scopeReasonCode :: string
  pj_state :: page_job_state
  pj_priority :: int
  pj_prioritySource :: priority_source
  pj_queueSequence :: int
  pj_depth :: int
  pj_discoveryType :: discovery_type
  pj_attemptCount :: int
  pj_fencingGeneration :: int
  pj_maxAttempts :: int
  pj_nextEligibleAt :: string
  pj_claimToken :: "string option"
  pj_claimedBy :: "string option"
  pj_claimedAt :: "string option"
  pj_lastAttemptAt :: "string option"
  pj_completedAt :: "string option"
  pj_failedAt :: "string option"
  pj_completionKey :: "string option"
  pj_resultVersion :: "int option"
  pj_resultSummary :: "result_summary option"
  pj_lastErrorCode :: "string option"
  pj_lastErrorCategory :: "failure_category option"
  pj_lastErrorMessage :: "string option"
  pj_createdAt :: string
  pj_updatedAt :: string
  pj_queuedAt :: string

section \<open>Queue operations\<close>

record scope_snapshot =
  sd_decisionId :: string
  sd_engineVersion :: int
  sd_profileId :: string
  sd_profileRevisionId :: string
  sd_eligible :: bool
  sd_shouldQueue :: bool
  sd_reasonCodes :: "string list"
  sd_normalizedUrl :: "string option"
  sd_identityUrl :: "string option"
  sd_identityHash :: "string option"
  sd_displayUrl :: "string option"
  sd_depth :: jsnum
  sd_matchedRuleIds :: "string list"

record page_job_discovery =
  pd_discoveryId :: string
  pd_parentJobId :: "string option"
  pd_childJobId :: string
  pd_safeSourceUrl :: "string option"
  pd_discoveryType :: discovery_type
  pd_sourceDepth :: "int option"
  pd_resultDepth :: int
  pd_scopeDecisionId :: string
  pd_discoveredAt :: string

datatype attempt_outcome = AttProcessing | AttCompleted | AttFailed | AttRetrying | AttSkipped
  | AttBlocked | AttInterrupted | AttPaused

record page_job_attempt =
  pa_attemptId :: string
  pa_jobId :: string
  pa_attemptNumber :: int
  pa_claimToken :: string
  pa_startedAt :: string
  pa_finishedAt :: "string option"
  pa_outcome :: attempt_outcome
  pa_errorCode :: "string option"
  pa_errorCategory :: "failure_category option"
  pa_safeErrorMessage :: "string option"

record page_job_transition =
  pt_transitionId :: string
  pt_jobId :: string
  pt_fromState :: "page_job_state option"
  pt_toState :: page_job_state
  pt_reasonCode :: string
  pt_operationId :: string
  pt_correlationId :: string
  pt_occurredAt :: string

record queue_history =
  qh_job :: page_job
  qh_transitions :: "page_job_transition list"
  qh_attempts :: "page_job_attempt list"
  qh_discoveries :: "page_job_discovery list"

record queue_statistics =
  qs_total :: nat
  qs_pending :: nat
  qs_processing :: nat
  qs_completed :: nat
  qs_failed :: nat
  qs_retrying :: nat
  qs_skipped :: nat
  qs_blocked :: nat
  qs_interrupted :: nat
  qs_paused :: nat
  qs_dueRetries :: nat
  qs_exhaustedRetries :: nat
  qs_maximumDepth :: "int option"
  qs_averageDepth :: "rat option"
  qs_oldestPendingAt :: "string option"
  qs_newestJobAt :: "string option"
  qs_duplicateDiscoveries :: nat

text \<open>A property that may be absent (or \<open>undefined\<close>), \<open>null\<close>, or have a value.\<close>

datatype 'a field = Absent | Null | Given 'a

fun or_null :: "'a field \<Rightarrow> 'a option" where
  "or_null (Given a) = Some a"
| "or_null f = None"

text \<open>\<open>QueueEnqueueInput\<close>, with the fields of its source context in place of the nested object.\<close>

record enqueue_input =
  qi_projectId :: string
  qi_runId :: string
  qi_projectRevisionId :: string
  qi_scopeDecision :: scope_snapshot
  qi_parentJobId :: "string field"
  qi_safeSourceUrl :: "string field"
  qi_discoveryType :: discovery_type
  qi_sourceDepth :: "jsnum field"
  qi_requestedPriority :: "jsnum option"
  qi_maxAttempts :: jsnum
  qi_maxPages :: "jsnum option"
  qi_idempotencyKey :: string
  qi_operationId :: string
  qi_correlationId :: string

datatype enqueue_result =
    Created page_job page_job_discovery
  | Existing page_job page_job_discovery
  | Rejected "string list"
  | Blocked "string list"

datatype batch_item = BatchResult enqueue_result | BatchInvalid queue_error_code
  | BatchFailed queue_error_code

record batch_counts =
  bc_created :: nat
  bc_existing :: nat
  bc_rejected :: nat
  bc_blocked :: nat
  bc_invalid :: nat
  bc_failed :: nat

section \<open>Leases, checkpoints and run control\<close>

datatype run_control_state = CtlActive | CtlPauseRequested | CtlPaused | CtlResuming | CtlRecovering
  | CtlStopped | CtlCompleted | CtlFailed

datatype lease_status = LeaseActive | LeaseReleased | LeaseExpired | LeaseRecovered

record job_lease =
  jl_leaseId :: string
  jl_jobId :: string
  jl_projectId :: string
  jl_runId :: string
  jl_ownerId :: string
  jl_fencingGeneration :: int
  jl_status :: lease_status
  jl_acquiredAt :: string
  jl_heartbeatAt :: string
  jl_expiresAt :: string
  jl_releasedAt :: "string option"
  jl_releaseReason :: "string option"

record lease_claim =
  lc_job :: page_job
  lc_lease :: job_lease
  lc_leaseToken :: string

record job_checkpoint =
  jc_checkpointId :: string
  jc_jobId :: string
  jc_attemptNumber :: int
  jc_sequence :: int
  jc_checkpointVersion :: int
  jc_fencingGeneration :: int
  jc_ownerId :: string
  jc_phase :: string
  jc_progress :: rat
  jc_relativePath :: "string option"
  jc_payload :: json
  jc_committed :: bool
  jc_supersedesCheckpointId :: "string option"
  jc_createdAt :: string

datatype artifact_kind = ArtDocument | ArtAsset | ArtMetadata | ArtPartialFile

record artifact_checkpoint =
  ac_artifactCheckpointId :: string
  ac_jobId :: string
  ac_artifactKey :: string
  ac_artifactKind :: artifact_kind
  ac_relativePath :: string
  ac_bytesWritten :: jsnum
  ac_expectedBytes :: "jsnum option"
  ac_sha256 :: "string option"
  ac_validator :: "string option"
  ac_resumeOffset :: jsnum
  ac_fencingGeneration :: int
  ac_committed :: bool
  ac_createdAt :: string

datatype verification_status = VerPending | VerValid | VerMissing | VerSizeMismatch | VerHashMismatch

record output_descriptor =
  od_descriptorId :: string
  od_jobId :: string
  od_relativePath :: string
  od_byteLength :: jsnum
  od_sha256 :: string
  od_verificationPolicy :: string
  od_verifiedAt :: "string option"
  od_verificationStatus :: verification_status

datatype recovery_action = ActRequeue | ActPause | ActReportOutput | ActNone

record inspection_item =
  ri_jobId :: string
  ri_queueSequence :: int
  ri_currentState :: page_job_state
  ri_reasonCode :: string
  ri_action :: recovery_action
  ri_leaseId :: "string option"
  ri_fencingGeneration :: int

datatype recovery_status = RecInspected | RecInProgress | RecCompleted | RecFailed

record recovery_report =
  rr_recoveryOperationId :: string
  rr_projectId :: string
  rr_runId :: string
  rr_status :: recovery_status
  rr_dryRun :: bool
  rr_evaluationTime :: string
  rr_scanned :: int
  rr_interrupted :: int
  rr_requeued :: int
  rr_paused :: int
  rr_outputIssues :: int
  rr_cursor :: int
  rr_hasMore :: bool
  rr_items :: "inspection_item list"
  rr_startedAt :: string
  rr_completedAt :: "string option"

text \<open>The spelling of the states in the database and in JSON text.\<close>

fun state_text :: "page_job_state \<Rightarrow> string" where
  "state_text JobPending = ''pending''"
| "state_text JobProcessing = ''processing''"
| "state_text JobCompleted = ''completed''"
| "state_text JobFailed = ''failed''"
| "state_text JobRetrying = ''retrying''"
| "state_text JobSkipped = ''skipped''"
| "state_text JobBlocked = ''blocked''"
| "state_text JobInterrupted = ''interrupted''"
| "state_text JobPaused = ''paused''"

definition page_job_states :: "page_job_state list" where
  "page_job_states = [JobPending, JobProcessing, JobCompleted, JobFailed, JobRetrying, JobSkipped,
     JobBlocked, JobInterrupted, JobPaused]"

fun discovery_text :: "discovery_type \<Rightarrow> string" where
  "discovery_text Seed = ''seed''"
| "discovery_text DomLink = ''dom-link''"
| "discovery_text Canonical = ''canonical''"
| "discovery_text Redirect = ''redirect''"
| "discovery_text Sitemap = ''sitemap''"
| "discovery_text HistoryApi = ''history-api''"
| "discovery_text NavigationAction = ''navigation-action''"
| "discovery_text JsonDiscovery = ''json-discovery''"
| "discovery_text Manual = ''manual''"

fun category_text :: "failure_category \<Rightarrow> string" where
  "category_text FcValidation = ''validation''"
| "category_text FcConfiguration = ''configuration''"
| "category_text FcApplication = ''application''"
| "category_text FcDomain = ''domain''"
| "category_text FcPlatform = ''platform''"
| "category_text FcInternal = ''internal''"

lemma state_text_inj: "state_text s = state_text t \<Longrightarrow> s = t"
  by (cases s; cases t) simp_all

lemma page_job_states_all: "s \<in> set page_job_states"
  by (cases s) (simp_all add: page_job_states_def)

lemma page_job_states_distinct: "distinct page_job_states"
  by (simp add: page_job_states_def)

end
