(* ===== verification/Queue_Policy.thy ===== *)
theory Queue_Policy
  imports Core_Types "HOL-Library.Word"
begin

unbundle bit_operations_syntax

text \<open>
  packages/queue/src/index.ts: the Page Job state machine, its argument checks, the priority and
  retry policy, the claim order, result-metadata bounds, message sanitising and the keys of batch
  items. Messages of errors are not modelled, only their codes.
\<close>

section \<open>Constants\<close>

definition queue_batch_limit :: nat where [policy_defs]: "queue_batch_limit = 250"
definition queue_list_limit :: int where [policy_defs]: "queue_list_limit = 200"
definition retry_release_limit :: int where [policy_defs]: "retry_release_limit = 200"
definition priority_minimum :: int where [policy_defs]: "priority_minimum = 0"
definition priority_maximum :: int where [policy_defs]: "priority_maximum = 1000"
definition maximum_attempts :: int where [policy_defs]: "maximum_attempts = 100"
definition idempotency_key_length :: nat where [policy_defs]: "idempotency_key_length = 128"
definition safe_message_length :: nat where [policy_defs]: "safe_message_length = 400"
definition result_metadata_bytes :: nat where [policy_defs]: "result_metadata_bytes = 4096"
definition result_metadata_depth :: nat where [policy_defs]: "result_metadata_depth = 4"

definition priority_seed :: int where [policy_defs]: "priority_seed = 1000"
definition priority_high :: int where [policy_defs]: "priority_high = 750"
definition priority_normal :: int where [policy_defs]: "priority_normal = 500"

section \<open>State machine\<close>

text \<open>\<open>VALID_JOB_TRANSITIONS\<close>\<close>

fun job_targets :: "page_job_state \<Rightarrow> page_job_state list" where
  "job_targets JobPending = [JobProcessing, JobSkipped, JobBlocked]"
| "job_targets JobProcessing = [JobCompleted, JobFailed, JobRetrying, JobSkipped, JobBlocked,
     JobInterrupted, JobPaused]"
| "job_targets JobRetrying = [JobPending, JobFailed]"
| "job_targets JobInterrupted = [JobPending, JobFailed, JobBlocked]"
| "job_targets JobPaused = [JobPending]"
| "job_targets JobCompleted = []"
| "job_targets JobFailed = []"
| "job_targets JobSkipped = []"
| "job_targets JobBlocked = []"

definition is_page_job_state :: "string \<Rightarrow> bool" where
  "is_page_job_state v = (v \<in> set (map state_text page_job_states))"

definition is_terminal_state :: "page_job_state \<Rightarrow> bool" where
  "is_terminal_state s = (s \<in> {JobCompleted, JobFailed, JobSkipped, JobBlocked})"

definition can_transition :: "page_job_state \<Rightarrow> page_job_state \<Rightarrow> bool" where
  "can_transition s t = (t \<in> set (job_targets s))"

definition assert_transition :: "page_job_state \<Rightarrow> page_job_state \<Rightarrow> op_error + unit" where
  "assert_transition s t = ensure (can_transition s t) (QueueError QUEUE_INVALID_TRANSITION)"

interpretation jobs: transition_table job_targets is_terminal_state
proof unfold_locales
  fix s show "is_terminal_state s \<Longrightarrow> job_targets s = []" by (cases s) (auto simp: is_terminal_state_def)
  show "\<not> is_terminal_state s \<Longrightarrow> job_targets s \<noteq> []" by (cases s) (auto simp: is_terminal_state_def)
  show "s \<notin> set (job_targets s)" by (cases s) auto
qed

section \<open>Argument checks\<close>

definition assert_utc_timestamp :: "string \<Rightarrow> op_error + unit" where
  "assert_utc_timestamp v = ensure (utc_pattern v \<and> date_parse v \<noteq> None) (QueueError QUEUE_INPUT_INVALID)"

definition assert_idempotency_key :: "string \<Rightarrow> op_error + unit" where
  "assert_idempotency_key v =
     ensure (1 \<le> length v \<and> ident_pattern idempotency_key_length v) (QueueError QUEUE_INPUT_INVALID)"

text \<open>A numeric check that returns normally leaves the integer it has established.\<close>

definition assert_priority :: "jsnum \<Rightarrow> op_error + int" where
  "assert_priority p = (case bounded_int priority_minimum priority_maximum p of
     None \<Rightarrow> Inl (QueueError QUEUE_INPUT_INVALID) | Some i \<Rightarrow> Inr i)"

definition assert_attempt_policy :: "jsnum \<Rightarrow> jsnum \<Rightarrow> op_error + int \<times> int" where
  "assert_attempt_policy attempts maxa =
     (case int_value attempts of
        None \<Rightarrow> Inl (QueueError QUEUE_INPUT_INVALID)
      | Some a \<Rightarrow> if a < 0 then Inl (QueueError QUEUE_INPUT_INVALID) else
     (case bounded_int 1 maximum_attempts maxa of
        None \<Rightarrow> Inl (QueueError QUEUE_INPUT_INVALID)
      | Some m \<Rightarrow> if m < a then Inl (QueueError QUEUE_MAX_ATTEMPTS_REACHED) else Inr (a, m)))"

section \<open>Policies\<close>

definition calculate_priority :: "discovery_type \<Rightarrow> jsnum option \<Rightarrow> op_error + int \<times> priority_source" where
  "calculate_priority d requested = (case requested of
     Some p \<Rightarrow> ebind (assert_priority p) (\<lambda>i. Inr (i, ExplicitPriority))
   | None \<Rightarrow>
       if d = Seed then Inr (priority_seed, PolicyPriority)
       else if d = Manual then Inr (priority_high, PolicyPriority)
       else if d = Sitemap then Inr (600, PolicyPriority)
       else if d = Canonical \<or> d = Redirect then Inr (625, PolicyPriority)
       else Inr (priority_normal, PolicyPriority))"

definition should_retry :: "jsnum \<Rightarrow> jsnum \<Rightarrow> bool \<Rightarrow> op_error + bool" where
  "should_retry attempts maxa retryable =
     ebind (assert_attempt_policy attempts maxa) (\<lambda>(a, m). Inr (retryable \<and> a < m))"

definition minimum_depth :: "jsnum \<Rightarrow> jsnum \<Rightarrow> op_error + int" where
  "minimum_depth cur disc = (case (int_value cur, int_value disc) of
     (Some c, Some d) \<Rightarrow> if c < 0 \<or> d < 0 then Inl (QueueError QUEUE_INPUT_INVALID) else Inr (min c d)
   | _ \<Rightarrow> Inl (QueueError QUEUE_INPUT_INVALID))"

text \<open>The comparator of the claim order, and the key it compares.\<close>

definition text_compare :: "string \<Rightarrow> string \<Rightarrow> int" where
  "text_compare a b = (if a < b then - 1 else if b < a then 1 else 0)"

definition compare_queue_order :: "page_job \<Rightarrow> page_job \<Rightarrow> int" where
  "compare_queue_order l r =
     (if pj_priority l \<noteq> pj_priority r then pj_priority r - pj_priority l
      else if text_compare (pj_nextEligibleAt l) (pj_nextEligibleAt r) \<noteq> 0
        then text_compare (pj_nextEligibleAt l) (pj_nextEligibleAt r)
      else if pj_depth l \<noteq> pj_depth r then pj_depth l - pj_depth r
      else if pj_queueSequence l \<noteq> pj_queueSequence r then pj_queueSequence l - pj_queueSequence r
      else text_compare (pj_jobId l) (pj_jobId r))"

type_synonym queue_key = "int \<times> string \<times> int \<times> int \<times> string"

definition job_order_key :: "page_job \<Rightarrow> queue_key" where
  "job_order_key j = (- pj_priority j, pj_nextEligibleAt j, pj_depth j, pj_queueSequence j, pj_jobId j)"

section \<open>Result metadata\<close>

definition json_num :: "jsnum \<Rightarrow> json" where
  "json_num n = (case int_value n of Some i \<Rightarrow> JNum i | None \<Rightarrow> JNull)"

definition json_opt :: "('a \<Rightarrow> json) \<Rightarrow> 'a option \<Rightarrow> json" where
  "json_opt f x = (case x of None \<Rightarrow> JNull | Some a \<Rightarrow> f a)"

definition summary_json :: "result_summary \<Rightarrow> json" where
  "summary_json s = (case s of
     QueueTest st stored meta \<Rightarrow> JObj ([(''resultType'', JStr ''queue-test''), (''statusCode'', json_opt json_num st),
       (''contentStored'', JBool stored)] @ (case meta of None \<Rightarrow> [] | Some m \<Rightarrow> [(''metadata'', JObj m)]))
   | RenderSummary st stored rid sha path \<Rightarrow> JObj [(''resultType'', JStr ''render''), (''statusCode'', json_opt json_num st),
       (''contentStored'', JBool stored), (''renderResultId'', JStr rid), (''htmlSha256'', JStr sha),
       (''relativePath'', JStr path)])"

definition is_queue_test :: "result_summary \<Rightarrow> bool" where
  "is_queue_test s = (case s of QueueTest _ stored _ \<Rightarrow> \<not> stored | RenderSummary _ _ _ _ _ \<Rightarrow> False)"

definition summary_status :: "result_summary \<Rightarrow> jsnum option" where
  "summary_status s = (case s of QueueTest st _ _ \<Rightarrow> st | RenderSummary st _ _ _ _ \<Rightarrow> st)"

definition validate_result_summary :: "result_summary \<Rightarrow> op_error + result_summary" where
  "validate_result_summary s =
     ebind (ensure (is_queue_test s) (QueueError QUEUE_INPUT_INVALID)) (\<lambda>_.
     ebind (ensure (case summary_status s of None \<Rightarrow> True | Some n \<Rightarrow> bounded_int 100 599 n \<noteq> None)
              (QueueError QUEUE_INPUT_INVALID)) (\<lambda>_.
     ebind (ensure (utf8_bytes (stringify (summary_json s)) \<le> result_metadata_bytes)
              (QueueError QUEUE_RESULT_TOO_LARGE)) (\<lambda>_.
     ebind (ensure (value_depth (summary_json s) 0 \<le> result_metadata_depth)
              (QueueError QUEUE_RESULT_TOO_LARGE)) (\<lambda>_. Inr s))))"

section \<open>Safe messages\<close>

text \<open>
  The three replacements of \<open>sanitizeSafeMessage\<close>, each a left-to-right scan:
  \<open>/https?:\/\/[^\s]+/gi\<close>, \<open>/(token|...)\s*[:=]\s*[^\s,;]+/gi\<close> and the control characters.
\<close>

definition url_match :: "string \<Rightarrow> nat option" where
  "url_match s =
     (let l = to_lower s;
          k = (if starts_with l ''https://'' then 8 else if starts_with l ''http://'' then 7 else 0);
          body = takeWhile (\<lambda>c. \<not> is_space c) (drop k s)
      in if k = 0 \<or> body = [] then None else Some (k + length body))"

definition message_words :: "string list" where
  "message_words = [''token'', ''password'', ''secret'', ''cookie'', ''authorization'']"

definition word_match :: "string \<Rightarrow> (nat \<times> nat) option" where
  "word_match s =
     (case List.find (\<lambda>w. starts_with (to_lower s) w) message_words of
        None \<Rightarrow> None
      | Some w \<Rightarrow>
          (let rest = drop (length w) s;
               sp = length (takeWhile is_space rest);
               rest1 = drop sp rest
           in case rest1 of
                [] \<Rightarrow> None
              | c # cs \<Rightarrow> if c \<noteq> CHR '':'' \<and> c \<noteq> CHR ''='' then None else
                  (let sp' = length (takeWhile is_space cs);
                       body = takeWhile (\<lambda>d. \<not> is_space d \<and> d \<noteq> CHR '','' \<and> d \<noteq> CHR '';'') (drop sp' cs)
                   in if body = [] then None
                      else Some (length w, length w + sp + 1 + sp' + length body))))"

fun redact_urls :: "nat \<Rightarrow> string \<Rightarrow> string" where
  "redact_urls 0 s = s"
| "redact_urls (Suc n) [] = []"
| "redact_urls (Suc n) (c # cs) = (case url_match (c # cs) of
     None \<Rightarrow> c # redact_urls n cs
   | Some k \<Rightarrow> ''[redacted-url]'' @ redact_urls n (drop k (c # cs)))"

fun redact_words :: "nat \<Rightarrow> string \<Rightarrow> string" where
  "redact_words 0 s = s"
| "redact_words (Suc n) [] = []"
| "redact_words (Suc n) (c # cs) = (case word_match (c # cs) of
     None \<Rightarrow> c # redact_words n cs
   | Some (w, k) \<Rightarrow> take w (c # cs) @ ''=[redacted]'' @ redact_words n (drop k (c # cs)))"

definition blank_controls :: "string \<Rightarrow> string" where
  "blank_controls s = map (\<lambda>c. if is_control c then CHR '' '' else c) s"

definition sanitize_safe_message :: "string \<Rightarrow> string" where
  "sanitize_safe_message v =
     (let u = redact_urls (length v) v;
          w = redact_words (length u) u;
          s = js_trim (blank_controls w)
      in if s = [] then ''Queue operation failed safely.'' else take safe_message_length s)"

section \<open>Duplicates, safe views and batch keys\<close>

datatype duplicate_class = DupCreated | DupExisting

definition classify_duplicate :: "page_job option \<Rightarrow> duplicate_class" where
  "classify_duplicate existing = (if existing = None then DupCreated else DupExisting)"

record safe_job =
  sj_jobId :: string
  sj_projectId :: string
  sj_runId :: string
  sj_profileRevisionId :: string
  sj_engineVersion :: int
  sj_identityHash :: string
  sj_state :: page_job_state
  sj_priority :: int
  sj_queueSequence :: int
  sj_depth :: int
  sj_attemptCount :: int
  sj_maxAttempts :: int

definition serialize_safe_job :: "page_job \<Rightarrow> safe_job" where
  "serialize_safe_job j = \<lparr>sj_jobId = pj_jobId j, sj_projectId = pj_projectId j, sj_runId = pj_runId j,
     sj_profileRevisionId = pj_profileRevisionId j, sj_engineVersion = pj_normalizationEngineVersion j,
     sj_identityHash = pj_identityHash j, sj_state = pj_state j, sj_priority = pj_priority j,
     sj_queueSequence = pj_queueSequence j, sj_depth = pj_depth j, sj_attemptCount = pj_attemptCount j,
     sj_maxAttempts = pj_maxAttempts j\<rparr>"

text \<open>The 32-bit FNV-1a checksum: \<open>Math.imul\<close> and \<open>>>> 0\<close> are multiplication on \<open>32 word\<close>.\<close>

definition fnv_step :: "32 word \<Rightarrow> char \<Rightarrow> 32 word" where
  "fnv_step h c = (h XOR of_nat (code c)) * 16777619"

definition fnv_checksum :: "string \<Rightarrow> 32 word" where
  "fnv_checksum s = foldl fnv_step 2166136261 s"

definition derive_batch_item_key :: "string \<Rightarrow> jsnum \<Rightarrow> op_error + string" where
  "derive_batch_item_key key index =
     ebind (assert_idempotency_key key) (\<lambda>_.
     case bounded_int 0 (int queue_batch_limit - 1) index of
       None \<Rightarrow> Inl (QueueError QUEUE_INPUT_INVALID)
     | Some i \<Rightarrow> Inr (take 80 key @ ''.item-'' @ show_int i @ ''.'' @
          pad_zero 8 (show_base 16 (unat (fnv_checksum key)))))"

section \<open>Lemmas: states and argument checks\<close>

lemma can_transition_eq: "can_transition = (\<lambda>s t. t \<in> set (job_targets s))"
  by (simp add: can_transition_def fun_eq_iff)

lemma assert_transition_ok [result_simps]: "assert_transition s t = Inr u \<longleftrightarrow> can_transition s t"
  by (simp add: assert_transition_def ensure_Inr_iff)

lemma job_path_terminal:
  "can_transition\<^sup>*\<^sup>* s t \<Longrightarrow> is_terminal_state s \<Longrightarrow> t = s"
  using jobs.terminal_absorbing unfolding can_transition_eq .

lemma job_path_not_terminal:
  "can_transition\<^sup>*\<^sup>* s t \<Longrightarrow> \<not> is_terminal_state t \<Longrightarrow> \<not> is_terminal_state s"
  using job_path_terminal by blast

lemma assert_idempotency_key_ok [result_simps]:
  "assert_idempotency_key k = Inr u \<longleftrightarrow> ident_pattern idempotency_key_length k"
  by (auto simp: assert_idempotency_key_def ensure_Inr_iff ident_pattern_def split: list.splits)

lemma assert_priority_ok [result_simps]:
  "assert_priority p = Inr i \<longleftrightarrow> p = js_int i \<and> 0 \<le> i \<and> i \<le> 1000"
  by (auto simp: assert_priority_def bounded_int_Some_iff priority_minimum_def priority_maximum_def
      split: option.splits)

lemma assert_attempt_policy_ok [result_simps]:
  "assert_attempt_policy a m = Inr (i, k) \<longleftrightarrow>
     a = js_int i \<and> m = js_int k \<and> 0 \<le> i \<and> i \<le> k \<and> 1 \<le> k \<and> k \<le> 100"
  by (auto simp: assert_attempt_policy_def int_value_Some_iff bounded_int_Some_iff maximum_attempts_def
      split: option.splits if_splits)

lemma should_retry_ok:
  "should_retry (js_int a) (js_int m) retryable = Inr b \<Longrightarrow> b \<longleftrightarrow> retryable \<and> a < m"
  by (auto simp: should_retry_def assert_attempt_policy_ok result_simps)

lemma calculate_priority_range:
  "calculate_priority d r = Inr (p, src) \<Longrightarrow> 0 \<le> p \<and> p \<le> 1000"
  by (auto simp: calculate_priority_def policy_defs result_simps assert_priority_ok
      split: option.splits if_splits)

lemma minimum_depth_ok:
  "minimum_depth (js_int a) (js_int b) = Inr d \<longleftrightarrow> 0 \<le> a \<and> 0 \<le> b \<and> d = min a b"
  by (auto simp: minimum_depth_def split: option.splits)

section \<open>Lemmas: claim order\<close>

lemma text_compare_sign:
  "text_compare a b < 0 \<longleftrightarrow> a < b" "text_compare a b = 0 \<longleftrightarrow> a = b"
  by (auto simp: text_compare_def)

lemma compare_queue_order_key:
  "compare_queue_order l r < 0 \<longleftrightarrow> job_order_key l < job_order_key r"
  "compare_queue_order l r = 0 \<longleftrightarrow> job_order_key l = job_order_key r"
  by (auto simp: compare_queue_order_def job_order_key_def text_compare_sign)

section \<open>Lemmas: safe messages\<close>

lemma set_js_trim: "set (js_trim s) \<subseteq> set s"
  by (auto simp: js_trim_def dest!: set_dropWhileD)

lemma blank_controls_clean: "c \<in> set (blank_controls s) \<Longrightarrow> \<not> is_control c"
  by (auto simp: blank_controls_def is_control_def code_def)

lemma url_match_pos: "url_match s = Some k \<Longrightarrow> 0 < k"
  by (auto simp: url_match_def Let_def split: if_splits)

lemma word_match_pos: "word_match s = Some (w, k) \<Longrightarrow> w < k \<and> 0 < k"
  by (auto simp: word_match_def Let_def split: option.splits list.splits if_splits)

text \<open>The scans consume a character per unit of fuel, so the length of the text is enough.\<close>

lemma redact_urls_fuel: "length s \<le> n \<Longrightarrow> redact_urls n s = redact_urls (length s) s"
proof (induction n arbitrary: s rule: less_induct)
  case (less n)
  show ?case
  proof (cases s)
    case Nil
    then show ?thesis by (cases n) auto
  next
    case (Cons c cs)
    then obtain m where n: "n = Suc m" using less.prems by (cases n) auto
    have step: "redact_urls m t = redact_urls (length cs) t" if "length t \<le> length cs" for t
      using that less.prems n Cons less.IH[of m t] less.IH[of "length cs" t]
      by (cases "m = length cs") auto
    show ?thesis
      using url_match_pos[of "c # cs"] by (auto simp: n Cons step split: option.splits)
  qed
qed

lemma redact_words_fuel: "length s \<le> n \<Longrightarrow> redact_words n s = redact_words (length s) s"
proof (induction n arbitrary: s rule: less_induct)
  case (less n)
  show ?case
  proof (cases s)
    case Nil
    then show ?thesis by (cases n) auto
  next
    case (Cons c cs)
    then obtain m where n: "n = Suc m" using less.prems by (cases n) auto
    have step: "redact_words m t = redact_words (length cs) t" if "length t \<le> length cs" for t
      using that less.prems n Cons less.IH[of m t] less.IH[of "length cs" t]
      by (cases "m = length cs") auto
    show ?thesis
      using word_match_pos[of "c # cs"] by (auto simp: n Cons step split: option.splits)
  qed
qed

section \<open>Lemmas: batch keys\<close>

lemma digit_char_alnum: "d < 16 \<Longrightarrow> is_alnum (digit_char d)"
  by (auto simp: digit_char_def is_alnum_def is_digit_def is_lower_def)

lemma show_base_chars: "2 \<le> b \<Longrightarrow> b \<le> 16 \<Longrightarrow> list_all is_alnum (show_base b n)"
proof (induction b n rule: show_base.induct)
  case (1 b n)
  then show ?case
    by (subst show_base.simps) (auto intro!: digit_char_alnum simp: order_less_le_trans[of "n mod b" b 16])
qed

lemma length_show_base: "2 \<le> b \<Longrightarrow> n < b ^ Suc k \<Longrightarrow> length (show_base b n) \<le> Suc k"
proof (induction k arbitrary: n)
  case 0
  then show ?case by (simp add: show_base.simps)
next
  case (Suc k)
  show ?case
  proof (cases "n < b")
    case True
    then show ?thesis by (simp add: show_base.simps)
  next
    case False
    have "n div b < b ^ Suc k"
      using Suc.prems by (simp add: less_mult_imp_div_less mult.commute)
    from Suc.IH[OF Suc.prems(1) this] False Suc.prems(1) show ?thesis
      by (subst show_base.simps) simp
  qed
qed

lemma dec_value_show_nat: "dec_value (show_nat n) = n"
proof -
  have "b = 10 \<Longrightarrow> dec_value (show_base b n) = n" for b
  proof (induction b n rule: show_base.induct)
    case (1 b n)
    then show ?case
      by (subst show_base.simps)
         (auto simp: dec_value_snoc digit_value_def, simp add: dec_value_def digit_value_def)
  qed
  then show ?thesis by (simp add: show_nat_def)
qed

lemma show_nat_inj: "show_nat m = show_nat n \<longleftrightarrow> m = n"
  by (metis dec_value_show_nat)

lemma derive_batch_item_key_ok:
  "derive_batch_item_key key index = Inr k \<longleftrightarrow> ident_pattern 128 key \<and>
     (\<exists>i. index = js_int (int i) \<and> i < 250 \<and>
        k = take 80 key @ ''.item-'' @ show_nat i @ ''.'' @ pad_zero 8 (show_base 16 (unat (fnv_checksum key))))"
  (is "?l \<longleftrightarrow> ?r")
proof
  assume ?l
  then obtain i where i: "index = js_int i" "0 \<le> i" "i \<le> 249"
    and rest: "ident_pattern 128 key"
      "k = take 80 key @ ''.item-'' @ show_int i @ ''.'' @ pad_zero 8 (show_base 16 (unat (fnv_checksum key)))"
    by (auto simp: derive_batch_item_key_def result_simps idempotency_key_length_def
        queue_batch_limit_def bounded_int_Some_iff split: option.splits)
  then show ?r by (intro conjI exI[of _ "nat i"]) (auto simp: show_int_def)
next
  assume ?r
  then show ?l
    by (auto simp: derive_batch_item_key_def result_simps idempotency_key_length_def
        queue_batch_limit_def show_int_def assert_idempotency_key_ok)
qed

lemma batch_key_valid:
  assumes "derive_batch_item_key key index = Inr k"
  shows "ident_pattern 128 k \<and> length k \<le> 98"
proof -
  obtain i where key: "ident_pattern 128 key" and i: "i < 250" and
    k: "k = take 80 key @ ''.item-'' @ show_nat i @ ''.'' @ pad_zero 8 (show_base 16 (unat (fnv_checksum key)))"
    using assms by (auto simp: derive_batch_item_key_ok)
  obtain c cs where kc: "key = c # cs" "is_alnum c" "list_all ident_char cs"
    using key by (auto simp: ident_pattern_def split: list.splits)
  have alnum: "is_alnum d \<Longrightarrow> ident_char d" for d by (simp add: ident_char_def)
  have hex: "list_all ident_char (pad_zero 8 (show_base 16 n))" for n
    using show_base_chars[of 16 n] by (auto simp: pad_zero_def list_all_iff alnum ident_char_def is_alnum_def is_digit_def code_def)
  have dec: "list_all ident_char (show_nat i)"
    using show_base_chars[of 10 i] by (auto simp: show_nat_def list_all_iff alnum)
  have item: "list_all ident_char ''.item-''" "ident_char (CHR ''.'')"
    by (simp_all add: ident_char_def is_alnum_def is_lower_def is_digit_def is_upper_def code_def)
  have "unat (fnv_checksum key) < 16 ^ Suc 7"
    using unsigned_less[of "fnv_checksum key", where ?'a = nat] by simp
  from length_show_base[OF _ this] have l8: "length (pad_zero 8 (show_base 16 (unat (fnv_checksum key)))) = 8"
    by (simp add: pad_zero_def)
  have l3: "length (show_nat i) \<le> 3"
    using length_show_base[of 10 i 2] i by (simp add: show_nat_def numeral_eq_Suc)
  have len: "length k \<le> 98"
    using l8 l3 by (simp add: k)
  moreover have "list_all ident_char (take 79 cs)"
    using kc(3) by (auto simp: list_all_iff dest: in_set_takeD)
  ultimately show ?thesis
    using kc(2) hex dec item by (simp add: ident_pattern_def k kc(1))
qed

lemma batch_key_inj:
  assumes "derive_batch_item_key key i = Inr k" "derive_batch_item_key key j = Inr k"
  shows "i = j"
  using assms by (auto simp: derive_batch_item_key_ok show_nat_inj)

end
