(* ===== verification/Path_Safety.thy ===== *)
theory Path_Safety
  imports Core_Types
begin

text \<open>
  packages/archive-core/src/path-safety.ts: validation of portable relative paths, their collision
  keys and collision-free path sets. A path is the list of its UTF-16 code units. Unicode
  normalisation and locale lower-casing come from ICU tables and are the arguments \<open>nfc\<close> and
  \<open>lower\<close>; their instances on Latin-1 text, where NFC is the identity, are given at the end.
\<close>

type_synonym units = "nat list"

section \<open>Code units\<close>

definition max_path_characters :: nat where [policy_defs]: "max_path_characters = 240"
definition max_path_bytes :: nat where [policy_defs]: "max_path_bytes = 1024"
definition max_segment_characters :: nat where [policy_defs]: "max_segment_characters = 120"
definition max_decode_passes :: nat where [policy_defs]: "max_decode_passes = 3"

datatype path_reason = PathEmpty | PathTooLong | PathNotNfc | PathAbsolute | PathDriveQualified
  | PathSeparatorConfusion | PathInvalidPercent | PathEncodedTraversal | PathEmptySegment
  | PathDotSegment | PathNonPortable | PathTrailingDotOrSpace | PathReservedDevice | PathSegmentTooLong

text \<open>\<open>new TextEncoder().encode(s).byteLength\<close>: a surrogate pair takes four bytes, a lone one three.\<close>

fun utf8_size :: "units \<Rightarrow> nat" where
  "utf8_size [] = 0"
| "utf8_size [u] = (if u < 128 then 1 else if u < 2048 then 2 else 3)"
| "utf8_size (u # v # us) =
     (if 55296 \<le> u \<and> u < 56320 \<and> 56320 \<le> v \<and> v < 57344 then 4 + utf8_size us
      else (if u < 128 then 1 else if u < 2048 then 2 else 3) + utf8_size (v # us))"

definition hex_unit :: "nat \<Rightarrow> nat option" where
  "hex_unit u = (if 48 \<le> u \<and> u \<le> 57 then Some (u - 48)
     else if 65 \<le> u \<and> u \<le> 70 then Some (u - 55)
     else if 97 \<le> u \<and> u \<le> 102 then Some (u - 87) else None)"

definition hex_pair :: "nat \<Rightarrow> nat \<Rightarrow> nat option" where
  "hex_pair a b = (case (hex_unit a, hex_unit b) of (Some x, Some y) \<Rightarrow> Some (16 * x + y) | _ \<Rightarrow> None)"

definition ascii_lower :: "nat \<Rightarrow> nat" where
  "ascii_lower u = (if 65 \<le> u \<and> u \<le> 90 then u + 32 else u)"

section \<open>decodeURIComponent\<close>

text \<open>A percent-encoded UTF-8 continuation byte at the head of the text: its six bits and the rest.\<close>

definition cont_byte :: "units \<Rightarrow> (nat \<times> units) option" where
  "cont_byte us = (case us of
     p # a # b # r \<Rightarrow> if p = 37 then (case hex_pair a b of
         Some x \<Rightarrow> if 128 \<le> x \<and> x < 192 then Some (x - 128, r) else None
       | None \<Rightarrow> None) else None
   | _ \<Rightarrow> None)"

definition utf16 :: "nat \<Rightarrow> units" where
  "utf16 p = (if p < 65536 then [p] else [55296 + (p - 65536) div 1024, 56320 + (p - 65536) mod 1024])"

text \<open>
  The multi-byte sequence whose lead byte is \<open>x\<close>: overlong forms, surrogates and values above
  U+10FFFF are malformed.
\<close>

definition decode_tail :: "nat \<Rightarrow> units \<Rightarrow> (nat \<times> units) option" where
  "decode_tail x r = (case cont_byte r of None \<Rightarrow> None | Some (y, r1) \<Rightarrow>
     if x < 194 then None
     else if x < 224 then Some (64 * (x - 192) + y, r1)
     else (case cont_byte r1 of None \<Rightarrow> None | Some (z, r2) \<Rightarrow>
       if x < 240 then
         (let p = 4096 * (x - 224) + 64 * y + z
          in if p < 2048 \<or> (55296 \<le> p \<and> p < 57344) then None else Some (p, r2))
       else (case cont_byte r2 of None \<Rightarrow> None | Some (w, r3) \<Rightarrow>
         (let p = 262144 * (x - 240) + 4096 * y + 64 * z + w
          in if p < 65536 \<or> 1114112 \<le> p then None else Some (p, r3)))))"

lemma cont_byte_shorter: "cont_byte us = Some (y, r) \<Longrightarrow> length r < length us"
  by (auto simp: cont_byte_def split: list.splits option.splits if_splits)

lemma decode_tail_shorter: "decode_tail x us = Some (p, r) \<Longrightarrow> length r < length us"
  by (auto simp: decode_tail_def Let_def split: option.splits prod.splits if_splits
      dest!: cont_byte_shorter)

function decode_uri :: "units \<Rightarrow> units option" where
  "decode_uri [] = Some []"
| "decode_uri (u # us) =
     (if u \<noteq> 37 then map_option ((#) u) (decode_uri us)
      else (case us of
        a # b # r \<Rightarrow> (case hex_pair a b of
            None \<Rightarrow> None
          | Some x \<Rightarrow>
              if x < 128 then map_option ((#) x) (decode_uri r)
              else (case decode_tail x r of
                  None \<Rightarrow> None
                | Some (p, r') \<Rightarrow> map_option ((@) (utf16 p)) (decode_uri r')))
      | _ \<Rightarrow> None))"
  by pat_completeness auto
termination
  by (relation "measure length") (auto dest: decode_tail_shorter)

section \<open>Validation\<close>

text \<open>\<open>/%(?![0-9a-f]{2})/i\<close>\<close>

fun bad_percent :: "units \<Rightarrow> bool" where
  "bad_percent [] = False"
| "bad_percent (u # us) =
     (u = 37 \<and> (case us of a # b # _ \<Rightarrow> hex_pair a b = None | _ \<Rightarrow> True) \<or> bad_percent us)"

definition drive_qualified :: "units \<Rightarrow> bool" where
  "drive_qualified s = (case s of u # v # _ \<Rightarrow> 97 \<le> ascii_lower u \<and> ascii_lower u \<le> 122 \<and> v = 58 | _ \<Rightarrow> False)"

text \<open>The loop over \<open>decodeURIComponent\<close>: a reason to reject, or \<open>None\<close>.\<close>

fun decode_passes :: "nat \<Rightarrow> units \<Rightarrow> path_reason option" where
  "decode_passes 0 decoded = None"
| "decode_passes (Suc n) decoded = (case decode_uri decoded of
     None \<Rightarrow> Some PathInvalidPercent
   | Some next \<Rightarrow>
       if next = decoded then None
       else if 92 \<in> set next \<or> 47 \<in> set next \<or> list_ex (\<lambda>w. w = [46] \<or> w = [46, 46]) (split_on 47 next)
         then Some PathEncodedTraversal
       else decode_passes n next)"

definition non_portable :: "nat \<Rightarrow> bool" where
  "non_portable u = (u < 32 \<or> u = 127 \<or> u \<in> {60, 62, 58, 34, 124, 63, 42})"

text \<open>The names \<open>con, prn, aux, nul, com1-com9, lpt1-lpt9\<close>, optionally with an extension.\<close>

definition device_names :: "units list" where
  "device_names = [[99,111,110], [112,114,110], [97,117,120], [110,117,108]] @
     map (\<lambda>d. [99,111,109,d]) [49..<58] @ map (\<lambda>d. [108,112,116,d]) [49..<58]"

definition line_terminator :: "nat \<Rightarrow> bool" where
  "line_terminator u = (u \<in> {10, 13, 8232, 8233})"

definition device_name :: "units \<Rightarrow> bool" where
  "device_name s = list_ex (\<lambda>d. take (length d) (map ascii_lower s) = d \<and>
     (case drop (length d) s of [] \<Rightarrow> True
      | u # us \<Rightarrow> u = 46 \<and> list_all (\<lambda>v. \<not> line_terminator v) us)) device_names"

definition segment_reason :: "units \<Rightarrow> path_reason option" where
  "segment_reason s =
     (if s = [] then Some PathEmptySegment
      else if s = [46] \<or> s = [46, 46] then Some PathDotSegment
      else if max_segment_characters < length s then Some PathSegmentTooLong
      else if list_ex non_portable s then Some PathNonPortable
      else if last s = 46 \<or> last s = 32 then Some PathTrailingDotOrSpace
      else if device_name s then Some PathReservedDevice
      else None)"

fun first_reason :: "('a \<Rightarrow> 'r option) \<Rightarrow> 'a list \<Rightarrow> 'r option" where
  "first_reason f [] = None"
| "first_reason f (x # xs) = (case f x of Some r \<Rightarrow> Some r | None \<Rightarrow> first_reason f xs)"

text \<open>\<open>validateCanonicalRelativePath\<close>: the rejection reason, or the normalized path and its collision key.\<close>

definition validate_path :: "(units \<Rightarrow> units) \<Rightarrow> (units \<Rightarrow> units) \<Rightarrow> units \<Rightarrow> path_reason + units \<times> units" where
  "validate_path nfc lower v =
     (if v = [] then Inl PathEmpty
      else if max_path_characters < length v \<or> max_path_bytes < utf8_size v then Inl PathTooLong
      else if v \<noteq> nfc v then Inl PathNotNfc
      else if hd v = 47 \<or> hd v = 92 then Inl PathAbsolute
      else if drive_qualified v then Inl PathDriveQualified
      else if 92 \<in> set v then Inl PathSeparatorConfusion
      else if bad_percent v then Inl PathInvalidPercent
      else (case decode_passes max_decode_passes v of
          Some r \<Rightarrow> Inl r
        | None \<Rightarrow> (case first_reason segment_reason (split_on 47 v) of
              Some r \<Rightarrow> Inl r
            | None \<Rightarrow> Inr (nfc v, lower (nfc v)))))"

definition canonical_relative_path :: "(units \<Rightarrow> units) \<Rightarrow> (units \<Rightarrow> units) \<Rightarrow> units \<Rightarrow> op_error + units" where
  "canonical_relative_path nfc lower v = (case validate_path nfc lower v of
     Inl _ \<Rightarrow> Inl PlainError | Inr (n, k) \<Rightarrow> Inr n)"

definition canonical_collision_key :: "(units \<Rightarrow> units) \<Rightarrow> (units \<Rightarrow> units) \<Rightarrow> units \<Rightarrow> op_error + units" where
  "canonical_collision_key nfc lower v = (case validate_path nfc lower v of
     Inl _ \<Rightarrow> Inl PlainError | Inr (n, k) \<Rightarrow> Inr k)"

fun canonical_path_set :: "(units \<Rightarrow> units) \<Rightarrow> (units \<Rightarrow> units) \<Rightarrow> units list \<Rightarrow> units list \<Rightarrow> op_error + units list" where
  "canonical_path_set nfc lower seen [] = Inr []"
| "canonical_path_set nfc lower seen (v # vs) =
     ebind (canonical_relative_path nfc lower v) (\<lambda>n.
     ebind (canonical_collision_key nfc lower n) (\<lambda>k.
     if k \<in> set seen then Inl PlainError
     else ebind (canonical_path_set nfc lower (k # seen) vs) (\<lambda>ns. Inr (n # ns))))"

definition assert_canonical_path_set :: "(units \<Rightarrow> units) \<Rightarrow> (units \<Rightarrow> units) \<Rightarrow> units list \<Rightarrow> op_error + units list" where
  "assert_canonical_path_set nfc lower vs = canonical_path_set nfc lower [] vs"

section \<open>What an accepted path looks like\<close>

definition portable_segment :: "units \<Rightarrow> bool" where
  "portable_segment s = (s \<noteq> [] \<and> s \<noteq> [46] \<and> s \<noteq> [46, 46] \<and> length s \<le> 120 \<and> \<not> list_ex non_portable s \<and>
     last s \<noteq> 46 \<and> last s \<noteq> 32 \<and> \<not> device_name s)"

text \<open>\<open>k\<close> passes of percent-decoding.\<close>

primrec decode_times :: "nat \<Rightarrow> units \<Rightarrow> units option" where
  "decode_times 0 v = Some v"
| "decode_times (Suc k) v = (case decode_uri v of None \<Rightarrow> None | Some w \<Rightarrow> decode_times k w)"

definition hides_no_path :: "units \<Rightarrow> bool" where
  "hides_no_path w = (47 \<notin> set w \<and> 92 \<notin> set w \<and> w \<noteq> [46] \<and> w \<noteq> [46, 46])"

lemma first_reason_None_iff: "first_reason f xs = None \<longleftrightarrow> (\<forall>x \<in> set xs. f x = None)"
  by (induction xs) (auto split: option.splits)

lemma segment_reason_None_iff: "segment_reason s = None \<longleftrightarrow> portable_segment s"
  by (auto simp: segment_reason_def portable_segment_def max_segment_characters_def)

lemma split_on_no_sep: "x \<notin> set cs \<Longrightarrow> split_on x cs = [cs]"
  by (induction cs) auto

lemma decode_times_fixed: "decode_uri v = Some v \<Longrightarrow> decode_times k v = Some v"
  by (induction k) auto

lemma decode_passes_None:
  "decode_passes n v = None \<Longrightarrow> k \<le> n \<Longrightarrow>
     \<exists>w. decode_times k v = Some w \<and> (w = v \<or> hides_no_path w)"
proof (induction n arbitrary: v k)
  case 0
  then show ?case by simp
next
  case (Suc n)
  show ?case
  proof (cases k)
    case 0
    then show ?thesis by simp
  next
    case (Suc j)
    obtain w where w: "decode_uri v = Some w"
      using Suc.prems(1) by (auto split: option.splits)
    show ?thesis
    proof (cases "w = v")
      case True
      then show ?thesis using w by (simp add: decode_times_fixed)
    next
      case False
      then have safe: "hides_no_path w" and rest: "decode_passes n w = None"
        using Suc.prems(1) w by (auto simp: hides_no_path_def split_on_no_sep split: if_splits)
      obtain x where "decode_times j w = Some x" "x = w \<or> hides_no_path x"
        using Suc.IH[OF rest, of j] Suc.prems(2) Suc by auto
      then show ?thesis using w Suc safe by auto
    qed
  qed
qed

lemma validate_path_sound:
  assumes "validate_path nfc lower v = Inr (n, k)"
  shows "n = v" and "nfc v = v" and "k = lower v" and "v \<noteq> []" and "length v \<le> 240" and "utf8_size v \<le> 1024"
    and "hd v \<noteq> 47" and "92 \<notin> set v" and "\<forall>s \<in> set (split_on 47 v). portable_segment s"
    and "\<And>j. j \<le> 3 \<Longrightarrow> \<exists>w. decode_times j v = Some w \<and> (w = v \<or> hides_no_path w)"
  using assms
  by (auto simp: validate_path_def policy_defs first_reason_None_iff segment_reason_None_iff
      dest: decode_passes_None split: if_splits option.splits)

lemma validate_path_complete:
  assumes "v \<noteq> []" "length v \<le> 240" "utf8_size v \<le> 1024" "nfc v = v" "hd v \<noteq> 47" "92 \<notin> set v"
    and "37 \<notin> set v" "\<forall>s \<in> set (split_on 47 v). portable_segment s"
  shows "validate_path nfc lower v = Inr (v, lower v)"
proof -
  have dec: "37 \<notin> set w \<Longrightarrow> decode_uri w = Some w" for w by (induction w) auto
  have bad: "37 \<notin> set w \<Longrightarrow> \<not> bad_percent w" for w by (induction w) auto
  have split: "set w \<subseteq> \<Union> (set ` set (split_on (47::nat) w)) \<union> {47}" for w
  proof (induction w)
    case Nil
    then show ?case by simp
  next
    case (Cons c w)
    obtain x xs where "split_on 47 w = x # xs" by (cases "split_on 47 w") auto
    with Cons show ?case by auto
  qed
  have "58 \<notin> set v"
  proof
    assume "58 \<in> set v"
    then obtain s where s: "s \<in> set (split_on 47 v)" "58 \<in> set s" using split[of v] by auto
    then have "list_ex non_portable s" by (auto simp: list_ex_iff non_portable_def intro!: bexI[of _ 58])
    with s(1) assms(8) show False by (auto simp: portable_segment_def)
  qed
  then have "\<not> drive_qualified v" by (auto simp: drive_qualified_def split: list.splits)
  moreover have "decode_passes max_decode_passes v = None"
    using dec[OF assms(7)] by (simp add: max_decode_passes_def numeral_eq_Suc)
  moreover have "hd v \<noteq> 92" using assms(1,6) by (cases v) auto
  moreover have "first_reason segment_reason (split_on 47 v) = None"
    using assms(8) by (simp add: first_reason_None_iff segment_reason_None_iff)
  ultimately show ?thesis
    using assms bad[OF assms(7)] by (simp add: validate_path_def max_path_characters_def max_path_bytes_def)
qed

lemma canonical_relative_path_ok [result_simps]:
  "canonical_relative_path nfc lower v = Inr n \<longleftrightarrow> n = v \<and> (\<exists>r. validate_path nfc lower v = Inr r)"
  by (auto simp: canonical_relative_path_def dest: validate_path_sound(1) split: sum.splits)

lemma canonical_collision_key_ok [result_simps]:
  "canonical_collision_key nfc lower v = Inr k \<longleftrightarrow> k = lower v \<and> (\<exists>r. validate_path nfc lower v = Inr r)"
  by (auto simp: canonical_collision_key_def dest: validate_path_sound(3) split: sum.splits)

lemma canonical_path_set_ok:
  "canonical_path_set nfc lower seen vs = Inr ns \<longleftrightarrow>
     ns = vs \<and> (\<forall>v \<in> set vs. \<exists>r. validate_path nfc lower v = Inr r) \<and>
     distinct (map lower vs) \<and> lower ` set vs \<inter> set seen = {}"
proof (induction vs arbitrary: seen ns)
  case Nil
  then show ?case by auto
next
  case (Cons v vs)
  show ?case by (auto simp: result_simps Cons.IH)
qed

section \<open>Latin-1 text\<close>

text \<open>
  Every string of characters below 256 is in NFC, and lower-casing it shifts the letters of ASCII
  and of the Latin-1 supplement by 32.
\<close>

definition latin1_nfc :: "units \<Rightarrow> units" where
  "latin1_nfc v = v"

definition latin1_lower :: "units \<Rightarrow> units" where
  "latin1_lower v = map (\<lambda>u. if 65 \<le> u \<and> u \<le> 90 \<or> 192 \<le> u \<and> u \<le> 222 \<and> u \<noteq> 215 then u + 32 else u) v"

definition portable_path :: "string \<Rightarrow> bool" where
  "portable_path s = is_ok (validate_path latin1_nfc latin1_lower (map code s))"

locale path_unicode =
  fixes nfc lower :: "units \<Rightarrow> units"
  assumes nfc_idem: "nfc (nfc v) = nfc v"
    and lower_idem: "lower (lower v) = lower v"
begin

text \<open>Two accepted paths collide exactly when their collision keys agree, and a key is its own key.\<close>

lemma collision_key_idem:
  "canonical_collision_key nfc lower v = Inr k \<Longrightarrow> lower k = k"
  by (auto simp: canonical_collision_key_ok lower_idem)

lemma normalised_not_refused: "validate_path nfc lower (nfc v) \<noteq> Inl PathNotNfc"
proof -
  have dec: "decode_passes n w \<noteq> Some PathNotNfc" for n w
    by (induction n arbitrary: w) (auto split: option.splits if_splits)
  have seg: "first_reason segment_reason ss \<noteq> Some PathNotNfc" for ss
    by (induction ss) (auto simp: segment_reason_def split: option.splits if_splits)
  show ?thesis
    using dec seg by (auto simp: validate_path_def nfc_idem split: option.splits)
qed

lemma path_set_no_collision:
  assumes "assert_canonical_path_set nfc lower vs = Inr ns" "v \<in> set vs" "w \<in> set vs" "lower v = lower w"
  shows "v = w"
  using assms by (auto simp: assert_canonical_path_set_def canonical_path_set_ok dest: distinct_key_eq)

end

interpretation latin1: path_unicode latin1_nfc latin1_lower
  by unfold_locales (auto simp: latin1_nfc_def latin1_lower_def)

lemma portable_path_segments:
  assumes "portable_path s" shows "\<forall>w \<in> set (split_on 47 (map code s)). portable_segment w"
proof -
  obtain n k where "validate_path latin1_nfc latin1_lower (map code s) = Inr (n, k)"
    using assms by (auto simp: portable_path_def is_ok_iff)
  then show ?thesis by (rule validate_path_sound(9))
qed

lemma portable_path_rejects_parent:
  assumes "portable_path s" shows "[46, 46] \<notin> set (split_on 47 (map code s))"
  using portable_path_segments[OF assms] by (auto simp: portable_segment_def)

text \<open>The definitions a concrete path is evaluated with.\<close>

lemmas path_eval = validate_path_def max_path_characters_def max_path_bytes_def latin1_nfc_def latin1_lower_def
  drive_qualified_def max_decode_passes_def segment_reason_def max_segment_characters_def non_portable_def
  device_name_def device_names_def line_terminator_def portable_segment_def ascii_lower_def numeral_3_eq_3

end
