(* ===== verification/Recovery_Policy.thy ===== *)
theory Recovery_Policy
  imports Path_Safety
begin

text \<open>
  packages/recovery/src/index.ts: Lease durations and expiry, the test clock, checkpoint payloads,
  artifact checkpoints and output descriptors, and the decisions on partial files and interrupted
  requests.
\<close>

abbreviation bad_input :: op_error where
  "bad_input \<equiv> RecoveryError RECOVERY_INPUT_INVALID"

section \<open>Limits and Lease configuration\<close>

definition lease_minimum_ms :: int where [policy_defs]: "lease_minimum_ms = 5000"
definition lease_maximum_ms :: int where [policy_defs]: "lease_maximum_ms = 86400000"
definition lease_default_ms :: int where [policy_defs]: "lease_default_ms = 60000"
definition heartbeat_default_ms :: int where [policy_defs]: "heartbeat_default_ms = 15000"
definition checkpoint_payload_bytes :: nat where [policy_defs]: "checkpoint_payload_bytes = 16384"
definition checkpoint_payload_depth :: nat where [policy_defs]: "checkpoint_payload_depth = 6"
definition checkpoint_list_limit :: int where [policy_defs]: "checkpoint_list_limit = 200"
definition lease_list_limit :: int where [policy_defs]: "lease_list_limit = 200"
definition recovery_batch :: int where [policy_defs]: "recovery_batch = 100"
definition recovery_batch_maximum :: int where [policy_defs]: "recovery_batch_maximum = 500"
definition artifact_key_length :: nat where [policy_defs]: "artifact_key_length = 160"
definition artifact_path_length :: nat where [policy_defs]: "artifact_path_length = 2048"

record lease_configuration =
  lg_version :: jsnum
  lg_durationMs :: jsnum
  lg_heartbeatIntervalMs :: jsnum
  lg_renewalExtensionMs :: jsnum
  lg_recoveryBatchSize :: jsnum
  lg_projectOpenPolicy :: string

definition default_lease_configuration :: lease_configuration where
  "default_lease_configuration = \<lparr>lg_version = Num 1, lg_durationMs = js_int lease_default_ms,
     lg_heartbeatIntervalMs = js_int heartbeat_default_ms, lg_renewalExtensionMs = js_int lease_default_ms,
     lg_recoveryBatchSize = js_int recovery_batch, lg_projectOpenPolicy = ''inspect''\<rparr>"

definition validate_lease_duration :: "jsnum \<Rightarrow> op_error + int" where
  "validate_lease_duration ms = (case bounded_safe_int lease_minimum_ms lease_maximum_ms ms of
     None \<Rightarrow> Inl bad_input | Some i \<Rightarrow> Inr i)"

definition validate_recovery_limit :: "jsnum \<Rightarrow> op_error + int" where
  "validate_recovery_limit n = (case bounded_int 1 recovery_batch_maximum n of
     None \<Rightarrow> Inl bad_input | Some i \<Rightarrow> Inr i)"

definition validate_lease_configuration :: "lease_configuration \<Rightarrow> op_error + lease_configuration" where
  "validate_lease_configuration c =
     ebind (ensure (lg_version c = Num 1) bad_input) (\<lambda>_.
     ebind (validate_lease_duration (lg_durationMs c)) (\<lambda>duration.
     ebind (validate_lease_duration (lg_renewalExtensionMs c)) (\<lambda>_.
     ebind (ensure (case safe_int (lg_heartbeatIntervalMs c) of None \<Rightarrow> False | Some h \<Rightarrow> 1000 \<le> h \<and> h < duration)
              bad_input) (\<lambda>_.
     ebind (validate_recovery_limit (lg_recoveryBatchSize c)) (\<lambda>_.
     ebind (ensure (lg_projectOpenPolicy c = ''inspect'') bad_input) (\<lambda>_. Inr c))))))"

section \<open>Time\<close>

definition parse_utc :: "string \<Rightarrow> op_error + int" where
  "parse_utc v = (if \<not> utc_pattern v then Inl bad_input
     else (case date_parse v of None \<Rightarrow> Inl bad_input | Some t \<Rightarrow> Inr t))"

text \<open>\<open>new Date(t).toISOString()\<close>, a \<open>RangeError\<close> outside the range of time values.\<close>

definition date_iso :: "int \<Rightarrow> op_error + string" where
  "date_iso t = (if \<bar>t\<bar> \<le> 8640000000000000 then Inr (to_iso t) else Inl PlainError)"

definition calculate_lease_expiry :: "string \<Rightarrow> jsnum \<Rightarrow> op_error + string" where
  "calculate_lease_expiry base duration =
     ebind (parse_utc base) (\<lambda>t. ebind (validate_lease_duration duration) (\<lambda>d. date_iso (t + d)))"

definition is_lease_expired :: "lease_status \<Rightarrow> string \<Rightarrow> string \<Rightarrow> op_error + bool" where
  "is_lease_expired status expires evaluation =
     (if status \<noteq> LeaseActive then Inr False
      else ebind (parse_utc evaluation) (\<lambda>e. ebind (parse_utc expires) (\<lambda>x. Inr (x \<le> e))))"

definition next_lease_expiry :: "lease_status \<Rightarrow> string \<Rightarrow> string \<Rightarrow> jsnum \<Rightarrow> op_error + string" where
  "next_lease_expiry status expires renewal extension =
     (if status \<noteq> LeaseActive then Inl (RecoveryError LEASE_RENEWAL_INVALID)
      else ebind (is_lease_expired status expires renewal) (\<lambda>expired.
        if expired then Inl (RecoveryError LEASE_EXPIRED) else calculate_lease_expiry renewal extension))"

text \<open>The test clock: its state is the instant.\<close>

definition fake_clock :: "string \<Rightarrow> op_error + int" where
  "fake_clock initial = parse_utc initial"

definition fake_clock_now :: "int \<Rightarrow> op_error + string" where
  "fake_clock_now instant = date_iso instant"

definition fake_clock_set :: "string \<Rightarrow> int \<Rightarrow> op_error + int" where
  "fake_clock_set v instant = parse_utc v"

definition fake_clock_advance :: "jsnum \<Rightarrow> int \<Rightarrow> op_error + int" where
  "fake_clock_advance ms instant = (case safe_int ms of
     None \<Rightarrow> Inl bad_input | Some i \<Rightarrow> if i < 0 then Inl bad_input else Inr (instant + i))"

section \<open>Checkpoints and artifacts\<close>

definition validate_portable_relative_path :: "string \<Rightarrow> op_error + string" where
  "validate_portable_relative_path v =
     (if \<not> portable_path v \<or> artifact_path_length < length v then Inl (RecoveryError ARTIFACT_CHECKPOINT_INVALID)
      else Inr v)"

definition validate_checkpoint_payload :: "(string \<Rightarrow> string) \<Rightarrow> (string \<times> json) list \<Rightarrow> op_error + string" where
  "validate_checkpoint_payload col payload =
     (if has_secret_key (JObj payload) then Inl (RecoveryError CHECKPOINT_INVALID)
      else if checkpoint_payload_depth < value_depth (JObj payload) 0 then Inl (RecoveryError CHECKPOINT_TOO_LARGE)
      else (let canonical = stringify (ordered_with col (JObj payload))
            in if checkpoint_payload_bytes < utf8_bytes canonical then Inl (RecoveryError CHECKPOINT_TOO_LARGE)
               else Inr canonical))"

definition validate_checkpoint_progress :: "jsnum \<Rightarrow> op_error + rat" where
  "validate_checkpoint_progress p = (case p of
     Num q \<Rightarrow> if q < 0 \<or> 1 < q then Inl (RecoveryError CHECKPOINT_INVALID) else Inr q
   | _ \<Rightarrow> Inl (RecoveryError CHECKPOINT_INVALID))"

definition hash_pattern :: "string \<Rightarrow> bool" where
  "hash_pattern s = sha256_hex s"

definition validate_artifact_checkpoint :: "artifact_checkpoint \<Rightarrow> op_error + unit" where
  "validate_artifact_checkpoint a =
     (let bad = RecoveryError ARTIFACT_CHECKPOINT_INVALID in
      ebind (ensure (1 \<le> length (ac_artifactKey a) \<and> length (ac_artifactKey a) \<le> artifact_key_length) bad) (\<lambda>_.
      ebind (validate_portable_relative_path (ac_relativePath a)) (\<lambda>_.
      (case (safe_int (ac_bytesWritten a), safe_int (ac_resumeOffset a)) of
         (Some written, Some offset) \<Rightarrow>
           ebind (ensure (0 \<le> written \<and> 0 \<le> offset \<and> offset \<le> written) bad) (\<lambda>_.
           ebind (ensure (case ac_expectedBytes a of None \<Rightarrow> True
                          | Some e \<Rightarrow> (case safe_int e of None \<Rightarrow> False | Some i \<Rightarrow> written \<le> i)) bad) (\<lambda>_.
           ensure (case ac_sha256 a of None \<Rightarrow> True | Some h \<Rightarrow> hash_pattern h) bad))
       | _ \<Rightarrow> Inl bad))))"

definition validate_output_descriptor :: "output_descriptor \<Rightarrow> op_error + output_descriptor" where
  "validate_output_descriptor d =
     ebind (validate_portable_relative_path (od_relativePath d)) (\<lambda>_.
     if (case safe_int (od_byteLength d) of None \<Rightarrow> True | Some n \<Rightarrow> n < 0) \<or> \<not> hash_pattern (od_sha256 d) \<or>
        od_verificationPolicy d \<noteq> ''size-and-sha256''
     then Inl (RecoveryError OUTPUT_DESCRIPTOR_INVALID) else Inr d)"

section \<open>Partial files and interrupted requests\<close>

datatype partial_file_decision = PfResume | PfRestart | PfDiscard | PfComplete

record partial_input =
  pf_localBytes :: jsnum
  pf_expectedBytes :: "jsnum option"
  pf_rangeSupported :: bool
  pf_storedValidator :: "string option"
  pf_remoteValidator :: "string option"
  pf_storedSha256 :: "string option"
  pf_actualSha256 :: "string option"

record partial_decision =
  pd_decision :: partial_file_decision
  pd_reasonCode :: string
  pd_resumeOffset :: int

definition decision :: "partial_file_decision \<Rightarrow> string \<Rightarrow> int \<Rightarrow> op_error + partial_decision" where
  "decision d r n = Inr \<lparr>pd_decision = d, pd_reasonCode = r, pd_resumeOffset = n\<rparr>"

text \<open>A size that passed the check: \<open>None\<close> is an invalid one, \<open>Some None\<close> an unknown one.\<close>

definition checked_size :: "jsnum option \<Rightarrow> int option option" where
  "checked_size v = (case v of None \<Rightarrow> Some None
     | Some n \<Rightarrow> (case safe_int n of None \<Rightarrow> None | Some i \<Rightarrow> if i < 0 then None else Some (Some i)))"

definition decide_partial_file_recovery :: "partial_input \<Rightarrow> op_error + partial_decision" where
  "decide_partial_file_recovery p =
     (case (checked_size (Some (pf_localBytes p)), checked_size (pf_expectedBytes p)) of
        (Some (Some local), Some expected) \<Rightarrow>
          if expected = Some local then
            (if pf_storedSha256 p = None \<or> pf_actualSha256 p = pf_storedSha256 p
             then decision PfComplete ''PARTIAL_ALREADY_COMPLETE'' local
             else decision PfDiscard ''PARTIAL_HASH_MISMATCH'' 0)
          else if local = 0 then decision PfRestart ''PARTIAL_EMPTY'' 0
          else if \<not> pf_rangeSupported p then decision PfRestart ''RANGE_NOT_SUPPORTED'' 0
          else if pf_storedValidator p = None \<or> pf_remoteValidator p = None \<or>
                  pf_storedValidator p \<noteq> pf_remoteValidator p
            then decision PfRestart ''REMOTE_VALIDATOR_CHANGED'' 0
          else if (case expected of None \<Rightarrow> False | Some e \<Rightarrow> e < local)
            then decision PfDiscard ''PARTIAL_SIZE_EXCEEDED'' 0
          else decision PfResume ''RANGE_RESUME_SAFE'' local
      | _ \<Rightarrow> Inl (RecoveryError ARTIFACT_CHECKPOINT_INVALID))"

datatype interruption = RetryFromCheckpoint | RestartRequest | TerminalNetworkFailure

definition classify_network_interruption :: "bool \<Rightarrow> rat \<Rightarrow> bool \<Rightarrow> interruption" where
  "classify_network_interruption started written retryable =
     (if \<not> retryable then TerminalNetworkFailure
      else if started \<and> 0 < written then RetryFromCheckpoint else RestartRequest)"

section \<open>Lemmas\<close>

lemma validate_lease_duration_ok [result_simps]:
  "validate_lease_duration n = Inr i \<longleftrightarrow> n = js_int i \<and> 5000 \<le> i \<and> i \<le> 86400000"
  by (auto simp: validate_lease_duration_def bounded_safe_int_Some_iff policy_defs max_safe_integer_def
      split: option.splits)

lemma validate_recovery_limit_ok [result_simps]:
  "validate_recovery_limit n = Inr i \<longleftrightarrow> n = js_int i \<and> 1 \<le> i \<and> i \<le> 500"
  by (auto simp: validate_recovery_limit_def bounded_int_Some_iff policy_defs split: option.splits)

lemma parse_utc_ok [result_simps]: "parse_utc v = Inr t \<longleftrightarrow> utc_pattern v \<and> date_parse v = Some t"
  by (auto simp: parse_utc_def split: option.splits)

lemma parse_utc_error: "parse_utc v = Inl e \<Longrightarrow> e = bad_input"
  by (auto simp: parse_utc_def split: option.splits if_splits)

lemma default_lease_configuration_ok:
  "validate_lease_configuration default_lease_configuration = Inr default_lease_configuration"
  by (simp add: validate_lease_configuration_def default_lease_configuration_def validate_lease_duration_def
      validate_recovery_limit_def bounded_safe_int_def bounded_int_def safe_int_def max_safe_integer_def
      policy_defs)

lemma heartbeat_within_duration:
  assumes "validate_lease_configuration c = Inr c'"
  shows "c' = c \<and> (\<exists>h d. safe_int (lg_heartbeatIntervalMs c) = Some h \<and> safe_int (lg_durationMs c) = Some d \<and>
    1000 \<le> h \<and> h < d \<and> d \<le> 86400000)"
  using assms
  by (auto simp: validate_lease_configuration_def result_simps max_safe_integer_def split: option.splits)

lemma is_lease_expired_ok:
  "is_lease_expired LeaseActive x e = Inr b \<longleftrightarrow>
     (\<exists>tx te. parse_utc x = Inr tx \<and> parse_utc e = Inr te \<and> b = (tx \<le> te))"
  by (auto simp: is_lease_expired_def ebind_Inr_iff)

text \<open>A Lease taken at an instant expires exactly its duration later, on the millisecond.\<close>

lemma lease_expiry_exact:
  assumes "four_digit_time t" "calculate_lease_expiry (to_iso t) (js_int d) = Inr x" "four_digit_time (t + d)"
  shows "parse_utc x = Inr (t + d)"
  using assms
  by (auto simp: calculate_lease_expiry_def result_simps date_parse_to_iso utc_pattern_to_iso date_iso_def
      split: if_splits)

lemma lease_expired_iff:
  assumes "four_digit_time t" "calculate_lease_expiry (to_iso t) (js_int d) = Inr x" "four_digit_time (t + d)"
    "four_digit_time e"
  shows "is_lease_expired LeaseActive x (to_iso e) = Inr (t + d \<le> e)"
  using lease_expiry_exact[OF assms(1-3)] assms(4)
  by (auto simp: is_lease_expired_def parse_utc_def date_parse_to_iso utc_pattern_to_iso)

lemma next_lease_expiry_ok:
  assumes "next_lease_expiry status x r ext = Inr y"
  shows "status = LeaseActive" "is_lease_expired status x r = Inr False" "calculate_lease_expiry r ext = Inr y"
  using assms by (auto simp: next_lease_expiry_def result_simps split: if_splits)

lemma resume_is_safe:
  assumes "decide_partial_file_recovery p = Inr r" "pd_decision r = PfResume"
  shows "pf_rangeSupported p" "pf_storedValidator p = pf_remoteValidator p" "pf_storedValidator p \<noteq> None"
    "pf_localBytes p = js_int (pd_resumeOffset r)" "0 < pd_resumeOffset r"
    "\<And>e. pf_expectedBytes p = Some e \<Longrightarrow> \<exists>i. e = js_int i \<and> pd_resumeOffset r < i"
  using assms
  by (auto simp: decide_partial_file_recovery_def decision_def checked_size_def safe_int_Some_iff
      split: option.splits if_splits)

lemma complete_is_whole:
  assumes "decide_partial_file_recovery p = Inr r" "pd_decision r = PfComplete"
  shows "pf_expectedBytes p = Some (pf_localBytes p)"
    "\<And>h. pf_storedSha256 p = Some h \<Longrightarrow> pf_actualSha256 p = Some h"
  using assms
  by (auto simp: decide_partial_file_recovery_def decision_def checked_size_def safe_int_Some_iff
      split: option.splits if_splits)

lemma not_resumed_from_zero:
  assumes "decide_partial_file_recovery p = Inr r" "pd_decision r \<in> {PfRestart, PfDiscard}"
  shows "pd_resumeOffset r = 0"
  using assms
  by (auto simp: decide_partial_file_recovery_def decision_def split: option.splits if_splits)

lemma checkpoint_payload_ok:
  "validate_checkpoint_payload col p = Inr s \<longleftrightarrow> \<not> has_secret_key (JObj p) \<and> value_depth (JObj p) 0 \<le> 6 \<and>
     s = stringify (ordered_with col (JObj p)) \<and> utf8_bytes s \<le> 16384"
  by (auto simp: validate_checkpoint_payload_def Let_def policy_defs)

lemma artifact_checkpoint_ok:
  assumes "validate_artifact_checkpoint a = Inr u"
  obtains w r where "ac_bytesWritten a = js_int w" "ac_resumeOffset a = js_int r" "0 \<le> r" "r \<le> w"
    "portable_path (ac_relativePath a)"
    "\<And>e. ac_expectedBytes a = Some e \<Longrightarrow> \<exists>i. e = js_int i \<and> w \<le> i"
    "\<And>h. ac_sha256 a = Some h \<Longrightarrow> hash_pattern h"
  using assms
  by (auto simp: validate_artifact_checkpoint_def Let_def ebind_Inr_iff ensure_Inr_iff safe_int_Some_iff
      validate_portable_relative_path_def split: option.splits if_splits)

end
