(* ===== verification/Run_State.thy ===== *)
theory Run_State
  imports Core_Types
begin

text \<open>
  packages/archive-core/src/run-state.ts (the states of a Crawl Run and its table of transitions),
  packages/archive-core/src/concurrency.ts (the worker and network concurrency policy), and the two
  records of packages/archive-core/src/index.ts that carry a run state.
\<close>

section \<open>Crawl Run states\<close>

datatype crawl_run_state = RunRunning | RunPausing | RunPaused | RunWaitingForNetwork
  | RunWaitingForAuth | RunWaitingForRateLimit | RunCancelling | RunCancelled | RunCompleted | RunFailed

fun run_state_text :: "crawl_run_state \<Rightarrow> string" where
  "run_state_text RunRunning = ''running''"
| "run_state_text RunPausing = ''pausing''"
| "run_state_text RunPaused = ''paused''"
| "run_state_text RunWaitingForNetwork = ''waiting_for_network''"
| "run_state_text RunWaitingForAuth = ''waiting_for_auth''"
| "run_state_text RunWaitingForRateLimit = ''waiting_for_rate_limit''"
| "run_state_text RunCancelling = ''cancelling''"
| "run_state_text RunCancelled = ''cancelled''"
| "run_state_text RunCompleted = ''completed''"
| "run_state_text RunFailed = ''failed''"

definition crawl_run_states :: "crawl_run_state list" where
  "crawl_run_states = [RunRunning, RunPausing, RunPaused, RunWaitingForNetwork, RunWaitingForAuth,
     RunWaitingForRateLimit, RunCancelling, RunCancelled, RunCompleted, RunFailed]"

fun run_targets :: "crawl_run_state \<Rightarrow> crawl_run_state list" where
  "run_targets RunRunning = [RunPausing, RunPaused, RunWaitingForNetwork, RunWaitingForAuth,
     RunWaitingForRateLimit, RunCancelling, RunCompleted, RunFailed]"
| "run_targets RunPausing = [RunPaused, RunRunning, RunCancelling, RunFailed]"
| "run_targets RunPaused = [RunRunning, RunCancelling, RunCancelled, RunFailed]"
| "run_targets RunWaitingForNetwork = [RunRunning, RunCancelling, RunFailed]"
| "run_targets RunWaitingForAuth = [RunRunning, RunCancelling, RunFailed]"
| "run_targets RunWaitingForRateLimit = [RunRunning, RunCancelling, RunFailed]"
| "run_targets RunCancelling = [RunCancelled, RunFailed]"
| "run_targets RunCancelled = []"
| "run_targets RunCompleted = []"
| "run_targets RunFailed = []"

definition is_crawl_run_state :: "string \<Rightarrow> bool" where
  "is_crawl_run_state v = (v \<in> set (map run_state_text crawl_run_states))"

definition can_transition_run :: "crawl_run_state \<Rightarrow> crawl_run_state \<Rightarrow> bool" where
  "can_transition_run s t = (s = t \<or> t \<in> set (run_targets s))"

text \<open>The assertion throws a plain \<open>Error\<close>.\<close>

definition assert_run_transition :: "crawl_run_state \<Rightarrow> crawl_run_state \<Rightarrow> op_error + unit" where
  "assert_run_transition s t = ensure (can_transition_run s t) PlainError"

definition run_finished :: "crawl_run_state \<Rightarrow> bool" where
  "run_finished s = (s \<in> {RunCancelled, RunCompleted, RunFailed})"

interpretation runs: transition_table run_targets run_finished
proof unfold_locales
  fix s show "run_finished s \<Longrightarrow> run_targets s = []" by (cases s) (auto simp: run_finished_def)
  show "\<not> run_finished s \<Longrightarrow> run_targets s \<noteq> []" by (cases s) (auto simp: run_finished_def)
  show "s \<notin> set (run_targets s)" by (cases s) auto
qed

lemma run_state_text_inj: "run_state_text s = run_state_text t \<Longrightarrow> s = t"
  by (cases s; cases t) simp_all

lemma crawl_run_states_all: "s \<in> set crawl_run_states"
  by (cases s) (simp_all add: crawl_run_states_def)

lemma assert_run_transition_ok [result_simps]: "assert_run_transition s t = Inr u \<longleftrightarrow> can_transition_run s t"
  by (simp add: assert_run_transition_def ensure_Inr_iff)

lemma run_path_finished:
  assumes "can_transition_run\<^sup>*\<^sup>* s t" "run_finished s" shows "t = s"
  using assms
  by (induction rule: rtranclp_induct) (auto simp: can_transition_run_def runs.terminal_iff)

text \<open>Cancelling is reachable in one step from every state in which work may be going on.\<close>

lemma run_cancellable: "\<not> run_finished s \<Longrightarrow> can_transition_run s RunCancelling"
  by (cases s) (auto simp: run_finished_def can_transition_run_def)

lemma run_can_finish: "\<not> run_finished s \<Longrightarrow> can_transition_run s RunFailed"
  by (cases s) (auto simp: run_finished_def can_transition_run_def)

section \<open>Records that carry a run state\<close>

record run_checkpoint =
  rc_checkpointId :: string
  rc_projectId :: string
  rc_runId :: string
  rc_sequence :: int
  rc_checkpointVersion :: int
  rc_controlState :: run_control_state
  rc_runState :: crawl_run_state
  rc_pendingJobs :: int
  rc_processingJobs :: int
  rc_completedJobs :: int
  rc_createdAt :: string

record pause_status =
  ps_projectId :: string
  ps_runId :: string
  ps_controlState :: run_control_state
  ps_runState :: crawl_run_state
  ps_requestedAt :: "string option"
  ps_pausedAt :: "string option"
  ps_activeLeaseCount :: nat

section \<open>Concurrency policy\<close>

record concurrency_policy =
  cp_version :: jsnum
  cp_globalWorkerConcurrency :: jsnum
  cp_perProxyWorkerConcurrency :: jsnum
  cp_perOriginPageConcurrency :: jsnum
  cp_perOriginInflightRequests :: jsnum
  cp_requestRatePerOrigin :: jsnum
  cp_retryAfterMaximumMs :: jsnum
  cp_originCooldownMaximumMs :: jsnum

definition default_concurrency_policy :: concurrency_policy where
  "default_concurrency_policy = \<lparr>cp_version = Num 1, cp_globalWorkerConcurrency = Num 1,
     cp_perProxyWorkerConcurrency = Num 1, cp_perOriginPageConcurrency = Num 1,
     cp_perOriginInflightRequests = Num 8, cp_requestRatePerOrigin = Num 1,
     cp_retryAfterMaximumMs = Num 300000, cp_originCooldownMaximumMs = Num 300000\<rparr>"

definition positive_fields :: "concurrency_policy \<Rightarrow> jsnum list" where
  "positive_fields p = [cp_globalWorkerConcurrency p, cp_perProxyWorkerConcurrency p,
     cp_perOriginPageConcurrency p, cp_perOriginInflightRequests p, cp_requestRatePerOrigin p]"

definition invalid_at_least :: "int \<Rightarrow> jsnum \<Rightarrow> bool" where
  "invalid_at_least lo n = (case safe_int n of None \<Rightarrow> True | Some i \<Rightarrow> i < lo)"

definition validate_concurrency_policy :: "concurrency_policy \<Rightarrow> op_error + concurrency_policy" where
  "validate_concurrency_policy p =
     (if cp_version p \<noteq> Num 1 \<or> list_ex (invalid_at_least 1) (positive_fields p) \<or>
         invalid_at_least 0 (cp_retryAfterMaximumMs p) \<or> invalid_at_least 0 (cp_originCooldownMaximumMs p)
      then Inl PlainError else Inr p)"

definition effective_origin_request_budget :: "concurrency_policy \<Rightarrow> op_error + jsnum" where
  "effective_origin_request_budget p =
     ebind (validate_concurrency_policy p) (\<lambda>_. Inr (cp_requestRatePerOrigin p))"

lemma invalid_at_least_iff: "\<not> invalid_at_least lo n \<longleftrightarrow> (\<exists>i. safe_int n = Some i \<and> lo \<le> i)"
  by (auto simp: invalid_at_least_def split: option.splits)

lemma default_concurrency_policy_ok:
  "validate_concurrency_policy default_concurrency_policy = Inr default_concurrency_policy"
  by (simp add: validate_concurrency_policy_def default_concurrency_policy_def positive_fields_def
      invalid_at_least_def safe_int_def max_safe_integer_def)

lemma effective_budget_positive:
  assumes "effective_origin_request_budget p = Inr n"
  obtains i where "safe_int n = Some i" "1 \<le> i"
  using assms
  by (auto simp: effective_origin_request_budget_def validate_concurrency_policy_def positive_fields_def
      invalid_at_least_def result_simps split: if_splits option.splits)

end
