(* ===== verification/Schema.thy ===== *)
theory Schema
  imports Queue_Policy Recovery_Policy Run_State
begin

text \<open>
  The part of the Project database the two job repositories work on
  (packages/persistence-sqlite/src/migrations.ts), as lists of rows in insertion order, with the
  constraints of each table, and the transactions over it. A row extends the record the
  repository returns by the columns that record leaves out. \<open>page_jobs.state\<close> is the physical
  state; \<open>recovery_state\<close> overlays it with interrupted or paused. Columns of JSON text hold the
  value itself.
\<close>

section \<open>Rows\<close>

record job_row = page_job +
  jr_recoveryState :: "page_job_state option"

record attempt_row = page_job_attempt +
  ar_recoveryOutcome :: "attempt_outcome option"
  ar_metadata :: json

record transition_row = page_job_transition +
  tr_recoveryFrom :: "page_job_state option"
  tr_recoveryTo :: "page_job_state option"
  tr_metadata :: json

record discovery_row = page_job_discovery +
  dr_key :: string
  dr_projectId :: string
  dr_runId :: string

record decision_row = scope_snapshot +
  sr_projectId :: string
  sr_runId :: string
  sr_recordedAt :: string

text \<open>
  \<open>queue_operations.result_json\<close>: what the recorded operation returned, or the job a Lease claim
  took.
\<close>

datatype op_result = ResEnqueue enqueue_result | ResClaim "page_job option" | ResJob page_job
  | ResJobs "page_job list" | ResSkipped nat | ResLeaseClaim "string option"

record operation_row =
  oq_recordId :: string
  oq_projectId :: string
  oq_runId :: string
  oq_type :: string
  oq_key :: string
  oq_hash :: string
  oq_result :: op_result
  oq_createdAt :: string

record control_row =
  ct_projectId :: string
  ct_runId :: string
  ct_state :: run_control_state
  ct_runState :: crawl_run_state
  ct_requestedAt :: "string option"
  ct_pausedAt :: "string option"
  ct_updatedAt :: string
  ct_operationId :: string

record lease_row = job_lease +
  lr_tokenHash :: string
  lr_lastOperationId :: string

record checkpoint_row = job_checkpoint +
  jc_operationId :: string

record run_checkpoint_row = run_checkpoint +
  rc_operationId :: string

record artifact_row = artifact_checkpoint +
  ac_operationId :: string

record recovery_row = recovery_report +
  ro_idempotencyKey :: string
  ro_requestHash :: string
  ro_batchLimit :: int
  ro_ownerOperationId :: string

record recovery_event_row =
  re_eventId :: string
  re_recoveryOperationId :: "string option"
  re_projectId :: string
  re_runId :: string
  re_jobId :: string
  re_reasonCode :: string
  re_from :: page_job_state
  re_to :: page_job_state
  re_fencingGeneration :: "int option"
  re_occurredAt :: string

record session_row =
  es_sessionId :: string
  es_projectId :: string
  es_runId :: string
  es_processId :: int
  es_hostId :: string
  es_startedAt :: string
  es_lastSeenAt :: string
  es_closedAt :: "string option"
  es_closeKind :: "string option"

text \<open>Rows of tables these repositories only read.\<close>

record profile_revision_row =
  sv_profileRevisionId :: string
  sv_profileId :: string
  sv_engineVersion :: jsnum

record db =
  db_project :: "string option"
  db_runs :: "(string \<times> string) list"
  db_revisions :: "(string \<times> string) list"
  db_profiles :: "(string \<times> string) list"
  db_profileRevisions :: "profile_revision_row list"
  db_decisions :: "decision_row list"
  db_jobs :: "job_row list"
  db_jobSequence :: int
  db_attempts :: "attempt_row list"
  db_transitions :: "transition_row list"
  db_discoveries :: "discovery_row list"
  db_operations :: "operation_row list"
  db_controls :: "control_row list"
  db_leases :: "lease_row list"
  db_checkpoints :: "checkpoint_row list"
  db_checkpointSequence :: int
  db_runCheckpoints :: "run_checkpoint_row list"
  db_runCheckpointSequence :: int
  db_artifacts :: "artifact_row list"
  db_outputs :: "output_descriptor list"
  db_recoveries :: "recovery_row list"
  db_recoveryEvents :: "recovery_event_row list"
  db_sessions :: "session_row list"

section \<open>Constraints\<close>

text \<open>
  A table has a CHECK predicate on its rows and a relation \<open>clash\<close> that holds of two rows that
  may not both be present (a primary key, a UNIQUE constraint or a partial unique index).
  Inserting or updating a row that breaks either, or a foreign key, raises an error.
\<close>

definition table_ok :: "('r \<Rightarrow> bool) \<Rightarrow> ('r \<Rightarrow> 'r \<Rightarrow> bool) \<Rightarrow> 'r list \<Rightarrow> bool" where
  "table_ok check clash rows = (list_all check rows \<and> sorted_wrt (\<lambda>a b. \<not> clash a b) rows)"

definition sql_insert :: "('r \<Rightarrow> bool) \<Rightarrow> ('r \<Rightarrow> 'r \<Rightarrow> bool) \<Rightarrow> bool \<Rightarrow> 'r \<Rightarrow> 'r list \<Rightarrow> 'r list option" where
  "sql_insert check clash fk r rows =
     (if check r \<and> fk \<and> list_all (\<lambda>r'. \<not> clash r' r) rows then Some (rows @ [r]) else None)"

text \<open>\<open>INSERT OR IGNORE\<close>: a broken CHECK or key skips the row, a broken foreign key is an error.\<close>

definition sql_insert_or_ignore ::
    "('r \<Rightarrow> bool) \<Rightarrow> ('r \<Rightarrow> 'r \<Rightarrow> bool) \<Rightarrow> bool \<Rightarrow> 'r \<Rightarrow> 'r list \<Rightarrow> 'r list option" where
  "sql_insert_or_ignore check clash fk r rows =
     (if check r \<and> list_all (\<lambda>r'. \<not> clash r' r) rows then (if fk then Some (rows @ [r]) else None)
      else Some rows)"

definition sql_update :: "('r \<Rightarrow> bool) \<Rightarrow> ('r \<Rightarrow> 'r \<Rightarrow> bool) \<Rightarrow> ('r \<Rightarrow> bool) \<Rightarrow> ('r \<Rightarrow> 'r) \<Rightarrow> 'r list \<Rightarrow> 'r list option" where
  "sql_update check clash p f rows =
     (let rows' = update_where p f rows in if table_ok check clash rows' then Some rows' else None)"

locale sql_table =
  fixes check :: "'r \<Rightarrow> bool" and clash :: "'r \<Rightarrow> 'r \<Rightarrow> bool" and key :: "'r \<Rightarrow> 'k"
  assumes same_key: "key a = key b \<Longrightarrow> clash a b"
begin

lemma insert_ok: "sql_insert check clash fk r rows = Some rows' \<Longrightarrow> table_ok check clash rows \<Longrightarrow> table_ok check clash rows'"
  by (auto simp: sql_insert_def table_ok_def sorted_wrt_append list_all_iff split: if_splits)

lemma insert_or_ignore_ok:
  "sql_insert_or_ignore check clash fk r rows = Some rows' \<Longrightarrow> table_ok check clash rows \<Longrightarrow> table_ok check clash rows'"
  by (auto simp: sql_insert_or_ignore_def table_ok_def sorted_wrt_append list_all_iff split: if_splits)

lemma update_ok: "sql_update check clash p f rows = Some rows' \<Longrightarrow> table_ok check clash rows'"
  by (auto simp: sql_update_def Let_def split: if_splits)

lemma keys_distinct: "table_ok check clash rows \<Longrightarrow> distinct (map key rows)"
  by (induction rows) (auto simp: table_ok_def same_key)

lemma lookup_unique:
  "table_ok check clash rows \<Longrightarrow> a \<in> set rows \<Longrightarrow> b \<in> set rows \<Longrightarrow> key a = key b \<Longrightarrow> a = b"
  by (rule distinct_key_eq[OF keys_distinct])

lemma row_checked: "table_ok check clash rows \<Longrightarrow> a \<in> set rows \<Longrightarrow> check a"
  by (simp add: table_ok_def list_all_iff)

lemma insert_lookup:
  "sql_insert check clash fk r rows = Some rows' \<Longrightarrow> List.find (\<lambda>x. key x = key r) rows' = Some r"
  by (induction rows arbitrary: rows') (auto simp: sql_insert_def same_key split: if_splits)

end

definition physical_state :: "page_job_state \<Rightarrow> bool" where
  "physical_state s = (s \<notin> {JobInterrupted, JobPaused})"

definition text_between :: "nat \<Rightarrow> nat \<Rightarrow> string \<Rightarrow> bool" where
  "text_between lo hi s = (lo \<le> length s \<and> length s \<le> hi)"

definition job_check :: "job_row \<Rightarrow> bool" where
  "job_check r = (0 < pj_normalizationEngineVersion r \<and> text_between 1 8192 (pj_normalizedUrl r) \<and>
     text_between 1 8192 (pj_identityUrl r) \<and> text_between 1 8192 (pj_safeDisplayUrl r) \<and>
     length (pj_identityHash r) = 64 \<and> physical_state (pj_state r) \<and>
     0 \<le> pj_priority r \<and> pj_priority r \<le> 1000 \<and> 0 \<le> pj_depth r \<and> 0 \<le> pj_attemptCount r \<and>
     1 \<le> pj_maxAttempts r \<and> pj_maxAttempts r \<le> 100 \<and>
     (case pj_resultVersion r of None \<Rightarrow> True | Some v \<Rightarrow> 0 < v) \<and>
     pj_attemptCount r \<le> pj_maxAttempts r \<and>
     (if pj_state r = JobProcessing
      then pj_claimToken r \<noteq> None \<and> pj_claimedBy r \<noteq> None \<and> pj_claimedAt r \<noteq> None
      else pj_claimToken r = None \<and> pj_claimedBy r = None) \<and>
     (if pj_state r = JobCompleted
      then pj_completedAt r \<noteq> None \<and> pj_completionKey r \<noteq> None \<and> pj_resultVersion r \<noteq> None \<and> pj_resultSummary r \<noteq> None
      else pj_completedAt r = None) \<and>
     (pj_state r = JobFailed \<longrightarrow> pj_failedAt r \<noteq> None \<and> pj_lastErrorCode r \<noteq> None \<and> pj_lastErrorCategory r \<noteq> None) \<and>
     0 \<le> pj_fencingGeneration r \<and>
     jr_recoveryState r \<in> {None, Some JobInterrupted, Some JobPaused})"

definition job_identity :: "job_row \<Rightarrow> string \<times> string \<times> string \<times> int \<times> string" where
  "job_identity r = (pj_projectId r, pj_runId r, pj_profileRevisionId r, pj_normalizationEngineVersion r, pj_identityHash r)"

definition job_clash :: "job_row \<Rightarrow> job_row \<Rightarrow> bool" where
  "job_clash a b = (pj_queueSequence a = pj_queueSequence b \<or> pj_jobId a = pj_jobId b \<or> job_identity a = job_identity b)"

definition owner_fk :: "db \<Rightarrow> string \<Rightarrow> string \<Rightarrow> bool" where
  "owner_fk d p r = (db_project d = Some p \<and> r \<in> fst ` set (db_runs d))"

definition job_exists :: "db \<Rightarrow> string \<Rightarrow> bool" where
  "job_exists d j = list_ex (\<lambda>r. pj_jobId r = j) (db_jobs d)"

definition decision_exists :: "db \<Rightarrow> string \<Rightarrow> string \<Rightarrow> string \<Rightarrow> bool" where
  "decision_exists d i p r =
     list_ex (\<lambda>s. sd_decisionId s = i \<and> sr_projectId s = p \<and> sr_runId s = r) (db_decisions d)"

definition profile_fk :: "db \<Rightarrow> string \<Rightarrow> string \<Rightarrow> bool" where
  "profile_fk d profile revision = (profile \<in> fst ` set (db_profiles d) \<and>
     list_ex (\<lambda>v. sv_profileRevisionId v = revision) (db_profileRevisions d))"

definition job_fk :: "db \<Rightarrow> job_row \<Rightarrow> bool" where
  "job_fk d r = (owner_fk d (pj_projectId r) (pj_runId r) \<and> pj_projectRevisionId r \<in> fst ` set (db_revisions d) \<and>
     profile_fk d (pj_profileId r) (pj_profileRevisionId r) \<and>
     decision_exists d (pj_scopeDecisionId r) (pj_projectId r) (pj_runId r))"

definition attempt_check :: "attempt_row \<Rightarrow> bool" where
  "attempt_check r = (0 < pa_attemptNumber r \<and> pa_outcome r \<notin> {AttInterrupted, AttPaused} \<and>
     ar_recoveryOutcome r \<in> {None, Some AttInterrupted, Some AttPaused})"

definition attempt_clash :: "attempt_row \<Rightarrow> attempt_row \<Rightarrow> bool" where
  "attempt_clash a b = (pa_attemptId a = pa_attemptId b \<or> pa_claimToken a = pa_claimToken b \<or>
     pa_jobId a = pa_jobId b \<and> pa_attemptNumber a = pa_attemptNumber b)"

definition transition_check :: "transition_row \<Rightarrow> bool" where
  "transition_check r = ((case pt_fromState r of None \<Rightarrow> True | Some s \<Rightarrow> physical_state s) \<and>
     physical_state (pt_toState r) \<and>
     tr_recoveryFrom r \<in> {None, Some JobInterrupted, Some JobPaused} \<and>
     tr_recoveryTo r \<in> {None, Some JobInterrupted, Some JobPaused})"

definition transition_clash :: "transition_row \<Rightarrow> transition_row \<Rightarrow> bool" where
  "transition_clash a b = (pt_transitionId a = pt_transitionId b)"

definition discovery_check :: "discovery_row \<Rightarrow> bool" where
  "discovery_check r = ((case pd_sourceDepth r of None \<Rightarrow> True | Some n \<Rightarrow> 0 \<le> n) \<and> 0 \<le> pd_resultDepth r)"

definition discovery_clash :: "discovery_row \<Rightarrow> discovery_row \<Rightarrow> bool" where
  "discovery_clash a b = (pd_discoveryId a = pd_discoveryId b \<or> pd_childJobId a = pd_childJobId b \<and> dr_key a = dr_key b)"

definition discovery_fk :: "db \<Rightarrow> discovery_row \<Rightarrow> bool" where
  "discovery_fk d r = (owner_fk d (dr_projectId r) (dr_runId r) \<and> job_exists d (pd_childJobId r) \<and>
     (case pd_parentJobId r of None \<Rightarrow> True | Some j \<Rightarrow> job_exists d j) \<and>
     decision_exists d (pd_scopeDecisionId r) (dr_projectId r) (dr_runId r))"

definition decision_check :: "decision_row \<Rightarrow> bool" where
  "decision_check r = (length (sd_decisionId r) = 64 \<and> 0 < sd_engineVersion r \<and>
     (case sd_identityHash r of None \<Rightarrow> True | Some h \<Rightarrow> length h = 64) \<and>
     (case int_value (sd_depth r) of None \<Rightarrow> False | Some n \<Rightarrow> 0 \<le> n))"

definition decision_clash :: "decision_row \<Rightarrow> decision_row \<Rightarrow> bool" where
  "decision_clash a b = (sd_decisionId a = sd_decisionId b \<and> sr_projectId a = sr_projectId b \<and> sr_runId a = sr_runId b)"

definition operation_check :: "operation_row \<Rightarrow> bool" where
  "operation_check r = (length (oq_hash r) = 64)"

definition operation_clash :: "operation_row \<Rightarrow> operation_row \<Rightarrow> bool" where
  "operation_clash a b = (oq_recordId a = oq_recordId b \<or>
     oq_projectId a = oq_projectId b \<and> oq_type a = oq_type b \<and> oq_key a = oq_key b)"

definition control_check :: "control_row \<Rightarrow> bool" where
  "control_check r = True"

definition control_clash :: "control_row \<Rightarrow> control_row \<Rightarrow> bool" where
  "control_clash a b = (ct_projectId a = ct_projectId b \<and> ct_runId a = ct_runId b)"

definition lease_check :: "lease_row \<Rightarrow> bool" where
  "lease_check r = (text_between 1 120 (jl_ownerId r) \<and> length (lr_tokenHash r) = 64 \<and> 0 < jl_fencingGeneration r)"

definition lease_clash :: "lease_row \<Rightarrow> lease_row \<Rightarrow> bool" where
  "lease_clash a b = (jl_leaseId a = jl_leaseId b \<or> lr_tokenHash a = lr_tokenHash b \<or>
     jl_jobId a = jl_jobId b \<and>
       (jl_fencingGeneration a = jl_fencingGeneration b \<or> jl_status a = LeaseActive \<and> jl_status b = LeaseActive))"

definition checkpoint_check :: "checkpoint_row \<Rightarrow> bool" where
  "checkpoint_check r = (0 < jc_attemptNumber r \<and> 0 < jc_checkpointVersion r \<and> 0 < jc_fencingGeneration r \<and>
     text_between 1 120 (jc_ownerId r) \<and> text_between 1 120 (jc_phase r) \<and> 0 \<le> jc_progress r \<and> jc_progress r \<le> 1)"

definition checkpoint_clash :: "checkpoint_row \<Rightarrow> checkpoint_row \<Rightarrow> bool" where
  "checkpoint_clash a b = (jc_checkpointId a = jc_checkpointId b \<or> jc_sequence a = jc_sequence b \<or>
     jc_jobId a = jc_jobId b \<and> jc_attemptNumber a = jc_attemptNumber b \<and>
     jc_fencingGeneration a = jc_fencingGeneration b \<and> jc_operationId a = jc_operationId b)"

definition run_checkpoint_check :: "run_checkpoint_row \<Rightarrow> bool" where
  "run_checkpoint_check r = (0 < rc_checkpointVersion r \<and> 0 \<le> rc_pendingJobs r \<and> 0 \<le> rc_processingJobs r \<and> 0 \<le> rc_completedJobs r)"

definition run_checkpoint_clash :: "run_checkpoint_row \<Rightarrow> run_checkpoint_row \<Rightarrow> bool" where
  "run_checkpoint_clash a b = (rc_checkpointId a = rc_checkpointId b \<or> rc_sequence a = rc_sequence b)"

text \<open>A stored size: an INTEGER column that may be NULL.\<close>

definition size_value :: "jsnum \<Rightarrow> int" where
  "size_value n = (case int_value n of None \<Rightarrow> -1 | Some i \<Rightarrow> i)"

definition artifact_check :: "artifact_row \<Rightarrow> bool" where
  "artifact_check r = (text_between 1 160 (ac_artifactKey r) \<and> text_between 1 2048 (ac_relativePath r) \<and>
     0 \<le> size_value (ac_bytesWritten r) \<and>
     (case ac_expectedBytes r of None \<Rightarrow> True | Some e \<Rightarrow> size_value (ac_bytesWritten r) \<le> size_value e) \<and>
     (case ac_sha256 r of None \<Rightarrow> True | Some h \<Rightarrow> length h = 64) \<and>
     0 \<le> size_value (ac_resumeOffset r) \<and> size_value (ac_resumeOffset r) \<le> size_value (ac_bytesWritten r) \<and>
     0 < ac_fencingGeneration r)"

definition artifact_clash :: "artifact_row \<Rightarrow> artifact_row \<Rightarrow> bool" where
  "artifact_clash a b = (ac_artifactCheckpointId a = ac_artifactCheckpointId b \<or>
     ac_jobId a = ac_jobId b \<and> ac_artifactKey a = ac_artifactKey b \<and>
     ac_fencingGeneration a = ac_fencingGeneration b \<and> ac_operationId a = ac_operationId b)"

definition output_check :: "output_descriptor \<Rightarrow> bool" where
  "output_check r = (text_between 1 2048 (od_relativePath r) \<and> 0 \<le> size_value (od_byteLength r) \<and>
     length (od_sha256 r) = 64 \<and> od_verificationPolicy r = ''size-and-sha256'')"

definition output_clash :: "output_descriptor \<Rightarrow> output_descriptor \<Rightarrow> bool" where
  "output_clash a b = (od_descriptorId a = od_descriptorId b \<or> od_jobId a = od_jobId b \<and> od_relativePath a = od_relativePath b)"

definition recovery_check :: "recovery_row \<Rightarrow> bool" where
  "recovery_check r = (length (ro_requestHash r) = 64 \<and> 1 \<le> ro_batchLimit r \<and> ro_batchLimit r \<le> 500 \<and>
     0 \<le> rr_cursor r \<and> 0 \<le> rr_scanned r \<and> 0 \<le> rr_interrupted r \<and> 0 \<le> rr_requeued r \<and> 0 \<le> rr_paused r \<and>
     0 \<le> rr_outputIssues r)"

definition recovery_clash :: "recovery_row \<Rightarrow> recovery_row \<Rightarrow> bool" where
  "recovery_clash a b = (rr_recoveryOperationId a = rr_recoveryOperationId b \<or>
     rr_projectId a = rr_projectId b \<and> rr_runId a = rr_runId b \<and>
       (ro_idempotencyKey a = ro_idempotencyKey b \<or> rr_status a = RecInProgress \<and> rr_status b = RecInProgress))"

definition event_clash :: "recovery_event_row \<Rightarrow> recovery_event_row \<Rightarrow> bool" where
  "event_clash a b = (re_eventId a = re_eventId b)"

definition session_check :: "session_row \<Rightarrow> bool" where
  "session_check r = (0 < es_processId r \<and> text_between 1 160 (es_hostId r) \<and>
     es_closeKind r \<in> {None, Some ''clean'', Some ''unclean-detected''})"

definition session_clash :: "session_row \<Rightarrow> session_row \<Rightarrow> bool" where
  "session_clash a b = (es_sessionId a = es_sessionId b)"

section \<open>The tables as instances\<close>

interpretation jobs_table: sql_table job_check job_clash pj_jobId
  by unfold_locales (simp add: job_clash_def)

interpretation job_identities: sql_table job_check job_clash job_identity
  by unfold_locales (simp add: job_clash_def)

interpretation attempts_table: sql_table attempt_check attempt_clash pa_claimToken
  by unfold_locales (simp add: attempt_clash_def)

interpretation attempt_numbers: sql_table attempt_check attempt_clash "\<lambda>a. (pa_jobId a, pa_attemptNumber a)"
  by unfold_locales (simp add: attempt_clash_def)

interpretation transitions_table: sql_table transition_check transition_clash pt_transitionId
  by unfold_locales (simp add: transition_clash_def)

interpretation discoveries_table: sql_table discovery_check discovery_clash "\<lambda>d. (pd_childJobId d, dr_key d)"
  by unfold_locales (simp add: discovery_clash_def)

interpretation decisions_table: sql_table decision_check decision_clash "\<lambda>s. (sd_decisionId s, sr_projectId s, sr_runId s)"
  by unfold_locales (simp add: decision_clash_def)

interpretation operations_table: sql_table operation_check operation_clash "\<lambda>r. (oq_projectId r, oq_type r, oq_key r)"
  by unfold_locales (simp add: operation_clash_def)

interpretation controls_table: sql_table control_check control_clash "\<lambda>r. (ct_projectId r, ct_runId r)"
  by unfold_locales (simp add: control_clash_def)

interpretation leases_table: sql_table lease_check lease_clash jl_leaseId
  by unfold_locales (simp add: lease_clash_def)

interpretation lease_generations: sql_table lease_check lease_clash "\<lambda>l. (jl_jobId l, jl_fencingGeneration l)"
  by unfold_locales (simp add: lease_clash_def)

interpretation checkpoints_table: sql_table checkpoint_check checkpoint_clash jc_checkpointId
  by unfold_locales (simp add: checkpoint_clash_def)

interpretation run_checkpoints_table: sql_table run_checkpoint_check run_checkpoint_clash rc_checkpointId
  by unfold_locales (simp add: run_checkpoint_clash_def)

interpretation artifacts_table: sql_table artifact_check artifact_clash ac_artifactCheckpointId
  by unfold_locales (simp add: artifact_clash_def)

interpretation outputs_table: sql_table output_check output_clash "\<lambda>r. (od_jobId r, od_relativePath r)"
  by unfold_locales (simp add: output_clash_def)

interpretation recoveries_table: sql_table recovery_check recovery_clash rr_recoveryOperationId
  by unfold_locales (simp add: recovery_clash_def)

interpretation events_table: sql_table "\<lambda>_. True" event_clash re_eventId
  by unfold_locales (simp add: event_clash_def)

interpretation sessions_table: sql_table session_check session_clash es_sessionId
  by unfold_locales (simp add: session_clash_def)

text \<open>The constraints of the whole database, with the AUTOINCREMENT counters above every key handed out.\<close>

definition schema_ok :: "db \<Rightarrow> bool" where
  "schema_ok d =
     (table_ok job_check job_clash (db_jobs d) \<and> list_all (\<lambda>r. pj_queueSequence r \<le> db_jobSequence d) (db_jobs d) \<and>
      table_ok attempt_check attempt_clash (db_attempts d) \<and>
      table_ok transition_check transition_clash (db_transitions d) \<and>
      table_ok discovery_check discovery_clash (db_discoveries d) \<and>
      table_ok decision_check decision_clash (db_decisions d) \<and>
      table_ok operation_check operation_clash (db_operations d) \<and>
      table_ok control_check control_clash (db_controls d) \<and>
      table_ok lease_check lease_clash (db_leases d) \<and>
      table_ok checkpoint_check checkpoint_clash (db_checkpoints d) \<and>
      list_all (\<lambda>r. jc_sequence r \<le> db_checkpointSequence d) (db_checkpoints d) \<and>
      table_ok run_checkpoint_check run_checkpoint_clash (db_runCheckpoints d) \<and>
      list_all (\<lambda>r. rc_sequence r \<le> db_runCheckpointSequence d) (db_runCheckpoints d) \<and>
      table_ok artifact_check artifact_clash (db_artifacts d) \<and>
      table_ok output_check output_clash (db_outputs d) \<and>
      table_ok recovery_check recovery_clash (db_recoveries d) \<and>
      table_ok (\<lambda>_. True) event_clash (db_recoveryEvents d) \<and>
      table_ok session_check session_clash (db_sessions d))"

end
