(* ===== verification/Transactions.thy ===== *)
theory Transactions
  imports Schema
begin

text \<open>
  Transactions over the Project database: the \<open>transaction\<close> helper of the two repositories and
  the statements they issue. The clock, the identifier generator, SHA-256 and the collation of
  \<open>localeCompare\<close> come from outside the repository and form the environment; the n-th reading of
  the clock is \<open>now_at E n\<close>. A body that throws rolls the database back; clock readings and drawn
  identifiers are not undone.
\<close>

section \<open>Sessions and bodies\<close>

record env =
  now_at :: "nat \<Rightarrow> string"
  uuid_at :: "nat \<Rightarrow> string"
  sha256 :: "string \<Rightarrow> string"
  collation :: "string \<Rightarrow> string"

record sess =
  s_db :: db
  s_ticks :: nat
  s_draws :: nat

type_synonym 'a tx = "sess \<Rightarrow> (op_error + 'a) \<times> sess"

definition tx_ret :: "'a \<Rightarrow> 'a tx" where "tx_ret a s = (Inr a, s)"
definition tx_throw :: "op_error \<Rightarrow> 'a tx" where "tx_throw e s = (Inl e, s)"

definition tx_bind :: "'a tx \<Rightarrow> ('a \<Rightarrow> 'b tx) \<Rightarrow> 'b tx" where
  "tx_bind m f s = (case m s of (Inl e, s1) \<Rightarrow> (Inl e, s1) | (Inr a, s1) \<Rightarrow> f a s1)"

definition tx_lift :: "op_error + 'a \<Rightarrow> 'a tx" where "tx_lift x s = (x, s)"
definition tx_guard :: "bool \<Rightarrow> op_error \<Rightarrow> unit tx" where "tx_guard b e s = (ensure b e, s)"
definition tx_gets :: "(db \<Rightarrow> 'a) \<Rightarrow> 'a tx" where "tx_gets f s = (Inr (f (s_db s)), s)"

definition tx_now :: "env \<Rightarrow> string tx" where
  "tx_now E s = (Inr (now_at E (s_ticks s)), s\<lparr>s_ticks := Suc (s_ticks s)\<rparr>)"

definition tx_id :: "env \<Rightarrow> string tx" where
  "tx_id E s = (Inr (uuid_at E (s_draws s)), s\<lparr>s_draws := Suc (s_draws s)\<rparr>)"

text \<open>A statement that may break a constraint.\<close>

definition tx_sql :: "(db \<Rightarrow> db option) \<Rightarrow> unit tx" where
  "tx_sql u s = (case u (s_db s) of None \<Rightarrow> (Inl SqliteError, s) | Some d \<Rightarrow> (Inr (), s\<lparr>s_db := d\<rparr>))"

text \<open>\<open>row === undefined\<close> as a throw.\<close>

definition tx_found :: "'a option \<Rightarrow> op_error \<Rightarrow> 'a tx" where
  "tx_found x e = (case x of None \<Rightarrow> tx_throw e | Some a \<Rightarrow> tx_ret a)"

fun tx_each :: "('a \<Rightarrow> 'b tx) \<Rightarrow> 'a list \<Rightarrow> 'b list tx" where
  "tx_each f [] = tx_ret []"
| "tx_each f (x # xs) = tx_bind (f x) (\<lambda>y. tx_bind (tx_each f xs) (\<lambda>ys. tx_ret (y # ys)))"

text \<open>The \<open>transaction\<close> of the queue repository and of the Recovery repository.\<close>

definition is_queue_error :: "op_error \<Rightarrow> bool" where
  "is_queue_error e = (case e of QueueError _ \<Rightarrow> True | _ \<Rightarrow> False)"

definition is_operation_error :: "op_error \<Rightarrow> bool" where
  "is_operation_error e = (case e of QueueError _ \<Rightarrow> True | RecoveryError _ \<Rightarrow> True | _ \<Rightarrow> False)"

definition run_transaction :: "(op_error \<Rightarrow> bool) \<Rightarrow> op_error \<Rightarrow> 'a tx \<Rightarrow> 'a tx" where
  "run_transaction keep failed m s = (case m s of
     (Inr a, s') \<Rightarrow> (Inr a, s')
   | (Inl e, s') \<Rightarrow> (Inl (if keep e then e else failed), s'\<lparr>s_db := s_db s\<rparr>))"

definition queue_transaction :: "'a tx \<Rightarrow> 'a tx" where
  "queue_transaction m = run_transaction is_queue_error (QueueError QUEUE_TRANSACTION_FAILED) m"

definition recovery_transaction :: "'a tx \<Rightarrow> 'a tx" where
  "recovery_transaction m = run_transaction is_operation_error (RecoveryError RECOVERY_TRANSACTION_FAILED) m"

lemmas tx_defs = tx_ret_def tx_throw_def tx_bind_def tx_lift_def tx_guard_def tx_gets_def tx_now_def
  tx_id_def tx_sql_def tx_found_def

section \<open>Postconditions\<close>

text \<open>
  \<open>tx_post m Q d\<close>: whenever \<open>m\<close> succeeds from the database \<open>d\<close>, whatever the clock and the
  generator yield, \<open>Q\<close> holds of its value and of the database it leaves.
\<close>

definition tx_post :: "'a tx \<Rightarrow> ('a \<Rightarrow> db \<Rightarrow> bool) \<Rightarrow> db \<Rightarrow> bool" where
  "tx_post m Q d = (\<forall>s a s'. s_db s = d \<longrightarrow> m s = (Inr a, s') \<longrightarrow> Q a (s_db s'))"

named_theorems post_intros \<open>rules that compute a sufficient precondition of a transaction body\<close>

lemma tx_postI: "(\<And>s a s'. s_db s = d \<Longrightarrow> m s = (Inr a, s') \<Longrightarrow> Q a (s_db s')) \<Longrightarrow> tx_post m Q d"
  by (simp add: tx_post_def)

lemma tx_postD: "tx_post m Q (s_db s) \<Longrightarrow> m s = (Inr a, s') \<Longrightarrow> Q a (s_db s')"
  by (simp add: tx_post_def)

lemma tx_post_mono: "tx_post m Q d \<Longrightarrow> (\<And>a d'. Q a d' \<Longrightarrow> Q' a d') \<Longrightarrow> tx_post m Q' d"
  by (auto simp: tx_post_def)

lemma post_ret [post_intros]: "Q a d \<Longrightarrow> tx_post (tx_ret a) Q d"
  by (simp add: tx_post_def tx_ret_def)

lemma post_throw [post_intros]: "tx_post (tx_throw e) Q d"
  by (simp add: tx_post_def tx_throw_def)

lemma post_bind [post_intros]: "tx_post m (\<lambda>a d'. tx_post (f a) Q d') d \<Longrightarrow> tx_post (tx_bind m f) Q d"
  by (auto simp: tx_post_def tx_bind_def split: prod.splits sum.splits)

lemma post_lift [post_intros]: "(\<And>a. x = Inr a \<Longrightarrow> Q a d) \<Longrightarrow> tx_post (tx_lift x) Q d"
  by (simp add: tx_post_def tx_lift_def)

lemma post_guard [post_intros]: "(b \<Longrightarrow> Q () d) \<Longrightarrow> tx_post (tx_guard b e) Q d"
  by (auto simp: tx_post_def tx_guard_def ensure_Inr_iff)

lemma post_gets [post_intros]: "Q (f d) d \<Longrightarrow> tx_post (tx_gets f) Q d"
  by (auto simp: tx_post_def tx_gets_def)

lemma post_now [post_intros]: "(\<And>t. Q t d) \<Longrightarrow> tx_post (tx_now E) Q d"
  by (auto simp: tx_post_def tx_now_def)

lemma post_id [post_intros]: "(\<And>i. Q i d) \<Longrightarrow> tx_post (tx_id E) Q d"
  by (auto simp: tx_post_def tx_id_def)

lemma post_sql [post_intros]: "(\<And>d'. u d = Some d' \<Longrightarrow> Q () d') \<Longrightarrow> tx_post (tx_sql u) Q d"
  by (auto simp: tx_post_def tx_sql_def split: option.splits)

lemma post_found [post_intros]: "(\<And>a. x = Some a \<Longrightarrow> Q a d) \<Longrightarrow> tx_post (tx_found x e) Q d"
  by (auto simp: tx_post_def tx_found_def tx_ret_def tx_throw_def split: option.splits)

lemma post_if [post_intros]:
  "(b \<Longrightarrow> tx_post m Q d) \<Longrightarrow> (\<not> b \<Longrightarrow> tx_post n Q d) \<Longrightarrow> tx_post (if b then m else n) Q d"
  by simp

lemma post_option [post_intros]:
  "(x = None \<Longrightarrow> tx_post m Q d) \<Longrightarrow> (\<And>a. x = Some a \<Longrightarrow> tx_post (f a) Q d) \<Longrightarrow>
     tx_post (case x of None \<Rightarrow> m | Some a \<Rightarrow> f a) Q d"
  by (cases x) auto

lemma post_prod [post_intros]:
  "(\<And>a b. x = (a, b) \<Longrightarrow> tx_post (f a b) Q d) \<Longrightarrow> tx_post (case x of (a, b) \<Rightarrow> f a b) Q d"
  by (cases x) auto

text \<open>A loop keeps what each of its iterations keeps.\<close>

lemma post_each:
  assumes "\<And>x d. x \<in> set xs \<Longrightarrow> I d \<Longrightarrow> tx_post (f x) (\<lambda>_ d'. I d') d" "I d"
  shows "tx_post (tx_each f xs) (\<lambda>_ d'. I d') d"
  using assms
proof (induction xs arbitrary: d)
  case Nil
  then show ?case by (simp add: tx_post_def tx_ret_def)
next
  case (Cons x xs)
  have step: "tx_post (tx_each f xs) (\<lambda>_ d'. I d') d'" if "I d'" for d'
    using Cons.IH[of d'] Cons.prems that by simp
  have "tx_post (f x) (\<lambda>_ d'. I d') d" using Cons.prems by simp
  then show ?case
    unfolding tx_each.simps
    by (intro post_bind) (auto intro!: post_bind post_ret elim!: tx_post_mono dest: step)
qed

section \<open>Atomicity\<close>

lemma run_transaction_Inr [result_simps]:
  "run_transaction keep failed m s = (Inr a, s') \<longleftrightarrow> m s = (Inr a, s')"
  by (auto simp: run_transaction_def split: prod.splits sum.splits)

lemma queue_transaction_Inr [result_simps]: "queue_transaction m s = (Inr a, s') \<longleftrightarrow> m s = (Inr a, s')"
  by (simp add: queue_transaction_def run_transaction_Inr)

lemma recovery_transaction_Inr [result_simps]: "recovery_transaction m s = (Inr a, s') \<longleftrightarrow> m s = (Inr a, s')"
  by (simp add: recovery_transaction_def run_transaction_Inr)

lemma post_queue_transaction [post_intros]: "tx_post m Q d \<Longrightarrow> tx_post (queue_transaction m) Q d"
  by (simp add: tx_post_def queue_transaction_Inr)

lemma post_recovery_transaction [post_intros]: "tx_post m Q d \<Longrightarrow> tx_post (recovery_transaction m) Q d"
  by (simp add: tx_post_def recovery_transaction_Inr)

text \<open>
  What a client of a repository may rely on: an operation either succeeds or leaves the database
  as it was, and then throws an error of the repository's own kind.
\<close>

definition atomic_op :: "(op_error \<Rightarrow> bool) \<Rightarrow> 'a tx \<Rightarrow> bool" where
  "atomic_op keep m = (\<forall>s e s'. m s = (Inl e, s') \<longrightarrow> s_db s' = s_db s \<and> keep e)"

lemma run_transaction_atomic: "keep failed \<Longrightarrow> atomic_op keep (run_transaction keep failed m)"
  by (auto simp: atomic_op_def run_transaction_def split: prod.splits sum.splits)

lemma queue_transaction_atomic: "atomic_op is_queue_error (queue_transaction m)"
  unfolding queue_transaction_def by (rule run_transaction_atomic) (simp add: is_queue_error_def)

lemma recovery_transaction_atomic: "atomic_op is_operation_error (recovery_transaction m)"
  unfolding recovery_transaction_def by (rule run_transaction_atomic) (simp add: is_operation_error_def)

locale transactional =
  fixes wrap :: "'a tx \<Rightarrow> 'a tx" and keep :: "op_error \<Rightarrow> bool"
  assumes atomic: "atomic_op keep (wrap m)"
    and commits: "wrap m s = (Inr a, s') \<longleftrightarrow> m s = (Inr a, s')"
begin

text \<open>An invariant that the body keeps on success is kept by the transaction, whatever happens.\<close>

lemma keeps_invariant:
  assumes "tx_post m (\<lambda>_ d'. P d') (s_db s)" "P (s_db s)"
  shows "P (s_db (snd (wrap m s)))"
proof (cases "fst (wrap m s)")
  case (Inl e)
  then have "wrap m s = (Inl e, snd (wrap m s))" by (metis prod.collapse)
  then have "s_db (snd (wrap m s)) = s_db s" using atomic[of m] unfolding atomic_op_def by blast
  then show ?thesis using assms(2) by simp
next
  case (Inr a)
  then have "wrap m s = (Inr a, snd (wrap m s))" by (metis prod.collapse)
  then have "m s = (Inr a, snd (wrap m s))" using commits by blast
  then show ?thesis using assms(1) by (rule tx_postD[rotated])
qed

lemma failure_is_silent: "wrap m s = (Inl e, s') \<Longrightarrow> s_db s' = s_db s"
  using atomic[of m] by (auto simp: atomic_op_def)

lemma failure_kind: "wrap m s = (Inl e, s') \<Longrightarrow> keep e"
  using atomic[of m] by (auto simp: atomic_op_def)

end

interpretation queue_tx: transactional queue_transaction is_queue_error
  by unfold_locales (auto simp: queue_transaction_atomic queue_transaction_Inr)

interpretation recovery_tx: transactional recovery_transaction is_operation_error
  by unfold_locales (auto simp: recovery_transaction_atomic recovery_transaction_Inr)

section \<open>Statements\<close>

definition insert_job :: "job_row \<Rightarrow> db \<Rightarrow> db option" where
  "insert_job r d = map_option (\<lambda>rows. d\<lparr>db_jobs := rows, db_jobSequence := pj_queueSequence r\<rparr>)
     (sql_insert job_check job_clash (job_fk d r) r (db_jobs d))"

definition update_jobs :: "(job_row \<Rightarrow> bool) \<Rightarrow> (job_row \<Rightarrow> job_row) \<Rightarrow> db \<Rightarrow> db option" where
  "update_jobs p f d = map_option (\<lambda>rows. d\<lparr>db_jobs := rows\<rparr>) (sql_update job_check job_clash p f (db_jobs d))"

definition insert_attempt :: "attempt_row \<Rightarrow> db \<Rightarrow> db option" where
  "insert_attempt r d = map_option (\<lambda>rows. d\<lparr>db_attempts := rows\<rparr>)
     (sql_insert attempt_check attempt_clash (job_exists d (pa_jobId r)) r (db_attempts d))"

definition update_attempts :: "(attempt_row \<Rightarrow> bool) \<Rightarrow> (attempt_row \<Rightarrow> attempt_row) \<Rightarrow> db \<Rightarrow> db option" where
  "update_attempts p f d =
     map_option (\<lambda>rows. d\<lparr>db_attempts := rows\<rparr>) (sql_update attempt_check attempt_clash p f (db_attempts d))"

definition insert_transition :: "transition_row \<Rightarrow> db \<Rightarrow> db option" where
  "insert_transition r d = map_option (\<lambda>rows. d\<lparr>db_transitions := rows\<rparr>)
     (sql_insert transition_check transition_clash (job_exists d (pt_jobId r)) r (db_transitions d))"

definition insert_discovery :: "discovery_row \<Rightarrow> db \<Rightarrow> db option" where
  "insert_discovery r d = map_option (\<lambda>rows. d\<lparr>db_discoveries := rows\<rparr>)
     (sql_insert_or_ignore discovery_check discovery_clash (discovery_fk d r) r (db_discoveries d))"

definition insert_decision :: "decision_row \<Rightarrow> db \<Rightarrow> db option" where
  "insert_decision r d = map_option (\<lambda>rows. d\<lparr>db_decisions := rows\<rparr>)
     (sql_insert_or_ignore decision_check decision_clash
        (owner_fk d (sr_projectId r) (sr_runId r) \<and> profile_fk d (sd_profileId r) (sd_profileRevisionId r))
        r (db_decisions d))"

definition insert_operation :: "operation_row \<Rightarrow> db \<Rightarrow> db option" where
  "insert_operation r d = map_option (\<lambda>rows. d\<lparr>db_operations := rows\<rparr>)
     (sql_insert operation_check operation_clash (owner_fk d (oq_projectId r) (oq_runId r)) r (db_operations d))"

definition update_controls :: "(control_row \<Rightarrow> bool) \<Rightarrow> (control_row \<Rightarrow> control_row) \<Rightarrow> db \<Rightarrow> db option" where
  "update_controls p f d =
     map_option (\<lambda>rows. d\<lparr>db_controls := rows\<rparr>) (sql_update control_check control_clash p f (db_controls d))"

definition insert_lease :: "lease_row \<Rightarrow> db \<Rightarrow> db option" where
  "insert_lease r d = map_option (\<lambda>rows. d\<lparr>db_leases := rows\<rparr>)
     (sql_insert lease_check lease_clash
        (job_exists d (jl_jobId r) \<and> owner_fk d (jl_projectId r) (jl_runId r)) r (db_leases d))"

definition update_leases :: "(lease_row \<Rightarrow> bool) \<Rightarrow> (lease_row \<Rightarrow> lease_row) \<Rightarrow> db \<Rightarrow> db option" where
  "update_leases p f d =
     map_option (\<lambda>rows. d\<lparr>db_leases := rows\<rparr>) (sql_update lease_check lease_clash p f (db_leases d))"

definition insert_checkpoint :: "checkpoint_row \<Rightarrow> db \<Rightarrow> db option" where
  "insert_checkpoint r d = map_option (\<lambda>rows. d\<lparr>db_checkpoints := rows, db_checkpointSequence := jc_sequence r\<rparr>)
     (sql_insert checkpoint_check checkpoint_clash
        (job_exists d (jc_jobId r) \<and> (case jc_supersedesCheckpointId r of None \<Rightarrow> True
           | Some c \<Rightarrow> list_ex (\<lambda>x. jc_checkpointId x = c) (db_checkpoints d))) r (db_checkpoints d))"

definition insert_run_checkpoint :: "run_checkpoint_row \<Rightarrow> db \<Rightarrow> db option" where
  "insert_run_checkpoint r d =
     map_option (\<lambda>rows. d\<lparr>db_runCheckpoints := rows, db_runCheckpointSequence := rc_sequence r\<rparr>)
     (sql_insert run_checkpoint_check run_checkpoint_clash (owner_fk d (rc_projectId r) (rc_runId r)) r (db_runCheckpoints d))"

definition insert_artifact :: "artifact_row \<Rightarrow> db \<Rightarrow> db option" where
  "insert_artifact r d = map_option (\<lambda>rows. d\<lparr>db_artifacts := rows\<rparr>)
     (sql_insert artifact_check artifact_clash (job_exists d (ac_jobId r)) r (db_artifacts d))"

definition insert_output :: "output_descriptor \<Rightarrow> db \<Rightarrow> db option" where
  "insert_output r d = map_option (\<lambda>rows. d\<lparr>db_outputs := rows\<rparr>)
     (sql_insert output_check output_clash (job_exists d (od_jobId r)) r (db_outputs d))"

definition update_outputs :: "(output_descriptor \<Rightarrow> bool) \<Rightarrow> (output_descriptor \<Rightarrow> output_descriptor) \<Rightarrow> db \<Rightarrow> db option" where
  "update_outputs p f d =
     map_option (\<lambda>rows. d\<lparr>db_outputs := rows\<rparr>) (sql_update output_check output_clash p f (db_outputs d))"

definition insert_recovery :: "recovery_row \<Rightarrow> db \<Rightarrow> db option" where
  "insert_recovery r d = map_option (\<lambda>rows. d\<lparr>db_recoveries := rows\<rparr>)
     (sql_insert recovery_check recovery_clash (owner_fk d (rr_projectId r) (rr_runId r)) r (db_recoveries d))"

definition update_recoveries :: "(recovery_row \<Rightarrow> bool) \<Rightarrow> (recovery_row \<Rightarrow> recovery_row) \<Rightarrow> db \<Rightarrow> db option" where
  "update_recoveries p f d =
     map_option (\<lambda>rows. d\<lparr>db_recoveries := rows\<rparr>) (sql_update recovery_check recovery_clash p f (db_recoveries d))"

definition insert_event :: "recovery_event_row \<Rightarrow> db \<Rightarrow> db option" where
  "insert_event r d = map_option (\<lambda>rows. d\<lparr>db_recoveryEvents := rows\<rparr>)
     (sql_insert (\<lambda>_. True) event_clash
        (owner_fk d (re_projectId r) (re_runId r) \<and> job_exists d (re_jobId r) \<and>
         (case re_recoveryOperationId r of None \<Rightarrow> True
          | Some i \<Rightarrow> list_ex (\<lambda>x. rr_recoveryOperationId x = i) (db_recoveries d))) r (db_recoveryEvents d))"

definition insert_session :: "session_row \<Rightarrow> db \<Rightarrow> db option" where
  "insert_session r d = map_option (\<lambda>rows. d\<lparr>db_sessions := rows\<rparr>)
     (sql_insert session_check session_clash (owner_fk d (es_projectId r) (es_runId r)) r (db_sessions d))"

definition update_sessions :: "(session_row \<Rightarrow> bool) \<Rightarrow> (session_row \<Rightarrow> session_row) \<Rightarrow> db \<Rightarrow> db option" where
  "update_sessions p f d =
     map_option (\<lambda>rows. d\<lparr>db_sessions := rows\<rparr>) (sql_update session_check session_clash p f (db_sessions d))"

section \<open>Statements keep the constraints\<close>

named_theorems statement_defs \<open>the SQL statements on the database\<close>

lemmas [statement_defs] = insert_job_def update_jobs_def insert_attempt_def update_attempts_def
  insert_transition_def insert_discovery_def insert_decision_def insert_operation_def
  update_controls_def insert_lease_def update_leases_def insert_checkpoint_def
  insert_run_checkpoint_def insert_artifact_def insert_output_def update_outputs_def
  insert_recovery_def update_recoveries_def insert_event_def insert_session_def update_sessions_def

named_theorems schema_intros \<open>statements that keep the constraints\<close>

lemma insert_below:
  "sql_insert check clash fk r rows = Some rows' \<Longrightarrow> list_all (\<lambda>x. k x \<le> (n::int)) rows \<Longrightarrow> n \<le> k r \<Longrightarrow>
     list_all (\<lambda>x. k x \<le> k r) rows'"
  by (auto simp: sql_insert_def list_all_iff intro: order_trans split: if_splits)

lemma update_below:
  assumes "sql_update check clash p f rows = Some rows'" "list_all (\<lambda>x. k x \<le> (n::int)) rows"
    and "\<And>x. k (f x) = k x"
  shows "list_all (\<lambda>x. k x \<le> n) rows'"
  using assms by (auto simp: sql_update_def Let_def list_all_iff set_update_where split: if_splits)

lemma insert_job_schema [schema_intros]:
  assumes "insert_job r d = Some d'" "schema_ok d" "db_jobSequence d \<le> pj_queueSequence r"
  shows "schema_ok d'"
proof -
  obtain rows where rows: "sql_insert job_check job_clash (job_fk d r) r (db_jobs d) = Some rows"
    and d': "d' = d\<lparr>db_jobs := rows, db_jobSequence := pj_queueSequence r\<rparr>"
    using assms(1) by (auto simp: insert_job_def)
  have "table_ok job_check job_clash rows" "list_all (\<lambda>r'. pj_queueSequence r' \<le> pj_queueSequence r) rows"
    using rows assms(2,3) unfolding schema_ok_def
    by (blast intro: jobs_table.insert_ok, blast intro: insert_below[where k = pj_queueSequence])
  then show ?thesis using assms(2) unfolding d' by (simp add: schema_ok_def)
qed

lemma update_jobs_schema [schema_intros]:
  assumes "update_jobs p f d = Some d'" "schema_ok d" and keep: "\<And>r. pj_queueSequence (f r) = pj_queueSequence r"
  shows "schema_ok d'"
proof -
  obtain rows where rows: "sql_update job_check job_clash p f (db_jobs d) = Some rows"
    and d': "d' = d\<lparr>db_jobs := rows\<rparr>"
    using assms(1) by (auto simp: update_jobs_def)
  have "table_ok job_check job_clash rows" by (rule jobs_table.update_ok[OF rows])
  moreover have "list_all (\<lambda>r. pj_queueSequence r \<le> db_jobSequence d) rows"
    using assms(2) unfolding schema_ok_def
    by (intro update_below[OF rows, where k = pj_queueSequence]) (blast, rule keep)
  ultimately show ?thesis using assms(2) unfolding d' by (simp add: schema_ok_def)
qed

lemma insert_attempt_schema [schema_intros]: "insert_attempt r d = Some d' \<Longrightarrow> schema_ok d \<Longrightarrow> schema_ok d'"
  by (auto simp: insert_attempt_def schema_ok_def intro: attempts_table.insert_ok)

lemma update_attempts_schema [schema_intros]: "update_attempts p f d = Some d' \<Longrightarrow> schema_ok d \<Longrightarrow> schema_ok d'"
  by (auto simp: update_attempts_def schema_ok_def intro: attempts_table.update_ok)

lemma insert_transition_schema [schema_intros]: "insert_transition r d = Some d' \<Longrightarrow> schema_ok d \<Longrightarrow> schema_ok d'"
  by (auto simp: insert_transition_def schema_ok_def intro: transitions_table.insert_ok)

lemma insert_discovery_schema [schema_intros]: "insert_discovery r d = Some d' \<Longrightarrow> schema_ok d \<Longrightarrow> schema_ok d'"
  by (auto simp: insert_discovery_def schema_ok_def intro: discoveries_table.insert_or_ignore_ok)

lemma insert_decision_schema [schema_intros]: "insert_decision r d = Some d' \<Longrightarrow> schema_ok d \<Longrightarrow> schema_ok d'"
  by (auto simp: insert_decision_def schema_ok_def intro: decisions_table.insert_or_ignore_ok)

lemma insert_operation_schema [schema_intros]: "insert_operation r d = Some d' \<Longrightarrow> schema_ok d \<Longrightarrow> schema_ok d'"
  by (auto simp: insert_operation_def schema_ok_def intro: operations_table.insert_ok)

lemma update_controls_schema [schema_intros]: "update_controls p f d = Some d' \<Longrightarrow> schema_ok d \<Longrightarrow> schema_ok d'"
  by (auto simp: update_controls_def schema_ok_def intro: controls_table.update_ok)

lemma insert_lease_schema [schema_intros]: "insert_lease r d = Some d' \<Longrightarrow> schema_ok d \<Longrightarrow> schema_ok d'"
  by (auto simp: insert_lease_def schema_ok_def intro: leases_table.insert_ok)

lemma update_leases_schema [schema_intros]: "update_leases p f d = Some d' \<Longrightarrow> schema_ok d \<Longrightarrow> schema_ok d'"
  by (auto simp: update_leases_def schema_ok_def intro: leases_table.update_ok)

lemma insert_checkpoint_schema [schema_intros]:
  assumes "insert_checkpoint r d = Some d'" "schema_ok d" "db_checkpointSequence d \<le> jc_sequence r"
  shows "schema_ok d'"
proof -
  obtain fk rows where rows: "sql_insert checkpoint_check checkpoint_clash fk r (db_checkpoints d) = Some rows"
    and d': "d' = d\<lparr>db_checkpoints := rows, db_checkpointSequence := jc_sequence r\<rparr>"
    using assms(1) unfolding insert_checkpoint_def by blast
  have "table_ok checkpoint_check checkpoint_clash rows" "list_all (\<lambda>r'. jc_sequence r' \<le> jc_sequence r) rows"
    using rows assms(2,3) unfolding schema_ok_def
    by (blast intro: checkpoints_table.insert_ok, blast intro: insert_below[where k = jc_sequence])
  then show ?thesis using assms(2) unfolding d' by (simp add: schema_ok_def)
qed

lemma insert_run_checkpoint_schema [schema_intros]:
  assumes "insert_run_checkpoint r d = Some d'" "schema_ok d" "db_runCheckpointSequence d \<le> rc_sequence r"
  shows "schema_ok d'"
proof -
  obtain fk rows where rows: "sql_insert run_checkpoint_check run_checkpoint_clash fk r (db_runCheckpoints d) = Some rows"
    and d': "d' = d\<lparr>db_runCheckpoints := rows, db_runCheckpointSequence := rc_sequence r\<rparr>"
    using assms(1) unfolding insert_run_checkpoint_def by blast
  have "table_ok run_checkpoint_check run_checkpoint_clash rows" "list_all (\<lambda>r'. rc_sequence r' \<le> rc_sequence r) rows"
    using rows assms(2,3) unfolding schema_ok_def
    by (blast intro: run_checkpoints_table.insert_ok, blast intro: insert_below[where k = rc_sequence])
  then show ?thesis using assms(2) unfolding d' by (simp add: schema_ok_def)
qed

lemma insert_artifact_schema [schema_intros]: "insert_artifact r d = Some d' \<Longrightarrow> schema_ok d \<Longrightarrow> schema_ok d'"
  by (auto simp: insert_artifact_def schema_ok_def intro: artifacts_table.insert_ok)

lemma insert_output_schema [schema_intros]: "insert_output r d = Some d' \<Longrightarrow> schema_ok d \<Longrightarrow> schema_ok d'"
  by (auto simp: insert_output_def schema_ok_def intro: outputs_table.insert_ok)

lemma update_outputs_schema [schema_intros]: "update_outputs p f d = Some d' \<Longrightarrow> schema_ok d \<Longrightarrow> schema_ok d'"
  by (auto simp: update_outputs_def schema_ok_def intro: outputs_table.update_ok)

lemma insert_recovery_schema [schema_intros]: "insert_recovery r d = Some d' \<Longrightarrow> schema_ok d \<Longrightarrow> schema_ok d'"
  by (auto simp: insert_recovery_def schema_ok_def intro: recoveries_table.insert_ok)

lemma update_recoveries_schema [schema_intros]: "update_recoveries p f d = Some d' \<Longrightarrow> schema_ok d \<Longrightarrow> schema_ok d'"
  by (auto simp: update_recoveries_def schema_ok_def intro: recoveries_table.update_ok)

lemma insert_event_schema [schema_intros]: "insert_event r d = Some d' \<Longrightarrow> schema_ok d \<Longrightarrow> schema_ok d'"
  by (auto simp: insert_event_def schema_ok_def intro: events_table.insert_ok)

lemma insert_session_schema [schema_intros]: "insert_session r d = Some d' \<Longrightarrow> schema_ok d \<Longrightarrow> schema_ok d'"
  by (auto simp: insert_session_def schema_ok_def intro: sessions_table.insert_ok)

lemma update_sessions_schema [schema_intros]: "update_sessions p f d = Some d' \<Longrightarrow> schema_ok d \<Longrightarrow> schema_ok d'"
  by (auto simp: update_sessions_def schema_ok_def intro: sessions_table.update_ok)

end
