(* ===== verification/Queue_Repo.thy ===== *)
theory Queue_Repo
  imports Transactions
begin

text \<open>
  packages/persistence-sqlite/src/queue.ts: the durable Page Job queue. Every operation of the
  repository is a transaction body over the database of Schema. Reading a row back after a write is
  written out, as in the code; the event callback, which has no effect on the store, is left out.
\<close>

section \<open>Rows as records\<close>

definition row_to_job :: "job_row \<Rightarrow> page_job" where
  "row_to_job r = (page_job.truncate r)\<lparr>pj_state := (case jr_recoveryState r of None \<Rightarrow> pj_state r | Some s \<Rightarrow> s)\<rparr>"

definition row_to_discovery :: "discovery_row \<Rightarrow> page_job_discovery" where
  "row_to_discovery r = page_job_discovery.truncate r"

definition row_to_transition :: "transition_row \<Rightarrow> page_job_transition" where
  "row_to_transition r = (page_job_transition.truncate r)
     \<lparr>pt_fromState := (case tr_recoveryFrom r of Some s \<Rightarrow> Some s | None \<Rightarrow> pt_fromState r),
      pt_toState := (case tr_recoveryTo r of Some s \<Rightarrow> s | None \<Rightarrow> pt_toState r)\<rparr>"

definition row_to_attempt :: "attempt_row \<Rightarrow> page_job_attempt" where
  "row_to_attempt r = (page_job_attempt.truncate r)
     \<lparr>pa_outcome := (case ar_recoveryOutcome r of Some x \<Rightarrow> x | None \<Rightarrow> pa_outcome r)\<rparr>"

definition blocked_reasons :: "string list \<Rightarrow> bool" where
  "blocked_reasons reasons = list_ex (\<lambda>r. r = ''PROFILE_AUTHORIZATION_INCOMPLETE'' \<or>
     r = ''PRIVATE_NETWORK_NOT_ALLOWED'' \<or> ends_with r ''_DENIED'') reasons"

section \<open>Requests as JSON\<close>

definition obj :: "(string \<times> json option) list \<Rightarrow> json" where
  "obj kvs = JObj (List.map_filter (\<lambda>(k, v). map_option (Pair k) v) kvs)"

definition json_field :: "('a \<Rightarrow> json) \<Rightarrow> 'a field \<Rightarrow> json option" where
  "json_field f x = (case x of Absent \<Rightarrow> None | Null \<Rightarrow> Some JNull | Given a \<Rightarrow> Some (f a))"

definition idempotency_request :: "json \<Rightarrow> json" where
  "idempotency_request v = (case v of
     JObj kvs \<Rightarrow> JObj (filter (\<lambda>(k, _). k \<notin> {''idempotencyKey'', ''operationId'', ''correlationId''}) kvs)
   | _ \<Rightarrow> v)"

definition hash_json :: "env \<Rightarrow> json \<Rightarrow> string" where
  "hash_json E v = sha256 E (canonical_json v)"

definition json_strs :: "string list \<Rightarrow> json" where
  "json_strs xs = JArr (map JStr xs)"

definition decision_json :: "scope_snapshot \<Rightarrow> json" where
  "decision_json s = JObj [(''decisionId'', JStr (sd_decisionId s)), (''engineVersion'', JNum (sd_engineVersion s)),
     (''profileId'', JStr (sd_profileId s)), (''profileRevisionId'', JStr (sd_profileRevisionId s)),
     (''eligible'', JBool (sd_eligible s)), (''shouldQueue'', JBool (sd_shouldQueue s)),
     (''reasonCodes'', json_strs (sd_reasonCodes s)), (''normalizedUrl'', json_opt JStr (sd_normalizedUrl s)),
     (''identityUrl'', json_opt JStr (sd_identityUrl s)), (''identityHash'', json_opt JStr (sd_identityHash s)),
     (''displayUrl'', json_opt JStr (sd_displayUrl s)), (''depth'', json_num (sd_depth s)),
     (''matchedRuleIds'', json_strs (sd_matchedRuleIds s))]"

definition enqueue_json :: "enqueue_input \<Rightarrow> json" where
  "enqueue_json q = obj [(''projectId'', Some (JStr (qi_projectId q))), (''runId'', Some (JStr (qi_runId q))),
     (''projectRevisionId'', Some (JStr (qi_projectRevisionId q))),
     (''scopeDecision'', Some (decision_json (qi_scopeDecision q))),
     (''sourceContext'', Some (obj [(''parentJobId'', json_field JStr (qi_parentJobId q)),
        (''safeSourceUrl'', json_field JStr (qi_safeSourceUrl q)),
        (''discoveryType'', Some (JStr (discovery_text (qi_discoveryType q)))),
        (''sourceDepth'', json_field json_num (qi_sourceDepth q))])),
     (''requestedPriority'', map_option json_num (qi_requestedPriority q)),
     (''maxAttempts'', Some (json_num (qi_maxAttempts q))), (''maxPages'', Some (json_opt json_num (qi_maxPages q))),
     (''idempotencyKey'', Some (JStr (qi_idempotencyKey q))), (''operationId'', Some (JStr (qi_operationId q))),
     (''correlationId'', Some (JStr (qi_correlationId q)))]"

record op_context =
  oc_projectId :: string
  oc_runId :: string
  oc_idempotencyKey :: string
  oc_operationId :: string
  oc_correlationId :: string

definition context_json :: "('a op_context_scheme) \<Rightarrow> (string \<times> json option) list" where
  "context_json c = [(''projectId'', Some (JStr (oc_projectId c))), (''runId'', Some (JStr (oc_runId c))),
     (''idempotencyKey'', Some (JStr (oc_idempotencyKey c))), (''operationId'', Some (JStr (oc_operationId c))),
     (''correlationId'', Some (JStr (oc_correlationId c)))]"

record claim_input = op_context +
  ci_claimedBy :: string

record complete_input = op_context +
  co_jobId :: string
  co_claimToken :: string
  co_completionKey :: string
  co_resultSummary :: result_summary
  co_completedAt :: string

record fail_input = op_context +
  fi_jobId :: string
  fi_claimToken :: string
  fi_failureKey :: string
  fi_failureCode :: string
  fi_failureCategory :: failure_category
  fi_retryable :: bool
  fi_safeMessage :: string
  fi_failedAt :: string
  fi_nextEligibleAt :: "string option"

record retry_input = op_context +
  ti_jobId :: string
  ti_nextEligibleAt :: string
  ti_reasonCode :: string

record release_input = op_context +
  ri_dueAt :: string
  ri_limit :: jsnum

record terminal_input = op_context +
  mi_jobId :: string
  mi_reasonCode :: string
  mi_safeMessage :: string
  mi_claimToken :: "string option"

record clear_input = op_context +
  li_reasonCode :: string
  li_confirmation :: string

definition claim_json :: "claim_input \<Rightarrow> json" where
  "claim_json c = obj (context_json c @ [(''claimedBy'', Some (JStr (ci_claimedBy c)))])"

definition complete_json :: "complete_input \<Rightarrow> json" where
  "complete_json c = obj (context_json c @ [(''jobId'', Some (JStr (co_jobId c))),
     (''claimToken'', Some (JStr (co_claimToken c))), (''completionKey'', Some (JStr (co_completionKey c))),
     (''resultSummary'', Some (summary_json (co_resultSummary c))), (''completedAt'', Some (JStr (co_completedAt c)))])"

definition fail_json :: "fail_input \<Rightarrow> json" where
  "fail_json c = obj (context_json c @ [(''jobId'', Some (JStr (fi_jobId c))),
     (''claimToken'', Some (JStr (fi_claimToken c))), (''failureKey'', Some (JStr (fi_failureKey c))),
     (''failureCode'', Some (JStr (fi_failureCode c))),
     (''failureCategory'', Some (JStr (category_text (fi_failureCategory c)))),
     (''retryable'', Some (JBool (fi_retryable c))), (''safeMessage'', Some (JStr (fi_safeMessage c))),
     (''failedAt'', Some (JStr (fi_failedAt c))), (''nextEligibleAt'', map_option JStr (fi_nextEligibleAt c))])"

definition retry_json :: "retry_input \<Rightarrow> json" where
  "retry_json c = obj (context_json c @ [(''jobId'', Some (JStr (ti_jobId c))),
     (''nextEligibleAt'', Some (JStr (ti_nextEligibleAt c))), (''reasonCode'', Some (JStr (ti_reasonCode c)))])"

definition release_json :: "release_input \<Rightarrow> json" where
  "release_json c = obj (context_json c @ [(''dueAt'', Some (JStr (ri_dueAt c))), (''limit'', Some (json_num (ri_limit c)))])"

definition terminal_json :: "terminal_input \<Rightarrow> json" where
  "terminal_json c = obj (context_json c @ [(''jobId'', Some (JStr (mi_jobId c))),
     (''reasonCode'', Some (JStr (mi_reasonCode c))), (''safeMessage'', Some (JStr (mi_safeMessage c))),
     (''claimToken'', map_option JStr (mi_claimToken c))])"

definition clear_json :: "clear_input \<Rightarrow> json" where
  "clear_json c = obj (context_json c @ [(''reasonCode'', Some (JStr (li_reasonCode c))),
     (''confirmation'', Some (JStr (li_confirmation c)))])"

section \<open>Shared steps\<close>

definition find_job :: "string \<Rightarrow> string \<Rightarrow> string \<Rightarrow> db \<Rightarrow> job_row option" where
  "find_job p r j d = List.find (\<lambda>x. pj_projectId x = p \<and> pj_runId x = r \<and> pj_jobId x = j) (db_jobs d)"

definition get_job_row :: "string \<Rightarrow> string \<Rightarrow> string \<Rightarrow> job_row tx" where
  "get_job_row p r j = tx_bind (tx_gets (find_job p r j)) (\<lambda>x. tx_found x (QueueError QUEUE_JOB_NOT_FOUND))"

definition get_job :: "string \<Rightarrow> string \<Rightarrow> string \<Rightarrow> page_job tx" where
  "get_job p r j = tx_bind (get_job_row p r j) (\<lambda>x. tx_ret (row_to_job x))"

definition validate_ownership :: "string \<Rightarrow> string \<Rightarrow> unit tx" where
  "validate_ownership p r =
     tx_bind (tx_gets db_project) (\<lambda>x.
     tx_bind (tx_guard (x = Some p) (QueueError QUEUE_PROJECT_NOT_OPEN)) (\<lambda>_.
     tx_bind (tx_gets (\<lambda>d. (r, p) \<in> set (db_runs d))) (\<lambda>b.
     tx_guard b (QueueError QUEUE_RUN_NOT_FOUND))))"

definition active_lease :: "string \<Rightarrow> string \<Rightarrow> string \<Rightarrow> db \<Rightarrow> lease_row option" where
  "active_lease p r j d = List.find (\<lambda>l. jl_projectId l = p \<and> jl_runId l = r \<and> jl_jobId l = j \<and>
     jl_status l = LeaseActive) (db_leases d)"

text \<open>The clock is read only when the earlier tests pass.\<close>

definition validate_fenced_claim :: "env \<Rightarrow> page_job \<Rightarrow> string \<Rightarrow> unit tx" where
  "validate_fenced_claim E job token =
     (let invalid = QueueError QUEUE_CLAIM_TOKEN_INVALID in
      if pj_fencingGeneration job = 0 then tx_ret ()
      else tx_bind (tx_gets (active_lease (pj_projectId job) (pj_runId job) (pj_jobId job))) (\<lambda>lease.
        case lease of
          None \<Rightarrow> tx_throw invalid
        | Some l \<Rightarrow>
            if lr_tokenHash l \<noteq> sha256 E token \<or> jl_fencingGeneration l \<noteq> pj_fencingGeneration job
            then tx_throw invalid
            else tx_bind (tx_now E) (\<lambda>t. tx_guard (t < jl_expiresAt l) invalid)))"

definition idempotent :: "env \<Rightarrow> 'a op_context_scheme \<Rightarrow> string \<Rightarrow> json \<Rightarrow> op_result tx \<Rightarrow> op_result tx" where
  "idempotent E c type request operation =
     tx_bind (tx_lift (assert_idempotency_key (oc_idempotencyKey c))) (\<lambda>_.
     let h = hash_json E (idempotency_request request) in
     tx_bind (tx_gets (\<lambda>d. List.find (\<lambda>o'. oq_projectId o' = oc_projectId c \<and> oq_type o' = type \<and>
         oq_key o' = oc_idempotencyKey c) (db_operations d))) (\<lambda>existing.
     case existing of
       Some o' \<Rightarrow> tx_bind (tx_guard (oq_hash o' = h) (QueueError QUEUE_OPERATION_IDEMPOTENCY_CONFLICT)) (\<lambda>_.
         tx_ret (oq_result o'))
     | None \<Rightarrow>
         tx_bind operation (\<lambda>result.
         tx_bind (tx_id E) (\<lambda>i.
         tx_bind (tx_now E) (\<lambda>t.
         tx_bind (tx_sql (insert_operation \<lparr>oq_recordId = i, oq_projectId = oc_projectId c, oq_runId = oc_runId c,
           oq_type = type, oq_key = oc_idempotencyKey c, oq_hash = h, oq_result = result, oq_createdAt = t\<rparr>)) (\<lambda>_.
         tx_ret result))))))"

definition transition :: "env \<Rightarrow> 'a op_context_scheme \<Rightarrow> string \<Rightarrow> page_job_state option \<Rightarrow> page_job_state \<Rightarrow>
    string \<Rightarrow> string \<Rightarrow> json \<Rightarrow> unit tx" where
  "transition E c job from to reason occurred meta =
     tx_bind (tx_lift (case from of None \<Rightarrow> Inr () | Some s \<Rightarrow> assert_transition s to)) (\<lambda>_.
     tx_bind (tx_id E) (\<lambda>i.
     tx_sql (insert_transition \<lparr>pt_transitionId = i, pt_jobId = job, pt_fromState = from, pt_toState = to,
       pt_reasonCode = reason, pt_operationId = oc_operationId c, pt_correlationId = oc_correlationId c,
       pt_occurredAt = occurred, tr_recoveryFrom = None, tr_recoveryTo = None, tr_metadata = meta\<rparr>)))"

text \<open>The context of an enqueue, in the shape the other inputs have.\<close>

definition enqueue_context :: "enqueue_input \<Rightarrow> op_context" where
  "enqueue_context q = \<lparr>oc_projectId = qi_projectId q, oc_runId = qi_runId q, oc_idempotencyKey = qi_idempotencyKey q,
     oc_operationId = qi_operationId q, oc_correlationId = qi_correlationId q\<rparr>"

section \<open>Enqueue\<close>

definition record_scope_decision :: "enqueue_input \<Rightarrow> string \<Rightarrow> unit tx" where
  "record_scope_decision q t = tx_sql (insert_decision
     (scope_snapshot.extend (qi_scopeDecision q) (decision_row.fields (qi_projectId q) (qi_runId q) t)))"

definition stored_profile :: "string \<Rightarrow> string \<Rightarrow> db \<Rightarrow> profile_revision_row option" where
  "stored_profile p revision d = List.find (\<lambda>v. sv_profileRevisionId v = revision \<and>
     (sv_profileId v, p) \<in> set (db_profiles d)) (db_profileRevisions d)"

definition validate_enqueue :: "enqueue_input \<Rightarrow> unit tx" where
  "validate_enqueue q =
     (let s = qi_scopeDecision q in
      tx_bind (validate_ownership (qi_projectId q) (qi_runId q)) (\<lambda>_.
      tx_bind (tx_lift (assert_attempt_policy (Num 0) (qi_maxAttempts q))) (\<lambda>_.
      tx_bind (tx_lift (case qi_requestedPriority q of None \<Rightarrow> Inr 0 | Some p \<Rightarrow> assert_priority p)) (\<lambda>_.
      tx_bind (tx_guard (case int_value (sd_depth s) of None \<Rightarrow> False | Some n \<Rightarrow> 0 \<le> n) (QueueError QUEUE_INPUT_INVALID)) (\<lambda>_.
      tx_bind (tx_gets (stored_profile (qi_projectId q) (sd_profileRevisionId s))) (\<lambda>profile.
      tx_bind (tx_found profile (QueueError QUEUE_PROFILE_REVISION_MISMATCH)) (\<lambda>v.
      tx_bind (tx_guard (sv_profileId v = sd_profileId s) (QueueError QUEUE_PROFILE_REVISION_MISMATCH)) (\<lambda>_.
      tx_bind (tx_guard (sv_engineVersion v = js_int (sd_engineVersion s)) (QueueError QUEUE_ENGINE_VERSION_MISMATCH)) (\<lambda>_.
      tx_bind (tx_gets (\<lambda>d. (qi_projectRevisionId q, qi_projectId q) \<in> set (db_revisions d))) (\<lambda>b.
      tx_bind (tx_guard b (QueueError QUEUE_PROFILE_REVISION_MISMATCH)) (\<lambda>_.
      case qi_parentJobId q of
        Given j \<Rightarrow> tx_bind (get_job_row (qi_projectId q) (qi_runId q) j) (\<lambda>_. tx_ret ())
      | _ \<Rightarrow> tx_ret ())))))))))))"

definition max_source_url :: nat where "max_source_url = 8192"

definition insert_discovery_for :: "env \<Rightarrow> enqueue_input \<Rightarrow> string \<Rightarrow> string \<Rightarrow> page_job_discovery tx" where
  "insert_discovery_for E q child t =
     (let s = qi_scopeDecision q; source_depth = or_null (qi_sourceDepth q);
          source_url = or_null (qi_safeSourceUrl q); parent = or_null (qi_parentJobId q) in
      tx_bind (tx_guard (case source_depth of None \<Rightarrow> True
          | Some n \<Rightarrow> (case int_value n of None \<Rightarrow> False | Some i \<Rightarrow> 0 \<le> i)) (QueueError QUEUE_INPUT_INVALID)) (\<lambda>_.
      tx_bind (tx_guard (case source_url of None \<Rightarrow> True | Some u \<Rightarrow> length u \<le> max_source_url)
          (QueueError QUEUE_INPUT_INVALID)) (\<lambda>_.
      let key = hash_json E (JObj [(''parentJobId'', json_opt JStr parent), (''safeSourceUrl'', json_opt JStr source_url),
            (''discoveryType'', JStr (discovery_text (qi_discoveryType q))),
            (''sourceDepth'', json_opt json_num source_depth), (''resultDepth'', json_num (sd_depth s)),
            (''scopeDecisionId'', JStr (sd_decisionId s))]) in
      tx_bind (tx_id E) (\<lambda>i.
      tx_bind (tx_sql (insert_discovery \<lparr>pd_discoveryId = i, pd_parentJobId = parent, pd_childJobId = child,
          pd_safeSourceUrl = source_url, pd_discoveryType = qi_discoveryType q,
          pd_sourceDepth = map_option size_value source_depth, pd_resultDepth = size_value (sd_depth s),
          pd_scopeDecisionId = sd_decisionId s, pd_discoveredAt = t,
          dr_key = key, dr_projectId = qi_projectId q, dr_runId = qi_runId q\<rparr>)) (\<lambda>_.
      tx_bind (tx_gets (\<lambda>d. List.find (\<lambda>r. pd_childJobId r = child \<and> dr_key r = key) (db_discoveries d))) (\<lambda>r.
      tx_bind (tx_found r PlainError) (\<lambda>r. tx_ret (row_to_discovery r))))))))"

definition find_identity :: "string \<Rightarrow> string \<Rightarrow> string \<Rightarrow> int \<Rightarrow> string \<Rightarrow> db \<Rightarrow> job_row option" where
  "find_identity p r revision engine h d =
     List.find (\<lambda>x. job_identity x = (p, r, revision, engine, h)) (db_jobs d)"

definition count_identity :: "string \<Rightarrow> string \<Rightarrow> string \<Rightarrow> int \<Rightarrow> db \<Rightarrow> nat" where
  "count_identity p r revision engine d = count_where (\<lambda>x. pj_projectId x = p \<and> pj_runId x = r \<and>
     pj_profileRevisionId x = revision \<and> pj_normalizationEngineVersion x = engine) (db_jobs d)"

definition new_job_row :: "enqueue_input \<Rightarrow> int \<Rightarrow> string \<Rightarrow> int \<Rightarrow> int \<times> priority_source \<Rightarrow> int \<Rightarrow>
    string \<Rightarrow> string \<Rightarrow> string \<Rightarrow> string \<Rightarrow> string \<Rightarrow> job_row" where
  "new_job_row q seq jid depth priority maxa normalized identity display h t =
     (let s = qi_scopeDecision q in
      \<lparr>pj_jobId = jid, pj_projectId = qi_projectId q, pj_runId = qi_runId q,
       pj_projectRevisionId = qi_projectRevisionId q, pj_profileId = sd_profileId s,
       pj_profileRevisionId = sd_profileRevisionId s, pj_normalizationEngineVersion = sd_engineVersion s,
       pj_normalizedUrl = normalized, pj_identityUrl = identity, pj_safeDisplayUrl = display, pj_identityHash = h,
       pj_scopeDecisionId = sd_decisionId s,
       pj_scopeReasonCode = (case sd_reasonCodes s of [] \<Rightarrow> ''URL_ACCEPTED'' | c # _ \<Rightarrow> c),
       pj_state = JobPending, pj_priority = fst priority, pj_prioritySource = snd priority, pj_queueSequence = seq,
       pj_depth = depth, pj_discoveryType = qi_discoveryType q, pj_attemptCount = 0, pj_fencingGeneration = 0,
       pj_maxAttempts = maxa, pj_nextEligibleAt = t, pj_claimToken = None, pj_claimedBy = None, pj_claimedAt = None,
       pj_lastAttemptAt = None, pj_completedAt = None, pj_failedAt = None, pj_completionKey = None,
       pj_resultVersion = None, pj_resultSummary = None, pj_lastErrorCode = None, pj_lastErrorCategory = None,
       pj_lastErrorMessage = None, pj_createdAt = t, pj_updatedAt = t, pj_queuedAt = t, jr_recoveryState = None\<rparr>)"

text \<open>The four values a decision must carry before a job can be created from it.\<close>

definition accepted_decision :: "scope_snapshot \<Rightarrow> (string \<times> string \<times> string \<times> string) option" where
  "accepted_decision s =
     (if \<not> sd_eligible s \<or> \<not> sd_shouldQueue s then None
      else (case (sd_identityHash s, sd_identityUrl s, sd_normalizedUrl s, sd_displayUrl s) of
        (Some h, Some identity, Some normalized, Some display) \<Rightarrow> Some (h, identity, normalized, display)
      | _ \<Rightarrow> None))"

definition merge_existing :: "env \<Rightarrow> enqueue_input \<Rightarrow> string \<Rightarrow> job_row \<Rightarrow> enqueue_result tx" where
  "merge_existing E q t row =
     (let existing = row_to_job row in
      tx_bind (tx_lift (minimum_depth (js_int (pj_depth existing)) (sd_depth (qi_scopeDecision q)))) (\<lambda>depth.
      tx_bind (if depth \<noteq> pj_depth existing
          then tx_sql (update_jobs (\<lambda>r. pj_jobId r = pj_jobId existing) (\<lambda>r. r\<lparr>pj_depth := depth, pj_updatedAt := t\<rparr>))
          else tx_ret ()) (\<lambda>_.
      tx_bind (insert_discovery_for E q (pj_jobId existing) t) (\<lambda>discovery.
      tx_bind (get_job (qi_projectId q) (qi_runId q) (pj_jobId existing)) (\<lambda>job.
      tx_ret (Existing job discovery))))))"

definition create_job :: "env \<Rightarrow> enqueue_input \<Rightarrow> string \<Rightarrow> string \<times> string \<times> string \<times> string \<Rightarrow> enqueue_result tx" where
  "create_job E q t accepted = (case accepted of (h, identity, normalized, display) \<Rightarrow>
     tx_bind (tx_lift (calculate_priority (qi_discoveryType q) (qi_requestedPriority q))) (\<lambda>priority.
     tx_bind (tx_id E) (\<lambda>jid.
     tx_bind (tx_gets db_jobSequence) (\<lambda>seq.
     let depth = size_value (sd_depth (qi_scopeDecision q)) in
     tx_bind (tx_sql (insert_job (new_job_row q (seq + 1) jid depth priority (size_value (qi_maxAttempts q))
         normalized identity display h t))) (\<lambda>_.
     tx_bind (transition E (enqueue_context q) jid None JobPending ''QUEUE_JOB_CREATED'' t
         (JObj [(''priority'', JNum (fst priority)), (''depth'', JNum depth)])) (\<lambda>_.
     tx_bind (insert_discovery_for E q jid t) (\<lambda>discovery.
     tx_bind (get_job (qi_projectId q) (qi_runId q) jid) (\<lambda>job.
     tx_ret (Created job discovery)))))))))"

definition enqueue_in_transaction :: "env \<Rightarrow> enqueue_input \<Rightarrow> enqueue_result tx" where
  "enqueue_in_transaction E q =
     (let s = qi_scopeDecision q in
      tx_bind (validate_enqueue q) (\<lambda>_.
      tx_bind (tx_now E) (\<lambda>t.
      tx_bind (record_scope_decision q t) (\<lambda>_.
      case accepted_decision s of
        None \<Rightarrow> tx_ret (if blocked_reasons (sd_reasonCodes s) then Blocked (sd_reasonCodes s) else Rejected (sd_reasonCodes s))
      | Some accepted \<Rightarrow>
          tx_bind (tx_gets (find_identity (qi_projectId q) (qi_runId q) (sd_profileRevisionId s)
              (sd_engineVersion s) (fst accepted))) (\<lambda>existing.
          case existing of
            Some row \<Rightarrow> merge_existing E q t row
          | None \<Rightarrow>
              (case qi_maxPages q of
                 None \<Rightarrow> create_job E q t accepted
               | Some m \<Rightarrow>
                   tx_bind (tx_found (case int_value m of Some n \<Rightarrow> if n < 0 then None else Some n | None \<Rightarrow> None)
                       (QueueError QUEUE_INPUT_INVALID)) (\<lambda>n.
                   tx_bind (tx_gets (count_identity (qi_projectId q) (qi_runId q) (sd_profileRevisionId s) (sd_engineVersion s))) (\<lambda>count.
                   if n \<le> int count then tx_ret (Rejected [''PAGE_LIMIT_REACHED''])
                   else create_job E q t accepted))))))))"

definition enqueue :: "env \<Rightarrow> enqueue_input \<Rightarrow> op_result tx" where
  "enqueue E q = queue_transaction (idempotent E (enqueue_context q) ''queue.enqueue'' (enqueue_json q)
     (tx_bind (enqueue_in_transaction E q) (\<lambda>r. tx_ret (ResEnqueue r))))"

text \<open>The outcome of one item, and the loop over a batch, which goes on after an error.\<close>

definition batch_item_of :: "op_error + op_result \<Rightarrow> batch_item" where
  "batch_item_of r = (case r of
     Inr (ResEnqueue x) \<Rightarrow> BatchResult x
   | Inr _ \<Rightarrow> BatchFailed QUEUE_PERSISTENCE_FAILURE
   | Inl e \<Rightarrow>
       (let c = (case e of QueueError c \<Rightarrow> c | _ \<Rightarrow> QUEUE_PERSISTENCE_FAILURE) in
        if c \<in> {QUEUE_INPUT_INVALID, QUEUE_PROFILE_REVISION_MISMATCH, QUEUE_ENGINE_VERSION_MISMATCH}
        then BatchInvalid c else BatchFailed c))"

definition count_item :: "batch_item \<Rightarrow> batch_counts \<Rightarrow> batch_counts" where
  "count_item i c = (case i of
     BatchResult (Created _ _) \<Rightarrow> c\<lparr>bc_created := Suc (bc_created c)\<rparr>
   | BatchResult (Existing _ _) \<Rightarrow> c\<lparr>bc_existing := Suc (bc_existing c)\<rparr>
   | BatchResult (Rejected _) \<Rightarrow> c\<lparr>bc_rejected := Suc (bc_rejected c)\<rparr>
   | BatchResult (Blocked _) \<Rightarrow> c\<lparr>bc_blocked := Suc (bc_blocked c)\<rparr>
   | BatchInvalid _ \<Rightarrow> c\<lparr>bc_invalid := Suc (bc_invalid c)\<rparr>
   | BatchFailed _ \<Rightarrow> c\<lparr>bc_failed := Suc (bc_failed c)\<rparr>)"

fun batch_loop :: "env \<Rightarrow> enqueue_input list \<Rightarrow> batch_item list \<Rightarrow> batch_counts \<Rightarrow> (batch_item list \<times> batch_counts) tx" where
  "batch_loop E [] items counts = tx_ret (items, counts)"
| "batch_loop E (q # qs) items counts = (\<lambda>s. case enqueue E q s of (r, s') \<Rightarrow>
     (let i = batch_item_of r in batch_loop E qs (items @ [i]) (count_item i counts) s'))"

definition enqueue_batch :: "env \<Rightarrow> enqueue_input list \<Rightarrow> (batch_item list \<times> batch_counts) tx" where
  "enqueue_batch E qs =
     tx_bind (tx_guard (1 \<le> length qs \<and> length qs \<le> queue_batch_limit) (QueueError QUEUE_BATCH_LIMIT_EXCEEDED)) (\<lambda>_.
     batch_loop E qs [] \<lparr>bc_created = 0, bc_existing = 0, bc_rejected = 0, bc_blocked = 0, bc_invalid = 0, bc_failed = 0\<rparr>)"

definition has_identity :: "string \<Rightarrow> string \<Rightarrow> string \<Rightarrow> int \<Rightarrow> string \<Rightarrow> bool tx" where
  "has_identity p r revision engine h =
     tx_bind (validate_ownership p r) (\<lambda>_. tx_gets (\<lambda>d. find_identity p r revision engine h d \<noteq> None))"

definition count_identities :: "string \<Rightarrow> string \<Rightarrow> string \<Rightarrow> int \<Rightarrow> nat tx" where
  "count_identities p r revision engine =
     tx_bind (validate_ownership p r) (\<lambda>_. tx_gets (count_identity p r revision engine))"

end
