(* ===== verification/Queue_Claims.thy ===== *)
theory Queue_Claims
  imports Queue_Repo
begin

text \<open>
  packages/persistence-sqlite/src/queue.ts, second part: claiming, completing, failing, retrying,
  skipping and blocking Page Jobs, and the queries.
\<close>

section \<open>Claim\<close>

text \<open>
  \<open>ORDER BY priority DESC, next_eligible_at, depth, queue_sequence, job_id\<close> is the key of the
  comparator in the queue policy.
\<close>

definition row_order_key :: "job_row \<Rightarrow> queue_key" where
  "row_order_key r = (- pj_priority r, pj_nextEligibleAt r, pj_depth r, pj_queueSequence r, pj_jobId r)"

definition claimable :: "string \<Rightarrow> string \<Rightarrow> string \<Rightarrow> job_row \<Rightarrow> bool" where
  "claimable p r t x = (pj_projectId x = p \<and> pj_runId x = r \<and> pj_state x = JobPending \<and> pj_nextEligibleAt x \<le> t)"

definition claim_body :: "env \<Rightarrow> claim_input \<Rightarrow> page_job option tx" where
  "claim_body E c =
     tx_bind (tx_now E) (\<lambda>t.
     tx_bind (tx_gets (\<lambda>d. select_first (claimable (oc_projectId c) (oc_runId c) t) row_order_key (db_jobs d))) (\<lambda>row.
     case row of
       None \<Rightarrow> tx_ret None
     | Some row \<Rightarrow>
         (let job = row_to_job row in
          tx_bind (tx_guard (pj_attemptCount job < pj_maxAttempts job) (QueueError QUEUE_MAX_ATTEMPTS_REACHED)) (\<lambda>_.
          tx_bind (tx_id E) (\<lambda>token.
          let n = pj_attemptCount job + 1; mine = (\<lambda>x. pj_jobId x = pj_jobId job \<and> pj_state x = JobPending) in
          tx_bind (tx_gets (\<lambda>d. count_where mine (db_jobs d))) (\<lambda>changes.
          tx_bind (tx_sql (update_jobs mine (\<lambda>x. x\<lparr>pj_state := JobProcessing, pj_claimToken := Some token,
              pj_claimedBy := Some (ci_claimedBy c), pj_claimedAt := Some t, pj_lastAttemptAt := Some t,
              pj_attemptCount := n, pj_updatedAt := t\<rparr>))) (\<lambda>_.
          tx_bind (tx_guard (changes = 1) (QueueError QUEUE_CLAIM_CONFLICT)) (\<lambda>_.
          tx_bind (tx_id E) (\<lambda>i.
          tx_bind (tx_sql (insert_attempt \<lparr>pa_attemptId = i, pa_jobId = pj_jobId job, pa_attemptNumber = n,
              pa_claimToken = token, pa_startedAt = t, pa_finishedAt = None, pa_outcome = AttProcessing,
              pa_errorCode = None, pa_errorCategory = None, pa_safeErrorMessage = None,
              ar_recoveryOutcome = None, ar_metadata = JObj []\<rparr>)) (\<lambda>_.
          tx_bind (transition E c (pj_jobId job) (Some JobPending) JobProcessing ''QUEUE_JOB_CLAIMED'' t
              (JObj [(''attemptNumber'', JNum n)])) (\<lambda>_.
          tx_bind (get_job (oc_projectId c) (oc_runId c) (pj_jobId job)) (\<lambda>j. tx_ret (Some j)))))))))))))"

definition claim_next :: "env \<Rightarrow> claim_input \<Rightarrow> op_result tx" where
  "claim_next E c = queue_transaction (
     tx_bind (validate_ownership (oc_projectId c) (oc_runId c)) (\<lambda>_.
     idempotent E c ''queue.claimNext'' (claim_json c) (tx_bind (claim_body E c) (\<lambda>r. tx_ret (ResClaim r)))))"

section \<open>Completion and failure\<close>

text \<open>A result summary as it is read back: the keys of its metadata are in canonical order.\<close>

definition stored_summary :: "result_summary \<Rightarrow> result_summary" where
  "stored_summary s = (case s of
     QueueTest st stored meta \<Rightarrow>
       QueueTest st stored (map_option (\<lambda>kvs. case ordered (JObj kvs) of JObj o' \<Rightarrow> o' | _ \<Rightarrow> kvs) meta)
   | RenderSummary st stored rid h path \<Rightarrow> RenderSummary st stored rid h path)"

definition release_lease_of :: "page_job \<Rightarrow> string \<Rightarrow> string \<Rightarrow> string \<Rightarrow> unit tx" where
  "release_lease_of job t reason operation =
     (if 0 < pj_fencingGeneration job
      then tx_sql (update_leases (\<lambda>l. jl_jobId l = pj_jobId job \<and> jl_fencingGeneration l = pj_fencingGeneration job \<and>
             jl_status l = LeaseActive)
           (\<lambda>l. l\<lparr>jl_status := LeaseReleased, jl_releasedAt := Some t, jl_releaseReason := Some reason,
              lr_lastOperationId := operation\<rparr>))
      else tx_ret ())"

definition open_attempt :: "string \<Rightarrow> string option \<Rightarrow> attempt_row \<Rightarrow> bool" where
  "open_attempt j token a = (pa_jobId a = j \<and> Some (pa_claimToken a) = token \<and> pa_finishedAt a = None)"

text \<open>The claim token of the last completed attempt of a job.\<close>

definition completed_token :: "string \<Rightarrow> db \<Rightarrow> string option" where
  "completed_token j d = map_option pa_claimToken
     (select_first (\<lambda>a. pa_jobId a = j \<and> pa_outcome a = AttCompleted) (\<lambda>a. - pa_attemptNumber a) (db_attempts d))"

definition same_summary :: "result_summary option \<Rightarrow> result_summary \<Rightarrow> bool" where
  "same_summary stored s = (canonical_json (json_opt summary_json stored) = canonical_json (summary_json s))"

definition complete_body :: "env \<Rightarrow> complete_input \<Rightarrow> page_job tx" where
  "complete_body E c =
     tx_bind (get_job (oc_projectId c) (oc_runId c) (co_jobId c)) (\<lambda>job.
     if pj_state job = JobCompleted then
       tx_bind (tx_gets (completed_token (pj_jobId job))) (\<lambda>token.
       tx_bind (tx_guard (pj_completionKey job = Some (co_completionKey c) \<and>
           same_summary (pj_resultSummary job) (co_resultSummary c) \<and> token = Some (co_claimToken c))
         (QueueError QUEUE_COMPLETION_CONFLICT)) (\<lambda>_. tx_ret job))
     else
       tx_bind (tx_guard (pj_state job = JobProcessing) (QueueError QUEUE_JOB_STATE_CONFLICT)) (\<lambda>_.
       tx_bind (tx_guard (pj_claimToken job = Some (co_claimToken c)) (QueueError QUEUE_CLAIM_TOKEN_INVALID)) (\<lambda>_.
       tx_bind (validate_fenced_claim E job (co_claimToken c)) (\<lambda>_.
       tx_bind (tx_sql (update_jobs (\<lambda>x. pj_jobId x = pj_jobId job)
           (\<lambda>x. x\<lparr>pj_state := JobCompleted, pj_claimToken := None, pj_claimedBy := None,
              pj_completedAt := Some (co_completedAt c), pj_completionKey := Some (co_completionKey c),
              pj_resultVersion := Some 1, pj_resultSummary := Some (stored_summary (co_resultSummary c)),
              pj_updatedAt := co_completedAt c\<rparr>))) (\<lambda>_.
       tx_bind (tx_sql (update_attempts (open_attempt (pj_jobId job) (Some (co_claimToken c)))
           (\<lambda>a. a\<lparr>pa_finishedAt := Some (co_completedAt c), pa_outcome := AttCompleted,
              ar_metadata := JObj [(''resultVersion'', JNum 1)]\<rparr>))) (\<lambda>_.
       tx_bind (release_lease_of job (co_completedAt c) ''QUEUE_JOB_COMPLETED'' (oc_operationId c)) (\<lambda>_.
       tx_bind (transition E c (pj_jobId job) (Some JobProcessing) JobCompleted ''QUEUE_JOB_COMPLETED''
           (co_completedAt c) (JObj [(''resultVersion'', JNum 1)])) (\<lambda>_.
       get_job (oc_projectId c) (oc_runId c) (pj_jobId job)))))))))"

definition complete :: "env \<Rightarrow> complete_input \<Rightarrow> op_result tx" where
  "complete E c = queue_transaction (
     tx_bind (validate_ownership (oc_projectId c) (oc_runId c)) (\<lambda>_.
     tx_bind (tx_lift (assert_idempotency_key (co_completionKey c))) (\<lambda>_.
     tx_bind (tx_lift (assert_utc_timestamp (co_completedAt c))) (\<lambda>_.
     tx_bind (tx_lift (validate_result_summary (co_resultSummary c))) (\<lambda>_.
     idempotent E c ''queue.complete'' (complete_json c) (tx_bind (complete_body E c) (\<lambda>j. tx_ret (ResJob j))))))))"

definition fail_body :: "env \<Rightarrow> fail_input \<Rightarrow> page_job tx" where
  "fail_body E c =
     tx_bind (get_job (oc_projectId c) (oc_runId c) (fi_jobId c)) (\<lambda>job.
     tx_bind (tx_guard (pj_state job = JobProcessing) (QueueError QUEUE_JOB_STATE_CONFLICT)) (\<lambda>_.
     tx_bind (tx_guard (pj_claimToken job = Some (fi_claimToken c)) (QueueError QUEUE_CLAIM_TOKEN_INVALID)) (\<lambda>_.
     tx_bind (validate_fenced_claim E job (fi_claimToken c)) (\<lambda>_.
     tx_bind (tx_lift (should_retry (js_int (pj_attemptCount job)) (js_int (pj_maxAttempts job)) (fi_retryable c))) (\<lambda>retry.
     tx_bind (tx_guard (\<not> retry \<or> fi_nextEligibleAt c \<noteq> None) (QueueError QUEUE_INPUT_INVALID)) (\<lambda>_.
     let target = (if retry then JobRetrying else JobFailed);
         eligible = (case fi_nextEligibleAt c of Some t \<Rightarrow> if retry then t else fi_failedAt c | None \<Rightarrow> fi_failedAt c);
         message = sanitize_safe_message (fi_safeMessage c) in
     tx_bind (tx_sql (update_jobs (\<lambda>x. pj_jobId x = pj_jobId job)
         (\<lambda>x. x\<lparr>pj_state := target, pj_claimToken := None, pj_claimedBy := None,
            pj_failedAt := (if retry then None else Some (fi_failedAt c)), pj_nextEligibleAt := eligible,
            pj_lastErrorCode := Some (fi_failureCode c), pj_lastErrorCategory := Some (fi_failureCategory c),
            pj_lastErrorMessage := Some message, pj_updatedAt := fi_failedAt c\<rparr>))) (\<lambda>_.
     tx_bind (tx_sql (update_attempts (open_attempt (pj_jobId job) (Some (fi_claimToken c)))
         (\<lambda>a. a\<lparr>pa_finishedAt := Some (fi_failedAt c), pa_outcome := (if retry then AttRetrying else AttFailed),
            pa_errorCode := Some (fi_failureCode c), pa_errorCategory := Some (fi_failureCategory c),
            pa_safeErrorMessage := Some message,
            ar_metadata := JObj [(''failureKey'', JStr (fi_failureKey c)), (''retryable'', JBool (fi_retryable c))]\<rparr>))) (\<lambda>_.
     tx_bind (release_lease_of job (fi_failedAt c) (if retry then ''QUEUE_JOB_RETRYING'' else ''QUEUE_JOB_FAILED'')
         (oc_operationId c)) (\<lambda>_.
     tx_bind (transition E c (pj_jobId job) (Some JobProcessing) target (fi_failureCode c) (fi_failedAt c)
         (JObj [(''retryable'', JBool (fi_retryable c)), (''attemptNumber'', JNum (pj_attemptCount job))])) (\<lambda>_.
     get_job (oc_projectId c) (oc_runId c) (pj_jobId job)))))))))))"

definition fail :: "env \<Rightarrow> fail_input \<Rightarrow> op_result tx" where
  "fail E c = queue_transaction (
     tx_bind (validate_ownership (oc_projectId c) (oc_runId c)) (\<lambda>_.
     tx_bind (tx_lift (assert_idempotency_key (fi_failureKey c))) (\<lambda>_.
     tx_bind (tx_lift (assert_utc_timestamp (fi_failedAt c))) (\<lambda>_.
     tx_bind (tx_lift (case fi_nextEligibleAt c of None \<Rightarrow> Inr () | Some t \<Rightarrow> assert_utc_timestamp t)) (\<lambda>_.
     idempotent E c ''queue.fail'' (fail_json c) (tx_bind (fail_body E c) (\<lambda>j. tx_ret (ResJob j))))))))"

section \<open>Retries\<close>

definition schedule_retry_body :: "env \<Rightarrow> retry_input \<Rightarrow> page_job tx" where
  "schedule_retry_body E c =
     tx_bind (get_job (oc_projectId c) (oc_runId c) (ti_jobId c)) (\<lambda>job.
     tx_bind (tx_guard (pj_state job = JobRetrying) (QueueError QUEUE_RETRY_NOT_ALLOWED)) (\<lambda>_.
     tx_bind (tx_guard (pj_attemptCount job < pj_maxAttempts job) (QueueError QUEUE_MAX_ATTEMPTS_REACHED)) (\<lambda>_.
     tx_bind (tx_now E) (\<lambda>t.
     tx_bind (tx_sql (update_jobs (\<lambda>x. pj_jobId x = pj_jobId job)
         (\<lambda>x. x\<lparr>pj_nextEligibleAt := ti_nextEligibleAt c, pj_updatedAt := t\<rparr>))) (\<lambda>_.
     get_job (oc_projectId c) (oc_runId c) (pj_jobId job))))))"

definition schedule_retry :: "env \<Rightarrow> retry_input \<Rightarrow> op_result tx" where
  "schedule_retry E c = queue_transaction (
     tx_bind (validate_ownership (oc_projectId c) (oc_runId c)) (\<lambda>_.
     tx_bind (tx_lift (assert_utc_timestamp (ti_nextEligibleAt c))) (\<lambda>_.
     idempotent E c ''queue.scheduleRetry'' (retry_json c)
       (tx_bind (schedule_retry_body E c) (\<lambda>j. tx_ret (ResJob j))))))"

definition due_retry :: "string \<Rightarrow> string \<Rightarrow> string \<Rightarrow> job_row \<Rightarrow> bool" where
  "due_retry p r due x = (pj_projectId x = p \<and> pj_runId x = r \<and> pj_state x = JobRetrying \<and>
     pj_nextEligibleAt x \<le> due \<and> pj_attemptCount x < pj_maxAttempts x)"

definition release_one :: "env \<Rightarrow> release_input \<Rightarrow> job_row \<Rightarrow> page_job tx" where
  "release_one E c row =
     (let job = row_to_job row in
      tx_bind (tx_sql (update_jobs (\<lambda>x. pj_jobId x = pj_jobId job \<and> pj_state x = JobRetrying)
          (\<lambda>x. x\<lparr>pj_state := JobPending, pj_updatedAt := ri_dueAt c\<rparr>))) (\<lambda>_.
      tx_bind (transition E c (pj_jobId job) (Some JobRetrying) JobPending ''QUEUE_RETRY_RELEASED'' (ri_dueAt c) (JObj [])) (\<lambda>_.
      get_job (oc_projectId c) (oc_runId c) (pj_jobId job))))"

definition release_body :: "env \<Rightarrow> release_input \<Rightarrow> nat \<Rightarrow> page_job list tx" where
  "release_body E c n =
     tx_bind (tx_gets (\<lambda>d. take n (select_order (due_retry (oc_projectId c) (oc_runId c) (ri_dueAt c))
         (\<lambda>x. (pj_nextEligibleAt x, pj_queueSequence x, pj_jobId x)) (db_jobs d)))) (\<lambda>rows.
     tx_each (release_one E c) rows)"

definition release_due_retries :: "env \<Rightarrow> release_input \<Rightarrow> op_result tx" where
  "release_due_retries E c = queue_transaction (
     tx_bind (validate_ownership (oc_projectId c) (oc_runId c)) (\<lambda>_.
     tx_bind (tx_lift (assert_utc_timestamp (ri_dueAt c))) (\<lambda>_.
     tx_bind (tx_found (bounded_int 1 retry_release_limit (ri_limit c)) (QueueError QUEUE_PAGINATION_LIMIT_EXCEEDED)) (\<lambda>n.
     idempotent E c ''queue.releaseDueRetries'' (release_json c)
       (tx_bind (release_body E c (nat n)) (\<lambda>js. tx_ret (ResJobs js)))))))"

section \<open>Skip and block\<close>

definition terminal_type :: "page_job_state \<Rightarrow> string" where
  "terminal_type target = (if target = JobSkipped then ''queue.skipped'' else ''queue.blocked'')"

definition terminal_body :: "env \<Rightarrow> page_job_state \<Rightarrow> terminal_input \<Rightarrow> page_job tx" where
  "terminal_body E target c =
     tx_bind (get_job (oc_projectId c) (oc_runId c) (mi_jobId c)) (\<lambda>job.
     tx_bind (tx_guard (pj_state job = JobPending \<or> pj_state job = JobProcessing) (QueueError QUEUE_JOB_STATE_CONFLICT)) (\<lambda>_.
     tx_bind (if pj_state job = JobProcessing
         then (case mi_claimToken c of
             None \<Rightarrow> tx_throw (QueueError QUEUE_CLAIM_TOKEN_INVALID)
           | Some token \<Rightarrow>
               tx_bind (tx_guard (pj_claimToken job = Some token) (QueueError QUEUE_CLAIM_TOKEN_INVALID)) (\<lambda>_.
               validate_fenced_claim E job token))
         else tx_ret ()) (\<lambda>_.
     tx_bind (tx_now E) (\<lambda>t.
     let message = sanitize_safe_message (mi_safeMessage c) in
     tx_bind (tx_sql (update_jobs (\<lambda>x. pj_jobId x = pj_jobId job)
         (\<lambda>x. x\<lparr>pj_state := target, pj_claimToken := None, pj_claimedBy := None, pj_updatedAt := t,
            pj_lastErrorCode := Some (mi_reasonCode c), pj_lastErrorCategory := Some FcDomain,
            pj_lastErrorMessage := Some message\<rparr>))) (\<lambda>_.
     tx_bind (if pj_state job = JobProcessing
         then tx_sql (update_attempts (open_attempt (pj_jobId job) (pj_claimToken job))
            (\<lambda>a. a\<lparr>pa_finishedAt := Some t, pa_outcome := (if target = JobSkipped then AttSkipped else AttBlocked),
               pa_errorCode := Some (mi_reasonCode c), pa_errorCategory := Some FcDomain,
               pa_safeErrorMessage := Some message\<rparr>))
         else tx_ret ()) (\<lambda>_.
     tx_bind (if pj_state job = JobProcessing
         then release_lease_of job t (if target = JobSkipped then ''QUEUE_JOB_SKIPPED'' else ''QUEUE_JOB_BLOCKED'') (oc_operationId c)
         else tx_ret ()) (\<lambda>_.
     tx_bind (transition E c (pj_jobId job) (Some (pj_state job)) target (mi_reasonCode c) t (JObj [])) (\<lambda>_.
     get_job (oc_projectId c) (oc_runId c) (pj_jobId job)))))))))"

definition terminal_action :: "env \<Rightarrow> page_job_state \<Rightarrow> terminal_input \<Rightarrow> op_result tx" where
  "terminal_action E target c = queue_transaction (
     tx_bind (validate_ownership (oc_projectId c) (oc_runId c)) (\<lambda>_.
     idempotent E c (terminal_type target) (terminal_json c)
       (tx_bind (terminal_body E target c) (\<lambda>j. tx_ret (ResJob j)))))"

definition skip :: "env \<Rightarrow> terminal_input \<Rightarrow> op_result tx" where
  "skip E c = terminal_action E JobSkipped c"

definition block :: "env \<Rightarrow> terminal_input \<Rightarrow> op_result tx" where
  "block E c = terminal_action E JobBlocked c"

definition clear_one :: "env \<Rightarrow> clear_input \<Rightarrow> string \<Rightarrow> string \<Rightarrow> unit tx" where
  "clear_one E c t j =
     tx_bind (tx_sql (update_jobs (\<lambda>x. pj_jobId x = j \<and> pj_state x = JobPending)
         (\<lambda>x. x\<lparr>pj_state := JobSkipped, pj_lastErrorCode := Some (li_reasonCode c), pj_lastErrorCategory := Some FcDomain,
            pj_lastErrorMessage := Some ''Pending queue cleared by explicit local operation.'', pj_updatedAt := t\<rparr>))) (\<lambda>_.
     transition E c j (Some JobPending) JobSkipped (li_reasonCode c) t (JObj []))"

definition clear_pending :: "env \<Rightarrow> clear_input \<Rightarrow> op_result tx" where
  "clear_pending E c =
     tx_bind (tx_guard (li_confirmation c = ''CLEAR-PENDING-QUEUE'') (QueueError QUEUE_CLEAR_NOT_ALLOWED)) (\<lambda>_.
     queue_transaction (
       tx_bind (validate_ownership (oc_projectId c) (oc_runId c)) (\<lambda>_.
       idempotent E c ''queue.clearPending'' (clear_json c) (
         tx_bind (tx_now E) (\<lambda>t.
         tx_bind (tx_gets (\<lambda>d. map pj_jobId (select_order
             (\<lambda>x. pj_projectId x = oc_projectId c \<and> pj_runId x = oc_runId c \<and> pj_state x = JobPending)
             pj_queueSequence (db_jobs d)))) (\<lambda>ids.
         tx_bind (tx_each (clear_one E c t) ids) (\<lambda>_.
         tx_ret (ResSkipped (length ids)))))))))"

section \<open>Queries\<close>

definition get :: "string \<Rightarrow> string \<Rightarrow> string \<Rightarrow> page_job tx" where
  "get p r j = tx_bind (validate_ownership p r) (\<lambda>_. get_job p r j)"

record list_result =
  qr_jobs :: "page_job list"
  qr_nextCursor :: "int option"

definition listed :: "page_job_state option \<Rightarrow> job_row \<Rightarrow> bool" where
  "listed state x = (case state of
     None \<Rightarrow> True
   | Some s \<Rightarrow> if s = JobInterrupted \<or> s = JobPaused then jr_recoveryState x = Some s
               else pj_state x = s \<and> jr_recoveryState x = None)"

definition list_jobs :: "string \<Rightarrow> string \<Rightarrow> page_job_state option \<Rightarrow> jsnum option \<Rightarrow> jsnum \<Rightarrow> list_result tx" where
  "list_jobs p r state after limit =
     tx_bind (validate_ownership p r) (\<lambda>_.
     tx_bind (tx_found (bounded_int 1 queue_list_limit limit) (QueueError QUEUE_PAGINATION_LIMIT_EXCEEDED)) (\<lambda>n.
     tx_bind (tx_found (case after of None \<Rightarrow> Some 0
         | Some a \<Rightarrow> (case int_value a of None \<Rightarrow> None | Some i \<Rightarrow> if i < 0 then None else Some i))
       (QueueError QUEUE_INPUT_INVALID)) (\<lambda>a.
     tx_bind (tx_gets (\<lambda>d. take (nat n + 1) (select_order
         (\<lambda>x. pj_projectId x = p \<and> pj_runId x = r \<and> a < pj_queueSequence x \<and> listed state x)
         pj_queueSequence (db_jobs d)))) (\<lambda>rows.
     let jobs = map row_to_job (take (nat n) rows) in
     tx_ret \<lparr>qr_jobs = jobs,
       qr_nextCursor = (if nat n < length rows then (if jobs = [] then None else Some (pj_queueSequence (last jobs)))
          else None)\<rparr>))))"

fun min_text :: "string list \<Rightarrow> string option" where
  "min_text [] = None"
| "min_text (x # xs) = (case min_text xs of None \<Rightarrow> Some x | Some y \<Rightarrow> Some (min x y))"

fun max_text :: "string list \<Rightarrow> string option" where
  "max_text [] = None"
| "max_text (x # xs) = (case max_text xs of None \<Rightarrow> Some x | Some y \<Rightarrow> Some (max x y))"

definition statistics_of :: "string \<Rightarrow> string \<Rightarrow> string \<Rightarrow> db \<Rightarrow> queue_statistics" where
  "statistics_of p r as_of d =
     (let rows = filter (\<lambda>x. pj_projectId x = p \<and> pj_runId x = r) (db_jobs d);
          in_state = (\<lambda>s. count_where (\<lambda>x. pj_state x = s) rows);
          total = length rows;
          found = count_where (\<lambda>y. list_ex (\<lambda>x. pj_jobId x = pd_childJobId y) rows) (db_discoveries d)
      in \<lparr>qs_total = total, qs_pending = in_state JobPending,
          qs_processing = count_where (\<lambda>x. pj_state x = JobProcessing \<and> jr_recoveryState x = None) rows,
          qs_completed = in_state JobCompleted, qs_failed = in_state JobFailed, qs_retrying = in_state JobRetrying,
          qs_skipped = in_state JobSkipped, qs_blocked = in_state JobBlocked,
          qs_interrupted = count_where (\<lambda>x. jr_recoveryState x = Some JobInterrupted) rows,
          qs_paused = count_where (\<lambda>x. jr_recoveryState x = Some JobPaused) rows,
          qs_dueRetries = count_where (\<lambda>x. pj_state x = JobRetrying \<and> pj_nextEligibleAt x \<le> as_of) rows,
          qs_exhaustedRetries = count_where (\<lambda>x. pj_state x = JobFailed \<and> pj_maxAttempts x \<le> pj_attemptCount x) rows,
          qs_maximumDepth = (if rows = [] then None else Some (Max (set (map pj_depth rows)))),
          qs_averageDepth = (if rows = [] then None
             else Some (of_int (sum_list (map pj_depth rows)) / of_nat total)),
          qs_oldestPendingAt = min_text (map pj_queuedAt (filter (\<lambda>x. pj_state x = JobPending) rows)),
          qs_newestJobAt = max_text (map pj_createdAt rows),
          qs_duplicateDiscoveries = found - total\<rparr>)"

definition get_statistics :: "string \<Rightarrow> string \<Rightarrow> string \<Rightarrow> queue_statistics tx" where
  "get_statistics p r as_of =
     tx_bind (validate_ownership p r) (\<lambda>_.
     tx_bind (tx_lift (assert_utc_timestamp as_of)) (\<lambda>_. tx_gets (statistics_of p r as_of)))"

definition get_history :: "string \<Rightarrow> string \<Rightarrow> string \<Rightarrow> queue_history tx" where
  "get_history p r j =
     tx_bind (validate_ownership p r) (\<lambda>_.
     tx_bind (get_job p r j) (\<lambda>job.
     tx_gets (\<lambda>d. \<lparr>qh_job = job,
       qh_transitions = map row_to_transition (filter (\<lambda>x. pt_jobId x = pj_jobId job) (db_transitions d)),
       qh_attempts = map row_to_attempt (select_order (\<lambda>x. pa_jobId x = pj_jobId job) pa_attemptNumber (db_attempts d)),
       qh_discoveries = map row_to_discovery (filter (\<lambda>x. pd_childJobId x = pj_jobId job) (db_discoveries d))\<rparr>)))"

end
