(* ===== verification/Recovery_Repo.thy ===== *)
theory Recovery_Repo
  imports Queue_Repo Queue_Claims
begin

text \<open>
  packages/persistence-sqlite/src/recovery.ts, first part: Lease claims, heartbeats, renewal and
  release, checkpoints, artifact checkpoints and output descriptors. The fault-injection hook and
  the event callback, which do nothing by default, are left out.
\<close>

section \<open>Rows and lookups\<close>

definition row_to_lease :: "lease_row \<Rightarrow> job_lease" where
  "row_to_lease r = job_lease.truncate r"

definition row_to_checkpoint :: "checkpoint_row \<Rightarrow> job_checkpoint" where
  "row_to_checkpoint r = job_checkpoint.truncate r"

definition row_to_artifact :: "artifact_row \<Rightarrow> artifact_checkpoint" where
  "row_to_artifact r = artifact_checkpoint.truncate r"

definition row_to_output :: "output_descriptor \<Rightarrow> output_descriptor" where
  "row_to_output r = r"

definition row_to_report :: "recovery_row \<Rightarrow> recovery_report" where
  "row_to_report r = recovery_report.truncate r"

text \<open>\<open>hash\<close> of this repository: objects are ordered by \<open>localeCompare\<close>.\<close>

definition hash_locale :: "env \<Rightarrow> json \<Rightarrow> string" where
  "hash_locale E v = sha256 E (stringify (ordered_with (collation E) v))"

definition owned :: "string \<Rightarrow> string \<Rightarrow> unit tx" where
  "owned p r = tx_bind (tx_gets (\<lambda>d. db_project d = Some p \<and> (r, p) \<in> set (db_runs d))) (\<lambda>b. tx_guard b bad_input)"

record lease_ref =
  lf_projectId :: string
  lf_runId :: string
  lf_jobId :: string
  lf_leaseToken :: string
  lf_fencingGeneration :: int
  lf_ownerId :: string
  lf_operationId :: string

text \<open>The evaluation time defaults to the clock, which is read before anything else.\<close>

definition assert_lease :: "env \<Rightarrow> 'a lease_ref_scheme \<Rightarrow> lease_row tx" where
  "assert_lease E c =
     tx_bind (tx_now E) (\<lambda>evaluation.
     tx_bind (owned (lf_projectId c) (lf_runId c)) (\<lambda>_.
     tx_bind (tx_gets (active_lease (lf_projectId c) (lf_runId c) (lf_jobId c))) (\<lambda>l.
     tx_bind (tx_found l (RecoveryError LEASE_NOT_FOUND)) (\<lambda>l.
     tx_bind (tx_guard (sha256 E (lf_leaseToken c) = lr_tokenHash l) (RecoveryError LEASE_TOKEN_INVALID)) (\<lambda>_.
     tx_bind (tx_guard (lf_ownerId c = jl_ownerId l) (RecoveryError LEASE_OWNER_MISMATCH)) (\<lambda>_.
     tx_bind (tx_guard (lf_fencingGeneration c = jl_fencingGeneration l) (RecoveryError FENCING_GENERATION_STALE)) (\<lambda>_.
     tx_bind (get_job (lf_projectId c) (lf_runId c) (lf_jobId c)) (\<lambda>job.
     tx_bind (tx_guard (pj_fencingGeneration job = lf_fencingGeneration c) (RecoveryError FENCING_GENERATION_STALE)) (\<lambda>_.
     tx_bind (tx_lift (is_lease_expired (jl_status l) (jl_expiresAt l) evaluation)) (\<lambda>expired.
     tx_bind (tx_guard (\<not> expired) (RecoveryError LEASE_EXPIRED)) (\<lambda>_.
     tx_ret l)))))))))))"

text \<open>The log of a recovery step: physical states, the overlay they stand for, and an event.\<close>

definition physical :: "page_job_state \<Rightarrow> page_job_state" where
  "physical s = (if s = JobInterrupted \<or> s = JobPaused then JobProcessing else s)"

definition overlay_of :: "page_job_state \<Rightarrow> page_job_state option" where
  "overlay_of s = (if s = JobInterrupted \<or> s = JobPaused then Some s else None)"

record step_context =
  sx_projectId :: string
  sx_runId :: string
  sx_operationId :: string
  sx_correlationId :: string
  sx_recoveryOperationId :: "string option"

definition recovery_transition :: "env \<Rightarrow> step_context \<Rightarrow> string \<Rightarrow> page_job_state \<Rightarrow> page_job_state \<Rightarrow> string \<Rightarrow>
    string \<Rightarrow> int option \<Rightarrow> unit tx" where
  "recovery_transition E c job from to reason occurred generation =
     tx_bind (tx_id E) (\<lambda>i.
     tx_bind (tx_sql (insert_transition \<lparr>pt_transitionId = i, pt_jobId = job, pt_fromState = Some (physical from),
       pt_toState = physical to, pt_reasonCode = reason, pt_operationId = sx_operationId c,
       pt_correlationId = sx_correlationId c, pt_occurredAt = occurred,
       tr_recoveryFrom = overlay_of from, tr_recoveryTo = overlay_of to, tr_metadata = JObj []\<rparr>)) (\<lambda>_.
     tx_bind (tx_id E) (\<lambda>i.
     tx_sql (insert_event \<lparr>re_eventId = i, re_recoveryOperationId = sx_recoveryOperationId c,
       re_projectId = sx_projectId c, re_runId = sx_runId c, re_jobId = job, re_reasonCode = reason,
       re_from = from, re_to = to, re_fencingGeneration = generation, re_occurredAt = occurred\<rparr>))))"

definition run_control :: "string \<Rightarrow> string \<Rightarrow> control_row tx" where
  "run_control p r = tx_bind (tx_gets (\<lambda>d. List.find (\<lambda>x. ct_projectId x = p \<and> ct_runId x = r) (db_controls d)))
     (\<lambda>x. tx_found x bad_input)"

definition active_leases :: "string \<Rightarrow> string \<Rightarrow> db \<Rightarrow> nat" where
  "active_leases p r d = count_where (\<lambda>l. jl_projectId l = p \<and> jl_runId l = r \<and> jl_status l = LeaseActive) (db_leases d)"

definition pause_status_of :: "string \<Rightarrow> string \<Rightarrow> pause_status tx" where
  "pause_status_of p r =
     tx_bind (run_control p r) (\<lambda>x.
     tx_bind (tx_gets (active_leases p r)) (\<lambda>n.
     tx_ret \<lparr>ps_projectId = p, ps_runId = r, ps_controlState = ct_state x, ps_runState = ct_runState x,
       ps_requestedAt = ct_requestedAt x, ps_pausedAt = ct_pausedAt x, ps_activeLeaseCount = n\<rparr>))"

definition checkpoint_model_version :: int where "checkpoint_model_version = 1"

definition save_run_checkpoint :: "env \<Rightarrow> string \<Rightarrow> string \<Rightarrow> string \<Rightarrow> string \<Rightarrow> unit tx" where
  "save_run_checkpoint E p r operation t =
     tx_bind (tx_gets (\<lambda>d. filter (\<lambda>x. pj_projectId x = p \<and> pj_runId x = r) (db_jobs d))) (\<lambda>rows.
     tx_bind (tx_id E) (\<lambda>i.
     tx_bind (run_control p r) (\<lambda>x.
     tx_bind (tx_gets db_runCheckpointSequence) (\<lambda>seq.
     tx_sql (insert_run_checkpoint \<lparr>rc_checkpointId = i, rc_projectId = p, rc_runId = r, rc_sequence = seq + 1,
       rc_checkpointVersion = checkpoint_model_version, rc_controlState = ct_state x, rc_runState = ct_runState x,
       rc_pendingJobs = int (count_where (\<lambda>j. pj_state j = JobPending) rows),
       rc_processingJobs = int (count_where (\<lambda>j. pj_state j = JobProcessing \<and> jr_recoveryState j = None) rows),
       rc_completedJobs = int (count_where (\<lambda>j. pj_state j = JobCompleted) rows),
       rc_createdAt = t, rc_operationId = operation\<rparr>)))))"

section \<open>Lease claims\<close>

record lease_claim_input = op_context +
  wi_ownerId :: string
  wi_leaseDurationMs :: jsnum
  wi_jobId :: "string option"

text \<open>The request without its correlation and operation identifiers.\<close>

definition lease_claim_json :: "lease_claim_input \<Rightarrow> json" where
  "lease_claim_json c = obj [(''projectId'', Some (JStr (oc_projectId c))), (''runId'', Some (JStr (oc_runId c))),
     (''jobId'', map_option JStr (wi_jobId c)), (''ownerId'', Some (JStr (wi_ownerId c))),
     (''leaseDurationMs'', Some (json_num (wi_leaseDurationMs c))),
     (''idempotencyKey'', Some (JStr (oc_idempotencyKey c)))]"

definition claim_recorded :: "lease_claim_input \<Rightarrow> string \<Rightarrow> db \<Rightarrow> operation_row option" where
  "claim_recorded c type d = List.find (\<lambda>o'. oq_projectId o' = oc_projectId c \<and> oq_type o' = type \<and>
     oq_key o' = oc_idempotencyKey c) (db_operations d)"

text \<open>The Lease a recorded claim took, if it is still held by the same claim.\<close>

definition replay_lease :: "env \<Rightarrow> lease_claim_input \<Rightarrow> string \<Rightarrow> lease_claim tx" where
  "replay_lease E c j =
     tx_bind (tx_gets (active_lease (oc_projectId c) (oc_runId c) j)) (\<lambda>lease.
     tx_bind (get_job_row (oc_projectId c) (oc_runId c) j) (\<lambda>row.
     (case (lease, pj_claimToken row) of
        (Some l, Some token) \<Rightarrow>
          if sha256 E token \<noteq> lr_tokenHash l then tx_throw (RecoveryError LEASE_NOT_FOUND)
          else tx_ret \<lparr>lc_job = row_to_job row, lc_lease = row_to_lease l, lc_leaseToken = token\<rparr>
      | _ \<Rightarrow> tx_throw (RecoveryError LEASE_NOT_FOUND))))"

definition leased_row :: "string \<Rightarrow> string \<Rightarrow> string \<Rightarrow> int \<Rightarrow> int \<Rightarrow> job_row \<Rightarrow> job_row" where
  "leased_row token owner t n g x = x\<lparr>pj_state := JobProcessing, jr_recoveryState := None, pj_claimToken := Some token,
     pj_claimedBy := Some owner, pj_claimedAt := Some t, pj_lastAttemptAt := Some t, pj_attemptCount := n,
     pj_fencingGeneration := g, pj_updatedAt := t\<rparr>"

text \<open>
  Taking a pending job under a new Lease: one attempt and one Fencing Generation further, with the
  record of the claim. The two operations differ in their names, in the reason of the transition
  and in the metadata they add.
\<close>

definition lease_job :: "env \<Rightarrow> lease_claim_input \<Rightarrow> string \<Rightarrow> string \<Rightarrow> bool \<Rightarrow> string \<Rightarrow> string \<Rightarrow> page_job \<Rightarrow> lease_claim tx" where
  "lease_job E c type reason render h t job =
     tx_bind (tx_guard (pj_attemptCount job < pj_maxAttempts job) (QueueError QUEUE_MAX_ATTEMPTS_REACHED)) (\<lambda>_.
     tx_bind (tx_id E) (\<lambda>token.
     tx_bind (tx_id E) (\<lambda>lease_id.
     let g = pj_fencingGeneration job + 1; n = pj_attemptCount job + 1;
         mine = (\<lambda>x. pj_jobId x = pj_jobId job \<and> pj_state x = JobPending \<and> jr_recoveryState x = None \<and>
                     pj_fencingGeneration x = pj_fencingGeneration job) in
     tx_bind (tx_lift (calculate_lease_expiry t (wi_leaseDurationMs c))) (\<lambda>expires.
     tx_bind (tx_gets (\<lambda>d. count_where mine (db_jobs d))) (\<lambda>changes.
     tx_bind (tx_sql (update_jobs mine (leased_row token (wi_ownerId c) t n g))) (\<lambda>_.
     tx_bind (tx_guard (changes = 1) (QueueError QUEUE_CLAIM_CONFLICT)) (\<lambda>_.
     tx_bind (tx_id E) (\<lambda>attempt_id.
     tx_bind (tx_sql (insert_attempt \<lparr>pa_attemptId = attempt_id, pa_jobId = pj_jobId job, pa_attemptNumber = n,
         pa_claimToken = token, pa_startedAt = t, pa_finishedAt = None, pa_outcome = AttProcessing,
         pa_errorCode = None, pa_errorCategory = None, pa_safeErrorMessage = None, ar_recoveryOutcome = None,
         ar_metadata = obj [(''fencingGeneration'', Some (JNum g)), (''leaseId'', Some (JStr lease_id)),
           (''purpose'', if render then Some (JStr ''render'') else None)]\<rparr>)) (\<lambda>_.
     tx_bind (tx_sql (insert_lease \<lparr>jl_leaseId = lease_id, jl_jobId = pj_jobId job, jl_projectId = oc_projectId c,
         jl_runId = oc_runId c, jl_ownerId = wi_ownerId c, jl_fencingGeneration = g, jl_status = LeaseActive,
         jl_acquiredAt = t, jl_heartbeatAt = t, jl_expiresAt = expires, jl_releasedAt = None, jl_releaseReason = None,
         lr_tokenHash = sha256 E token, lr_lastOperationId = oc_operationId c\<rparr>)) (\<lambda>_.
     tx_bind (tx_id E) (\<lambda>i.
     tx_bind (tx_sql (insert_transition \<lparr>pt_transitionId = i, pt_jobId = pj_jobId job, pt_fromState = Some JobPending,
         pt_toState = JobProcessing, pt_reasonCode = reason, pt_operationId = oc_operationId c,
         pt_correlationId = oc_correlationId c, pt_occurredAt = t, tr_recoveryFrom = None, tr_recoveryTo = None,
         tr_metadata = obj [(''attemptId'', if render then Some (JStr attempt_id) else None),
           (''attemptNumber'', Some (JNum n)), (''fencingGeneration'', Some (JNum g)), (''leaseId'', Some (JStr lease_id))]\<rparr>)) (\<lambda>_.
     tx_bind (tx_id E) (\<lambda>i.
     tx_bind (tx_sql (insert_operation \<lparr>oq_recordId = i, oq_projectId = oc_projectId c, oq_runId = oc_runId c,
         oq_type = type, oq_key = oc_idempotencyKey c, oq_hash = h,
         oq_result = ResLeaseClaim (Some (pj_jobId job)), oq_createdAt = t\<rparr>)) (\<lambda>_.
     tx_bind (tx_gets (active_lease (oc_projectId c) (oc_runId c) (pj_jobId job))) (\<lambda>l.
     tx_bind (tx_found l PlainError) (\<lambda>l.
     tx_bind (get_job (oc_projectId c) (oc_runId c) (pj_jobId job)) (\<lambda>j.
     tx_ret \<lparr>lc_job = j, lc_lease = row_to_lease l, lc_leaseToken = token\<rparr>)))))))))))))))))"

definition leasable :: "string \<Rightarrow> string \<Rightarrow> string \<Rightarrow> job_row \<Rightarrow> bool" where
  "leasable p r t x = (claimable p r t x \<and> jr_recoveryState x = None)"

definition claim_next_with_lease :: "env \<Rightarrow> lease_claim_input \<Rightarrow> lease_claim option tx" where
  "claim_next_with_lease E c =
     (let type = ''recovery.claimNextWithLease''; h = hash_locale E (lease_claim_json c) in
      tx_bind (tx_lift (validate_lease_duration (wi_leaseDurationMs c))) (\<lambda>_.
      recovery_transaction (
        tx_bind (owned (oc_projectId c) (oc_runId c)) (\<lambda>_.
        tx_bind (run_control (oc_projectId c) (oc_runId c)) (\<lambda>x.
        tx_bind (tx_guard (ct_state x = CtlActive) (RecoveryError RUN_NOT_ACTIVE)) (\<lambda>_.
        tx_bind (tx_gets (claim_recorded c type)) (\<lambda>existing.
        case existing of
          Some o' \<Rightarrow>
            tx_bind (tx_guard (oq_hash o' = h) (QueueError QUEUE_OPERATION_IDEMPOTENCY_CONFLICT)) (\<lambda>_.
            (case oq_result o' of
               ResLeaseClaim None \<Rightarrow> tx_ret None
             | ResLeaseClaim (Some j) \<Rightarrow> tx_bind (replay_lease E c j) (\<lambda>l. tx_ret (Some l))
             | _ \<Rightarrow> tx_throw PlainError))
        | None \<Rightarrow>
            tx_bind (tx_now E) (\<lambda>t.
            tx_bind (tx_gets (\<lambda>d. select_first (leasable (oc_projectId c) (oc_runId c) t) row_order_key (db_jobs d))) (\<lambda>row.
            case row of
              None \<Rightarrow>
                tx_bind (tx_id E) (\<lambda>i.
                tx_bind (tx_sql (insert_operation \<lparr>oq_recordId = i, oq_projectId = oc_projectId c, oq_runId = oc_runId c,
                  oq_type = type, oq_key = oc_idempotencyKey c, oq_hash = h, oq_result = ResLeaseClaim None,
                  oq_createdAt = t\<rparr>)) (\<lambda>_. tx_ret None))
            | Some row \<Rightarrow>
                tx_bind (lease_job E c type ''LEASE_CLAIMED'' False h t (row_to_job row)) (\<lambda>l. tx_ret (Some l)))))))))))"

definition claim_job_with_lease :: "env \<Rightarrow> lease_claim_input \<Rightarrow> string \<Rightarrow> lease_claim tx" where
  "claim_job_with_lease E c j =
     (let type = ''recovery.claimJobWithLease''; h = hash_locale E (lease_claim_json c) in
      tx_bind (tx_lift (validate_lease_duration (wi_leaseDurationMs c))) (\<lambda>_.
      recovery_transaction (
        tx_bind (owned (oc_projectId c) (oc_runId c)) (\<lambda>_.
        tx_bind (run_control (oc_projectId c) (oc_runId c)) (\<lambda>x.
        tx_bind (tx_guard (ct_state x = CtlActive) (RecoveryError RUN_NOT_ACTIVE)) (\<lambda>_.
        tx_bind (tx_gets (claim_recorded c type)) (\<lambda>existing.
        case existing of
          Some o' \<Rightarrow>
            tx_bind (tx_guard (oq_hash o' = h) (QueueError QUEUE_OPERATION_IDEMPOTENCY_CONFLICT)) (\<lambda>_.
            tx_bind (tx_guard (oq_result o' = ResLeaseClaim (Some j)) (QueueError QUEUE_OPERATION_IDEMPOTENCY_CONFLICT)) (\<lambda>_.
            replay_lease E c j))
        | None \<Rightarrow>
            tx_bind (tx_now E) (\<lambda>t.
            tx_bind (get_job_row (oc_projectId c) (oc_runId c) j) (\<lambda>row.
            let job = row_to_job row in
            tx_bind (tx_guard (pj_state job = JobPending \<and> jr_recoveryState row = None \<and> pj_nextEligibleAt job \<le> t)
              (QueueError QUEUE_JOB_STATE_CONFLICT)) (\<lambda>_.
            lease_job E c type ''RENDER_LEASE_CLAIMED'' True h t job))))))))))"

section \<open>Heartbeat, renewal, release\<close>

definition live_lease :: "string \<Rightarrow> lease_row \<Rightarrow> bool" where
  "live_lease i l = (jl_leaseId l = i \<and> jl_status l = LeaseActive)"

definition lease_by_id :: "string \<Rightarrow> job_lease tx" where
  "lease_by_id i = tx_bind (tx_gets (\<lambda>d. List.find (\<lambda>l. jl_leaseId l = i) (db_leases d))) (\<lambda>l.
     tx_bind (tx_found l PlainError) (\<lambda>l. tx_ret (row_to_lease l)))"

definition heartbeat_lease :: "env \<Rightarrow> lease_ref \<Rightarrow> job_lease tx" where
  "heartbeat_lease E c = recovery_transaction (
     tx_bind (assert_lease E c) (\<lambda>l.
     tx_bind (tx_now E) (\<lambda>t.
     tx_bind (tx_sql (update_leases (live_lease (jl_leaseId l))
         (\<lambda>x. x\<lparr>jl_heartbeatAt := t, lr_lastOperationId := lf_operationId c\<rparr>))) (\<lambda>_.
     lease_by_id (jl_leaseId l)))))"

definition renew_lease :: "env \<Rightarrow> lease_ref \<Rightarrow> jsnum \<Rightarrow> job_lease tx" where
  "renew_lease E c extension =
     tx_bind (tx_lift (validate_lease_duration extension)) (\<lambda>_.
     recovery_transaction (
       tx_bind (assert_lease E c) (\<lambda>l.
       tx_bind (tx_now E) (\<lambda>t.
       tx_bind (tx_lift (next_lease_expiry (jl_status l) (jl_expiresAt l) t extension)) (\<lambda>expires.
       tx_bind (tx_sql (update_leases (live_lease (jl_leaseId l))
           (\<lambda>x. x\<lparr>jl_heartbeatAt := t, jl_expiresAt := expires, lr_lastOperationId := lf_operationId c\<rparr>))) (\<lambda>_.
       lease_by_id (jl_leaseId l)))))))"

definition release_lease :: "env \<Rightarrow> lease_ref \<Rightarrow> string \<Rightarrow> job_lease tx" where
  "release_lease E c reason = recovery_transaction (
     tx_bind (assert_lease E c) (\<lambda>l.
     tx_bind (tx_now E) (\<lambda>t.
     tx_bind (tx_sql (update_leases (live_lease (jl_leaseId l))
         (\<lambda>x. x\<lparr>jl_status := LeaseReleased, jl_releasedAt := Some t, jl_releaseReason := Some reason,
            lr_lastOperationId := lf_operationId c\<rparr>))) (\<lambda>_.
     lease_by_id (jl_leaseId l)))))"

text \<open>Newest first, ties by identifier.\<close>

definition list_leases :: "string \<Rightarrow> string \<Rightarrow> lease_status option \<Rightarrow> jsnum \<Rightarrow> job_lease list tx" where
  "list_leases p r status limit =
     tx_bind (owned p r) (\<lambda>_.
     tx_bind (tx_found (bounded_int 1 lease_list_limit limit) bad_input) (\<lambda>n.
     tx_gets (\<lambda>d. map row_to_lease (take (nat n) (rev (select_order
       (\<lambda>l. jl_projectId l = p \<and> jl_runId l = r \<and> (case status of None \<Rightarrow> True | Some s \<Rightarrow> jl_status l = s))
       (\<lambda>l. (jl_acquiredAt l, jl_leaseId l)) (db_leases d)))))))"

definition get_lease :: "string \<Rightarrow> string \<Rightarrow> string \<Rightarrow> job_lease tx" where
  "get_lease p r j =
     tx_bind (owned p r) (\<lambda>_.
     tx_bind (tx_gets (\<lambda>d. select_first (\<lambda>l. jl_projectId l = p \<and> jl_runId l = r \<and> jl_jobId l = j)
       (\<lambda>l. - jl_fencingGeneration l) (db_leases d))) (\<lambda>l.
     tx_bind (tx_found l (RecoveryError LEASE_NOT_FOUND)) (\<lambda>l. tx_ret (row_to_lease l))))"

section \<open>Checkpoints, artifacts and outputs\<close>

record checkpoint_input = lease_ref +
  ki_phase :: string
  ki_progress :: jsnum
  ki_relativePath :: "string option"
  ki_payload :: "(string \<times> json) list"

definition latest_checkpoint :: "string \<Rightarrow> db \<Rightarrow> checkpoint_row option" where
  "latest_checkpoint j d = select_first (\<lambda>x. jc_jobId x = j \<and> jc_committed x) (\<lambda>x. - jc_sequence x) (db_checkpoints d)"

definition checkpoint_by_id :: "string \<Rightarrow> job_checkpoint tx" where
  "checkpoint_by_id i = tx_bind (tx_gets (\<lambda>d. List.find (\<lambda>x. jc_checkpointId x = i) (db_checkpoints d))) (\<lambda>x.
     tx_bind (tx_found x PlainError) (\<lambda>x. tx_ret (row_to_checkpoint x)))"

definition save_job_checkpoint :: "env \<Rightarrow> checkpoint_input \<Rightarrow> job_checkpoint tx" where
  "save_job_checkpoint E c = recovery_transaction (
     tx_bind (assert_lease E c) (\<lambda>_.
     tx_bind (tx_now E) (\<lambda>t.
     tx_bind (get_job (lf_projectId c) (lf_runId c) (lf_jobId c)) (\<lambda>job.
     tx_bind (tx_lift (validate_checkpoint_payload (collation E) (ki_payload c))) (\<lambda>_.
     tx_bind (tx_lift (validate_checkpoint_progress (ki_progress c))) (\<lambda>progress.
     tx_bind (tx_lift (case ki_relativePath c of None \<Rightarrow> Inr [] | Some p \<Rightarrow> validate_portable_relative_path p)) (\<lambda>_.
     tx_bind (tx_gets (latest_checkpoint (lf_jobId c))) (\<lambda>previous.
     tx_bind (tx_id E) (\<lambda>i.
     tx_bind (tx_gets db_checkpointSequence) (\<lambda>seq.
     tx_bind (tx_sql (insert_checkpoint \<lparr>jc_checkpointId = i, jc_jobId = lf_jobId c, jc_attemptNumber = pj_attemptCount job,
         jc_sequence = seq + 1, jc_checkpointVersion = checkpoint_model_version,
         jc_fencingGeneration = lf_fencingGeneration c, jc_ownerId = lf_ownerId c, jc_phase = ki_phase c,
         jc_progress = progress, jc_relativePath = ki_relativePath c,
         jc_payload = ordered_with (collation E) (JObj (ki_payload c)), jc_committed = True,
         jc_supersedesCheckpointId = map_option jc_checkpointId previous, jc_createdAt = t,
         jc_operationId = lf_operationId c\<rparr>)) (\<lambda>_.
     checkpoint_by_id i)))))))))))"

definition get_latest_job_checkpoint :: "string \<Rightarrow> string \<Rightarrow> string \<Rightarrow> job_checkpoint option tx" where
  "get_latest_job_checkpoint p r j =
     tx_bind (owned p r) (\<lambda>_. tx_bind (get_job_row p r j) (\<lambda>_.
     tx_gets (\<lambda>d. map_option row_to_checkpoint (latest_checkpoint j d))))"

definition list_job_checkpoints :: "string \<Rightarrow> string \<Rightarrow> string \<Rightarrow> jsnum \<Rightarrow> job_checkpoint list tx" where
  "list_job_checkpoints p r j limit =
     tx_bind (owned p r) (\<lambda>_. tx_bind (get_job_row p r j) (\<lambda>_.
     tx_bind (tx_found (bounded_int 1 checkpoint_list_limit limit) bad_input) (\<lambda>n.
     tx_gets (\<lambda>d. map row_to_checkpoint (take (nat n)
       (select_order (\<lambda>x. jc_jobId x = j) (\<lambda>x. - jc_sequence x) (db_checkpoints d)))))))"

record artifact_input = lease_ref +
  ai_artifactKey :: string
  ai_artifactKind :: artifact_kind
  ai_relativePath :: string
  ai_bytesWritten :: jsnum
  ai_expectedBytes :: "jsnum option"
  ai_sha256 :: "string option"
  ai_validator :: "string option"
  ai_resumeOffset :: jsnum
  ai_committed :: bool

definition artifact_of :: "artifact_input \<Rightarrow> string \<Rightarrow> string \<Rightarrow> artifact_checkpoint" where
  "artifact_of c i t = \<lparr>ac_artifactCheckpointId = i, ac_jobId = lf_jobId c, ac_artifactKey = ai_artifactKey c,
     ac_artifactKind = ai_artifactKind c, ac_relativePath = ai_relativePath c, ac_bytesWritten = ai_bytesWritten c,
     ac_expectedBytes = ai_expectedBytes c, ac_sha256 = ai_sha256 c, ac_validator = ai_validator c,
     ac_resumeOffset = ai_resumeOffset c, ac_fencingGeneration = lf_fencingGeneration c, ac_committed = ai_committed c,
     ac_createdAt = t\<rparr>"

definition save_artifact_checkpoint :: "env \<Rightarrow> artifact_input \<Rightarrow> artifact_checkpoint tx" where
  "save_artifact_checkpoint E c = recovery_transaction (
     tx_bind (assert_lease E c) (\<lambda>_.
     tx_bind (tx_lift (validate_artifact_checkpoint (artifact_of c [] []))) (\<lambda>_.
     tx_bind (tx_id E) (\<lambda>i.
     tx_bind (tx_now E) (\<lambda>t.
     tx_bind (tx_sql (insert_artifact (artifact_checkpoint.extend (artifact_of c i t)
         (artifact_row.fields (lf_operationId c))))) (\<lambda>_.
     tx_bind (tx_gets (\<lambda>d. List.find (\<lambda>x. ac_artifactCheckpointId x = i) (db_artifacts d))) (\<lambda>x.
     tx_bind (tx_found x PlainError) (\<lambda>x. tx_ret (row_to_artifact x)))))))))"

record artifact_verdict =
  av_valid :: bool
  av_checkpoint :: "artifact_checkpoint option"
  av_reasonCode :: "string option"

definition check_artifact_checkpoint :: "string \<Rightarrow> string \<Rightarrow> string \<Rightarrow> string \<Rightarrow> artifact_verdict tx" where
  "check_artifact_checkpoint p r j key =
     tx_bind (owned p r) (\<lambda>_. tx_bind (get_job_row p r j) (\<lambda>_.
     tx_bind (tx_gets (\<lambda>d. rev (select_order (\<lambda>x. ac_jobId x = j \<and> ac_artifactKey x = key)
         (\<lambda>x. (ac_createdAt x, ac_artifactCheckpointId x)) (db_artifacts d)))) (\<lambda>rows.
     tx_ret (case rows of
       [] \<Rightarrow> \<lparr>av_valid = False, av_checkpoint = None, av_reasonCode = Some ''ARTIFACT_CHECKPOINT_NOT_FOUND''\<rparr>
     | x # _ \<Rightarrow>
         (let a = row_to_artifact x in case validate_artifact_checkpoint a of
            Inl _ \<Rightarrow> \<lparr>av_valid = False, av_checkpoint = Some a, av_reasonCode = Some ''ARTIFACT_CHECKPOINT_INVALID''\<rparr>
          | Inr _ \<Rightarrow> \<lparr>av_valid = ac_committed a, av_checkpoint = Some a,
              av_reasonCode = (if ac_committed a then None else Some ''ARTIFACT_CHECKPOINT_UNCOMMITTED'')\<rparr>)))))"

record output_input =
  oi_relativePath :: string
  oi_byteLength :: jsnum
  oi_sha256 :: string
  oi_verificationPolicy :: string

definition save_one_output :: "env \<Rightarrow> string \<Rightarrow> output_input \<Rightarrow> output_descriptor tx" where
  "save_one_output E j o' =
     tx_bind (tx_id E) (\<lambda>i.
     tx_bind (tx_lift (validate_output_descriptor \<lparr>od_descriptorId = i, od_jobId = j, od_relativePath = oi_relativePath o',
         od_byteLength = oi_byteLength o', od_sha256 = oi_sha256 o', od_verificationPolicy = oi_verificationPolicy o',
         od_verifiedAt = None, od_verificationStatus = VerPending\<rparr>)) (\<lambda>descriptor.
     tx_bind (tx_gets (\<lambda>d. List.find (\<lambda>x. od_jobId x = j \<and> od_relativePath x = od_relativePath descriptor) (db_outputs d))) (\<lambda>existing.
     case existing of
       Some x \<Rightarrow>
         tx_bind (tx_guard (od_byteLength x = od_byteLength descriptor \<and> od_sha256 x = od_sha256 descriptor)
           (RecoveryError OUTPUT_DESCRIPTOR_INVALID)) (\<lambda>_. tx_ret (row_to_output x))
     | None \<Rightarrow> tx_bind (tx_sql (insert_output descriptor)) (\<lambda>_. tx_ret descriptor))))"

definition save_completed_outputs :: "env \<Rightarrow> lease_ref \<Rightarrow> output_input list \<Rightarrow> output_descriptor list tx" where
  "save_completed_outputs E c outputs = recovery_transaction (
     tx_bind (assert_lease E c) (\<lambda>_.
     tx_bind (tx_now E) (\<lambda>_.
     tx_each (save_one_output E (lf_jobId c)) outputs)))"

end
