(* ===== verification/Recovery_Control.thy ===== *)
theory Recovery_Control
  imports Recovery_Repo
begin

text \<open>
  packages/persistence-sqlite/src/recovery.ts, second part: inspection and recovery of interrupted
  work, cooperative pause and resume, the state of a Crawl Run, verification of completed outputs,
  and execution sessions.
\<close>

section \<open>Candidates\<close>

definition lease_of :: "string \<Rightarrow> db \<Rightarrow> lease_row option" where
  "lease_of j d = List.find (\<lambda>l. jl_jobId l = j \<and> jl_status l = LeaseActive) (db_leases d)"

definition candidate :: "string \<Rightarrow> string \<Rightarrow> string \<Rightarrow> int \<Rightarrow> db \<Rightarrow> job_row \<Rightarrow> bool" where
  "candidate p r evaluation after d x = (pj_projectId x = p \<and> pj_runId x = r \<and> after < pj_queueSequence x \<and>
     (pj_state x = JobProcessing \<and> jr_recoveryState x = None \<and>
        (case lease_of (pj_jobId x) d of None \<Rightarrow> True | Some l \<Rightarrow> jl_expiresAt l \<le> evaluation) \<or>
      pj_state x = JobCompleted \<and>
        list_ex (\<lambda>o'. od_jobId o' = pj_jobId x \<and> od_verificationStatus o' \<noteq> VerValid) (db_outputs d)))"

text \<open>A candidate with the active Lease it was joined to.\<close>

definition candidate_rows :: "string \<Rightarrow> string \<Rightarrow> string \<Rightarrow> int \<Rightarrow> int \<Rightarrow> db \<Rightarrow> (job_row \<times> lease_row option) list" where
  "candidate_rows p r evaluation after limit d =
     map (\<lambda>x. (x, lease_of (pj_jobId x) d))
       (take (nat (limit + 1)) (select_order (candidate p r evaluation after d) pj_queueSequence (db_jobs d)))"

definition inspection_of :: "string \<Rightarrow> job_row \<times> lease_row option \<Rightarrow> inspection_item" where
  "inspection_of evaluation row = (case row of (x, lease) \<Rightarrow>
     (let job = row_to_job x; issue = pj_state job = JobCompleted;
          expired = (case lease of None \<Rightarrow> False | Some l \<Rightarrow> jl_expiresAt l \<le> evaluation)
      in \<lparr>ri_jobId = pj_jobId job, ri_queueSequence = pj_queueSequence job, ri_currentState = pj_state job,
          ri_reasonCode = (if issue then ''COMPLETED_OUTPUT_REQUIRES_VERIFICATION''
             else if expired then ''LEASE_EXPIRED'' else ''LEASE_MISSING''),
          ri_action = (if issue then ActReportOutput else ActRequeue),
          ri_leaseId = map_option jl_leaseId lease, ri_fencingGeneration = pj_fencingGeneration job\<rparr>))"

definition get_report_row :: "string \<Rightarrow> string \<Rightarrow> string \<Rightarrow> recovery_row tx" where
  "get_report_row p r i =
     tx_bind (tx_gets (\<lambda>d. List.find (\<lambda>x. rr_projectId x = p \<and> rr_runId x = r \<and> rr_recoveryOperationId x = i) (db_recoveries d)))
       (\<lambda>x. tx_found x (RecoveryError RECOVERY_OPERATION_NOT_FOUND))"

definition get_recovery_report :: "string \<Rightarrow> string \<Rightarrow> string \<Rightarrow> recovery_report tx" where
  "get_recovery_report p r i =
     tx_bind (owned p r) (\<lambda>_. tx_bind (get_report_row p r i) (\<lambda>x. tx_ret (row_to_report x)))"

text \<open>\<open>selected.at(-1)?.queue_sequence\<close>, or the cursor that was given.\<close>

definition next_cursor :: "int \<Rightarrow> (job_row \<times> lease_row option) list \<Rightarrow> int" where
  "next_cursor cursor selected = (if selected = [] then cursor else pj_queueSequence (fst (last selected)))"

section \<open>Inspection\<close>

record inspect_input =
  ni_projectId :: string
  ni_runId :: string
  ni_evaluationTime :: string
  ni_limit :: jsnum
  ni_afterSequence :: "jsnum option"

definition inspect_json :: "inspect_input \<Rightarrow> json" where
  "inspect_json c = obj [(''projectId'', Some (JStr (ni_projectId c))), (''runId'', Some (JStr (ni_runId c))),
     (''evaluationTime'', Some (JStr (ni_evaluationTime c))), (''limit'', Some (json_num (ni_limit c))),
     (''afterSequence'', map_option json_num (ni_afterSequence c))]"

definition inspect_recovery :: "env \<Rightarrow> inspect_input \<Rightarrow> recovery_report tx" where
  "inspect_recovery E c =
     (let p = ni_projectId c; r = ni_runId c in
      tx_bind (owned p r) (\<lambda>_.
      tx_bind (tx_lift (parse_utc (ni_evaluationTime c))) (\<lambda>_.
      tx_bind (tx_lift (validate_recovery_limit (ni_limit c))) (\<lambda>limit.
      tx_bind (tx_found (case ni_afterSequence c of None \<Rightarrow> Some 0
          | Some a \<Rightarrow> (case int_value a of None \<Rightarrow> None | Some i \<Rightarrow> if i < 0 then None else Some i)) bad_input) (\<lambda>after.
      recovery_transaction (
        tx_bind (tx_gets (candidate_rows p r (ni_evaluationTime c) after limit)) (\<lambda>rows.
        let selected = take (nat limit) rows; items = map (inspection_of (ni_evaluationTime c)) selected in
        tx_bind (tx_id E) (\<lambda>i.
        tx_bind (tx_now E) (\<lambda>t.
        tx_bind (tx_sql (insert_recovery \<lparr>rr_recoveryOperationId = i, rr_projectId = p, rr_runId = r,
          rr_status = RecInspected, rr_dryRun = True, rr_evaluationTime = ni_evaluationTime c,
          rr_scanned = int (length items),
          rr_interrupted = int (count_where (\<lambda>x. ri_action x = ActRequeue) items),
          rr_requeued = 0, rr_paused = 0,
          rr_outputIssues = int (count_where (\<lambda>x. ri_action x = ActReportOutput) items),
          rr_cursor = next_cursor after selected, rr_hasMore = (nat limit < length rows), rr_items = items,
          rr_startedAt = t, rr_completedAt = Some t,
          ro_idempotencyKey = ''inspect-'' @ i, ro_requestHash = hash_locale E (inspect_json c),
          ro_batchLimit = limit, ro_ownerOperationId = ''inspect''\<rparr>)) (\<lambda>_.
        tx_bind (get_report_row p r i) (\<lambda>x. tx_ret (row_to_report x))))))))))))"

section \<open>Recovery\<close>

record recover_input = op_context +
  vi_evaluationTime :: string
  vi_limit :: jsnum
  vi_confirmation :: string

definition recover_json :: "recover_input \<Rightarrow> json" where
  "recover_json c = obj [(''projectId'', Some (JStr (oc_projectId c))), (''runId'', Some (JStr (oc_runId c))),
     (''evaluationTime'', Some (JStr (vi_evaluationTime c))), (''limit'', Some (json_num (vi_limit c))),
     (''confirmation'', Some (JStr (vi_confirmation c)))]"

record recovery_tally =
  rt_item :: inspection_item
  rt_interrupted :: int
  rt_requeued :: int
  rt_paused :: int
  rt_outputIssues :: int

definition step_of :: "'a op_context_scheme \<Rightarrow> string option \<Rightarrow> step_context" where
  "step_of c recovery = \<lparr>sx_projectId = oc_projectId c, sx_runId = oc_runId c, sx_operationId = oc_operationId c,
     sx_correlationId = oc_correlationId c, sx_recoveryOperationId = recovery\<rparr>"

definition requeued_row :: "string \<Rightarrow> job_row \<Rightarrow> job_row" where
  "requeued_row t x = x\<lparr>pj_state := JobPending, jr_recoveryState := None, pj_claimToken := None, pj_claimedBy := None,
     pj_claimedAt := None, pj_updatedAt := t\<rparr>"

definition exhausted_row :: "string \<Rightarrow> job_row \<Rightarrow> job_row" where
  "exhausted_row t x = x\<lparr>pj_state := JobFailed, jr_recoveryState := None, pj_claimToken := None, pj_claimedBy := None,
     pj_claimedAt := None, pj_failedAt := Some t, pj_lastErrorCode := Some ''RECOVERY_ATTEMPTS_EXHAUSTED'',
     pj_lastErrorCategory := Some FcPlatform, pj_lastErrorMessage := Some ''Recovery could not requeue an exhausted Job.'',
     pj_updatedAt := t\<rparr>"

text \<open>One candidate: an issue is reported, otherwise the job is interrupted and then paused, requeued or failed.\<close>

definition recover_one :: "env \<Rightarrow> recover_input \<Rightarrow> string \<Rightarrow> string \<Rightarrow> bool \<Rightarrow> job_row \<times> lease_row option \<Rightarrow> recovery_tally tx" where
  "recover_one E c t recovery pausing row =
     (let initial = inspection_of (vi_evaluationTime c) row; job = row_to_job (fst row);
          step = step_of c (Some recovery);
          overlay = (if pausing then JobPaused else JobInterrupted);
          reason = (if pausing then ''PAUSE_ACKNOWLEDGED_BY_RECOVERY'' else ''LEASE_EXPIRED'');
          processing = (\<lambda>x. pj_jobId x = pj_jobId job \<and> pj_state x = JobProcessing) in
      if pj_state job = JobCompleted then
        tx_ret \<lparr>rt_item = initial, rt_interrupted = 0, rt_requeued = 0, rt_paused = 0, rt_outputIssues = 1\<rparr>
      else
        tx_bind (tx_gets (active_lease (oc_projectId c) (oc_runId c) (pj_jobId job))) (\<lambda>lease.
        tx_bind (case lease of None \<Rightarrow> tx_ret ()
          | Some l \<Rightarrow> tx_sql (update_leases (live_lease (jl_leaseId l))
              (\<lambda>x. x\<lparr>jl_status := LeaseRecovered, jl_releasedAt := Some t, jl_releaseReason := Some ''LEASE_EXPIRED_RECOVERY'',
                 lr_lastOperationId := oc_operationId c\<rparr>))) (\<lambda>_.
        tx_bind (tx_sql (update_attempts (open_attempt (pj_jobId job) (pj_claimToken job))
            (\<lambda>a. a\<lparr>pa_finishedAt := Some t, pa_outcome := AttFailed,
               ar_recoveryOutcome := Some (if pausing then AttPaused else AttInterrupted), pa_errorCode := Some reason,
               pa_errorCategory := Some FcPlatform,
               pa_safeErrorMessage := Some ''The prior owner ended before committing a terminal result.''\<rparr>))) (\<lambda>_.
        tx_bind (tx_sql (update_jobs processing (\<lambda>x. x\<lparr>jr_recoveryState := Some overlay, pj_updatedAt := t\<rparr>))) (\<lambda>_.
        tx_bind (recovery_transition E step (pj_jobId job) JobProcessing overlay reason t (Some (pj_fencingGeneration job))) (\<lambda>_.
        if pausing then
          tx_ret \<lparr>rt_item = initial\<lparr>ri_action := ActPause, ri_reasonCode := ''PAUSE_ACKNOWLEDGED_BY_RECOVERY''\<rparr>,
            rt_interrupted = 0, rt_requeued = 0, rt_paused = 1, rt_outputIssues = 0\<rparr>
        else
          (let again = pj_attemptCount job < pj_maxAttempts job;
               code = (if again then ''RECOVERY_REQUEUED'' else ''RECOVERY_ATTEMPTS_EXHAUSTED'') in
           tx_bind (tx_sql (update_jobs processing (if again then requeued_row t else exhausted_row t))) (\<lambda>_.
           tx_bind (recovery_transition E step (pj_jobId job) JobInterrupted (if again then JobPending else JobFailed) code t
             (Some (pj_fencingGeneration job))) (\<lambda>_.
           tx_ret \<lparr>rt_item = initial\<lparr>ri_action := (if again then ActRequeue else ActNone), ri_reasonCode := code\<rparr>,
             rt_interrupted = 1, rt_requeued = (if again then 1 else 0), rt_paused = 0, rt_outputIssues = 0\<rparr>)))))))))"

definition this_run :: "string \<Rightarrow> string \<Rightarrow> control_row \<Rightarrow> bool" where
  "this_run p r x = (ct_projectId x = p \<and> ct_runId x = r)"

definition restored_control :: "run_control_state \<Rightarrow> nat \<Rightarrow> run_control_state" where
  "restored_control prior active =
     (if (prior = CtlPauseRequested \<or> prior = CtlPaused) \<and> active = 0 then CtlPaused
      else if prior = CtlPauseRequested then CtlPauseRequested else CtlActive)"

definition find_recovery :: "recover_input \<Rightarrow> db \<Rightarrow> recovery_row option" where
  "find_recovery c d = List.find (\<lambda>x. rr_projectId x = oc_projectId c \<and> rr_runId x = oc_runId c \<and>
     ro_idempotencyKey x = oc_idempotencyKey c) (db_recoveries d)"

text \<open>The last five hundred items, as \<open>slice(-500)\<close>.\<close>

definition last_items :: "inspection_item list \<Rightarrow> inspection_item list" where
  "last_items xs = drop (length xs - nat recovery_batch_maximum) xs"

text \<open>The batch, once the operation has its record: from taking the run to the final report.\<close>

definition recover_batch :: "env \<Rightarrow> recover_input \<Rightarrow> int \<Rightarrow> string \<Rightarrow> string \<Rightarrow> recovery_row option \<Rightarrow> recovery_report tx" where
  "recover_batch E c limit t i existing =
     (let p = oc_projectId c; r = oc_runId c;
          old = (\<lambda>f. case existing of None \<Rightarrow> 0 | Some x \<Rightarrow> f x);
          cursor = old rr_cursor; previous = (case existing of None \<Rightarrow> [] | Some x \<Rightarrow> rr_items x) in
      tx_bind (run_control p r) (\<lambda>control.
      let prior = ct_state control in
      tx_bind (tx_guard (prior \<noteq> CtlRecovering) (RecoveryError RECOVERY_ALREADY_RUNNING)) (\<lambda>_.
      tx_bind (tx_sql (update_controls (this_run p r)
          (\<lambda>x. x\<lparr>ct_state := CtlRecovering, ct_updatedAt := t, ct_operationId := oc_operationId c\<rparr>))) (\<lambda>_.
      tx_bind (tx_gets (candidate_rows p r (vi_evaluationTime c) cursor limit)) (\<lambda>rows.
      let selected = take (nat limit) rows in
      tx_bind (tx_each (recover_one E c t i (prior = CtlPauseRequested \<or> prior = CtlPaused)) selected) (\<lambda>tallies.
      let sum = (\<lambda>f. sum_list (map f tallies)) in
      tx_bind (tx_gets (active_leases p r)) (\<lambda>active.
      let restored = restored_control prior active in
      tx_bind (tx_sql (update_controls (this_run p r)
          (\<lambda>x. x\<lparr>ct_state := restored, ct_pausedAt := (if restored = CtlPaused then Some t else ct_pausedAt x),
             ct_updatedAt := t, ct_operationId := oc_operationId c\<rparr>))) (\<lambda>_.
      tx_bind (tx_sql (update_recoveries (\<lambda>x. rr_recoveryOperationId x = i)
          (\<lambda>x. x\<lparr>rr_status := RecCompleted, rr_cursor := next_cursor cursor selected,
             rr_scanned := old rr_scanned + int (length tallies), rr_interrupted := old rr_interrupted + sum rt_interrupted,
             rr_requeued := old rr_requeued + sum rt_requeued, rr_paused := old rr_paused + sum rt_paused,
             rr_outputIssues := old rr_outputIssues + sum rt_outputIssues, rr_hasMore := (nat limit < length rows),
             rr_items := last_items (previous @ map rt_item tallies), rr_completedAt := Some t\<rparr>))) (\<lambda>_.
      tx_bind (save_run_checkpoint E p r (oc_operationId c) t) (\<lambda>_.
      tx_bind (get_report_row p r i) (\<lambda>x. tx_ret (row_to_report x))))))))))))"

definition recover :: "env \<Rightarrow> recover_input \<Rightarrow> recovery_report tx" where
  "recover E c =
     (let p = oc_projectId c; r = oc_runId c; h = hash_locale E (recover_json c) in
      tx_bind (tx_guard (vi_confirmation c = ''APPLY-RECOVERY'') (RecoveryError RECOVERY_CONFIRMATION_REQUIRED)) (\<lambda>_.
      tx_bind (tx_lift (parse_utc (vi_evaluationTime c))) (\<lambda>_.
      tx_bind (tx_lift (validate_recovery_limit (vi_limit c))) (\<lambda>limit.
      recovery_transaction (
        tx_bind (owned p r) (\<lambda>_.
        tx_bind (tx_gets (find_recovery c)) (\<lambda>existing.
        tx_bind (tx_guard (case existing of None \<Rightarrow> True | Some x \<Rightarrow> ro_requestHash x = h)
          (QueueError QUEUE_OPERATION_IDEMPOTENCY_CONFLICT)) (\<lambda>_.
        case existing of
          Some x \<Rightarrow>
            if \<not> rr_hasMore x \<and> rr_status x = RecCompleted then tx_ret (row_to_report x)
            else
              tx_bind (tx_now E) (\<lambda>t.
              tx_bind (tx_sql (update_recoveries (\<lambda>y. rr_recoveryOperationId y = rr_recoveryOperationId x)
                (\<lambda>y. y\<lparr>rr_status := RecInProgress, ro_ownerOperationId := oc_operationId c\<rparr>))) (\<lambda>_.
              recover_batch E c limit t (rr_recoveryOperationId x) (Some x)))
        | None \<Rightarrow>
            tx_bind (tx_now E) (\<lambda>t.
            tx_bind (tx_id E) (\<lambda>i.
            tx_bind (tx_sql (insert_recovery \<lparr>rr_recoveryOperationId = i, rr_projectId = p, rr_runId = r,
              rr_status = RecInProgress, rr_dryRun = False, rr_evaluationTime = vi_evaluationTime c, rr_scanned = 0,
              rr_interrupted = 0, rr_requeued = 0, rr_paused = 0, rr_outputIssues = 0, rr_cursor = 0, rr_hasMore = False,
              rr_items = [], rr_startedAt = t, rr_completedAt = None, ro_idempotencyKey = oc_idempotencyKey c,
              ro_requestHash = h, ro_batchLimit = limit, ro_ownerOperationId = oc_operationId c\<rparr>)) (\<lambda>_.
            recover_batch E c limit t i None)))))))))))"

section \<open>Pause and resume\<close>

definition request_pause :: "env \<Rightarrow> string \<Rightarrow> string \<Rightarrow> string \<Rightarrow> pause_status tx" where
  "request_pause E p r operation = recovery_transaction (
     tx_bind (owned p r) (\<lambda>_.
     tx_bind (run_control p r) (\<lambda>control.
     tx_bind (tx_guard (ct_state control \<notin> {CtlCompleted, CtlFailed, CtlStopped, CtlRecovering})
       (RecoveryError RUN_PAUSE_CONFLICT)) (\<lambda>_.
     if ct_state control = CtlPaused \<or> ct_state control = CtlPauseRequested then pause_status_of p r
     else
       tx_bind (tx_now E) (\<lambda>t.
       tx_bind (tx_gets (active_leases p r)) (\<lambda>active.
       let target = (if active = 0 then CtlPaused else CtlPauseRequested);
           run_target = (if active = 0 then RunPaused else RunPausing) in
       tx_bind (run_control p r) (\<lambda>control.
       tx_bind (tx_lift (assert_run_transition (ct_runState control) run_target)) (\<lambda>_.
       tx_bind (tx_sql (update_controls (this_run p r)
           (\<lambda>x. x\<lparr>ct_state := target, ct_requestedAt := Some t, ct_pausedAt := (if active = 0 then Some t else None),
              ct_updatedAt := t, ct_operationId := operation\<rparr>))) (\<lambda>_.
       tx_bind (tx_sql (update_controls (this_run p r) (\<lambda>x. x\<lparr>ct_runState := run_target\<rparr>))) (\<lambda>_.
       tx_bind (save_run_checkpoint E p r operation t) (\<lambda>_.
       pause_status_of p r)))))))))))"

definition get_pause_status :: "string \<Rightarrow> string \<Rightarrow> pause_status tx" where
  "get_pause_status p r = tx_bind (owned p r) (\<lambda>_. pause_status_of p r)"

definition acknowledge_pause :: "env \<Rightarrow> lease_ref \<Rightarrow> string \<Rightarrow> page_job tx" where
  "acknowledge_pause E c correlation =
     (let p = lf_projectId c; r = lf_runId c;
          step = \<lparr>sx_projectId = p, sx_runId = r, sx_operationId = lf_operationId c, sx_correlationId = correlation,
            sx_recoveryOperationId = None\<rparr> in
      recovery_transaction (
        tx_bind (run_control p r) (\<lambda>control.
        tx_bind (tx_guard (ct_state control = CtlPauseRequested) (RecoveryError RUN_PAUSE_CONFLICT)) (\<lambda>_.
        tx_bind (assert_lease E c) (\<lambda>l.
        tx_bind (tx_now E) (\<lambda>t.
        tx_bind (get_job p r (lf_jobId c)) (\<lambda>job.
        tx_bind (tx_id E) (\<lambda>i.
        tx_bind (tx_gets db_checkpointSequence) (\<lambda>seq.
        tx_bind (tx_sql (insert_checkpoint \<lparr>jc_checkpointId = i, jc_jobId = pj_jobId job, jc_attemptNumber = pj_attemptCount job,
            jc_sequence = seq + 1, jc_checkpointVersion = checkpoint_model_version,
            jc_fencingGeneration = lf_fencingGeneration c, jc_ownerId = lf_ownerId c, jc_phase = ''pause'',
            jc_progress = 1, jc_relativePath = None, jc_payload = JObj [(''reason'', JStr ''cooperative-pause'')],
            jc_committed = True, jc_supersedesCheckpointId = None, jc_createdAt = t, jc_operationId = lf_operationId c\<rparr>)) (\<lambda>_.
        tx_bind (tx_sql (update_leases (live_lease (jl_leaseId l))
            (\<lambda>x. x\<lparr>jl_status := LeaseReleased, jl_releasedAt := Some t, jl_releaseReason := Some ''PAUSE_ACKNOWLEDGED'',
               lr_lastOperationId := lf_operationId c\<rparr>))) (\<lambda>_.
        tx_bind (tx_sql (update_attempts (open_attempt (pj_jobId job) (Some (lf_leaseToken c)))
            (\<lambda>a. a\<lparr>pa_finishedAt := Some t, pa_outcome := AttFailed, ar_recoveryOutcome := Some AttPaused,
               pa_errorCode := Some ''PAUSE_ACKNOWLEDGED'', pa_errorCategory := Some FcApplication,
               pa_safeErrorMessage := Some ''The owner cooperatively paused after a committed checkpoint.''\<rparr>))) (\<lambda>_.
        tx_bind (tx_sql (update_jobs (\<lambda>x. pj_jobId x = pj_jobId job \<and> pj_state x = JobProcessing)
            (\<lambda>x. x\<lparr>jr_recoveryState := Some JobPaused, pj_updatedAt := t\<rparr>))) (\<lambda>_.
        tx_bind (recovery_transition E step (pj_jobId job) JobProcessing JobPaused ''PAUSE_ACKNOWLEDGED'' t
            (Some (lf_fencingGeneration c))) (\<lambda>_.
        tx_bind (tx_gets (active_leases p r)) (\<lambda>active.
        tx_bind (if active = 0 then
            tx_bind (run_control p r) (\<lambda>control.
            tx_bind (tx_lift (assert_run_transition (ct_runState control) RunPaused)) (\<lambda>_.
            tx_sql (update_controls (this_run p r)
              (\<lambda>x. x\<lparr>ct_state := CtlPaused, ct_runState := RunPaused, ct_pausedAt := Some t, ct_updatedAt := t,
                 ct_operationId := lf_operationId c\<rparr>))))
          else tx_ret ()) (\<lambda>_.
        tx_bind (save_run_checkpoint E p r (lf_operationId c) t) (\<lambda>_.
        get_job p r (lf_jobId c))))))))))))))))))"

definition resume_one :: "env \<Rightarrow> step_context \<Rightarrow> string \<Rightarrow> job_row \<Rightarrow> unit tx" where
  "resume_one E step t row =
     (let job = row_to_job row in
      tx_bind (tx_sql (update_jobs (\<lambda>x. pj_jobId x = pj_jobId job) (requeued_row t))) (\<lambda>_.
      recovery_transition E step (pj_jobId job) (pj_state job) JobPending ''RUN_RESUMED'' t
        (Some (pj_fencingGeneration job))))"

definition suspended :: "string \<Rightarrow> string \<Rightarrow> job_row \<Rightarrow> bool" where
  "suspended p r x = (pj_projectId x = p \<and> pj_runId x = r \<and> pj_state x = JobProcessing \<and>
     jr_recoveryState x \<in> {Some JobPaused, Some JobInterrupted})"

definition resume_run :: "env \<Rightarrow> string \<Rightarrow> string \<Rightarrow> string \<Rightarrow> string \<Rightarrow> pause_status tx" where
  "resume_run E p r operation correlation =
     (let step = \<lparr>sx_projectId = p, sx_runId = r, sx_operationId = operation, sx_correlationId = correlation,
            sx_recoveryOperationId = None\<rparr> in
      recovery_transaction (
        tx_bind (owned p r) (\<lambda>_.
        tx_bind (run_control p r) (\<lambda>control.
        if ct_state control = CtlActive then pause_status_of p r
        else
          tx_bind (tx_guard (ct_state control \<notin> {CtlRecovering, CtlCompleted, CtlFailed, CtlStopped})
            (RecoveryError RUN_PAUSE_CONFLICT)) (\<lambda>_.
          tx_bind (tx_now E) (\<lambda>t.
          tx_bind (tx_sql (update_controls (this_run p r)
              (\<lambda>x. x\<lparr>ct_state := CtlResuming, ct_updatedAt := t, ct_operationId := operation\<rparr>))) (\<lambda>_.
          tx_bind (tx_gets (\<lambda>d. select_order (suspended p r) pj_queueSequence (db_jobs d))) (\<lambda>rows.
          tx_bind (tx_each (resume_one E step t) rows) (\<lambda>_.
          tx_bind (run_control p r) (\<lambda>control.
          tx_bind (tx_lift (assert_run_transition (ct_runState control) RunRunning)) (\<lambda>_.
          tx_bind (tx_sql (update_controls (this_run p r)
              (\<lambda>x. x\<lparr>ct_state := CtlActive, ct_runState := RunRunning, ct_requestedAt := None, ct_pausedAt := None,
                 ct_updatedAt := t, ct_operationId := operation\<rparr>))) (\<lambda>_.
          tx_bind (save_run_checkpoint E p r operation t) (\<lambda>_.
          pause_status_of p r)))))))))))))"

definition control_for :: "crawl_run_state \<Rightarrow> run_control_state" where
  "control_for s = (if s = RunPausing then CtlPauseRequested else if s = RunPaused then CtlPaused
     else if s = RunCancelling \<or> s = RunCancelled then CtlStopped
     else if s = RunCompleted then CtlCompleted else if s = RunFailed then CtlFailed else CtlActive)"

definition set_run_state :: "env \<Rightarrow> string \<Rightarrow> string \<Rightarrow> crawl_run_state \<Rightarrow> string \<Rightarrow> pause_status tx" where
  "set_run_state E p r state operation = recovery_transaction (
     tx_bind (owned p r) (\<lambda>_.
     tx_bind (run_control p r) (\<lambda>control.
     tx_bind (tx_lift (assert_run_transition (ct_runState control) state)) (\<lambda>_.
     tx_bind (tx_now E) (\<lambda>t.
     tx_bind (tx_sql (update_controls (this_run p r)
         (\<lambda>x. x\<lparr>ct_runState := state, ct_state := control_for state,
            ct_requestedAt := (if state = RunPausing then (case ct_requestedAt x of None \<Rightarrow> Some t | Some q \<Rightarrow> Some q)
               else ct_requestedAt x),
            ct_pausedAt := (if state = RunPaused then Some t else ct_pausedAt x),
            ct_updatedAt := t, ct_operationId := operation\<rparr>))) (\<lambda>_.
     tx_bind (save_run_checkpoint E p r operation t) (\<lambda>_.
     pause_status_of p r)))))))"

section \<open>Completed outputs\<close>

text \<open>What the file system answers about a path inside the Project root.\<close>

datatype path_probe = OutsideRoot | NoRegularFile | RegularFile int string

definition probe_status :: "output_descriptor \<Rightarrow> path_probe \<Rightarrow> verification_status" where
  "probe_status o' probe = (case probe of
     RegularFile bytes digest \<Rightarrow>
       if js_int bytes \<noteq> od_byteLength o' then VerSizeMismatch
       else if digest \<noteq> od_sha256 o' then VerHashMismatch else VerValid
   | _ \<Rightarrow> VerMissing)"

definition verify_one :: "env \<Rightarrow> (string \<Rightarrow> path_probe) \<Rightarrow> output_descriptor \<Rightarrow> output_descriptor tx" where
  "verify_one E fs o' =
     tx_bind (tx_lift (validate_output_descriptor o')) (\<lambda>_.
     tx_bind (tx_guard (fs (od_relativePath o') \<noteq> OutsideRoot) (RecoveryError OUTPUT_DESCRIPTOR_INVALID)) (\<lambda>_.
     let status = probe_status o' (fs (od_relativePath o')) in
     tx_bind (tx_now E) (\<lambda>t.
     tx_bind (tx_sql (update_outputs (\<lambda>x. od_descriptorId x = od_descriptorId o')
         (\<lambda>x. x\<lparr>od_verificationStatus := status, od_verifiedAt := Some t\<rparr>))) (\<lambda>_.
     tx_ret (o'\<lparr>od_verificationStatus := status, od_verifiedAt := Some t\<rparr>)))))"

definition verify_completed_output :: "env \<Rightarrow> (string \<Rightarrow> path_probe) \<Rightarrow> string \<Rightarrow> string \<Rightarrow> string \<Rightarrow> output_descriptor list tx" where
  "verify_completed_output E fs p r j =
     tx_bind (owned p r) (\<lambda>_.
     tx_bind (get_job p r j) (\<lambda>job.
     tx_bind (tx_guard (pj_state job = JobCompleted) (RecoveryError OUTPUT_VERIFICATION_FAILED)) (\<lambda>_.
     tx_bind (tx_gets (\<lambda>d. select_order (\<lambda>x. od_jobId x = j) od_relativePath (db_outputs d))) (\<lambda>rows.
     tx_each (verify_one E fs) rows))))"

section \<open>Execution sessions\<close>

definition open_session :: "string \<Rightarrow> string \<Rightarrow> session_row \<Rightarrow> bool" where
  "open_session p r x = (es_projectId x = p \<and> es_runId x = r \<and> es_closedAt x = None)"

definition begin_execution_session :: "env \<Rightarrow> string \<Rightarrow> string \<Rightarrow> jsnum \<Rightarrow> string \<Rightarrow> string tx" where
  "begin_execution_session E p r pid host = recovery_transaction (
     tx_bind (owned p r) (\<lambda>_.
     tx_bind (tx_found (case int_value pid of None \<Rightarrow> None
         | Some n \<Rightarrow> if n < 1 \<or> length host < 1 \<or> 160 < length host then None else Some n) bad_input) (\<lambda>n.
     tx_bind (tx_now E) (\<lambda>t.
     tx_bind (tx_sql (update_sessions (open_session p r)
         (\<lambda>x. x\<lparr>es_closedAt := Some t, es_closeKind := Some ''unclean-detected''\<rparr>))) (\<lambda>_.
     tx_bind (tx_id E) (\<lambda>i.
     tx_bind (tx_sql (insert_session \<lparr>es_sessionId = i, es_projectId = p, es_runId = r, es_processId = n,
         es_hostId = host, es_startedAt = t, es_lastSeenAt = t, es_closedAt = None, es_closeKind = None\<rparr>)) (\<lambda>_.
     tx_ret i)))))))"

definition end_execution_session :: "env \<Rightarrow> string \<Rightarrow> string \<Rightarrow> string \<Rightarrow> unit tx" where
  "end_execution_session E p r i = recovery_transaction (
     tx_bind (owned p r) (\<lambda>_.
     tx_bind (tx_now E) (\<lambda>t.
     let mine = (\<lambda>x. es_sessionId x = i \<and> open_session p r x) in
     tx_bind (tx_gets (\<lambda>d. count_where mine (db_sessions d))) (\<lambda>changes.
     tx_bind (tx_sql (update_sessions mine
         (\<lambda>x. x\<lparr>es_lastSeenAt := t, es_closedAt := Some t, es_closeKind := Some ''clean''\<rparr>))) (\<lambda>_.
     tx_guard (changes = 1) bad_input)))))"

end
