(* ===== verification/Job_Evolution.thy ===== *)
theory Job_Evolution
  imports Transactions "HOL-Library.Sublist"
begin

text \<open>
  What the two job repositories promise about the history of a Project, independently of the
  operation that runs: Page Jobs only move along the state machine, their identity and their place
  in the queue never change, attempt counts and Fencing Generations never fall, a Lease that has
  ended stays ended, and the transition log and the record of operations only grow.
\<close>

section \<open>Logical state of a row\<close>

definition job_state :: "job_row \<Rightarrow> page_job_state" where
  "job_state r = (case jr_recoveryState r of None \<Rightarrow> pj_state r | Some s \<Rightarrow> s)"

text \<open>The overlay is only used on a job that is physically processing.\<close>

definition overlay_row :: "job_row \<Rightarrow> bool" where
  "overlay_row r = (jr_recoveryState r = None \<or> pj_state r = JobProcessing)"

definition overlay_ok :: "db \<Rightarrow> bool" where
  "overlay_ok d = list_all overlay_row (db_jobs d)"

definition job_evolves :: "job_row \<Rightarrow> job_row \<Rightarrow> bool" where
  "job_evolves a b = (pj_jobId b = pj_jobId a \<and> job_identity b = job_identity a \<and>
     pj_queueSequence b = pj_queueSequence a \<and> pj_priority b = pj_priority a \<and> pj_maxAttempts b = pj_maxAttempts a \<and>
     can_transition\<^sup>*\<^sup>* (job_state a) (job_state b) \<and>
     pj_attemptCount a \<le> pj_attemptCount b \<and> pj_fencingGeneration a \<le> pj_fencingGeneration b \<and>
     pj_depth b \<le> pj_depth a \<and> (overlay_row a \<longrightarrow> overlay_row b))"

text \<open>A logged transition, with its overlay states, is a step of the state machine; a job starts pending.\<close>

definition transition_allowed :: "transition_row \<Rightarrow> bool" where
  "transition_allowed r =
     (let from = (case tr_recoveryFrom r of Some s \<Rightarrow> Some s | None \<Rightarrow> pt_fromState r);
          to = (case tr_recoveryTo r of Some s \<Rightarrow> s | None \<Rightarrow> pt_toState r)
      in case from of None \<Rightarrow> to = JobPending | Some s \<Rightarrow> can_transition s to)"

definition log_ok :: "db \<Rightarrow> bool" where
  "log_ok d = list_all transition_allowed (db_transitions d)"

definition lease_evolves :: "lease_row \<Rightarrow> lease_row \<Rightarrow> bool" where
  "lease_evolves a b = (jl_leaseId b = jl_leaseId a \<and> jl_jobId b = jl_jobId a \<and>
     jl_fencingGeneration b = jl_fencingGeneration a \<and> lr_tokenHash b = lr_tokenHash a \<and>
     jl_ownerId b = jl_ownerId a \<and> (jl_status a = LeaseActive \<or> jl_status b = jl_status a))"

definition rows_evolve :: "('r \<Rightarrow> 'r \<Rightarrow> bool) \<Rightarrow> 'r list \<Rightarrow> 'r list \<Rightarrow> bool" where
  "rows_evolve R rows rows' = (\<exists>ys zs. rows' = ys @ zs \<and> list_all2 R rows ys)"

definition db_evolves :: "db \<Rightarrow> db \<Rightarrow> bool" where
  "db_evolves d d' = (rows_evolve job_evolves (db_jobs d) (db_jobs d') \<and>
     rows_evolve lease_evolves (db_leases d) (db_leases d') \<and>
     prefix (db_transitions d) (db_transitions d') \<and> prefix (db_operations d) (db_operations d') \<and>
     db_project d' = db_project d \<and> db_runs d' = db_runs d)"

text \<open>The invariant the proofs carry through a transaction that started in \<open>d0\<close>.\<close>

definition sound :: "db \<Rightarrow> db \<Rightarrow> bool" where
  "sound d0 d = (schema_ok d \<and> db_evolves d0 d \<and> (overlay_ok d0 \<longrightarrow> overlay_ok d) \<and>
     (log_ok d0 \<longrightarrow> log_ok d))"

section \<open>Order laws\<close>

lemma job_evolves_refl: "job_evolves a a"
  by (simp add: job_evolves_def)

lemma job_evolves_trans: "job_evolves a b \<Longrightarrow> job_evolves b c \<Longrightarrow> job_evolves a c"
  by (auto simp: job_evolves_def)

lemma lease_evolves_refl: "lease_evolves a a"
  by (simp add: lease_evolves_def)

lemma lease_evolves_trans: "lease_evolves a b \<Longrightarrow> lease_evolves b c \<Longrightarrow> lease_evolves a c"
  by (auto simp: lease_evolves_def)

locale row_history =
  fixes R :: "'r \<Rightarrow> 'r \<Rightarrow> bool"
  assumes refl: "R a a"
    and trans: "R a b \<Longrightarrow> R b c \<Longrightarrow> R a c"
begin

lemma rows_refl: "rows_evolve R rows rows"
  by (auto simp: rows_evolve_def intro: exI[of _ "[]"] list.rel_refl refl)

lemma rows_trans:
  assumes "rows_evolve R a b" "rows_evolve R b c"
  shows "rows_evolve R a c"
proof -
  obtain ys zs where 1: "b = ys @ zs" "list_all2 R a ys" using assms(1) by (auto simp: rows_evolve_def)
  obtain us vs where 2: "c = us @ vs" "list_all2 R b us" using assms(2) by (auto simp: rows_evolve_def)
  obtain us1 us2 where 3: "us = us1 @ us2" "list_all2 R ys us1"
    using 2(2) unfolding 1(1) by (auto simp: list_all2_append1)
  have "list_all2 R a us1" using list_all2_trans[OF trans 1(2) 3(2)] .
  then show ?thesis unfolding rows_evolve_def 2(1) 3(1) by auto
qed

lemma rows_insert: "sql_insert check clash fk r rows = Some rows' \<Longrightarrow> rows_evolve R rows rows'"
  using rows_refl by (auto simp: sql_insert_def rows_evolve_def list.rel_refl refl split: if_splits)

lemma rows_update:
  assumes "sql_update check clash p f rows = Some rows'" "\<And>r. r \<in> set rows \<Longrightarrow> p r \<Longrightarrow> R r (f r)"
  shows "rows_evolve R rows rows'"
proof -
  have "rows' = update_where p f rows" using assms(1) by (auto simp: sql_update_def Let_def split: if_splits)
  moreover have "list_all2 R rows (update_where p f rows)"
    using assms(2) refl by (auto simp: update_where_def list_all2_conv_all_nth)
  ultimately show ?thesis unfolding rows_evolve_def by (intro exI[of _ rows'] exI[of _ "[]"]) simp
qed

lemma row_survives:
  assumes "rows_evolve R rows rows'" "a \<in> set rows"
  obtains b where "b \<in> set rows'" "R a b"
  using assms unfolding rows_evolve_def by (force simp: list_all2_conv_all_nth in_set_conv_nth)

end

interpretation job_history: row_history job_evolves
  by unfold_locales (auto intro: job_evolves_refl job_evolves_trans)

interpretation lease_history: row_history lease_evolves
  by unfold_locales (auto intro: lease_evolves_refl lease_evolves_trans)

lemma db_evolves_refl [simp]: "db_evolves d d"
  by (simp add: db_evolves_def job_history.rows_refl lease_history.rows_refl)

lemma db_evolves_trans: "db_evolves a b \<Longrightarrow> db_evolves b c \<Longrightarrow> db_evolves a c"
  unfolding db_evolves_def
  by (auto intro: job_history.rows_trans lease_history.rows_trans prefix_order.order_trans)

lemma sound_refl: "schema_ok d \<Longrightarrow> sound d d"
  by (simp add: sound_def)

lemma sound_trans: "sound a b \<Longrightarrow> sound b c \<Longrightarrow> sound a c"
  by (auto simp: sound_def intro: db_evolves_trans)

section \<open>Statements\<close>

named_theorems sound_intros \<open>statements that keep the promises\<close>

lemma prefix_insert: "sql_insert check clash fk r rows = Some rows' \<Longrightarrow> prefix rows rows'"
  by (auto simp: sql_insert_def split: if_splits)

lemma sound_step:
  "sound d0 d \<Longrightarrow> schema_ok d' \<Longrightarrow> db_evolves d d' \<Longrightarrow> (overlay_ok d \<Longrightarrow> overlay_ok d') \<Longrightarrow>
     (log_ok d \<Longrightarrow> log_ok d') \<Longrightarrow> sound d0 d'"
  by (auto simp: sound_def intro: db_evolves_trans)

lemma sound_schema: "sound d0 d \<Longrightarrow> schema_ok d"
  by (simp add: sound_def)

lemma sound_insert_job [sound_intros]:
  assumes "insert_job r d = Some d'" "sound d0 d" "db_jobSequence d \<le> pj_queueSequence r"
    "jr_recoveryState r = None"
  shows "sound d0 d'"
proof (rule sound_step[OF assms(2)])
  show "log_ok d \<Longrightarrow> log_ok d'" using assms(1) by (auto simp: insert_job_def log_ok_def)
  show "overlay_ok d \<Longrightarrow> overlay_ok d'"
    using assms(1,4) by (auto simp: insert_job_def sql_insert_def overlay_ok_def overlay_row_def split: if_splits)
  show "schema_ok d'" using insert_job_schema[OF assms(1)] assms(2,3) by (auto simp: sound_def)
  show "db_evolves d d'"
    using assms(1) by (auto simp: insert_job_def db_evolves_def lease_history.rows_refl intro: job_history.rows_insert)
qed

lemma sound_update_jobs [sound_intros]:
  assumes "update_jobs p f d = Some d'" "sound d0 d" "\<And>r. pj_queueSequence (f r) = pj_queueSequence r"
    and "\<And>r. r \<in> set (db_jobs d) \<Longrightarrow> p r \<Longrightarrow> job_evolves r (f r)"
  shows "sound d0 d'"
proof (rule sound_step[OF assms(2)])
  show "log_ok d \<Longrightarrow> log_ok d'" using assms(1) by (auto simp: update_jobs_def log_ok_def)
  show "overlay_ok d \<Longrightarrow> overlay_ok d'"
    using assms(1,4) by (fastforce simp: update_jobs_def sql_update_def Let_def overlay_ok_def list_all_iff
        set_update_where job_evolves_def split: if_splits)
  show "schema_ok d'" using update_jobs_schema[OF assms(1)] assms(2,3) by (auto simp: sound_def)
  show "db_evolves d d'"
    using assms(1,4) by (auto simp: update_jobs_def db_evolves_def lease_history.rows_refl intro: job_history.rows_update)
qed

lemma sound_update_leases [sound_intros]:
  assumes "update_leases p f d = Some d'" "sound d0 d"
    and "\<And>r. r \<in> set (db_leases d) \<Longrightarrow> p r \<Longrightarrow> lease_evolves r (f r)"
  shows "sound d0 d'"
proof (rule sound_step[OF assms(2)])
  show "overlay_ok d \<Longrightarrow> overlay_ok d'" using assms(1) by (auto simp: update_leases_def overlay_ok_def)
  show "log_ok d \<Longrightarrow> log_ok d'" using assms(1) by (auto simp: update_leases_def log_ok_def)
  show "schema_ok d'" using update_leases_schema[OF assms(1)] assms(2) by (auto simp: sound_def)
  show "db_evolves d d'"
    using assms(1,3) by (auto simp: update_leases_def db_evolves_def job_history.rows_refl intro: lease_history.rows_update)
qed

lemma sound_insert_lease [sound_intros]:
  assumes "insert_lease r d = Some d'" "sound d0 d"
  shows "sound d0 d'"
proof (rule sound_step[OF assms(2)])
  show "overlay_ok d \<Longrightarrow> overlay_ok d'" using assms(1) by (auto simp: insert_lease_def overlay_ok_def)
  show "log_ok d \<Longrightarrow> log_ok d'" using assms(1) by (auto simp: insert_lease_def log_ok_def)
  show "schema_ok d'" using insert_lease_schema[OF assms(1)] assms(2) by (auto simp: sound_def)
  show "db_evolves d d'"
    using assms(1) by (auto simp: insert_lease_def db_evolves_def job_history.rows_refl intro: lease_history.rows_insert)
qed

text \<open>The other tables are not constrained by the history.\<close>

definition same_history :: "db \<Rightarrow> db \<Rightarrow> bool" where
  "same_history d d' = (db_jobs d' = db_jobs d \<and> db_leases d' = db_leases d \<and>
     db_transitions d' = db_transitions d \<and> prefix (db_operations d) (db_operations d') \<and>
     db_project d' = db_project d \<and> db_runs d' = db_runs d)"

lemma sound_same_history: "sound d0 d \<Longrightarrow> schema_ok d' \<Longrightarrow> same_history d d' \<Longrightarrow> sound d0 d'"
  by (erule sound_step)
     (auto simp: same_history_def db_evolves_def overlay_ok_def log_ok_def job_history.rows_refl lease_history.rows_refl)

lemma same_history_statements:
  "insert_attempt a d = Some d' \<Longrightarrow> same_history d d'"
  "update_attempts p f d = Some d' \<Longrightarrow> same_history d d'"
  "insert_discovery di d = Some d' \<Longrightarrow> same_history d d'"
  "insert_decision de d = Some d' \<Longrightarrow> same_history d d'"
  "insert_operation op d = Some d' \<Longrightarrow> same_history d d'"
  "update_controls pc fc d = Some d' \<Longrightarrow> same_history d d'"
  "insert_checkpoint c d = Some d' \<Longrightarrow> same_history d d'"
  "insert_run_checkpoint rc d = Some d' \<Longrightarrow> same_history d d'"
  "insert_artifact ar d = Some d' \<Longrightarrow> same_history d d'"
  "insert_output out d = Some d' \<Longrightarrow> same_history d d'"
  "update_outputs po fo d = Some d' \<Longrightarrow> same_history d d'"
  "insert_recovery re d = Some d' \<Longrightarrow> same_history d d'"
  "update_recoveries pr fr d = Some d' \<Longrightarrow> same_history d d'"
  "insert_event ev d = Some d' \<Longrightarrow> same_history d d'"
  "insert_session se d = Some d' \<Longrightarrow> same_history d d'"
  "update_sessions ps fs d = Some d' \<Longrightarrow> same_history d d'"
  by (auto simp: statement_defs same_history_def intro: prefix_insert)

lemma sound_insert_checkpoint [sound_intros]:
  "insert_checkpoint r d = Some d' \<Longrightarrow> sound d0 d \<Longrightarrow> db_checkpointSequence d \<le> jc_sequence r \<Longrightarrow> sound d0 d'"
  by (rule sound_same_history) (auto intro: same_history_statements insert_checkpoint_schema dest: sound_schema)

lemma sound_insert_run_checkpoint [sound_intros]:
  "insert_run_checkpoint r d = Some d' \<Longrightarrow> sound d0 d \<Longrightarrow> db_runCheckpointSequence d \<le> rc_sequence r \<Longrightarrow> sound d0 d'"
  by (rule sound_same_history) (auto intro: same_history_statements insert_run_checkpoint_schema dest: sound_schema)

lemma sound_insert_transition:
  assumes "insert_transition t d = Some d'" "sound d0 d" "transition_allowed t"
  shows "sound d0 d'"
proof (rule sound_step[OF assms(2)])
  show "schema_ok d'" using insert_transition_schema[OF assms(1)] assms(2) by (auto simp: sound_def)
  show "overlay_ok d \<Longrightarrow> overlay_ok d'" using assms(1) by (auto simp: insert_transition_def overlay_ok_def)
  show "log_ok d \<Longrightarrow> log_ok d'"
    using assms(1,3) by (auto simp: insert_transition_def sql_insert_def log_ok_def split: if_splits)
  show "db_evolves d d'"
    using assms(1) by (auto simp: insert_transition_def db_evolves_def job_history.rows_refl lease_history.rows_refl
        intro: prefix_insert)
qed

lemma sound_plain_statements [sound_intros]:
  "insert_attempt a d = Some d' \<Longrightarrow> sound d0 d \<Longrightarrow> sound d0 d'"
  "update_attempts p f d = Some d' \<Longrightarrow> sound d0 d \<Longrightarrow> sound d0 d'"
  "insert_discovery di d = Some d' \<Longrightarrow> sound d0 d \<Longrightarrow> sound d0 d'"
  "insert_decision de d = Some d' \<Longrightarrow> sound d0 d \<Longrightarrow> sound d0 d'"
  "insert_operation op d = Some d' \<Longrightarrow> sound d0 d \<Longrightarrow> sound d0 d'"
  "update_controls pc fc d = Some d' \<Longrightarrow> sound d0 d \<Longrightarrow> sound d0 d'"
  "insert_artifact ar d = Some d' \<Longrightarrow> sound d0 d \<Longrightarrow> sound d0 d'"
  "insert_output out d = Some d' \<Longrightarrow> sound d0 d \<Longrightarrow> sound d0 d'"
  "update_outputs po fo d = Some d' \<Longrightarrow> sound d0 d \<Longrightarrow> sound d0 d'"
  "insert_recovery re d = Some d' \<Longrightarrow> sound d0 d \<Longrightarrow> sound d0 d'"
  "update_recoveries pr fr d = Some d' \<Longrightarrow> sound d0 d \<Longrightarrow> sound d0 d'"
  "insert_event ev d = Some d' \<Longrightarrow> sound d0 d \<Longrightarrow> sound d0 d'"
  "insert_session se d = Some d' \<Longrightarrow> sound d0 d \<Longrightarrow> sound d0 d'"
  "update_sessions ps fs d = Some d' \<Longrightarrow> sound d0 d \<Longrightarrow> sound d0 d'"
  by (rule sound_same_history;
      auto intro: same_history_statements schema_intros dest: sound_schema)+

lemmas sound_statements = sound_plain_statements sound_insert_transition

section \<open>Rows found by identifier\<close>

lemma job_row_unique:
  "schema_ok d \<Longrightarrow> a \<in> set (db_jobs d) \<Longrightarrow> b \<in> set (db_jobs d) \<Longrightarrow> pj_jobId a = pj_jobId b \<Longrightarrow> a = b"
  by (rule jobs_table.lookup_unique) (auto simp: schema_ok_def)

lemma job_row_checked: "schema_ok d \<Longrightarrow> a \<in> set (db_jobs d) \<Longrightarrow> job_check a"
  by (rule jobs_table.row_checked) (auto simp: schema_ok_def)

lemma job_state_processing:
  "job_check r \<Longrightarrow> job_state r = JobProcessing \<longleftrightarrow> pj_state r = JobProcessing \<and> jr_recoveryState r = None"
  by (auto simp: job_state_def job_check_def split: option.splits)

lemma job_state_physical:
  "job_check r \<Longrightarrow> physical_state s \<Longrightarrow> job_state r = s \<longleftrightarrow> pj_state r = s \<and> jr_recoveryState r = None"
  by (auto simp: job_state_def job_check_def physical_state_def split: option.splits)

text \<open>A job that has reached a terminal state never leaves it.\<close>

lemma evolves_terminal:
  "job_evolves a b \<Longrightarrow> is_terminal_state (job_state a) \<Longrightarrow> job_state b = job_state a"
  by (auto simp: job_evolves_def dest: job_path_terminal)

lemma evolved_job:
  assumes "db_evolves d d'" "a \<in> set (db_jobs d)"
  obtains b where "b \<in> set (db_jobs d')" "job_evolves a b"
  using assms job_history.row_survives unfolding db_evolves_def by blast

lemma evolved_lease:
  assumes "db_evolves d d'" "a \<in> set (db_leases d)"
  obtains b where "b \<in> set (db_leases d')" "lease_evolves a b"
  using assms lease_history.row_survives unfolding db_evolves_def by blast

end
