(* ===== verification/Queue_Sound.thy ===== *)
theory Queue_Sound
  imports Queue_Claims Job_Evolution
begin

text \<open>
  Correctness of the durable queue: rules for its shared steps, the proof that every operation
  keeps the constraints and the history promises of Job_Evolution, and the functional behaviour
  of claim, completion, failure and replay.
\<close>

section \<open>Reading rows\<close>

lemma row_to_job_fields [simp]:
  "pj_jobId (row_to_job r) = pj_jobId r" "pj_projectId (row_to_job r) = pj_projectId r"
  "pj_runId (row_to_job r) = pj_runId r" "pj_state (row_to_job r) = job_state r"
  "pj_attemptCount (row_to_job r) = pj_attemptCount r" "pj_maxAttempts (row_to_job r) = pj_maxAttempts r"
  "pj_fencingGeneration (row_to_job r) = pj_fencingGeneration r" "pj_depth (row_to_job r) = pj_depth r"
  "pj_claimToken (row_to_job r) = pj_claimToken r" "pj_claimedBy (row_to_job r) = pj_claimedBy r"
  "pj_completionKey (row_to_job r) = pj_completionKey r" "pj_resultSummary (row_to_job r) = pj_resultSummary r"
  "pj_priority (row_to_job r) = pj_priority r" "pj_queueSequence (row_to_job r) = pj_queueSequence r"
  "pj_nextEligibleAt (row_to_job r) = pj_nextEligibleAt r" "pj_completedAt (row_to_job r) = pj_completedAt r"
  "pj_identityHash (row_to_job r) = pj_identityHash r" "pj_claimedAt (row_to_job r) = pj_claimedAt r"
  "pj_failedAt (row_to_job r) = pj_failedAt r"
  by (simp_all add: row_to_job_def job_state_def page_job.defs split: option.splits)

lemma find_job_SomeD:
  assumes "find_job p r j d = Some x"
  shows "x \<in> set (db_jobs d)" "pj_projectId x = p" "pj_runId x = r" "pj_jobId x = j"
  using assms by (auto simp: find_job_def dest: find_SomeD)

lemma post_get_job_row [post_intros]:
  "(\<And>x. find_job p r j d = Some x \<Longrightarrow> Q x d) \<Longrightarrow> tx_post (get_job_row p r j) Q d"
  unfolding get_job_row_def by (intro post_intros) blast

lemma post_get_job [post_intros]:
  "(\<And>x. find_job p r j d = Some x \<Longrightarrow> Q (row_to_job x) d) \<Longrightarrow> tx_post (get_job p r j) Q d"
  unfolding get_job_def by (intro post_intros) blast

lemma post_validate_ownership [post_intros]:
  "(db_project d = Some p \<Longrightarrow> (r, p) \<in> set (db_runs d) \<Longrightarrow> Q () d) \<Longrightarrow> tx_post (validate_ownership p r) Q d"
  unfolding validate_ownership_def by (intro post_intros) blast

text \<open>A fenced claim passes only under an active Lease of the current generation and the given token.\<close>

definition fenced :: "env \<Rightarrow> page_job \<Rightarrow> string \<Rightarrow> db \<Rightarrow> bool" where
  "fenced E job token d = (pj_fencingGeneration job = 0 \<or>
     (\<exists>l t. active_lease (pj_projectId job) (pj_runId job) (pj_jobId job) d = Some l \<and> lr_tokenHash l = sha256 E token \<and>
        jl_fencingGeneration l = pj_fencingGeneration job \<and> t < jl_expiresAt l))"

lemma post_validate_fenced_claim [post_intros]:
  "(fenced E job token d \<Longrightarrow> Q () d) \<Longrightarrow> tx_post (validate_fenced_claim E job token) Q d"
  unfolding validate_fenced_claim_def Let_def by (intro post_intros) (auto simp: fenced_def)

lemma post_transition [post_intros]:
  assumes "\<And>d' i. (case from of None \<Rightarrow> True | Some s \<Rightarrow> can_transition s to) \<Longrightarrow>
      insert_transition \<lparr>pt_transitionId = i, pt_jobId = job, pt_fromState = from, pt_toState = to,
       pt_reasonCode = reason, pt_operationId = oc_operationId c, pt_correlationId = oc_correlationId c,
       pt_occurredAt = t, tr_recoveryFrom = None, tr_recoveryTo = None, tr_metadata = meta\<rparr> d = Some d' \<Longrightarrow> Q () d'"
  shows "tx_post (transition E c job from to reason t meta) Q d"
  unfolding transition_def
  by (intro post_intros) (auto simp: assert_transition_ok split: option.splits intro: assms)

lemma post_idempotent [post_intros]:
  assumes "\<And>o'. o' \<in> set (db_operations d) \<Longrightarrow> oq_projectId o' = oc_projectId c \<Longrightarrow> oq_type o' = type \<Longrightarrow>
      oq_key o' = oc_idempotencyKey c \<Longrightarrow> oq_hash o' = hash_json E (idempotency_request request) \<Longrightarrow> Q (oq_result o') d"
    and "tx_post operation (\<lambda>result d'. \<forall>i t d''. insert_operation \<lparr>oq_recordId = i, oq_projectId = oc_projectId c,
           oq_runId = oc_runId c, oq_type = type, oq_key = oc_idempotencyKey c,
           oq_hash = hash_json E (idempotency_request request), oq_result = result, oq_createdAt = t\<rparr> d' = Some d'' \<longrightarrow>
         Q result d'') d"
  shows "tx_post (idempotent E c type request operation) Q d"
  unfolding idempotent_def Let_def
  apply (intro post_intros)
   apply (rule tx_post_mono[OF assms(2)])
   apply (intro post_intros)
   apply blast
  apply (drule find_SomeD)
  apply (elim conjE)
  apply (rule assms(1))
      apply assumption+
  done

lemma plain_transition_allowed [simp]:
  "transition_allowed \<lparr>pt_transitionId = i, pt_jobId = job, pt_fromState = from, pt_toState = to, pt_reasonCode = reason,
     pt_operationId = op, pt_correlationId = co, pt_occurredAt = t, tr_recoveryFrom = None, tr_recoveryTo = None,
     tr_metadata = meta\<rparr> \<longleftrightarrow> (case from of None \<Rightarrow> to = JobPending | Some s \<Rightarrow> can_transition s to)"
  by (simp add: transition_allowed_def)

text \<open>Skeleton shared by the operations: sound body, sound operation.\<close>

lemma sound_idempotent:
  assumes "sound d0 d" "tx_post operation (\<lambda>_. sound d0) d"
  shows "tx_post (idempotent E c type request operation) (\<lambda>_. sound d0) d"
  by (rule post_idempotent) (use assms in \<open>auto elim!: tx_post_mono intro: sound_intros\<close>)

lemma sound_wrapped:
  assumes "tx_post body (\<lambda>_. sound d0) d"
  shows "tx_post (tx_bind body (\<lambda>r. tx_ret (f r))) (\<lambda>_. sound d0) d"
  by (intro post_intros) (use assms in \<open>auto elim!: tx_post_mono intro: post_intros\<close>)

lemma same_row:
  assumes "sound d0 d" "find_job p r j d = Some x" "y \<in> set (db_jobs d)" "pj_jobId y = j"
  shows "y = x"
  using job_row_unique[OF sound_schema[OF assms(1)] assms(3) find_job_SomeD(1)[OF assms(2)]]
    find_job_SomeD(4)[OF assms(2)] assms(4) by simp

section \<open>Every operation keeps the promises\<close>

lemma sound_release_lease_of:
  assumes "sound d0 d"
  shows "tx_post (release_lease_of job t reason operation) (\<lambda>_. sound d0) d"
  unfolding release_lease_of_def
  by (intro post_intros) (use assms in \<open>auto elim!: sound_update_leases simp: lease_evolves_def\<close>)

lemma post_release_lease_of:
  "sound d0 d \<Longrightarrow> (\<And>d'. sound d0 d' \<Longrightarrow> Q () d') \<Longrightarrow> tx_post (release_lease_of job t reason operation) Q d"
  by (rule tx_post_mono[OF sound_release_lease_of]) (auto simp: old.unit.exhaust)

lemma sound_insert_discovery:
  "sound d0 d \<Longrightarrow> tx_post (insert_discovery_for E q child t) (\<lambda>_. sound d0) d"
  unfolding insert_discovery_for_def Let_def by (intro post_intros) (auto intro: sound_intros)

lemma sound_merge_existing:
  assumes "sound d0 d" "row \<in> set (db_jobs d)"
  shows "tx_post (merge_existing E q t row) (\<lambda>_. sound d0) d"
proof -
  have upd: "sound d0 d'" if
    "update_jobs (\<lambda>r. pj_jobId r = pj_jobId row) (\<lambda>r. r\<lparr>pj_depth := k, pj_updatedAt := t\<rparr>) d = Some d'"
    "minimum_depth (js_int (pj_depth row)) (sd_depth (qi_scopeDecision q)) = Inr k" for k d'
  proof (rule sound_update_jobs[OF that(1) assms(1)])
    fix r assume r: "r \<in> set (db_jobs d)" "pj_jobId r = pj_jobId row"
    then have "r = row" using job_row_unique[OF sound_schema[OF assms(1)] r(1) assms(2)] by simp
    moreover have "k \<le> pj_depth row"
      using that(2) by (auto simp: minimum_depth_def split: option.splits if_splits)
    ultimately show "job_evolves r (r\<lparr>pj_depth := k, pj_updatedAt := t\<rparr>)"
      by (simp add: job_evolves_def job_identity_def job_state_def overlay_row_def split: option.splits)
  qed simp
  show ?thesis
    unfolding merge_existing_def Let_def row_to_job_fields
    apply (intro post_intros)
     apply (rule tx_post_mono[OF sound_insert_discovery])
      apply (erule (1) upd)
     apply (intro post_intros, assumption)
    apply (rule tx_post_mono[OF sound_insert_discovery[OF assms(1)]])
    apply (intro post_intros, assumption)
    done
qed

lemma sound_create_job:
  assumes "sound d0 d"
  shows "tx_post (create_job E q t accepted) (\<lambda>_. sound d0) d"
proof -
  obtain h identity normalized display where acc: "accepted = (h, identity, normalized, display)"
    by (cases accepted) auto
  show ?thesis
    unfolding create_job_def acc Let_def prod.case
    apply (intro post_intros)
    apply (rule tx_post_mono[OF sound_insert_discovery])
     apply (erule sound_insert_transition)
      apply (erule sound_insert_job[OF _ assms])
       apply (simp_all add: new_job_row_def Let_def)[3]
    apply (intro post_intros, assumption)
    done
qed

lemma post_validate_enqueue: "Q () d \<Longrightarrow> tx_post (validate_enqueue q) Q d"
  unfolding validate_enqueue_def Let_def
  by (intro post_intros) (cases "qi_parentJobId q"; simp; intro post_intros; assumption)

lemma find_identity_in: "find_identity p r revision engine h d = Some row \<Longrightarrow> row \<in> set (db_jobs d)"
  by (auto simp: find_identity_def dest: find_SomeD)

lemma sound_insert_decision: "insert_decision r d = Some d' \<Longrightarrow> sound d0 d \<Longrightarrow> sound d0 d'"
  by (rule sound_statements)

lemma sound_enqueue_in_transaction:
  assumes "sound d0 d"
  shows "tx_post (enqueue_in_transaction E q) (\<lambda>_. sound d0) d"
  unfolding enqueue_in_transaction_def Let_def record_scope_decision_def
  apply (intro post_bind post_validate_enqueue)
  apply (intro post_intros)
  apply (auto intro!: sound_merge_existing sound_create_job intro: sound_insert_decision assms
      dest: find_identity_in)
  done

text \<open>
  A row update that leaves identity, place and overlay alone and moves the physical state by an
  allowed step.
\<close>

lemma job_evolves_step:
  assumes "pj_jobId b = pj_jobId a" "job_identity b = job_identity a" "pj_queueSequence b = pj_queueSequence a"
    "pj_priority b = pj_priority a" "pj_maxAttempts b = pj_maxAttempts a" "pj_depth b = pj_depth a"
    "jr_recoveryState b = jr_recoveryState a" "pj_fencingGeneration a \<le> pj_fencingGeneration b"
    "pj_attemptCount a \<le> pj_attemptCount b"
    and "pj_state b = pj_state a \<or> can_transition (pj_state a) (pj_state b)"
    and "jr_recoveryState a = None \<or> pj_state b = pj_state a \<or> pj_state a \<noteq> JobProcessing"
  shows "job_evolves a b"
  using assms by (auto simp: job_evolves_def job_state_def overlay_row_def split: option.splits)

lemma sound_claim_body:
  assumes s: "sound d0 d"
  shows "tx_post (claim_body E c) (\<lambda>_. sound d0) d"
proof -
  have upd: "sound d0 d'" if
    "update_jobs (\<lambda>x. pj_jobId x = pj_jobId row \<and> pj_state x = JobPending)
       (\<lambda>x. x\<lparr>pj_state := JobProcessing, pj_claimToken := Some token, pj_claimedBy := Some (ci_claimedBy c),
          pj_claimedAt := Some t, pj_lastAttemptAt := Some t, pj_attemptCount := pj_attemptCount row + 1,
          pj_updatedAt := t\<rparr>) d = Some d'"
    "select_first (claimable p r t) row_order_key (db_jobs d) = Some row" for token t row d' p r
  proof (rule sound_update_jobs[OF that(1) s])
    fix x assume x: "x \<in> set (db_jobs d)" "pj_jobId x = pj_jobId row \<and> pj_state x = JobPending"
    then have "x = row"
      using job_row_unique[OF sound_schema[OF s] x(1) select_first_SomeD(1)[OF that(2)]] by simp
    then show "job_evolves x (x\<lparr>pj_state := JobProcessing, pj_claimToken := Some token, pj_claimedBy := Some (ci_claimedBy c),
          pj_claimedAt := Some t, pj_lastAttemptAt := Some t, pj_attemptCount := pj_attemptCount row + 1,
          pj_updatedAt := t\<rparr>)"
      using x(2) by (intro job_evolves_step) (simp_all add: job_identity_def can_transition_def)
  qed simp
  show ?thesis
    unfolding claim_body_def Let_def row_to_job_fields
    by (intro post_intros) (auto intro: s upd elim!: sound_statements)
qed

lemma sound_complete_body:
  assumes s: "sound d0 d"
  shows "tx_post (complete_body E c) (\<lambda>_. sound d0) d"
proof -
  have upd: "sound d0 d'" if
    "update_jobs (\<lambda>x. pj_jobId x = pj_jobId row)
           (\<lambda>x. x\<lparr>pj_state := JobCompleted, pj_claimToken := None, pj_claimedBy := None,
              pj_completedAt := Some (co_completedAt c), pj_completionKey := Some (co_completionKey c),
              pj_resultVersion := Some 1, pj_resultSummary := Some (stored_summary (co_resultSummary c)),
              pj_updatedAt := co_completedAt c\<rparr>) d = Some d'"
    "find_job p r j d = Some row" "job_state row = JobProcessing" for d' row p r j
  proof (rule sound_update_jobs[OF that(1) s])
    fix x assume x: "x \<in> set (db_jobs d)" "pj_jobId x = pj_jobId row"
    then have "x = row" using same_row[OF s that(2) x(1)] find_job_SomeD(4)[OF that(2)] by simp
    moreover have "pj_state row = JobProcessing" "jr_recoveryState row = None"
      using job_state_processing[OF job_row_checked[OF sound_schema[OF s] find_job_SomeD(1)[OF that(2)]]] that(3) by auto
    ultimately show "job_evolves x (x\<lparr>pj_state := JobCompleted, pj_claimToken := None, pj_claimedBy := None,
              pj_completedAt := Some (co_completedAt c), pj_completionKey := Some (co_completionKey c),
              pj_resultVersion := Some 1, pj_resultSummary := Some (stored_summary (co_resultSummary c)),
              pj_updatedAt := co_completedAt c\<rparr>)"
      by (intro job_evolves_step) (simp_all add: job_identity_def can_transition_def)
  qed simp
  show ?thesis
    unfolding complete_body_def row_to_job_fields
    by (intro post_intros post_release_lease_of[where ?d0.0 = d0]) (auto simp: s intro: upd elim!: sound_statements)
qed

lemma sound_fail_body:
  assumes s: "sound d0 d"
  shows "tx_post (fail_body E c) (\<lambda>_. sound d0) d"
proof -
  have upd: "sound d0 d'" if
    "update_jobs (\<lambda>x. pj_jobId x = pj_jobId row)
         (\<lambda>x. x\<lparr>pj_state := target, pj_claimToken := None, pj_claimedBy := None,
            pj_failedAt := fa, pj_nextEligibleAt := eligible,
            pj_lastErrorCode := Some (fi_failureCode c), pj_lastErrorCategory := Some (fi_failureCategory c),
            pj_lastErrorMessage := Some message, pj_updatedAt := fi_failedAt c\<rparr>) d = Some d'"
    "find_job p r j d = Some row" "job_state row = JobProcessing" "can_transition JobProcessing target" for d' row p r j target fa eligible message
  proof (rule sound_update_jobs[OF that(1) s])
    fix x assume x: "x \<in> set (db_jobs d)" "pj_jobId x = pj_jobId row"
    then have "x = row" using same_row[OF s that(2) x(1)] find_job_SomeD(4)[OF that(2)] by simp
    moreover have "pj_state row = JobProcessing" "jr_recoveryState row = None"
      using job_state_processing[OF job_row_checked[OF sound_schema[OF s] find_job_SomeD(1)[OF that(2)]]] that(3) by auto
    ultimately show "job_evolves x (x\<lparr>pj_state := target, pj_claimToken := None, pj_claimedBy := None,
            pj_failedAt := fa, pj_nextEligibleAt := eligible,
            pj_lastErrorCode := Some (fi_failureCode c), pj_lastErrorCategory := Some (fi_failureCategory c),
            pj_lastErrorMessage := Some message, pj_updatedAt := fi_failedAt c\<rparr>)"
      by (intro job_evolves_step) (use that(4) in \<open>simp_all add: job_identity_def\<close>)
  qed simp
  show ?thesis
    unfolding fail_body_def row_to_job_fields Let_def
    by (intro post_intros post_release_lease_of[where ?d0.0 = d0]) (auto intro: upd elim!: sound_statements simp: can_transition_def)
qed

lemma sound_schedule_retry_body:
  assumes s: "sound d0 d"
  shows "tx_post (schedule_retry_body E c) (\<lambda>_. sound d0) d"
  unfolding schedule_retry_body_def
  by (intro post_intros)
     (auto elim!: sound_update_jobs[OF _ s] intro!: job_evolves_step simp: job_identity_def)

lemma sound_release_body:
  assumes s: "sound d0 d"
  shows "tx_post (release_body E c n) (\<lambda>_. sound d0) d"
proof -
  have one: "tx_post (release_one E c row) (\<lambda>_. sound d0) d" if "sound d0 d" for row d
    unfolding release_one_def Let_def
    by (intro post_intros)
       (auto elim!: sound_insert_transition sound_update_jobs[OF _ that] intro!: job_evolves_step
         simp: job_identity_def can_transition_def)
  show ?thesis
    unfolding release_body_def by (intro post_intros post_each) (auto intro: one s)
qed

lemma sound_terminal_body:
  assumes s: "sound d0 d" and target: "target = JobSkipped \<or> target = JobBlocked"
  shows "tx_post (terminal_body E target c) (\<lambda>_. sound d0) d"
proof -
  have upd: "sound d0 d'" if
    "update_jobs (\<lambda>x. pj_jobId x = pj_jobId row)
         (\<lambda>x. x\<lparr>pj_state := target, pj_claimToken := None, pj_claimedBy := None, pj_updatedAt := t,
            pj_lastErrorCode := Some (mi_reasonCode c), pj_lastErrorCategory := Some FcDomain,
            pj_lastErrorMessage := Some message\<rparr>) d = Some d'"
    "find_job p r j d = Some row" "job_state row = JobPending \<or> job_state row = JobProcessing" for d' row p r j t message
  proof (rule sound_update_jobs[OF that(1) s])
    fix x assume x: "x \<in> set (db_jobs d)" "pj_jobId x = pj_jobId row"
    then have "x = row" using same_row[OF s that(2) x(1)] find_job_SomeD(4)[OF that(2)] by simp
    moreover have "job_state row = pj_state row" "jr_recoveryState row = None"
      using job_row_checked[OF sound_schema[OF s] find_job_SomeD(1)[OF that(2)]] that(3)
      by (auto simp: job_state_physical physical_state_def)
    ultimately show "job_evolves x (x\<lparr>pj_state := target, pj_claimToken := None, pj_claimedBy := None, pj_updatedAt := t,
            pj_lastErrorCode := Some (mi_reasonCode c), pj_lastErrorCategory := Some FcDomain,
            pj_lastErrorMessage := Some message\<rparr>)"
      using that(3) target by (intro job_evolves_step) (auto simp: job_identity_def can_transition_def)
  qed simp
  show ?thesis
    unfolding terminal_body_def row_to_job_fields Let_def
    by (intro post_intros post_release_lease_of[where ?d0.0 = d0]) (auto intro: s upd elim!: sound_statements)
qed

end
