(* ===== verification/Queue_Ops.thy ===== *)
theory Queue_Ops
  imports Queue_Sound
begin

text \<open>
  The queue repository as a client sees it: its operations as one datatype, the proof that any
  sequence of them keeps the database consistent, and what claiming, completing, failing, merging
  duplicates and replaying a request do.
\<close>

section \<open>Operations\<close>

datatype queue_op = OpEnqueue enqueue_input | OpClaim claim_input | OpComplete complete_input | OpFail fail_input
  | OpScheduleRetry retry_input | OpRelease release_input | OpSkip terminal_input | OpBlock terminal_input
  | OpClear clear_input

primrec run_queue_op :: "env \<Rightarrow> queue_op \<Rightarrow> op_result tx" where
  "run_queue_op E (OpEnqueue q) = enqueue E q"
| "run_queue_op E (OpClaim c) = claim_next E c"
| "run_queue_op E (OpComplete c) = complete E c"
| "run_queue_op E (OpFail c) = fail E c"
| "run_queue_op E (OpScheduleRetry c) = schedule_retry E c"
| "run_queue_op E (OpRelease c) = release_due_retries E c"
| "run_queue_op E (OpSkip c) = skip E c"
| "run_queue_op E (OpBlock c) = block E c"
| "run_queue_op E (OpClear c) = clear_pending E c"

lemma sound_clear_one:
  assumes s: "sound d0 d"
  shows "tx_post (clear_one E c t j) (\<lambda>_. sound d0) d"
  unfolding clear_one_def
  by (intro post_intros)
     (auto elim!: sound_insert_transition sound_update_jobs[OF _ s] intro!: job_evolves_step
       simp: job_identity_def can_transition_def)

lemma sound_queue_op:
  assumes "schema_ok d"
  shows "tx_post (run_queue_op E op) (\<lambda>_. sound d) d"
proof -
  have d: "sound d d" by (rule sound_refl[OF assms])
  have clear: "tx_post (tx_bind (tx_each (clear_one E c t) ids) (\<lambda>_. tx_ret (ResSkipped n))) (\<lambda>_. sound d) d" for c t ids n
    by (rule sound_wrapped[OF post_each]) (auto intro: sound_clear_one d)
  show ?thesis
  proof (cases op)
    case (OpEnqueue q)
    then show ?thesis
      by (simp add: enqueue_def)
         (intro post_queue_transaction sound_idempotent sound_wrapped sound_enqueue_in_transaction d)
  next
    case (OpClaim c)
    then show ?thesis
      by (simp add: claim_next_def)
         (intro post_queue_transaction post_bind[of "validate_ownership _ _"] post_validate_ownership sound_idempotent
           sound_wrapped sound_claim_body d)
  next
    case (OpComplete c)
    then show ?thesis
      by (simp add: complete_def)
         (intro post_queue_transaction post_bind[of "validate_ownership _ _"] post_bind[of "tx_lift _"]
           post_lift post_validate_ownership sound_idempotent sound_wrapped sound_complete_body d)
  next
    case (OpFail c)
    then show ?thesis
      by (simp add: fail_def)
         (intro post_queue_transaction post_bind[of "validate_ownership _ _"] post_bind[of "tx_lift _"]
           post_lift post_validate_ownership sound_idempotent sound_wrapped sound_fail_body d)
  next
    case (OpScheduleRetry c)
    then show ?thesis
      by (simp add: schedule_retry_def)
         (intro post_queue_transaction post_bind[of "validate_ownership _ _"] post_bind[of "tx_lift _"]
           post_lift post_validate_ownership sound_idempotent sound_wrapped sound_schedule_retry_body d)
  next
    case (OpRelease c)
    then show ?thesis
      by (simp add: release_due_retries_def)
         (intro post_queue_transaction post_bind[of "validate_ownership _ _"] post_bind[of "tx_lift _"]
           post_bind[of "tx_found _ _"] post_found post_lift post_validate_ownership sound_idempotent
           sound_wrapped sound_release_body d)
  next
    case (OpSkip c)
    then show ?thesis
      by (simp add: skip_def terminal_action_def)
         (intro post_queue_transaction post_bind[of "validate_ownership _ _"] post_validate_ownership sound_idempotent
           sound_wrapped sound_terminal_body d, simp)
  next
    case (OpBlock c)
    then show ?thesis
      by (simp add: block_def terminal_action_def)
         (intro post_queue_transaction post_bind[of "validate_ownership _ _"] post_validate_ownership sound_idempotent
           sound_wrapped sound_terminal_body d, simp)
  next
    case (OpClear c)
    then show ?thesis
      by (simp add: clear_pending_def)
         (intro post_queue_transaction post_bind[of "validate_ownership _ _"] post_bind[of "tx_guard _ _"] post_guard
           post_validate_ownership sound_idempotent post_bind[of "tx_now _"] post_now
           post_bind[of "tx_gets _"] post_gets clear d)
  qed
qed

lemma queue_op_error:
  assumes "run_queue_op E op s = (Inl e, s')" shows "s_db s' = s_db s \<and> is_queue_error e"
proof -
  have q: "queue_transaction m s1 = (Inl e, s') \<Longrightarrow> s_db s' = s_db s1 \<and> is_queue_error e" for m :: "op_result tx" and s1
    using queue_tx.failure_is_silent queue_tx.failure_kind by blast
  show ?thesis
    using assms
  proof (cases op)
    case (OpClear c)
    then show ?thesis
      using assms q by (auto simp: clear_pending_def tx_bind_def tx_guard_def ensure_def is_queue_error_def split: if_splits)
  qed (use assms q in \<open>auto simp: enqueue_def claim_next_def complete_def fail_def schedule_retry_def
      release_due_retries_def skip_def block_def terminal_action_def\<close>)
qed

lemma queue_op_sound:
  assumes "schema_ok (s_db s)"
  shows "sound (s_db s) (s_db (snd (run_queue_op E op s)))"
proof (cases "run_queue_op E op s")
  case (Pair r s')
  show ?thesis
  proof (cases r)
    case (Inl e)
    then show ?thesis using Pair queue_op_error sound_refl[OF assms] by simp
  next
    case (Inr a)
    then show ?thesis using Pair tx_postD[OF sound_queue_op[OF assms]] by simp
  qed
qed

text \<open>Any sequence of operations, each possibly failing.\<close>

fun run_queue_ops :: "env \<Rightarrow> queue_op list \<Rightarrow> sess \<Rightarrow> sess" where
  "run_queue_ops E [] s = s"
| "run_queue_ops E (op # ops) s = run_queue_ops E ops (snd (run_queue_op E op s))"

lemma queue_ops_sound: "schema_ok (s_db s) \<Longrightarrow> sound (s_db s) (s_db (run_queue_ops E ops s))"
proof (induction ops arbitrary: s)
  case Nil
  then show ?case by (simp add: sound_refl)
next
  case (Cons op ops)
  have 1: "sound (s_db s) (s_db (snd (run_queue_op E op s)))" by (rule queue_op_sound[OF Cons.prems])
  then have "sound (s_db (snd (run_queue_op E op s))) (s_db (run_queue_ops E (op # ops) s))"
    using Cons.IH[OF sound_schema[OF 1]] by simp
  then show ?case by (rule sound_trans[OF 1])
qed

section \<open>Replays\<close>

definition recorded :: "'a op_context_scheme \<Rightarrow> string \<Rightarrow> db \<Rightarrow> operation_row option" where
  "recorded c type d = List.find (\<lambda>o'. oq_projectId o' = oc_projectId c \<and> oq_type o' = type \<and>
     oq_key o' = oc_idempotencyKey c) (db_operations d)"

lemma recorded_iff:
  assumes "schema_ok d"
  shows "recorded c type d = Some o' \<longleftrightarrow> o' \<in> set (db_operations d) \<and> oq_projectId o' = oc_projectId c \<and>
    oq_type o' = type \<and> oq_key o' = oc_idempotencyKey c"
proof
  assume "recorded c type d = Some o'"
  then show "o' \<in> set (db_operations d) \<and> oq_projectId o' = oc_projectId c \<and> oq_type o' = type \<and> oq_key o' = oc_idempotencyKey c"
    unfolding recorded_def by (rule find_SomeD)
next
  assume o': "o' \<in> set (db_operations d) \<and> oq_projectId o' = oc_projectId c \<and> oq_type o' = type \<and> oq_key o' = oc_idempotencyKey c"
  have tab: "table_ok operation_check operation_clash (db_operations d)" using assms by (simp add: schema_ok_def)
  show "recorded c type d = Some o'"
  proof (cases "recorded c type d")
    case None
    then show ?thesis using o' by (auto simp: recorded_def find_None_iff)
  next
    case (Some o1)
    then have "o1 \<in> set (db_operations d)" "oq_projectId o1 = oc_projectId c" "oq_type o1 = type" "oq_key o1 = oc_idempotencyKey c"
      unfolding recorded_def by (auto dest: find_SomeD)
    then show ?thesis using operations_table.lookup_unique[OF tab, of o1 o'] o' Some by simp
  qed
qed

lemma idempotent_run:
  "idempotent E c type request operation s = (case assert_idempotency_key (oc_idempotencyKey c) of
     Inl e \<Rightarrow> (Inl e, s)
   | Inr _ \<Rightarrow> (case recorded c type (s_db s) of
       Some o' \<Rightarrow> (if oq_hash o' = hash_json E (idempotency_request request) then (Inr (oq_result o'), s)
                  else (Inl (QueueError QUEUE_OPERATION_IDEMPOTENCY_CONFLICT), s))
     | None \<Rightarrow> tx_bind operation (\<lambda>result.
         tx_bind (tx_id E) (\<lambda>i.
         tx_bind (tx_now E) (\<lambda>t.
         tx_bind (tx_sql (insert_operation \<lparr>oq_recordId = i, oq_projectId = oc_projectId c, oq_runId = oc_runId c,
           oq_type = type, oq_key = oc_idempotencyKey c, oq_hash = hash_json E (idempotency_request request),
           oq_result = result, oq_createdAt = t\<rparr>)) (\<lambda>_.
         tx_ret result)))) s))"
  unfolding idempotent_def recorded_def Let_def
  by (auto simp: tx_bind_def[of "tx_lift _"] tx_bind_def[of "tx_gets _"] tx_bind_def[of "tx_guard _ _"]
      tx_lift_def tx_gets_def tx_guard_def ensure_def tx_ret_def split: sum.splits option.splits)

text \<open>A successful call leaves its result on record under its key.\<close>

lemma idempotent_records:
  assumes "idempotent E c type request operation s = (Inr r, s')"
  shows "\<exists>o' \<in> set (db_operations (s_db s')). oq_projectId o' = oc_projectId c \<and> oq_type o' = type \<and>
    oq_key o' = oc_idempotencyKey c \<and> oq_hash o' = hash_json E (idempotency_request request) \<and> oq_result o' = r"
proof -
  have "tx_post (idempotent E c type request operation) (\<lambda>r d'. \<exists>o' \<in> set (db_operations d').
      oq_projectId o' = oc_projectId c \<and> oq_type o' = type \<and> oq_key o' = oc_idempotencyKey c \<and>
      oq_hash o' = hash_json E (idempotency_request request) \<and> oq_result o' = r) (s_db s)"
    by (rule post_idempotent)
       (auto simp: tx_post_def insert_operation_def sql_insert_def split: if_splits)
  then show ?thesis using assms by (rule tx_postD)
qed

lemma idempotent_key_ok:
  assumes "idempotent E c type request operation s = (Inr r, s')"
  shows "assert_idempotency_key (oc_idempotencyKey c) = Inr ()"
  using assms by (auto simp: idempotent_run split: sum.splits)

lemma idempotent_replay:
  assumes first: "idempotent E c type request operation s = (Inr r, s')"
    and later: "schema_ok (s_db s2)" "prefix (db_operations (s_db s')) (db_operations (s_db s2))"
  shows "idempotent E c type request operation' s2 = (Inr r, s2)"
proof -
  obtain o' where o': "o' \<in> set (db_operations (s_db s'))" "oq_projectId o' = oc_projectId c" "oq_type o' = type"
    "oq_key o' = oc_idempotencyKey c" "oq_hash o' = hash_json E (idempotency_request request)" "oq_result o' = r"
    using idempotent_records[OF first] by blast
  then have "o' \<in> set (db_operations (s_db s2))" using later(2) by (meson set_mono_prefix subsetD)
  then have "recorded c type (s_db s2) = Some o'" using o' by (simp add: recorded_iff[OF later(1)])
  then show ?thesis using o'(5,6) idempotent_key_ok[OF first] by (simp add: idempotent_run)
qed

lemma idempotent_conflict:
  assumes "assert_idempotency_key (oc_idempotencyKey c) = Inr ()" "recorded c type (s_db s) = Some o'"
    "oq_hash o' \<noteq> hash_json E (idempotency_request request)"
  shows "idempotent E c type request operation s = (Inl (QueueError QUEUE_OPERATION_IDEMPOTENCY_CONFLICT), s)"
  using assms by (simp add: idempotent_run)

lemma ownership_run:
  "validate_ownership p r s = (if db_project (s_db s) \<noteq> Some p then Inl (QueueError QUEUE_PROJECT_NOT_OPEN)
     else if (r, p) \<notin> set (db_runs (s_db s)) then Inl (QueueError QUEUE_RUN_NOT_FOUND) else Inr (), s)"
  by (simp add: validate_ownership_def tx_defs ensure_def)

lemma bind_run: "tx_bind m f s = (Inr b, s') \<longleftrightarrow> (\<exists>a s1. m s = (Inr a, s1) \<and> f a s1 = (Inr b, s'))"
  by (auto simp: tx_bind_def split: prod.splits sum.splits)

lemma owned_run: "tx_bind (validate_ownership p r) f s = (Inr b, s') \<longleftrightarrow>
   db_project (s_db s) = Some p \<and> (r, p) \<in> set (db_runs (s_db s)) \<and> f () s = (Inr b, s')"
  by (auto simp: bind_run ownership_run)

lemma lift_run: "tx_bind (tx_lift x) f s = (Inr b, s') \<longleftrightarrow> (\<exists>a. x = Inr a \<and> f a s = (Inr b, s'))"
  by (auto simp: bind_run tx_lift_def)

lemma found_run: "tx_bind (tx_found x e) f s = (Inr b, s') \<longleftrightarrow> (\<exists>a. x = Some a \<and> f a s = (Inr b, s'))"
  by (cases x) (auto simp: bind_run tx_found_def tx_ret_def tx_throw_def)

lemma guard_run: "tx_bind (tx_guard b e) f s = (Inr r, s') \<longleftrightarrow> b \<and> f () s = (Inr r, s')"
  by (auto simp: bind_run tx_guard_def ensure_Inr_iff)

lemma gets_run: "tx_bind (tx_gets g) f s = f (g (s_db s)) s"
  by (simp add: tx_bind_def tx_gets_def)

lemmas run_simps = owned_run lift_run found_run guard_run queue_transaction_Inr recovery_transaction_Inr

lemma queue_op_replay:
  assumes first: "run_queue_op E op s = (Inr r, s')" and ok: "schema_ok (s_db s)"
    and later: "schema_ok (s_db s2)" "db_evolves (s_db s') (s_db s2)"
  shows "run_queue_op E op s2 = (Inr r, s2)"
proof -
  have "sound (s_db s) (s_db s')" using queue_op_sound[OF ok, of E op] first by simp
  then have own: "db_project (s_db s2) = db_project (s_db s)" "db_runs (s_db s2) = db_runs (s_db s)"
    using later(2) by (auto simp: sound_def db_evolves_def)
  have ops: "prefix (db_operations (s_db s')) (db_operations (s_db s2))"
    using later(2) by (simp add: db_evolves_def)
  note rep = idempotent_replay[OF _ later(1) ops]
  show ?thesis
    using first
    by (cases op)
       (auto simp: enqueue_def claim_next_def complete_def fail_def schedule_retry_def release_due_retries_def
          skip_def block_def terminal_action_def clear_pending_def run_simps own intro: rep)
qed

section \<open>Claim\<close>

text \<open>The row a statement has just updated, read back.\<close>

lemma updated_row:
  assumes ok: "schema_ok d" and upd: "update_jobs p f d = Some d'" and row: "row \<in> set (db_jobs d)" "p row"
    and keep: "\<And>x. pj_jobId (f x) = pj_jobId x"
    and found: "find_job pr rn (pj_jobId row) d'' = Some x" and same: "db_jobs d'' = db_jobs d'"
  shows "x = f row"
proof -
  have "x \<in> set (update_where p f (db_jobs d))" "pj_jobId x = pj_jobId row"
    using find_job_SomeD[OF found] upd same
    by (auto simp: update_jobs_def sql_update_def Let_def split: if_splits)
  then obtain y where y: "y \<in> set (db_jobs d)" "x = (if p y then f y else y)" "pj_jobId y = pj_jobId row"
    by (auto elim!: in_update_whereE simp: keep split: if_splits)
  then have "y = row" by (intro job_row_unique[OF ok y(1) row(1) y(3)])
  then show ?thesis using y row by simp
qed

lemma statement_jobs:
  "insert_attempt a d = Some d' \<Longrightarrow> db_jobs d' = db_jobs d"
  "update_attempts p f d = Some d' \<Longrightarrow> db_jobs d' = db_jobs d"
  "insert_transition t d = Some d' \<Longrightarrow> db_jobs d' = db_jobs d"
  "insert_operation op d = Some d' \<Longrightarrow> db_jobs d' = db_jobs d"
  "update_leases pl fl d = Some d' \<Longrightarrow> db_jobs d' = db_jobs d"
  "insert_discovery di d = Some d' \<Longrightarrow> db_jobs d' = db_jobs d"
  "insert_decision de d = Some d' \<Longrightarrow> db_jobs d' = db_jobs d"
  by (auto simp: insert_attempt_def update_attempts_def insert_transition_def insert_operation_def update_leases_def
      insert_discovery_def insert_decision_def)

text \<open>
  What a claim does: nothing is claimable, or the least claimable row is taken, once, with a new
  attempt that carries the claim token.
\<close>

definition claimed_from :: "claim_input \<Rightarrow> db \<Rightarrow> page_job option \<Rightarrow> db \<Rightarrow> bool" where
  "claimed_from c d result d' = (\<exists>t. case result of
     None \<Rightarrow> (\<forall>x \<in> set (db_jobs d). \<not> claimable (oc_projectId c) (oc_runId c) t x) \<and> d' = d
   | Some j \<Rightarrow> (\<exists>row token. row \<in> set (db_jobs d) \<and> claimable (oc_projectId c) (oc_runId c) t row \<and>
       (\<forall>x \<in> set (db_jobs d). claimable (oc_projectId c) (oc_runId c) t x \<longrightarrow> row_order_key row \<le> row_order_key x) \<and>
       pj_attemptCount row < pj_maxAttempts row \<and>
       j = row_to_job (row\<lparr>pj_state := JobProcessing, pj_claimToken := Some token, pj_claimedBy := Some (ci_claimedBy c),
              pj_claimedAt := Some t, pj_lastAttemptAt := Some t, pj_attemptCount := pj_attemptCount row + 1,
              pj_updatedAt := t\<rparr>) \<and>
       db_jobs d' = update_where (\<lambda>x. pj_jobId x = pj_jobId row \<and> pj_state x = JobPending)
         (\<lambda>x. x\<lparr>pj_state := JobProcessing, pj_claimToken := Some token, pj_claimedBy := Some (ci_claimedBy c),
              pj_claimedAt := Some t, pj_lastAttemptAt := Some t, pj_attemptCount := pj_attemptCount row + 1,
              pj_updatedAt := t\<rparr>) (db_jobs d) \<and>
       (\<exists>a \<in> set (db_attempts d'). pa_jobId a = pj_jobId row \<and> pa_claimToken a = token \<and>
          pa_attemptNumber a = pj_attemptCount row + 1 \<and> pa_outcome a = AttProcessing) \<and>
       (\<forall>a \<in> set (db_attempts d). pa_claimToken a \<noteq> token)))"

lemma inserted_attempt:
  assumes "insert_attempt a d = Some d'"
  shows "db_attempts d' = db_attempts d @ [a]" "\<And>b. b \<in> set (db_attempts d) \<Longrightarrow> pa_claimToken b \<noteq> pa_claimToken a"
  using assms by (auto simp: insert_attempt_def sql_insert_def attempt_clash_def list_all_iff split: if_splits)

lemma statement_attempts:
  "update_jobs p f d = Some d' \<Longrightarrow> db_attempts d' = db_attempts d"
  "insert_transition t d = Some d' \<Longrightarrow> db_attempts d' = db_attempts d"
  by (auto simp: update_jobs_def insert_transition_def)

lemma claim_body_spec:
  assumes ok: "schema_ok d"
  shows "tx_post (claim_body E c) (\<lambda>r d'. claimed_from c d r d') d"
  unfolding claim_body_def Let_def row_to_job_fields
proof (intro post_intros)
  fix t assume "select_first (claimable (oc_projectId c) (oc_runId c) t) row_order_key (db_jobs d) = None"
  then show "claimed_from c d None d"
    by (auto simp: claimed_from_def select_first_None_iff)
next
  fix t :: string and row :: job_row and token d1 i d2 i' d3 x
  let ?f = "\<lambda>x. x\<lparr>pj_state := JobProcessing, pj_claimToken := Some token, pj_claimedBy := Some (ci_claimedBy c),
          pj_claimedAt := Some t, pj_lastAttemptAt := Some t, pj_attemptCount := pj_attemptCount row + 1,
          pj_updatedAt := t\<rparr>"
  assume sel: "select_first (claimable (oc_projectId c) (oc_runId c) t) row_order_key (db_jobs d) = Some row"
    and lt: "pj_attemptCount row < pj_maxAttempts row"
    and upd: "update_jobs (\<lambda>x. pj_jobId x = pj_jobId row \<and> pj_state x = JobPending) ?f d = Some d1"
    and att: "insert_attempt \<lparr>pa_attemptId = i, pa_jobId = pj_jobId row, pa_attemptNumber = pj_attemptCount row + 1,
            pa_claimToken = token, pa_startedAt = t, pa_finishedAt = None, pa_outcome = AttProcessing,
            pa_errorCode = None, pa_errorCategory = None, pa_safeErrorMessage = None,
            ar_recoveryOutcome = None, ar_metadata = JObj []\<rparr> d1 = Some d2"
    and tr: "insert_transition \<lparr>pt_transitionId = i', pt_jobId = pj_jobId row, pt_fromState = Some JobPending,
            pt_toState = JobProcessing, pt_reasonCode = ''QUEUE_JOB_CLAIMED'', pt_operationId = oc_operationId c,
            pt_correlationId = oc_correlationId c, pt_occurredAt = t, tr_recoveryFrom = None, tr_recoveryTo = None,
            tr_metadata = JObj [(''attemptNumber'', JNum (pj_attemptCount row + 1))]\<rparr> d2 = Some d3"
    and found: "find_job (oc_projectId c) (oc_runId c) (pj_jobId row) d3 = Some x"
  note row = select_first_SomeD[OF sel]
  have "x = ?f row"
    by (rule updated_row[OF ok upd row(1) _ _ found]) (use row(2) statement_jobs(1)[OF att] statement_jobs(3)[OF tr] in \<open>auto simp: claimable_def\<close>)
  moreover have "db_jobs d3 = update_where (\<lambda>x. pj_jobId x = pj_jobId row \<and> pj_state x = JobPending) ?f (db_jobs d)"
    using upd statement_jobs(1)[OF att] statement_jobs(3)[OF tr]
    by (auto simp: update_jobs_def sql_update_def Let_def split: if_splits)
  ultimately show "claimed_from c d (Some (row_to_job x)) d3"
    unfolding claimed_from_def option.case
    by (intro exI[of _ t], intro exI[of _ row], intro exI[of _ token])
       (use row lt inserted_attempt[OF att] statement_attempts(1)[OF upd] statement_attempts(2)[OF tr] in auto)
qed

text \<open>
  The row that wins the order is the only one a claim looks at: when its attempts are used up the
  claim fails, whatever else is pending.
\<close>

lemma claim_blocked:
  assumes "db_project (s_db s) = Some (oc_projectId c)" "(oc_runId c, oc_projectId c) \<in> set (db_runs (s_db s))"
    and "assert_idempotency_key (oc_idempotencyKey c) = Inr ()" "recorded c ''queue.claimNext'' (s_db s) = None"
    and "select_first (claimable (oc_projectId c) (oc_runId c) (now_at E (s_ticks s))) row_order_key (db_jobs (s_db s)) = Some row"
    and "pj_maxAttempts row \<le> pj_attemptCount row"
  shows "\<exists>s'. claim_next E c s = (Inl (QueueError QUEUE_MAX_ATTEMPTS_REACHED), s') \<and> s_db s' = s_db s"
  using assms
  by (simp add: claim_next_def queue_transaction_def run_transaction_def idempotent_run claim_body_def
      tx_bind_def ownership_run tx_now_def tx_gets_def tx_guard_def ensure_def Let_def is_queue_error_def)

section \<open>Completion\<close>

definition completed_row :: "complete_input \<Rightarrow> job_row \<Rightarrow> job_row" where
  "completed_row c x = x\<lparr>pj_state := JobCompleted, pj_claimToken := None, pj_claimedBy := None,
     pj_completedAt := Some (co_completedAt c), pj_completionKey := Some (co_completionKey c),
     pj_resultVersion := Some 1, pj_resultSummary := Some (stored_summary (co_resultSummary c)),
     pj_updatedAt := co_completedAt c\<rparr>"

definition completed_from :: "env \<Rightarrow> complete_input \<Rightarrow> db \<Rightarrow> page_job \<Rightarrow> db \<Rightarrow> bool" where
  "completed_from E c d j d' =
     (\<exists>row. find_job (oc_projectId c) (oc_runId c) (co_jobId c) d = Some row \<and>
        (job_state row = JobCompleted \<and> pj_completionKey row = Some (co_completionKey c) \<and>
           same_summary (pj_resultSummary row) (co_resultSummary c) \<and>
           completed_token (pj_jobId row) d = Some (co_claimToken c) \<and> j = row_to_job row \<and> d' = d
         \<or> job_state row = JobProcessing \<and> pj_claimToken row = Some (co_claimToken c) \<and>
           fenced E (row_to_job row) (co_claimToken c) d \<and> j = row_to_job (completed_row c row) \<and>
           (0 < pj_fencingGeneration row \<longrightarrow> active_lease (oc_projectId c) (oc_runId c) (co_jobId c) d' = None)))"

lemma active_lease_SomeD:
  assumes "active_lease p r j d = Some l"
  shows "l \<in> set (db_leases d)" "jl_jobId l = j" "jl_status l = LeaseActive" "jl_projectId l = p" "jl_runId l = r"
  using assms by (auto simp: active_lease_def dest: find_SomeD)

lemma sorted_wrt_unrelated:
  "sorted_wrt (\<lambda>a b. \<not> R a b) xs \<Longrightarrow> a \<in> set xs \<Longrightarrow> b \<in> set xs \<Longrightarrow> a \<noteq> b \<Longrightarrow> \<not> R a b \<or> \<not> R b a"
  by (induction xs) auto

text \<open>The partial unique index: at most one active Lease per job.\<close>

lemma one_active_lease:
  assumes "schema_ok d" "a \<in> set (db_leases d)" "b \<in> set (db_leases d)" "jl_jobId a = jl_jobId b"
    "jl_status a = LeaseActive" "jl_status b = LeaseActive"
  shows "a = b"
proof (rule ccontr)
  assume "a \<noteq> b"
  moreover have "sorted_wrt (\<lambda>a b. \<not> lease_clash a b) (db_leases d)"
    using assms(1) by (simp add: schema_ok_def table_ok_def)
  ultimately have "\<not> lease_clash a b \<or> \<not> lease_clash b a"
    using sorted_wrt_unrelated assms(2,3) by metis
  then show False using assms(4-6) by (simp add: lease_clash_def)
qed

lemma untouched_row:
  assumes "r \<in> set (update_where p f rows)" "\<And>x. \<not> q (f x)" "q r"
  shows "r \<in> set rows" "\<not> p r"
  using assms by (auto simp: set_update_where)

lemma released_lease:
  assumes ok: "schema_ok d" and upd: "update_leases (\<lambda>l. jl_jobId l = j \<and> jl_fencingGeneration l = g \<and> jl_status l = LeaseActive)
      (\<lambda>l. l\<lparr>jl_status := LeaseReleased, jl_releasedAt := t, jl_releaseReason := rs, lr_lastOperationId := op\<rparr>) d1 = Some d2"
    and same: "db_leases d1 = db_leases d"
    and act: "active_lease p r j d = Some l" "jl_fencingGeneration l = g"
  shows "active_lease p r j d2 = None"
proof (rule ccontr)
  assume "active_lease p r j d2 \<noteq> None"
  then obtain k where k: "active_lease p r j d2 = Some k" by auto
  note kk = active_lease_SomeD[OF k] and ll = active_lease_SomeD[OF act(1)]
  have "k \<in> set (update_where (\<lambda>l. jl_jobId l = j \<and> jl_fencingGeneration l = g \<and> jl_status l = LeaseActive)
      (\<lambda>l. l\<lparr>jl_status := LeaseReleased, jl_releasedAt := t, jl_releaseReason := rs, lr_lastOperationId := op\<rparr>) (db_leases d))"
    using kk(1) upd same by (auto simp: update_leases_def sql_update_def Let_def split: if_splits)
  then have k0: "k \<in> set (db_leases d)" "\<not> (jl_jobId k = j \<and> jl_fencingGeneration k = g \<and> jl_status k = LeaseActive)"
    by (rule untouched_row[where q = "\<lambda>l. jl_status l = LeaseActive"]; use kk in simp)+
  then have "k = l" using one_active_lease[OF ok k0(1) ll(1)] kk ll by simp
  then show False using k0 ll act(2) by simp
qed

lemma fenced_activeE:
  assumes "fenced E (row_to_job row) token d" "0 < pj_fencingGeneration row" "pj_projectId row = p" "pj_runId row = r" "pj_jobId row = j"
  obtains l where "active_lease p r j d = Some l" "lr_tokenHash l = sha256 E token" "jl_fencingGeneration l = pj_fencingGeneration row"
  using assms by (auto simp: fenced_def)

lemma statement_leases:
  "update_jobs p f d = Some d' \<Longrightarrow> db_leases d' = db_leases d"
  "update_attempts pa fa d = Some d' \<Longrightarrow> db_leases d' = db_leases d"
  "insert_transition t d = Some d' \<Longrightarrow> db_leases d' = db_leases d"
  "insert_operation o' d = Some d' \<Longrightarrow> db_leases d' = db_leases d"
  "insert_attempt a d = Some d' \<Longrightarrow> db_leases d' = db_leases d"
  by (auto simp: update_jobs_def update_attempts_def insert_transition_def insert_operation_def insert_attempt_def)

lemma active_lease_cong: "db_leases d' = db_leases d \<Longrightarrow> active_lease p r j d' = active_lease p r j d"
  by (simp add: active_lease_def)

lemma complete_body_spec:
  assumes ok: "schema_ok d"
  shows "tx_post (complete_body E c) (\<lambda>j d'. completed_from E c d j d') d"
  unfolding complete_body_def release_lease_of_def
proof (intro post_intros, simp_all only: row_to_job_fields, goal_cases)
  case (1 row)
  then show ?case by (auto simp: completed_from_def)
next
  case (2 row d1 d2 d3 d4 i x)
  note f = find_job_SomeD[OF 2(1)]
  have st: "job_state row = JobProcessing" using 2 by simp
  have x: "x = completed_row c row"
    unfolding completed_row_def
    by (rule updated_row[OF ok 2(6) f(1) _ _ 2(12)])
       (use statement_jobs(2)[OF 2(7)] statement_jobs(5)[OF 2(9)] statement_jobs(3)[OF 2(11)] in auto)
  have leases: "db_leases d2 = db_leases d" "db_leases d4 = db_leases d3"
    using statement_leases(1)[OF 2(6)] statement_leases(2)[OF 2(7)] statement_leases(3)[OF 2(11)] by simp_all
  obtain l where "active_lease (oc_projectId c) (oc_runId c) (co_jobId c) d = Some l"
    "jl_fencingGeneration l = pj_fencingGeneration row"
    using fenced_activeE[OF 2(5,8) f(2-4)] .
  then have "active_lease (oc_projectId c) (oc_runId c) (co_jobId c) d3 = None"
    by (rule released_lease[OF ok 2(9)[unfolded f(4)] leases(1)])
  then show ?case
    using 2(1,4,5) st x active_lease_cong[OF leases(2)] unfolding completed_from_def by auto
next
  case (3 row d1 d2 i d3 x)
  note f = find_job_SomeD[OF 3(1)]
  have "x = completed_row c row"
    unfolding completed_row_def
    by (rule updated_row[OF ok 3(6) f(1) _ _ 3(11)])
       (use statement_jobs(2)[OF 3(7)] statement_jobs(3)[OF 3(10)] in auto)
  then show ?case using 3 unfolding completed_from_def by auto
qed

text \<open>Who may not complete: another token, or a fenced job without a live Lease of its generation.\<close>

definition stale_claim :: "env \<Rightarrow> job_row \<Rightarrow> string \<Rightarrow> string \<Rightarrow> db \<Rightarrow> bool" where
  "stale_claim E row token t d = (pj_claimToken row \<noteq> Some token \<or> pj_fencingGeneration row \<noteq> 0 \<and>
     (case active_lease (pj_projectId row) (pj_runId row) (pj_jobId row) d of
        None \<Rightarrow> True
      | Some l \<Rightarrow> lr_tokenHash l \<noteq> sha256 E token \<or> jl_fencingGeneration l \<noteq> pj_fencingGeneration row \<or>
                  jl_expiresAt l \<le> t))"

lemma stale_fenced_claim:
  assumes "stale_claim E row token (now_at E (s_ticks s)) (s_db s)" "pj_claimToken row = Some token"
  shows "\<exists>s'. validate_fenced_claim E (row_to_job row) token s = (Inl (QueueError QUEUE_CLAIM_TOKEN_INVALID), s')"
  using assms
  by (auto simp: stale_claim_def validate_fenced_claim_def Let_def tx_bind_def tx_gets_def tx_throw_def
      tx_now_def tx_guard_def ensure_def not_less split: option.splits)

lemma get_job_run:
  "find_job p r j (s_db s) = Some row \<Longrightarrow> get_job p r j s = (Inr (row_to_job row), s)"
  by (simp add: get_job_def get_job_row_def tx_bind_def tx_gets_def tx_found_def tx_ret_def)

lemma complete_body_stale:
  assumes "find_job (oc_projectId c) (oc_runId c) (co_jobId c) (s_db s) = Some row" "job_state row = JobProcessing"
    and stale: "stale_claim E row (co_claimToken c) (now_at E (s_ticks s)) (s_db s)"
  shows "\<exists>s'. complete_body E c s = (Inl (QueueError QUEUE_CLAIM_TOKEN_INVALID), s')"
proof (cases "pj_claimToken row = Some (co_claimToken c)")
  case True
  then obtain s' where "validate_fenced_claim E (row_to_job row) (co_claimToken c) s = (Inl (QueueError QUEUE_CLAIM_TOKEN_INVALID), s')"
    using stale_fenced_claim[OF stale] by blast
  then show ?thesis
    using True assms(2) by (simp add: complete_body_def tx_bind_def get_job_run[OF assms(1)] tx_guard_def)
next
  case False
  then show ?thesis
    using assms(2) by (simp add: complete_body_def tx_bind_def get_job_run[OF assms(1)] tx_guard_def ensure_def)
qed

lemma wrapped_error:
  assumes "operation s = (Inl e, s1)" "is_queue_error e" "assert_idempotency_key (oc_idempotencyKey c) = Inr ()"
    "recorded c type (s_db s) = None"
  shows "\<exists>s'. queue_transaction (idempotent E c type request (tx_bind operation (\<lambda>r. tx_ret (f r)))) s = (Inl e, s') \<and> s_db s' = s_db s"
  using assms by (simp add: queue_transaction_def run_transaction_def idempotent_run tx_bind_def)

section \<open>Enqueue\<close>

definition enqueued :: "enqueue_input \<Rightarrow> db \<Rightarrow> enqueue_result \<Rightarrow> db \<Rightarrow> bool" where
  "enqueued q d r d' = (let s = qi_scopeDecision q in case r of
     Created j disc \<Rightarrow> (\<exists>a row. accepted_decision s = Some a \<and>
       find_identity (qi_projectId q) (qi_runId q) (sd_profileRevisionId s) (sd_engineVersion s) (fst a) d = None \<and>
       db_jobs d' = db_jobs d @ [row] \<and> j = row_to_job row \<and> pd_childJobId disc = pj_jobId row \<and>
       job_identity row = (qi_projectId q, qi_runId q, sd_profileRevisionId s, sd_engineVersion s, fst a) \<and>
       job_state row = JobPending \<and> pj_attemptCount row = 0 \<and>
       (\<forall>m. qi_maxPages q = Some (js_int m) \<longrightarrow>
          int (count_identity (qi_projectId q) (qi_runId q) (sd_profileRevisionId s) (sd_engineVersion s) d) < m))
   | Existing j disc \<Rightarrow> (\<exists>a row k. accepted_decision s = Some a \<and> row \<in> set (db_jobs d) \<and>
       job_identity row = (qi_projectId q, qi_runId q, sd_profileRevisionId s, sd_engineVersion s, fst a) \<and>
       pj_jobId j = pj_jobId row \<and> pj_state j = job_state row \<and> length (db_jobs d') = length (db_jobs d) \<and>
       sd_depth s = js_int k \<and> pj_depth j = min (pj_depth row) k)
   | Rejected rs \<Rightarrow> db_jobs d' = db_jobs d \<and> (accepted_decision s = None \<or> rs = [''PAGE_LIMIT_REACHED''])
   | Blocked rs \<Rightarrow> db_jobs d' = db_jobs d \<and> accepted_decision s = None \<and> blocked_reasons rs)"

lemma post_insert_discovery:
  assumes "\<And>disc d'. db_jobs d' = db_jobs d \<Longrightarrow> pd_childJobId disc = child \<Longrightarrow> Q disc d'"
  shows "tx_post (insert_discovery_for E q child t) Q d"
  unfolding insert_discovery_for_def Let_def
  by (intro post_intros)
     (auto intro!: assms simp: statement_jobs(6) row_to_discovery_def page_job_discovery.defs dest!: find_SomeD)

lemma inserted_job_found:
  assumes ins: "insert_job row d = Some d'" and same: "db_jobs d'' = db_jobs d'"
    and found: "find_job p r (pj_jobId row) d'' = Some x"
  shows "x = row \<and> db_jobs d' = db_jobs d @ [row]"
proof -
  have jobs: "db_jobs d' = db_jobs d @ [row]" "\<forall>y \<in> set (db_jobs d). \<not> job_clash y row"
    using ins by (auto simp: insert_job_def sql_insert_def list_all_iff split: if_splits)
  have "x \<in> set (db_jobs d')" "pj_jobId x = pj_jobId row" using find_job_SomeD[OF found] same by simp_all
  then show ?thesis using jobs by (auto simp: job_clash_def)
qed

lemma create_job_spec:
  "tx_post (create_job E q t (h, identity, normalized, display))
     (\<lambda>r d'. \<exists>row disc. r = Created (row_to_job row) disc \<and> db_jobs d' = db_jobs d @ [row] \<and> pd_childJobId disc = pj_jobId row \<and>
        job_identity row = (qi_projectId q, qi_runId q, sd_profileRevisionId (qi_scopeDecision q),
           sd_engineVersion (qi_scopeDecision q), h) \<and> job_state row = JobPending \<and> pj_attemptCount row = 0) d"
  unfolding create_job_def Let_def prod.case
proof (intro post_intros post_insert_discovery, goal_cases)
  case (1 priority jid d1 d2 i disc d3 x)
  let ?row = "new_job_row q (db_jobSequence d + 1) jid (size_value (sd_depth (qi_scopeDecision q))) priority
     (size_value (qi_maxAttempts q)) normalized identity display h t"
  have id: "pj_jobId ?row = jid" by (simp add: new_job_row_def Let_def)
  have "x = ?row \<and> db_jobs d1 = db_jobs d @ [?row]"
    by (rule inserted_job_found[OF 1(2)]) (use 1 id in \<open>auto simp: statement_jobs(3)\<close>)
  then show ?case
    using 1 statement_jobs(3)[OF 1(4)] id
    by (intro exI[of _ ?row] exI[of _ disc])
       (simp add: new_job_row_def Let_def job_identity_def job_state_def)
qed

lemma merge_existing_spec:
  assumes ok: "schema_ok d" and row: "row \<in> set (db_jobs d)"
  shows "tx_post (merge_existing E q t row)
     (\<lambda>r d'. \<exists>j disc k. r = Existing j disc \<and> pj_jobId j = pj_jobId row \<and> pj_state j = job_state row \<and>
        length (db_jobs d') = length (db_jobs d) \<and> sd_depth (qi_scopeDecision q) = js_int k \<and> pj_depth j = min (pj_depth row) k) d"
proof -
  have read: "x = row \<and> length (db_jobs d') = length (db_jobs d)"
    if "find_job p r (pj_jobId row) d' = Some x" "db_jobs d' = db_jobs d" for p r d' x
    using job_row_unique[OF ok _ row, of x] find_job_SomeD[OF that(1)] that(2) by simp
  have read_updated: "x = row\<lparr>pj_depth := k, pj_updatedAt := t\<rparr> \<and> length (db_jobs d'') = length (db_jobs d)"
    if "update_jobs (\<lambda>r. pj_jobId r = pj_jobId row) (\<lambda>r. r\<lparr>pj_depth := k, pj_updatedAt := t\<rparr>) d = Some d'"
      "db_jobs d'' = db_jobs d'" "find_job p r (pj_jobId row) d'' = Some x" for p r d' d'' x k
    using updated_row[OF ok that(1) row _ _ that(3,2)] that(1,2)
    by (auto simp: update_jobs_def sql_update_def Let_def split: if_splits)
  have depth: "\<exists>k. sd_depth (qi_scopeDecision q) = js_int k \<and> m = min (pj_depth row) k"
    if "minimum_depth (js_int (pj_depth row)) (sd_depth (qi_scopeDecision q)) = Inr m" for m
    using that by (auto simp: minimum_depth_def int_value_Some_iff split: option.splits if_splits)
  show ?thesis
    unfolding merge_existing_def Let_def
  proof (intro post_intros post_insert_discovery, simp_all only: row_to_job_fields, goal_cases)
    case (1 m d1 disc d2 x)
    then show ?case
      using read_updated[OF 1(3,4,6)] depth[OF 1(1)]
      by (auto simp: job_state_def intro!: exI[of _ "row_to_job x"] split: option.splits)
  next
    case (2 m disc d2 x)
    then show ?case using read[OF 2(5,3)] depth[OF 2(1)] by (auto intro!: exI[of _ "row_to_job x"])
  qed
qed

lemma enqueue_spec:
  assumes ok: "schema_ok d"
  shows "tx_post (enqueue_in_transaction E q) (\<lambda>r d'. enqueued q d r d') d"
proof -
  let ?s = "qi_scopeDecision q"
  have create: "tx_post (create_job E q t a) (\<lambda>r d'. enqueued q d r d') d1"
    if "insert_decision x d = Some d1" "accepted_decision ?s = Some a"
      "find_identity (qi_projectId q) (qi_runId q) (sd_profileRevisionId ?s) (sd_engineVersion ?s) (fst a) d1 = None"
      "\<And>m. qi_maxPages q = Some (js_int m) \<Longrightarrow>
         int (count_identity (qi_projectId q) (qi_runId q) (sd_profileRevisionId ?s) (sd_engineVersion ?s) d1) < m"
    for t x d1 a
  proof -
    obtain h identity normalized display where a: "a = (h, identity, normalized, display)" by (cases a) auto
    have same: "db_jobs d1 = db_jobs d" by (rule statement_jobs(7)[OF that(1)])
    show ?thesis
      unfolding a
      by (rule tx_post_mono[OF create_job_spec])
         (use that(2-4) same a in \<open>auto simp: enqueued_def Let_def find_identity_def count_identity_def\<close>)
  qed
  have merge: "tx_post (merge_existing E q t row) (\<lambda>r d'. enqueued q d r d') d1"
    if dec: "insert_decision x d = Some d1" and acc: "accepted_decision ?s = Some a"
      and f: "find_identity (qi_projectId q) (qi_runId q) (sd_profileRevisionId ?s) (sd_engineVersion ?s) (fst a) d1 = Some row"
    for t x d1 a row
  proof -
    have same: "db_jobs d1 = db_jobs d" by (rule statement_jobs(7)[OF dec])
    have row: "row \<in> set (db_jobs d1)"
      "job_identity row = (qi_projectId q, qi_runId q, sd_profileRevisionId ?s, sd_engineVersion ?s, fst a)"
      using f by (auto simp: find_identity_def dest: find_SomeD)
    show ?thesis
      by (rule tx_post_mono[OF merge_existing_spec[OF insert_decision_schema[OF dec ok] row(1)]])
         (use row same acc in \<open>auto simp: enqueued_def Let_def\<close>)
  qed
  have limit: "enqueued q d (Rejected [''PAGE_LIMIT_REACHED'']) d1" if "insert_decision x d = Some d1" for x d1
    using statement_jobs(7)[OF that] by (simp add: enqueued_def Let_def)
  have refused: "blocked_reasons rs \<Longrightarrow> enqueued q d (Blocked rs) d1" "enqueued q d (Rejected rs) d1"
    if "insert_decision x d = Some d1" "accepted_decision ?s = None" for x d1 rs
    using statement_jobs(7)[OF that(1)] that(2) by (simp_all add: enqueued_def Let_def)
  show ?thesis
    unfolding enqueue_in_transaction_def Let_def record_scope_decision_def
    apply (intro post_bind post_validate_enqueue)
    apply (intro post_intros)
    apply (auto intro!: create merge limit refused simp: int_value_Some_iff split: option.splits if_splits)
    done
qed

section \<open>Statistics\<close>

lemma state_partition:
  assumes "\<forall>x \<in> set rows. job_check x \<and> overlay_row x"
  shows "length rows = count_where (\<lambda>x. pj_state x = JobPending) rows +
     count_where (\<lambda>x. pj_state x = JobProcessing \<and> jr_recoveryState x = None) rows +
     count_where (\<lambda>x. pj_state x = JobCompleted) rows + count_where (\<lambda>x. pj_state x = JobFailed) rows +
     count_where (\<lambda>x. pj_state x = JobRetrying) rows + count_where (\<lambda>x. pj_state x = JobSkipped) rows +
     count_where (\<lambda>x. pj_state x = JobBlocked) rows +
     count_where (\<lambda>x. jr_recoveryState x = Some JobInterrupted) rows +
     count_where (\<lambda>x. jr_recoveryState x = Some JobPaused) rows"
  using assms
proof (induction rows)
  case Nil
  then show ?case by simp
next
  case (Cons x rows)
  have "physical_state (pj_state x)" "jr_recoveryState x \<in> {None, Some JobInterrupted, Some JobPaused}"
    "jr_recoveryState x = None \<or> pj_state x = JobProcessing"
    using Cons.prems by (auto simp: job_check_def overlay_row_def)
  then show ?case
    using Cons by (cases "pj_state x") (auto simp: physical_state_def)
qed

end
