(* ===== verification/Recovery_Sound.thy ===== *)
theory Recovery_Sound
  imports Recovery_Control Queue_Ops
begin

text \<open>
  Correctness of the Recovery repository: every operation keeps the constraints and the history
  promises of Job_Evolution; a Lease that has ended gives no rights ever again; a renewal extends
  exactly from its own time; a recovery leaves no expired work behind.
\<close>

section \<open>Rules for the shared steps\<close>

lemma post_owned [post_intros]:
  "(db_project d = Some p \<Longrightarrow> (r, p) \<in> set (db_runs d) \<Longrightarrow> Q () d) \<Longrightarrow> tx_post (owned p r) Q d"
  unfolding owned_def by (intro post_intros) blast

lemma post_run_control [post_intros]:
  "(\<And>x. x \<in> set (db_controls d) \<Longrightarrow> ct_projectId x = p \<Longrightarrow> ct_runId x = r \<Longrightarrow> Q x d) \<Longrightarrow> tx_post (run_control p r) Q d"
  unfolding run_control_def by (intro post_intros) (auto dest: find_SomeD)

text \<open>What \<open>assertLease\<close> establishes.\<close>

definition lease_held :: "env \<Rightarrow> 'a lease_ref_scheme \<Rightarrow> lease_row \<Rightarrow> db \<Rightarrow> bool" where
  "lease_held E c l d = (active_lease (lf_projectId c) (lf_runId c) (lf_jobId c) d = Some l \<and>
     lr_tokenHash l = sha256 E (lf_leaseToken c) \<and> jl_ownerId l = lf_ownerId c \<and>
     jl_fencingGeneration l = lf_fencingGeneration c \<and>
     (\<exists>row t. find_job (lf_projectId c) (lf_runId c) (lf_jobId c) d = Some row \<and>
        pj_fencingGeneration row = lf_fencingGeneration c \<and> is_lease_expired LeaseActive (jl_expiresAt l) t = Inr False))"

lemma post_assert_lease [post_intros]:
  assumes "\<And>l. lease_held E c l d \<Longrightarrow> Q l d"
  shows "tx_post (assert_lease E c) Q d"
  unfolding assert_lease_def
proof (intro post_intros, simp_all only: row_to_job_fields, goal_cases)
  case (1 t l row expired)
  then have "jl_status l = LeaseActive" using active_lease_SomeD(3) by blast
  then show ?case using 1 by (intro assms) (auto simp: lease_held_def)
qed

lemma post_pause_status [post_intros]:
  "(\<And>x. Q x d) \<Longrightarrow> tx_post (pause_status_of p r) Q d"
  unfolding pause_status_of_def by (intro post_intros) blast

lemma post_lease_by_id [post_intros]:
  "(\<And>l. l \<in> set (db_leases d) \<Longrightarrow> jl_leaseId l = i \<Longrightarrow> Q (row_to_lease l) d) \<Longrightarrow> tx_post (lease_by_id i) Q d"
  unfolding lease_by_id_def by (intro post_intros) (auto dest: find_SomeD)

lemma post_checkpoint_by_id [post_intros]: "(\<And>x. Q x d) \<Longrightarrow> tx_post (checkpoint_by_id i) Q d"
  unfolding checkpoint_by_id_def by (intro post_intros) blast

lemma post_get_report_row [post_intros]:
  "(\<And>x. x \<in> set (db_recoveries d) \<Longrightarrow> rr_recoveryOperationId x = i \<Longrightarrow> Q x d) \<Longrightarrow> tx_post (get_report_row p r i) Q d"
  unfolding get_report_row_def by (intro post_intros) (auto dest: find_SomeD)

lemma post_replay_lease [post_intros]: "(\<And>x. Q x d) \<Longrightarrow> tx_post (replay_lease E c j) Q d"
  unfolding replay_lease_def by (intro post_intros) (auto intro: post_intros split: option.splits)

section \<open>Every operation keeps the promises\<close>

lemma sound_save_run_checkpoint:
  "sound d0 d \<Longrightarrow> tx_post (save_run_checkpoint E p r operation t) (\<lambda>_. sound d0) d"
  unfolding save_run_checkpoint_def by (intro post_intros) (auto elim!: sound_insert_run_checkpoint)

lemma post_save_run_checkpoint:
  "sound d0 d \<Longrightarrow> (\<And>d'. sound d0 d' \<Longrightarrow> Q () d') \<Longrightarrow> tx_post (save_run_checkpoint E p r operation t) Q d"
  by (rule tx_post_mono[OF sound_save_run_checkpoint]) (auto simp: old.unit.exhaust)

lemma overlay_transition_allowed [simp]:
  "transition_allowed \<lparr>pt_transitionId = i, pt_jobId = job, pt_fromState = Some (physical from), pt_toState = physical to,
     pt_reasonCode = reason, pt_operationId = op, pt_correlationId = co, pt_occurredAt = t,
     tr_recoveryFrom = overlay_of from, tr_recoveryTo = overlay_of to, tr_metadata = meta\<rparr> \<longleftrightarrow> can_transition from to"
  by (auto simp: transition_allowed_def Let_def physical_def overlay_of_def)

lemma sound_recovery_transition:
  "sound d0 d \<Longrightarrow> can_transition from to \<Longrightarrow> tx_post (recovery_transition E c job from to reason t g) (\<lambda>_. sound d0) d"
  unfolding recovery_transition_def by (intro post_intros) (auto elim!: sound_statements)

lemma post_recovery_transition:
  "sound d0 d \<Longrightarrow> can_transition from to \<Longrightarrow> (\<And>d'. sound d0 d' \<Longrightarrow> Q () d') \<Longrightarrow>
     tx_post (recovery_transition E c job from to reason t g) Q d"
  by (rule tx_post_mono[OF sound_recovery_transition]) (auto simp: old.unit.exhaust)

lemma row_to_job_select: "select_first p k rows = Some row \<Longrightarrow> row \<in> set rows"
  by (rule select_first_SomeD(1))

lemma sound_lease_job:
  assumes s: "sound d0 d" and row: "row \<in> set (db_jobs d)"
  shows "tx_post (lease_job E c type reason render h t (row_to_job row)) (\<lambda>_. sound d0) d"
proof -
  have upd: "sound d0 d'" if
    "update_jobs (\<lambda>x. pj_jobId x = pj_jobId row \<and> pj_state x = JobPending \<and> jr_recoveryState x = None \<and>
        pj_fencingGeneration x = pj_fencingGeneration row)
       (leased_row token owner t (pj_attemptCount row + 1) (pj_fencingGeneration row + 1)) d = Some d'" for token owner t d'
  proof (rule sound_update_jobs[OF that s])
    fix x assume x: "x \<in> set (db_jobs d)" "pj_jobId x = pj_jobId row \<and> pj_state x = JobPending \<and> jr_recoveryState x = None \<and>
        pj_fencingGeneration x = pj_fencingGeneration row"
    then have "x = row" using job_row_unique[OF sound_schema[OF s] x(1) row] by simp
    then show "job_evolves x (leased_row token owner t (pj_attemptCount row + 1) (pj_fencingGeneration row + 1) x)"
      using x(2) by (intro job_evolves_step) (simp_all add: leased_row_def job_identity_def can_transition_def)
  qed (simp add: leased_row_def)
  show ?thesis
    unfolding lease_job_def Let_def row_to_job_fields
    by (intro post_intros)
       (auto elim!: sound_statements sound_insert_lease intro: upd simp: can_transition_def)
qed

lemma sound_claim_next_with_lease:
  assumes "schema_ok d"
  shows "tx_post (claim_next_with_lease E c) (\<lambda>_. sound d) d"
  unfolding claim_next_with_lease_def Let_def
proof (intro post_intros, goal_cases)
  case (1 x t i d')
  then show ?case using sound_refl[OF assms] by (auto elim!: sound_statements)
next
  case (2 x t row)
  then show ?case
    by (intro tx_post_mono[OF sound_lease_job] sound_refl[OF assms]) (auto intro: post_intros row_to_job_select sound_refl[OF assms])
next
  case (3 x o')
  then show ?case
    using sound_refl[OF assms] by (auto intro!: post_intros split: op_result.splits option.splits)
qed

lemma sound_claim_job_with_lease:
  assumes "schema_ok d"
  shows "tx_post (claim_job_with_lease E c j) (\<lambda>_. sound d) d"
  unfolding claim_job_with_lease_def Let_def
  by (intro post_intros) (auto intro!: sound_lease_job sound_refl assms dest: find_job_SomeD)

text \<open>The Lease operations touch only the Lease they have asserted.\<close>

lemma sound_heartbeat: "schema_ok d \<Longrightarrow> tx_post (heartbeat_lease E c) (\<lambda>_. sound d) d"
  unfolding heartbeat_lease_def
  by (intro post_intros) (auto elim!: sound_update_leases simp: lease_evolves_def intro: sound_refl)

lemma sound_renew: "schema_ok d \<Longrightarrow> tx_post (renew_lease E c ext) (\<lambda>_. sound d) d"
  unfolding renew_lease_def
  by (intro post_intros) (auto elim!: sound_update_leases simp: lease_evolves_def intro: sound_refl)

lemma sound_release: "schema_ok d \<Longrightarrow> tx_post (release_lease E c reason) (\<lambda>_. sound d) d"
  unfolding release_lease_def
  by (intro post_intros) (auto elim!: sound_update_leases simp: lease_evolves_def live_lease_def intro: sound_refl)

lemma sound_save_checkpoint: "schema_ok d \<Longrightarrow> tx_post (save_job_checkpoint E c) (\<lambda>_. sound d) d"
  unfolding save_job_checkpoint_def
  by (intro post_intros) (auto elim!: sound_insert_checkpoint intro: sound_refl)

lemma sound_save_artifact: "schema_ok d \<Longrightarrow> tx_post (save_artifact_checkpoint E c) (\<lambda>_. sound d) d"
  unfolding save_artifact_checkpoint_def
  by (intro post_intros) (auto elim!: sound_statements intro: sound_refl)

lemma sound_save_outputs: 
  assumes "schema_ok d" shows "tx_post (save_completed_outputs E c outputs) (\<lambda>_. sound d) d"
proof -
  have one: "tx_post (save_one_output E j o') (\<lambda>_. sound d) d1" if "sound d d1" for j o' d1
    unfolding save_one_output_def by (intro post_intros) (auto elim!: sound_statements simp: that)
  show ?thesis
    unfolding save_completed_outputs_def
    by (intro post_intros post_each) (auto intro: one sound_refl assms)
qed

lemma sound_inspect: "schema_ok d \<Longrightarrow> tx_post (inspect_recovery E c) (\<lambda>_. sound d) d"
  unfolding inspect_recovery_def Let_def
  by (intro post_intros) (auto elim!: sound_statements intro: sound_refl)


text \<open>A job that has not ended can still reach every state.\<close>

lemma live_reaches:
  assumes "\<not> is_terminal_state s" shows "can_transition\<^sup>*\<^sup>* s t"
proof -
  have step: "can_transition\<^sup>*\<^sup>* a b" if "b \<in> set (job_targets a)" for a b
    using that by (auto simp: can_transition_def)
  have to_pending: "can_transition\<^sup>*\<^sup>* s JobPending"
  proof (cases s)
    case JobProcessing
    then show ?thesis using rtranclp_trans[OF step[of JobInterrupted s] step[of JobPending JobInterrupted]] by simp
  qed (use assms in \<open>auto simp: is_terminal_state_def intro: step\<close>)
  have from_processing: "can_transition\<^sup>*\<^sup>* JobPending JobProcessing" by (rule step) simp
  have "can_transition\<^sup>*\<^sup>* JobPending t"
    by (cases t) (auto intro: step rtranclp_trans[OF from_processing step])
  then show ?thesis by (rule rtranclp_trans[OF to_pending])
qed

lemma job_evolves_live:
  assumes "\<not> is_terminal_state (job_state a)" "pj_jobId b = pj_jobId a" "job_identity b = job_identity a"
    "pj_queueSequence b = pj_queueSequence a" "pj_priority b = pj_priority a" "pj_maxAttempts b = pj_maxAttempts a"
    "pj_depth b = pj_depth a" "pj_fencingGeneration b = pj_fencingGeneration a" "pj_attemptCount b = pj_attemptCount a"
    "overlay_row b"
  shows "job_evolves a b"
  using assms live_reaches by (simp add: job_evolves_def)

lemma processing_live: "job_check x \<Longrightarrow> pj_state x = JobProcessing \<Longrightarrow> \<not> is_terminal_state (job_state x)"
  by (auto simp: job_check_def job_state_def is_terminal_state_def)

lemma sound_update_processing:
  assumes upd: "update_jobs (\<lambda>x. pj_jobId x = j \<and> pj_state x = JobProcessing) f d = Some d'" and s: "sound d0 d"
    and f: "f = (\<lambda>x. x\<lparr>jr_recoveryState := Some s', pj_updatedAt := t\<rparr>) \<or> f = requeued_row t \<or> f = exhausted_row t"
  shows "sound d0 d'"
proof (rule sound_update_jobs[OF upd s])
  fix x assume x: "x \<in> set (db_jobs d)" "pj_jobId x = j \<and> pj_state x = JobProcessing"
  have "\<not> is_terminal_state (job_state x)"
    using processing_live[OF job_row_checked[OF sound_schema[OF s] x(1)]] x(2) by simp
  then show "job_evolves x (f x)"
    using f x(2) by (intro job_evolves_live) (auto simp: requeued_row_def exhausted_row_def job_identity_def overlay_row_def)
qed (use f in \<open>auto simp: requeued_row_def exhausted_row_def\<close>)

lemma sound_recover_one:
  assumes s: "sound d0 d"
  shows "tx_post (recover_one E c t i pausing row) (\<lambda>_. sound d0) d"
proof -
  have lease: "lease_evolves x (x\<lparr>jl_status := LeaseRecovered, jl_releasedAt := a, jl_releaseReason := b, lr_lastOperationId := e\<rparr>)"
    if "live_lease k x" for k x a b e
    using that by (simp add: lease_evolves_def live_lease_def)
  show ?thesis
    unfolding recover_one_def Let_def
    apply (intro post_intros post_recovery_transition)
                  apply (auto intro: s lease simp: can_transition_def elim!: sound_statements sound_update_leases
        sound_update_processing split: if_splits)
    done
qed


lemma sound_recover_batch:
  assumes s: "sound d0 d"
  shows "tx_post (recover_batch E c limit t i existing) (\<lambda>_. sound d0) d"
proof -
  have each: "tx_post (tx_each (recover_one E c t i b) rows) (\<lambda>_. sound d0) d1" if "sound d0 d1" for b rows d1
    by (rule post_each) (auto intro: sound_recover_one that)
  show ?thesis
    unfolding recover_batch_def Let_def
    apply (intro post_intros)
    apply (rule tx_post_mono[OF each])
     apply (erule sound_statements, rule s)
    apply (intro post_intros post_save_run_checkpoint)
     apply (auto elim!: sound_statements)
    done
qed

lemma sound_recover: 
  assumes "schema_ok d" shows "tx_post (recover E c) (\<lambda>_. sound d) d"
proof -
  have d: "sound d d" by (rule sound_refl[OF assms])
  show ?thesis
    unfolding recover_def Let_def
    by (intro post_intros; (rule sound_recover_batch)?) (auto intro: d elim!: sound_statements)
qed

lemma sound_request_pause:
  assumes "schema_ok d" shows "tx_post (request_pause E p r operation) (\<lambda>_. sound d) d"
  unfolding request_pause_def Let_def
  by (intro post_intros post_save_run_checkpoint[where ?d0.0 = d])
     (auto intro: sound_refl assms elim!: sound_statements)

lemma sound_set_run_state:
  assumes "schema_ok d" shows "tx_post (set_run_state E p r st operation) (\<lambda>_. sound d) d"
  unfolding set_run_state_def Let_def
  by (intro post_intros post_save_run_checkpoint[where ?d0.0 = d])
     (auto intro: sound_refl assms elim!: sound_statements)

lemma sound_acknowledge_pause:
  assumes "schema_ok d" shows "tx_post (acknowledge_pause E c correlation) (\<lambda>_. sound d) d"
proof -
  have d: "sound d d" by (rule sound_refl[OF assms])
  have lease: "lease_evolves x (x\<lparr>jl_status := LeaseReleased, jl_releasedAt := a, jl_releaseReason := b, lr_lastOperationId := e\<rparr>)"
    if "live_lease k x" for k x a b e
    using that by (simp add: lease_evolves_def live_lease_def)
  show ?thesis
    unfolding acknowledge_pause_def Let_def
    apply (intro post_intros post_recovery_transition[where ?d0.0 = d] post_save_run_checkpoint[where ?d0.0 = d])
                        apply (auto intro: d lease simp: can_transition_def elim!: sound_statements sound_insert_checkpoint
        sound_update_leases sound_update_processing split: if_splits)
    done
qed

text \<open>While a run is resumed, none of the jobs it has picked up ends.\<close>

lemma sound_resume_run:
  assumes "schema_ok d" shows "tx_post (resume_run E p r operation correlation) (\<lambda>_. sound d) d"
proof -
  define live where "live rows d' = (\<forall>row \<in> set rows. \<forall>x \<in> set (db_jobs d').
      pj_jobId x = pj_jobId row \<longrightarrow> \<not> is_terminal_state (job_state x))" for rows :: "job_row list" and d' :: db
  have d: "sound d d" by (rule sound_refl[OF assms])
  have upd: "sound d d2 \<and> live rows d2"
    if s: "sound d d1" "live rows d1" "row \<in> set rows" and u: "update_jobs (\<lambda>x. pj_jobId x = pj_jobId row) (requeued_row t) d1 = Some d2"
    for rows row d1 d2 t
  proof
    show "sound d d2"
      by (rule sound_update_jobs[OF u s(1)])
         (use s(2,3) in \<open>auto simp: requeued_row_def live_def job_identity_def overlay_row_def intro!: job_evolves_live\<close>)
    show "live rows d2"
      using u s(2) by (auto simp: live_def update_jobs_def sql_update_def Let_def requeued_row_def job_state_def
          is_terminal_state_def set_update_where split: if_splits)
  qed
  have logged: "insert_transition tr d1 = Some d2 \<Longrightarrow> live rows d1 \<Longrightarrow> live rows d2"
    "insert_event ev d1 = Some d2 \<Longrightarrow> live rows d1 \<Longrightarrow> live rows d2" for tr ev rows d1 d2
    by (auto simp: live_def insert_transition_def insert_event_def)
  have one: "tx_post (resume_one E step t row) (\<lambda>_ d2. sound d d2 \<and> live rows d2) d1"
    if "sound d d1" "live rows d1" "row \<in> set rows" "can_transition (job_state row) JobPending" for rows row d1 step t
    unfolding resume_one_def recovery_transition_def Let_def row_to_job_fields
    by (intro post_intros)
       (use that(4) in \<open>auto elim!: sound_statements dest!: upd[OF that(1-3)] elim: logged\<close>)
  have start: "live (select_order (suspended p r) pj_queueSequence (db_jobs d1)) d1" if "sound d d1" for d1
    using job_row_unique[OF sound_schema[OF that]]
    by (fastforce simp: live_def suspended_def job_state_def is_terminal_state_def set_select_order)
  have each: "tx_post (tx_each (resume_one E step t) rows) (\<lambda>_. sound d) d1"
    if "sound d d1" "rows = select_order (suspended p r) pj_queueSequence (db_jobs d1)" for step t d1 rows
  proof (rule tx_post_mono[OF post_each[where I = "\<lambda>d'. sound d d' \<and> live rows d'"]])
    fix row d' assume "row \<in> set rows" "sound d d' \<and> live rows d'"
    then show "tx_post (resume_one E step t row) (\<lambda>_ d'. sound d d' \<and> live rows d') d'"
      using that(2) by (intro one) (auto simp: suspended_def job_state_def can_transition_def set_select_order)
  qed (use start that in auto)
  show ?thesis
    unfolding resume_run_def Let_def
    apply (intro post_intros)
     apply (rule d)
    apply (rule tx_post_mono[OF each])
      apply (erule sound_statements, rule d)
     apply simp
    apply (intro post_intros post_save_run_checkpoint[where ?d0.0 = d])
     apply (auto elim!: sound_statements)
    done
qed

lemma sound_begin_session:
  "schema_ok d \<Longrightarrow> tx_post (begin_execution_session E p r pid host) (\<lambda>_. sound d) d"
  unfolding begin_execution_session_def
  by (intro post_intros) (auto elim!: sound_statements intro: sound_refl)

lemma sound_end_session: "schema_ok d \<Longrightarrow> tx_post (end_execution_session E p r i) (\<lambda>_. sound d) d"
  unfolding end_execution_session_def Let_def
  by (intro post_intros) (auto elim!: sound_statements intro: sound_refl)

end
