(* ===== verification/Recovery_Ops.thy ===== *)
theory Recovery_Ops
  imports Recovery_Sound
begin

text \<open>
  The Recovery repository as a client sees it: its operations as one datatype, sequences that mix
  them with the operations of the queue, the rights a Lease gives, and what a recovery leaves
  behind.
\<close>

section \<open>Operations that fail without a trace\<close>

definition leaves_db :: "'a tx \<Rightarrow> bool" where
  "leaves_db m = (\<forall>s. s_db (snd (m s)) = s_db s)"

definition silent :: "'a tx \<Rightarrow> bool" where
  "silent m = (\<forall>s e s'. m s = (Inl e, s') \<longrightarrow> s_db s' = s_db s \<and> is_operation_error e)"

named_theorems silent_intros \<open>operations whose failure leaves no trace\<close>

lemma silent_transaction [silent_intros]: "silent (recovery_transaction m)"
  using recovery_tx.failure_is_silent recovery_tx.failure_kind unfolding silent_def by blast

lemma silent_bind [silent_intros]:
  assumes "leaves_db m" "silent m" "\<And>a. silent (f a)"
  shows "silent (tx_bind m f)"
  unfolding silent_def
proof (intro allI impI)
  fix s e s' assume run: "tx_bind m f s = (Inl e, s')"
  have "s_db (snd (m s)) = s_db s" using assms(1) by (simp add: leaves_db_def)
  then show "s_db s' = s_db s \<and> is_operation_error e"
    using run assms(2,3) by (cases "m s"; cases "fst (m s)") (auto simp: silent_def tx_bind_def)
qed

lemma silent_steps [silent_intros]:
  "silent (tx_ret a)"
  "is_operation_error e \<Longrightarrow> silent (tx_guard b e)"
  "is_operation_error e \<Longrightarrow> silent (tx_found x e)"
  "(\<And>e. y = Inl e \<Longrightarrow> is_operation_error e) \<Longrightarrow> silent (tx_lift y)"
  "silent (tx_gets g)"
  by (auto simp: silent_def tx_defs ensure_def split: if_splits option.splits)

lemma leaves_db_steps [silent_intros]:
  "leaves_db (tx_ret a)" "leaves_db (tx_guard b e)" "leaves_db (tx_found x e)" "leaves_db (tx_lift y)"
  "leaves_db (tx_gets g)"
  by (auto simp: leaves_db_def tx_defs split: option.splits)

lemma leaves_db_bind [silent_intros]:
  assumes "leaves_db m" "\<And>a. leaves_db (f a)" shows "leaves_db (tx_bind m f)"
  unfolding leaves_db_def
proof
  fix s
  have "s_db (snd (m s)) = s_db s" using assms(1) by (simp add: leaves_db_def)
  then show "s_db (snd (tx_bind m f s)) = s_db s"
    using assms(2) by (cases "m s"; cases "fst (m s)") (auto simp: leaves_db_def tx_bind_def)
qed

lemma checks_are_operation_errors:
  "validate_lease_duration d = Inl e \<Longrightarrow> is_operation_error e"
  "parse_utc t = Inl e \<Longrightarrow> is_operation_error e"
  "validate_recovery_limit n = Inl e \<Longrightarrow> is_operation_error e"
  by (auto simp: validate_lease_duration_def parse_utc_def validate_recovery_limit_def ensure_def is_operation_error_def
      ebind_def split: option.splits if_splits sum.splits)

lemma recovery_codes [simp]: "is_operation_error (RecoveryError c)" "is_operation_error (QueueError q)"
  by (simp_all add: is_operation_error_def)

section \<open>The repository\<close>

datatype recovery_op = OpClaimNext lease_claim_input | OpClaimJob lease_claim_input string | OpHeartbeat lease_ref
  | OpRenew lease_ref jsnum | OpReleaseLease lease_ref string | OpCheckpoint checkpoint_input | OpArtifact artifact_input
  | OpOutputs lease_ref "output_input list" | OpInspect inspect_input | OpRecover recover_input
  | OpRequestPause string string string | OpAcknowledge lease_ref string | OpResume string string string string
  | OpSetRunState string string crawl_run_state string | OpBeginSession string string jsnum string
  | OpEndSession string string string

definition forget :: "'a tx \<Rightarrow> unit tx" where "forget m = tx_bind m (\<lambda>_. tx_ret ())"

primrec run_recovery_op :: "env \<Rightarrow> recovery_op \<Rightarrow> unit tx" where
  "run_recovery_op E (OpClaimNext c) = forget (claim_next_with_lease E c)"
| "run_recovery_op E (OpClaimJob c j) = forget (claim_job_with_lease E c j)"
| "run_recovery_op E (OpHeartbeat c) = forget (heartbeat_lease E c)"
| "run_recovery_op E (OpRenew c ext) = forget (renew_lease E c ext)"
| "run_recovery_op E (OpReleaseLease c reason) = forget (release_lease E c reason)"
| "run_recovery_op E (OpCheckpoint c) = forget (save_job_checkpoint E c)"
| "run_recovery_op E (OpArtifact c) = forget (save_artifact_checkpoint E c)"
| "run_recovery_op E (OpOutputs c outputs) = forget (save_completed_outputs E c outputs)"
| "run_recovery_op E (OpInspect c) = forget (inspect_recovery E c)"
| "run_recovery_op E (OpRecover c) = forget (recover E c)"
| "run_recovery_op E (OpRequestPause p r operation) = forget (request_pause E p r operation)"
| "run_recovery_op E (OpAcknowledge c correlation) = forget (acknowledge_pause E c correlation)"
| "run_recovery_op E (OpResume p r operation correlation) = forget (resume_run E p r operation correlation)"
| "run_recovery_op E (OpSetRunState p r state operation) = forget (set_run_state E p r state operation)"
| "run_recovery_op E (OpBeginSession p r pid host) = forget (begin_execution_session E p r pid host)"
| "run_recovery_op E (OpEndSession p r i) = end_execution_session E p r i"

lemma silent_forget [silent_intros]: "silent m \<Longrightarrow> silent (forget m)"
  by (auto simp: silent_def forget_def tx_bind_def tx_ret_def split: prod.splits sum.splits)

lemma post_forget: "tx_post m (\<lambda>_. P) d \<Longrightarrow> tx_post (forget m) (\<lambda>_. P) d"
  unfolding forget_def by (intro post_bind) (auto elim!: tx_post_mono intro: post_ret)

lemma silent_inspect: "silent (inspect_recovery E c)"
  unfolding inspect_recovery_def owned_def Let_def by (intro silent_intros) (auto intro: silent_intros checks_are_operation_errors)

lemma silent_recover: "silent (recover E c)"
  unfolding recover_def Let_def by (intro silent_intros) (auto intro: silent_intros checks_are_operation_errors)

lemma silent_claims: "silent (claim_next_with_lease E c)" "silent (claim_job_with_lease E c j)" "silent (renew_lease E r x)"
  unfolding claim_next_with_lease_def claim_job_with_lease_def renew_lease_def Let_def
  by (intro silent_intros; erule checks_are_operation_errors)+

lemma silent_recovery_op: "silent (run_recovery_op E op)"
  by (cases op)
     (simp_all add: silent_forget silent_inspect silent_recover silent_claims heartbeat_lease_def release_lease_def
       save_job_checkpoint_def save_artifact_checkpoint_def save_completed_outputs_def request_pause_def
       acknowledge_pause_def resume_run_def set_run_state_def begin_execution_session_def end_execution_session_def
       silent_transaction Let_def)

lemma sound_recovery_op:
  assumes "schema_ok d" shows "tx_post (run_recovery_op E op) (\<lambda>_. sound d) d"
  by (cases op)
     (simp_all add: post_forget assms sound_claim_next_with_lease sound_claim_job_with_lease sound_heartbeat sound_renew
       sound_release sound_save_checkpoint sound_save_artifact sound_save_outputs sound_inspect sound_recover
       sound_request_pause sound_acknowledge_pause sound_resume_run sound_set_run_state sound_begin_session sound_end_session)

lemma recovery_op_sound:
  assumes "schema_ok (s_db s)"
  shows "sound (s_db s) (s_db (snd (run_recovery_op E op s)))"
proof (cases "run_recovery_op E op s")
  case (Pair r s')
  then show ?thesis
    using silent_recovery_op[of E op] tx_postD[OF sound_recovery_op[OF assms]] sound_refl[OF assms]
    by (cases r) (auto simp: silent_def)
qed

text \<open>Any client of the two repositories, as the sequence of the operations it runs.\<close>

datatype repo_op = QueueOp queue_op | RecoveryOp recovery_op

primrec repo_step :: "env \<Rightarrow> repo_op \<Rightarrow> sess \<Rightarrow> sess" where
  "repo_step E (QueueOp op) s = snd (run_queue_op E op s)"
| "repo_step E (RecoveryOp op) s = snd (run_recovery_op E op s)"

definition run_repo_ops :: "env \<Rightarrow> repo_op list \<Rightarrow> sess \<Rightarrow> sess" where
  "run_repo_ops E ops s = fold (repo_step E) ops s"

lemma repo_step_sound: "schema_ok (s_db s) \<Longrightarrow> sound (s_db s) (s_db (repo_step E op s))"
  by (cases op) (simp_all add: queue_op_sound recovery_op_sound)

lemma repo_ops_sound: "schema_ok (s_db s) \<Longrightarrow> sound (s_db s) (s_db (run_repo_ops E ops s))"
  unfolding run_repo_ops_def
proof (induction ops arbitrary: s)
  case Nil
  then show ?case by (simp add: sound_refl)
next
  case (Cons op ops)
  note step = repo_step_sound[OF Cons.prems, of E op]
  then show ?case using Cons.IH[OF sound_schema[OF step]] by (auto intro: sound_trans)
qed

section \<open>Leases that have ended\<close>

lemma assert_lease_held:
  assumes "assert_lease E c s = (Inr l, s')" shows "lease_held E c l (s_db s) \<and> s_db s' = s_db s"
proof -
  have "tx_post (assert_lease E c) (\<lambda>l d'. lease_held E c l (s_db s) \<and> d' = s_db s) (s_db s)"
    by (rule post_assert_lease) simp
  then show ?thesis using assms by (auto dest: tx_postD)
qed

lemma ended_lease:
  assumes ok: "schema_ok d2" and ev: "db_evolves d1 d2" and l: "l \<in> set (db_leases d1)" "jl_status l \<noteq> LeaseActive"
    and held: "lease_held E c k d2" and token: "lr_tokenHash l = sha256 E (lf_leaseToken c)"
  shows False
proof -
  obtain l' where l': "l' \<in> set (db_leases d2)" "lease_evolves l l'" using evolved_lease[OF ev l(1)] .
  have k: "active_lease (lf_projectId c) (lf_runId c) (lf_jobId c) d2 = Some k" "lr_tokenHash k = lr_tokenHash l"
    using held token by (auto simp: lease_held_def)
  have tab: "table_ok lease_check lease_clash (db_leases d2)" using ok by (simp add: schema_ok_def)
  have "k = l'"
  proof (rule ccontr)
    assume "k \<noteq> l'"
    then have "\<not> lease_clash k l' \<or> \<not> lease_clash l' k"
      using sorted_wrt_unrelated[of lease_clash "db_leases d2"] tab active_lease_SomeD(1)[OF k(1)] l'(1)
      by (auto simp: table_ok_def)
    then show False using k(2) l'(2) by (auto simp: lease_clash_def lease_evolves_def)
  qed
  then show False using l'(2) l(2) active_lease_SomeD(3)[OF k(1)] by (auto simp: lease_evolves_def)
qed

text \<open>A token of an ended Lease is refused by every operation that asks for one, at any later time.\<close>

lemma ended_lease_refused:
  assumes "schema_ok (s_db s)" "db_evolves d1 (s_db s)" "l \<in> set (db_leases d1)" "jl_status l \<noteq> LeaseActive"
    "lr_tokenHash l = sha256 E (lf_leaseToken c)"
  shows "\<exists>e s'. assert_lease E c s = (Inl e, s')"
proof (cases "assert_lease E c s")
  case (Pair r s')
  show ?thesis
  proof (cases r)
    case (Inr k)
    then show ?thesis using Pair assert_lease_held ended_lease[OF assms(1-4) _ assms(5)] by blast
  qed (use Pair in simp)
qed


section \<open>What a claim under a Lease takes\<close>

definition leased_from :: "env \<Rightarrow> lease_claim_input \<Rightarrow> job_row \<Rightarrow> string \<Rightarrow> db \<Rightarrow> lease_claim \<Rightarrow> db \<Rightarrow> bool" where
  "leased_from E c row t d claim d' =
     (let token = lc_leaseToken claim; lease = lc_lease claim; g = pj_fencingGeneration row + 1 in
      pj_attemptCount row < pj_maxAttempts row \<and>
      lc_job claim = row_to_job (leased_row token (wi_ownerId c) t (pj_attemptCount row + 1) g row) \<and>
      jl_status lease = LeaseActive \<and> jl_jobId lease = pj_jobId row \<and> jl_ownerId lease = wi_ownerId c \<and>
      jl_fencingGeneration lease = g \<and> jl_acquiredAt lease = t \<and>
      calculate_lease_expiry t (wi_leaseDurationMs c) = Inr (jl_expiresAt lease) \<and>
      (\<exists>l. active_lease (oc_projectId c) (oc_runId c) (pj_jobId row) d' = Some l \<and> row_to_lease l = lease \<and>
         lr_tokenHash l = sha256 E token) \<and>
      (\<forall>l \<in> set (db_leases d). lr_tokenHash l \<noteq> sha256 E token \<and>
         (jl_jobId l = pj_jobId row \<longrightarrow> jl_status l \<noteq> LeaseActive)))"

lemma row_to_lease_fields [simp]:
  "jl_leaseId (row_to_lease l) = jl_leaseId l" "jl_jobId (row_to_lease l) = jl_jobId l"
  "jl_status (row_to_lease l) = jl_status l" "jl_ownerId (row_to_lease l) = jl_ownerId l"
  "jl_fencingGeneration (row_to_lease l) = jl_fencingGeneration l" "jl_acquiredAt (row_to_lease l) = jl_acquiredAt l"
  "jl_expiresAt (row_to_lease l) = jl_expiresAt l" "jl_heartbeatAt (row_to_lease l) = jl_heartbeatAt l"
  by (simp_all add: row_to_lease_def job_lease.defs)

lemma inserted_lease:
  assumes "insert_lease l d = Some d'" "jl_status l = LeaseActive" and same: "db_leases d'' = db_leases d'"
    and found: "active_lease p r (jl_jobId l) d'' = Some k"
  shows "k = l \<and> db_leases d' = db_leases d @ [l] \<and>
    (\<forall>x \<in> set (db_leases d). lr_tokenHash x \<noteq> lr_tokenHash l \<and> (jl_jobId x = jl_jobId l \<longrightarrow> jl_status x \<noteq> LeaseActive))"
proof -
  have ins: "db_leases d' = db_leases d @ [l]" "\<forall>x \<in> set (db_leases d). \<not> lease_clash x l"
    using assms(1) by (auto simp: insert_lease_def sql_insert_def list_all_iff split: if_splits)
  then have old: "\<forall>x \<in> set (db_leases d). lr_tokenHash x \<noteq> lr_tokenHash l \<and> (jl_jobId x = jl_jobId l \<longrightarrow> jl_status x \<noteq> LeaseActive)"
    using assms(2) by (auto simp: lease_clash_def)
  moreover have "k \<in> set (db_leases d')" "jl_jobId k = jl_jobId l" "jl_status k = LeaseActive"
    using active_lease_SomeD[OF found] same by simp_all
  ultimately show ?thesis using ins(1) by auto
qed

lemma lease_statement_jobs: "insert_lease l d = Some d' \<Longrightarrow> db_jobs d' = db_jobs d"
  by (auto simp: insert_lease_def)

lemma lease_job_spec:
  assumes ok: "schema_ok d" and row: "row \<in> set (db_jobs d)" "pj_state row = JobPending" "jr_recoveryState row = None"
  shows "tx_post (lease_job E c type reason render h t (row_to_job row)) (\<lambda>claim d'. leased_from E c row t d claim d') d"
  unfolding lease_job_def Let_def
proof (intro post_intros, simp_all only: row_to_job_fields, goal_cases)
  case (1 token lid expires d1 i d2 d3 i' d4 i'' d5 l x)
  have x: "x = leased_row token (wi_ownerId c) t (pj_attemptCount row + 1) (pj_fencingGeneration row + 1) row"
    by (rule updated_row[OF ok 1(3) row(1) _ _ 1(10)])
       (use row statement_jobs(1)[OF 1(5)] lease_statement_jobs[OF 1(6)] statement_jobs(3)[OF 1(7)] statement_jobs(4)[OF 1(8)]
        in \<open>auto simp: leased_row_def\<close>)
  have same: "db_leases d2 = db_leases d" "db_leases d5 = db_leases d3"
    using statement_leases(1)[OF 1(3)] statement_leases(5)[OF 1(5)] statement_leases(3)[OF 1(7)] statement_leases(4)[OF 1(8)]
    by simp_all
  then show ?case
    using x 1(1,2,9) inserted_lease[OF 1(6) _ same(2), of "oc_projectId c" "oc_runId c" l]
    by (simp add: leased_from_def Let_def row_to_lease_def job_lease.defs)
qed

text \<open>A first request: nothing is claimable, or the least claimable job is taken under a new Lease.\<close>

lemma claim_next_with_lease_spec:
  assumes ok: "schema_ok (s_db s)" and run: "claim_next_with_lease E c s = (Inr r, s')"
    and fresh: "claim_recorded c ''recovery.claimNextWithLease'' (s_db s) = None"
  shows "\<exists>t. case r of
     None \<Rightarrow> (\<forall>x \<in> set (db_jobs (s_db s)). \<not> leasable (oc_projectId c) (oc_runId c) t x) \<and> db_jobs (s_db s') = db_jobs (s_db s)
   | Some claim \<Rightarrow> (\<exists>row \<in> set (db_jobs (s_db s)). leasable (oc_projectId c) (oc_runId c) t row \<and>
       (\<forall>x \<in> set (db_jobs (s_db s)). leasable (oc_projectId c) (oc_runId c) t x \<longrightarrow> row_order_key row \<le> row_order_key x) \<and>
       leased_from E c row t (s_db s) claim (s_db s'))"
proof -
  let ?d = "s_db s" and ?ok = "leasable (oc_projectId c) (oc_runId c)"
  let ?Q = "\<lambda>r d'. \<exists>t. case r of
     None \<Rightarrow> (\<forall>x \<in> set (db_jobs ?d). \<not> ?ok t x) \<and> db_jobs d' = db_jobs ?d
   | Some claim \<Rightarrow> (\<exists>row \<in> set (db_jobs ?d). ?ok t row \<and>
       (\<forall>x \<in> set (db_jobs ?d). ?ok t x \<longrightarrow> row_order_key row \<le> row_order_key x) \<and> leased_from E c row t ?d claim d')"
  have "tx_post (claim_next_with_lease E c) ?Q ?d"
    unfolding claim_next_with_lease_def Let_def fresh
  proof (intro post_intros, goal_cases)
    case (1 a x t i d')
    then show ?case by (auto simp: select_first_None_iff statement_jobs(4) intro!: exI[of _ t])
  next
    case (2 a x t row)
    then have sel: "row \<in> set (db_jobs ?d)" "?ok t row" "\<forall>x \<in> set (db_jobs ?d). ?ok t x \<longrightarrow> row_order_key row \<le> row_order_key x"
      by (auto dest: select_first_SomeD)
    have "pj_state row = JobPending" "jr_recoveryState row = None" using sel(2) by (auto simp: leasable_def claimable_def)
    then show ?case
      using sel by (intro tx_post_mono[OF lease_job_spec[OF ok]] post_ret) (auto intro!: bexI[of _ row] exI[of _ t])
  next
    case (3 a x o')
    then show ?case using fresh by simp
  qed
  then show ?thesis using run by (rule tx_postD)
qed

text \<open>A renewal counts the extension from its own time.\<close>

lemma updated_lease:
  assumes ok: "schema_ok d" and l: "l \<in> set (db_leases d)" "jl_status l = LeaseActive"
    and upd: "update_leases (live_lease (jl_leaseId l)) f d = Some d'" and x: "x \<in> set (db_leases d')" "jl_leaseId x = jl_leaseId l"
    and keep: "\<And>x. jl_leaseId (f x) = jl_leaseId x"
  shows "x = f l"
proof -
  have tab: "table_ok lease_check lease_clash (db_leases d)" using ok by (simp add: schema_ok_def)
  have "x \<in> set (update_where (live_lease (jl_leaseId l)) f (db_leases d))"
    using upd x(1) by (auto simp: update_leases_def sql_update_def Let_def split: if_splits)
  then obtain y where y: "y \<in> set (db_leases d)" "x = (if live_lease (jl_leaseId l) y then f y else y)" "jl_leaseId y = jl_leaseId l"
    using x(2) by (auto elim!: in_update_whereE simp: keep split: if_splits)
  then have "y = l" using leases_table.lookup_unique[OF tab y(1) l(1)] by simp
  then show ?thesis using y l(2) by (simp add: live_lease_def)
qed

lemma renew_lease_spec:
  assumes ok: "schema_ok (s_db s)" and run: "renew_lease E c extension s = (Inr l', s')"
  shows "\<exists>l t. lease_held E c l (s_db s) \<and> jl_leaseId l' = jl_leaseId l \<and> jl_heartbeatAt l' = t \<and>
    is_lease_expired LeaseActive (jl_expiresAt l) t = Inr False \<and> calculate_lease_expiry t extension = Inr (jl_expiresAt l')"
proof -
  have "tx_post (renew_lease E c extension) (\<lambda>l' d'. \<exists>l t. lease_held E c l (s_db s) \<and> jl_leaseId l' = jl_leaseId l \<and>
      jl_heartbeatAt l' = t \<and> is_lease_expired LeaseActive (jl_expiresAt l) t = Inr False \<and>
      calculate_lease_expiry t extension = Inr (jl_expiresAt l')) (s_db s)"
    unfolding renew_lease_def
  proof (intro post_intros, goal_cases)
    case (1 a l t expires d' x)
    then have act: "jl_status l = LeaseActive" by (auto simp: lease_held_def dest: active_lease_SomeD)
    have l: "l \<in> set (db_leases (s_db s))" using 1(2) by (auto simp: lease_held_def dest: active_lease_SomeD)
    have "x = l\<lparr>jl_heartbeatAt := t, jl_expiresAt := expires, lr_lastOperationId := lf_operationId c\<rparr>"
      by (rule updated_lease[OF ok l act 1(4-6)]) simp
    then show ?case using 1(2) act next_lease_expiry_ok[OF 1(3)] by (auto intro!: exI[of _ l])
  qed
  then show ?thesis using run by (rule tx_postD)
qed

end
