(* ===== verification/Recovery_Done.thy ===== *)
theory Recovery_Done
  imports Recovery_Ops
begin

text \<open>
  What a recovery leaves behind: once it reports that nothing is left, no job of the run is still
  marked as processing under a Lease that was missing or over at the evaluation time. And what the
  verification of a completed output reports.
\<close>

section \<open>Abandoned work\<close>

definition abandoned :: "string \<Rightarrow> string \<Rightarrow> string \<Rightarrow> db \<Rightarrow> job_row \<Rightarrow> bool" where
  "abandoned p r evaluation d x = (pj_projectId x = p \<and> pj_runId x = r \<and> job_state x = JobProcessing \<and>
     (case lease_of (pj_jobId x) d of None \<Rightarrow> True | Some l \<Rightarrow> jl_expiresAt l \<le> evaluation))"

lemma post_each_set:
  assumes "\<And>x D d. x \<in> set xs \<Longrightarrow> I D d \<Longrightarrow> tx_post (f x) (\<lambda>_ d'. I (insert x D) d') d" "I D d"
  shows "tx_post (tx_each f xs) (\<lambda>_ d'. I (set xs \<union> D) d') d"
  using assms
proof (induction xs arbitrary: d D)
  case Nil
  then show ?case by (simp add: tx_post_def tx_ret_def)
next
  case (Cons x xs)
  have rest: "tx_post (tx_bind (tx_each f xs) (\<lambda>ys. tx_ret (y # ys))) (\<lambda>_ d''. I (set (x # xs) \<union> D) d'') d'"
    if "I (insert x D) d'" for d' y
    by (rule post_bind, rule tx_post_mono[OF Cons.IH[of "insert x D" d']]) (use Cons.prems(1) that in \<open>auto intro: post_ret\<close>)
  have "tx_post (f x) (\<lambda>_ d'. I (insert x D) d') d" using Cons.prems by simp
  then show ?case
    unfolding tx_each.simps by (intro post_bind) (elim tx_post_mono rest)
qed

lemma other_lease_kept:
  assumes upd: "update_leases (live_lease i) f d = Some d'" and l: "l \<in> set (db_leases d)" "jl_leaseId l = i" "schema_ok d"
    and keep: "\<And>x. jl_jobId (f x) = jl_jobId x" and j: "j \<noteq> jl_jobId l"
  shows "lease_of j d' = lease_of j d"
proof -
  have tab: "table_ok lease_check lease_clash (db_leases d)" using l(3) by (simp add: schema_ok_def)
  have "List.find q (update_where (live_lease i) f xs) = List.find q xs"
    if "set xs \<subseteq> set (db_leases d)" "q = (\<lambda>l. jl_jobId l = j \<and> jl_status l = LeaseActive)" for q xs
    using that
  proof (induction xs)
    case (Cons x xs)
    have "live_lease i x \<Longrightarrow> x = l"
      using leases_table.lookup_unique[OF tab _ l(1), of x] l(2) Cons.prems(1) by (simp add: live_lease_def)
    then show ?case using Cons j keep by (auto simp: update_where_def)
  qed (simp add: update_where_def)
  then show ?thesis using upd by (auto simp: lease_of_def update_leases_def sql_update_def Let_def split: if_splits)
qed

lemma lease_of_cong: "db_leases d' = db_leases d \<Longrightarrow> lease_of j d' = lease_of j d"
  by (simp add: lease_of_def)

text \<open>Touching the processing row of a job and leaving it in any other state takes it out of the abandoned work.\<close>

definition progress :: "string \<Rightarrow> string \<Rightarrow> string \<Rightarrow> string \<Rightarrow> db \<Rightarrow> db \<Rightarrow> bool" where
  "progress p r evaluation j d d' = (\<forall>x \<in> set (db_jobs d'). abandoned p r evaluation d' x \<longrightarrow>
     x \<in> set (db_jobs d) \<and> abandoned p r evaluation d x \<and> pj_jobId x \<noteq> j)"

lemma progressI:
  assumes "update_jobs (\<lambda>x. pj_jobId x = j \<and> pj_state x = JobProcessing) f d = Some d'"
    and "\<And>x. job_state (f x) \<noteq> JobProcessing"
    and "\<And>x. x \<in> set (db_jobs d) \<Longrightarrow> job_check x"
    and "\<And>k. k \<noteq> j \<Longrightarrow> lease_of k d' = lease_of k d0" "set (db_jobs d) \<subseteq> set (db_jobs d0)"
  shows "progress p r evaluation j d0 d'"
proof -
  have "x \<in> set (db_jobs d) \<and> pj_jobId x \<noteq> j" if "x \<in> set (db_jobs d')" "job_state x = JobProcessing" for x
  proof -
    have "x \<in> set (update_where (\<lambda>x. pj_jobId x = j \<and> pj_state x = JobProcessing) f (db_jobs d))"
      using that(1) assms(1) by (auto simp: update_jobs_def sql_update_def Let_def split: if_splits)
    then have "x \<in> set (db_jobs d)" "\<not> (pj_jobId x = j \<and> pj_state x = JobProcessing)"
      by (rule untouched_row[where q = "\<lambda>x. job_state x = JobProcessing"]; use that(2) assms(2) in simp)+
    then show ?thesis using that(2) job_state_processing assms(3) by blast
  qed
  then show ?thesis using assms(4,5) by (auto simp: progress_def abandoned_def)
qed

lemma progress_cong:
  "progress p r ev j d0 d1 \<Longrightarrow> db_jobs d2 = db_jobs d1 \<Longrightarrow> db_leases d2 = db_leases d1 \<Longrightarrow> progress p r ev j d0 d2"
  by (simp add: progress_def abandoned_def lease_of_def)

lemma log_statements:
  "insert_transition tr d = Some d' \<Longrightarrow> db_jobs d' = db_jobs d" "insert_transition tr d = Some d' \<Longrightarrow> db_leases d' = db_leases d"
  "insert_event ev d = Some d' \<Longrightarrow> db_jobs d' = db_jobs d" "insert_event ev d = Some d' \<Longrightarrow> db_leases d' = db_leases d"
  by (auto simp: insert_transition_def insert_event_def)

lemma recovery_transition_keeps:
  assumes "\<And>d'. db_jobs d' = db_jobs d \<Longrightarrow> db_leases d' = db_leases d \<Longrightarrow> schema_ok d' \<Longrightarrow> Q () d'" "schema_ok d"
  shows "tx_post (recovery_transition E c job from to reason t g) Q d"
  unfolding recovery_transition_def
  by (intro post_intros assms(1))
     (auto intro: assms(2) elim!: insert_event_schema insert_transition_schema simp: log_statements)

lemma progress_trans: "progress p r ev j d0 d1 \<Longrightarrow> progress p r ev j d1 d2 \<Longrightarrow> progress p r ev j d0 d2"
  by (auto simp: progress_def)

text \<open>The updates of one recovered job, from the release of its Lease on.\<close>

lemma overlay_progress:
  assumes lease: "d1 = d \<and> lease = None \<or> (\<exists>l f. lease = Some l \<and> update_leases (live_lease (jl_leaseId l)) f d = Some d1 \<and>
      (\<forall>x. jl_jobId (f x) = jl_jobId x) \<and> active_lease p0 r0 j d = Some l)"
    and att: "update_attempts q g d1 = Some d2"
    and upd: "update_jobs (\<lambda>x. pj_jobId x = j \<and> pj_state x = JobProcessing) (\<lambda>x. x\<lparr>jr_recoveryState := Some s, pj_updatedAt := t\<rparr>) d2 = Some d3"
    and ok: "schema_ok d" "s \<noteq> JobProcessing"
  shows "schema_ok d3" "progress p r ev j d d3"
proof -
  have ok1: "schema_ok d1" using lease ok(1) by (auto elim: update_leases_schema)
  then have ok2: "schema_ok d2" by (rule update_attempts_schema[OF att])
  then show "schema_ok d3" by (rule update_jobs_schema[OF upd]) simp
  have jobs: "db_jobs d2 = db_jobs d" using att lease by (auto simp: update_attempts_def update_leases_def)
  have leases: "db_leases d3 = db_leases d1" using att upd by (auto simp: update_attempts_def update_jobs_def)
  have "lease_of k d3 = lease_of k d" if "k \<noteq> j" for k
    using lease
  proof
    assume "\<exists>l f. lease = Some l \<and> update_leases (live_lease (jl_leaseId l)) f d = Some d1 \<and>
      (\<forall>x. jl_jobId (f x) = jl_jobId x) \<and> active_lease p0 r0 j d = Some l"
    then obtain l f where l: "update_leases (live_lease (jl_leaseId l)) f d = Some d1" "\<And>x. jl_jobId (f x) = jl_jobId x"
      "active_lease p0 r0 j d = Some l" by blast
    then show ?thesis
      using other_lease_kept[OF l(1) active_lease_SomeD(1)[OF l(3)] refl ok(1) l(2)] active_lease_SomeD(2)[OF l(3)] that
        lease_of_cong[OF leases] by simp
  qed (use lease_of_cong[OF leases] in simp)
  then show "progress p r ev j d d3"
    by (intro progressI[OF upd]) (use ok(2) job_row_checked[OF ok2] jobs in \<open>auto simp: job_state_def\<close>)
qed

lemma recover_one_progress:
  assumes ok: "schema_ok d"
  shows "tx_post (recover_one E c t i pausing (x, le))
     (\<lambda>_ d'. schema_ok d' \<and> (if job_state x = JobCompleted then d' = d else progress p r ev (pj_jobId x) d d')) d"
proof -
  have after: "progress p r ev (pj_jobId x) d d2" 
    if "update_jobs (\<lambda>y. pj_jobId y = pj_jobId x \<and> pj_state y = JobProcessing) f d1 = Some d2"
      "f = requeued_row t \<or> f = exhausted_row t" "progress p r ev (pj_jobId x) d d1" "schema_ok d1" for d1 d2 f
    by (rule progress_trans[OF that(3) progressI[OF that(1)]])
       (use that job_row_checked[OF that(4)] in \<open>auto simp: requeued_row_def exhausted_row_def job_state_def update_jobs_def lease_of_def\<close>)
  have keep: "pj_queueSequence (requeued_row t y) = pj_queueSequence y" "pj_queueSequence (exhausted_row t y) = pj_queueSequence y" for y
    by (simp_all add: requeued_row_def exhausted_row_def)
  let ?f = "\<lambda>x. x\<lparr>jl_status := LeaseRecovered, jl_releasedAt := Some t, jl_releaseReason := Some ''LEASE_EXPIRED_RECOVERY'',
     lr_lastOperationId := oc_operationId c\<rparr>"
  define freed where "freed lease d1 = (d1 = d \<and> lease = None \<or> (\<exists>l f. lease = Some l \<and>
      update_leases (live_lease (jl_leaseId l)) f d = Some d1 \<and> (\<forall>x. jl_jobId (f x) = jl_jobId x) \<and>
      active_lease (oc_projectId c) (oc_runId c) (pj_jobId x) d = Some l))" for lease d1
  have release: "tx_post (case lease of None \<Rightarrow> tx_ret () | Some l \<Rightarrow> tx_sql (update_leases (live_lease (jl_leaseId l)) ?f)) Q d"
    if "active_lease (oc_projectId c) (oc_runId c) (pj_jobId x) d = lease" "\<And>d1. freed lease d1 \<Longrightarrow> Q () d1" for lease Q
    by (intro post_intros) (use that(1) in \<open>auto simp: freed_def intro!: that(2) exI[of _ ?f]\<close>)
  have step: "schema_ok d3 \<and> progress p r ev (pj_jobId x) d d3"
    if "freed lease d1" "update_attempts q g d1 = Some d2"
      "update_jobs (\<lambda>y. pj_jobId y = pj_jobId x \<and> pj_state y = JobProcessing)
         (\<lambda>x. x\<lparr>jr_recoveryState := Some (if pausing then JobPaused else JobInterrupted), pj_updatedAt := t\<rparr>) d2 = Some d3"
    for lease q g d1 d2 d3
    using overlay_progress[OF that[unfolded freed_def] ok] by simp
  have last: "schema_ok d5 \<and> progress p r ev (pj_jobId x) d d5"
    if "freed lease d1" "update_attempts q g d1 = Some d2"
      "update_jobs (\<lambda>y. pj_jobId y = pj_jobId x \<and> pj_state y = JobProcessing)
         (\<lambda>x. x\<lparr>jr_recoveryState := Some (if pausing then JobPaused else JobInterrupted), pj_updatedAt := t\<rparr>) d2 = Some d3"
      "db_jobs d4 = db_jobs d3" "db_leases d4 = db_leases d3" "schema_ok d4"
      "update_jobs (\<lambda>y. pj_jobId y = pj_jobId x \<and> pj_state y = JobProcessing)
         (if again then requeued_row t else exhausted_row t) d4 = Some d5"
    for lease q g d1 d2 d3 d4 d5 again
    using after[OF that(7) _ progress_cong[OF conjunct2[OF step[OF that(1-3)]] that(4,5)] that(6)]
      update_jobs_schema[OF that(7,6)] keep by auto
  show ?thesis
    unfolding recover_one_def Let_def prod.case fst_conv row_to_job_fields
    apply (rule post_if)
     apply (rule post_ret, use ok in simp)
    apply (rule post_bind, rule post_gets, rule post_bind, rule release, rule refl)
    apply (intro post_intros recovery_transition_keeps)
       apply (subst if_not_P, assumption, blast intro: progress_cong dest: step)
      apply (subst if_not_P, assumption, blast intro: progress_cong dest: last)
     apply (blast dest: last)
    apply (blast dest: step)
    done
qed


lemma candidate_abandoned:
  assumes "job_check x" "abandoned p r ev d x" "cursor < pj_queueSequence x"
  shows "candidate p r ev cursor d x"
  using assms by (simp add: abandoned_def candidate_def job_state_processing)

lemma all_candidates:
  assumes "0 \<le> limit" "\<not> nat limit < length (candidate_rows p r ev cursor limit d)" "x \<in> set (db_jobs d)" "candidate p r ev cursor d x"
  shows "(x, lease_of (pj_jobId x) d) \<in> set (take (nat limit) (candidate_rows p r ev cursor limit d))"
proof -
  let ?sel = "select_order (candidate p r ev cursor d) pj_queueSequence (db_jobs d)"
  have "nat (limit + 1) = Suc (nat limit)" using assms(1) by simp
  then have "length ?sel \<le> nat limit" using assms(2) by (simp add: candidate_rows_def)
  then have "take (nat limit) (candidate_rows p r ev cursor limit d) = map (\<lambda>x. (x, lease_of (pj_jobId x) d)) ?sel"
    using assms(1) by (simp add: candidate_rows_def)
  then show ?thesis using assms(3,4) by simp
qed

lemma recovered_rows:
  assumes ok: "schema_ok d" and limit: "0 \<le> limit"
    and all: "\<not> nat limit < length (candidate_rows p r ev cursor limit d)"
  shows "tx_post (tx_each (recover_one E c t i b) (take (nat limit) (candidate_rows p r ev cursor limit d)))
    (\<lambda>_ d'. schema_ok d' \<and> (\<forall>x \<in> set (db_jobs d'). abandoned p r ev d' x \<longrightarrow> pj_queueSequence x \<le> cursor)) d"
proof -
  let ?rows = "take (nat limit) (candidate_rows p r ev cursor limit d)"
  define I where "I D d' = (schema_ok d' \<and> (\<forall>x \<in> set (db_jobs d'). abandoned p r ev d' x \<longrightarrow> x \<in> set (db_jobs d) \<and>
      abandoned p r ev d x \<and> (\<forall>row \<in> D. job_state (fst row) \<noteq> JobCompleted \<longrightarrow> pj_jobId x \<noteq> pj_jobId (fst row))))"
    for D :: "(job_row \<times> lease_row option) set" and d' :: db
  have "tx_post (tx_each (recover_one E c t i b) ?rows) (\<lambda>_ d'. I (set ?rows \<union> {}) d') d"
  proof (rule post_each_set)
    fix row :: "job_row \<times> lease_row option" and D d1 assume I: "I D d1"
    obtain x le where row: "row = (x, le)" by (cases row) auto
    have "schema_ok d1" using I by (simp add: I_def)
    show "tx_post (recover_one E c t i b row) (\<lambda>_ d'. I (insert row D) d') d1"
      unfolding row
      by (rule tx_post_mono[OF recover_one_progress[OF \<open>schema_ok d1\<close>, where ev = ev and p = p and r = r]])
         (use I in \<open>auto simp: I_def progress_def split: if_splits\<close>)
  qed (use ok in \<open>simp add: I_def\<close>)
  then show ?thesis
  proof (rule tx_post_mono)
    fix d' assume I: "I (set ?rows \<union> {}) d'"
    have "pj_queueSequence x \<le> cursor" if x: "x \<in> set (db_jobs d')" "abandoned p r ev d' x" for x
    proof (rule ccontr)
      assume "\<not> pj_queueSequence x \<le> cursor"
      have start: "x \<in> set (db_jobs d)" "abandoned p r ev d x" using I x by (auto simp: I_def)
      then have "(x, lease_of (pj_jobId x) d) \<in> set ?rows"
        using all_candidates[OF limit all start(1)] candidate_abandoned[OF job_row_checked[OF ok start(1)] start(2)]
          \<open>\<not> pj_queueSequence x \<le> cursor\<close> by simp
      then have "job_state x \<noteq> JobCompleted \<longrightarrow> pj_jobId x \<noteq> pj_jobId x" using I x by (force simp: I_def)
      then show False using start(2) by (simp add: abandoned_def)
    qed
    then show "schema_ok d' \<and> (\<forall>x \<in> set (db_jobs d'). abandoned p r ev d' x \<longrightarrow> pj_queueSequence x \<le> cursor)"
      using I by (simp add: I_def)
  qed
qed

text \<open>The bookkeeping around the loop leaves jobs and Leases alone.\<close>

definition same_work :: "db \<Rightarrow> db \<Rightarrow> bool" where
  "same_work d d' = (db_jobs d' = db_jobs d \<and> db_leases d' = db_leases d)"

lemma same_work_statements:
  "update_controls p f d = Some d' \<Longrightarrow> same_work d d'" "update_recoveries pr fr d = Some d' \<Longrightarrow> same_work d d'"
  "insert_run_checkpoint rc d = Some d' \<Longrightarrow> same_work d d'" "insert_recovery rr d = Some d' \<Longrightarrow> same_work d d'"
  by (auto simp: same_work_def update_controls_def update_recoveries_def insert_run_checkpoint_def insert_recovery_def)

lemma abandoned_cong: "same_work d d' \<Longrightarrow> abandoned p r ev d' = abandoned p r ev d"
  by (simp add: same_work_def abandoned_def lease_of_def fun_eq_iff)

lemma post_save_run_checkpoint_same:
  "(\<And>d'. same_work d d' \<Longrightarrow> db_recoveries d' = db_recoveries d \<Longrightarrow> Q () d') \<Longrightarrow> tx_post (save_run_checkpoint E p r operation t) Q d"
  unfolding save_run_checkpoint_def
  by (intro post_intros) (auto simp: insert_run_checkpoint_def same_work_def)

lemma updated_recovery:
  "update_recoveries (\<lambda>x. rr_recoveryOperationId x = i) f d = Some d' \<Longrightarrow> x \<in> set (db_recoveries d') \<Longrightarrow>
     rr_recoveryOperationId x = i \<Longrightarrow> \<exists>y. x = f y"
  by (auto simp: update_recoveries_def sql_update_def Let_def set_update_where split: if_splits)

lemma recover_batch_done:
  assumes ok: "schema_ok d" and limit: "0 \<le> limit"
  shows "tx_post (recover_batch E c limit t i None) (\<lambda>report d'. \<not> rr_hasMore report \<longrightarrow>
    (\<forall>x \<in> set (db_jobs d'). abandoned (oc_projectId c) (oc_runId c) (vi_evaluationTime c) d' x \<longrightarrow> pj_queueSequence x \<le> 0)) d"
proof -
  let ?p = "oc_projectId c" and ?r = "oc_runId c" and ?ev = "vi_evaluationTime c"
  let ?rows = "\<lambda>d. candidate_rows ?p ?r ?ev 0 limit d"
  let ?done = "\<lambda>d'. \<forall>x \<in> set (db_jobs d'). abandoned ?p ?r ?ev d' x \<longrightarrow> pj_queueSequence x \<le> 0"
  have loop: "tx_post (tx_each (recover_one E c t i b) (take (nat limit) (?rows d1)))
      (\<lambda>_ d'. \<not> nat limit < length (?rows d1) \<longrightarrow> ?done d') d1" if "schema_ok d1" for d1 b
  proof (cases "nat limit < length (?rows d1)")
    case True
    then show ?thesis by (simp add: tx_post_def)
  next
    case False
    show ?thesis by (rule tx_post_mono[OF recovered_rows[OF that limit False]]) blast
  qed
  have same: "?done d2" if "?done d1" "same_work d1 d2" for d1 d2
    using that abandoned_cong[OF that(2)] by (simp add: same_work_def)
  show ?thesis
    unfolding recover_batch_def Let_def option.case
    apply (intro post_intros)
    apply (rule tx_post_mono[OF loop])
     apply (erule update_controls_schema, rule ok)
    apply (intro post_intros post_save_run_checkpoint_same)
  proof (goal_cases)
    case (1 x d1 tallies d2 d3 d4 d5 row)
    have "row \<in> set (db_recoveries d4)" using 1 by simp
    then have "rr_hasMore row \<longleftrightarrow> nat limit < length (?rows d1)" using updated_recovery[OF 1(8) _ 1(12)] by auto
    moreover have "same_work d2 d5"
      using same_work_statements(1)[OF 1(7)] same_work_statements(2)[OF 1(8)] 1(9) by (simp add: same_work_def)
    moreover have "rr_hasMore (row_to_report row) = rr_hasMore row" by (simp add: row_to_report_def recovery_report.defs)
    ultimately show ?case using 1(6) same[of d2 d5] by blast
  qed
qed

text \<open>The first call of a recovery: a report with nothing left means that no abandoned job is left.\<close>

lemma recover_done:
  assumes ok: "schema_ok (s_db s)" and run: "recover E c s = (Inr report, s')"
    and first: "find_recovery c (s_db s) = None" and left: "\<not> rr_hasMore report"
    and x: "x \<in> set (db_jobs (s_db s'))" "abandoned (oc_projectId c) (oc_runId c) (vi_evaluationTime c) (s_db s') x"
  shows "pj_queueSequence x \<le> 0"
proof -
  let ?Q = "\<lambda>report d'. \<not> rr_hasMore report \<longrightarrow>
    (\<forall>x \<in> set (db_jobs d'). abandoned (oc_projectId c) (oc_runId c) (vi_evaluationTime c) d' x \<longrightarrow> pj_queueSequence x \<le> 0)"
  have "tx_post (recover E c) ?Q (s_db s)"
    unfolding recover_def Let_def
  proof (intro post_intros, goal_cases)
    case (1 a n t i d')
    then have "0 \<le> n" by (auto simp: validate_recovery_limit_def bounded_int_Some_iff split: option.splits)
    then show ?case using recover_batch_done[OF insert_recovery_schema[OF _ ok]] 1 by blast
  qed (use first in auto)
  then show ?thesis using run left x by (auto dest: tx_postD)
qed


section \<open>Verification of completed outputs\<close>

lemma post_each_results:
  assumes "\<And>x d. x \<in> set xs \<Longrightarrow> tx_post (f x) (\<lambda>y _. R x y) d"
  shows "tx_post (tx_each f xs) (\<lambda>ys _. list_all2 R xs ys) d"
  using assms
proof (induction xs arbitrary: d)
  case Nil
  then show ?case by (simp add: tx_post_def tx_ret_def)
next
  case (Cons a as d1)
  have rest: "tx_post (tx_bind (tx_each f as) (\<lambda>ys. tx_ret (y # ys))) (\<lambda>ys _. list_all2 R (a # as) ys) d'" if "R a y" for y d'
    by (rule post_bind, rule tx_post_mono[OF Cons.IH]) (use Cons.prems that in \<open>auto intro: post_ret\<close>)
  have "tx_post (f a) (\<lambda>y _. R a y) d1" using Cons.prems by simp
  then show ?case unfolding tx_each.simps by (intro post_bind) (elim tx_post_mono rest)
qed

definition verified :: "(string \<Rightarrow> path_probe) \<Rightarrow> output_descriptor \<Rightarrow> output_descriptor \<Rightarrow> bool" where
  "verified fs o' v = (od_descriptorId v = od_descriptorId o' \<and> od_relativePath v = od_relativePath o' \<and>
     od_verifiedAt v \<noteq> None \<and> fs (od_relativePath o') \<noteq> OutsideRoot \<and>
     (od_verificationStatus v = VerValid \<longleftrightarrow>
        (\<exists>n. fs (od_relativePath o') = RegularFile n (od_sha256 o') \<and> od_byteLength o' = js_int n)))"

lemma verify_one_spec: "tx_post (verify_one E fs o') (\<lambda>v _. verified fs o' v) d"
  unfolding verify_one_def Let_def
  by (intro post_intros) (auto simp: verified_def probe_status_def split: path_probe.splits if_splits)

lemma verify_outputs_spec:
  assumes "verify_completed_output E fs p r j s = (Inr vs, s')"
  shows "list_all2 (verified fs) (select_order (\<lambda>x. od_jobId x = j) od_relativePath (db_outputs (s_db s))) vs"
proof -
  have "tx_post (verify_completed_output E fs p r j)
     (\<lambda>vs _. list_all2 (verified fs) (select_order (\<lambda>x. od_jobId x = j) od_relativePath (db_outputs (s_db s))) vs) (s_db s)"
    unfolding verify_completed_output_def
    by (intro post_intros) (rule post_each_results, rule verify_one_spec)
  then show ?thesis using assms by (rule tx_postD)
qed

text \<open>Each descriptor is written by a statement of its own: an error in the middle keeps the earlier ones.\<close>

definition keeps :: "(db \<Rightarrow> bool) \<Rightarrow> 'a tx \<Rightarrow> bool" where
  "keeps P m = (\<forall>s. P (s_db s) \<longrightarrow> P (s_db (snd (m s))))"

lemma keeps_bind: "keeps P m \<Longrightarrow> (\<And>a. keeps P (f a)) \<Longrightarrow> keeps P (tx_bind m f)"
  unfolding keeps_def tx_bind_def by (force split: prod.splits sum.splits)

lemma keeps_steps:
  "keeps P (tx_lift x)" "keeps P (tx_guard b e)" "keeps P (tx_gets g)" "keeps P (tx_found y e)" "keeps P (tx_now E)" "keeps P (tx_ret a)"
  by (auto simp: keeps_def tx_defs split: option.splits)

lemma keeps_each: "(\<And>x. keeps P (f x)) \<Longrightarrow> keeps P (tx_each f xs)"
  by (induction xs) (auto intro: keeps_bind keeps_steps)

lemma verify_outputs_sound: "keeps (sound d0) (verify_completed_output E fs p r j)"
proof -
  have one: "keeps (sound d0) (tx_sql (update_outputs q f))" for q f
    by (auto simp: keeps_def tx_sql_def split: option.splits elim: sound_statements)
  show ?thesis
    unfolding verify_completed_output_def verify_one_def owned_def get_job_def get_job_row_def Let_def
    by (intro keeps_bind keeps_steps keeps_each one)
qed

end
