(* ===== verification/Sample_Project.thy ===== *)
theory Sample_Project
  imports Recovery_Done
begin

text \<open>
  A small open Project on which the repository properties are exercised: one run, one profile
  revision, an environment whose clock stands still, and a few requests.
\<close>

text \<open>Printing an integer by division on integers, for evaluation.\<close>

function show_base_int :: "int \<Rightarrow> int \<Rightarrow> string" where
  "show_base_int b i = (if b < 2 \<or> i < b then [digit_char (nat i)]
     else show_base_int b (i div b) @ [digit_char (nat (i mod b))])"
  by auto

termination
  by (relation "measure (nat \<circ> snd)") (auto intro: int_div_less_self)

declare show_base_int.simps [simp del]

lemma show_base_int_eq: "0 \<le> i \<Longrightarrow> 2 \<le> b \<Longrightarrow> show_base_int b i = show_base (nat b) (nat i)"
proof (induction b i rule: show_base_int.induct)
  case (1 b i)
  show ?case
  proof (cases "i < b")
    case True
    then show ?thesis using 1 by (simp add: show_base.simps[of "nat b" "nat i"] show_base_int.simps[of b i])
  next
    case False
    then show ?thesis
      using 1 by (simp add: show_base.simps[of "nat b" "nat i"] show_base_int.simps[of b i] nat_div_distrib nat_mod_distrib pos_imp_zdiv_nonneg_iff)
  qed
qed

lemma show_int_code [code]:
  "show_int i = (if i < 0 then CHR ''-'' # show_base_int 10 (- i) else show_base_int 10 i)"
  by (simp add: show_int_def show_nat_def show_base_int_eq)

definition sample_hash :: "string \<Rightarrow> string" where
  "sample_hash s = take 64 (s @ replicate 64 (CHR ''0''))"

definition sample_env :: env where
  "sample_env = \<lparr>now_at = (\<lambda>_. ''2026-01-01T00:00:00.000Z''), uuid_at = (\<lambda>n. CHR ''u'' # show_nat n),
     sha256 = sample_hash, collation = (\<lambda>s. s)\<rparr>"

definition sample_db :: db where
  "sample_db = \<lparr>db_project = Some ''p'', db_runs = [(''r'', ''p'')], db_revisions = [(''v'', ''p'')],
     db_profiles = [(''f'', ''p'')],
     db_profileRevisions = [\<lparr>sv_profileRevisionId = ''fv'', sv_profileId = ''f'', sv_engineVersion = Num 1\<rparr>],
     db_decisions = [], db_jobs = [], db_jobSequence = 0, db_attempts = [], db_transitions = [], db_discoveries = [],
     db_operations = [],
     db_controls = [\<lparr>ct_projectId = ''p'', ct_runId = ''r'', ct_state = CtlActive, ct_runState = RunRunning,
        ct_requestedAt = None, ct_pausedAt = None, ct_updatedAt = ''t'', ct_operationId = ''o''\<rparr>],
     db_leases = [], db_checkpoints = [], db_checkpointSequence = 0, db_runCheckpoints = [], db_runCheckpointSequence = 0,
     db_artifacts = [], db_outputs = [], db_recoveries = [], db_recoveryEvents = [], db_sessions = []\<rparr>"

definition sample_sess :: sess where
  "sample_sess = \<lparr>s_db = sample_db, s_ticks = 0, s_draws = 0\<rparr>"

definition sample_enqueue :: enqueue_input where
  "sample_enqueue = \<lparr>qi_projectId = ''p'', qi_runId = ''r'', qi_projectRevisionId = ''v'',
     qi_scopeDecision = \<lparr>sd_decisionId = replicate 64 (CHR ''d''), sd_engineVersion = 1, sd_profileId = ''f'', sd_profileRevisionId = ''fv'',
       sd_eligible = True, sd_shouldQueue = True, sd_reasonCodes = [''URL_ACCEPTED''], sd_normalizedUrl = Some ''n'',
       sd_identityUrl = Some ''i'', sd_identityHash = Some (replicate 64 (CHR ''a'')), sd_displayUrl = Some ''s'',
       sd_depth = Num 0, sd_matchedRuleIds = []\<rparr>,
     qi_parentJobId = Absent, qi_safeSourceUrl = Absent, qi_discoveryType = Seed, qi_sourceDepth = Absent,
     qi_requestedPriority = None, qi_maxAttempts = Num 3, qi_maxPages = Some (Num 5), qi_idempotencyKey = ''k1'',
     qi_operationId = ''o1'', qi_correlationId = ''c1''\<rparr>"

definition sample_claim :: claim_input where
  "sample_claim = \<lparr>oc_projectId = ''p'', oc_runId = ''r'', oc_idempotencyKey = ''k2'', oc_operationId = ''o2'',
     oc_correlationId = ''c2'', ci_claimedBy = ''w''\<rparr>"

definition sample_lease_claim :: lease_claim_input where
  "sample_lease_claim = \<lparr>oc_projectId = ''p'', oc_runId = ''r'', oc_idempotencyKey = ''k3'', oc_operationId = ''o3'',
     oc_correlationId = ''c3'', wi_ownerId = ''w'', wi_leaseDurationMs = Num 60000, wi_jobId = None\<rparr>"

definition sample_recover :: recover_input where
  "sample_recover = \<lparr>oc_projectId = ''p'', oc_runId = ''r'', oc_idempotencyKey = ''k4'', oc_operationId = ''o4'',
     oc_correlationId = ''c4'', vi_evaluationTime = ''2030-01-01T00:00:00.000Z'', vi_limit = Num 10,
     vi_confirmation = ''APPLY-RECOVERY''\<rparr>"

definition sample_ref :: lease_ref where
  "sample_ref = \<lparr>lf_projectId = ''p'', lf_runId = ''r'', lf_jobId = ''u0'', lf_leaseToken = ''u4'', lf_fencingGeneration = 1,
     lf_ownerId = ''w'', lf_operationId = ''o5''\<rparr>"

definition sample_complete :: "string \<Rightarrow> complete_input" where
  "sample_complete token = \<lparr>oc_projectId = ''p'', oc_runId = ''r'', oc_idempotencyKey = ''k6'', oc_operationId = ''o6'',
     oc_correlationId = ''c6'', co_jobId = ''u0'', co_claimToken = token, co_completionKey = ''ck'',
     co_resultSummary = QueueTest (Some (Num 200)) False None, co_completedAt = ''2026-01-01T00:00:00.000Z''\<rparr>"

definition sample_block :: terminal_input where
  "sample_block = \<lparr>oc_projectId = ''p'', oc_runId = ''r'', oc_idempotencyKey = ''k7'', oc_operationId = ''o7'',
     oc_correlationId = ''c7'', mi_jobId = ''u0'', mi_reasonCode = ''SCOPE_DENIED'', mi_safeMessage = ''denied'',
     mi_claimToken = None\<rparr>"

text \<open>A job under a Lease of one minute, as a claim at the standing clock leaves it.\<close>

definition sample_job :: job_row where
  "sample_job = \<lparr>pj_jobId = ''u0'', pj_projectId = ''p'', pj_runId = ''r'', pj_projectRevisionId = ''v'', pj_profileId = ''f'',
     pj_profileRevisionId = ''fv'', pj_normalizationEngineVersion = 1, pj_normalizedUrl = ''n'', pj_identityUrl = ''i'',
     pj_safeDisplayUrl = ''s'', pj_identityHash = replicate 64 (CHR ''a''), pj_scopeDecisionId = replicate 64 (CHR ''d''),
     pj_scopeReasonCode = ''URL_ACCEPTED'', pj_state = JobProcessing, pj_priority = 1000, pj_prioritySource = PolicyPriority,
     pj_queueSequence = 1, pj_depth = 0, pj_discoveryType = Seed, pj_attemptCount = 1, pj_fencingGeneration = 1,
     pj_maxAttempts = 3, pj_nextEligibleAt = ''2026-01-01T00:00:00.000Z'', pj_claimToken = Some ''u4'', pj_claimedBy = Some ''w'',
     pj_claimedAt = Some ''2026-01-01T00:00:00.000Z'', pj_lastAttemptAt = Some ''2026-01-01T00:00:00.000Z'',
     pj_completedAt = None, pj_failedAt = None, pj_completionKey = None, pj_resultVersion = None, pj_resultSummary = None,
     pj_lastErrorCode = None, pj_lastErrorCategory = None, pj_lastErrorMessage = None,
     pj_createdAt = ''2026-01-01T00:00:00.000Z'', pj_updatedAt = ''2026-01-01T00:00:00.000Z'',
     pj_queuedAt = ''2026-01-01T00:00:00.000Z'', jr_recoveryState = None\<rparr>"

definition sample_queued :: sess where
  "sample_queued = \<lparr>s_db = sample_db\<lparr>db_jobs := [sample_job\<lparr>pj_state := JobPending, pj_attemptCount := 0,
       pj_fencingGeneration := 0, pj_claimToken := None, pj_claimedBy := None, pj_claimedAt := None,
       pj_lastAttemptAt := None\<rparr>], db_jobSequence := 1\<rparr>, s_ticks = 0, s_draws = 4\<rparr>"

definition sample_lease :: lease_row where
  "sample_lease = \<lparr>jl_leaseId = ''u5'', jl_jobId = ''u0'', jl_projectId = ''p'', jl_runId = ''r'', jl_ownerId = ''w'',
     jl_fencingGeneration = 1, jl_status = LeaseActive, jl_acquiredAt = ''2026-01-01T00:00:00.000Z'',
     jl_heartbeatAt = ''2026-01-01T00:00:00.000Z'', jl_expiresAt = ''2026-01-01T00:01:00.000Z'', jl_releasedAt = None,
     jl_releaseReason = None, lr_tokenHash = sample_hash ''u4'', lr_lastOperationId = ''o3''\<rparr>"

definition sample_leased :: sess where
  "sample_leased = \<lparr>s_db = sample_db\<lparr>db_jobs := [sample_job], db_jobSequence := 1, db_leases := [sample_lease]\<rparr>,
     s_ticks = 0, s_draws = 6\<rparr>"

definition sample_released :: sess where
  "sample_released = \<lparr>s_db = sample_db\<lparr>db_jobs := [sample_job], db_jobSequence := 1,
       db_leases := [sample_lease\<lparr>jl_status := LeaseReleased\<rparr>]\<rparr>, s_ticks = 0, s_draws = 6\<rparr>"

definition sample_blocked :: sess where
  "sample_blocked = run_repo_ops sample_env [QueueOp (OpEnqueue sample_enqueue), QueueOp (OpBlock sample_block)] sample_sess"

lemma sample_schema: "schema_ok (s_db sample_sess)"
  by code_simp

lemma sample_leased_schema: "schema_ok (s_db sample_leased)" "schema_ok (s_db sample_released)"
  "schema_ok (s_db sample_queued)"
  by code_simp+

lemma sample_blocked_schema: "schema_ok (s_db sample_blocked)"
  unfolding sample_blocked_def using repo_ops_sound[OF sample_schema] by (auto simp: sound_def)

text \<open>A call that succeeded, as the equation the properties take.\<close>

lemma ok_run: "is_ok (fst x) \<Longrightarrow> x = (Inr (projr (fst x)), snd x)"
  by (cases x; cases "fst x") (auto simp: is_ok_def)

end
