(* ===== verification/Repository_Properties.thy ===== *)
theory Repository_Properties
  imports Sample_Project
begin

text \<open>
  The properties of the two durable repositories, of a single operation and of any sequence of them.
\<close>

section \<open>A fresh request of the queue\<close>

text \<open>A request with no record runs its body and then records the result.\<close>

lemma idempotent_fresh:
  assumes "idempotent E c type request operation s = (Inr r, s')" "recorded c type (s_db s) = None"
  shows "\<exists>s1 o'. operation s = (Inr r, s1) \<and> insert_operation o' (s_db s1) = Some (s_db s')"
  using assms
  by (clarsimp simp: idempotent_run bind_run tx_id_def tx_now_def tx_sql_def tx_ret_def split: sum.splits option.splits) blast

lemma wrapped_fresh:
  assumes "idempotent E c type request (tx_bind operation (\<lambda>r. tx_ret (f r))) s = (Inr x, s')"
    "recorded c type (s_db s) = None" "tx_post operation Q (s_db s)"
  shows "\<exists>r d. x = f r \<and> Q r d \<and> (\<exists>o'. insert_operation o' d = Some (s_db s'))"
proof -
  obtain s1 o' where 1: "tx_bind operation (\<lambda>r. tx_ret (f r)) s = (Inr x, s1)" "insert_operation o' (s_db s1) = Some (s_db s')"
    using idempotent_fresh[OF assms(1,2)] by blast
  then obtain r where "operation s = (Inr r, s1)" "x = f r" by (auto simp: bind_run tx_ret_def)
  then show ?thesis using tx_postD[OF assms(3)] 1(2) by blast
qed

section \<open>Any sequence of operations\<close>



text \<open>C2
  A job that is completed, failed, skipped or blocked stays so for ever, under the same identity:
  no later operation of either repository moves it.
\<close>

lemma terminal_jobs_are_final:
  assumes "schema_ok (s_db s)" "row \<in> set (db_jobs (s_db s))" "is_terminal_state (job_state row)"
  shows "\<exists>row' \<in> set (db_jobs (s_db (run_repo_ops E ops s))). pj_jobId row' = pj_jobId row \<and>
    job_identity row' = job_identity row \<and> job_state row' = job_state row"
proof -
  have "db_evolves (s_db s) (s_db (run_repo_ops E ops s))" using repo_ops_sound[OF assms(1), of E ops] by (simp add: sound_def)
  then obtain row' where "row' \<in> set (db_jobs (s_db (run_repo_ops E ops s)))" "job_evolves row row'"
    using evolved_job assms(2) by blast
  moreover from this(2) have "pj_jobId row' = pj_jobId row" "job_identity row' = job_identity row"
    by (simp_all only: job_evolves_def)
  ultimately show ?thesis using evolves_terminal[OF _ assms(3)] by blast
qed

lemma terminal_jobs_are_final_witness:
  "\<exists>row. row \<in> set (db_jobs (s_db sample_blocked)) \<and> is_terminal_state (job_state row) \<and>
     (\<exists>row' \<in> set (db_jobs (s_db (run_repo_ops sample_env [QueueOp (OpClaim sample_claim)] sample_blocked))).
        job_state row' = job_state row)"
proof -
  have "list_ex (\<lambda>row. is_terminal_state (job_state row)) (db_jobs (s_db sample_blocked))" by code_simp
  then obtain row where "row \<in> set (db_jobs (s_db sample_blocked))" "is_terminal_state (job_state row)"
    by (auto simp: list_ex_iff)
  moreover from this obtain row' where "row' \<in> set (db_jobs (s_db (run_repo_ops sample_env [QueueOp (OpClaim sample_claim)] sample_blocked)))"
    "job_state row' = job_state row"
    using terminal_jobs_are_final[OF sample_blocked_schema, of row sample_env "[QueueOp (OpClaim sample_claim)]"] by auto
  ultimately show ?thesis by blast
qed






section \<open>Requests and replays\<close>

text \<open>C8
  Sending a request again, with the same idempotency key and at any later time, returns the recorded
  result and changes nothing.
\<close>

lemma replay_returns_recorded_result:
  assumes "run_queue_op E op s = (Inr r, s')" "schema_ok (s_db s)"
    and "schema_ok (s_db s2)" "db_evolves (s_db s') (s_db s2)"
  shows "run_queue_op E op s2 = (Inr r, s2)"
  using queue_op_replay[OF assms] .

lemma replay_returns_recorded_result_witness:
  "\<exists>r s'. run_queue_op sample_env (OpEnqueue sample_enqueue) sample_sess = (Inr r, s') \<and>
     run_queue_op sample_env (OpEnqueue sample_enqueue) s' = (Inr r, s')"
proof -
  have "is_ok (fst (run_queue_op sample_env (OpEnqueue sample_enqueue) sample_sess))" by code_simp
  then obtain r s' where run: "run_queue_op sample_env (OpEnqueue sample_enqueue) sample_sess = (Inr r, s')"
    using ok_run by blast
  then have "schema_ok (s_db s')"
    using queue_op_sound[OF sample_schema, of sample_env "OpEnqueue sample_enqueue"] by (simp add: sound_def)
  then show ?thesis using replay_returns_recorded_result[OF run sample_schema] run by auto
qed



section \<open>Enqueue, claim, complete\<close>



text \<open>
  A claim takes the least claimable job of the run in the queue order, if its attempts are not used
  up, and gives it a fresh token and the next attempt; it returns nothing only when nothing is
  claimable.
\<close>

lemma claim_takes_least_job:
  assumes "schema_ok (s_db s)" "recorded c ''queue.claimNext'' (s_db s) = None" "claim_next E c s = (Inr x, s')"
  shows "\<exists>r d. x = ResClaim r \<and> claimed_from c (s_db s) r d \<and> (\<exists>o'. insert_operation o' d = Some (s_db s'))"
proof -
  have "idempotent E c ''queue.claimNext'' (claim_json c) (tx_bind (claim_body E c) (\<lambda>r. tx_ret (ResClaim r))) s = (Inr x, s')"
    using assms(3) by (simp add: claim_next_def run_simps)
  then show ?thesis by (rule wrapped_fresh[OF _ assms(2) claim_body_spec[OF assms(1)]])
qed

lemma sample_claim_run:
  obtains j s' where "claim_next sample_env sample_claim sample_queued = (Inr (ResClaim (Some j)), s')"
    "recorded sample_claim ''queue.claimNext'' (s_db sample_queued) = None"
proof -
  have "case fst (claim_next sample_env sample_claim sample_queued) of Inr (ResClaim (Some j)) \<Rightarrow> True | _ \<Rightarrow> False" by code_simp
  moreover have "recorded sample_claim ''queue.claimNext'' (s_db sample_queued) = None" by code_simp
  ultimately show thesis using that
    by (cases "claim_next sample_env sample_claim sample_queued") (auto split: sum.splits op_result.splits option.splits)
qed

lemma claim_takes_least_job_witness:
  "\<exists>j d. claimed_from sample_claim (s_db sample_queued) (Some j) d"
proof -
  obtain j s' where run: "claim_next sample_env sample_claim sample_queued = (Inr (ResClaim (Some j)), s')"
    "recorded sample_claim ''queue.claimNext'' (s_db sample_queued) = None" using sample_claim_run .
  show ?thesis using claim_takes_least_job[OF sample_leased_schema(3) run(2,1)] by auto
qed

section \<open>The queue as a priority queue\<close>







text \<open>
  Only the head of the queue is looked at: while the least claimable job has no attempt left, every
  claim of the run fails with \<open>QUEUE_MAX_ATTEMPTS_REACHED\<close>, whatever else is pending.
\<close>

lemma exhausted_head_blocks_claims:
  assumes "db_project (s_db s) = Some (oc_projectId c)" "(oc_runId c, oc_projectId c) \<in> set (db_runs (s_db s))"
    and "assert_idempotency_key (oc_idempotencyKey c) = Inr ()" "recorded c ''queue.claimNext'' (s_db s) = None"
    and "select_first (claimable (oc_projectId c) (oc_runId c) (now_at E (s_ticks s))) row_order_key (db_jobs (s_db s)) = Some row"
    and "pj_maxAttempts row \<le> pj_attemptCount row"
  shows "\<exists>s'. claim_next E c s = (Inl (QueueError QUEUE_MAX_ATTEMPTS_REACHED), s') \<and> s_db s' = s_db s"
  using claim_blocked[OF assms] .

definition sample_exhausted :: sess where
  "sample_exhausted = \<lparr>s_db = sample_db\<lparr>db_jobs := [sample_job\<lparr>pj_state := JobPending, pj_attemptCount := 3,
     pj_fencingGeneration := 0, pj_claimToken := None, pj_claimedBy := None\<rparr>]\<rparr>, s_ticks = 0, s_draws = 4\<rparr>"

lemma exhausted_head_blocks_claims_witness:
  "\<exists>s'. claim_next sample_env sample_claim sample_exhausted = (Inl (QueueError QUEUE_MAX_ATTEMPTS_REACHED), s')"
proof -
  have own: "db_project (s_db sample_exhausted) = Some (oc_projectId sample_claim)"
    "(oc_runId sample_claim, oc_projectId sample_claim) \<in> set (db_runs (s_db sample_exhausted))"
    by (simp_all add: sample_exhausted_def sample_db_def sample_claim_def)
  have key: "assert_idempotency_key (oc_idempotencyKey sample_claim) = Inr ()"
    "recorded sample_claim ''queue.claimNext'' (s_db sample_exhausted) = None"
    by code_simp+
  have "case select_first (claimable (oc_projectId sample_claim) (oc_runId sample_claim) (now_at sample_env (s_ticks sample_exhausted)))
      row_order_key (db_jobs (s_db sample_exhausted)) of None \<Rightarrow> False | Some row \<Rightarrow> pj_maxAttempts row \<le> pj_attemptCount row"
    by code_simp
  then show ?thesis using exhausted_head_blocks_claims[OF own key] by (auto split: option.splits)
qed



text \<open>C7
  A completion with another token, or for a fenced job without a live Lease of the job's generation
  for that token, is refused with \<open>QUEUE_CLAIM_TOKEN_INVALID\<close> and changes nothing.
\<close>

lemma stale_holder_cannot_complete:
  assumes "db_project (s_db s) = Some (oc_projectId c)" "(oc_runId c, oc_projectId c) \<in> set (db_runs (s_db s))"
    and "assert_idempotency_key (co_completionKey c) = Inr ()" "assert_utc_timestamp (co_completedAt c) = Inr ()"
    and "is_ok (validate_result_summary (co_resultSummary c))" "assert_idempotency_key (oc_idempotencyKey c) = Inr ()"
    and "recorded c ''queue.complete'' (s_db s) = None"
    and "find_job (oc_projectId c) (oc_runId c) (co_jobId c) (s_db s) = Some row" "job_state row = JobProcessing"
    and "stale_claim E row (co_claimToken c) (now_at E (s_ticks s)) (s_db s)"
  shows "\<exists>s'. complete E c s = (Inl (QueueError QUEUE_CLAIM_TOKEN_INVALID), s') \<and> s_db s' = s_db s"
proof -
  obtain s1 where body: "complete_body E c s = (Inl (QueueError QUEUE_CLAIM_TOKEN_INVALID), s1)"
    using complete_body_stale[OF assms(8-10)] by blast
  obtain summary where "validate_result_summary (co_resultSummary c) = Inr summary" using assms(5) by (auto simp: is_ok_iff)
  then have "complete E c s = queue_transaction (idempotent E c ''queue.complete'' (complete_json c)
      (tx_bind (complete_body E c) (\<lambda>j. tx_ret (ResJob j)))) s"
    using assms(1-4)
    by (simp add: complete_def queue_transaction_def run_transaction_def tx_bind_def ownership_run tx_lift_def)
  then show ?thesis
    using wrapped_error[of "complete_body E c" s "QueueError QUEUE_CLAIM_TOKEN_INVALID" s1 c, OF body _ assms(6,7)]
    by (simp add: is_queue_error_def)
qed

lemma stale_holder_cannot_complete_witness:
  "\<exists>s'. complete sample_env (sample_complete ''stolen'') sample_leased = (Inl (QueueError QUEUE_CLAIM_TOKEN_INVALID), s')"
proof -
  let ?c = "sample_complete ''stolen''"
  have own: "db_project (s_db sample_leased) = Some (oc_projectId ?c)" "(oc_runId ?c, oc_projectId ?c) \<in> set (db_runs (s_db sample_leased))"
    by (simp_all add: sample_leased_def sample_db_def sample_complete_def)
  have args: "assert_idempotency_key (co_completionKey ?c) = Inr ()" "assert_utc_timestamp (co_completedAt ?c) = Inr ()"
    "is_ok (validate_result_summary (co_resultSummary ?c))" "assert_idempotency_key (oc_idempotencyKey ?c) = Inr ()"
    "recorded ?c ''queue.complete'' (s_db sample_leased) = None"
    by code_simp+
  have "find_job (oc_projectId ?c) (oc_runId ?c) (co_jobId ?c) (s_db sample_leased) = Some sample_job"
    by (simp add: find_job_def sample_leased_def sample_complete_def sample_job_def)
  moreover have "job_state sample_job = JobProcessing" by code_simp
  moreover have "stale_claim sample_env sample_job (co_claimToken ?c) t (s_db sample_leased)" for t
    by (simp add: stale_claim_def sample_job_def sample_complete_def)
  ultimately show ?thesis using stale_holder_cannot_complete[OF own args] by blast
qed

text \<open>
  The statistics of a run are complete and disjoint: the nine counts by state add up to the total.
\<close>

lemma statistics_add_up:
  assumes "schema_ok d" "overlay_ok d"
  shows "qs_total (statistics_of p r t d) = qs_pending (statistics_of p r t d) + qs_processing (statistics_of p r t d) +
    qs_completed (statistics_of p r t d) + qs_failed (statistics_of p r t d) + qs_retrying (statistics_of p r t d) +
    qs_skipped (statistics_of p r t d) + qs_blocked (statistics_of p r t d) + qs_interrupted (statistics_of p r t d) +
    qs_paused (statistics_of p r t d)"
proof -
  have "\<forall>x \<in> set (filter (\<lambda>x. pj_projectId x = p \<and> pj_runId x = r) (db_jobs d)). job_check x \<and> overlay_row x"
    using job_row_checked[OF assms(1)] assms(2) by (simp add: overlay_ok_def list_all_iff)
  note state_partition[OF this]
  then show ?thesis by (simp add: statistics_of_def Let_def)
qed

lemma statistics_add_up_witness:
  "qs_total (statistics_of ''p'' ''r'' ''t'' (s_db sample_leased)) = 1 \<and>
   qs_processing (statistics_of ''p'' ''r'' ''t'' (s_db sample_leased)) = 1"
proof -
  have ok: "overlay_ok (s_db sample_leased)" by code_simp
  have "qs_total (statistics_of ''p'' ''r'' ''t'' (s_db sample_leased)) = 1"
    by (simp add: statistics_of_def Let_def sample_leased_def sample_job_def)
  moreover have "qs_processing (statistics_of ''p'' ''r'' ''t'' (s_db sample_leased)) = 1"
    by (simp add: statistics_of_def Let_def sample_leased_def sample_job_def)
  ultimately show ?thesis using statistics_add_up[OF sample_leased_schema(1) ok, of "''p''" "''r''" "''t''"] by simp
qed

section \<open>Leases and recovery\<close>

text \<open>
  Once a Lease has ended, its token gives no rights in any later state of the database: heartbeat,
  renewal and release with it fail.
\<close>

lemma ended_lease_gives_no_rights:
  assumes "schema_ok (s_db s)" "db_evolves d (s_db s)" "l \<in> set (db_leases d)" "jl_status l \<noteq> LeaseActive"
    and "lr_tokenHash l = sha256 E (lf_leaseToken c)"
  shows "\<not> is_ok (fst (heartbeat_lease E c s)) \<and> \<not> is_ok (fst (renew_lease E c ext s)) \<and>
    \<not> is_ok (fst (release_lease E c reason s))"
proof -
  obtain e s' where "assert_lease E c s = (Inl e, s')" using ended_lease_refused[OF assms] by blast
  then show ?thesis
    by (simp add: heartbeat_lease_def renew_lease_def release_lease_def recovery_transaction_def run_transaction_def
        tx_bind_def tx_lift_def is_ok_def split: sum.splits)
qed

lemma ended_lease_gives_no_rights_witness:
  "\<not> is_ok (fst (renew_lease sample_env sample_ref (Num 60000) sample_released))"
proof -
  let ?l = "sample_lease\<lparr>jl_status := LeaseReleased\<rparr>"
  have "?l \<in> set (db_leases (s_db sample_released))" "jl_status ?l \<noteq> LeaseActive"
    "lr_tokenHash ?l = sha256 sample_env (lf_leaseToken sample_ref)"
    by (simp_all add: sample_released_def sample_lease_def sample_env_def sample_ref_def)
  then show ?thesis using ended_lease_gives_no_rights[OF sample_leased_schema(2) db_evolves_refl] by blast
qed

text \<open>C11
  A Lease claim takes the least job of the run that is pending, due and not suspended, under a new
  active Lease of the next generation that expires after the requested duration and whose token no
  Lease ever had; no other active Lease existed for the job.
\<close>

lemma lease_claim_takes_least_job:
  assumes "schema_ok (s_db s)" "claim_next_with_lease E c s = (Inr r, s')"
    and "claim_recorded c ''recovery.claimNextWithLease'' (s_db s) = None"
  shows "\<exists>t. case r of
     None \<Rightarrow> (\<forall>x \<in> set (db_jobs (s_db s)). \<not> leasable (oc_projectId c) (oc_runId c) t x) \<and> db_jobs (s_db s') = db_jobs (s_db s)
   | Some claim \<Rightarrow> (\<exists>row \<in> set (db_jobs (s_db s)). leasable (oc_projectId c) (oc_runId c) t row \<and>
       (\<forall>x \<in> set (db_jobs (s_db s)). leasable (oc_projectId c) (oc_runId c) t x \<longrightarrow> row_order_key row \<le> row_order_key x) \<and>
       leased_from E c row t (s_db s) claim (s_db s'))"
  using claim_next_with_lease_spec[OF assms] .

lemma lease_claim_takes_least_job_witness:
  "\<exists>row t claim d. leased_from sample_env sample_lease_claim row t (s_db sample_queued) claim d"
proof -
  have "case fst (claim_next_with_lease sample_env sample_lease_claim sample_queued) of Inr (Some _) \<Rightarrow> True | _ \<Rightarrow> False" by code_simp
  then obtain claim s' where run: "claim_next_with_lease sample_env sample_lease_claim sample_queued = (Inr (Some claim), s')"
    by (cases "claim_next_with_lease sample_env sample_lease_claim sample_queued") (auto split: sum.splits option.splits)
  have "claim_recorded sample_lease_claim ''recovery.claimNextWithLease'' (s_db sample_queued) = None" by code_simp
  then show ?thesis using lease_claim_takes_least_job[OF sample_leased_schema(3) run] by auto
qed

text \<open>
  A renewal succeeds only for the holder of a live Lease, and the new expiry is counted from the time
  of the renewal.
\<close>

lemma renewal_counts_from_now:
  assumes "schema_ok (s_db s)" "renew_lease E c extension s = (Inr l', s')"
  shows "\<exists>l t. lease_held E c l (s_db s) \<and> jl_leaseId l' = jl_leaseId l \<and> jl_heartbeatAt l' = t \<and>
    is_lease_expired LeaseActive (jl_expiresAt l) t = Inr False \<and> calculate_lease_expiry t extension = Inr (jl_expiresAt l')"
  using renew_lease_spec[OF assms] .

lemma renewal_counts_from_now_witness:
  "\<exists>l. lease_held sample_env sample_ref l (s_db sample_leased)"
proof -
  have "is_ok (fst (renew_lease sample_env sample_ref (Num 60000) sample_leased))" by code_simp
  then obtain l' s' where "renew_lease sample_env sample_ref (Num 60000) sample_leased = (Inr l', s')" using ok_run by blast
  then show ?thesis using renewal_counts_from_now[OF sample_leased_schema(1)] by blast
qed

text \<open>C12
  When the first call of a recovery reports that nothing is left, no job of the run is left in
  processing under a Lease that was missing or over at the evaluation time: each such job was
  requeued, failed for lack of attempts, or paused.
\<close>

lemma recovery_leaves_no_abandoned_job:
  assumes "schema_ok (s_db s)" "recover E c s = (Inr report, s')" "find_recovery c (s_db s) = None" "\<not> rr_hasMore report"
    and "x \<in> set (db_jobs (s_db s'))" "0 < pj_queueSequence x"
  shows "\<not> abandoned (oc_projectId c) (oc_runId c) (vi_evaluationTime c) (s_db s') x"
  using recover_done[OF assms(1-5)] assms(6) by auto

lemma recovery_leaves_no_abandoned_job_witness:
  "abandoned ''p'' ''r'' (vi_evaluationTime sample_recover) (s_db sample_leased) sample_job \<and>
   (\<exists>report s' x. recover sample_env sample_recover sample_leased = (Inr report, s') \<and> x \<in> set (db_jobs (s_db s')) \<and>
      pj_jobId x = pj_jobId sample_job \<and> \<not> abandoned ''p'' ''r'' (vi_evaluationTime sample_recover) (s_db s') x)"
proof -
  let ?run = "recover sample_env sample_recover sample_leased"
  have "(case fst ?run of Inr report \<Rightarrow> \<not> rr_hasMore report | _ \<Rightarrow> False) \<and>
      list_ex (\<lambda>x. pj_jobId x = pj_jobId sample_job \<and> 0 < pj_queueSequence x) (db_jobs (s_db (snd ?run)))" by code_simp
  then obtain report s' x where run: "?run = (Inr report, s')" "\<not> rr_hasMore report"
    and x: "x \<in> set (db_jobs (s_db s'))" "0 < pj_queueSequence x" "pj_jobId x = pj_jobId sample_job"
    by (cases ?run) (auto simp: list_ex_iff split: sum.splits)
  have "find_recovery sample_recover (s_db sample_leased) = None" by code_simp
  moreover have "abandoned ''p'' ''r'' (vi_evaluationTime sample_recover) (s_db sample_leased) sample_job" by code_simp
  moreover have "oc_projectId sample_recover = ''p''" "oc_runId sample_recover = ''r''" by (simp_all add: sample_recover_def)
  ultimately show ?thesis
    using recovery_leaves_no_abandoned_job[OF sample_leased_schema(1) run(1) _ run(2) x(1,2)] run(1) x by auto
qed

text \<open>
  The verification of a completed job reports each of its outputs, in order of their paths, as valid
  exactly when the file is inside the Project, regular, and has the recorded length and digest.
\<close>

lemma verification_is_exact:
  assumes "verify_completed_output E fs p r j s = (Inr vs, s')"
  shows "list_all2 (verified fs) (select_order (\<lambda>x. od_jobId x = j) od_relativePath (db_outputs (s_db s))) vs"
  using verify_outputs_spec[OF assms] .

definition sample_output :: output_descriptor where
  "sample_output = \<lparr>od_descriptorId = ''e'', od_jobId = ''u0'', od_relativePath = ''a/b'', od_byteLength = Num 3,
     od_sha256 = replicate 64 (CHR ''0''), od_verificationPolicy = ''size-and-sha256'', od_verifiedAt = None,
     od_verificationStatus = VerPending\<rparr>"

definition sample_files :: "string \<Rightarrow> path_probe" where
  "sample_files path = (if path = ''a/b'' then RegularFile 3 (replicate 64 (CHR ''0'')) else NoRegularFile)"

definition sample_completed :: sess where
  "sample_completed = \<lparr>s_db = sample_db\<lparr>db_outputs := [sample_output], db_jobs := [sample_job\<lparr>pj_state := JobCompleted\<rparr>]\<rparr>,
     s_ticks = 0, s_draws = 0\<rparr>"

lemma verification_is_exact_witness:
  "\<exists>vs. list_all2 (verified sample_files) [sample_output] vs"
proof -
  have "map code ''a/b'' = [97, 47, 98]" by code_simp
  moreover have "is_ok (validate_path latin1_nfc latin1_lower [97, 47, 98])" by (simp add: path_eval)
  ultimately have path: "portable_path ''a/b''" by (simp only: portable_path_def)
  have "safe_int (Num 3) = Some 3" "hash_pattern (od_sha256 sample_output)" by code_simp+
  then have ok: "validate_output_descriptor sample_output = Inr sample_output"
    using path
    by (simp add: validate_output_descriptor_def validate_portable_relative_path_def sample_output_def ebind_def artifact_path_length_def)
  have probe: "sample_files (od_relativePath sample_output) = RegularFile 3 (od_sha256 sample_output)"
    by (simp add: sample_files_def sample_output_def)
  have status: "probe_status sample_output (RegularFile 3 (od_sha256 sample_output)) = VerValid" by code_simp
  have written: "\<exists>d. update_outputs (\<lambda>x. od_descriptorId x = od_descriptorId sample_output)
      (\<lambda>x. x\<lparr>od_verificationStatus := VerValid, od_verifiedAt := Some ''2026-01-01T00:00:00.000Z''\<rparr>)
      (sample_db\<lparr>db_outputs := [sample_output], db_jobs := [sample_job\<lparr>pj_state := JobCompleted\<rparr>]\<rparr>) = Some d"
    unfolding not_None_eq[symmetric] by code_simp
  have rows: "select_order (\<lambda>x. od_jobId x = ''u0'') od_relativePath [sample_output] = [sample_output]"
    "job_state (sample_job\<lparr>pj_state := JobCompleted\<rparr>) = JobCompleted" "pj_jobId sample_job = ''u0''"
    "pj_projectId sample_job = ''p''" "pj_runId sample_job = ''r''" "jr_recoveryState sample_job = None" by code_simp+
  have "is_ok (fst (verify_one sample_env sample_files sample_output sample_completed))"
    using ok status written
    by (auto simp: verify_one_def probe tx_defs tx_ret_def ensure_def is_ok_def Let_def sample_completed_def sample_env_def)
  moreover have "verify_completed_output sample_env sample_files ''p'' ''r'' ''u0'' sample_completed =
      tx_each (verify_one sample_env sample_files) [sample_output] sample_completed"
    using rows
    by (simp add: verify_completed_output_def owned_def get_job_def get_job_row_def find_job_def tx_defs ensure_def
        sample_completed_def sample_db_def del: tx_each.simps)
  ultimately have "is_ok (fst (verify_completed_output sample_env sample_files ''p'' ''r'' ''u0'' sample_completed))"
    by (auto simp: is_ok_iff tx_bind_def tx_ret_def split: prod.splits sum.splits)
  then obtain vs s' where "verify_completed_output sample_env sample_files ''p'' ''r'' ''u0'' sample_completed = (Inr vs, s')"
    using ok_run by blast
  moreover have "select_order (\<lambda>x. od_jobId x = ''u0'') od_relativePath (db_outputs (s_db sample_completed)) = [sample_output]"
    by code_simp
  ultimately show ?thesis using verification_is_exact by metis
qed

end
