(* ===== verification/Service_Worker.thy ===== *)
theory Service_Worker
  imports Core_Types
begin

text \<open>
  packages/archive-core/src/service-worker.ts: the Service Worker policy of a capture, its check,
  its normalisation and its resolution to a browser setting. The mode of a candidate is untrusted
  text, an absent or undefined field is \<open>None\<close>.
\<close>

datatype resolved_mode = SwBlock | SwAllow

fun resolved_text :: "resolved_mode \<Rightarrow> string" where
  "resolved_text SwBlock = ''block''"
| "resolved_text SwAllow = ''allow''"

record sw_candidate =
  sw_version :: "jsnum option"
  sw_mode :: "string option"
  sw_profileMode :: "string option"

definition sw_modes :: "string list" where
  "sw_modes = [''block'', ''allow'', ''profile-specific'']"

definition default_sw_policy :: sw_candidate where
  "default_sw_policy = \<lparr>sw_version = Some (Num 1), sw_mode = Some ''block'', sw_profileMode = None\<rparr>"

definition is_service_worker_policy :: "sw_candidate \<Rightarrow> bool" where
  "is_service_worker_policy c =
     (sw_version c = Some (Num 1) \<and>
      (case sw_mode c of None \<Rightarrow> False | Some m \<Rightarrow> m \<in> set sw_modes) \<and>
      (sw_profileMode c = None \<or> sw_profileMode c = Some ''block'' \<or> sw_profileMode c = Some ''allow'') \<and>
      (sw_mode c \<noteq> Some ''profile-specific'' \<or> sw_profileMode c \<noteq> None))"

definition normalize_sw_policy :: "sw_candidate option \<Rightarrow> op_error + sw_candidate" where
  "normalize_sw_policy v =
     (let c = (case v of None \<Rightarrow> default_sw_policy | Some c \<Rightarrow> c);
          n = \<lparr>sw_version = (case sw_version c of None \<Rightarrow> Some (Num 1) | Some x \<Rightarrow> Some x),
               sw_mode = (case sw_mode c of None \<Rightarrow> sw_mode default_sw_policy | Some m \<Rightarrow> Some m),
               sw_profileMode = sw_profileMode c\<rparr>
      in if sw_mode n = Some ''profile-specific'' \<and> sw_profileMode n = None then Inl PlainError
         else if \<not> is_service_worker_policy n then Inl PlainError
         else Inr n)"

definition mode_of_text :: "string \<Rightarrow> resolved_mode" where
  "mode_of_text t = (if t = ''allow'' then SwAllow else SwBlock)"

definition resolve_sw_policy :: "sw_candidate \<Rightarrow> resolved_mode option \<Rightarrow> op_error + resolved_mode" where
  "resolve_sw_policy p profile =
     (if sw_mode p = Some ''profile-specific'' \<and> sw_profileMode p = None \<and> profile = None then Inl PlainError
      else if \<not> is_service_worker_policy p then Inl PlainError
      else if sw_mode p = Some ''block'' then Inr SwBlock
      else if sw_mode p = Some ''allow'' then Inr SwAllow
      else (case profile of
              Some m \<Rightarrow> Inr m
            | None \<Rightarrow> (case sw_profileMode p of None \<Rightarrow> Inl PlainError | Some t \<Rightarrow> Inr (mode_of_text t))))"

lemma normalize_sw_valid: "normalize_sw_policy v = Inr p \<Longrightarrow> is_service_worker_policy p"
  by (auto simp: normalize_sw_policy_def Let_def split: if_splits)

lemma normalize_sw_idem:
  assumes "normalize_sw_policy v = Inr p" shows "normalize_sw_policy (Some p) = Inr p"
proof -
  have valid: "is_service_worker_policy p" using assms by (rule normalize_sw_valid)
  then obtain m where "sw_version p = Some (Num 1)" "sw_mode p = Some m"
    by (auto simp: is_service_worker_policy_def split: option.splits)
  then have eq: "\<lparr>sw_version = Some (Num 1), sw_mode = Some m, sw_profileMode = sw_profileMode p\<rparr> = p"
    by simp
  then show ?thesis
    using valid \<open>sw_version p = _\<close> \<open>sw_mode p = _\<close>
    by (auto simp: normalize_sw_policy_def Let_def is_service_worker_policy_def)
qed

text \<open>
  Every valid policy resolves; a plain mode never consults the profile, a profile-specific one never
  falls back to a browser default.
\<close>

lemma resolve_sw_valid:
  assumes "is_service_worker_policy p"
  shows "\<exists>m. resolve_sw_policy p profile = Inr m \<and>
    (sw_mode p = Some ''profile-specific'' \<longrightarrow> Some m = profile \<or> profile = None \<and> sw_profileMode p = Some (resolved_text m)) \<and>
    (sw_mode p \<noteq> Some ''profile-specific'' \<longrightarrow> sw_mode p = Some (resolved_text m))"
proof -
  obtain t where t: "sw_mode p = Some t" "t = ''block'' \<or> t = ''allow'' \<or> t = ''profile-specific''"
    using assms by (auto simp: is_service_worker_policy_def sw_modes_def split: option.splits)
  show ?thesis
  proof (cases "t = ''profile-specific''")
    case False
    then show ?thesis using t assms by (auto simp: resolve_sw_policy_def)
  next
    case True
    then have "sw_profileMode p = Some ''block'' \<or> sw_profileMode p = Some ''allow''"
      using assms t by (auto simp: is_service_worker_policy_def)
    then show ?thesis
      using True t assms by (cases profile) (auto simp: resolve_sw_policy_def mode_of_text_def)
  qed
qed

end
