(* ===== verification/Core_Properties.thy ===== *)
theory Core_Properties
  imports Queue_Policy Path_Safety Service_Worker Recovery_Policy Run_State
begin

text \<open>
  The properties of the pure policies of packages/archive-core, packages/queue and
  packages/recovery: timestamps, canonical JSON, the order and the keys of the queue, safe messages,
  portable paths, Service Worker policies, Leases and partial files.
\<close>

section \<open>Timestamps and canonical JSON\<close>

text \<open>
  A timestamp the code writes with \<open>toISOString\<close> is read back by \<open>Date.parse\<close> as the same
  instant.
\<close>

lemma timestamp_round_trip:
  assumes "four_digit_time t"
  shows "utc_pattern (to_iso t) \<and> date_parse (to_iso t) = Some t"
  using assms by (simp add: date_parse_to_iso utc_pattern_to_iso)

lemma timestamp_round_trip_witness:
  "four_digit_time 1767225600000 \<and> date_parse (to_iso 1767225600000) = Some 1767225600000"
  using timestamp_round_trip[of 1767225600000] by (simp add: four_digit_time_def)

text \<open>
  The order in which SQLite sorts timestamps as text is the order of the instants, so
  \<open>ORDER BY next_eligible_at\<close> and \<open>expires_at <= now\<close> compare times.
\<close>

lemma timestamp_text_order:
  assumes "four_digit_time t" "four_digit_time t'"
  shows "(to_iso t < to_iso t' \<longleftrightarrow> t < t') \<and> (to_iso t \<le> to_iso t' \<longleftrightarrow> t \<le> t')"
  using assms by (simp add: to_iso_less_iff to_iso_le_iff)

lemma timestamp_text_order_witness:
  "four_digit_time 0 \<and> four_digit_time 1767225600000 \<and> to_iso 0 < to_iso 1767225600000"
  using timestamp_text_order[of 0 1767225600000] by (simp add: four_digit_time_def)

text \<open>
  The canonical JSON of a request, and so its hash, does not depend on the order in which its
  properties were written; ordering it a second time changes nothing.
\<close>

lemma canonical_json_order_free:
  assumes "mset kvs = mset kvs'" "distinct (map fst kvs)"
  shows "canonical_json (JObj kvs) = canonical_json (JObj kvs') \<and>
    canonical_json (ordered (JObj kvs)) = canonical_json (JObj kvs)"
  using canonical_json_perm[OF assms] unfolding canonical_json_def ordered_def ordered_with_idem by simp

lemma canonical_json_order_free_witness:
  "mset [(''b'', JNum 1), (''a'', JNull)] = mset [(''a'', JNull), (''b'', JNum 1)] \<and>
   distinct (map fst [(''b'', JNum 1), (''a'', JNull)]) \<and>
   canonical_json (JObj [(''b'', JNum 1), (''a'', JNull)]) = canonical_json (JObj [(''a'', JNull), (''b'', JNum 1)])"
  using canonical_json_order_free[of "[(''b'', JNum 1), (''a'', JNull)]" "[(''a'', JNull), (''b'', JNum 1)]"]
  by (simp add: add_mset_commute)

section \<open>Queue policy\<close>

text \<open>
  \<open>compareQueueOrder\<close> agrees with the \<open>ORDER BY\<close> of the claim statement: it is negative exactly
  when the left job sorts before the right one, and zero exactly when the keys agree.
\<close>

lemma queue_order_is_sort_key:
  "(compare_queue_order l r < 0 \<longleftrightarrow> job_order_key l < job_order_key r) \<and>
   (compare_queue_order l r = 0 \<longleftrightarrow> job_order_key l = job_order_key r) \<and>
   (0 < compare_queue_order l r \<longleftrightarrow> job_order_key r < job_order_key l)"
  using compare_queue_order_key[of l r] by (simp only: linorder_not_less[symmetric] order_le_less) auto

text \<open>
  A stored error message is never empty, has at most four hundred characters and no control
  character.
\<close>

lemma safe_message_bounds:
  "sanitize_safe_message v \<noteq> [] \<and> length (sanitize_safe_message v) \<le> 400 \<and>
   \<not> list_ex is_control (sanitize_safe_message v)"
proof -
  have clean: "\<not> is_control c" if "c \<in> set (js_trim (blank_controls w))" for c w
    using that blank_controls_clean set_js_trim by blast
  show ?thesis
    using clean
    by (auto simp: sanitize_safe_message_def Let_def safe_message_length_def list_ex_iff is_control_def code_def
        dest: in_set_takeD)
qed

text \<open>
  The key derived for the item of a batch is itself a valid idempotency key, and two items of a
  batch never share one.
\<close>

lemma batch_item_keys:
  assumes "derive_batch_item_key key i = Inr k"
  shows "ident_pattern 128 k \<and> length k \<le> 98 \<and> (derive_batch_item_key key j = Inr k \<longrightarrow> j = i)"
  using batch_key_valid[OF assms] batch_key_inj[OF _ assms, of j] by blast

lemma batch_item_keys_witness:
  "\<exists>k. derive_batch_item_key ''batch'' (Num 7) = Inr k \<and> ident_pattern 128 k"
proof -
  have "\<exists>k. derive_batch_item_key ''batch'' (Num 7) = Inr k"
    by (simp add: derive_batch_item_key_ok ident_pattern_def ident_char_def is_alnum_def is_digit_def is_upper_def
        is_lower_def code_def bounded_int_Some_iff)
  then show ?thesis using batch_item_keys by blast
qed

section \<open>Portable paths\<close>



text \<open>
  Every relative path in NFC, within the limits, without a backslash or a percent sign and whose
  segments are portable is accepted, with its lower-case form as collision key.
\<close>

lemma plain_path_is_accepted:
  assumes "v \<noteq> []" "length v \<le> 240" "utf8_size v \<le> 1024" "nfc v = v" "hd v \<noteq> 47" "92 \<notin> set v" "37 \<notin> set v"
    and "list_all portable_segment (split_on 47 v)"
  shows "validate_path nfc lower v = Inr (v, lower v)"
  using assms by (intro validate_path_complete) (auto simp: list_all_iff)

lemma plain_path_is_accepted_witness:
  "validate_path latin1_nfc latin1_lower [100, 111, 99, 47, 65] = Inr ([100, 111, 99, 47, 65], [100, 111, 99, 47, 97])"
proof -
  have "list_all portable_segment (split_on 47 [100, 111, 99, 47, 65])" "utf8_size [100, 111, 99, 47, 65] \<le> 1024"
    by (simp_all add: path_eval)
  then show ?thesis
    using plain_path_is_accepted[of "[100, 111, 99, 47, 65]" latin1_nfc latin1_lower]
    by (simp add: latin1_nfc_def latin1_lower_def)
qed

text \<open>
  \<open>assertCanonicalPathSet\<close> accepts a list exactly when each path is accepted and no two of them
  collide on a case-insensitive file system, and then returns it unchanged.
\<close>

lemma path_set_accepted_iff:
  "assert_canonical_path_set nfc lower vs = Inr ns \<longleftrightarrow>
     ns = vs \<and> list_all (\<lambda>v. is_ok (validate_path nfc lower v)) vs \<and> distinct (map lower vs)"
  by (auto simp: assert_canonical_path_set_def canonical_path_set_ok list_all_iff is_ok_iff)

section \<open>Service Worker policy\<close>

text \<open>
  A valid policy resolves to block or allow whatever the profile says: a plain mode never consults
  the profile, a profile-specific one uses the profile's mode or its own default. Normalizing a
  normalized policy changes nothing.
\<close>

lemma service_worker_resolution:
  assumes "normalize_sw_policy c = Inr p"
  shows "normalize_sw_policy (Some p) = Inr p \<and> (\<exists>m. resolve_sw_policy p profile = Inr m \<and>
    (if sw_mode p = Some ''profile-specific''
     then Some m = profile \<or> profile = None \<and> sw_profileMode p = Some (resolved_text m)
     else sw_mode p = Some (resolved_text m)))"
  using normalize_sw_idem[OF assms] resolve_sw_valid[OF normalize_sw_valid[OF assms], of profile] by auto

lemma service_worker_resolution_witness:
  "normalize_sw_policy None = Inr default_sw_policy \<and> is_ok (resolve_sw_policy default_sw_policy None)"
proof -
  have "normalize_sw_policy None = Inr default_sw_policy" by code_simp
  then show ?thesis using service_worker_resolution[of None default_sw_policy None] by auto
qed

section \<open>Runs\<close>

text \<open>
  A finished Crawl Run never changes state again, and a run that has not finished can always be
  cancelled or failed.
\<close>

lemma run_states:
  "if run_finished s then can_transition_run\<^sup>*\<^sup>* s t = (t = s)
   else can_transition_run s RunCancelling \<and> can_transition_run s RunFailed"
  using run_path_finished[of s t] run_cancellable[of s] run_can_finish[of s] by auto

text \<open>
  Every request budget a concurrency policy yields is a safe integer of at least one request; the
  default policy is valid.
\<close>

lemma concurrency_budget_positive:
  assumes "effective_origin_request_budget p = Inr n"
  shows "\<exists>i. n = js_int i \<and> 1 \<le> i \<and> i \<le> max_safe_integer"
  using effective_budget_positive[OF assms] by (metis safe_int_Some_iff abs_le_D1)

lemma concurrency_budget_positive_witness:
  "effective_origin_request_budget default_concurrency_policy = Inr (Num 1) \<and> (\<exists>i. Num 1 = js_int i \<and> 1 \<le> i)"
proof -
  have "effective_origin_request_budget default_concurrency_policy = Inr (Num 1)" by code_simp
  then show ?thesis using concurrency_budget_positive by blast
qed

section \<open>Leases and partial files\<close>

text \<open>
  A Lease taken at \<open>t\<close> for \<open>d\<close> milliseconds is over exactly from \<open>t + d\<close> on; durations below five
  seconds or above a day are refused.
\<close>

lemma lease_lasts_exactly:
  assumes "four_digit_time t" "four_digit_time (t + d)" "four_digit_time e"
    and "calculate_lease_expiry (to_iso t) (js_int d) = Inr x"
  shows "is_lease_expired LeaseActive x (to_iso e) = Inr (t + d \<le> e) \<and> 5000 \<le> d \<and> d \<le> 86400000"
  using lease_expired_iff[OF assms(1,4,2,3)] assms(4)
  by (auto simp: calculate_lease_expiry_def result_simps)

lemma lease_lasts_exactly_witness:
  "is_lease_expired LeaseActive (to_iso 1767225660000) (to_iso 1767225659999) = Inr False"
proof -
  have "calculate_lease_expiry (to_iso 1767225600000) (js_int 60000) = Inr (to_iso 1767225660000)" by code_simp
  then show ?thesis
    using lease_lasts_exactly[of 1767225600000 60000 1767225659999] by (simp add: four_digit_time_def)
qed

text \<open>
  A partial file is only resumed when ranges are supported, the validators agree and the file is
  neither empty nor larger than expected, and then from its end; it is only called complete when its
  size is the expected one and its digest, where one is stored, agrees; otherwise it starts again
  from zero.
\<close>

lemma partial_file_decision_safe:
  assumes "decide_partial_file_recovery p = Inr r"
  shows "case pd_decision r of
     PfResume \<Rightarrow> pf_rangeSupported p \<and> pf_storedValidator p = pf_remoteValidator p \<and> pf_storedValidator p \<noteq> None \<and>
       pf_localBytes p = js_int (pd_resumeOffset r) \<and> 0 < pd_resumeOffset r \<and>
       (case pf_expectedBytes p of None \<Rightarrow> True | Some e \<Rightarrow> \<exists>i. e = js_int i \<and> pd_resumeOffset r < i)
   | PfComplete \<Rightarrow> pf_expectedBytes p = Some (pf_localBytes p) \<and>
       (case pf_storedSha256 p of None \<Rightarrow> True | Some h \<Rightarrow> pf_actualSha256 p = Some h)
   | _ \<Rightarrow> pd_resumeOffset r = 0"
  using resume_is_safe[OF assms] complete_is_whole[OF assms] not_resumed_from_zero[OF assms]
  by (auto split: partial_file_decision.splits option.splits)

lemma partial_file_decision_safe_witness:
  "\<exists>p r. decide_partial_file_recovery p = Inr r \<and> pd_decision r = PfResume \<and> pf_localBytes p = js_int (pd_resumeOffset r)"
proof -
  let ?p = "\<lparr>pf_localBytes = Num 10, pf_expectedBytes = Some (Num 20), pf_rangeSupported = True, pf_storedValidator = Some ''e'',
    pf_remoteValidator = Some ''e'', pf_storedSha256 = None, pf_actualSha256 = None\<rparr>"
  have "decide_partial_file_recovery ?p =
      Inr \<lparr>pd_decision = PfResume, pd_reasonCode = ''RANGE_RESUME_SAFE'', pd_resumeOffset = 10\<rparr>" by code_simp
  then show ?thesis using partial_file_decision_safe[of ?p] by fastforce
qed

end
