(* ===== verification/Js_Unknown.thy ===== *)
theory Js_Unknown
  imports Json_Canon
begin

text \<open>
  Values of type \<open>unknown\<close>: what a caller, a form or a parsed file may hand to a validator
  before its checks have narrowed the type. An object is its list of own enumerable properties; a
  property that is not there reads as \<open>undefined\<close>.
\<close>

datatype js_value = VUndef | VNull | VBool bool | VNum jsnum | VStr string | VArr "js_value list"
  | VObj "(string \<times> js_value) list"

text \<open>\<open>v[key]\<close> of an object; an array or a primitive has no property of the names the source reads.\<close>

definition prop_of :: "js_value \<Rightarrow> string \<Rightarrow> js_value" where
  "prop_of v k = (case v of
     VObj kvs \<Rightarrow> (case map_of (rev kvs) k of None \<Rightarrow> VUndef | Some x \<Rightarrow> x)
   | _ \<Rightarrow> VUndef)"

text \<open>\<open>Object.keys(v)\<close>.\<close>

definition keys_of :: "js_value \<Rightarrow> string list" where
  "keys_of v = (case v of VObj kvs \<Rightarrow> remdups (map fst kvs) | _ \<Rightarrow> [])"

text \<open>\<open>typeof v === "object" && v !== null\<close>, and the same without arrays.\<close>

definition is_object :: "js_value \<Rightarrow> bool" where
  "is_object v = (case v of VArr _ \<Rightarrow> True | VObj _ \<Rightarrow> True | _ \<Rightarrow> False)"

definition is_record :: "js_value \<Rightarrow> bool" where
  "is_record v = (case v of VObj _ \<Rightarrow> True | _ \<Rightarrow> False)"

text \<open>\<open>v === undefined || v === null\<close>.\<close>

definition nullish :: "js_value \<Rightarrow> bool" where
  "nullish v = (v = VUndef \<or> v = VNull)"

definition num_of :: "js_value \<Rightarrow> jsnum option" where
  "num_of v = (case v of VNum n \<Rightarrow> Some n | _ \<Rightarrow> None)"

definition str_of :: "js_value \<Rightarrow> string option" where
  "str_of v = (case v of VStr s \<Rightarrow> Some s | _ \<Rightarrow> None)"

definition bool_of :: "js_value \<Rightarrow> bool option" where
  "bool_of v = (case v of VBool b \<Rightarrow> Some b | _ \<Rightarrow> None)"

text \<open>A number that passes \<open>Number.isInteger\<close> (or \<open>isSafeInteger\<close>) and the bounds.\<close>

definition int_between :: "int \<Rightarrow> int \<Rightarrow> js_value \<Rightarrow> int option" where
  "int_between lo hi v = (case v of VNum n \<Rightarrow> bounded_int lo hi n | _ \<Rightarrow> None)"

definition safe_int_between :: "int \<Rightarrow> int \<Rightarrow> js_value \<Rightarrow> int option" where
  "safe_int_between lo hi v = (case v of VNum n \<Rightarrow> bounded_safe_int lo hi n | _ \<Rightarrow> None)"

lemma int_between_Some_iff: "int_between lo hi v = Some i \<longleftrightarrow> v = VNum (js_int i) \<and> lo \<le> i \<and> i \<le> hi"
  by (auto simp: int_between_def bounded_int_Some_iff split: js_value.splits)

lemma safe_int_between_Some_iff:
  "safe_int_between lo hi v = Some i \<longleftrightarrow> v = VNum (js_int i) \<and> lo \<le> i \<and> i \<le> hi \<and> \<bar>i\<bar> \<le> max_safe_integer"
  by (auto simp: safe_int_between_def bounded_safe_int_Some_iff split: js_value.splits)

text \<open>The value a check has found, or the error it throws.\<close>

definition need :: "'a option \<Rightarrow> 'e \<Rightarrow> 'e + 'a" where
  "need x e = (case x of None \<Rightarrow> Inl e | Some a \<Rightarrow> Inr a)"

lemma need_simps [simp]: "need (Some a) e = Inr a" "need None e = Inl e"
  by (simp_all add: need_def)

lemma need_Inr_iff [result_simps]: "need x e = Inr a \<longleftrightarrow> x = Some a"
  by (cases x) auto

lemma need_Inl_iff [result_simps]: "need x e = Inl e' \<longleftrightarrow> x = None \<and> e' = e"
  by (cases x) auto

lemma prop_of_simps [simp]: "prop_of VUndef k = VUndef" "prop_of VNull k = VUndef"
  by (simp_all add: prop_of_def)

end
