(* ===== verification/Worker_Config.thy ===== *)
theory Worker_Config
  imports Js_Unknown
begin

text \<open>
  packages/archive-core/src/scheduler.ts, first part: the Worker Pool configuration with its
  validation, the Origin of a URL, the jobs the scheduler accepts and the reading of
  \<open>Retry-After\<close>. The WHATWG URL parser and the reading of free-form dates by
  \<open>Date.parse\<close> belong to the host and are arguments.
\<close>

datatype worker_status = WsCreated | WsStarting | WsIdle | WsLeasing | WsRunning | WsDraining | WsStopping
  | WsStopped | WsFailed

datatype selection_policy = WeightedRoundRobin | LeastLoaded | Sticky

fun selection_text :: "selection_policy \<Rightarrow> string" where
  "selection_text WeightedRoundRobin = ''weighted-round-robin''"
| "selection_text LeastLoaded = ''least-loaded''"
| "selection_text Sticky = ''sticky''"

datatype connection_mode = DirectMode | SingleProxy | ProxyPool

fun connection_text :: "connection_mode \<Rightarrow> string" where
  "connection_text DirectMode = ''direct''"
| "connection_text SingleProxy = ''single-proxy''"
| "connection_text ProxyPool = ''proxy-pool''"

datatype scheduler_category = CatProxy | CatOriginRateLimit | CatOrigin | CatBrowser | CatCancelled | CatUnknown

datatype scheduler_error = SCHEDULER_CONFIG_INVALID | SCHEDULER_JOB_INVALID | SCHEDULER_NO_ELIGIBLE_PROXY
  | SCHEDULER_AFFINITY_CONFLICT | SCHEDULER_CAPACITY_EXHAUSTED | SCHEDULER_ORIGIN_RATE_LIMITED
  | SCHEDULER_CANCELLED | SCHEDULER_CLAIM_SKIPPED | WORKER_START_FAILED | WORKER_CONTEXT_FAILED
  | WORKER_LEASE_LOST | WORKER_STALE_GENERATION | WORKER_CRASHED | PROXY_CIRCUIT_OPEN
  | PROXY_HALF_OPEN_FAILED | STALE_COMMIT_REJECTED | SCHEDULER_PERSISTENCE_FAILED

record worker_config =
  wc_globalWorkers :: nat
  wc_perProxyWorkers :: nat
  wc_perOriginPages :: nat
  wc_maxInflight :: nat
  wc_requestsPerSecond :: "nat option"
  wc_burstLimit :: nat
  wc_respectRetryAfter :: bool
  wc_retryAfterMaximumMs :: int
  wc_cooldownMaximumMs :: int
  wc_cooldownFallbackMs :: int
  wc_temporaryCooldownMs :: int
  wc_selectionPolicy :: selection_policy
  wc_connectionMode :: connection_mode
  wc_stickySessions :: bool
  wc_leaseDurationMs :: int
  wc_heartbeatIntervalMs :: int

definition default_worker_config :: worker_config where
  "default_worker_config = \<lparr>wc_globalWorkers = 1, wc_perProxyWorkers = 1, wc_perOriginPages = 1, wc_maxInflight = 8,
     wc_requestsPerSecond = None, wc_burstLimit = 4, wc_respectRetryAfter = True, wc_retryAfterMaximumMs = 300000,
     wc_cooldownMaximumMs = 300000, wc_cooldownFallbackMs = 30000, wc_temporaryCooldownMs = 5000,
     wc_selectionPolicy = WeightedRoundRobin, wc_connectionMode = DirectMode, wc_stickySessions = True,
     wc_leaseDurationMs = 60000, wc_heartbeatIntervalMs = 15000\<rparr>"

definition max_concurrency :: int where [policy_defs]: "max_concurrency = 256"
definition max_request_limit :: int where [policy_defs]: "max_request_limit = 100000"
definition max_duration_ms :: int where [policy_defs]: "max_duration_ms = 86400000"

definition assert_integer :: "js_value \<Rightarrow> int \<Rightarrow> int \<Rightarrow> scheduler_error + int" where
  "assert_integer v lo hi = need (safe_int_between lo hi v) SCHEDULER_CONFIG_INVALID"

definition assert_duration :: "js_value \<Rightarrow> int \<Rightarrow> scheduler_error + int" where
  "assert_duration v lo = assert_integer v lo max_duration_ms"

definition selection_of_text :: "js_value \<Rightarrow> selection_policy option" where
  "selection_of_text v = (case v of VStr s \<Rightarrow> List.find (\<lambda>p. selection_text p = s) [WeightedRoundRobin, LeastLoaded, Sticky] | _ \<Rightarrow> None)"

definition connection_of_text :: "js_value \<Rightarrow> connection_mode option" where
  "connection_of_text v = (case v of VStr s \<Rightarrow> List.find (\<lambda>p. connection_text p = s) [DirectMode, SingleProxy, ProxyPool] | _ \<Rightarrow> None)"

text \<open>The checks in the order of the code; the accepted configuration is the input, read as integers.\<close>

definition validate_worker_config :: "js_value \<Rightarrow> scheduler_error + worker_config" where
  "validate_worker_config v =
     (let bad = SCHEDULER_CONFIG_INVALID; p = prop_of v in
      ebind (ensure (is_object v \<and> p ''version'' = VNum (js_int 1)) bad) (\<lambda>_.
      ebind (assert_integer (p ''globalWorkerConcurrency'') 1 max_concurrency) (\<lambda>workers.
      ebind (assert_integer (p ''perProxyWorkerConcurrency'') 1 max_concurrency) (\<lambda>perProxy.
      ebind (assert_integer (p ''perOriginPageConcurrency'') 1 max_concurrency) (\<lambda>perOrigin.
      ebind (assert_integer (p ''perOriginMaxInflightRequests'') 1 max_request_limit) (\<lambda>inflight.
      ebind (if p ''perOriginRequestsPerSecond'' = VNull then Inr None
             else ebind (assert_integer (p ''perOriginRequestsPerSecond'') 1 max_request_limit) (\<lambda>r. Inr (Some (nat r)))) (\<lambda>rate.
      ebind (assert_integer (p ''burstLimit'') 1 max_request_limit) (\<lambda>burst.
      ebind (need (bool_of (p ''respectRetryAfter'')) bad) (\<lambda>respect.
      ebind (assert_duration (p ''retryAfterMaximumMs'') 0) (\<lambda>retryMax.
      ebind (assert_duration (p ''originCooldownMaximumMs'') 0) (\<lambda>coolMax.
      ebind (assert_duration (p ''originCooldownFallbackMs'') 0) (\<lambda>fallback.
      ebind (assert_duration (p ''temporaryErrorCooldownMs'') 0) (\<lambda>temporary.
      ebind (need (selection_of_text (p ''selectionPolicy'')) bad) (\<lambda>policy.
      ebind (need (connection_of_text (p ''connectionMode'')) bad) (\<lambda>mode.
      ebind (need (bool_of (p ''stickyAuthenticatedSessions'')) bad) (\<lambda>sticky.
      ebind (assert_duration (p ''leaseDurationMs'') 5000) (\<lambda>lease.
      ebind (assert_duration (p ''heartbeatIntervalMs'') 1000) (\<lambda>beat.
      ebind (ensure (\<not> lease \<le> beat) bad) (\<lambda>_.
      Inr \<lparr>wc_globalWorkers = nat workers, wc_perProxyWorkers = nat perProxy, wc_perOriginPages = nat perOrigin,
        wc_maxInflight = nat inflight, wc_requestsPerSecond = rate, wc_burstLimit = nat burst,
        wc_respectRetryAfter = respect, wc_retryAfterMaximumMs = retryMax, wc_cooldownMaximumMs = coolMax,
        wc_cooldownFallbackMs = fallback, wc_temporaryCooldownMs = temporary, wc_selectionPolicy = policy,
        wc_connectionMode = mode, wc_stickySessions = sticky, wc_leaseDurationMs = lease,
        wc_heartbeatIntervalMs = beat\<rparr>)))))))))))))))))))"

text \<open>What every accepted configuration satisfies; the operations below are given such a one.\<close>

definition config_ok :: "worker_config \<Rightarrow> bool" where
  "config_ok c = (1 \<le> wc_globalWorkers c \<and> wc_globalWorkers c \<le> 256 \<and> 1 \<le> wc_perProxyWorkers c \<and> wc_perProxyWorkers c \<le> 256 \<and>
     1 \<le> wc_perOriginPages c \<and> wc_perOriginPages c \<le> 256 \<and> 1 \<le> wc_maxInflight c \<and> wc_maxInflight c \<le> 100000 \<and>
     (case wc_requestsPerSecond c of None \<Rightarrow> True | Some r \<Rightarrow> 1 \<le> r \<and> r \<le> 100000) \<and>
     1 \<le> wc_burstLimit c \<and> wc_burstLimit c \<le> 100000 \<and>
     0 \<le> wc_retryAfterMaximumMs c \<and> wc_retryAfterMaximumMs c \<le> 86400000 \<and>
     0 \<le> wc_cooldownMaximumMs c \<and> wc_cooldownMaximumMs c \<le> 86400000 \<and>
     0 \<le> wc_cooldownFallbackMs c \<and> wc_cooldownFallbackMs c \<le> 86400000 \<and>
     0 \<le> wc_temporaryCooldownMs c \<and> wc_temporaryCooldownMs c \<le> 86400000 \<and>
     5000 \<le> wc_leaseDurationMs c \<and> wc_leaseDurationMs c \<le> 86400000 \<and>
     1000 \<le> wc_heartbeatIntervalMs c \<and> wc_heartbeatIntervalMs c < wc_leaseDurationMs c)"

lemma assert_integer_Inr_iff [result_simps]:
  "assert_integer v lo hi = Inr i \<longleftrightarrow> v = VNum (js_int i) \<and> lo \<le> i \<and> i \<le> hi \<and> \<bar>i\<bar> \<le> max_safe_integer"
  by (auto simp: assert_integer_def result_simps safe_int_between_Some_iff)

lemma assert_duration_Inr_iff [result_simps]:
  "assert_duration v lo = Inr i \<longleftrightarrow> v = VNum (js_int i) \<and> lo \<le> i \<and> i \<le> max_duration_ms \<and> \<bar>i\<bar> \<le> max_safe_integer"
  by (simp add: assert_duration_def assert_integer_Inr_iff)

lemma validate_worker_config_ok: "validate_worker_config v = Inr c \<Longrightarrow> config_ok c"
  unfolding validate_worker_config_def Let_def
  by (clarsimp simp: result_simps max_concurrency_def max_request_limit_def max_duration_ms_def split: if_splits)
    (auto simp: config_ok_def)

lemma default_worker_config_ok: "config_ok default_worker_config"
  by (simp add: config_ok_def default_worker_config_def)

section \<open>Origins and jobs\<close>

text \<open>What the source reads of a \<open>URL\<close> object; \<open>parse_url\<close> is its constructor, \<open>None\<close> when it throws.\<close>

record parsed_url =
  pu_protocol :: string
  pu_username :: string
  pu_password :: string
  pu_origin :: string

type_synonym url_parser = "string \<Rightarrow> parsed_url option"

definition canonical_origin :: "url_parser \<Rightarrow> string \<Rightarrow> scheduler_error + string" where
  "canonical_origin parse_url url = (case parse_url url of
     None \<Rightarrow> Inl SCHEDULER_JOB_INVALID
   | Some u \<Rightarrow>
       if pu_protocol u \<noteq> ''http:'' \<and> pu_protocol u \<noteq> ''https:'' then Inl SCHEDULER_JOB_INVALID
       else if pu_username u \<noteq> [] \<or> pu_password u \<noteq> [] then Inl SCHEDULER_JOB_INVALID
       else Inr (pu_origin u))"

record session_affinity =
  sa_sessionId :: string
  sa_proxyId :: "string option"
  sa_browserProfileId :: string

text \<open>An absent \<open>proxyId\<close> and a null one are treated alike everywhere and are \<open>None\<close>.\<close>

record scheduler_job =
  jb_jobId :: string
  jb_url :: string
  jb_origin :: "string option"
  jb_proxyId :: "string option"
  jb_session :: "session_affinity option"

definition ident_ok :: "string option \<Rightarrow> bool" where
  "ident_ok x = (case x of None \<Rightarrow> True | Some s \<Rightarrow> safe_identifier s)"

text \<open>The normalised job, with its Origin.\<close>

definition normalize_scheduler_job :: "url_parser \<Rightarrow> scheduler_job \<Rightarrow> scheduler_error + scheduler_job \<times> string" where
  "normalize_scheduler_job parse_url j =
     (let bad = SCHEDULER_JOB_INVALID in
      ebind (ensure (safe_identifier (jb_jobId j)) bad) (\<lambda>_.
      ebind (canonical_origin parse_url (jb_url j)) (\<lambda>origin.
      ebind (ensure (jb_origin j = None \<or> jb_origin j = Some origin) bad) (\<lambda>_.
      ebind (ensure (ident_ok (jb_proxyId j)) bad) (\<lambda>_.
      ebind (case jb_session j of None \<Rightarrow> Inr ()
             | Some s \<Rightarrow> ebind (ensure (safe_identifier (sa_sessionId s) \<and> safe_identifier (sa_browserProfileId s)) bad) (\<lambda>_.
                 ensure (ident_ok (sa_proxyId s)) bad)) (\<lambda>_.
      Inr (j\<lparr>jb_origin := Some origin\<rparr>, origin)))))))"

section \<open>Retry-After\<close>

text \<open>
  \<open>parse_date\<close> is \<open>Date.parse\<close>, whose reading of texts other than ISO timestamps the
  language leaves to the host.
\<close>

definition parse_retry_after_value :: "(string \<Rightarrow> int option) \<Rightarrow> string option \<Rightarrow> int \<Rightarrow> int \<Rightarrow> int option" where
  "parse_retry_after_value parse_date value now_ms maximum = (case value of
     None \<Rightarrow> None
   | Some raw \<Rightarrow> let s = js_trim raw in
       if s \<noteq> [] \<and> list_all is_digit s
       then Some (if max_safe_integer < int (dec_value s) then maximum else min (int (dec_value s) * 1000) maximum)
       else (case parse_date s of None \<Rightarrow> None | Some t \<Rightarrow> Some (min (max 0 (t - now_ms)) maximum)))"

definition parse_retry_after :: "(string \<Rightarrow> int option) \<Rightarrow> string option \<Rightarrow> jsnum \<Rightarrow> jsnum \<Rightarrow> scheduler_error + int option" where
  "parse_retry_after parse_date value now_ms maximum = (case (safe_int now_ms, safe_int maximum) of
     (Some t, Some m) \<Rightarrow> if t < 0 \<or> m < 0 then Inl SCHEDULER_CONFIG_INVALID
                         else Inr (parse_retry_after_value parse_date value t m)
   | _ \<Rightarrow> Inl SCHEDULER_CONFIG_INVALID)"

lemma parse_retry_after_value_bounds:
  "parse_retry_after_value pd v t m = Some d \<Longrightarrow> 0 \<le> m \<Longrightarrow> 0 \<le> d \<and> d \<le> m"
  by (auto simp: parse_retry_after_value_def Let_def split: option.splits if_splits)

lemma retry_after_seconds:
  "list_all is_digit s \<Longrightarrow> s \<noteq> [] \<Longrightarrow> 0 \<le> m \<Longrightarrow> m \<le> max_safe_integer \<Longrightarrow>
   parse_retry_after_value pd (Some s) t m = Some (min (int (dec_value s) * 1000) m)"
proof -
  assume s: "list_all is_digit s" "s \<noteq> []" "0 \<le> m" "m \<le> max_safe_integer"
  have sp: "\<not> is_space c" if "is_digit c" for c using that by (auto simp: is_space_def is_digit_def)
  then have "dropWhile is_space s = s" using s(1,2) by (cases s) (auto simp: list_all_iff)
  moreover have "dropWhile is_space (rev s) = rev s"
    using s(1,2) sp by (cases "rev s") (auto simp: list_all_iff dest: arg_cong[of "rev s" _ set])
  ultimately have "js_trim s = s" by (simp add: js_trim_def)
  then show ?thesis using s by (auto simp: parse_retry_after_value_def)
qed

end
