(* ===== verification/Origin_Budget.thy ===== *)
theory Origin_Budget
  imports Worker_Config
begin

text \<open>
  packages/archive-core/src/scheduler.ts, the class \<open>InMemoryOriginNetworkBudget\<close>: a token
  bucket, a bound on the requests in flight and a cooldown for every Origin. The map of Origins is
  \<open>bg_states\<close>; a permit is its place in \<open>bg_permits\<close>, where its closure's
  \<open>released\<close> flag lives. Times are integer milliseconds, tokens and waits exact rationals.
\<close>

record origin_state =
  os_inflight :: nat
  os_tokens :: rat
  os_lastRefillMs :: int
  os_cooldownUntilMs :: "int option"
  os_lastStatus :: "int option"

record permit =
  pm_origin :: string
  pm_acquiredAtMs :: int
  pm_released :: bool

record budget =
  bg_states :: "string \<Rightarrow> origin_state option"
  bg_permits :: "permit list"

record origin_snapshot =
  sn_origin :: string
  sn_inflight :: nat
  sn_maxInflight :: nat
  sn_cooldownUntilMs :: "int option"
  sn_lastStatus :: "int option"
  sn_requestsPerSecond :: "nat option"
  sn_burstLimit :: nat

definition new_budget :: budget where
  "new_budget = \<lparr>bg_states = (\<lambda>_. None), bg_permits = []\<rparr>"

section \<open>The operations\<close>

text \<open>\<open>sleepWithSignal\<close> waits for at least a millisecond, in whole milliseconds.\<close>

definition sleep_ms :: "rat \<Rightarrow> int" where
  "sleep_ms w = max 1 \<lceil>w\<rceil>"

definition fresh_state :: "worker_config \<Rightarrow> int \<Rightarrow> origin_state" where
  "fresh_state c t = \<lparr>os_inflight = 0, os_tokens = of_nat (wc_burstLimit c), os_lastRefillMs = t,
     os_cooldownUntilMs = None, os_lastStatus = None\<rparr>"

definition state_of :: "worker_config \<Rightarrow> string \<Rightarrow> int \<Rightarrow> budget \<Rightarrow> origin_state" where
  "state_of c origin t b = (case bg_states b origin of None \<Rightarrow> fresh_state c t | Some st \<Rightarrow> st)"

definition put_state :: "string \<Rightarrow> origin_state \<Rightarrow> budget \<Rightarrow> budget" where
  "put_state origin st b = b\<lparr>bg_states := (bg_states b)(origin := Some st)\<rparr>"

definition refill :: "worker_config \<Rightarrow> origin_state \<Rightarrow> int \<Rightarrow> origin_state" where
  "refill c st t = (case wc_requestsPerSecond c of
     None \<Rightarrow> st\<lparr>os_lastRefillMs := t\<rparr>
   | Some rate \<Rightarrow>
       if t \<le> os_lastRefillMs st then st
       else st\<lparr>os_tokens := min (of_nat (wc_burstLimit c))
                (os_tokens st + of_int (t - os_lastRefillMs st) / 1000 * of_nat rate),
              os_lastRefillMs := t\<rparr>)"

definition cooling :: "origin_state \<Rightarrow> int \<Rightarrow> bool" where
  "cooling st t = (case os_cooldownUntilMs st of None \<Rightarrow> False | Some u \<Rightarrow> t < u)"

definition wait_milliseconds :: "worker_config \<Rightarrow> origin_state \<Rightarrow> int \<Rightarrow> rat" where
  "wait_milliseconds c st t =
     (if cooling st t then of_int (the (os_cooldownUntilMs st) - t)
      else if wc_maxInflight c \<le> os_inflight st then 10
      else case wc_requestsPerSecond c of
        None \<Rightarrow> 0
      | Some rate \<Rightarrow> if 1 \<le> os_tokens st then 0 else max 1 ((1 - os_tokens st) / of_nat rate * 1000))"

definition take_token :: "worker_config \<Rightarrow> origin_state \<Rightarrow> origin_state" where
  "take_token c st = (if wc_requestsPerSecond c = None then st else st\<lparr>os_tokens := os_tokens st - 1\<rparr>)
     \<lparr>os_inflight := os_inflight st + 1\<rparr>"

text \<open>One turn of the loop of \<open>acquire\<close>: the place of the permit, or how long to sleep.\<close>

definition acquire_turn :: "worker_config \<Rightarrow> string \<Rightarrow> int \<Rightarrow> budget \<Rightarrow> (rat + nat) \<times> budget" where
  "acquire_turn c origin t b =
     (let st = refill c (state_of c origin t b) t;
          w = wait_milliseconds c st t
      in if w \<le> 0
         then (Inr (length (bg_permits b)),
               (put_state origin (take_token c st) b)\<lparr>bg_permits := bg_permits b @
                  [\<lparr>pm_origin = origin, pm_acquiredAtMs = t, pm_released = False\<rparr>]\<rparr>)
         else (Inl w, put_state origin st b))"

text \<open>
  The loop, over what it observes each time round: the abort signal or the clock. With no
  observation left the call has not returned yet.
\<close>

datatype turn = Aborted | Clock int

datatype acquire_result = Permit nat | Cancelled | Sleeping rat

fun acquire_loop :: "worker_config \<Rightarrow> string \<Rightarrow> turn list \<Rightarrow> budget \<Rightarrow> acquire_result \<times> budget" where
  "acquire_loop c origin [] b = (Sleeping 0, b)"
| "acquire_loop c origin (Aborted # ts) b = (Cancelled, b)"
| "acquire_loop c origin (Clock t # ts) b =
     (case acquire_turn c origin t b of
        (Inr i, b') \<Rightarrow> (Permit i, b')
      | (Inl w, b') \<Rightarrow> if ts = [] then (Sleeping w, b') else acquire_loop c origin ts b')"

definition acquire :: "url_parser \<Rightarrow> worker_config \<Rightarrow> string \<Rightarrow> turn list \<Rightarrow> budget \<Rightarrow> (scheduler_error + acquire_result) \<times> budget" where
  "acquire parse_url c url ts b = (case canonical_origin parse_url url of
     Inl e \<Rightarrow> (Inl e, b)
   | Inr origin \<Rightarrow> (case acquire_loop c origin ts b of
       (Cancelled, b') \<Rightarrow> (Inl SCHEDULER_CANCELLED, b')
     | (r, b') \<Rightarrow> (Inr r, b')))"

text \<open>\<open>permit.release()\<close>.\<close>

definition release :: "nat \<Rightarrow> budget \<Rightarrow> budget" where
  "release i b =
     (if i < length (bg_permits b) \<and> \<not> pm_released (bg_permits b ! i)
      then (let p = bg_permits b ! i;
                b' = b\<lparr>bg_permits := (bg_permits b)[i := p\<lparr>pm_released := True\<rparr>]\<rparr>
            in case bg_states b (pm_origin p) of
                 None \<Rightarrow> b'
               | Some st \<Rightarrow> put_state (pm_origin p) (st\<lparr>os_inflight := os_inflight st - 1\<rparr>) b')
      else b)"

definition is_paused_at :: "worker_config \<Rightarrow> string \<Rightarrow> int \<Rightarrow> budget \<Rightarrow> bool \<times> budget" where
  "is_paused_at c origin t b = (let st = state_of c origin t b in (cooling st t, put_state origin st b))"

definition is_paused :: "url_parser \<Rightarrow> worker_config \<Rightarrow> string \<Rightarrow> int \<Rightarrow> budget \<Rightarrow> scheduler_error + bool \<times> budget" where
  "is_paused parse_url c url t b = ebind (canonical_origin parse_url url) (\<lambda>origin. Inr (is_paused_at c origin t b))"

definition snapshot_at :: "worker_config \<Rightarrow> string \<Rightarrow> int \<Rightarrow> budget \<Rightarrow> origin_snapshot \<times> budget" where
  "snapshot_at c origin t b =
     (let st = refill c (state_of c origin t b) t;
          st' = (if os_cooldownUntilMs st \<noteq> None \<and> \<not> cooling st t then st\<lparr>os_cooldownUntilMs := None\<rparr> else st)
      in (\<lparr>sn_origin = origin, sn_inflight = os_inflight st', sn_maxInflight = wc_maxInflight c,
            sn_cooldownUntilMs = os_cooldownUntilMs st', sn_lastStatus = os_lastStatus st',
            sn_requestsPerSecond = wc_requestsPerSecond c, sn_burstLimit = wc_burstLimit c\<rparr>,
          put_state origin st' b))"

definition snapshot :: "url_parser \<Rightarrow> worker_config \<Rightarrow> string \<Rightarrow> int \<Rightarrow> budget \<Rightarrow> scheduler_error + origin_snapshot \<times> budget" where
  "snapshot parse_url c url t b = ebind (canonical_origin parse_url url) (\<lambda>origin. Inr (snapshot_at c origin t b))"

text \<open>The delay a response asks for; a 429 without a usable header falls back to the configured one.\<close>

definition response_delay :: "(string \<Rightarrow> int option) \<Rightarrow> worker_config \<Rightarrow> int \<Rightarrow> string option \<Rightarrow> int \<Rightarrow> int option" where
  "response_delay parse_date c status header t =
     (if status = 429 then
        (case (if wc_respectRetryAfter c
               then parse_retry_after_value parse_date header t (min (wc_retryAfterMaximumMs c) (wc_cooldownMaximumMs c))
               else None) of
           None \<Rightarrow> Some (min (wc_cooldownFallbackMs c) (wc_cooldownMaximumMs c))
         | Some d \<Rightarrow> Some d)
      else if status = 503 then Some (min (wc_temporaryCooldownMs c) (wc_cooldownMaximumMs c))
      else None)"

definition respond_state :: "(string \<Rightarrow> int option) \<Rightarrow> worker_config \<Rightarrow> int \<Rightarrow> string option \<Rightarrow> int \<Rightarrow> origin_state \<Rightarrow> origin_state" where
  "respond_state parse_date c status header t st =
     (let st' = st\<lparr>os_lastStatus := Some status\<rparr> in
      case response_delay parse_date c status header t of
        None \<Rightarrow> st'
      | Some d \<Rightarrow> if 0 < d
          then st'\<lparr>os_cooldownUntilMs := Some (max (case os_cooldownUntilMs st of None \<Rightarrow> 0 | Some u \<Rightarrow> u) (t + d))\<rparr>
          else st')"

definition respond_at :: "(string \<Rightarrow> int option) \<Rightarrow> worker_config \<Rightarrow> string \<Rightarrow> int \<Rightarrow> string option \<Rightarrow> int \<Rightarrow> budget \<Rightarrow> origin_snapshot \<times> budget" where
  "respond_at parse_date c origin status header t b =
     snapshot_at c origin t (put_state origin (respond_state parse_date c status header t (state_of c origin t b)) b)"

text \<open>\<open>recordResponse\<close>; the snapshot goes to the \<open>onRateLimit\<close> callback for the two statuses below.\<close>

definition notifies :: "int \<Rightarrow> bool" where
  "notifies status = (status = 429 \<or> status = 503)"

definition record_response :: "url_parser \<Rightarrow> (string \<Rightarrow> int option) \<Rightarrow> worker_config \<Rightarrow> string \<Rightarrow> jsnum \<Rightarrow> string option \<Rightarrow> int
    \<Rightarrow> budget \<Rightarrow> scheduler_error + origin_snapshot \<times> budget" where
  "record_response parse_url parse_date c url status header t b =
     ebind (canonical_origin parse_url url) (\<lambda>origin.
     ebind (need (bounded_int 100 599 status) SCHEDULER_CONFIG_INVALID) (\<lambda>code.
     Inr (respond_at parse_date c origin code header t b)))"

definition restore_at :: "worker_config \<Rightarrow> string \<Rightarrow> int \<Rightarrow> int option \<Rightarrow> int \<Rightarrow> budget \<Rightarrow> budget" where
  "restore_at c origin until status t b =
     put_state origin ((state_of c origin t b)\<lparr>os_cooldownUntilMs := Some until, os_lastStatus := status\<rparr>) b"

definition restore :: "url_parser \<Rightarrow> worker_config \<Rightarrow> string \<Rightarrow> jsnum \<Rightarrow> int option \<Rightarrow> int \<Rightarrow> budget \<Rightarrow> scheduler_error + budget" where
  "restore parse_url c url until status t b =
     ebind (canonical_origin parse_url url) (\<lambda>origin.
     ebind (need (safe_int until) SCHEDULER_CONFIG_INVALID) (\<lambda>u.
     ebind (ensure (\<not> u < 0) SCHEDULER_CONFIG_INVALID) (\<lambda>_.
     Inr (restore_at c origin u status t b))))"

section \<open>Runs\<close>

text \<open>
  What can happen to a budget while the clock advances: the calls of any number of concurrent
  requests, interleaved at the granularity of JavaScript, where a turn is never interrupted.
\<close>

inductive budget_call :: "(string \<Rightarrow> int option) \<Rightarrow> worker_config \<Rightarrow> budget \<times> int \<Rightarrow> budget \<times> int \<Rightarrow> bool"
  for pd :: "string \<Rightarrow> int option" and c :: worker_config where
  tick: "t \<le> t' \<Longrightarrow> budget_call pd c (b, t) (b, t')"
| turn: "acquire_turn c origin t b = (r, b') \<Longrightarrow> budget_call pd c (b, t) (b', t)"
| free: "budget_call pd c (b, t) (release i b, t)"
| paused: "budget_call pd c (b, t) (snd (is_paused_at c origin t b), t)"
| view: "budget_call pd c (b, t) (snd (snapshot_at c origin t b), t)"
| respond: "budget_call pd c (b, t) (snd (respond_at pd c origin status header t b), t)"

text \<open>\<open>restore\<close>, which may overwrite a cooldown, is told apart.\<close>

inductive budget_step :: "(string \<Rightarrow> int option) \<Rightarrow> worker_config \<Rightarrow> budget \<times> int \<Rightarrow> budget \<times> int \<Rightarrow> bool"
  for pd :: "string \<Rightarrow> int option" and c :: worker_config where
  called: "budget_call pd c s s' \<Longrightarrow> budget_step pd c s s'"
| restored: "budget_step pd c (b, t) (restore_at c origin until status t b, t)"

inductive_cases budget_callE: "budget_call pd c (b, t) (b', t')"

abbreviation budget_calls :: "(string \<Rightarrow> int option) \<Rightarrow> worker_config \<Rightarrow> budget \<times> int \<Rightarrow> budget \<times> int \<Rightarrow> bool" where
  "budget_calls pd c \<equiv> (budget_call pd c)\<^sup>*\<^sup>*"

abbreviation budget_run :: "(string \<Rightarrow> int option) \<Rightarrow> worker_config \<Rightarrow> budget \<times> int \<Rightarrow> budget \<times> int \<Rightarrow> bool" where
  "budget_run pd c \<equiv> (budget_step pd c)\<^sup>*\<^sup>*"

text \<open>The permits ever handed out for an Origin, and those still held.\<close>

definition granted :: "string \<Rightarrow> budget \<Rightarrow> nat" where
  "granted origin b = count_where (\<lambda>p. pm_origin p = origin) (bg_permits b)"

definition held :: "string \<Rightarrow> budget \<Rightarrow> nat" where
  "held origin b = count_where (\<lambda>p. pm_origin p = origin \<and> \<not> pm_released p) (bg_permits b)"

definition state_ok :: "worker_config \<Rightarrow> int \<Rightarrow> origin_state \<Rightarrow> bool" where
  "state_ok c t st = (os_inflight st \<le> wc_maxInflight c \<and> 0 \<le> os_tokens st \<and> os_tokens st \<le> of_nat (wc_burstLimit c) \<and>
     os_lastRefillMs st \<le> t)"

definition budget_ok :: "worker_config \<Rightarrow> budget \<times> int \<Rightarrow> bool" where
  "budget_ok c s = (\<forall>origin. case bg_states (fst s) origin of
     None \<Rightarrow> held origin (fst s) = 0
   | Some st \<Rightarrow> state_ok c (snd s) st \<and> os_inflight st = held origin (fst s))"

text \<open>The tokens an Origin would have if it were refilled now.\<close>

definition credit :: "worker_config \<Rightarrow> nat \<Rightarrow> string \<Rightarrow> budget \<times> int \<Rightarrow> rat" where
  "credit c rate origin s = (case bg_states (fst s) origin of
     None \<Rightarrow> of_nat (wc_burstLimit c)
   | Some st \<Rightarrow> min (of_nat (wc_burstLimit c)) (os_tokens st + of_int (snd s - os_lastRefillMs st) / 1000 * of_nat rate))"

end
