(* ===== verification/Budget_Sound.thy ===== *)
theory Budget_Sound
  imports Origin_Budget
begin

text \<open>
  The invariant of the request budget along any run, and the amount of credit every step spends: the
  two facts the properties of the scheduler rest on.
\<close>

section \<open>States\<close>

named_theorems budget_simps \<open>what an operation leaves of a budget\<close>

lemma put_state_simps [simp]:
  "bg_states (put_state origin st b) = (bg_states b)(origin := Some st)"
  "bg_permits (put_state origin st b) = bg_permits b"
  by (simp_all add: put_state_def)

lemma fresh_state_simps [simp]:
  "os_inflight (fresh_state c t) = 0" "os_tokens (fresh_state c t) = of_nat (wc_burstLimit c)"
  "os_lastRefillMs (fresh_state c t) = t" "os_cooldownUntilMs (fresh_state c t) = None" "os_lastStatus (fresh_state c t) = None"
  by (simp_all add: fresh_state_def)

lemma refill_simps [simp]:
  "os_inflight (refill c st t) = os_inflight st"
  "os_cooldownUntilMs (refill c st t) = os_cooldownUntilMs st"
  "os_lastStatus (refill c st t) = os_lastStatus st"
  by (simp_all add: refill_def split: option.splits)

lemma take_token_simps [simp]:
  "os_inflight (take_token c st) = os_inflight st + 1"
  "os_tokens (take_token c st) = (if wc_requestsPerSecond c = None then os_tokens st else os_tokens st - 1)"
  "os_lastRefillMs (take_token c st) = os_lastRefillMs st"
  "os_cooldownUntilMs (take_token c st) = os_cooldownUntilMs st"
  by (simp_all add: take_token_def)

lemma held_put [simp]: "held o' (put_state origin st b) = held o' b"
  by (simp add: held_def)

lemma granted_put [simp]: "granted o' (put_state origin st b) = granted o' b"
  by (simp add: granted_def)

lemma count_where_update:
  assumes "i < length xs"
  shows "count_where p (xs[i := y]) + (if p (xs ! i) then 1 else 0) = count_where p xs + (if p y then 1 else 0)"
  using assms
proof (induction xs arbitrary: i)
  case Nil
  then show ?case by simp
next
  case (Cons x xs)
  then show ?case using Cons.IH[of "i - 1"] by (cases i) auto
qed

lemma state_ok_fresh: "state_ok c t (fresh_state c t)"
  by (simp add: state_ok_def)

lemma state_ok_refill: "state_ok c t st \<Longrightarrow> state_ok c t (refill c st t)"
  by (auto simp: state_ok_def refill_def intro!: add_nonneg_nonneg mult_nonneg_nonneg split: option.splits)

lemma state_ok_later: "state_ok c t st \<Longrightarrow> t \<le> t' \<Longrightarrow> state_ok c t' st"
  by (simp add: state_ok_def)

lemma budget_ok_iff: "budget_ok c (b, t) \<longleftrightarrow>
    (\<forall>origin. bg_states b origin = None \<longrightarrow> held origin b = 0) \<and>
    (\<forall>origin st. bg_states b origin = Some st \<longrightarrow> state_ok c t st \<and> os_inflight st = held origin b)"
  by (auto simp: budget_ok_def split: option.splits)

lemma credit_pair: "credit c rate origin (b, t) = (case bg_states b origin of
     None \<Rightarrow> of_nat (wc_burstLimit c)
   | Some st \<Rightarrow> min (of_nat (wc_burstLimit c)) (os_tokens st + of_int (t - os_lastRefillMs st) / 1000 * of_nat rate))"
  by (simp add: credit_def cong: option.case_cong)

lemma min_shift: "0 \<le> (d :: rat) \<Longrightarrow> min m (x + d) \<le> min m x + d"
  by (auto simp: min_def)

lemma budget_okD:
  assumes "budget_ok c (b, t)"
  shows "state_ok c t (state_of c origin t b)" "os_inflight (state_of c origin t b) = held origin b"
  using assms by (auto simp: budget_ok_iff state_of_def state_ok_fresh split: option.splits)

lemma wait_positive_unless:
  "wait_milliseconds c st t \<le> 0 \<longleftrightarrow> \<not> cooling st t \<and> os_inflight st < wc_maxInflight c \<and>
     (wc_requestsPerSecond c = None \<or> 1 \<le> os_tokens st)"
  by (auto simp: wait_milliseconds_def cooling_def split: option.splits)

section \<open>The invariant\<close>

text \<open>An operation that hands out no permit and ends none.\<close>

lemma put_keeps:
  assumes "budget_ok c (b, t)" "state_ok c t st" "os_inflight st = os_inflight (state_of c origin t b)"
  shows "budget_ok c (put_state origin st b, t)"
proof -
  have "os_inflight st = held origin b" using assms(3) budget_okD(2)[OF assms(1)] by simp
  then show ?thesis using assms(1,2) by (simp add: budget_ok_iff)
qed

lemma turn_keeps:
  assumes "budget_ok c (b, t)" "acquire_turn c origin t b = (r, b')"
  shows "budget_ok c (b', t)"
proof (cases r)
  case (Inl w)
  then have "b' = put_state origin (refill c (state_of c origin t b) t) b"
    using assms(2) by (auto simp: acquire_turn_def Let_def split: if_splits)
  then show ?thesis using put_keeps[OF assms(1)] state_ok_refill[OF budget_okD(1)[OF assms(1)]] by simp
next
  case (Inr i)
  let ?st = "refill c (state_of c origin t b) t"
  let ?p = "\<lparr>pm_origin = origin, pm_acquiredAtMs = t, pm_released = False\<rparr>"
  have w: "wait_milliseconds c ?st t \<le> 0" and b': "b' = (put_state origin (take_token c ?st) b)\<lparr>bg_permits := bg_permits b @ [?p]\<rparr>"
    using assms(2) Inr by (auto simp: acquire_turn_def Let_def split: if_splits)
  have held: "held o' b' = held o' b + (if o' = origin then 1 else 0)" for o'
    by (simp add: held_def b')
  have "state_ok c t ?st" "os_inflight ?st = held origin b"
    using state_ok_refill[OF budget_okD(1)[OF assms(1)]] budget_okD(2)[OF assms(1)] by simp_all
  then have "state_ok c t (take_token c ?st)" "os_inflight (take_token c ?st) = held origin b + 1"
    using w by (auto simp: state_ok_def wait_positive_unless)
  moreover have "bg_states b' = (bg_states b)(origin := Some (take_token c ?st))" by (simp add: b')
  ultimately show ?thesis using assms(1) by (simp add: budget_ok_iff held)
qed

lemma release_keeps:
  assumes "budget_ok c (b, t)" shows "budget_ok c (release i b, t)"
proof (cases "i < length (bg_permits b) \<and> \<not> pm_released (bg_permits b ! i)")
  case True
  define p where "p = bg_permits b ! i"
  let ?ps = "(bg_permits b)[i := p\<lparr>pm_released := True\<rparr>]"
  have held: "held o' (b\<lparr>bg_permits := ?ps\<rparr>) + (if pm_origin p = o' then 1 else 0) = held o' b" for o'
    using count_where_update[of i "bg_permits b" "\<lambda>q. pm_origin q = o' \<and> \<not> pm_released q" "p\<lparr>pm_released := True\<rparr>"] True
    by (simp add: held_def p_def split: if_splits)
  have one: "1 \<le> held (pm_origin p) b" using held[of "pm_origin p"] by simp
  then obtain st where st: "bg_states b (pm_origin p) = Some st"
    using assms by (cases "bg_states b (pm_origin p)") (auto simp: budget_ok_iff)
  have rel: "release i b = put_state (pm_origin p) (st\<lparr>os_inflight := os_inflight st - 1\<rparr>) (b\<lparr>bg_permits := ?ps\<rparr>)"
    using True st by (simp add: release_def p_def Let_def)
  have ok: "state_ok c t st" "os_inflight st = held (pm_origin p) b"
    using assms st by (simp_all add: budget_ok_iff)
  have other: "held o' (b\<lparr>bg_permits := ?ps\<rparr>) = held o' b" if "o' \<noteq> pm_origin p" for o'
    using held[of o'] that by simp
  have same: "os_inflight st - 1 = held (pm_origin p) (b\<lparr>bg_permits := ?ps\<rparr>)"
    using held[of "pm_origin p"] ok(2) by simp
  moreover have "state_ok c t (st\<lparr>os_inflight := os_inflight st - 1\<rparr>)" using ok(1) by (auto simp: state_ok_def)
  ultimately show ?thesis using assms same other by (auto simp: budget_ok_iff rel)
next
  case False
  then show ?thesis using assms unfolding release_def by (simp only: if_False)
qed

lemma paused_is_put: "snd (is_paused_at c origin t b) = put_state origin (state_of c origin t b) b"
  by (simp add: is_paused_at_def Let_def)

lemma snapshot_is_put:
  "\<exists>st. snd (snapshot_at c origin t b) = put_state origin st b \<and> os_inflight st = os_inflight (state_of c origin t b) \<and>
     os_tokens st = os_tokens (refill c (state_of c origin t b) t) \<and>
     os_lastRefillMs st = os_lastRefillMs (refill c (state_of c origin t b) t)"
  by (auto simp: snapshot_at_def Let_def)

lemma respond_state_simps [simp]:
  "os_inflight (respond_state pd c status header t st) = os_inflight st"
  "os_tokens (respond_state pd c status header t st) = os_tokens st"
  "os_lastRefillMs (respond_state pd c status header t st) = os_lastRefillMs st"
  "os_lastStatus (respond_state pd c status header t st) = Some status"
  by (simp_all add: respond_state_def Let_def split: option.splits)

lemma snapshot_keeps: "budget_ok c (b, t) \<Longrightarrow> budget_ok c (snd (snapshot_at c origin t b), t)"
proof -
  assume ok: "budget_ok c (b, t)"
  obtain st where "snd (snapshot_at c origin t b) = put_state origin st b" "os_inflight st = os_inflight (state_of c origin t b)"
    "os_tokens st = os_tokens (refill c (state_of c origin t b) t)"
    "os_lastRefillMs st = os_lastRefillMs (refill c (state_of c origin t b) t)"
    using snapshot_is_put by blast
  moreover have "state_ok c t (refill c (state_of c origin t b) t)" using state_ok_refill[OF budget_okD(1)[OF ok]] .
  ultimately show ?thesis using put_keeps[OF ok, of st origin] by (simp add: state_ok_def)
qed

lemma call_keeps:
  assumes "budget_call pd c s s'" "budget_ok c s"
  shows "budget_ok c s'"
  using assms
proof (cases rule: budget_call.cases)
  case (tick t t' b)
  then show ?thesis using assms(2) state_ok_later[of c t _ t'] by (simp add: budget_ok_iff)
next
  case (paused b t origin)
  then show ?thesis using put_keeps[of c b t _ origin] assms(2) budget_okD[of c b t origin] by (simp add: paused_is_put)
next
  case (respond b t origin status header)
  then show ?thesis
    unfolding respond_at_def
    using snapshot_keeps put_keeps[of c b t _ origin] assms(2) budget_okD[of c b t origin] by (simp add: state_ok_def)
qed (auto intro: turn_keeps release_keeps snapshot_keeps)

lemma restore_keeps: "budget_ok c (b, t) \<Longrightarrow> budget_ok c (restore_at c origin until status t b, t)"
  unfolding restore_at_def using put_keeps[of c b t _ origin] budget_okD[of c b t origin] by (simp add: state_ok_def)

lemma step_keeps: "budget_step pd c s s' \<Longrightarrow> budget_ok c s \<Longrightarrow> budget_ok c s'"
  by (induction rule: budget_step.induct) (auto intro: call_keeps restore_keeps)

lemma run_keeps: "budget_run pd c s s' \<Longrightarrow> budget_ok c s \<Longrightarrow> budget_ok c s'"
  by (induction rule: rtranclp_induct) (auto intro: step_keeps)

lemma new_budget_ok: "budget_ok c (new_budget, t)"
  by (simp add: budget_ok_def new_budget_def held_def)

section \<open>Credit\<close>

lemma credit_state: "credit c rate origin (b, t) =
    min (of_nat (wc_burstLimit c)) (os_tokens (state_of c origin t b) +
      of_int (t - os_lastRefillMs (state_of c origin t b)) / 1000 * of_nat rate)"
  by (auto simp: credit_def state_of_def split: option.splits)

lemma credit_refill:
  assumes "wc_requestsPerSecond c = Some rate" "state_ok c t st"
  shows "min (of_nat (wc_burstLimit c)) (os_tokens (refill c st t) + of_int (t - os_lastRefillMs (refill c st t)) / 1000 * of_nat rate) =
      min (of_nat (wc_burstLimit c)) (os_tokens st + of_int (t - os_lastRefillMs st) / 1000 * of_nat rate)"
  using assms by (auto simp: refill_def state_ok_def)

lemma refill_full:
  assumes "wc_requestsPerSecond c = Some rate" "state_ok c t st"
  shows "os_tokens (refill c st t) = min (of_nat (wc_burstLimit c)) (os_tokens st + of_int (t - os_lastRefillMs st) / 1000 * of_nat rate)"
    "os_lastRefillMs (refill c st t) = t"
  using assms by (auto simp: refill_def state_ok_def)

lemma credit_put:
  assumes "os_tokens st = os_tokens (state_of c origin t b)" "os_lastRefillMs st = os_lastRefillMs (state_of c origin t b)"
  shows "credit c rate o' (put_state origin st b, t) = credit c rate o' (b, t)"
  using assms by (auto simp: credit_pair state_of_def split: option.splits)

lemma credit_put_refill:
  assumes "budget_ok c (b, t)" "wc_requestsPerSecond c = Some rate"
    "os_tokens st = os_tokens (refill c (state_of c origin t b) t)"
    "os_lastRefillMs st = os_lastRefillMs (refill c (state_of c origin t b) t)"
  shows "credit c rate o' (put_state origin st b, t) = credit c rate o' (b, t)"
proof (cases "o' = origin")
  case True
  then show ?thesis
    using credit_refill[OF assms(2) budget_okD(1)[OF assms(1)], of origin] assms(3,4)
    by (simp add: credit_state) (simp add: state_of_def)
qed (simp add: credit_pair)

lemma credit_snapshot:
  assumes "budget_ok c (b, t)" "wc_requestsPerSecond c = Some rate"
  shows "credit c rate o' (snd (snapshot_at c origin t b), t) = credit c rate o' (b, t)"
    "granted o' (snd (snapshot_at c origin t b)) = granted o' b"
  using snapshot_is_put[of c origin t b] credit_put_refill[OF assms] by auto

lemma credit_turn:
  assumes "budget_ok c (b, t)" "wc_requestsPerSecond c = Some rate" "acquire_turn c origin t b = (r, b')"
  shows "of_nat (granted o' b') + credit c rate o' (b', t) = of_nat (granted o' b) + credit c rate o' (b, t)"
proof (cases r)
  case (Inl w)
  then have "b' = put_state origin (refill c (state_of c origin t b) t) b"
    using assms(3) by (auto simp: acquire_turn_def Let_def split: if_splits)
  then show ?thesis using credit_put_refill[OF assms(1,2)] by simp
next
  case (Inr i)
  let ?st = "refill c (state_of c origin t b) t"
  have b': "b' = (put_state origin (take_token c ?st) b)\<lparr>bg_permits := bg_permits b @
      [\<lparr>pm_origin = origin, pm_acquiredAtMs = t, pm_released = False\<rparr>]\<rparr>" and w: "wait_milliseconds c ?st t \<le> 0"
    using assms(3) Inr by (auto simp: acquire_turn_def Let_def split: if_splits)
  show ?thesis
  proof (cases "o' = origin")
    case True
    have "credit c rate origin (b, t) = os_tokens ?st"
      using refill_full[OF assms(2) budget_okD(1)[OF assms(1)], of origin] by (simp add: credit_state)
    moreover have "os_tokens ?st \<le> of_nat (wc_burstLimit c)"
      using state_ok_refill[OF budget_okD(1)[OF assms(1)], of origin] by (simp add: state_ok_def)
    ultimately show ?thesis
      using True assms(2) refill_full(2)[OF assms(2) budget_okD(1)[OF assms(1)], of origin]
      by (simp add: b' granted_def credit_pair)
  next
    case False
    then show ?thesis by (simp add: b' granted_def credit_pair)
  qed
qed

lemma release_states:
  "bg_states (release i b) o' = (case bg_states b o' of None \<Rightarrow> None
     | Some st \<Rightarrow> Some (if i < length (bg_permits b) \<and> \<not> pm_released (bg_permits b ! i) \<and> pm_origin (bg_permits b ! i) = o'
         then st\<lparr>os_inflight := os_inflight st - 1\<rparr> else st))"
  by (auto simp: release_def Let_def split: option.splits)

lemma granted_release [simp]: "granted o' (release i b) = granted o' b"
proof -
  have "count_where (\<lambda>p. pm_origin p = o') ((bg_permits b)[i := (bg_permits b ! i)\<lparr>pm_released := True\<rparr>]) =
      count_where (\<lambda>p. pm_origin p = o') (bg_permits b)" if "i < length (bg_permits b)"
    using count_where_update[OF that, of "\<lambda>p. pm_origin p = o'" "(bg_permits b ! i)\<lparr>pm_released := True\<rparr>"] by simp
  then show ?thesis by (auto simp: release_def granted_def Let_def split: option.splits)
qed

lemma credit_release [simp]: "credit c rate o' (release i b, t) = credit c rate o' (b, t)"
  by (auto simp: credit_pair release_states split: option.splits)

text \<open>No step creates credit out of nothing: only the clock does, at the configured rate.\<close>

lemma call_credit:
  assumes "budget_call pd c s s'" "budget_ok c s" "wc_requestsPerSecond c = Some rate"
  shows "of_nat (granted o' (fst s')) + credit c rate o' s' \<le>
    of_nat (granted o' (fst s)) + credit c rate o' s + of_int (snd s' - snd s) / 1000 * of_nat rate \<and> snd s \<le> snd s'"
  using assms(1)
proof (cases rule: budget_call.cases)
  case (tick t t' b)
  have "credit c rate o' (b, t') \<le> credit c rate o' (b, t) + of_int (t' - t) / 1000 * of_nat rate"
  proof (cases "bg_states b o'")
    case None
    then show ?thesis using tick by (simp add: credit_pair)
  next
    case (Some st)
    have "os_tokens st + of_int (t' - os_lastRefillMs st) / 1000 * of_nat rate =
        os_tokens st + of_int (t - os_lastRefillMs st) / 1000 * of_nat rate + (of_int (t' - t) / 1000 * of_nat rate :: rat)"
      by (simp add: field_simps)
    moreover have "0 \<le> (of_int (t' - t) / 1000 * of_nat rate :: rat)" using tick by simp
    ultimately show ?thesis using Some min_shift by (simp only: credit_pair option.simps)
  qed
  then show ?thesis using tick by simp
next
  case (turn origin t b r b')
  then show ?thesis using credit_turn[of c b t rate origin r b' o'] assms(2,3) by simp
next
  case (paused b t origin)
  then show ?thesis by (simp add: paused_is_put credit_put)
next
  case (view b t origin)
  then show ?thesis using credit_snapshot[of c b t rate o' origin] assms(2,3) by simp
next
  case (respond b t origin status header)
  let ?b = "put_state origin (respond_state pd c status header t (state_of c origin t b)) b"
  have "budget_ok c (?b, t)"
    using put_keeps[of c b t _ origin] assms(2) budget_okD[of c b t origin] respond(1) by (simp add: state_ok_def)
  then show ?thesis
    using credit_snapshot[of c ?b t rate o' origin] credit_put[of "respond_state pd c status header t (state_of c origin t b)"]
      respond assms(3) by (simp add: respond_at_def)
qed simp

lemma step_credit:
  assumes "budget_step pd c s s'" "budget_ok c s" "wc_requestsPerSecond c = Some rate"
  shows "of_nat (granted o' (fst s')) + credit c rate o' s' \<le>
    of_nat (granted o' (fst s)) + credit c rate o' s + of_int (snd s' - snd s) / 1000 * of_nat rate \<and> snd s \<le> snd s'"
  using assms(1)
proof (cases rule: budget_step.cases)
  case called
  then show ?thesis using call_credit assms(2,3) by blast
next
  case (restored b t origin until status)
  then show ?thesis by (simp add: restore_at_def credit_put)
qed

lemma run_credit:
  assumes "budget_run pd c s s'" "budget_ok c s" "wc_requestsPerSecond c = Some rate"
  shows "of_nat (granted o' (fst s')) + credit c rate o' s' \<le>
    of_nat (granted o' (fst s)) + credit c rate o' s + of_int (snd s' - snd s) / 1000 * of_nat rate"
  using assms(1)
proof (induction rule: rtranclp_induct)
  case base
  show ?case by simp
next
  case (step u v)
  have ok: "budget_ok c u" using run_keeps[OF step.hyps(1) assms(2)] .
  have "(of_int (snd v - snd s) / 1000 * of_nat rate :: rat) =
      of_int (snd v - snd u) / 1000 * of_nat rate + of_int (snd u - snd s) / 1000 * of_nat rate"
    by (simp add: field_simps)
  then show ?case using step.IH step_credit[OF step.hyps(2) ok assms(3), of o'] by linarith
qed

lemma credit_nonneg:
  assumes "budget_ok c s" shows "0 \<le> credit c rate o' s"
  using assms[unfolded budget_ok_def, rule_format, of o']
  by (auto simp: credit_def state_ok_def intro!: add_nonneg_nonneg mult_nonneg_nonneg split: option.splits)

lemma credit_le_burst: "credit c rate o' s \<le> of_nat (wc_burstLimit c)"
  by (simp add: credit_def split: option.splits)

section \<open>Cooldowns\<close>

text \<open>While the Origin is cooling no turn hands out a permit.\<close>

lemma cooling_refuses:
  assumes "bg_states b origin = Some st" "cooling st t" "acquire_turn c origin t b = (r, b')"
  shows "r = Inl (of_int (the (os_cooldownUntilMs st) - t))" "bg_permits b' = bg_permits b"
proof -
  have "wait_milliseconds c (refill c st t) t = of_int (the (os_cooldownUntilMs st) - t)"
    using assms(2) by (simp add: wait_milliseconds_def cooling_def)
  moreover have "0 < (of_int (the (os_cooldownUntilMs st) - t) :: rat)"
    using assms(2) by (auto simp: cooling_def split: option.splits)
  ultimately show "r = Inl (of_int (the (os_cooldownUntilMs st) - t))" "bg_permits b' = bg_permits b"
    using assms(1,3) by (auto simp: acquire_turn_def state_of_def Let_def split: if_splits)
qed

text \<open>The cooldown an Origin is under, 0 when none was ever set.\<close>

definition until_of :: "string \<Rightarrow> budget \<Rightarrow> int" where
  "until_of origin b = (case bg_states b origin of None \<Rightarrow> 0
     | Some st \<Rightarrow> (case os_cooldownUntilMs st of None \<Rightarrow> 0 | Some u \<Rightarrow> u))"

lemma response_delay_bounds:
  assumes "config_ok c" "response_delay pd c status header t = Some d"
  shows "0 \<le> d \<and> d \<le> wc_cooldownMaximumMs c"
proof -
  have m: "0 \<le> min (wc_retryAfterMaximumMs c) (wc_cooldownMaximumMs c)" "0 \<le> wc_cooldownMaximumMs c"
    "0 \<le> wc_cooldownFallbackMs c" "0 \<le> wc_temporaryCooldownMs c"
    using assms(1) by (simp_all add: config_ok_def)
  then show ?thesis
    using assms(2) parse_retry_after_value_bounds[OF _ m(1), of pd header t d]
    by (auto simp: response_delay_def split: if_splits option.splits)
qed

text \<open>A cooldown that was set lasts: no call other than \<open>restore\<close> shortens it before its time.\<close>

definition cool_until :: "string \<Rightarrow> int \<Rightarrow> budget \<times> int \<Rightarrow> bool" where
  "cool_until origin u s = (case bg_states (fst s) origin of None \<Rightarrow> False
     | Some st \<Rightarrow> (case os_cooldownUntilMs st of None \<Rightarrow> False | Some v \<Rightarrow> u \<le> v))"

lemma cool_until_iff: "cool_until origin u (b, t) \<longleftrightarrow>
    (\<exists>st v. bg_states b origin = Some st \<and> os_cooldownUntilMs st = Some v \<and> u \<le> v)"
  by (auto simp: cool_until_def split: option.splits)

lemma turn_cool:
  assumes "cool_until origin u (b, t)" "acquire_turn c o' t b = (r, b')"
  shows "cool_until origin u (b', t)"
  using assms by (auto simp: cool_until_iff acquire_turn_def state_of_def Let_def split: if_splits)

lemma snapshot_cool:
  assumes "cool_until origin u (b, t)" "t < u" shows "cool_until origin u (snd (snapshot_at c o' t b), t)"
  using assms by (auto simp: cool_until_iff snapshot_at_def state_of_def Let_def cooling_def)

lemma respond_state_cool:
  "os_cooldownUntilMs st = Some v \<Longrightarrow> \<exists>v'. os_cooldownUntilMs (respond_state pd c status header t st) = Some v' \<and> v \<le> v'"
  by (auto simp: respond_state_def Let_def split: option.splits)

lemma call_cool:
  assumes "budget_call pd c s s'" "cool_until origin u s" "snd s' < u"
  shows "cool_until origin u s'"
  using assms
proof (cases rule: budget_call.cases)
  case (tick t t' b)
  then show ?thesis using assms(2) by (simp add: cool_until_iff)
next
  case (turn o' t b r b')
  then show ?thesis using assms(2) turn_cool by blast
next
  case (free b t i)
  then show ?thesis using assms(2) by (auto simp: cool_until_iff release_states)
next
  case (paused b t o')
  then show ?thesis using assms(2) by (auto simp: cool_until_iff paused_is_put state_of_def)
next
  case (view b t o')
  then show ?thesis using assms(2,3) snapshot_cool by simp
next
  case (respond b t o' status header)
  let ?b = "put_state o' (respond_state pd c status header t (state_of c o' t b)) b"
  have "cool_until origin u (?b, t)"
  proof (cases "o' = origin")
    case True
    obtain st v where "bg_states b origin = Some st" "os_cooldownUntilMs st = Some v" "u \<le> v"
      using assms(2) respond(1) by (auto simp: cool_until_iff)
    then show ?thesis using respond_state_cool[of st v pd c status header t] True
      by (auto simp: cool_until_iff state_of_def)
  next
    case False
    then show ?thesis using assms(2) respond(1) by (simp add: cool_until_iff)
  qed
  then show ?thesis using respond assms(3) snapshot_cool by (simp add: respond_at_def)
qed

lemma cool_turn_refused:
  assumes "cool_until origin u (b, t)" "t < u" "acquire_turn c origin t b = (r, b')"
  shows "bg_permits b' = bg_permits b"
  using assms cooling_refuses(2)[OF _ _ assms(3)] by (auto simp: cool_until_iff cooling_def)

lemma call_granted:
  assumes "budget_call pd c s s'" "cool_until origin u s" "snd s' < u"
  shows "granted origin (fst s') = granted origin (fst s)"
  using assms
proof (cases rule: budget_call.cases)
  case (turn o' t b r b')
  show ?thesis
  proof (cases "o' = origin")
    case True
    then show ?thesis using turn assms(2,3) cool_turn_refused[of origin u b t c r b'] by (simp add: granted_def)
  next
    case False
    then show ?thesis using turn by (auto simp: acquire_turn_def granted_def Let_def split: if_splits)
  qed
next
  case (paused b t o')
  then show ?thesis by (simp add: paused_is_put)
next
  case (view b t o')
  then show ?thesis using snapshot_is_put[of c o' t b] by auto
next
  case (respond b t o' status header)
  then show ?thesis using snapshot_is_put[of c o' t "put_state o' (respond_state pd c status header t (state_of c o' t b)) b"]
    by (auto simp: respond_at_def)
qed simp_all

lemma call_time: "budget_call pd c s s' \<Longrightarrow> snd s \<le> snd s'"
  by (induction rule: budget_call.induct) auto

lemma calls_time: "budget_calls pd c s s' \<Longrightarrow> snd s \<le> snd s'"
  by (induction rule: rtranclp_induct) (auto dest: call_time)

lemma calls_granted:
  assumes "budget_calls pd c s s'" "cool_until origin u s" "snd s' < u"
  shows "granted origin (fst s') = granted origin (fst s) \<and> cool_until origin u s'"
  using assms(1,3)
proof (induction rule: rtranclp_induct)
  case base
  then show ?case using assms(2) by simp
next
  case (step y z)
  have "snd y < u" using step.hyps(2) step.prems call_time by fastforce
  then show ?case using step.IH step.hyps(2) step.prems call_cool call_granted by metis
qed

section \<open>Waiting\<close>

lemma sleep_ge: "w \<le> of_int (sleep_ms w)"
  by (simp add: sleep_ms_def max_def)

text \<open>The turn of a request while a slot is free: granted, or put off until the cooldown or the next token.\<close>

lemma refused_state:
  assumes "acquire_turn c origin t b = (Inl w, b')"
  shows "bg_states b' origin = Some (refill c (state_of c origin t b) t)" "b' = put_state origin (refill c (state_of c origin t b) t) b"
    "w = wait_milliseconds c (refill c (state_of c origin t b) t) t" "0 < w"
  using assms by (auto simp: acquire_turn_def Let_def split: if_splits)

lemma granted_iff:
  "(\<exists>i b'. acquire_turn c origin t b = (Inr i, b')) \<longleftrightarrow> wait_milliseconds c (refill c (state_of c origin t b) t) t \<le> 0"
  by (auto simp: acquire_turn_def Let_def)

lemma enough_tokens:
  assumes "wc_requestsPerSecond c = Some rate" "0 < rate" "1 \<le> wc_burstLimit c" "t \<le> t'" "os_lastRefillMs st = t"
    and "os_tokens st < 1" "t + sleep_ms (max 1 ((1 - os_tokens st) / of_nat rate * 1000)) \<le> t'"
  shows "1 \<le> os_tokens (refill c st t')"
proof -
  let ?w = "max 1 ((1 - os_tokens st) / of_nat rate * 1000)"
  have "(1 - os_tokens st) / of_nat rate * 1000 \<le> of_int (sleep_ms ?w)" using sleep_ge[of ?w] by linarith
  also have "\<dots> \<le> of_int (t' - t)" using assms(7) by simp
  finally have "1 - os_tokens st \<le> of_int (t' - t) / 1000 * of_nat rate" using assms(2) by (simp add: field_simps)
  moreover have "1 \<le> sleep_ms ?w" by (simp add: sleep_ms_def)
  then have "t < t'" using assms(7) by linarith
  ultimately show ?thesis using assms(1,3,5) by (simp add: refill_def)
qed

lemma not_cooling_later: "\<not> cooling st t \<Longrightarrow> t \<le> t' \<Longrightarrow> \<not> cooling st t'"
  by (auto simp: cooling_def split: option.splits)

lemma cooling_refill [simp]: "cooling (refill c st t) t' = cooling st t'"
  by (simp add: cooling_def)

lemma last_refill:
  "os_lastRefillMs st \<le> t \<Longrightarrow> os_lastRefillMs (refill c st t) = t"
  by (auto simp: refill_def split: option.splits)

text \<open>A request that is not cooling and was told to wait for a token gets one after that wait.\<close>

lemma token_wait:
  assumes c: "config_ok c" and st: "bg_states b origin = Some st" "os_lastRefillMs st = t" "\<not> cooling st t" "os_inflight st < wc_maxInflight c"
    and w: "w = wait_milliseconds c st t" "0 < w" "t + sleep_ms w \<le> t'"
  shows "\<exists>i b'. acquire_turn c origin t' b = (Inr i, b')"
proof -
  have "wc_requestsPerSecond c \<noteq> None" "os_tokens st < 1"
    using w(1,2) st(3,4) wait_positive_unless[of c st t] by auto
  then obtain rate where rate: "wc_requestsPerSecond c = Some rate" "0 < rate" using c by (auto simp: config_ok_def)
  have "w = max 1 ((1 - os_tokens st) / of_nat rate * 1000)"
    using w(1) st(3,4) rate \<open>os_tokens st < 1\<close> by (simp add: wait_milliseconds_def)
  moreover have "1 \<le> sleep_ms w" by (simp add: sleep_ms_def)
  ultimately have "1 \<le> os_tokens (refill c st t')" "t \<le> t'"
    using enough_tokens[OF rate _ _ st(2) \<open>os_tokens st < 1\<close>] w(3) c by (auto simp: config_ok_def)
  then show ?thesis
    using st not_cooling_later[OF st(3)] by (simp add: granted_iff wait_positive_unless state_of_def)
qed

lemma patient_turns:
  assumes c: "config_ok c" and ok: "budget_ok c (b0, t0)" and free: "held origin b0 < wc_maxInflight c"
    and w0: "acquire_turn c origin t0 b0 = (Inl w0, b1)" "t0 + sleep_ms w0 \<le> t1"
    and w1: "acquire_turn c origin t1 b1 = (Inl w1, b2)" "t1 + sleep_ms w1 \<le> t2"
  shows "\<exists>i b3. acquire_turn c origin t2 b2 = (Inr i, b3)"
proof -
  let ?st = "state_of c origin t0 b0"
  let ?sx = "refill c ?st t0"
  let ?sy = "refill c ?sx t1"
  have last: "os_lastRefillMs ?st \<le> t0" "os_inflight ?st < wc_maxInflight c"
    using budget_okD[OF ok, of origin] free by (simp_all add: state_ok_def)
  have b1: "bg_states b1 origin = Some ?sx" "w0 = wait_milliseconds c ?sx t0" "0 < w0" using refused_state[OF w0(1)] by blast+
  have s0: "1 \<le> sleep_ms w0" "1 \<le> sleep_ms w1" by (simp_all add: sleep_ms_def)
  have t: "t0 \<le> t1" using w0(2) s0 by linarith
  have l0: "os_lastRefillMs ?sx = t0" by (rule last_refill[OF last(1)])
  have cool: "cooling ?sx t0"
  proof (rule ccontr)
    assume "\<not> cooling ?sx t0"
    then show False using token_wait[OF c b1(1) l0 _ _ b1(2,3) w0(2)] last(2) w1(1) by simp
  qed
  then obtain u where u: "os_cooldownUntilMs ?sx = Some u" "t0 < u" by (auto simp: cooling_def split: option.splits)
  then have "w0 = of_int (u - t0)" using cool b1(2) by (simp add: wait_milliseconds_def)
  then have "u \<le> t1" using w0(2) u(2) by (simp add: sleep_ms_def)
  then have n1: "\<not> cooling ?sy t1" using u(1) by (simp add: cooling_def)
  have b2: "bg_states b2 origin = Some ?sy" "w1 = wait_milliseconds c ?sy t1" "0 < w1"
    using refused_state[OF w1(1)] b1(1) by (simp_all add: state_of_def)
  have "os_lastRefillMs ?sy = t1" using last_refill[of ?sx t1] l0 t by simp
  then show ?thesis using token_wait[OF c b2(1) _ n1 _ b2(2,3) w1(2)] last(2) by simp
qed

end
