(* ===== verification/Circuit_Breaker.thy ===== *)
theory Circuit_Breaker
  imports Worker_Config
begin

text \<open>
  packages/archive-core/src/scheduler.ts, the class \<open>ProxyCircuitBreaker\<close>: its three
  states, the failures that open it and the probes that close it again.
\<close>

datatype circuit_state = CbClosed | CbOpen | CbHalfOpen

record circuit_config =
  cc_failureThreshold :: nat
  cc_openDurationMs :: int
  cc_halfOpenMaxProbes :: nat

definition default_circuit_config :: circuit_config where
  "default_circuit_config = \<lparr>cc_failureThreshold = 3, cc_openDurationMs = 30000, cc_halfOpenMaxProbes = 1\<rparr>"

record circuit =
  cb_state :: circuit_state
  cb_failures :: nat
  cb_openedUntilMs :: "int option"
  cb_probes :: nat

definition new_circuit :: circuit where
  "new_circuit = \<lparr>cb_state = CbClosed, cb_failures = 0, cb_openedUntilMs = None, cb_probes = 0\<rparr>"

text \<open>The constructor's check, over the numbers it is given.\<close>

definition make_circuit :: "string \<Rightarrow> jsnum \<Rightarrow> jsnum \<Rightarrow> jsnum \<Rightarrow> scheduler_error + circuit_config \<times> circuit" where
  "make_circuit proxy_id threshold duration probes =
     (case (safe_int threshold, safe_int duration, safe_int probes) of
        (Some f, Some d, Some p) \<Rightarrow>
          if \<not> safe_identifier proxy_id \<or> f < 1 \<or> d < 1 \<or> p < 1 then Inl SCHEDULER_CONFIG_INVALID
          else Inr (\<lparr>cc_failureThreshold = nat f, cc_openDurationMs = d, cc_halfOpenMaxProbes = nat p\<rparr>, new_circuit)
      | _ \<Rightarrow> Inl SCHEDULER_CONFIG_INVALID)"

text \<open>\<open>canSchedule\<close> moves an open circuit whose time is over to half-open as it answers.\<close>

definition settle :: "int \<Rightarrow> circuit \<Rightarrow> circuit" where
  "settle t b = (case cb_openedUntilMs b of
     None \<Rightarrow> b
   | Some u \<Rightarrow> if cb_state b = CbOpen \<and> u \<le> t then b\<lparr>cb_state := CbHalfOpen\<rparr> else b)"

definition admits :: "circuit_config \<Rightarrow> circuit \<Rightarrow> bool" where
  "admits c b = (cb_state b = CbClosed \<or> (cb_state b = CbHalfOpen \<and> cb_probes b < cc_halfOpenMaxProbes c))"

definition can_schedule :: "circuit_config \<Rightarrow> int \<Rightarrow> circuit \<Rightarrow> bool \<times> circuit" where
  "can_schedule c t b = (let b' = settle t b in (admits c b', b'))"

definition begin_probe :: "circuit_config \<Rightarrow> int \<Rightarrow> circuit \<Rightarrow> bool \<times> circuit" where
  "begin_probe c t b = (case can_schedule c t b of (ok, b') \<Rightarrow>
     if \<not> ok then (False, b')
     else if cb_state b' = CbHalfOpen
     then (if cc_halfOpenMaxProbes c \<le> cb_probes b' then (False, b') else (True, b'\<lparr>cb_probes := cb_probes b' + 1\<rparr>))
     else (True, b'))"

definition record_success :: "circuit \<Rightarrow> circuit" where
  "record_success b =
     (if cb_state b = CbHalfOpen then b\<lparr>cb_probes := cb_probes b - 1\<rparr> else b)
       \<lparr>cb_state := CbClosed, cb_failures := 0, cb_openedUntilMs := None\<rparr>"

definition record_failure :: "circuit_config \<Rightarrow> int \<Rightarrow> circuit \<Rightarrow> circuit" where
  "record_failure c t b =
     (if cb_state b = CbHalfOpen
      then b\<lparr>cb_probes := cb_probes b - 1, cb_state := CbOpen, cb_openedUntilMs := Some (t + cc_openDurationMs c),
             cb_failures := cc_failureThreshold c\<rparr>
      else (let b' = b\<lparr>cb_failures := cb_failures b + 1\<rparr>
            in if cc_failureThreshold c \<le> cb_failures b'
               then b'\<lparr>cb_state := CbOpen, cb_openedUntilMs := Some (t + cc_openDurationMs c)\<rparr> else b'))"

definition release_probe :: "circuit_config \<Rightarrow> int \<Rightarrow> bool \<Rightarrow> circuit \<Rightarrow> circuit" where
  "release_probe c t successful b =
     (if cb_state b \<noteq> CbHalfOpen \<or> cb_probes b = 0 then b
      else if successful then record_success b else record_failure c t b)"

definition cancel_probe :: "circuit \<Rightarrow> circuit" where
  "cancel_probe b = (if cb_state b = CbHalfOpen then b\<lparr>cb_probes := cb_probes b - 1\<rparr> else b)"

text \<open>\<open>snapshot\<close> settles the circuit too; the snapshot is the circuit it leaves.\<close>

definition circuit_snapshot :: "circuit_config \<Rightarrow> int \<Rightarrow> circuit \<Rightarrow> circuit" where
  "circuit_snapshot c t b = snd (can_schedule c t b)"

section \<open>Any sequence of calls\<close>

datatype circuit_op = CanSchedule int | BeginProbe int | Succeed | Fail int | ReleaseProbe int bool | CancelProbe | View int

fun circuit_step :: "circuit_config \<Rightarrow> circuit_op \<Rightarrow> circuit \<Rightarrow> circuit" where
  "circuit_step c (CanSchedule t) b = snd (can_schedule c t b)"
| "circuit_step c (BeginProbe t) b = snd (begin_probe c t b)"
| "circuit_step c Succeed b = record_success b"
| "circuit_step c (Fail t) b = record_failure c t b"
| "circuit_step c (ReleaseProbe t ok) b = release_probe c t ok b"
| "circuit_step c CancelProbe b = cancel_probe b"
| "circuit_step c (View t) b = circuit_snapshot c t b"

fun_cases circuit_step_FailE: "circuit_step c (Fail t) b = b'"

definition run_circuit :: "circuit_config \<Rightarrow> circuit_op list \<Rightarrow> circuit \<Rightarrow> circuit" where
  "run_circuit c ops b = fold (circuit_step c) ops b"

definition circuit_config_ok :: "circuit_config \<Rightarrow> bool" where
  "circuit_config_ok c = (1 \<le> cc_failureThreshold c \<and> 1 \<le> cc_openDurationMs c \<and> 1 \<le> cc_halfOpenMaxProbes c)"

text \<open>
  A closed circuit has counted fewer failures than open it; an open or half-open one knows until when it was
  opened; probes never exceed their bound, and outside the half-open state a slot is always free.
\<close>

definition circuit_ok :: "circuit_config \<Rightarrow> circuit \<Rightarrow> bool" where
  "circuit_ok c b = ((cb_state b = CbClosed \<longrightarrow> cb_failures b < cc_failureThreshold c \<and> cb_openedUntilMs b = None) \<and>
     (cb_state b \<noteq> CbClosed \<longrightarrow> cb_openedUntilMs b \<noteq> None \<and> cc_failureThreshold c \<le> cb_failures b) \<and>
     cb_probes b \<le> cc_halfOpenMaxProbes c \<and> (cb_state b \<noteq> CbHalfOpen \<longrightarrow> cb_probes b < cc_halfOpenMaxProbes c))"

named_theorems circuit_defs \<open>the operations of the circuit breaker\<close>
declare settle_def [circuit_defs] admits_def [circuit_defs] can_schedule_def [circuit_defs] begin_probe_def [circuit_defs]
  record_success_def [circuit_defs] record_failure_def [circuit_defs] release_probe_def [circuit_defs]
  cancel_probe_def [circuit_defs] circuit_snapshot_def [circuit_defs]

lemma make_circuit_ok: "make_circuit p f d n = Inr (c, b) \<Longrightarrow> circuit_config_ok c \<and> circuit_ok c b"
  by (auto simp: make_circuit_def circuit_config_ok_def circuit_ok_def new_circuit_def split: option.splits if_splits)

lemma settle_keeps: "circuit_ok c b \<Longrightarrow> circuit_ok c (settle t b)"
  by (auto simp: circuit_ok_def settle_def split: option.splits)

lemma record_success_keeps: "circuit_config_ok c \<Longrightarrow> circuit_ok c b \<Longrightarrow> circuit_ok c (record_success b)"
  by (cases "cb_state b") (auto simp: circuit_ok_def record_success_def circuit_config_ok_def)

lemma record_failure_keeps: "circuit_config_ok c \<Longrightarrow> circuit_ok c b \<Longrightarrow> circuit_ok c (record_failure c t b)"
  by (cases "cb_state b") (auto simp: circuit_ok_def record_failure_def circuit_config_ok_def Let_def)

lemma begin_probe_keeps: "circuit_ok c b \<Longrightarrow> circuit_ok c (snd (begin_probe c t b))"
  using settle_keeps[of c b t]
  by (auto simp: begin_probe_def can_schedule_def admits_def circuit_ok_def Let_def split: if_splits)

lemma cancel_probe_keeps: "circuit_ok c b \<Longrightarrow> circuit_ok c (cancel_probe b)"
  by (auto simp: circuit_ok_def cancel_probe_def)

lemma step_keeps_circuit: "circuit_config_ok c \<Longrightarrow> circuit_ok c b \<Longrightarrow> circuit_ok c (circuit_step c op b)"
  by (cases op) (auto simp: can_schedule_def circuit_snapshot_def release_probe_def Let_def settle_keeps record_success_keeps
      record_failure_keeps begin_probe_keeps cancel_probe_keeps)

lemma run_keeps_circuit: "circuit_config_ok c \<Longrightarrow> circuit_ok c b \<Longrightarrow> circuit_ok c (run_circuit c ops b)"
  unfolding run_circuit_def by (induction ops arbitrary: b) (auto simp: step_keeps_circuit)

text \<open>
  A failure opens a circuit that has reached the threshold or was probing, for the whole duration: nothing is scheduled
  before, and one probe at least is admitted after.
\<close>

lemma failure_opens:
  assumes "cb_state b = CbHalfOpen \<or> cc_failureThreshold c \<le> cb_failures b + 1"
  shows "cb_state (record_failure c t b) = CbOpen" "cb_openedUntilMs (record_failure c t b) = Some (t + cc_openDurationMs c)"
  using assms by (auto simp: record_failure_def Let_def)

lemma open_blocks:
  assumes "cb_state b = CbOpen" "cb_openedUntilMs b = Some u" "t < u"
  shows "\<not> fst (can_schedule c t b)" "snd (can_schedule c t b) = b" "\<not> fst (begin_probe c t b)"
  using assms by (auto simp: can_schedule_def begin_probe_def settle_def admits_def Let_def)

lemma open_reopens:
  assumes "circuit_ok c b" "cb_state b = CbOpen" "cb_openedUntilMs b = Some u" "u \<le> t"
  shows "fst (begin_probe c t b)" "cb_state (snd (begin_probe c t b)) = CbHalfOpen"
  using assms by (auto simp: can_schedule_def begin_probe_def settle_def admits_def circuit_ok_def Let_def)

lemma consecutive_failures:
  assumes "circuit_ok c b" "cb_state b = CbClosed" "n < cc_failureThreshold c - cb_failures b"
  shows "cb_state (fold (record_failure c) (replicate n t) b) = CbClosed \<and>
    cb_failures (fold (record_failure c) (replicate n t) b) = cb_failures b + n"
  using assms
proof (induction n arbitrary: b)
  case 0
  then show ?case by simp
next
  case (Suc n)
  let ?b = "record_failure c t b"
  have b': "cb_state ?b = CbClosed" "cb_failures ?b = cb_failures b + 1" "cb_openedUntilMs ?b = cb_openedUntilMs b" "cb_probes ?b = cb_probes b"
    using Suc.prems by (auto simp: record_failure_def Let_def)
  then have "circuit_ok c ?b" using Suc.prems by (auto simp: circuit_ok_def)
  then show ?case using Suc.IH[of ?b] Suc.prems b' by simp
qed

end
