(* ===== verification/Secret_Refs.thy ===== *)
theory Secret_Refs
  imports Js_Unknown
begin

text \<open>
  packages/archive-core/src/secrets.ts: Credential References and the validation of Secret metadata.
\<close>

datatype secret_error = SECRET_REFERENCE_INVALID | SECRET_REFERENCE_VERSION_UNSUPPORTED
  | SECRET_REFERENCE_PROJECT_MISMATCH | SECRET_KIND_INVALID | SECRET_SCOPE_INVALID | SECRET_PURPOSE_INVALID
  | SECRET_PURPOSE_NOT_ALLOWED | SECRET_METADATA_INVALID | SECRET_VALUE_INVALID | SECRET_VALUE_TOO_LARGE
  | SECRET_NOT_FOUND | SECRET_ALREADY_EXISTS | SECRET_STORE_LOCKED | SECRET_STORE_UNINITIALIZED | SECRET_STORE_BUSY
  | SECRET_UNLOCK_FAILED | SECRET_UNLOCK_RATE_LIMITED | SECRET_TAMPER_DETECTED | SECRET_FORMAT_UNSUPPORTED
  | SECRET_ALGORITHM_UNSUPPORTED | SECRET_KDF_INVALID | SECRET_EXPORT_FORBIDDEN
  | SECRET_EXPORT_CONFIRMATION_REQUIRED | SECRET_EXPORT_FAILED | SECRET_IMPORT_FAILED | SECRET_BACKEND_UNAVAILABLE
  | SECRET_INSECURE_BACKEND | SECRET_BACKEND_UNSUPPORTED | SECRET_PRODUCTION_TEST_BACKEND
  | SECRET_PROJECT_CONTEXT_REQUIRED | SECRET_OPERATION_FAILED

section \<open>Patterns\<close>

definition is_hex :: "char \<Rightarrow> bool" where
  "is_hex c = (is_digit c \<or> (97 \<le> code c \<and> code c \<le> 102) \<or> (65 \<le> code c \<and> code c \<le> 70))"

text \<open>The UUID pattern: five groups of hexadecimal digits, a version digit 1 to 5 and a variant 8, 9, a or b.\<close>

definition uuid_pattern :: "string \<Rightarrow> bool" where
  "uuid_pattern s = (case split_on (CHR ''-'') s of
     [a, b, c, d, e] \<Rightarrow> map length [a, b, c, d, e] = [8, 4, 4, 4, 12] \<and>
       list_all is_hex (a @ b @ c @ d @ e) \<and> hd c \<in> set ''12345'' \<and> lower_char (hd d) \<in> set ''89ab''
   | _ \<Rightarrow> False)"

definition label_char :: "char \<Rightarrow> bool" where
  "label_char c = (is_alnum c \<or> c \<in> set '' ._:-'')"

definition label_pattern :: "string \<Rightarrow> bool" where
  "label_pattern s = (case s of [] \<Rightarrow> False | c # cs \<Rightarrow> is_alnum c \<and> list_all label_char cs \<and> length cs \<le> 119)"

text \<open>A case-insensitive search for one of some words.\<close>

definition mentions :: "string list \<Rightarrow> string \<Rightarrow> bool" where
  "mentions ws s = list_ex (includes_str (to_lower s)) ws"

definition has_control :: "string \<Rightarrow> bool" where
  "has_control s = list_ex is_control s"

section \<open>Validation\<close>

definition secret_kinds :: "string list" where [policy_defs]:
  "secret_kinds = [''proxy_credential'', ''authentication_credential'', ''session_storage'', ''api_credential'',
     ''portable_export_key'', ''generic_project_secret'']"

definition secret_scope_types :: "string list" where [policy_defs]:
  "secret_scope_types = [''application'', ''project'', ''proxy'', ''profile'', ''session'', ''login_flow'']"

definition secret_purposes :: "string list" where [policy_defs]:
  "secret_purposes = [''proxy_connection'', ''future_manual_login'', ''future_session_restore'', ''secure_export'',
     ''secret_rotation'', ''migration'', ''test_fixture'']"

definition assert_safe_identifier :: "js_value \<Rightarrow> secret_error + unit" where
  "assert_safe_identifier v = (case v of
     VStr s \<Rightarrow> ensure (s \<noteq> [] \<and> length s \<le> 128 \<and> safe_identifier s \<and>
       \<not> list_ex (\<lambda>c. is_control c \<or> c = CHR ''/'' \<or> code c = 92) s) SECRET_SCOPE_INVALID
   | _ \<Rightarrow> Inl SECRET_SCOPE_INVALID)"

definition assert_project_id :: "js_value \<Rightarrow> secret_error + unit" where
  "assert_project_id v = (case v of VStr s \<Rightarrow> ensure (uuid_pattern s) SECRET_SCOPE_INVALID | _ \<Rightarrow> Inl SECRET_SCOPE_INVALID)"

definition assert_secret_kind :: "js_value \<Rightarrow> secret_error + unit" where
  "assert_secret_kind v = (case v of VStr s \<Rightarrow> ensure (s \<in> set secret_kinds) SECRET_KIND_INVALID | _ \<Rightarrow> Inl SECRET_KIND_INVALID)"

definition assert_secret_purpose :: "js_value \<Rightarrow> secret_error + unit" where
  "assert_secret_purpose v = (case v of
     VStr s \<Rightarrow> ensure (s \<in> set secret_purposes) SECRET_PURPOSE_INVALID | _ \<Rightarrow> Inl SECRET_PURPOSE_INVALID)"

definition assert_secret_scope :: "js_value \<Rightarrow> secret_error + unit" where
  "assert_secret_scope v =
     ebind (ensure (is_object v \<and> (case prop_of v ''scopeType'' of VStr t \<Rightarrow> t \<in> set secret_scope_types | _ \<Rightarrow> False))
       SECRET_SCOPE_INVALID) (\<lambda>_.
     ebind (ensure (length (keys_of v) = 3 \<and> set (keys_of v) \<subseteq> {''scopeType'', ''projectId'', ''scopeId''})
       SECRET_SCOPE_INVALID) (\<lambda>_.
     ebind (ensure (str_of (prop_of v ''scopeType'') \<noteq> None \<and> str_of (prop_of v ''projectId'') \<noteq> None \<and>
       str_of (prop_of v ''scopeId'') \<noteq> None) SECRET_SCOPE_INVALID) (\<lambda>_.
     ebind (assert_project_id (prop_of v ''projectId'')) (\<lambda>_.
     ebind (assert_safe_identifier (prop_of v ''scopeId'')) (\<lambda>_.
     ensure (prop_of v ''scopeType'' = VStr ''project'' \<longrightarrow> prop_of v ''scopeId'' = prop_of v ''projectId'')
       SECRET_SCOPE_INVALID)))))"

text \<open>The last word of the pattern is \<open>api[-_ ]?key\<close>.\<close>

definition secret_label_words :: "string list" where [policy_defs]:
  "secret_label_words = [''password'', ''passphrase'', ''token'', ''secret'', ''cookie'', ''authorization'',
     ''apikey'', ''api-key'', ''api_key'', ''api key'']"

definition assert_secret_label :: "js_value \<Rightarrow> secret_error + unit" where
  "assert_secret_label v = (if nullish v then Inr () else case v of
     VStr s \<Rightarrow> ensure (s \<noteq> [] \<and> label_pattern s \<and> \<not> mentions secret_label_words s) SECRET_METADATA_INVALID
   | _ \<Rightarrow> Inl SECRET_METADATA_INVALID)"

section \<open>Credential References\<close>

definition ref_text :: "string \<Rightarrow> string \<Rightarrow> string" where
  "ref_text p i = ''secret://v1/project/'' @ to_lower p @ ''/'' @ to_lower i"

definition serialize_secret_ref :: "string \<Rightarrow> string \<Rightarrow> secret_error + string" where
  "serialize_secret_ref p i =
     ebind (assert_project_id (VStr p)) (\<lambda>_.
     ebind (ensure (uuid_pattern i) SECRET_REFERENCE_INVALID) (\<lambda>_.
     Inr (ref_text p i)))"

record parsed_ref =
  pr_serialized :: string
  pr_projectId :: string
  pr_secretId :: string

text \<open>
  The match of \<open>^secret://v(\d+)/project/([^/]+)/([^/]+)$\<close>: its groups contain no slash, so
  the text splits at the slashes into exactly these six parts.
\<close>

definition ref_match :: "string \<Rightarrow> (string \<times> string \<times> string) option" where
  "ref_match s = (case split_on (CHR ''/'') s of
     [a, b, c, d, p, i] \<Rightarrow>
       if a = ''secret:'' \<and> b = [] \<and> (case c of [] \<Rightarrow> False | v # ds \<Rightarrow> v = CHR ''v'' \<and> ds \<noteq> [] \<and> list_all is_digit ds) \<and>
          d = ''project'' \<and> p \<noteq> [] \<and> i \<noteq> []
       then Some (tl c, p, i) else None
   | _ \<Rightarrow> None)"

definition parse_secret_ref :: "js_value \<Rightarrow> secret_error + parsed_ref" where
  "parse_secret_ref v = (case v of
     VStr s \<Rightarrow>
       if 256 < length s \<or> has_control s then Inl SECRET_REFERENCE_INVALID
       else (case ref_match s of
         None \<Rightarrow> Inl SECRET_REFERENCE_INVALID
       | Some (version, p, i) \<Rightarrow>
           ebind (ensure (version = ''1'') SECRET_REFERENCE_VERSION_UNSUPPORTED) (\<lambda>_.
           ebind (ensure (\<not> includes_str p ''..'' \<and> \<not> includes_str i ''..'') SECRET_REFERENCE_INVALID) (\<lambda>_.
           ebind (assert_project_id (VStr p)) (\<lambda>_.
           ebind (ensure (uuid_pattern i) SECRET_REFERENCE_INVALID) (\<lambda>_.
           ebind (serialize_secret_ref p i) (\<lambda>serialized.
           ebind (ensure (serialized = to_lower s) SECRET_REFERENCE_INVALID) (\<lambda>_.
           Inr \<lparr>pr_serialized = serialized, pr_projectId = to_lower p, pr_secretId = to_lower i\<rparr>)))))))
   | _ \<Rightarrow> Inl SECRET_REFERENCE_INVALID)"

definition is_purpose_allowed :: "string \<Rightarrow> string \<Rightarrow> secret_error + bool" where
  "is_purpose_allowed kind purpose =
     ebind (assert_secret_kind (VStr kind)) (\<lambda>_.
     ebind (assert_secret_purpose (VStr purpose)) (\<lambda>_.
     Inr (if purpose = ''test_fixture'' then True
          else if purpose \<in> {''secret_rotation'', ''secure_export'', ''migration''} then True
          else if kind = ''proxy_credential'' then purpose = ''proxy_connection''
          else if kind = ''authentication_credential'' then purpose = ''future_manual_login''
          else if kind = ''session_storage'' then purpose = ''future_session_restore''
          else if kind = ''api_credential'' then purpose = ''future_manual_login''
          else False)))"

definition assert_access_allowed :: "string \<Rightarrow> string \<Rightarrow> secret_error + unit" where
  "assert_access_allowed kind purpose =
     ebind (is_purpose_allowed kind purpose) (\<lambda>ok. ensure ok SECRET_PURPOSE_NOT_ALLOWED)"

definition create_secret_id :: "string \<Rightarrow> secret_error + string" where
  "create_secret_id i = ebind (ensure (uuid_pattern i) SECRET_REFERENCE_INVALID) (\<lambda>_. Inr (to_lower i))"

definition can_capture_screenshot :: "bool \<Rightarrow> string \<Rightarrow> bool" where
  "can_capture_screenshot requested sensitivity = (requested \<and> sensitivity = ''safe'')"

section \<open>Secret metadata\<close>

record secret_metadata =
  sm_ref :: string
  sm_secretId :: string
  sm_projectId :: string
  sm_scope :: js_value
  sm_kind :: string
  sm_backend :: string
  sm_version :: jsnum
  sm_displayLabel :: js_value
  sm_envelopeVersion :: jsnum
  sm_keySlotId :: string

definition assert_secret_metadata :: "secret_metadata \<Rightarrow> secret_error + unit" where
  "assert_secret_metadata m =
     ebind (parse_secret_ref (VStr (sm_ref m))) (\<lambda>parsed.
     ebind (ensure (pr_secretId parsed = sm_secretId m \<and> pr_projectId parsed = to_lower (sm_projectId m)) SECRET_METADATA_INVALID) (\<lambda>_.
     ebind (assert_secret_kind (VStr (sm_kind m))) (\<lambda>_.
     ebind (assert_secret_scope (sm_scope m)) (\<lambda>_.
     ebind (ensure (map_option to_lower (str_of (prop_of (sm_scope m) ''projectId'')) = Some (to_lower (sm_projectId m)))
       SECRET_METADATA_INVALID) (\<lambda>_.
     ebind (ensure (sm_backend m \<in> {''portable_vault'', ''os_protected'', ''memory_test''}) SECRET_METADATA_INVALID) (\<lambda>_.
     ebind (ensure (bounded_int 1 1000000 (sm_version m) \<noteq> None) SECRET_METADATA_INVALID) (\<lambda>_.
     ebind (assert_secret_label (sm_displayLabel m)) (\<lambda>_.
     ebind (ensure (sm_envelopeVersion m = js_int 1) SECRET_FORMAT_UNSUPPORTED) (\<lambda>_.
     assert_safe_identifier (VStr (sm_keySlotId m)))))))))))"

section \<open>Round trips\<close>

lemma split_join_parts:
  "x \<notin> set w \<Longrightarrow> split_on x (w @ x # cs) = w # split_on x cs"
  by (induction w) (auto split: list.splits)

lemma split_no_sep: "x \<notin> set w \<Longrightarrow> split_on x w = [w]"
  by (induction w) auto

lemma hex_facts:
  "is_hex c \<Longrightarrow> is_hex (lower_char c)" "is_hex c \<Longrightarrow> \<not> is_control c" "is_hex c \<Longrightarrow> c \<noteq> CHR ''/''"
  "is_hex c \<Longrightarrow> c \<noteq> CHR ''.''"
proof -
  show "is_hex c \<Longrightarrow> is_hex (lower_char c)"
    by (auto simp: is_hex_def lower_char_def is_upper_def is_digit_def)
  show "is_hex c \<Longrightarrow> \<not> is_control c" by (auto simp: is_hex_def is_control_def is_digit_def)
  show "is_hex c \<Longrightarrow> c \<noteq> CHR ''/''" by (auto simp: is_hex_def is_digit_def code_def)
  show "is_hex c \<Longrightarrow> c \<noteq> CHR ''.''" by (auto simp: is_hex_def is_digit_def code_def)
qed

lemma to_lower_append [simp]: "to_lower (s @ t) = to_lower s @ to_lower t"
  by (simp add: to_lower_def)

lemma to_lower_Cons [simp]: "to_lower (c # t) = lower_char c # to_lower t"
  by (simp add: to_lower_def)

lemma to_lower_Nil [simp]: "to_lower [] = []"
  by (simp add: to_lower_def)

lemma uuid_parts:
  assumes "uuid_pattern s"
  obtains a b c d e where "s = a @ CHR ''-'' # b @ CHR ''-'' # c @ CHR ''-'' # d @ CHR ''-'' # e"
    "length a = 8" "length b = 4" "length c = 4" "length d = 4" "length e = 12"
    "list_all is_hex (a @ b @ c @ d @ e)" "hd c \<in> set ''12345''" "lower_char (hd d) \<in> set ''89ab''"
proof -
  obtain a b c d e where split: "split_on (CHR ''-'') s = [a, b, c, d, e]"
    and "map length [a, b, c, d, e] = [8, 4, 4, 4, 12]" "list_all is_hex (a @ b @ c @ d @ e)" "hd c \<in> set ''12345''"
    "lower_char (hd d) \<in> set ''89ab''"
    using assms by (auto simp: uuid_pattern_def split: list.splits)
  moreover have "s = join_on (CHR ''-'') [a, b, c, d, e]" using join_split[of "CHR ''-''" s] split by simp
  ultimately show thesis using that[of a b c d e] by simp
qed

lemma uuid_chars:
  assumes "uuid_pattern s" "x \<in> set s" shows "is_hex x \<or> x = CHR ''-''"
  using assms(1) by (rule uuid_parts) (use assms(2) in \<open>auto simp: list_all_iff\<close>)

lemma uuid_char_facts:
  assumes "uuid_pattern s" "x \<in> set s"
  shows "x \<noteq> CHR ''/'' \<and> x \<noteq> CHR ''.'' \<and> \<not> is_control x"
  using uuid_chars[OF assms]
proof
  assume "is_hex x"
  then show ?thesis using hex_facts(2-4) by blast
next
  assume "x = CHR ''-''"
  then show ?thesis by (simp add: is_control_def code_def)
qed

lemma uuid_length: "uuid_pattern s \<Longrightarrow> length s = 36"
  by (erule uuid_parts) simp

lemma lower_dash [simp]: "lower_char (CHR ''-'') = CHR ''-''"
  by (simp add: lower_char_def is_upper_def code_def)

lemma uuid_lower:
  assumes "uuid_pattern s" shows "uuid_pattern (to_lower s)"
proof -
  obtain a b c d e where s: "s = a @ CHR ''-'' # b @ CHR ''-'' # c @ CHR ''-'' # d @ CHR ''-'' # e"
    and len: "length a = 8" "length b = 4" "length c = 4" "length d = 4" "length e = 12"
    and hex: "list_all is_hex (a @ b @ c @ d @ e)" and c: "hd c \<in> set ''12345''" and d: "lower_char (hd d) \<in> set ''89ab''"
    using assms by (rule uuid_parts)
  have low: "list_all is_hex (to_lower w)" "CHR ''-'' \<notin> set (to_lower w)" if "list_all is_hex w" for w
  proof -
    show hexw: "list_all is_hex (to_lower w)" using that hex_facts(1) by (auto simp: to_lower_def list_all_iff)
    have "\<not> is_hex (CHR ''-'')" by (simp add: is_hex_def is_digit_def code_def)
    then show "CHR ''-'' \<notin> set (to_lower w)" using hexw by (auto simp: list_all_iff)
  qed
  have parts: "list_all is_hex a" "list_all is_hex b" "list_all is_hex c" "list_all is_hex d" "list_all is_hex e"
    using hex by simp_all
  have "c \<noteq> []" "d \<noteq> []" using len by auto
  then have heads: "hd (to_lower c) = lower_char (hd c)" "hd (to_lower d) = lower_char (hd d)"
    by (simp_all add: to_lower_def hd_map)
  have "lower_char x = x" if "x \<in> set ''12345''" for x
    using that by (auto simp: lower_char_def is_upper_def code_def)
  then have c': "hd (to_lower c) \<in> set ''12345''" using c heads by metis
  have d': "lower_char (hd (to_lower d)) \<in> set ''89ab''" using d by (simp add: heads lower_char_idem)
  have "split_on (CHR ''-'') (to_lower s) = [to_lower a, to_lower b, to_lower c, to_lower d, to_lower e]"
    using low[OF parts(1)] low[OF parts(2)] low[OF parts(3)] low[OF parts(4)] low[OF parts(5)]
    by (simp add: s split_join_parts split_no_sep)
  then show ?thesis
    using len c' d' low(1)[OF parts(1)] low(1)[OF parts(2)] low(1)[OF parts(3)] low(1)[OF parts(4)] low(1)[OF parts(5)]
    by (simp add: uuid_pattern_def)
qed

lemma to_lower_ref_text: "to_lower (ref_text p i) = ref_text p i"
proof -
  have "to_lower ''secret://v1/project/'' = ''secret://v1/project/''" "to_lower ''/'' = ''/''" by code_simp+
  then show ?thesis by (simp only: ref_text_def to_lower_append to_lower_idem)
qed

lemma not_includes: "x \<notin> set s \<Longrightarrow> \<not> includes_str s (x # p)"
  by (induction s) (auto simp: starts_with_def)

text \<open>A reference that was written is read back as the same Project and Secret.\<close>

lemma parse_ref_text:
  assumes p: "uuid_pattern p" and i: "uuid_pattern i"
  shows "parse_secret_ref (VStr (ref_text p i)) =
    Inr \<lparr>pr_serialized = ref_text p i, pr_projectId = to_lower p, pr_secretId = to_lower i\<rparr>"
proof -
  let ?p = "to_lower p" and ?i = "to_lower i"
  have u: "uuid_pattern ?p" "uuid_pattern ?i" using p i by (simp_all add: uuid_lower)
  have noslash: "CHR ''/'' \<notin> set ?p" "CHR ''/'' \<notin> set ?i" "CHR ''.'' \<notin> set ?p" "CHR ''.'' \<notin> set ?i"
    using uuid_char_facts[OF u(1)] uuid_char_facts[OF u(2)] by blast+
  have ctl: "\<not> list_ex is_control ?p" "\<not> list_ex is_control ?i"
    using uuid_char_facts[OF u(1)] uuid_char_facts[OF u(2)] unfolding list_ex_iff by blast+
  have pre: "split_on (CHR ''/'') (ref_text p i) = [''secret:'', [], ''v1'', ''project'', ?p, ?i]"
  proof -
    have "ref_text p i = ''secret:'' @ CHR ''/'' # [] @ CHR ''/'' # ''v1'' @ CHR ''/'' # ''project'' @ CHR ''/'' # ?p @ CHR ''/'' # ?i"
      by (simp add: ref_text_def)
    then show ?thesis using noslash by (simp only: split_join_parts split_no_sep) (simp add: split_join_parts split_no_sep)
  qed
  have ne: "?p \<noteq> []" "?i \<noteq> []" using uuid_length[OF p] uuid_length[OF i] by (auto simp: to_lower_def)
  have m: "ref_match (ref_text p i) = Some (''1'', ?p, ?i)"
    using ne by (simp add: ref_match_def pre is_digit_def code_def)
  have len: "length (ref_text p i) = 93" using uuid_length[OF p] uuid_length[OF i] by (simp add: ref_text_def)
  have "\<not> has_control (ref_text p i)"
    using ctl by (simp add: has_control_def ref_text_def is_control_def code_def)
  then have guard: "\<not> (256 < length (ref_text p i) \<or> has_control (ref_text p i))" using len by simp
  have "ref_text ?p ?i = ref_text p i" by (simp add: ref_text_def to_lower_idem)
  then have ser: "serialize_secret_ref ?p ?i = Inr (ref_text p i)"
    using u by (simp add: serialize_secret_ref_def assert_project_id_def)
  have dots: "\<not> includes_str ?p ''..''" "\<not> includes_str ?i ''..''" by (rule not_includes[OF noslash(3)], rule not_includes[OF noslash(4)])
  show ?thesis
    using u dots
    by (simp only: parse_secret_ref_def js_value.case guard if_False m option.case prod.case ser ensure_simps ebind_simps
        assert_project_id_def simp_thms to_lower_ref_text to_lower_idem)
qed

lemma parse_secret_ref_ok:
  assumes "parse_secret_ref v = Inr r"
  obtains s p i where "v = VStr s" "uuid_pattern p" "uuid_pattern i" "to_lower s = ref_text p i"
    "r = \<lparr>pr_serialized = ref_text p i, pr_projectId = to_lower p, pr_secretId = to_lower i\<rparr>"
  using assms
  by (auto simp: parse_secret_ref_def serialize_secret_ref_def assert_project_id_def result_simps
      split: js_value.splits if_splits option.splits)

lemma parse_secret_ref_idem:
  assumes "parse_secret_ref v = Inr r" shows "parse_secret_ref (VStr (pr_serialized r)) = Inr r"
  using assms by (rule parse_secret_ref_ok) (simp add: parse_ref_text)

end
