(* ===== verification/Proxy_Policy.thy ===== *)
theory Proxy_Policy
  imports Secret_Refs Worker_Config
begin

text \<open>
  packages/archive-core/src/proxy.ts, without the import formats: validation and normal forms of a
  proxy configuration, the proxy record and its health state machine, eligibility and selection.
\<close>

datatype proxy_error = PROXY_CONFIG_INVALID | PROXY_PROTOCOL_UNSUPPORTED | PROXY_AUTH_FAILED | PROXY_CONNECT_TIMEOUT
  | PROXY_DNS_FAILED | PROXY_TLS_FAILED | PROXY_UNREACHABLE | PROXY_HEALTHCHECK_FAILED | PROXY_COOLDOWN | PROXY_DISABLED
  | PROXY_SECRET_MISSING | PROXY_SECRET_INVALID | PROXY_AFFINITY_MISMATCH | PROXY_AFFINITY_UNAVAILABLE
  | PROXY_DIRECT_FALLBACK_BLOCKED | PROXY_IMPORT_INVALID | PROXY_NOT_FOUND | PROXY_ALREADY_EXISTS
  | PROXY_REVISION_CONFLICT | PROXY_UNAVAILABLE

text \<open>What a routine of this module may throw: its own error or one of the Secret module.\<close>

datatype proxy_failure = ProxyError proxy_error | SecretError secret_error

abbreviation config_invalid :: proxy_failure where
  "config_invalid \<equiv> ProxyError PROXY_CONFIG_INVALID"

datatype health_state = Healthy | Degraded | Cooldown | Disabled

record proxy_draft =
  dr_id :: "string option"
  dr_label :: "string option"
  dr_protocol :: string
  dr_host :: string
  dr_port :: int
  dr_bypass :: "string list"
  dr_credentialRef :: "string option"
  dr_weight :: int
  dr_priority :: int
  dr_maxConcurrency :: int
  dr_enabled :: bool

record proxy =
  px_id :: string
  px_label :: "string option"
  px_protocol :: string
  px_host :: string
  px_port :: jsnum
  px_bypass :: "string list"
  px_credentialRef :: "string option"
  px_weight :: jsnum
  px_priority :: jsnum
  px_maxConcurrency :: jsnum
  px_enabled :: bool
  px_healthState :: health_state
  px_lastHealthCheckAt :: "string option"
  px_lastSuccessAt :: "string option"
  px_lastFailureAt :: "string option"
  px_latencyMs :: "jsnum option"
  px_successCount :: jsnum
  px_failureCount :: jsnum
  px_consecutiveFailureCount :: jsnum
  px_successRate :: jsnum
  px_cooldownUntil :: "string option"
  px_lastErrorCode :: "string option"
  px_lastErrorSummary :: "string option"
  px_createdAt :: string
  px_updatedAt :: string
  px_revision :: jsnum

text \<open>The value of a number that has passed an integer check.\<close>

definition int_of_num :: "jsnum \<Rightarrow> int" where
  "int_of_num n = (case int_value n of None \<Rightarrow> 0 | Some i \<Rightarrow> i)"

lemma int_of_num_simps [simp]: "int_of_num (js_int i) = i" "int_of_num (Num (numeral k)) = numeral k"
  "int_of_num (Num 0) = 0" "int_of_num (Num 1) = 1"
  by (simp_all add: int_of_num_def)

section \<open>Normal forms\<close>

definition assert_timestamp :: "string \<Rightarrow> proxy_failure + unit" where
  "assert_timestamp t = ensure (date_parse t \<noteq> None) config_invalid"

definition assert_safe_string :: "js_value \<Rightarrow> nat \<Rightarrow> proxy_failure + string" where
  "assert_safe_string v maximum = (case v of
     VStr s \<Rightarrow> if s = [] \<or> maximum < length s \<or> has_control s then Inl config_invalid else Inr s
   | _ \<Rightarrow> Inl config_invalid)"

definition host_char :: "char \<Rightarrow> bool" where
  "host_char c = (is_alnum c \<or> c = CHR ''.'' \<or> c = CHR ''-'')"

text \<open>\<open>/^[a-z0-9](?:[a-z0-9.-]{0,251}[a-z0-9])?$/i\<close>.\<close>

definition host_pattern :: "string \<Rightarrow> bool" where
  "host_pattern s = (s \<noteq> [] \<and> length s \<le> 253 \<and> list_all host_char s \<and> is_alnum (hd s) \<and> is_alnum (last s))"

text \<open>\<open>/^[0-9a-f:]{2,45}$/i\<close>.\<close>

definition ipv6_pattern :: "string \<Rightarrow> bool" where
  "ipv6_pattern s = (2 \<le> length s \<and> length s \<le> 45 \<and> list_all (\<lambda>c. is_hex c \<or> c = CHR '':'') s)"

definition unbracket :: "string \<Rightarrow> string" where
  "unbracket s = (if starts_with s ''['' \<and> ends_with s '']'' then butlast (tl s) else s)"

definition undot :: "string \<Rightarrow> string" where
  "undot s = (if ends_with s ''.'' then butlast s else s)"

definition host_ok :: "string \<Rightarrow> bool" where
  "host_ok h = (h \<noteq> [] \<and> list_all (\<lambda>c. c \<notin> set ''/@#?'') h \<and>
     (if CHR '':'' \<in> set h then ipv6_pattern h \<and> \<not> includes_str h '':::'' \<and> includes_str h ''::''
      else host_pattern h \<and> \<not> includes_str h ''..'' \<and> list_all (\<lambda>part. length part \<le> 63) (split_on (CHR ''.'') h)))"

definition normalize_host :: "js_value \<Rightarrow> proxy_failure + string" where
  "normalize_host v =
     ebind (assert_safe_string v 253) (\<lambda>s.
     let h = undot (unbracket (to_lower (js_trim s))) in
     if host_ok h then Inr h else Inl config_invalid)"

definition proxy_protocols :: "string list" where [policy_defs]:
  "proxy_protocols = [''http'', ''https'', ''socks5'']"

definition normalize_protocol :: "js_value \<Rightarrow> proxy_failure + string" where
  "normalize_protocol v = (case v of
     VStr s \<Rightarrow> (let p = to_lower (js_trim s) in
       if p \<in> set proxy_protocols then Inr p else Inl (ProxyError PROXY_PROTOCOL_UNSUPPORTED))
   | _ \<Rightarrow> Inl config_invalid)"

definition normalize_port :: "js_value \<Rightarrow> proxy_failure + int" where
  "normalize_port v = need (int_between 1 65535 v) config_invalid"

definition normalize_id :: "js_value \<Rightarrow> proxy_failure + string" where
  "normalize_id v = ebind (assert_safe_string v 128) (\<lambda>s.
     if safe_identifier (js_trim s) then Inr (js_trim s) else Inl config_invalid)"

definition proxy_label_words :: "string list" where [policy_defs]:
  "proxy_label_words = [''password'', ''passphrase'', ''token'', ''secret'', ''cookie'', ''authorization'',
     ''credential'', ''username'']"

definition normalize_label :: "js_value \<Rightarrow> proxy_failure + string option" where
  "normalize_label v = (if nullish v then Inr None else
     ebind (assert_safe_string v 120) (\<lambda>s. let label = js_trim s in
     if label_pattern label \<and> \<not> mentions proxy_label_words label then Inr (Some label) else Inl config_invalid))"

text \<open>\<open>/^(?:\*\.)?[a-z0-9](?:[a-z0-9.-]{0,251}[a-z0-9])?$/i\<close>.\<close>

definition bypass_pattern :: "string \<Rightarrow> bool" where
  "bypass_pattern s = (host_pattern s \<or> (starts_with s ''*.'' \<and> host_pattern (drop 2 s)))"

definition normalize_bypass_item :: "js_value \<Rightarrow> proxy_failure + string" where
  "normalize_bypass_item v = ebind (assert_safe_string v 253) (\<lambda>s. let item = to_lower (js_trim s) in
     if bypass_pattern item \<and> \<not> includes_str item ''..'' then Inr item else Inl config_invalid)"

definition normalize_bypass :: "js_value \<Rightarrow> proxy_failure + string list" where
  "normalize_bypass v = (if nullish v then Inr [] else case v of
     VArr xs \<Rightarrow> if 100 < length xs then Inl config_invalid
       else ebind (emap normalize_bypass_item xs) (\<lambda>items. Inr (sort (remdups items)))
   | _ \<Rightarrow> Inl config_invalid)"

definition normalize_bounded_integer :: "js_value \<Rightarrow> int \<Rightarrow> int \<Rightarrow> int \<Rightarrow> proxy_failure + int" where
  "normalize_bounded_integer v lo hi fallback =
     (if v = VUndef then Inr fallback else need (int_between lo hi v) config_invalid)"

section \<open>Drafts\<close>

definition import_fields :: "string list" where [policy_defs]:
  "import_fields = [''id'', ''label'', ''protocol'', ''host'', ''port'', ''bypass'', ''credentialRef'', ''username'',
     ''password'', ''weight'', ''priority'', ''maxConcurrency'', ''enabled'']"

definition normalize_credential_ref :: "js_value \<Rightarrow> proxy_failure + string option" where
  "normalize_credential_ref v = (if nullish v then Inr None else
     (case parse_secret_ref v of
        Inl _ \<Rightarrow> Inl (ProxyError PROXY_SECRET_INVALID)
      | Inr r \<Rightarrow> Inr (Some (pr_serialized r))))"

definition normalize_draft :: "bool \<Rightarrow> js_value \<Rightarrow> proxy_failure + proxy_draft" where
  "normalize_draft require_id v =
     (let p = prop_of v in
      ebind (ensure (is_record v) config_invalid) (\<lambda>_.
      ebind (ensure (set (keys_of v) \<subseteq> set import_fields) (ProxyError PROXY_IMPORT_INVALID)) (\<lambda>_.
      ebind (normalize_protocol (p ''protocol'')) (\<lambda>protocol.
      ebind (normalize_host (p ''host'')) (\<lambda>host.
      ebind (normalize_port (p ''port'')) (\<lambda>port.
      ebind (normalize_credential_ref (p ''credentialRef'')) (\<lambda>ref.
      ebind (if p ''id'' = VUndef then Inr None else ebind (normalize_id (p ''id'')) (\<lambda>i. Inr (Some i))) (\<lambda>ident.
      ebind (normalize_label (p ''label'')) (\<lambda>label.
      ebind (normalize_bypass (p ''bypass'')) (\<lambda>bypass.
      ebind (normalize_bounded_integer (p ''weight'') 1 1000 1) (\<lambda>weight.
      ebind (normalize_bounded_integer (p ''priority'') 0 1000 0) (\<lambda>priority.
      ebind (normalize_bounded_integer (p ''maxConcurrency'') 1 1000 1) (\<lambda>maximum.
      ebind (ensure (p ''enabled'' = VUndef \<or> bool_of (p ''enabled'') \<noteq> None) config_invalid) (\<lambda>_.
      ebind (ensure (require_id \<longrightarrow> ident \<noteq> None) config_invalid) (\<lambda>_.
      Inr \<lparr>dr_id = ident, dr_label = label, dr_protocol = protocol, dr_host = host, dr_port = port, dr_bypass = bypass,
        dr_credentialRef = ref, dr_weight = weight, dr_priority = priority, dr_maxConcurrency = maximum,
        dr_enabled = (p ''enabled'' = VUndef \<or> p ''enabled'' = VBool True)\<rparr>)))))))))))))))"

definition identity_text :: "string \<Rightarrow> string \<Rightarrow> int \<Rightarrow> string" where
  "identity_text protocol host port =
     protocol @ ''://'' @ (if CHR '':'' \<in> set host then ''['' @ host @ '']'' else host) @ '':'' @ show_int port"

definition canonical_proxy_identity :: "js_value \<Rightarrow> js_value \<Rightarrow> js_value \<Rightarrow> proxy_failure + string" where
  "canonical_proxy_identity protocol host port =
     ebind (normalize_protocol protocol) (\<lambda>p. ebind (normalize_host host) (\<lambda>h. ebind (normalize_port port) (\<lambda>n.
     Inr (identity_text p h n))))"

definition proxy_server_url :: "proxy \<Rightarrow> proxy_failure + string" where
  "proxy_server_url x = canonical_proxy_identity (VStr (px_protocol x)) (VStr (px_host x)) (VNum (px_port x))"

section \<open>The proxy record\<close>

definition create_proxy_metadata :: "js_value \<Rightarrow> string \<Rightarrow> proxy_failure + proxy" where
  "create_proxy_metadata v now =
     ebind (normalize_draft True v) (\<lambda>d.
     ebind (assert_timestamp now) (\<lambda>_.
     Inr \<lparr>px_id = the (dr_id d), px_label = dr_label d, px_protocol = dr_protocol d, px_host = dr_host d,
       px_port = js_int (dr_port d), px_bypass = dr_bypass d, px_credentialRef = dr_credentialRef d,
       px_weight = js_int (dr_weight d), px_priority = js_int (dr_priority d),
       px_maxConcurrency = js_int (dr_maxConcurrency d), px_enabled = dr_enabled d,
       px_healthState = (if dr_enabled d then Degraded else Disabled), px_lastHealthCheckAt = None,
       px_lastSuccessAt = None, px_lastFailureAt = None, px_latencyMs = None, px_successCount = Num 0,
       px_failureCount = Num 0, px_consecutiveFailureCount = Num 0, px_successRate = Num 0, px_cooldownUntil = None,
       px_lastErrorCode = None, px_lastErrorSummary = None, px_createdAt = now, px_updatedAt = now, px_revision = Num 1\<rparr>))"

definition secret_step :: "secret_error + 'a \<Rightarrow> proxy_failure + 'a" where
  "secret_step m = (case m of Inl e \<Rightarrow> Inl (SecretError e) | Inr a \<Rightarrow> Inr a)"

definition opt_string :: "string option \<Rightarrow> js_value" where
  "opt_string x = (case x of None \<Rightarrow> VNull | Some s \<Rightarrow> VStr s)"

definition assert_times :: "string option list \<Rightarrow> proxy_failure + unit list" where
  "assert_times xs = emap (\<lambda>x. case x of None \<Rightarrow> Inr () | Some t \<Rightarrow> assert_timestamp t) xs"

definition count_ok :: "int \<Rightarrow> jsnum \<Rightarrow> bool" where
  "count_ok lo n = (case int_value n of None \<Rightarrow> False | Some i \<Rightarrow> lo \<le> i)"

definition rate_ok :: "jsnum \<Rightarrow> bool" where
  "rate_ok n = (case n of Num q \<Rightarrow> 0 \<le> q \<and> q \<le> 1 | _ \<Rightarrow> False)"

definition assert_proxy_metadata :: "proxy \<Rightarrow> proxy_failure + unit" where
  "assert_proxy_metadata x =
     ebind (normalize_id (VStr (px_id x))) (\<lambda>_.
     ebind (normalize_protocol (VStr (px_protocol x))) (\<lambda>_.
     ebind (normalize_host (VStr (px_host x))) (\<lambda>_.
     ebind (normalize_port (VNum (px_port x))) (\<lambda>_.
     ebind (normalize_label (opt_string (px_label x))) (\<lambda>_.
     ebind (normalize_bypass (VArr (map VStr (px_bypass x)))) (\<lambda>_.
     ebind (normalize_bounded_integer (VNum (px_weight x)) 1 1000 1) (\<lambda>_.
     ebind (normalize_bounded_integer (VNum (px_priority x)) 0 1000 0) (\<lambda>_.
     ebind (normalize_bounded_integer (VNum (px_maxConcurrency x)) 1 1000 1) (\<lambda>_.
     ebind (case px_credentialRef x of None \<Rightarrow> Inr ()
            | Some r \<Rightarrow> ebind (secret_step (parse_secret_ref (VStr r))) (\<lambda>_. Inr ())) (\<lambda>_.
     ebind (ensure (\<not> (\<not> px_enabled x \<and> px_healthState x \<noteq> Disabled)) config_invalid) (\<lambda>_.
     ebind (ensure (\<not> (px_enabled x \<and> px_healthState x = Disabled)) config_invalid) (\<lambda>_.
     ebind (assert_times [px_lastHealthCheckAt x, px_lastSuccessAt x, px_lastFailureAt x, px_cooldownUntil x]) (\<lambda>_.
     ebind (ensure (case px_latencyMs x of None \<Rightarrow> True | Some n \<Rightarrow> bounded_int 0 86400000 n \<noteq> None) config_invalid) (\<lambda>_.
     ebind (ensure (count_ok 0 (px_successCount x) \<and> count_ok 0 (px_failureCount x) \<and>
       count_ok 0 (px_consecutiveFailureCount x) \<and> count_ok 1 (px_revision x)) config_invalid) (\<lambda>_.
     ebind (ensure (rate_ok (px_successRate x)) config_invalid) (\<lambda>_.
     ebind (assert_timestamp (px_createdAt x)) (\<lambda>_.
     assert_timestamp (px_updatedAt x))))))))))))))))))"

section \<open>Health\<close>

record health_policy =
  hp_failureThreshold :: jsnum
  hp_cooldownMs :: jsnum
  hp_degradedLatencyMs :: jsnum

definition default_health_policy :: health_policy where
  "default_health_policy = \<lparr>hp_failureThreshold = Num 3, hp_cooldownMs = Num 30000, hp_degradedLatencyMs = Num 1500\<rparr>"

definition validate_health_policy :: "health_policy \<Rightarrow> proxy_failure + health_policy" where
  "validate_health_policy p =
     ebind (normalize_bounded_integer (VNum (hp_failureThreshold p)) 1 100 3) (\<lambda>_.
     ebind (normalize_bounded_integer (VNum (hp_cooldownMs p)) 1000 86400000 30000) (\<lambda>_.
     ebind (normalize_bounded_integer (VNum (hp_degradedLatencyMs p)) 1 86400000 1500) (\<lambda>_.
     Inr p)))"

definition add_milliseconds :: "string \<Rightarrow> int \<Rightarrow> proxy_failure + string" where
  "add_milliseconds t ms = (case date_parse t of None \<Rightarrow> Inl config_invalid | Some v \<Rightarrow> Inr (to_iso (v + ms)))"

text \<open>\<open>s.replace(/m/g, f)\<close>: \<open>m\<close> is the length of the match at the head of the text, if there is one.\<close>

function replace_all :: "(string \<Rightarrow> nat option) \<Rightarrow> (string \<Rightarrow> string) \<Rightarrow> string \<Rightarrow> string" where
  "replace_all m f [] = []"
| "replace_all m f (c # cs) = (case m (c # cs) of
     None \<Rightarrow> c # replace_all m f cs
   | Some k \<Rightarrow> f (take k (c # cs)) @ replace_all m f (drop (max 1 k) (c # cs)))"
  by pat_completeness auto

termination
  by (relation "measure (\<lambda>(m, f, s). length s)") auto

text \<open>The userinfo of a URL: two slashes, a run without space, slash or at sign that has a colon inside, an at sign.\<close>

definition userinfo_match :: "string \<Rightarrow> nat option" where
  "userinfo_match s =
     (let run = takeWhile (\<lambda>c. \<not> is_space c \<and> c \<noteq> CHR ''/'' \<and> c \<noteq> CHR ''@'') (drop 2 s);
          rest = drop (2 + length run) s
      in if starts_with s ''//'' \<and> starts_with rest ''@'' \<and> CHR '':'' \<in> set (butlast (tl run))
         then Some (3 + length run) else None)"

definition summary_words :: "string list" where [policy_defs]:
  "summary_words = [''password'', ''passwd'', ''passphrase'', ''secret'', ''token'', ''authorization'',
     ''proxy-authorization'', ''username'']"

definition assignment_match :: "string list \<Rightarrow> string \<Rightarrow> nat option" where
  "assignment_match ws s = (case List.find (\<lambda>w. starts_with (to_lower s) w) ws of
     None \<Rightarrow> None
   | Some w \<Rightarrow>
       (let rest = dropWhile is_space (drop (length w) s) in
        if rest = [] \<or> (hd rest \<noteq> CHR '':'' \<and> hd rest \<noteq> CHR ''='') then None
        else (let after = dropWhile is_space (tl rest);
                  body = takeWhile (\<lambda>d. \<not> is_space d \<and> d \<noteq> CHR '','' \<and> d \<noteq> CHR '';'') after
              in if body = [] then None else Some (length s - length after + length body))))"

definition line_run :: "string \<Rightarrow> nat option" where
  "line_run s = (let n = length (takeWhile (\<lambda>c. code c \<in> {9, 10, 13}) s) in if n = 0 then None else Some n)"

definition default_summary :: string where
  "default_summary = ''Proxy health check failed''"

definition sanitize_summary :: "js_value \<Rightarrow> string" where
  "sanitize_summary v = (case v of
     VStr s \<Rightarrow>
       (let a = replace_all userinfo_match (\<lambda>_. ''//'') s;
            b = replace_all (assignment_match summary_words) (\<lambda>_. ''$1=[redacted]'') a;
            c = take 240 (replace_all line_run (\<lambda>_. '' '') b)
        in if c = [] then default_summary else c)
   | _ \<Rightarrow> default_summary)"

definition sanitize_code :: "js_value \<Rightarrow> string" where
  "sanitize_code v = (case v of
     VStr s \<Rightarrow>
       if s \<noteq> [] \<and> length s \<le> 120 \<and> (is_upper (hd s) \<or> is_digit (hd s)) \<and>
          list_all (\<lambda>c. is_upper c \<or> is_digit c \<or> c \<in> set ''._:-'') s
       then s else ''PROXY_HEALTHCHECK_FAILED''
   | _ \<Rightarrow> ''PROXY_HEALTHCHECK_FAILED'')"

text \<open>The outcome of a check; an absent value and a null one are treated alike.\<close>

record check_outcome =
  co_success :: bool
  co_checkedAt :: "string option"
  co_latencyMs :: "jsnum option"
  co_errorCode :: js_value
  co_errorSummary :: js_value

definition next_revision :: "proxy \<Rightarrow> jsnum" where
  "next_revision x = js_int (int_of_num (px_revision x) + 1)"

text \<open>The three records a check may leave: of a disabled proxy, after a success, after a failure.\<close>

definition checked_disabled :: "proxy \<Rightarrow> string \<Rightarrow> string \<Rightarrow> proxy" where
  "checked_disabled x checked now =
     x\<lparr>px_healthState := Disabled, px_lastHealthCheckAt := Some checked, px_updatedAt := now, px_revision := next_revision x\<rparr>"

definition checked_success :: "proxy \<Rightarrow> health_policy \<Rightarrow> string \<Rightarrow> int option \<Rightarrow> string \<Rightarrow> proxy" where
  "checked_success x p checked latency now =
     (let successes = int_of_num (px_successCount x);
          total = successes + int_of_num (px_failureCount x) + 1
      in x\<lparr>px_healthState := (case latency of None \<Rightarrow> Healthy
             | Some l \<Rightarrow> if int_of_num (hp_degradedLatencyMs p) \<le> l then Degraded else Healthy),
           px_lastHealthCheckAt := Some checked, px_lastSuccessAt := Some checked,
           px_latencyMs := map_option js_int latency, px_successCount := js_int (successes + 1),
           px_consecutiveFailureCount := Num 0, px_successRate := Num (of_int (successes + 1) / of_int total),
           px_cooldownUntil := None, px_lastErrorCode := None, px_lastErrorSummary := None, px_updatedAt := now,
           px_revision := next_revision x\<rparr>)"

definition failures_after :: "proxy \<Rightarrow> int" where
  "failures_after x = int_of_num (px_consecutiveFailureCount x) + 1"

definition checked_failure :: "proxy \<Rightarrow> check_outcome \<Rightarrow> string \<Rightarrow> int option \<Rightarrow> bool \<Rightarrow> string option \<Rightarrow> string \<Rightarrow> proxy" where
  "checked_failure x outcome checked latency cool until now =
     (let successes = int_of_num (px_successCount x);
          failures = int_of_num (px_failureCount x);
          total = successes + failures + 1
      in x\<lparr>px_healthState := (if cool then Cooldown else Degraded), px_lastHealthCheckAt := Some checked,
           px_lastFailureAt := Some checked, px_latencyMs := map_option js_int latency,
           px_failureCount := js_int (failures + 1), px_consecutiveFailureCount := js_int (failures_after x),
           px_successRate := Num (of_int successes / of_int total), px_cooldownUntil := until,
           px_lastErrorCode := Some (sanitize_code (co_errorCode outcome)),
           px_lastErrorSummary := Some (sanitize_summary (co_errorSummary outcome)), px_updatedAt := now,
           px_revision := next_revision x\<rparr>)"

definition check_latency :: "jsnum option \<Rightarrow> proxy_failure + int option" where
  "check_latency l = (case l of None \<Rightarrow> Inr None
     | Some n \<Rightarrow> ebind (normalize_bounded_integer (VNum n) 0 86400000 0) (\<lambda>i. Inr (Some i)))"

definition record_health_check :: "proxy \<Rightarrow> check_outcome \<Rightarrow> string \<Rightarrow> health_policy \<Rightarrow> proxy_failure + proxy" where
  "record_health_check x outcome now policy =
     ebind (assert_proxy_metadata x) (\<lambda>_.
     ebind (validate_health_policy policy) (\<lambda>p.
     ebind (assert_timestamp now) (\<lambda>_.
     let checked = (case co_checkedAt outcome of None \<Rightarrow> now | Some t \<Rightarrow> t) in
     ebind (assert_timestamp checked) (\<lambda>_.
     ebind (check_latency (co_latencyMs outcome)) (\<lambda>latency.
     if \<not> px_enabled x then Inr (checked_disabled x checked now)
     else if co_success outcome then Inr (checked_success x p checked latency now)
     else (let cool = int_of_num (hp_failureThreshold p) \<le> failures_after x
           in ebind (if cool then ebind (add_milliseconds now (int_of_num (hp_cooldownMs p))) (\<lambda>u. Inr (Some u)) else Inr None)
                (\<lambda>until. Inr (checked_failure x outcome checked latency cool until now))))))))"

text \<open>\<open>Date.parse(a) > Date.parse(b)\<close>: false when one of them is NaN.\<close>

definition later :: "string \<Rightarrow> string \<Rightarrow> bool" where
  "later a b = (case (date_parse a, date_parse b) of (Some x, Some y) \<Rightarrow> y < x | _ \<Rightarrow> False)"

definition expire_cooldown :: "proxy \<Rightarrow> string \<Rightarrow> proxy_failure + proxy" where
  "expire_cooldown x now =
     ebind (assert_proxy_metadata x) (\<lambda>_.
     ebind (assert_timestamp now) (\<lambda>_.
     case px_cooldownUntil x of
       None \<Rightarrow> Inr x
     | Some u \<Rightarrow>
         if px_healthState x \<noteq> Cooldown \<or> later u now then Inr x
         else Inr (x\<lparr>px_healthState := (if px_enabled x then Degraded else Disabled), px_cooldownUntil := None,
                px_updatedAt := now, px_revision := next_revision x\<rparr>)))"

section \<open>Eligibility and selection\<close>

datatype eligibility = Eligible | Ineligible proxy_error

definition proxy_eligibility :: "proxy \<Rightarrow> string \<Rightarrow> bool \<Rightarrow> eligibility" where
  "proxy_eligibility x now credential =
     (if \<not> is_ok (assert_proxy_metadata x) then Ineligible PROXY_CONFIG_INVALID
      else if \<not> px_enabled x \<or> px_healthState x = Disabled then Ineligible PROXY_DISABLED
      else if px_healthState x = Cooldown \<or> (case px_cooldownUntil x of None \<Rightarrow> False | Some u \<Rightarrow> later u now)
        then Ineligible PROXY_COOLDOWN
      else if px_healthState x \<noteq> Healthy then Ineligible PROXY_HEALTHCHECK_FAILED
      else if px_credentialRef x \<noteq> None \<and> \<not> credential then Ineligible PROXY_SECRET_MISSING
      else Eligible)"

definition is_proxy_eligible :: "proxy \<Rightarrow> string \<Rightarrow> bool \<Rightarrow> bool" where
  "is_proxy_eligible x now credential = (proxy_eligibility x now credential = Eligible)"

definition assert_proxy_affinity :: "string option \<Rightarrow> string option \<Rightarrow> proxy_failure + unit" where
  "assert_proxy_affinity bound requested = ensure (bound = requested) (ProxyError PROXY_AFFINITY_MISMATCH)"

record selection_input =
  si_mode :: connection_mode
  si_proxies :: "proxy list"
  si_now :: string
  si_selectedProxyId :: "string option"
  si_sessionProxyId :: "string option"

text \<open>The order \<open>priority, -weight, id\<close>; \<open>col\<close> is the collation key of \<open>localeCompare\<close>.\<close>

definition preference :: "(string \<Rightarrow> string) \<Rightarrow> proxy \<Rightarrow> int \<times> int \<times> string" where
  "preference col x = (int_of_num (px_priority x), - int_of_num (px_weight x), col (px_id x))"

definition why_unavailable :: "(proxy \<Rightarrow> bool) \<Rightarrow> proxy option \<Rightarrow> proxy_error" where
  "why_unavailable available selected = (case selected of
     None \<Rightarrow> PROXY_AFFINITY_UNAVAILABLE
   | Some x \<Rightarrow>
       if px_healthState x = Disabled \<or> \<not> px_enabled x then PROXY_DISABLED
       else if px_healthState x = Cooldown then PROXY_COOLDOWN
       else if px_credentialRef x \<noteq> None \<and> \<not> available x then PROXY_SECRET_MISSING
       else PROXY_AFFINITY_UNAVAILABLE)"

definition select_eligible_proxy :: "(string \<Rightarrow> string) \<Rightarrow> (proxy \<Rightarrow> bool) \<Rightarrow> selection_input \<Rightarrow> proxy_failure + proxy option" where
  "select_eligible_proxy col available input =
     (if si_mode input = DirectMode then
        (if si_sessionProxyId input \<noteq> None then Inl (ProxyError PROXY_DIRECT_FALLBACK_BLOCKED) else Inr None)
      else
        (let requested = (if si_selectedProxyId input \<noteq> None then si_selectedProxyId input else si_sessionProxyId input) in
         ebind (if si_sessionProxyId input \<noteq> None then assert_proxy_affinity (si_sessionProxyId input) requested else Inr ()) (\<lambda>_.
         let wanted = (\<lambda>x. (case requested of None \<Rightarrow> True | Some i \<Rightarrow> px_id x = i) \<and>
               is_proxy_eligible x (si_now input) (available x))
         in case select_first wanted (preference col) (si_proxies input) of
              Some x \<Rightarrow> Inr (Some x)
            | None \<Rightarrow> (case requested of
                Some i \<Rightarrow> Inl (ProxyError (why_unavailable available (List.find (\<lambda>x. px_id x = i) (si_proxies input))))
              | None \<Rightarrow> Inl (ProxyError PROXY_UNAVAILABLE)))))"

section \<open>Connecting\<close>

record credential =
  cr_username :: string
  cr_password :: string

record runtime_configuration =
  rc_server :: string
  rc_bypass :: "string list"
  rc_credential :: "credential option"

definition create_runtime_configuration :: "proxy \<Rightarrow> credential option \<Rightarrow> proxy_failure + runtime_configuration" where
  "create_runtime_configuration x cred =
     ebind (assert_proxy_metadata x) (\<lambda>_.
     ebind (ensure (\<not> (px_credentialRef x \<noteq> None \<and> cred = None)) (ProxyError PROXY_SECRET_MISSING)) (\<lambda>_.
     ebind (proxy_server_url x) (\<lambda>server.
     Inr \<lparr>rc_server = server, rc_bypass = px_bypass x, rc_credential = cred\<rparr>)))"

end
