(* ===== verification/Worker_Pool.thy ===== *)
theory Worker_Pool
  imports Origin_Budget Circuit_Breaker Proxy_Policy "HOL-Library.AList"
begin

text \<open>
  packages/archive-core/src/scheduler.ts, the class \<open>WorkerPoolScheduler\<close>: reservation of a
  worker under the limits of the pool, the Origin and the proxy, the choice of a proxy, release and
  snapshots. A JavaScript map is an association list in insertion order. An operation that throws keeps the
  changes it made before, so a result is an error or a value together with the pool it leaves.
\<close>

record worker =
  wk_workerId :: string
  wk_runId :: string
  wk_jobId :: string
  wk_proxyId :: "string option"
  wk_origin :: string
  wk_startedAt :: string
  wk_lastHeartbeatAt :: string
  wk_completedJobs :: nat
  wk_failedJobs :: nat
  wk_averageDurationMs :: "rat option"
  wk_status :: worker_status
  wk_durations :: "int list"

record proxy_state =
  ps_activeWorkers :: nat
  ps_completedJobs :: nat
  ps_failedJobs :: nat
  ps_completedAtMs :: "int list"
  ps_circuit :: circuit
  ps_smoothWeight :: int

record pool =
  pl_workers :: "(string \<times> worker) list"
  pl_proxies :: "(string \<times> proxy_state) list"
  pl_pages :: "(string \<times> nat) list"
  pl_budget :: budget

text \<open>What the scheduler was constructed with, and the host functions it calls.\<close>

record pool_env =
  pe_config :: worker_config
  pe_circuit :: circuit_config
  pe_runId :: string
  pe_url :: url_parser
  pe_date :: "string \<Rightarrow> int option"
  pe_collate :: "string \<Rightarrow> string"

definition new_pool :: pool where
  "new_pool = \<lparr>pl_workers = [], pl_proxies = [], pl_pages = [], pl_budget = new_budget\<rparr>"

type_synonym 'a pool_op = "pool \<Rightarrow> (scheduler_error + 'a) \<times> pool"

definition pl_ret :: "'a \<Rightarrow> 'a pool_op" where
  "pl_ret a s = (Inr a, s)"

definition pl_throw :: "scheduler_error \<Rightarrow> 'a pool_op" where
  "pl_throw e s = (Inl e, s)"

definition pl_bind :: "'a pool_op \<Rightarrow> ('a \<Rightarrow> 'b pool_op) \<Rightarrow> 'b pool_op" where
  "pl_bind m f s = (case m s of (Inl e, s') \<Rightarrow> (Inl e, s') | (Inr a, s') \<Rightarrow> f a s')"

definition pl_guard :: "bool \<Rightarrow> scheduler_error \<Rightarrow> unit pool_op" where
  "pl_guard b e s = (if b then (Inr (), s) else (Inl e, s))"

definition pl_lift :: "scheduler_error + 'a \<Rightarrow> 'a pool_op" where
  "pl_lift x s = (x, s)"

definition pl_gets :: "(pool \<Rightarrow> 'a) \<Rightarrow> 'a pool_op" where
  "pl_gets f s = (Inr (f s), s)"

definition pl_modify :: "(pool \<Rightarrow> pool) \<Rightarrow> unit pool_op" where
  "pl_modify f s = (Inr (), f s)"

section \<open>Proxy states\<close>

definition fresh_proxy_state :: proxy_state where
  "fresh_proxy_state = \<lparr>ps_activeWorkers = 0, ps_completedJobs = 0, ps_failedJobs = 0, ps_completedAtMs = [],
     ps_circuit = new_circuit, ps_smoothWeight = 0\<rparr>"

text \<open>\<open>proxyState\<close>: the entry of the proxy, made on first use by the circuit breaker's constructor.\<close>

definition touch_proxy :: "pool_env \<Rightarrow> string \<Rightarrow> proxy_state pool_op" where
  "touch_proxy E i s = (case map_of (pl_proxies s) i of
     Some st \<Rightarrow> (Inr st, s)
   | None \<Rightarrow>
       if \<not> safe_identifier i \<or> \<not> circuit_config_ok (pe_circuit E) then (Inl SCHEDULER_CONFIG_INVALID, s)
       else (Inr fresh_proxy_state, s\<lparr>pl_proxies := AList.update i fresh_proxy_state (pl_proxies s)\<rparr>))"

definition put_proxy :: "string \<Rightarrow> proxy_state \<Rightarrow> pool \<Rightarrow> pool" where
  "put_proxy i st s = s\<lparr>pl_proxies := AList.update i st (pl_proxies s)\<rparr>"

definition proxy_capacity :: "pool_env \<Rightarrow> proxy \<Rightarrow> int" where
  "proxy_capacity E x = min (int (wc_perProxyWorkers (pe_config E))) (int_of_num (px_maxConcurrency x))"

section \<open>Choosing a proxy\<close>

text \<open>The readings of the clocks during one call.\<close>

record readings =
  rd_paused :: int
  rd_now :: string
  rd_eligible :: int
  rd_view :: int
  rd_probe :: int
  rd_start :: int

text \<open>The third filter of \<open>eligibleProxies\<close>: free capacity, then a circuit that admits.\<close>

definition has_room :: "pool_env \<Rightarrow> int \<Rightarrow> proxy \<Rightarrow> bool pool_op" where
  "has_room E t x =
     pl_bind (touch_proxy E (px_id x)) (\<lambda>st.
     if int (ps_activeWorkers st) < proxy_capacity E x
     then (case can_schedule (pe_circuit E) t (ps_circuit st) of (ok, b) \<Rightarrow>
       pl_bind (pl_modify (put_proxy (px_id x) (st\<lparr>ps_circuit := b\<rparr>))) (\<lambda>_. pl_ret ok))
     else pl_ret False)"

fun room_filter :: "pool_env \<Rightarrow> int \<Rightarrow> proxy list \<Rightarrow> proxy list pool_op" where
  "room_filter E t [] = pl_ret []"
| "room_filter E t (x # xs) = pl_bind (has_room E t x) (\<lambda>ok. pl_bind (room_filter E t xs) (\<lambda>ys.
     pl_ret (if ok then x # ys else ys)))"

definition proxy_rank :: "pool_env \<Rightarrow> proxy \<Rightarrow> int \<times> string" where
  "proxy_rank E x = (int_of_num (px_priority x), pe_collate E (px_id x))"

definition top_priority :: "pool_env \<Rightarrow> proxy list \<Rightarrow> proxy list" where
  "top_priority E xs = (case sort_key (proxy_rank E) xs of
     [] \<Rightarrow> []
   | y # ys \<Rightarrow> filter (\<lambda>x. int_of_num (px_priority x) = int_of_num (px_priority y)) (y # ys))"

definition eligible_proxies :: "pool_env \<Rightarrow> readings \<Rightarrow> (proxy \<Rightarrow> bool) \<Rightarrow> proxy list \<Rightarrow> string option \<Rightarrow> proxy list pool_op" where
  "eligible_proxies E rd available proxies requested =
     pl_bind (room_filter E (rd_eligible rd)
       (filter (\<lambda>x. is_proxy_eligible x (rd_now rd) (available x))
         (filter (\<lambda>x. requested = None \<or> requested = Some (px_id x)) proxies))) (\<lambda>xs.
     pl_ret (top_priority E xs))"

text \<open>
  The loop of \<open>selectWeighted\<close>: every candidate gains its weight, the largest sum wins and the
  least collated identifier breaks ties. The winner then pays the weights.
\<close>

fun weighted_loop :: "pool_env \<Rightarrow> proxy list \<Rightarrow> int \<Rightarrow> (proxy \<times> int) option \<Rightarrow> (int \<times> (proxy \<times> int) option) pool_op" where
  "weighted_loop E [] weights best = pl_ret (weights, best)"
| "weighted_loop E (x # xs) weights best =
     pl_bind (touch_proxy E (px_id x)) (\<lambda>st.
     let w = ps_smoothWeight st + int_of_num (px_weight x);
         wins = (case best of None \<Rightarrow> True | Some (y, score) \<Rightarrow>
           score < w \<or> (w = score \<and> pe_collate E (px_id x) < pe_collate E (px_id y)))
     in pl_bind (pl_modify (put_proxy (px_id x) (st\<lparr>ps_smoothWeight := w\<rparr>))) (\<lambda>_.
        weighted_loop E xs (weights + int_of_num (px_weight x)) (if wins then Some (x, w) else best)))"

definition select_weighted :: "pool_env \<Rightarrow> proxy list \<Rightarrow> proxy option pool_op" where
  "select_weighted E xs =
     (if xs = [] then pl_ret None else
      pl_bind (weighted_loop E xs 0 None) (\<lambda>(weights, best).
      case best of
        None \<Rightarrow> pl_ret None
      | Some (x, _) \<Rightarrow>
          pl_bind (touch_proxy E (px_id x)) (\<lambda>st.
          pl_bind (pl_modify (put_proxy (px_id x) (st\<lparr>ps_smoothWeight := ps_smoothWeight st - weights\<rparr>))) (\<lambda>_.
          pl_ret (Some x)))))"

text \<open>The order \<open>load, priority, id\<close> of \<open>selectLeastLoaded\<close>, as a linear order of its own.\<close>

datatype load_rank = LoadRank (lr_load: rat) (lr_priority: int) (lr_id: string)

instantiation load_rank :: linorder
begin

definition less_eq_load_rank :: "load_rank \<Rightarrow> load_rank \<Rightarrow> bool" where
  "less_eq_load_rank a b = ((lr_load a, lr_priority a, lr_id a) \<le> (lr_load b, lr_priority b, lr_id b))"

definition less_load_rank :: "load_rank \<Rightarrow> load_rank \<Rightarrow> bool" where
  "less_load_rank a b = ((lr_load a, lr_priority a, lr_id a) < (lr_load b, lr_priority b, lr_id b))"

instance
proof
  fix a b c :: load_rank
  show "a < b \<longleftrightarrow> a \<le> b \<and> \<not> b \<le> a" unfolding less_load_rank_def less_eq_load_rank_def by (rule less_le_not_le)
  show "a \<le> a" by (simp add: less_eq_load_rank_def)
  show "a \<le> b \<Longrightarrow> b \<le> c \<Longrightarrow> a \<le> c" unfolding less_eq_load_rank_def by (rule order_trans)
  show "a \<le> b \<Longrightarrow> b \<le> a \<Longrightarrow> a = b"
    unfolding less_eq_load_rank_def by (drule (1) order_antisym) (cases a, cases b, simp)
  show "a \<le> b \<or> b \<le> a" unfolding less_eq_load_rank_def by (rule linear)
qed

end

definition active_on :: "pool \<Rightarrow> string \<Rightarrow> nat" where
  "active_on s i = (case map_of (pl_proxies s) i of None \<Rightarrow> 0 | Some st \<Rightarrow> ps_activeWorkers st)"

definition load_of :: "pool_env \<Rightarrow> pool \<Rightarrow> proxy \<Rightarrow> load_rank" where
  "load_of E s x = LoadRank (of_nat (active_on s (px_id x)) / of_int (proxy_capacity E x))
     (int_of_num (px_priority x)) (pe_collate E (px_id x))"

definition select_least_loaded :: "pool_env \<Rightarrow> proxy list \<Rightarrow> proxy option pool_op" where
  "select_least_loaded E xs = pl_gets (\<lambda>s. select_first (\<lambda>_. True) (load_of E s) xs)"

definition select_proxy :: "pool_env \<Rightarrow> readings \<Rightarrow> (proxy \<Rightarrow> bool) \<Rightarrow> scheduler_job \<Rightarrow> proxy list \<Rightarrow> (proxy option \<times> bool) pool_op" where
  "select_proxy E rd available job proxies =
     (let affinity = (case jb_session job of None \<Rightarrow> None | Some a \<Rightarrow> sa_proxyId a);
          explicit = jb_proxyId job;
          requested = (if affinity \<noteq> None then affinity else explicit)
      in if affinity \<noteq> None \<and> explicit \<noteq> None \<and> affinity \<noteq> explicit then pl_throw SCHEDULER_AFFINITY_CONFLICT
         else if wc_connectionMode (pe_config E) = DirectMode then
           (if affinity \<noteq> None \<or> explicit \<noteq> None then pl_throw SCHEDULER_AFFINITY_CONFLICT else pl_ret (None, False))
         else
           pl_bind (eligible_proxies E rd available proxies requested) (\<lambda>xs.
           if xs = [] then pl_ret (None, False)
           else
             pl_bind (if requested \<noteq> None then pl_ret (Some (hd xs))
                      else if wc_selectionPolicy (pe_config E) = LeastLoaded then select_least_loaded E xs
                      else select_weighted E xs) (\<lambda>selected.
             case selected of
               None \<Rightarrow> pl_ret (None, False)
             | Some x \<Rightarrow>
                 pl_bind (touch_proxy E (px_id x)) (\<lambda>st.
                 let seen = circuit_snapshot (pe_circuit E) (rd_view rd) (ps_circuit st);
                     half_open = (cb_state seen = CbHalfOpen)
                 in (case begin_probe (pe_circuit E) (rd_probe rd) seen of (ok, b) \<Rightarrow>
                    pl_bind (pl_modify (put_proxy (px_id x) (st\<lparr>ps_circuit := b\<rparr>))) (\<lambda>_.
                    pl_ret (if ok then (Some x, half_open) else (None, False))))))))"

section \<open>Reserving and releasing\<close>

record reservation =
  rv_workerId :: string
  rv_job :: scheduler_job
  rv_origin :: string
  rv_proxy :: "proxy option"
  rv_startedAtMs :: int
  rv_halfOpenProbe :: bool

definition pages_of :: "pool \<Rightarrow> string \<Rightarrow> nat" where
  "pages_of s origin = (case map_of (pl_pages s) origin of None \<Rightarrow> 0 | Some n \<Rightarrow> n)"

definition new_worker :: "pool_env \<Rightarrow> string \<Rightarrow> scheduler_job \<Rightarrow> string \<Rightarrow> proxy option \<Rightarrow> int \<Rightarrow> worker" where
  "new_worker E w job origin x t = \<lparr>wk_workerId = w, wk_runId = pe_runId E, wk_jobId = jb_jobId job,
     wk_proxyId = map_option px_id x, wk_origin = origin, wk_startedAt = to_iso t, wk_lastHeartbeatAt = to_iso t,
     wk_completedJobs = 0, wk_failedJobs = 0, wk_averageDurationMs = None, wk_status = WsRunning, wk_durations = []\<rparr>"

definition start_worker :: "pool_env \<Rightarrow> string \<Rightarrow> scheduler_job \<Rightarrow> string \<Rightarrow> proxy option \<Rightarrow> int \<Rightarrow> pool \<Rightarrow> pool" where
  "start_worker E w job origin x t s =
     s\<lparr>pl_workers := AList.update w (new_worker E w job origin x t) (pl_workers s),
       pl_pages := AList.update origin (pages_of s origin + 1) (pl_pages s)\<rparr>"

definition count_worker :: "pool_env \<Rightarrow> proxy option \<Rightarrow> unit pool_op" where
  "count_worker E x = (case x of
     None \<Rightarrow> pl_ret ()
   | Some p \<Rightarrow> pl_bind (touch_proxy E (px_id p)) (\<lambda>st.
       pl_modify (put_proxy (px_id p) (st\<lparr>ps_activeWorkers := ps_activeWorkers st + 1\<rparr>))))"

definition check_paused :: "pool_env \<Rightarrow> string \<Rightarrow> int \<Rightarrow> bool pool_op" where
  "check_paused E origin t s = (case is_paused (pe_url E) (pe_config E) origin t (pl_budget s) of
     Inl e \<Rightarrow> (Inl e, s)
   | Inr (b, budget) \<Rightarrow> (Inr b, s\<lparr>pl_budget := budget\<rparr>))"

definition try_reserve_worker :: "pool_env \<Rightarrow> readings \<Rightarrow> (proxy \<Rightarrow> bool) \<Rightarrow> string \<Rightarrow> scheduler_job \<Rightarrow> proxy list \<Rightarrow> reservation option pool_op" where
  "try_reserve_worker E rd available w job proxies =
     pl_bind (pl_guard (safe_identifier w) SCHEDULER_CONFIG_INVALID) (\<lambda>_.
     pl_bind (pl_lift (normalize_scheduler_job (pe_url E) job)) (\<lambda>(job, origin).
     pl_bind (pl_gets (\<lambda>s. map_of (pl_workers s) w)) (\<lambda>existing.
     pl_bind (pl_guard (existing = None) SCHEDULER_CONFIG_INVALID) (\<lambda>_.
     pl_bind (pl_gets (\<lambda>s. wc_globalWorkers (pe_config E) \<le> length (pl_workers s) \<or>
       wc_perOriginPages (pe_config E) \<le> pages_of s origin)) (\<lambda>full.
     if full then pl_ret None else
     pl_bind (check_paused E origin (rd_paused rd)) (\<lambda>paused.
     if paused then pl_ret None else
     pl_bind (select_proxy E rd available job proxies) (\<lambda>(x, half_open).
     if wc_connectionMode (pe_config E) \<noteq> DirectMode \<and> x = None then pl_ret None else
     pl_bind (pl_modify (start_worker E w job origin x (rd_start rd))) (\<lambda>_.
     pl_bind (count_worker E x) (\<lambda>_.
     pl_ret (Some \<lparr>rv_workerId = w, rv_job = job, rv_origin = origin, rv_proxy = x, rv_startedAtMs = rd_start rd,
       rv_halfOpenProbe = half_open\<rparr>))))))))))"

datatype outcome_status = OutCompleted | OutFailed | OutCancelled

text \<open>The status a worker gets as it ends; it is dropped with the worker at the end of the call.\<close>

definition finished_worker :: "outcome_status \<Rightarrow> int \<Rightarrow> int \<Rightarrow> worker \<Rightarrow> worker" where
  "finished_worker status t started k =
     (let durations = wk_durations k @ [max 0 (t - started)];
          average = Some (of_int (sum_list durations) / of_nat (length durations));
          k' = k\<lparr>wk_durations := durations, wk_averageDurationMs := average, wk_lastHeartbeatAt := to_iso t\<rparr>
      in if status = OutCompleted then k'\<lparr>wk_status := WsStopped, wk_completedJobs := wk_completedJobs k + 1\<rparr>
         else k'\<lparr>wk_status := (if status = OutCancelled then WsStopped else WsFailed), wk_failedJobs := wk_failedJobs k + 1\<rparr>)"

definition end_on_proxy :: "circuit_config \<Rightarrow> outcome_status \<Rightarrow> scheduler_category option \<Rightarrow> int \<Rightarrow> bool \<Rightarrow> proxy_state \<Rightarrow> proxy_state" where
  "end_on_proxy c status category t probe st =
     (let st' = st\<lparr>ps_activeWorkers := ps_activeWorkers st - 1\<rparr> in
      if status = OutCompleted then
        st'\<lparr>ps_completedJobs := ps_completedJobs st + 1, ps_completedAtMs := ps_completedAtMs st @ [t],
            ps_circuit := record_success (ps_circuit st)\<rparr>
      else st'\<lparr>ps_failedJobs := ps_failedJobs st + 1,
            ps_circuit := (if category = Some CatProxy then record_failure c t (ps_circuit st)
              else if probe then cancel_probe (ps_circuit st) else ps_circuit st)\<rparr>)"

definition drop_page :: "string \<Rightarrow> pool \<Rightarrow> pool" where
  "drop_page origin s =
     (let pages = (case map_of (pl_pages s) origin of None \<Rightarrow> 1 | Some n \<Rightarrow> n) - 1
      in if pages = 0 then s\<lparr>pl_pages := AList.delete origin (pl_pages s)\<rparr>
         else s\<lparr>pl_pages := AList.update origin pages (pl_pages s)\<rparr>)"

definition release_worker :: "pool_env \<Rightarrow> reservation \<Rightarrow> outcome_status \<Rightarrow> scheduler_category option \<Rightarrow> int \<Rightarrow> unit pool_op" where
  "release_worker E r status category t =
     pl_bind (pl_gets (\<lambda>s. map_of (pl_workers s) (rv_workerId r))) (\<lambda>existing.
     case existing of
       None \<Rightarrow> pl_ret ()
     | Some k \<Rightarrow>
         pl_bind (pl_modify (\<lambda>s. s\<lparr>pl_workers :=
           AList.update (rv_workerId r) (finished_worker status t (rv_startedAtMs r) k) (pl_workers s)\<rparr>)) (\<lambda>_.
         pl_bind (case rv_proxy r of
             None \<Rightarrow> pl_ret ()
           | Some x \<Rightarrow> pl_bind (touch_proxy E (px_id x)) (\<lambda>st.
               pl_modify (put_proxy (px_id x) (end_on_proxy (pe_circuit E) status category t (rv_halfOpenProbe r) st)))) (\<lambda>_.
         pl_modify (\<lambda>s. (drop_page (rv_origin r) s)\<lparr>pl_workers := AList.delete (rv_workerId r) (pl_workers s)\<rparr>))))"

definition heartbeat :: "reservation \<Rightarrow> int \<Rightarrow> worker pool_op" where
  "heartbeat r t =
     pl_bind (pl_gets (\<lambda>s. map_of (pl_workers s) (rv_workerId r))) (\<lambda>existing.
     case existing of
       None \<Rightarrow> pl_throw WORKER_LEASE_LOST
     | Some k \<Rightarrow> (let k' = k\<lparr>wk_lastHeartbeatAt := to_iso t\<rparr> in
         pl_bind (pl_modify (\<lambda>s. s\<lparr>pl_workers := AList.update (rv_workerId r) k' (pl_workers s)\<rparr>)) (\<lambda>_. pl_ret k')))"

definition record_origin_response :: "pool_env \<Rightarrow> string \<Rightarrow> jsnum \<Rightarrow> string option \<Rightarrow> int \<Rightarrow> origin_snapshot pool_op" where
  "record_origin_response E url status header t s =
     (case record_response (pe_url E) (pe_date E) (pe_config E) url status header t (pl_budget s) of
        Inl e \<Rightarrow> (Inl e, s)
      | Inr (snap, budget) \<Rightarrow> (Inr snap, s\<lparr>pl_budget := budget\<rparr>))"

section \<open>Snapshots\<close>

definition get_worker_status :: "pool_env \<Rightarrow> pool \<Rightarrow> worker list" where
  "get_worker_status E s = sort_key (\<lambda>k. pe_collate E (wk_workerId k)) (map snd (pl_workers s))"

record throughput =
  tp_proxyId :: string
  tp_activeWorkers :: nat
  tp_completedJobs :: nat
  tp_failedJobs :: nat
  tp_throughputPerMinute :: nat
  tp_circuit :: circuit

definition get_proxy_throughput :: "pool_env \<Rightarrow> int \<Rightarrow> pool \<Rightarrow> throughput list \<times> pool" where
  "get_proxy_throughput E t s =
     (let settled = map (\<lambda>(i, st). (i, st\<lparr>ps_circuit := circuit_snapshot (pe_circuit E) t (ps_circuit st)\<rparr>)) (pl_proxies s)
      in (sort_key (\<lambda>x. pe_collate E (tp_proxyId x))
            (map (\<lambda>(i, st). \<lparr>tp_proxyId = i, tp_activeWorkers = ps_activeWorkers st, tp_completedJobs = ps_completedJobs st,
               tp_failedJobs = ps_failedJobs st,
               tp_throughputPerMinute = length (filter (\<lambda>v. t - 60000 \<le> v) (ps_completedAtMs st)),
               tp_circuit = ps_circuit st\<rparr>) settled),
          s\<lparr>pl_proxies := settled\<rparr>))"

definition get_load_snapshot :: "pool \<Rightarrow> nat \<times> (string \<times> nat) list \<times> (string \<times> nat) list" where
  "get_load_snapshot s = (length (pl_workers s), pl_pages s, map (\<lambda>(i, st). (i, ps_activeWorkers st)) (pl_proxies s))"

section \<open>Persisted cooldowns\<close>

record rate_limit_row =
  rl_origin :: string
  rl_cooldownUntil :: "string option"
  rl_lastStatus :: "int option"

text \<open>The row \<open>queuePersistedRateLimit\<close> saves, without the keys and the time of writing.\<close>

definition rate_limit_of :: "origin_snapshot \<Rightarrow> rate_limit_row" where
  "rate_limit_of sn = \<lparr>rl_origin = sn_origin sn, rl_cooldownUntil = map_option to_iso (sn_cooldownUntilMs sn),
     rl_lastStatus = sn_lastStatus sn\<rparr>"

fun restore_rows :: "pool_env \<Rightarrow> int \<Rightarrow> rate_limit_row list \<Rightarrow> unit pool_op" where
  "restore_rows E t [] = pl_ret ()"
| "restore_rows E t (row # rows) = (case rl_cooldownUntil row of
     None \<Rightarrow> restore_rows E t rows
   | Some u \<Rightarrow> (case pe_date E u of
       None \<Rightarrow> pl_throw SCHEDULER_PERSISTENCE_FAILED
     | Some ms \<Rightarrow>
         if ms < 0 then pl_throw SCHEDULER_PERSISTENCE_FAILED
         else (\<lambda>s. case restore (pe_url E) (pe_config E) (rl_origin row) (js_int ms) (rl_lastStatus row) t (pl_budget s) of
             Inl e \<Rightarrow> (Inl e, s)
           | Inr budget \<Rightarrow> restore_rows E t rows (s\<lparr>pl_budget := budget\<rparr>))))"

end
