(* ===== verification/Proxy_Sound.thy ===== *)
theory Proxy_Sound
  imports Proxy_Policy Queue_Policy
begin

text \<open>
  Normal forms are fixed by normalisation, the proxy record keeps its well-formedness through its
  life, and what eligibility and selection guarantee.
\<close>

section \<open>Character classes\<close>

lemma plain_chars:
  "is_alnum c \<Longrightarrow> \<not> is_space c" "is_alnum c \<Longrightarrow> \<not> is_control c" "ident_char c \<Longrightarrow> \<not> is_space c"
  "ident_char c \<Longrightarrow> \<not> is_control c" "label_char c \<Longrightarrow> \<not> is_control c" "host_char c \<Longrightarrow> \<not> is_space c"
  "host_char c \<Longrightarrow> \<not> is_control c" "is_hex c \<Longrightarrow> \<not> is_space c"
  by (auto simp: is_alnum_def is_digit_def is_upper_def is_lower_def is_space_def is_control_def ident_char_def
      label_char_def host_char_def is_hex_def code_def)

lemma alnum_marks: "\<not> is_alnum (CHR ''['')" "\<not> is_alnum (CHR ''.'')" "\<not> is_hex (CHR ''['')" "\<not> is_hex (CHR ''.'')"
    "\<not> host_char (CHR '':'')" "\<not> host_char (CHR ''['')" "\<not> is_alnum (CHR '':'')" "\<not> is_space (CHR '':'')"
    "\<not> is_control (CHR '':'')" "\<not> host_char (CHR ''/'')" "\<not> is_space (CHR ''*'')" "\<not> is_control (CHR ''*'')"
  by (simp_all add: is_alnum_def is_digit_def is_upper_def is_lower_def is_hex_def host_char_def is_space_def is_control_def code_def)

lemma lower_fixed_sub: "set t \<subseteq> set (to_lower s) \<Longrightarrow> to_lower t = t"
proof -
  assume "set t \<subseteq> set (to_lower s)"
  then have "lower_char c = c" if "c \<in> set t" for c using that lower_char_idem by (auto simp: to_lower_def)
  then show ?thesis by (simp add: to_lower_def map_idI)
qed

section \<open>Hosts\<close>

lemma host_ok_chars:
  assumes "host_ok h"
  shows "list_all (\<lambda>c. \<not> is_space c) h" "\<not> has_control h" "length h \<le> 253" "h \<noteq> []" "hd h \<noteq> CHR ''[''" "last h \<noteq> CHR ''.''"
proof -
  have "\<not> is_space c \<and> \<not> is_control c \<and> c \<noteq> CHR ''[''" if "c \<in> set h" for c
  proof (cases "CHR '':'' \<in> set h")
    case True
    then have "is_hex c \<or> c = CHR '':''" using assms that by (auto simp: host_ok_def ipv6_pattern_def list_all_iff)
    then show ?thesis using plain_chars(8) hex_facts(2) alnum_marks by blast
  next
    case False
    then have "host_char c" using assms that by (auto simp: host_ok_def host_pattern_def list_all_iff)
    then show ?thesis using plain_chars(6,7) alnum_marks by blast
  qed
  moreover show "h \<noteq> []" using assms by (simp add: host_ok_def)
  ultimately show "list_all (\<lambda>c. \<not> is_space c) h" "\<not> has_control h" "hd h \<noteq> CHR ''[''"
    by (auto simp: list_all_iff has_control_def list_ex_iff)
  show "length h \<le> 253" using assms by (auto simp: host_ok_def host_pattern_def ipv6_pattern_def split: if_splits)
  show "last h \<noteq> CHR ''.''"
  proof (cases "CHR '':'' \<in> set h")
    case True
    then have "is_hex (last h) \<or> last h = CHR '':''"
      using assms \<open>h \<noteq> []\<close> by (auto simp: host_ok_def ipv6_pattern_def list_all_iff)
    then show ?thesis using alnum_marks by auto
  next
    case False
    then have "is_alnum (last h)" using assms by (simp add: host_ok_def host_pattern_def)
    then show ?thesis using alnum_marks by auto
  qed
qed

lemma set_unbracket: "set (unbracket s) \<subseteq> set s"
proof -
  have "set (butlast (tl s)) \<subseteq> set s" by (metis in_set_butlastD list.set_sel(2) subsetI tl_Nil)
  then show ?thesis by (simp add: unbracket_def)
qed

lemma set_undot: "set (undot s) \<subseteq> set s"
  by (auto simp: undot_def dest: in_set_butlastD)

lemma starts_with_one: "starts_with s [c] \<longleftrightarrow> s \<noteq> [] \<and> hd s = c"
  by (cases s) (auto simp: starts_with_def)

lemma ends_with_one: "ends_with s [c] \<longleftrightarrow> s \<noteq> [] \<and> last s = c"
  by (simp add: ends_with_def starts_with_one hd_rev)

lemma normalize_host_ok:
  assumes "normalize_host v = Inr h" shows "host_ok h" "to_lower h = h"
proof -
  obtain s where h: "h = undot (unbracket (to_lower (js_trim s)))" "host_ok h"
    using assms by (auto simp: normalize_host_def result_simps Let_def split: if_splits)
  have "set h \<subseteq> set (to_lower (js_trim s))" using set_undot set_unbracket h(1) by blast
  then show "host_ok h" "to_lower h = h" using h(2) lower_fixed_sub by auto
qed

lemma normalize_host_fixed:
  assumes "host_ok h" "to_lower h = h" shows "normalize_host (VStr h) = Inr h"
  using host_ok_chars[OF assms(1)] assms
  by (simp add: normalize_host_def assert_safe_string_def js_trim_plain unbracket_def undot_def starts_with_one ends_with_one)

lemma normalize_host_idem: "normalize_host v = Inr h \<Longrightarrow> normalize_host (VStr h) = Inr h"
  using normalize_host_fixed normalize_host_ok by blast

section \<open>The other fields\<close>

lemma normalize_protocol_ok: "normalize_protocol v = Inr p \<Longrightarrow> p \<in> set proxy_protocols"
  by (auto simp: normalize_protocol_def Let_def split: js_value.splits if_splits)

lemma normalize_protocol_fixed: "p \<in> set proxy_protocols \<Longrightarrow> normalize_protocol (VStr p) = Inr p"
proof -
  assume "p \<in> set proxy_protocols"
  then have "p = ''http'' \<or> p = ''https'' \<or> p = ''socks5''" by (simp add: proxy_protocols_def)
  moreover have "normalize_protocol (VStr ''http'') = Inr ''http''" "normalize_protocol (VStr ''https'') = Inr ''https''"
    "normalize_protocol (VStr ''socks5'') = Inr ''socks5''" by code_simp+
  ultimately show ?thesis by auto
qed

lemma normalize_port_Inr: "normalize_port v = Inr n \<longleftrightarrow> v = VNum (js_int n) \<and> 1 \<le> n \<and> n \<le> 65535"
  by (auto simp: normalize_port_def result_simps int_between_Some_iff)

lemma normalize_bounded_Inr:
  "normalize_bounded_integer (VNum n) lo hi d = Inr i \<longleftrightarrow> n = js_int i \<and> lo \<le> i \<and> i \<le> hi"
  by (auto simp: normalize_bounded_integer_def result_simps int_between_Some_iff)

lemma normalize_bounded_range:
  "normalize_bounded_integer v lo hi d = Inr i \<Longrightarrow> lo \<le> d \<Longrightarrow> d \<le> hi \<Longrightarrow> lo \<le> i \<and> i \<le> hi"
  by (auto simp: normalize_bounded_integer_def result_simps int_between_Some_iff split: if_splits)

lemma safe_identifier_plain:
  assumes "safe_identifier s" shows "s \<noteq> []" "length s \<le> 128" "\<not> has_control s" "js_trim s = s"
proof -
  obtain c cs where s: "s = c # cs" "is_alnum c" "list_all ident_char cs" "length s \<le> 128"
    using assms by (auto simp: safe_identifier_def ident_pattern_def split: list.splits)
  then show "s \<noteq> []" "length s \<le> 128" by simp_all
  show "\<not> has_control s" using s plain_chars(2,4) by (auto simp: has_control_def list_ex_iff list_all_iff)
  show "js_trim s = s" using s plain_chars(1,3) by (intro js_trim_plain) (auto simp: list_all_iff)
qed

lemma normalize_id_ok: "normalize_id v = Inr i \<Longrightarrow> safe_identifier i"
  by (auto simp: normalize_id_def result_simps split: if_splits)

lemma normalize_id_fixed: "safe_identifier i \<Longrightarrow> normalize_id (VStr i) = Inr i"
  using safe_identifier_plain[of i] by (simp add: normalize_id_def assert_safe_string_def)

definition label_ok :: "string option \<Rightarrow> bool" where
  "label_ok x = (case x of None \<Rightarrow> True
     | Some l \<Rightarrow> label_pattern l \<and> \<not> mentions proxy_label_words l \<and> js_trim l = l)"

lemma normalize_label_ok: "normalize_label v = Inr x \<Longrightarrow> label_ok x"
  by (auto simp: normalize_label_def label_ok_def result_simps Let_def split: if_splits)

lemma normalize_label_fixed:
  assumes "label_ok x" shows "normalize_label (opt_string x) = Inr x"
proof (cases x)
  case None
  then show ?thesis by (simp add: normalize_label_def opt_string_def nullish_def)
next
  case (Some l)
  then have l: "label_pattern l" "\<not> mentions proxy_label_words l" "js_trim l = l" using assms by (auto simp: label_ok_def)
  then obtain c cs where "l = c # cs" "is_alnum c" "list_all label_char cs" "length cs \<le> 119"
    by (auto simp: label_pattern_def split: list.splits)
  then have "l \<noteq> []" "length l \<le> 120" "\<not> has_control l"
    using plain_chars(2,5) by (auto simp: has_control_def list_ex_iff list_all_iff)
  then show ?thesis using l by (simp add: Some normalize_label_def opt_string_def nullish_def assert_safe_string_def)
qed

definition bypass_ok :: "string \<Rightarrow> bool" where
  "bypass_ok s = (bypass_pattern s \<and> \<not> includes_str s ''..'' \<and> to_lower s = s \<and> s \<noteq> [] \<and> length s \<le> 253 \<and>
     list_all (\<lambda>c. \<not> is_space c \<and> \<not> is_control c) s)"

lemma bypass_chars: "bypass_pattern s \<Longrightarrow> s \<noteq> [] \<and> list_all (\<lambda>c. \<not> is_space c \<and> \<not> is_control c) s"
proof -
  assume b: "bypass_pattern s"
  have host: "list_all (\<lambda>c. \<not> is_space c \<and> \<not> is_control c) t" if "host_pattern t" for t
    using that plain_chars(6,7) by (auto simp: host_pattern_def list_all_iff)
  show ?thesis
  proof (cases "host_pattern s")
    case True
    then show ?thesis using host by (simp add: host_pattern_def)
  next
    case False
    then have "starts_with s ''*.''" "host_pattern (drop 2 s)" using b by (simp_all add: bypass_pattern_def)
    then obtain t where "s = CHR ''*'' # CHR ''.'' # t" "host_pattern t"
      by (cases s; cases "tl s") (auto simp: starts_with_def)
    moreover have "\<not> is_space (CHR ''.'')" "\<not> is_control (CHR ''.'')" by (simp_all add: is_space_def is_control_def code_def)
    ultimately show ?thesis using host[of t] alnum_marks by simp
  qed
qed

lemma normalize_bypass_item_ok: "normalize_bypass_item v = Inr s \<Longrightarrow> bypass_ok s"
proof -
  assume "normalize_bypass_item v = Inr s"
  then obtain u where u: "s = to_lower (js_trim u)" "bypass_pattern s" "\<not> includes_str s ''..''" "length u \<le> 253"
    by (auto simp: normalize_bypass_item_def assert_safe_string_def result_simps Let_def split: if_splits js_value.splits)
  have "length s \<le> 253" using u length_js_trim[of u] by simp
  then show ?thesis using u bypass_chars by (simp add: bypass_ok_def to_lower_idem)
qed

lemma normalize_bypass_item_fixed: "bypass_ok s \<Longrightarrow> normalize_bypass_item (VStr s) = Inr s"
proof -
  assume b: "bypass_ok s"
  then have "js_trim s = s" "\<not> has_control s"
    by (auto simp: bypass_ok_def list_all_iff has_control_def list_ex_iff intro!: js_trim_plain)
  then show ?thesis using b by (simp add: bypass_ok_def normalize_bypass_item_def assert_safe_string_def)
qed

definition bypass_list_ok :: "string list \<Rightarrow> bool" where
  "bypass_list_ok xs = (list_all bypass_ok xs \<and> sorted xs \<and> distinct xs \<and> length xs \<le> 100)"

lemma normalize_bypass_ok: "normalize_bypass v = Inr xs \<Longrightarrow> bypass_list_ok xs"
proof -
  assume n: "normalize_bypass v = Inr xs"
  show ?thesis
  proof (cases "nullish v")
    case True
    then show ?thesis using n by (simp add: normalize_bypass_def bypass_list_ok_def)
  next
    case False
    then obtain vs items where v: "v = VArr vs" "length vs \<le> 100" "emap normalize_bypass_item vs = Inr items"
      "xs = sort (remdups items)"
      using n by (auto simp: normalize_bypass_def result_simps split: js_value.splits if_splits)
    have "list_all bypass_ok items"
      using v(3) normalize_bypass_item_ok by (auto simp: emap_Inr_iff list_all2_conv_all_nth list_all_length)
    moreover have "length (remdups items) \<le> 100" using length_remdups_leq[of items] emap_length[OF v(3)] v(2) by linarith
    ultimately show ?thesis by (simp add: bypass_list_ok_def v(4) list_all_iff)
  qed
qed

lemma normalize_bypass_fixed: "bypass_list_ok xs \<Longrightarrow> normalize_bypass (VArr (map VStr xs)) = Inr xs"
proof -
  assume ok: "bypass_list_ok xs"
  have "emap normalize_bypass_item (map VStr xs) = Inr xs"
    using ok normalize_bypass_item_fixed
    by (auto simp: emap_Inr_iff list_all2_conv_all_nth bypass_list_ok_def list_all_length)
  moreover have "sort (remdups xs) = xs" using ok by (simp add: bypass_list_ok_def sorted_sort_id distinct_remdups_id)
  ultimately show ?thesis using ok by (simp add: normalize_bypass_def nullish_def bypass_list_ok_def)
qed

section \<open>Well-formed records\<close>

definition valid_time :: "string \<Rightarrow> bool" where
  "valid_time t = (date_parse t \<noteq> None)"

definition valid_time_opt :: "string option \<Rightarrow> bool" where
  "valid_time_opt x = (case x of None \<Rightarrow> True | Some t \<Rightarrow> valid_time t)"

text \<open>The static part of the record, and the part its health state machine moves.\<close>

definition static_ok :: "proxy \<Rightarrow> bool" where
  "static_ok x = (is_ok (normalize_id (VStr (px_id x))) \<and> is_ok (normalize_protocol (VStr (px_protocol x))) \<and>
     is_ok (normalize_host (VStr (px_host x))) \<and> is_ok (normalize_port (VNum (px_port x))) \<and>
     is_ok (normalize_label (opt_string (px_label x))) \<and> is_ok (normalize_bypass (VArr (map VStr (px_bypass x)))) \<and>
     is_ok (normalize_bounded_integer (VNum (px_weight x)) 1 1000 1) \<and>
     is_ok (normalize_bounded_integer (VNum (px_priority x)) 0 1000 0) \<and>
     is_ok (normalize_bounded_integer (VNum (px_maxConcurrency x)) 1 1000 1) \<and>
     (case px_credentialRef x of None \<Rightarrow> True | Some r \<Rightarrow> is_ok (parse_secret_ref (VStr r))) \<and> valid_time (px_createdAt x))"

definition health_ok :: "proxy \<Rightarrow> bool" where
  "health_ok x = ((px_enabled x \<longleftrightarrow> px_healthState x \<noteq> Disabled) \<and>
     valid_time_opt (px_lastHealthCheckAt x) \<and> valid_time_opt (px_lastSuccessAt x) \<and> valid_time_opt (px_lastFailureAt x) \<and>
     valid_time_opt (px_cooldownUntil x) \<and> valid_time (px_updatedAt x) \<and>
     (case px_latencyMs x of None \<Rightarrow> True | Some n \<Rightarrow> bounded_int 0 86400000 n \<noteq> None) \<and>
     count_ok 0 (px_successCount x) \<and> count_ok 0 (px_failureCount x) \<and> count_ok 0 (px_consecutiveFailureCount x) \<and>
     count_ok 1 (px_revision x) \<and> rate_ok (px_successRate x))"

lemma is_ok_then: "is_ok (ebind m (\<lambda>_. r)) \<longleftrightarrow> is_ok m \<and> is_ok r"
  by (cases m) simp_all

lemma assert_metadata_iff: "is_ok (assert_proxy_metadata x) \<longleftrightarrow> static_ok x \<and> health_ok x"
proof -
  have times: "is_ok (assert_times [a, b, c, d]) \<longleftrightarrow> valid_time_opt a \<and> valid_time_opt b \<and> valid_time_opt c \<and> valid_time_opt d"
    for a b c d
    by (auto simp: assert_times_def assert_timestamp_def valid_time_opt_def valid_time_def ensure_def is_ok_def split: option.splits)
  have time: "is_ok (assert_timestamp t) \<longleftrightarrow> valid_time t" for t by (simp add: assert_timestamp_def valid_time_def)
  have ref: "is_ok (case r of None \<Rightarrow> Inr () | Some r \<Rightarrow> ebind (secret_step (parse_secret_ref (VStr r))) (\<lambda>_. Inr ())) \<longleftrightarrow>
      (case r of None \<Rightarrow> True | Some r \<Rightarrow> is_ok (parse_secret_ref (VStr r)))" for r
    by (auto simp: secret_step_def is_ok_def split: option.splits sum.splits)
  show ?thesis
    unfolding assert_proxy_metadata_def static_ok_def health_ok_def
    by (simp only: is_ok_then is_ok_ensure times time ref) blast
qed

lemma assert_metadata_Inr: "assert_proxy_metadata x = Inr u \<longleftrightarrow> static_ok x \<and> health_ok x"
  using assert_metadata_iff[of x] by (auto simp: is_ok_iff)

section \<open>The life of a record\<close>

lemma draft_parts:
  assumes "normalize_draft req v = Inr d"
  shows "req \<longrightarrow> dr_id d \<noteq> None" "\<And>i. dr_id d = Some i \<Longrightarrow> safe_identifier i" "dr_protocol d \<in> set proxy_protocols"
    "host_ok (dr_host d)" "to_lower (dr_host d) = dr_host d" "1 \<le> dr_port d \<and> dr_port d \<le> 65535" "label_ok (dr_label d)"
    "bypass_list_ok (dr_bypass d)" "1 \<le> dr_weight d \<and> dr_weight d \<le> 1000" "0 \<le> dr_priority d \<and> dr_priority d \<le> 1000"
    "1 \<le> dr_maxConcurrency d \<and> dr_maxConcurrency d \<le> 1000"
    "\<And>r. dr_credentialRef d = Some r \<Longrightarrow> is_ok (parse_secret_ref (VStr r))"
proof -
  let ?p = "prop_of v"
  obtain protocol host port ref ident label bypass weight priority maximum where
    parts: "normalize_protocol (?p ''protocol'') = Inr protocol" "normalize_host (?p ''host'') = Inr host"
      "normalize_port (?p ''port'') = Inr port" "normalize_credential_ref (?p ''credentialRef'') = Inr ref"
      "(if ?p ''id'' = VUndef then Inr None else ebind (normalize_id (?p ''id'')) (\<lambda>i. Inr (Some i))) = Inr ident"
      "normalize_label (?p ''label'') = Inr label" "normalize_bypass (?p ''bypass'') = Inr bypass"
      "normalize_bounded_integer (?p ''weight'') 1 1000 1 = Inr weight"
      "normalize_bounded_integer (?p ''priority'') 0 1000 0 = Inr priority"
      "normalize_bounded_integer (?p ''maxConcurrency'') 1 1000 1 = Inr maximum" "req \<longrightarrow> ident \<noteq> None"
    and d: "dr_id d = ident" "dr_label d = label" "dr_protocol d = protocol" "dr_host d = host" "dr_port d = port"
      "dr_bypass d = bypass" "dr_credentialRef d = ref" "dr_weight d = weight" "dr_priority d = priority"
      "dr_maxConcurrency d = maximum"
    using assms unfolding normalize_draft_def Let_def by (clarsimp simp only: ebind_Inr_iff ensure_Inr_iff) auto
  show "req \<longrightarrow> dr_id d \<noteq> None" using parts(11) d by simp
  show "safe_identifier i" if "dr_id d = Some i" for i
    using that parts(5) d normalize_id_ok by (auto simp: result_simps split: if_splits)
  show "dr_protocol d \<in> set proxy_protocols" using parts(1) d normalize_protocol_ok by simp
  show "host_ok (dr_host d)" "to_lower (dr_host d) = dr_host d" using parts(2) d normalize_host_ok by simp_all
  show "1 \<le> dr_port d \<and> dr_port d \<le> 65535" using parts(3) d by (simp add: normalize_port_Inr)
  show "label_ok (dr_label d)" using parts(6) d normalize_label_ok by simp
  show "bypass_list_ok (dr_bypass d)" using parts(7) d normalize_bypass_ok by simp
  show "1 \<le> dr_weight d \<and> dr_weight d \<le> 1000" using normalize_bounded_range[OF parts(8)] d by simp
  show "0 \<le> dr_priority d \<and> dr_priority d \<le> 1000" using normalize_bounded_range[OF parts(9)] d by simp
  show "1 \<le> dr_maxConcurrency d \<and> dr_maxConcurrency d \<le> 1000" using normalize_bounded_range[OF parts(10)] d by simp
  show "is_ok (parse_secret_ref (VStr r))" if "dr_credentialRef d = Some r" for r
    using that parts(4) d parse_secret_ref_idem
    by (auto simp: normalize_credential_ref_def is_ok_iff split: if_splits sum.splits)
qed

lemma created_metadata_ok:
  assumes "create_proxy_metadata v now = Inr x" shows "static_ok x \<and> health_ok x"
proof -
  obtain d where d: "normalize_draft True v = Inr d" "valid_time now"
    and x: "create_proxy_metadata v now = Inr x"
    using assms by (auto simp: create_proxy_metadata_def result_simps assert_timestamp_def valid_time_def)
  have x: "x = \<lparr>px_id = the (dr_id d), px_label = dr_label d, px_protocol = dr_protocol d, px_host = dr_host d,
       px_port = js_int (dr_port d), px_bypass = dr_bypass d, px_credentialRef = dr_credentialRef d,
       px_weight = js_int (dr_weight d), px_priority = js_int (dr_priority d),
       px_maxConcurrency = js_int (dr_maxConcurrency d), px_enabled = dr_enabled d,
       px_healthState = (if dr_enabled d then Degraded else Disabled), px_lastHealthCheckAt = None,
       px_lastSuccessAt = None, px_lastFailureAt = None, px_latencyMs = None, px_successCount = Num 0,
       px_failureCount = Num 0, px_consecutiveFailureCount = Num 0, px_successRate = Num 0, px_cooldownUntil = None,
       px_lastErrorCode = None, px_lastErrorSummary = None, px_createdAt = now, px_updatedAt = now, px_revision = Num 1\<rparr>"
    using assms d(1) by (auto simp: create_proxy_metadata_def result_simps)
  note p = draft_parts[OF d(1)]
  obtain i where i: "dr_id d = Some i" "safe_identifier i" using p(1,2) by auto
  have "static_ok x"
    unfolding static_ok_def is_ok_iff
    using i p d(2)
    by (auto simp: x normalize_id_fixed normalize_protocol_fixed normalize_host_fixed normalize_port_Inr normalize_label_fixed
        normalize_bypass_fixed normalize_bounded_Inr is_ok_iff split: option.splits)
  moreover have "health_ok x"
    using d(2) by (simp add: x health_ok_def valid_time_opt_def count_ok_def rate_ok_def)
  ultimately show ?thesis by simp
qed

lemma count_ok_int: "count_ok lo n \<Longrightarrow> \<exists>i. n = js_int i \<and> lo \<le> i"
  by (auto simp: count_ok_def int_value_Some_iff split: option.splits)

lemma count_ok_js_int [simp]: "count_ok lo (js_int i) \<longleftrightarrow> lo \<le> i"
  by (simp add: count_ok_def)

lemma count_ok_succ [simp]: "count_ok lo (Num (rat_of_int i + 1)) \<longleftrightarrow> lo \<le> i + 1"
  using count_ok_js_int[of lo "i + 1"] by (simp del: count_ok_js_int)

lemma count_ok_zero [simp]: "count_ok 0 (Num 0)"
  by (simp add: count_ok_def)

lemma next_revision_ok: "count_ok 1 (px_revision x) \<Longrightarrow> count_ok 1 (next_revision x)"
  by (auto simp: next_revision_def dest!: count_ok_int)

lemma checked_disabled_ok:
  assumes "static_ok x" "health_ok x" "\<not> px_enabled x" "valid_time checked" "valid_time now"
  shows "static_ok (checked_disabled x checked now) \<and> health_ok (checked_disabled x checked now)"
  using assms next_revision_ok[of x]
  by (simp add: checked_disabled_def static_ok_def health_ok_def valid_time_opt_def)

definition latency_ok :: "int option \<Rightarrow> bool" where
  "latency_ok l = (case l of None \<Rightarrow> True | Some i \<Rightarrow> 0 \<le> i \<and> i \<le> 86400000)"

lemma latency_ok_num: "latency_ok l \<Longrightarrow> case map_option js_int l of None \<Rightarrow> True | Some n \<Rightarrow> bounded_int 0 86400000 n \<noteq> None"
  by (simp add: latency_ok_def split: option.splits)

lemma check_latency_ok: "check_latency l = Inr i \<Longrightarrow> latency_ok i"
  by (auto simp: check_latency_def latency_ok_def result_simps normalize_bounded_Inr split: option.splits)

lemma counts:
  assumes "health_ok x"
  obtains s f k where "px_successCount x = js_int s" "0 \<le> s" "px_failureCount x = js_int f" "0 \<le> f"
    "px_consecutiveFailureCount x = js_int k" "0 \<le> k"
  using assms count_ok_int unfolding health_ok_def by meson

lemma rate_ok_quotient: "0 \<le> a \<Longrightarrow> a \<le> b \<Longrightarrow> 0 < b \<Longrightarrow> rate_ok (Num (of_int a / of_int b))"
  by (simp add: rate_ok_def divide_le_eq_1)

lemma checked_success_ok:
  assumes x: "static_ok x" "health_ok x" "px_enabled x" and t: "valid_time checked" "valid_time now" and l: "latency_ok latency"
  shows "static_ok (checked_success x p checked latency now) \<and> health_ok (checked_success x p checked latency now)"
proof -
  obtain s f k where n: "px_successCount x = js_int s" "0 \<le> s" "px_failureCount x = js_int f" "0 \<le> f"
    "px_consecutiveFailureCount x = js_int k" "0 \<le> k" using counts[OF x(2)] by blast
  have "rate_ok (Num (of_int (s + 1) / of_int (s + f + 1)))" using n by (intro rate_ok_quotient) auto
  moreover have "(case latency of None \<Rightarrow> Healthy | Some l \<Rightarrow> if d \<le> l then Degraded else Healthy) \<noteq> Disabled" for d :: int
    by (simp split: option.splits)
  ultimately show ?thesis
    using x t latency_ok_num[OF l] n next_revision_ok[of x]
    by (simp add: checked_success_def static_ok_def health_ok_def valid_time_opt_def Let_def)
qed

lemma checked_failure_ok:
  assumes x: "static_ok x" "health_ok x" "px_enabled x" and t: "valid_time checked" "valid_time now" and l: "latency_ok latency"
    and u: "valid_time_opt until"
  shows "static_ok (checked_failure x outcome checked latency cool until now) \<and>
    health_ok (checked_failure x outcome checked latency cool until now)"
proof -
  obtain s f k where n: "px_successCount x = js_int s" "0 \<le> s" "px_failureCount x = js_int f" "0 \<le> f"
    "px_consecutiveFailureCount x = js_int k" "0 \<le> k" using counts[OF x(2)] by blast
  have "rate_ok (Num (of_int s / of_int (s + f + 1)))" using n by (intro rate_ok_quotient) auto
  then show ?thesis
    using x t latency_ok_num[OF l] n u next_revision_ok[of x]
    by (simp add: checked_failure_def static_ok_def health_ok_def valid_time_opt_def Let_def failures_after_def)
qed

lemma check_cases:
  assumes "record_health_check x outcome now policy = Inr y"
  obtains checked latency where "static_ok x" "health_ok x" "valid_time now" "valid_time checked" "latency_ok latency"
      "\<not> px_enabled x" "y = checked_disabled x checked now"
  | checked latency where "static_ok x" "health_ok x" "valid_time now" "valid_time checked" "latency_ok latency"
      "px_enabled x" "co_success outcome" "check_latency (co_latencyMs outcome) = Inr latency"
      "y = checked_success x policy checked latency now"
  | checked latency cool until where "static_ok x" "health_ok x" "valid_time now" "valid_time checked" "latency_ok latency"
      "px_enabled x" "\<not> co_success outcome" "cool = (int_of_num (hp_failureThreshold policy) \<le> failures_after x)"
      "if cool then \<exists>u. until = Some u \<and> add_milliseconds now (int_of_num (hp_cooldownMs policy)) = Inr u else until = None"
      "y = checked_failure x outcome checked latency cool until now"
proof -
  have pol: "validate_health_policy policy = Inr p \<Longrightarrow> p = policy" for p
    by (auto simp: validate_health_policy_def result_simps)
  obtain latency where c: "static_ok x" "health_ok x" "valid_time now"
    "valid_time (case co_checkedAt outcome of None \<Rightarrow> now | Some t \<Rightarrow> t)"
    "check_latency (co_latencyMs outcome) = Inr latency" "validate_health_policy policy = Inr policy"
    using assms pol
    by (auto simp: record_health_check_def result_simps Let_def assert_metadata_Inr assert_timestamp_def valid_time_def)
  have body: "(if \<not> px_enabled x then Inr (checked_disabled x (case co_checkedAt outcome of None \<Rightarrow> now | Some t \<Rightarrow> t) now)
     else if co_success outcome then Inr (checked_success x policy (case co_checkedAt outcome of None \<Rightarrow> now | Some t \<Rightarrow> t) latency now)
     else (let cool = int_of_num (hp_failureThreshold policy) \<le> failures_after x
           in ebind (if cool then ebind (add_milliseconds now (int_of_num (hp_cooldownMs policy))) (\<lambda>u. Inr (Some u)) else Inr None)
                (\<lambda>until. Inr (checked_failure x outcome (case co_checkedAt outcome of None \<Rightarrow> now | Some t \<Rightarrow> t) latency cool until now)))) = Inr y"
    using assms c(5,6) by (simp add: record_health_check_def result_simps Let_def assert_timestamp_def)
  show thesis
  proof (cases "px_enabled x")
    case False
    then show thesis using that(1)[OF c(1-4) check_latency_ok[OF c(5)]] body by simp
  next
    case en: True
    show thesis
    proof (cases "co_success outcome")
      case True
      then show thesis using that(2)[OF c(1-4) check_latency_ok[OF c(5)] en] body en c(5) by simp
    next
      case False
      then show thesis
        using that(3)[OF c(1-4) check_latency_ok[OF c(5)] en False refl] body en
        by (auto simp: result_simps Let_def split: if_splits)
    qed
  qed
qed

lemma checked_metadata_ok:
  assumes run: "record_health_check x outcome now policy = Inr y"
    and time: "\<And>v. date_parse now = Some v \<Longrightarrow> four_digit_time (v + int_of_num (hp_cooldownMs policy))"
  shows "static_ok y \<and> health_ok y"
  using run
proof (cases rule: check_cases)
  case 1
  then show ?thesis using checked_disabled_ok by simp
next
  case 2
  then show ?thesis using checked_success_ok by simp
next
  case (3 checked latency cool until)
  have "valid_time_opt until"
    using 3(9) time
    by (auto simp: valid_time_opt_def add_milliseconds_def valid_time_def date_parse_to_iso split: if_splits option.splits)
  then show ?thesis using 3 checked_failure_ok by simp
qed

lemma expired_metadata_ok:
  assumes "expire_cooldown x now = Inr y" shows "static_ok y \<and> health_ok y"
proof -
  have ok: "static_ok x" "health_ok x" "valid_time now"
    using assms by (auto simp: expire_cooldown_def result_simps assert_metadata_Inr assert_timestamp_def valid_time_def)
  let ?y = "x\<lparr>px_healthState := (if px_enabled x then Degraded else Disabled), px_cooldownUntil := None,
                px_updatedAt := now, px_revision := next_revision x\<rparr>"
  have "static_ok ?y" using ok(1) by (simp add: static_ok_def)
  moreover have "health_ok ?y" using ok(2,3) next_revision_ok[of x] by (simp add: health_ok_def valid_time_opt_def)
  moreover have "y = x \<or> y = ?y" using assms by (simp add: expire_cooldown_def result_simps split: option.splits if_splits)
  ultimately show ?thesis using ok by blast
qed

section \<open>Eligibility\<close>

lemma eligible_iff:
  "is_proxy_eligible x now credential \<longleftrightarrow> static_ok x \<and> health_ok x \<and> px_enabled x \<and> px_healthState x = Healthy \<and>
     \<not> (case px_cooldownUntil x of None \<Rightarrow> False | Some u \<Rightarrow> later u now) \<and> (px_credentialRef x \<noteq> None \<longrightarrow> credential)"
  by (auto simp: is_proxy_eligible_def proxy_eligibility_def assert_metadata_iff)

lemma eligible_weights:
  assumes "is_proxy_eligible x now credential"
  shows "1 \<le> int_of_num (px_weight x)" "1 \<le> int_of_num (px_maxConcurrency x)" "0 \<le> int_of_num (px_priority x)"
  using assms by (auto simp: eligible_iff static_ok_def is_ok_iff normalize_bounded_Inr)

section \<open>Identities\<close>

lemma cons_split_unique:
  "x \<notin> set a \<Longrightarrow> x \<notin> set a' \<Longrightarrow> a @ x # b = a' @ x # b' \<longleftrightarrow> a = a' \<and> b = b'"
proof (induction a arbitrary: a')
  case Nil
  then show ?case by (cases a') auto
next
  case (Cons y ys)
  then show ?case by (cases a') auto
qed

lemma cons_split_unique_end:
  "x \<notin> set b \<Longrightarrow> x \<notin> set b' \<Longrightarrow> a @ x # b = a' @ x # b' \<longleftrightarrow> a = a' \<and> b = b'"
proof -
  assume no: "x \<notin> set b" "x \<notin> set b'"
  have "a @ x # b = a' @ x # b' \<longleftrightarrow> rev (a @ x # b) = rev (a' @ x # b')" by (simp only: rev_is_rev_conv)
  also have "\<dots> \<longleftrightarrow> rev b @ x # rev a = rev b' @ x # rev a'" by simp
  also have "\<dots> \<longleftrightarrow> a = a' \<and> b = b'" using no cons_split_unique[of x "rev b" "rev b'"] by auto
  finally show ?thesis .
qed

lemma show_nat_no_colon: "CHR '':'' \<notin> set (show_nat n)"
  using show_base_chars[of 10 n] alnum_marks(7) by (auto simp: show_nat_def list_all_iff)

definition host_text :: "string \<Rightarrow> string" where
  "host_text h = (if CHR '':'' \<in> set h then ''['' @ h @ '']'' else h)"

lemma host_text_inj:
  assumes "host_ok h" "host_ok h'" "host_text h = host_text h'" shows "h = h'"
proof -
  have "hd u \<noteq> CHR ''['' \<and> u \<noteq> []" if "host_ok u" for u using host_ok_chars(4,5)[OF that] by simp
  from this[OF assms(1)] this[OF assms(2)] show ?thesis
    using assms(3) by (auto simp: host_text_def neq_Nil_conv split: if_splits)
qed

lemma identity_text_inj:
  assumes "p \<in> set proxy_protocols" "p' \<in> set proxy_protocols" "host_ok h" "host_ok h'" "1 \<le> n" "1 \<le> n'"
    and eq: "identity_text p h n = identity_text p' h' n'"
  shows "p = p' \<and> h = h' \<and> n = n'"
proof -
  have parts: "identity_text q g m = q @ CHR '':'' # (''//'' @ host_text g @ CHR '':'' # show_int m)" for q g m
    by (simp add: identity_text_def host_text_def)
  have "CHR '':'' \<notin> set q" if "q \<in> set proxy_protocols" for q using that by (auto simp: proxy_protocols_def)
  then have "p = p'" "host_text h @ CHR '':'' # show_int n = host_text h' @ CHR '':'' # show_int n'"
    using eq assms(1,2) by (simp_all add: parts cons_split_unique)
  moreover have "CHR '':'' \<notin> set (show_int m)" if "1 \<le> m" for m using that show_nat_no_colon by (simp add: show_int_def)
  ultimately have "host_text h = host_text h'" "show_int n = show_int n'"
    using assms(5,6) by (simp_all add: cons_split_unique_end)
  moreover from this(2) have "n = n'" using assms(5,6) by (simp add: show_int_def show_nat_inj)
  ultimately show ?thesis using host_text_inj assms(3,4) \<open>p = p'\<close> by blast
qed

text \<open>
  The records that come about: a created one, one a health check was recorded in, one whose cooldown was expired. The
  end of a cooldown is written with \<open>toISOString\<close>, whose years beyond 9999 the timestamp pattern does not accept.
\<close>

inductive proxy_history :: "proxy \<Rightarrow> bool" where
  created: "create_proxy_metadata v now = Inr x \<Longrightarrow> proxy_history x"
| checked: "proxy_history x \<Longrightarrow> record_health_check x outcome now policy = Inr y \<Longrightarrow>
     (\<And>v. date_parse now = Some v \<Longrightarrow> four_digit_time (v + int_of_num (hp_cooldownMs policy))) \<Longrightarrow> proxy_history y"
| expired: "proxy_history x \<Longrightarrow> expire_cooldown x now = Inr y \<Longrightarrow> proxy_history y"

lemma proxy_history_ok: "proxy_history x \<Longrightarrow> static_ok x \<and> health_ok x"
  by (induction rule: proxy_history.induct) (auto dest: created_metadata_ok checked_metadata_ok expired_metadata_ok)

end
