(* ===== verification/Pool_Sound.thy ===== *)
theory Pool_Sound
  imports Worker_Pool Proxy_Sound Budget_Sound
begin

text \<open>
  The limits of the Worker Pool: reservation and release keep the three loads (workers of the pool, pages of
  an Origin, workers of a proxy) equal to what the workers say and below their bounds.
\<close>

section \<open>Specifications of pool operations\<close>

text \<open>\<open>m\<close> keeps \<open>P\<close> of the pool, whether it throws or not, and a value it returns satisfies \<open>Q\<close>.\<close>

definition pl_spec :: "(pool \<Rightarrow> bool) \<Rightarrow> 'a pool_op \<Rightarrow> ('a \<Rightarrow> bool) \<Rightarrow> bool" where
  "pl_spec P m Q = (\<forall>s. P s \<longrightarrow> P (snd (m s)) \<and> (case fst (m s) of Inl _ \<Rightarrow> True | Inr a \<Rightarrow> Q a))"

named_theorems spec_intros \<open>rules for the operations of the pool\<close>

lemma pl_specD:
  assumes "pl_spec P m Q" "P s" "m s = (Inr a, s')" shows "P s'" "Q a"
  using assms by (auto simp: pl_spec_def dest!: spec[of _ s])

lemma pl_spec_err: "pl_spec P m Q \<Longrightarrow> P s \<Longrightarrow> P (snd (m s))"
  by (auto simp: pl_spec_def)

lemma spec_bind [spec_intros]:
  assumes "pl_spec P m Q" "\<And>a. Q a \<Longrightarrow> pl_spec P (f a) R" shows "pl_spec P (pl_bind m f) R"
  unfolding pl_spec_def
proof (intro allI impI)
  fix s assume p: "P s"
  show "P (snd (pl_bind m f s)) \<and> (case fst (pl_bind m f s) of Inl _ \<Rightarrow> True | Inr a \<Rightarrow> R a)"
  proof (cases "m s")
    case (Pair x s')
    then show ?thesis
      using assms(1)[unfolded pl_spec_def, rule_format, OF p] assms(2)[unfolded pl_spec_def]
      by (cases x) (auto simp: pl_bind_def)
  qed
qed

lemma spec_steps:
  "Q a \<Longrightarrow> pl_spec P (pl_ret a) Q"
  "pl_spec P (pl_throw e) Q"
  "(\<And>s. P s \<Longrightarrow> Q (f s)) \<Longrightarrow> pl_spec P (pl_gets f) Q"
  "(\<And>s. P s \<Longrightarrow> P (g s)) \<Longrightarrow> pl_spec P (pl_modify g) (\<lambda>_. True)"
  by (auto simp: pl_spec_def pl_ret_def pl_throw_def pl_gets_def pl_modify_def)

lemma spec_weaken: "pl_spec P m Q \<Longrightarrow> (\<And>a. Q a \<Longrightarrow> R a) \<Longrightarrow> pl_spec P m R"
  unfolding pl_spec_def by (fastforce split: sum.splits)

section \<open>Association lists\<close>

lemma length_update_new: "k \<notin> fst ` set al \<Longrightarrow> length (AList.update k v al) = length al + 1"
  by (simp add: update_new)

lemma map_of_None_fst: "map_of al k = None \<longleftrightarrow> k \<notin> fst ` set al"
  by (simp add: map_of_eq_None_iff)

lemma count_update:
  assumes "distinct (map fst al)" "map_of al k = Some v"
  shows "count_where p (AList.update k u al) + (if p (k, v) then 1 else 0) = count_where p al + (if p (k, u) then 1 else 0)"
  using assms by (induction al) (auto simp: count_where_def split: if_splits)

lemma delete_other: "k \<notin> fst ` set al \<Longrightarrow> AList.delete k al = al"
  by (induction al) (auto simp: AList.delete_eq)

lemma delete_Cons: "AList.delete k ((a, b) # al) = (if a = k then AList.delete k al else (a, b) # AList.delete k al)"
  by (simp add: AList.delete_eq)

lemma count_delete:
  assumes "distinct (map fst al)" "map_of al k = Some v"
  shows "count_where p (AList.delete k al) + (if p (k, v) then 1 else 0) = count_where p al"
  using assms
proof (induction al)
  case Nil
  then show ?case by simp
next
  case (Cons x al)
  then show ?case by (cases x) (auto simp: delete_Cons delete_other count_where_def split: if_splits)
qed

lemma length_delete:
  "distinct (map fst al) \<Longrightarrow> map_of al k = Some v \<Longrightarrow> length (AList.delete k al) + 1 = length al"
  using count_delete[of al k v "\<lambda>_. True"] by (simp add: count_where_def)

section \<open>The selection leaves the loads alone\<close>

definition circuits_ok :: "pool_env \<Rightarrow> pool \<Rightarrow> bool" where
  "circuits_ok E s = (\<forall>i st. map_of (pl_proxies s) i = Some st \<longrightarrow> circuit_ok (pe_circuit E) (ps_circuit st))"

text \<open>The pool has these workers, pages and active workers per proxy.\<close>

definition loads :: "pool_env \<Rightarrow> (string \<times> worker) list \<Rightarrow> (string \<times> nat) list \<Rightarrow> (string \<Rightarrow> nat) \<Rightarrow> pool \<Rightarrow> bool" where
  "loads E ws pages act s = (pl_workers s = ws \<and> pl_pages s = pages \<and> active_on s = act \<and> distinct (map fst (pl_proxies s)) \<and>
     circuits_ok E s)"

definition proxy_state_ok :: "pool_env \<Rightarrow> (string \<Rightarrow> nat) \<Rightarrow> string \<Rightarrow> proxy_state \<Rightarrow> bool" where
  "proxy_state_ok E act i st = (ps_activeWorkers st = act i \<and> circuit_ok (pe_circuit E) (ps_circuit st))"

lemma active_on_put: "active_on (put_proxy i st s) = (active_on s)(i := ps_activeWorkers st)"
  by (auto simp: active_on_def put_proxy_def update_conv')

lemma put_proxy_simps [simp]:
  "pl_workers (put_proxy i st s) = pl_workers s" "pl_pages (put_proxy i st s) = pl_pages s"
  "pl_proxies (put_proxy i st s) = AList.update i st (pl_proxies s)" "pl_budget (put_proxy i st s) = pl_budget s"
  by (simp_all add: put_proxy_def)

lemma loads_put:
  "loads E ws pages act s \<Longrightarrow> circuit_ok (pe_circuit E) (ps_circuit st) \<Longrightarrow>
   loads E ws pages (act(i := ps_activeWorkers st)) (put_proxy i st s)"
  by (auto simp: loads_def active_on_put circuits_ok_def update_conv' distinct_update split: if_splits)

lemma spec_put [spec_intros]:
  assumes "proxy_state_ok E act i st"
  shows "pl_spec (loads E ws pages act) (pl_modify (put_proxy i st)) (\<lambda>_. True)"
proof (rule spec_steps(4))
  fix s assume "loads E ws pages act s"
  then show "loads E ws pages act (put_proxy i st s)"
    using loads_put[of E ws pages act s st i] assms by (simp add: proxy_state_ok_def fun_upd_idem)
qed

lemma fresh_circuit_ok: "circuit_config_ok c \<Longrightarrow> circuit_ok c new_circuit"
  by (simp add: circuit_ok_def new_circuit_def circuit_config_ok_def)

lemma spec_touch [spec_intros]: "pl_spec (loads E ws pages act) (touch_proxy E i) (proxy_state_ok E act i)"
  unfolding pl_spec_def
proof (intro allI impI)
  fix s assume l: "loads E ws pages act s"
  show "loads E ws pages act (snd (touch_proxy E i s)) \<and>
    (case fst (touch_proxy E i s) of Inl _ \<Rightarrow> True | Inr a \<Rightarrow> proxy_state_ok E act i a)"
  proof (cases "map_of (pl_proxies s) i")
    case (Some st)
    moreover have "active_on s i = ps_activeWorkers st" using Some by (simp add: active_on_def)
    ultimately show ?thesis using l by (auto simp: touch_proxy_def loads_def proxy_state_ok_def circuits_ok_def)
  next
    case None
    then have "act i = 0" using l by (auto simp: loads_def active_on_def)
    show ?thesis
    proof (cases "safe_identifier i \<and> circuit_config_ok (pe_circuit E)")
      case True
      then have "touch_proxy E i s = (Inr fresh_proxy_state, put_proxy i fresh_proxy_state s)"
        using None by (simp add: touch_proxy_def put_proxy_def)
      moreover have "loads E ws pages act (put_proxy i fresh_proxy_state s)"
        using loads_put[OF l, of fresh_proxy_state i] fresh_circuit_ok True \<open>act i = 0\<close>
        by (simp add: fresh_proxy_state_def fun_upd_idem)
      ultimately show ?thesis
        using fresh_circuit_ok True \<open>act i = 0\<close> by (simp add: proxy_state_ok_def fresh_proxy_state_def)
    next
      case False
      then show ?thesis using None l by (auto simp: touch_proxy_def)
    qed
  qed
qed

definition roomy :: "pool_env \<Rightarrow> (string \<Rightarrow> nat) \<Rightarrow> proxy \<Rightarrow> bool" where
  "roomy E act x = (int (act (px_id x)) < proxy_capacity E x)"

lemma can_schedule_ok: "circuit_ok c b \<Longrightarrow> circuit_ok c (snd (can_schedule c t b))"
  by (simp add: can_schedule_def Let_def settle_keeps)

lemma spec_room: "pl_spec (loads E ws pages act) (has_room E t x) (\<lambda>ok. ok \<longrightarrow> roomy E act x)"
  unfolding has_room_def
proof (rule spec_bind[OF spec_touch])
  fix st assume st: "proxy_state_ok E act (px_id x) st"
  let ?b = "snd (can_schedule (pe_circuit E) t (ps_circuit st))"
  have "proxy_state_ok E act (px_id x) (st\<lparr>ps_circuit := ?b\<rparr>)"
    using st can_schedule_ok by (simp add: proxy_state_ok_def)
  moreover have "int (ps_activeWorkers st) < proxy_capacity E x \<Longrightarrow> roomy E act x" using st by (simp add: roomy_def proxy_state_ok_def)
  ultimately show "pl_spec (loads E ws pages act) (if int (ps_activeWorkers st) < proxy_capacity E x
     then (case can_schedule (pe_circuit E) t (ps_circuit st) of (ok, b) \<Rightarrow>
       pl_bind (pl_modify (put_proxy (px_id x) (st\<lparr>ps_circuit := b\<rparr>))) (\<lambda>_. pl_ret ok))
     else pl_ret False) (\<lambda>ok. ok \<longrightarrow> roomy E act x)"
    by (auto split: prod.splits intro!: spec_intros spec_steps)
qed

lemma spec_room_filter:
  "pl_spec (loads E ws pages act) (room_filter E t xs) (\<lambda>ys. set ys \<subseteq> set xs \<and> (\<forall>y \<in> set ys. roomy E act y))"
proof (induction xs)
  case Nil
  show ?case by (auto intro: spec_steps)
next
  case (Cons x xs)
  show ?case
    unfolding room_filter.simps
    by (rule spec_bind[OF spec_room], rule spec_bind[OF Cons.IH], rule spec_steps(1)) auto
qed

lemma top_priority_facts:
  "set (top_priority E xs) \<subseteq> set xs" "xs \<noteq> [] \<Longrightarrow> top_priority E xs \<noteq> []"
  "x \<in> set (top_priority E xs) \<Longrightarrow> y \<in> set xs \<Longrightarrow> int_of_num (px_priority x) \<le> int_of_num (px_priority y)"
proof -
  let ?s = "sort_key (proxy_rank E) xs"
  have set: "set ?s = set xs" by simp
  show "set (top_priority E xs) \<subseteq> set xs"
    using set by (cases ?s) (auto simp: top_priority_def)
  show "xs \<noteq> [] \<Longrightarrow> top_priority E xs \<noteq> []"
    using set by (cases ?s) (auto simp: top_priority_def)
  assume x: "x \<in> set (top_priority E xs)" and y: "y \<in> set xs"
  then obtain z zs where s: "?s = z # zs" by (cases ?s) (auto simp: top_priority_def)
  have "sorted (map (proxy_rank E) (z # zs))" using sorted_sort_key[of "proxy_rank E" xs] by (simp only: s)
  then have "proxy_rank E z \<le> proxy_rank E y" using y set unfolding s by auto
  then have "int_of_num (px_priority z) \<le> int_of_num (px_priority y)" by (auto simp: proxy_rank_def less_eq_prod_def)
  then show "int_of_num (px_priority x) \<le> int_of_num (px_priority y)" using x by (auto simp: top_priority_def s)
qed

definition candidate_for :: "pool_env \<Rightarrow> readings \<Rightarrow> (proxy \<Rightarrow> bool) \<Rightarrow> proxy list \<Rightarrow> string option \<Rightarrow> (string \<Rightarrow> nat) \<Rightarrow> proxy \<Rightarrow> bool" where
  "candidate_for E rd available proxies requested act x = (x \<in> set proxies \<and> is_proxy_eligible x (rd_now rd) (available x) \<and>
     (requested = None \<or> requested = Some (px_id x)) \<and> roomy E act x)"

lemma spec_eligible:
  "pl_spec (loads E ws pages act) (eligible_proxies E rd available proxies requested)
     (\<lambda>xs. \<forall>x \<in> set xs. candidate_for E rd available proxies requested act x)"
  unfolding eligible_proxies_def
  by (rule spec_bind[OF spec_room_filter], rule spec_steps(1))
    (use top_priority_facts(1) in \<open>fastforce simp: candidate_for_def\<close>)

lemma spec_weighted_loop:
  "pl_spec (loads E ws pages act) (weighted_loop E xs weights best)
     (\<lambda>(w, b). (case b of None \<Rightarrow> best = None \<and> xs = [] | Some (x, _) \<Rightarrow> x \<in> set xs \<or> (\<exists>c. best = Some (x, c))))"
proof (induction xs arbitrary: weights best)
  case Nil
  show ?case by (auto intro!: spec_steps split: option.splits)
next
  case (Cons x xs)
  show ?case
    unfolding weighted_loop.simps Let_def
  proof (rule spec_bind[OF spec_touch])
    fix st assume st: "proxy_state_ok E act (px_id x) st"
    let ?w = "ps_smoothWeight st + int_of_num (px_weight x)"
    let ?best = "if case best of None \<Rightarrow> True | Some (y, score) \<Rightarrow>
           score < ?w \<or> (?w = score \<and> pe_collate E (px_id x) < pe_collate E (px_id y)) then Some (x, ?w) else best"
    have "proxy_state_ok E act (px_id x) (st\<lparr>ps_smoothWeight := ?w\<rparr>)" using st by (simp add: proxy_state_ok_def)
    moreover have "pl_spec (loads E ws pages act) (weighted_loop E xs (weights + int_of_num (px_weight x)) ?best)
      (\<lambda>(w, b). (case b of None \<Rightarrow> best = None \<and> x # xs = [] | Some (y, _) \<Rightarrow> y \<in> set (x # xs) \<or> (\<exists>c. best = Some (y, c))))"
      by (rule spec_weaken[OF Cons.IH]) (auto split: option.splits if_splits)
    ultimately show "pl_spec (loads E ws pages act)
      (pl_bind (pl_modify (put_proxy (px_id x) (st\<lparr>ps_smoothWeight := ?w\<rparr>)))
        (\<lambda>_. weighted_loop E xs (weights + int_of_num (px_weight x)) ?best))
      (\<lambda>(w, b). (case b of None \<Rightarrow> best = None \<and> x # xs = [] | Some (y, _) \<Rightarrow> y \<in> set (x # xs) \<or> (\<exists>c. best = Some (y, c))))"
      by (rule spec_bind[OF spec_put])
  qed
qed

lemma spec_weighted: "pl_spec (loads E ws pages act) (select_weighted E xs) (\<lambda>b. case b of None \<Rightarrow> xs = [] | Some x \<Rightarrow> x \<in> set xs)"
proof (cases "xs = []")
  case True
  then show ?thesis by (auto simp: select_weighted_def intro: spec_steps)
next
  case False
  show ?thesis
    unfolding select_weighted_def if_not_P[OF False]
  proof (rule spec_bind[OF spec_weighted_loop], goal_cases)
    case (1 wb)
    then obtain w x c where wb: "wb = (w, Some (x, c))" "x \<in> set xs" using False by (auto split: option.splits prod.splits)
    show ?case
      unfolding wb prod.case option.case
      by (rule spec_bind[OF spec_touch], rule spec_bind[OF spec_put]) (auto simp: proxy_state_ok_def wb(2) intro!: spec_steps)
  qed
qed

lemma spec_least_loaded:
  "pl_spec (loads E ws pages act) (select_least_loaded E xs) (\<lambda>b. case b of None \<Rightarrow> xs = [] | Some x \<Rightarrow> x \<in> set xs)"
  unfolding select_least_loaded_def
proof (rule spec_steps(3))
  fix s
  show "case select_first (\<lambda>_. True) (load_of E s) xs of None \<Rightarrow> xs = [] | Some x \<Rightarrow> x \<in> set xs"
    using select_first_None_iff[of "\<lambda>_. True" "load_of E s" xs] select_first_SomeD(1)[of "\<lambda>_. True" "load_of E s" xs]
    by (cases xs) (auto split: option.splits)
qed

definition requested_of :: "scheduler_job \<Rightarrow> string option" where
  "requested_of job = (let affinity = (case jb_session job of None \<Rightarrow> None | Some a \<Rightarrow> sa_proxyId a)
     in if affinity \<noteq> None then affinity else jb_proxyId job)"

lemma spec_select:
  "pl_spec (loads E ws pages act) (select_proxy E rd available job proxies)
     (\<lambda>(x, probe). case x of
        None \<Rightarrow> \<not> probe \<and> (wc_connectionMode (pe_config E) = DirectMode \<longrightarrow> requested_of job = None)
      | Some y \<Rightarrow> wc_connectionMode (pe_config E) \<noteq> DirectMode \<and>
          candidate_for E rd available proxies (requested_of job) act y)"
proof -
  have sel: "pl_spec (loads E ws pages act) (if requested_of job \<noteq> None then pl_ret (Some (hd xs))
        else if wc_selectionPolicy (pe_config E) = LeastLoaded then select_least_loaded E xs else select_weighted E xs)
      (\<lambda>b. case b of None \<Rightarrow> False | Some x \<Rightarrow> x \<in> set xs)" if "xs \<noteq> []" for xs
  proof -
    have "(\<lambda>b. case b of None \<Rightarrow> xs = [] | Some x \<Rightarrow> x \<in> set xs) = (\<lambda>b. case b of None \<Rightarrow> False | Some x \<Rightarrow> x \<in> set xs)"
      using that by (auto simp: fun_eq_iff split: option.splits)
    then show ?thesis using spec_weighted[of E ws pages act xs] spec_least_loaded[of E ws pages act xs] that
      by (auto intro: spec_steps)
  qed
  have fin: "pl_spec (loads E ws pages act)
     (pl_bind (touch_proxy E (px_id x)) (\<lambda>st.
        (case begin_probe (pe_circuit E) (rd_probe rd) (circuit_snapshot (pe_circuit E) (rd_view rd) (ps_circuit st)) of (ok, b) \<Rightarrow>
            pl_bind (pl_modify (put_proxy (px_id x) (st\<lparr>ps_circuit := b\<rparr>))) (\<lambda>_.
            pl_ret (if ok then (Some x, cb_state (circuit_snapshot (pe_circuit E) (rd_view rd) (ps_circuit st)) = CbHalfOpen) else (None, False))))))
     (\<lambda>(z, probe). case z of None \<Rightarrow> \<not> probe | Some y \<Rightarrow> y = x)" for x
  proof (rule spec_bind[OF spec_touch])
    fix st assume st: "proxy_state_ok E act (px_id x) st"
    let ?seen = "circuit_snapshot (pe_circuit E) (rd_view rd) (ps_circuit st)"
    let ?b = "snd (begin_probe (pe_circuit E) (rd_probe rd) ?seen)"
    have "circuit_ok (pe_circuit E) ?b"
      using st begin_probe_keeps can_schedule_ok by (simp add: proxy_state_ok_def circuit_snapshot_def)
    then have "proxy_state_ok E act (px_id x) (st\<lparr>ps_circuit := ?b\<rparr>)" using st by (simp add: proxy_state_ok_def)
    then show "pl_spec (loads E ws pages act) (case begin_probe (pe_circuit E) (rd_probe rd) ?seen of (ok, b) \<Rightarrow>
            pl_bind (pl_modify (put_proxy (px_id x) (st\<lparr>ps_circuit := b\<rparr>))) (\<lambda>_.
            pl_ret (if ok then (Some x, cb_state ?seen = CbHalfOpen) else (None, False))))
       (\<lambda>(z, probe). case z of None \<Rightarrow> \<not> probe | Some y \<Rightarrow> y = x)"
      by (cases "begin_probe (pe_circuit E) (rd_probe rd) ?seen") (auto intro!: spec_bind[OF spec_put] spec_steps)
  qed
  have dir: "(case jb_session job of None \<Rightarrow> None | Some a \<Rightarrow> sa_proxyId a) = None \<and> jb_proxyId job = None \<longleftrightarrow> requested_of job = None"
    by (auto simp: requested_of_def Let_def)
  show ?thesis
    unfolding select_proxy_def Let_def requested_of_def[unfolded Let_def, symmetric]
    apply (split if_split, intro conjI impI spec_steps(2))
    apply (split if_split, intro conjI impI)
    subgoal using dir by (auto intro!: spec_steps)
    subgoal
      apply (rule spec_bind[OF spec_eligible])
      apply (split if_split, intro conjI impI)
      subgoal by (auto intro!: spec_steps)
      subgoal for xs
        apply (rule spec_bind[OF sel], assumption)
        subgoal for b
          by (cases b) (auto intro!: spec_weaken[OF fin] split: option.splits)
        done
      done
    done
qed

section \<open>Limits\<close>

definition workers_at :: "pool \<Rightarrow> string \<Rightarrow> nat" where
  "workers_at s origin = count_where (\<lambda>x. wk_origin (snd x) = origin) (pl_workers s)"

definition workers_on :: "pool \<Rightarrow> string \<Rightarrow> nat" where
  "workers_on s i = count_where (\<lambda>x. wk_proxyId (snd x) = Some i) (pl_workers s)"

definition pool_ok :: "pool_env \<Rightarrow> pool \<Rightarrow> bool" where
  "pool_ok E s = (distinct (map fst (pl_workers s)) \<and> distinct (map fst (pl_proxies s)) \<and> circuits_ok E s \<and>
     length (pl_workers s) \<le> wc_globalWorkers (pe_config E) \<and>
     (\<forall>origin. pages_of s origin = workers_at s origin \<and> workers_at s origin \<le> wc_perOriginPages (pe_config E)) \<and>
     (\<forall>i. active_on s i = workers_on s i \<and> workers_on s i \<le> wc_perProxyWorkers (pe_config E)))"

lemma new_pool_ok: "pool_ok E new_pool"
  by (simp add: pool_ok_def new_pool_def circuits_ok_def pages_of_def workers_at_def workers_on_def active_on_def)

text \<open>Facts about a pool that differs from a good one in its budget and its proxies' circuits and weights only.\<close>

definition same_loads :: "pool_env \<Rightarrow> pool \<Rightarrow> pool \<Rightarrow> bool" where
  "same_loads E s s' = loads E (pl_workers s) (pl_pages s) (active_on s) s'"

lemma same_loads_ok: "pool_ok E s \<Longrightarrow> same_loads E s s' \<Longrightarrow> pool_ok E s'"
  by (auto simp: pool_ok_def same_loads_def loads_def pages_of_def workers_at_def workers_on_def)

lemma same_loads_refl: "pool_ok E s \<Longrightarrow> same_loads E s s"
  by (auto simp: pool_ok_def same_loads_def loads_def)

lemma paused_same:
  assumes "same_loads E s u" "check_paused E origin t u = (x, u')" shows "same_loads E s u'"
  using assms
  by (auto simp: check_paused_def same_loads_def loads_def circuits_ok_def active_on_def fun_eq_iff split: sum.splits prod.splits)

text \<open>The worker a reservation started, counted on its Origin and its proxy.\<close>

lemma count_worker_run:
  assumes "same_loads E s u" "count_worker E x (start_worker E w job origin x t u) = (Inr y, v)"
  shows "pl_workers v = AList.update w (new_worker E w job origin x t) (pl_workers s)"
    "pl_pages v = AList.update origin (pages_of s origin + 1) (pl_pages s)"
    "distinct (map fst (pl_proxies v))" "circuits_ok E v"
    "active_on v = (case x of None \<Rightarrow> active_on s | Some p \<Rightarrow> (active_on s)(px_id p := active_on s (px_id p) + 1))"
proof -
  let ?u = "start_worker E w job origin x t u"
  have l: "loads E (pl_workers ?u) (pl_pages ?u) (active_on s) ?u"
    using assms(1) by (auto simp: same_loads_def loads_def start_worker_def active_on_def circuits_ok_def fun_eq_iff)
  have eq: "pl_workers ?u = AList.update w (new_worker E w job origin x t) (pl_workers s)"
    "pl_pages ?u = AList.update origin (pages_of s origin + 1) (pl_pages s)"
    using assms(1) by (simp_all add: start_worker_def same_loads_def loads_def pages_of_def)
  have goal: "loads E (pl_workers ?u) (pl_pages ?u)
      (case x of None \<Rightarrow> active_on s | Some p \<Rightarrow> (active_on s)(px_id p := active_on s (px_id p) + 1)) v"
  proof (cases x)
    case None
    then show ?thesis using assms(2) l by (simp add: count_worker_def pl_ret_def)
  next
    case (Some p)
    then obtain st u1 where t1: "touch_proxy E (px_id p) ?u = (Inr st, u1)"
      and v: "v = put_proxy (px_id p) (st\<lparr>ps_activeWorkers := ps_activeWorkers st + 1\<rparr>) u1"
      using assms(2) by (auto simp: count_worker_def pl_bind_def pl_modify_def split: sum.splits prod.splits)
    have "loads E (pl_workers ?u) (pl_pages ?u) (active_on s) u1" "proxy_state_ok E (active_on s) (px_id p) st"
      using pl_specD[OF spec_touch l t1] by simp_all
    then show ?thesis
      using loads_put[of E "pl_workers ?u" "pl_pages ?u" "active_on s" u1 "st\<lparr>ps_activeWorkers := ps_activeWorkers st + 1\<rparr>" "px_id p"]
      by (simp add: v Some proxy_state_ok_def)
  qed
  then show "pl_workers v = AList.update w (new_worker E w job origin x t) (pl_workers s)"
    "pl_pages v = AList.update origin (pages_of s origin + 1) (pl_pages s)"
    "distinct (map fst (pl_proxies v))" "circuits_ok E v"
    "active_on v = (case x of None \<Rightarrow> active_on s | Some p \<Rightarrow> (active_on s)(px_id p := active_on s (px_id p) + 1))"
    by (simp_all add: loads_def eq)
qed

lemma started_ok:
  assumes ok: "pool_ok E s" and w: "map_of (pl_workers s) w = None"
    and room: "length (pl_workers s) < wc_globalWorkers (pe_config E)" "pages_of s origin < wc_perOriginPages (pe_config E)"
      "\<And>p. x = Some p \<Longrightarrow> active_on s (px_id p) < wc_perProxyWorkers (pe_config E)"
    and v: "pl_workers v = AList.update w (new_worker E w job origin x t) (pl_workers s)"
      "pl_pages v = AList.update origin (pages_of s origin + 1) (pl_pages s)"
      "distinct (map fst (pl_proxies v))" "circuits_ok E v"
      "active_on v = (case x of None \<Rightarrow> active_on s | Some p \<Rightarrow> (active_on s)(px_id p := active_on s (px_id p) + 1))"
  shows "pool_ok E v"
proof -
  have new: "w \<notin> fst ` set (pl_workers s)" using w by (simp add: map_of_None_fst)
  have ws: "pl_workers v = pl_workers s @ [(w, new_worker E w job origin x t)]" using v(1) update_new[OF new] by simp
  have at: "workers_at v o' = workers_at s o' + (if o' = origin then 1 else 0)" for o'
    by (simp add: workers_at_def ws new_worker_def count_where_def)
  have on: "workers_on v i = workers_on s i + (if map_option px_id x = Some i then 1 else 0)" for i
    by (simp add: workers_on_def ws new_worker_def count_where_def)
  have pg: "pages_of v o' = pages_of s o' + (if o' = origin then 1 else 0)" for o'
    by (simp add: pages_of_def v(2) update_conv')
  have ac: "active_on v i = active_on s i + (if map_option px_id x = Some i then 1 else 0)" for i
    by (auto simp: v(5) split: option.splits)
  have d: "distinct (map fst (pl_workers v))" using ok new by (auto simp: ws pool_ok_def)
  have n: "length (pl_workers v) \<le> wc_globalWorkers (pe_config E)" using room(1) by (simp add: ws)
  have o1: "workers_at v o' \<le> wc_perOriginPages (pe_config E)" for o'
    using ok room(2) at[of o'] by (auto simp: pool_ok_def)
  have o2: "workers_on v i \<le> wc_perProxyWorkers (pe_config E)" for i
  proof (cases "map_option px_id x = Some i")
    case True
    then obtain p where "x = Some p" "i = px_id p" by (cases x) auto
    then show ?thesis using room(3) on[of i] True ok by (auto simp: pool_ok_def)
  next
    case False
    then have "workers_on v i = workers_on s i" using on[of i] by presburger
    then show ?thesis using ok by (simp add: pool_ok_def)
  qed
  have "pages_of v o' = workers_at v o'" "active_on v i = workers_on v i" for o' i
    using ok at pg on ac by (simp_all add: pool_ok_def)
  then show ?thesis using d n o1 o2 v(3,4) by (simp add: pool_ok_def)
qed

text \<open>The proxy that was selected is known to the pool, so that counting its worker cannot fail.\<close>

definition pl_post :: "'a pool_op \<Rightarrow> ('a \<Rightarrow> pool \<Rightarrow> bool) \<Rightarrow> bool" where
  "pl_post m R = (\<forall>s a s'. m s = (Inr a, s') \<longrightarrow> R a s')"

lemma pl_post_bind: "(\<And>a. pl_post (f a) R) \<Longrightarrow> pl_post (pl_bind m f) R"
  by (force simp: pl_post_def pl_bind_def split: sum.splits prod.splits)

lemma pl_post_ret: "(\<And>s. R a s) \<Longrightarrow> pl_post (pl_ret a) R"
  by (simp add: pl_post_def pl_ret_def)

lemma pl_post_put: "(\<And>s. R a (put_proxy i st s)) \<Longrightarrow> pl_post (pl_bind (pl_modify (put_proxy i st)) (\<lambda>_. pl_ret a)) R"
  by (auto simp: pl_post_def pl_bind_def pl_modify_def pl_ret_def)

lemma pl_post_throw: "pl_post (pl_throw e) R"
  by (simp add: pl_post_def pl_throw_def)

definition knows :: "proxy option \<times> bool \<Rightarrow> pool \<Rightarrow> bool" where
  "knows xh s = (case fst xh of None \<Rightarrow> True | Some x \<Rightarrow> map_of (pl_proxies s) (px_id x) \<noteq> None)"

lemma knows_simps [simp]: "knows (None, h) s" "knows (Some x, h) (put_proxy (px_id x) st s)"
  by (simp_all add: knows_def update_conv')

lemma select_knows: "pl_post (select_proxy E rd available job proxies) knows"
  unfolding select_proxy_def Let_def
  by (auto intro!: pl_post_throw pl_post_ret pl_post_bind pl_post_put split: option.splits prod.splits)

lemma select_present:
  "select_proxy E rd available job proxies u = (Inr (Some x, h), v) \<Longrightarrow> map_of (pl_proxies v) (px_id x) \<noteq> None"
  using select_knows[of E rd available job proxies] by (force simp: pl_post_def knows_def)

lemma counted_present:
  assumes "\<And>p. x = Some p \<Longrightarrow> map_of (pl_proxies u) (px_id p) \<noteq> None" "count_worker E x (start_worker E w job origin x t u) = (y, v)"
  shows "y = Inr ()"
proof (cases x)
  case None
  then show ?thesis using assms(2) by (simp add: count_worker_def pl_ret_def)
next
  case (Some p)
  then obtain st where "map_of (pl_proxies u) (px_id p) = Some st" using assms(1) by auto
  then show ?thesis using assms(2) Some
    by (simp add: count_worker_def pl_bind_def touch_proxy_def start_worker_def pl_modify_def)
qed

text \<open>What a reservation says of the pool it was made in and of the pool it leaves.\<close>

definition reserved :: "pool_env \<Rightarrow> readings \<Rightarrow> (proxy \<Rightarrow> bool) \<Rightarrow> string \<Rightarrow> scheduler_job \<Rightarrow> proxy list \<Rightarrow> pool \<Rightarrow> reservation \<Rightarrow> pool \<Rightarrow> bool" where
  "reserved E rd available w job proxies s r s' =
     (normalize_scheduler_job (pe_url E) job = Inr (rv_job r, rv_origin r) \<and> rv_workerId r = w \<and>
      map_of (pl_workers s) w = None \<and>
      length (pl_workers s) < wc_globalWorkers (pe_config E) \<and> pages_of s (rv_origin r) < wc_perOriginPages (pe_config E) \<and>
      (case rv_proxy r of
         None \<Rightarrow> wc_connectionMode (pe_config E) = DirectMode \<and> requested_of (rv_job r) = None
       | Some x \<Rightarrow> wc_connectionMode (pe_config E) \<noteq> DirectMode \<and>
           candidate_for E rd available proxies (requested_of (rv_job r)) (active_on s) x) \<and>
      (\<exists>k. map_of (pl_workers s') w = Some k \<and> wk_origin k = rv_origin r \<and> wk_proxyId k = map_option px_id (rv_proxy r) \<and>
         wk_jobId k = jb_jobId (rv_job r)) \<and>
      (\<forall>w'. w' \<noteq> w \<longrightarrow> map_of (pl_workers s') w' = map_of (pl_workers s) w') \<and>
      length (pl_workers s') = length (pl_workers s) + 1)"

lemma roomy_capacity: "roomy E act x \<Longrightarrow> act (px_id x) < wc_perProxyWorkers (pe_config E)"
  by (auto simp: roomy_def proxy_capacity_def)

lemma reserve_cases:
  assumes ok: "pool_ok E s" and run: "try_reserve_worker E rd available w job proxies s = (res, s')"
  shows "(case res of Inr (Some r) \<Rightarrow> pool_ok E s' \<and> reserved E rd available w job proxies s r s'
     | _ \<Rightarrow> same_loads E s s')"
proof -
  note refl = same_loads_refl[OF ok]
  show ?thesis
  proof (cases "safe_identifier w")
    case False
    then show ?thesis using run refl by (auto simp: try_reserve_worker_def pl_bind_def pl_guard_def)
  next
    case w: True
    show ?thesis
    proof (cases "normalize_scheduler_job (pe_url E) job")
      case (Inl e)
      then show ?thesis using run w refl by (auto simp: try_reserve_worker_def pl_bind_def pl_guard_def pl_lift_def)
    next
      case norm: (Inr jo)
      obtain j origin where jo: "jo = (j, origin)" by (cases jo)
      show ?thesis
      proof (cases "map_of (pl_workers s) w = None \<and> length (pl_workers s) < wc_globalWorkers (pe_config E) \<and>
          pages_of s origin < wc_perOriginPages (pe_config E)")
        case False
        then show ?thesis
          using run w norm refl
          by (auto simp: try_reserve_worker_def pl_bind_def pl_guard_def pl_lift_def pl_gets_def pl_ret_def jo split: if_splits)
      next
        case room: True
        obtain p u where p: "check_paused E origin (rd_paused rd) s = (p, u)" by (cases "check_paused E origin (rd_paused rd) s")
        have u: "same_loads E s u" using paused_same[OF refl p] .
        show ?thesis
        proof (cases "p = Inr False")
          case False
          then show ?thesis
            using run w norm room p u
            by (auto simp: try_reserve_worker_def pl_bind_def pl_guard_def pl_lift_def pl_gets_def pl_ret_def jo split: sum.splits if_splits)
        next
          case True
          have cont: "try_reserve_worker E rd available w job proxies s =
            pl_bind (select_proxy E rd available j proxies) (\<lambda>(x, half_open).
              if wc_connectionMode (pe_config E) \<noteq> DirectMode \<and> x = None then pl_ret None else
              pl_bind (pl_modify (start_worker E w j origin x (rd_start rd))) (\<lambda>_.
              pl_bind (count_worker E x) (\<lambda>_.
              pl_ret (Some \<lparr>rv_workerId = w, rv_job = j, rv_origin = origin, rv_proxy = x, rv_startedAtMs = rd_start rd,
                rv_halfOpenProbe = half_open\<rparr>)))) u"
            using w norm room p True
            by (simp add: try_reserve_worker_def pl_bind_def[of _ _ s] pl_guard_def pl_lift_def pl_gets_def jo not_le)
          note sel = spec_select[of E "pl_workers s" "pl_pages s" "active_on s" rd available j proxies]
          have lu: "loads E (pl_workers s) (pl_pages s) (active_on s) u" using u by (simp add: same_loads_def)
          obtain x1 v where x1: "select_proxy E rd available j proxies u = (x1, v)" by (cases "select_proxy E rd available j proxies u")
          have v: "same_loads E s v" using pl_spec_err[OF sel lu] x1 by (simp add: same_loads_def)
          show ?thesis
          proof (cases x1)
            case (Inl e)
            then show ?thesis using run cont x1 v by (auto simp: pl_bind_def)
          next
            case (Inr xh)
            obtain x half where xh: "xh = (x, half)" by (cases xh)
            have spec: "case x of None \<Rightarrow> \<not> half \<and> (wc_connectionMode (pe_config E) = DirectMode \<longrightarrow> requested_of j = None)
              | Some y \<Rightarrow> wc_connectionMode (pe_config E) \<noteq> DirectMode \<and> candidate_for E rd available proxies (requested_of j) (active_on s) y"
              using pl_specD(2)[OF sel lu x1[unfolded Inr xh]] by simp
            show ?thesis
            proof (cases "wc_connectionMode (pe_config E) \<noteq> DirectMode \<and> x = None")
              case True
              then show ?thesis using run cont x1 v by (auto simp: pl_bind_def pl_ret_def Inr xh)
            next
              case False
              obtain y z where yz: "count_worker E x (start_worker E w j origin x (rd_start rd) v) = (y, z)"
                by (cases "count_worker E x (start_worker E w j origin x (rd_start rd) v)")
              show ?thesis
              proof (cases y)
                case (Inl e)
                then show ?thesis using counted_present[OF _ yz] select_present[of E rd available j proxies u _ half v] x1 \<open>x1 = Inr xh\<close> xh
                  by (cases x) auto
              next
                case (Inr un)
                let ?r = "\<lparr>rv_workerId = w, rv_job = j, rv_origin = origin, rv_proxy = x, rv_startedAtMs = rd_start rd, rv_halfOpenProbe = half\<rparr>"
                have res: "res = Inr (Some ?r)" "s' = z"
                  using run cont x1 False yz Inr by (auto simp: pl_bind_def pl_modify_def pl_ret_def \<open>x1 = Inr xh\<close> xh)
                note facts = count_worker_run[OF v yz[unfolded Inr]]
                have cap: "active_on s (px_id q) < wc_perProxyWorkers (pe_config E)" if "x = Some q" for q
                  using that spec roomy_capacity by (auto simp: candidate_for_def)
                have okz: "pool_ok E z"
                  using started_ok[OF ok _ _ _ cap facts] room by simp
                have "reserved E rd available w job proxies s ?r z"
                  using norm jo room spec False length_update_new[of w "pl_workers s"] facts(1)
                  by (auto simp: reserved_def update_conv' new_worker_def map_of_None_fst split: option.splits)
                then show ?thesis using res okz by simp
              qed
            qed
          qed
        qed
      qed
    qed
  qed
qed

lemma reserve_keeps: "pool_ok E s \<Longrightarrow> pool_ok E (snd (try_reserve_worker E rd available w job proxies s))"
  using reserve_cases[of E s rd available w job proxies] same_loads_ok[of E s]
  by (cases "try_reserve_worker E rd available w job proxies s") (fastforce split: sum.splits option.splits)

section \<open>Release\<close>

text \<open>The reservation of a worker that is still running.\<close>

definition holds :: "pool \<Rightarrow> reservation \<Rightarrow> bool" where
  "holds s r = (case map_of (pl_workers s) (rv_workerId r) of None \<Rightarrow> False
     | Some k \<Rightarrow> wk_origin k = rv_origin r \<and> wk_proxyId k = map_option px_id (rv_proxy r))"

lemma finished_worker_simps [simp]:
  "wk_origin (finished_worker status t a k) = wk_origin k" "wk_proxyId (finished_worker status t a k) = wk_proxyId k"
  by (simp_all add: finished_worker_def Let_def)

lemma end_on_proxy_simps [simp]: "ps_activeWorkers (end_on_proxy c status cat t probe st) = ps_activeWorkers st - 1"
  by (simp add: end_on_proxy_def Let_def)

lemma end_on_proxy_circuit:
  "circuit_config_ok c \<Longrightarrow> circuit_ok c (ps_circuit st) \<Longrightarrow> circuit_ok c (ps_circuit (end_on_proxy c status cat t probe st))"
  by (simp add: end_on_proxy_def Let_def record_success_keeps record_failure_keeps cancel_probe_keeps)

lemma delete_update: "AList.delete k (AList.update k v al) = AList.delete k al"
  by (induction al) (auto simp: AList.delete_eq)

lemma pages_of_frame [simp]:
  "pages_of (s\<lparr>pl_workers := ws\<rparr>) o' = pages_of s o'" "pages_of (put_proxy i st s) o' = pages_of s o'"
  by (simp_all add: pages_of_def)

lemma pages_drop: "pages_of (drop_page origin s) o' = (if o' = origin then pages_of s origin - 1 else pages_of s o')"
  by (auto simp: drop_page_def pages_of_def Let_def update_conv' delete_conv' split: option.splits)

lemma drop_page_simps [simp]:
  "pl_workers (drop_page origin s) = pl_workers s" "pl_proxies (drop_page origin s) = pl_proxies s" "pl_budget (drop_page origin s) = pl_budget s"
  by (simp_all add: drop_page_def Let_def)

text \<open>
  A release of a running worker always succeeds, takes one worker off each of its three loads, and lets the
  circuit of its proxy know the outcome.
\<close>

lemma release_run:
  assumes ok: "pool_ok E s" and held: "holds s r" and cfg: "circuit_config_ok (pe_circuit E)"
  shows "\<exists>s'. release_worker E r status cat t s = (Inr (), s') \<and>
    pl_workers s' = AList.delete (rv_workerId r) (pl_workers s) \<and>
    (\<forall>o'. pages_of s' o' = (if o' = rv_origin r then pages_of s (rv_origin r) - 1 else pages_of s o')) \<and>
    (case rv_proxy r of None \<Rightarrow> pl_proxies s' = pl_proxies s
     | Some x \<Rightarrow> (\<exists>st. map_of (pl_proxies s) (px_id x) = Some st \<and>
         pl_proxies s' = AList.update (px_id x) (end_on_proxy (pe_circuit E) status cat t (rv_halfOpenProbe r) st) (pl_proxies s)))"
proof -
  obtain k where k: "map_of (pl_workers s) (rv_workerId r) = Some k" "wk_origin k = rv_origin r"
    "wk_proxyId k = map_option px_id (rv_proxy r)"
    using held by (auto simp: holds_def split: option.splits)
  show ?thesis
  proof (cases "rv_proxy r")
    case None
    then show ?thesis
      using k by (auto simp: release_worker_def pl_bind_def pl_gets_def pl_modify_def pl_ret_def pages_drop delete_update)
  next
    case (Some x)
    have "1 \<le> workers_on s (px_id x)"
    proof -
      have "(rv_workerId r, k) \<in> set (pl_workers s)" using k(1) by (rule map_of_SomeD)
      then have "count_where (\<lambda>y. wk_proxyId (snd y) = Some (px_id x)) (pl_workers s) \<noteq> 0"
        using k(3) Some by (auto simp: count_where_0_iff intro!: bexI[of _ "(rv_workerId r, k)"])
      then show ?thesis unfolding workers_on_def by linarith
    qed
    moreover have "active_on s (px_id x) = workers_on s (px_id x)" using ok by (simp add: pool_ok_def)
    ultimately obtain st where st: "map_of (pl_proxies s) (px_id x) = Some st"
      by (cases "map_of (pl_proxies s) (px_id x)") (auto simp: active_on_def)
    then show ?thesis
      using k Some
      by (auto simp: release_worker_def pl_bind_def pl_gets_def pl_modify_def pl_ret_def touch_proxy_def pages_drop delete_update)
  qed
qed

lemma distinct_fst_delete: "distinct (map fst al) \<Longrightarrow> distinct (map fst (AList.delete k al))"
  by (rule distinct_delete)

lemma pool_release_keeps:
  assumes ok: "pool_ok E s" and held: "holds s r" and cfg: "circuit_config_ok (pe_circuit E)"
    and run: "release_worker E r status cat t s = (res, s')"
  shows "pool_ok E s'" "res = Inr ()" "pl_workers s' = AList.delete (rv_workerId r) (pl_workers s)"
proof -
  obtain k where k: "map_of (pl_workers s) (rv_workerId r) = Some k" "wk_origin k = rv_origin r"
    "wk_proxyId k = map_option px_id (rv_proxy r)"
    using held by (auto simp: holds_def split: option.splits)
  have facts: "res = Inr ()" "pl_workers s' = AList.delete (rv_workerId r) (pl_workers s)"
    "\<And>o'. pages_of s' o' = (if o' = rv_origin r then pages_of s (rv_origin r) - 1 else pages_of s o')"
    "case rv_proxy r of None \<Rightarrow> pl_proxies s' = pl_proxies s
     | Some x \<Rightarrow> (\<exists>st. map_of (pl_proxies s) (px_id x) = Some st \<and>
         pl_proxies s' = AList.update (px_id x) (end_on_proxy (pe_circuit E) status cat t (rv_halfOpenProbe r) st) (pl_proxies s))"
    using release_run[OF ok held cfg, of status cat t] run by auto
  show "res = Inr ()" "pl_workers s' = AList.delete (rv_workerId r) (pl_workers s)" using facts by simp_all
  have d: "distinct (map fst (pl_workers s))" "distinct (map fst (pl_proxies s))" using ok by (simp_all add: pool_ok_def)
  have at: "workers_at s' o' + (if o' = rv_origin r then 1 else 0) = workers_at s o'" for o'
    using count_delete[OF d(1) k(1), of "\<lambda>y. wk_origin (snd y) = o'"] k(2) by (simp add: workers_at_def facts(2) split: if_splits)
  have on: "workers_on s' i + (if map_option px_id (rv_proxy r) = Some i then 1 else 0) = workers_on s i" for i
    using count_delete[OF d(1) k(1), of "\<lambda>y. wk_proxyId (snd y) = Some i"] k(3) by (simp add: workers_on_def facts(2) split: if_splits)
  have len: "length (pl_workers s') + 1 = length (pl_workers s)" using length_delete[OF d(1) k(1)] facts(2) by simp
  have ac: "active_on s' i = active_on s i - (if map_option px_id (rv_proxy r) = Some i then 1 else 0)" for i
  proof (cases "rv_proxy r")
    case None
    then show ?thesis using facts(4) by (simp add: active_on_def)
  next
    case (Some x)
    then obtain st where st: "map_of (pl_proxies s) (px_id x) = Some st"
      "pl_proxies s' = AList.update (px_id x) (end_on_proxy (pe_circuit E) status cat t (rv_halfOpenProbe r) st) (pl_proxies s)"
      using facts(4) by auto
    then show ?thesis using Some by (auto simp: active_on_def update_conv')
  qed
  have px: "distinct (map fst (pl_proxies s'))" "circuits_ok E s'"
  proof -
    show "distinct (map fst (pl_proxies s'))" using facts(4) d(2) by (auto simp: distinct_update split: option.splits)
    show "circuits_ok E s'"
      using facts(4) ok end_on_proxy_circuit[OF cfg]
      by (auto simp: pool_ok_def circuits_ok_def update_conv' split: option.splits if_splits)
  qed
  have o1: "pages_of s' o' = workers_at s' o'" "workers_at s' o' \<le> wc_perOriginPages (pe_config E)" for o'
  proof -
    have p: "pages_of s o' = workers_at s o'" "workers_at s o' \<le> wc_perOriginPages (pe_config E)"
      using ok by (simp_all add: pool_ok_def)
    show "pages_of s' o' = workers_at s' o'" using facts(3)[of o'] at[of o'] p by (auto split: if_splits)
    show "workers_at s' o' \<le> wc_perOriginPages (pe_config E)" using at[of o'] p by (auto split: if_splits)
  qed
  have o2: "active_on s' i = workers_on s' i" "workers_on s' i \<le> wc_perProxyWorkers (pe_config E)" for i
  proof -
    have p: "active_on s i = workers_on s i" "workers_on s i \<le> wc_perProxyWorkers (pe_config E)"
      using ok by (simp_all add: pool_ok_def)
    show "active_on s' i = workers_on s' i" using ac[of i] on[of i] p by (auto split: if_splits)
    show "workers_on s' i \<le> wc_perProxyWorkers (pe_config E)" using on[of i] p by (auto split: if_splits)
  qed
  show "pool_ok E s'"
    using ok o1 o2 px len distinct_fst_delete[OF d(1)] by (auto simp: pool_ok_def facts(2))
qed

lemma heartbeat_keeps: "pool_ok E s \<Longrightarrow> pool_ok E (snd (heartbeat r t s))"
proof -
  assume ok: "pool_ok E s"
  show ?thesis
  proof (cases "map_of (pl_workers s) (rv_workerId r)")
    case None
    then show ?thesis using ok by (simp add: heartbeat_def pl_bind_def pl_gets_def pl_throw_def)
  next
    case (Some k)
    let ?u = "AList.update (rv_workerId r) (k\<lparr>wk_lastHeartbeatAt := to_iso t\<rparr>) (pl_workers s)"
    have d: "distinct (map fst (pl_workers s))" using ok by (simp add: pool_ok_def)
    have c: "count_where p ?u = count_where p (pl_workers s)" if "p (rv_workerId r, k\<lparr>wk_lastHeartbeatAt := to_iso t\<rparr>) = p (rv_workerId r, k)" for p
      using count_update[OF d Some, of p "k\<lparr>wk_lastHeartbeatAt := to_iso t\<rparr>"] that by simp
    have "length ?u = length (pl_workers s)" using c[of "\<lambda>_. True"] by (simp add: count_where_def)
    moreover have "snd (heartbeat r t s) = s\<lparr>pl_workers := ?u\<rparr>"
      using Some by (simp add: heartbeat_def pl_bind_def pl_gets_def pl_modify_def pl_ret_def Let_def)
    ultimately show ?thesis
      using ok d c[of "\<lambda>x. wk_origin (snd x) = _"] c[of "\<lambda>x. wk_proxyId (snd x) = Some _"]
      by (simp add: pool_ok_def workers_at_def workers_on_def pages_of_def active_on_def circuits_ok_def distinct_update)
  qed
qed

section \<open>Smooth weights\<close>

definition weight_sum :: "pool \<Rightarrow> int" where
  "weight_sum s = sum_list (map (\<lambda>x. ps_smoothWeight (snd x)) (pl_proxies s))"

lemma sum_update:
  assumes "distinct (map fst al)" "map_of al k = Some v"
  shows "sum_list (map (\<lambda>x. f (snd x)) (AList.update k u al)) = sum_list (map (\<lambda>x. f (snd x)) al) - f v + (f u :: int)"
  using assms by (induction al) (auto split: if_splits)

text \<open>After a touch the entry is there; a put of the same weight changes nothing, of another the difference.\<close>

definition known :: "pool \<Rightarrow> string \<Rightarrow> proxy_state \<Rightarrow> bool" where
  "known s i st = (distinct (map fst (pl_proxies s)) \<and> map_of (pl_proxies s) i = Some st)"

lemma touch_known:
  assumes "distinct (map fst (pl_proxies s))" "touch_proxy E i s = (Inr st, s')"
  shows "known s' i st" "weight_sum s' = weight_sum s"
proof -
  have "known s' i st \<and> weight_sum s' = weight_sum s"
  proof (cases "map_of (pl_proxies s) i")
    case None
    then have new: "i \<notin> fst ` set (pl_proxies s)" by (simp add: map_of_None_fst)
    have "s' = s\<lparr>pl_proxies := pl_proxies s @ [(i, fresh_proxy_state)]\<rparr>" "st = fresh_proxy_state"
      using assms(2) update_new[OF new] None by (auto simp: touch_proxy_def split: if_splits)
    then show ?thesis
      using assms(1) None new by (simp add: known_def weight_sum_def fresh_proxy_state_def map_add_def)
  next
    case (Some v)
    then show ?thesis using assms by (simp add: touch_proxy_def known_def)
  qed
  then show "known s' i st" "weight_sum s' = weight_sum s" by simp_all
qed

lemma put_weight:
  assumes "known s i st"
  shows "weight_sum (put_proxy i u s) = weight_sum s - ps_smoothWeight st + ps_smoothWeight u"
    "distinct (map fst (pl_proxies (put_proxy i u s)))"
  using assms sum_update[of "pl_proxies s" i st ps_smoothWeight u] by (simp_all add: known_def weight_sum_def distinct_update)

lemma weighted_loop_sum:
  "weighted_loop E xs weights best s = (Inr (weights', best'), s') \<Longrightarrow> distinct (map fst (pl_proxies s)) \<Longrightarrow>
   weight_sum s' = weight_sum s + (weights' - weights) \<and> distinct (map fst (pl_proxies s'))"
proof (induction xs arbitrary: weights best s)
  case Nil
  then show ?case by (simp add: pl_ret_def)
next
  case (Cons x xs)
  obtain r u where t: "touch_proxy E (px_id x) s = (r, u)" by (cases "touch_proxy E (px_id x) s")
  then obtain st where st: "r = Inr st" using Cons.prems(1) by (cases r) (auto simp: pl_bind_def)
  have k: "known u (px_id x) st" "weight_sum u = weight_sum s" using touch_known[OF Cons.prems(2)] t st by auto
  let ?st = "st\<lparr>ps_smoothWeight := ps_smoothWeight st + int_of_num (px_weight x)\<rparr>"
  obtain best1 where "weighted_loop E xs (weights + int_of_num (px_weight x)) best1 (put_proxy (px_id x) ?st u) = (Inr (weights', best'), s')"
    using Cons.prems(1) t st by (auto simp: pl_bind_def pl_modify_def Let_def)
  then have "weight_sum s' = weight_sum (put_proxy (px_id x) ?st u) + (weights' - (weights + int_of_num (px_weight x))) \<and>
      distinct (map fst (pl_proxies s'))"
    using Cons.IH put_weight(2)[OF k(1)] by blast
  then show ?case using put_weight(1)[OF k(1), of ?st] k(2) by simp
qed

lemma select_weighted_sum:
  assumes "select_weighted E xs s = (Inr (Some x), s')" "distinct (map fst (pl_proxies s))"
  shows "weight_sum s' = weight_sum s"
proof -
  have "xs \<noteq> []" using assms(1) by (auto simp: select_weighted_def pl_ret_def)
  obtain r u where l: "weighted_loop E xs 0 None s = (r, u)" by (cases "weighted_loop E xs 0 None s")
  then obtain w b where r: "r = Inr (w, b)"
    using assms(1) \<open>xs \<noteq> []\<close> by (cases r) (auto simp: select_weighted_def pl_bind_def)
  then obtain y c where b: "b = Some (y, c)"
    using assms(1) l \<open>xs \<noteq> []\<close> by (auto simp: select_weighted_def pl_bind_def pl_ret_def split: option.splits)
  have u: "weight_sum u = weight_sum s + w" "distinct (map fst (pl_proxies u))" using weighted_loop_sum[of E xs 0 None s w b u] l r assms(2) by auto
  obtain q v where t: "touch_proxy E (px_id y) u = (q, v)" by (cases "touch_proxy E (px_id y) u")
  then obtain st where q: "q = Inr st"
    using assms(1) l r b \<open>xs \<noteq> []\<close> by (cases q) (auto simp: select_weighted_def pl_bind_def)
  have k: "known v (px_id y) st" "weight_sum v = weight_sum u" using touch_known[OF u(2)] t q by auto
  have "s' = put_proxy (px_id y) (st\<lparr>ps_smoothWeight := ps_smoothWeight st - w\<rparr>) v"
    using assms(1) l r b t q \<open>xs \<noteq> []\<close> by (auto simp: select_weighted_def pl_bind_def pl_modify_def pl_ret_def)
  then show ?thesis using put_weight(1)[OF k(1)] k(2) u(1) by simp
qed

end
