(* ===== verification/Pool_Run.thy ===== *)
theory Pool_Run
  imports Pool_Sound "HOL-Library.Multiset"
begin

text \<open>
  packages/archive-core/src/scheduler.ts, \<open>WorkerPoolScheduler.run\<close>: the scheduling pass as
  functions, and the asynchronous run as a step relation in which the environment decides when a task ends
  and how, when heartbeats fire and when the signal is aborted.
\<close>

section \<open>Results of a task\<close>

datatype task_error = SchedulerFailure scheduler_error | NamedFailure string | OtherFailure

fun scheduler_error_text :: "scheduler_error \<Rightarrow> string" where
  "scheduler_error_text SCHEDULER_CONFIG_INVALID = ''SCHEDULER_CONFIG_INVALID''"
| "scheduler_error_text SCHEDULER_JOB_INVALID = ''SCHEDULER_JOB_INVALID''"
| "scheduler_error_text SCHEDULER_NO_ELIGIBLE_PROXY = ''SCHEDULER_NO_ELIGIBLE_PROXY''"
| "scheduler_error_text SCHEDULER_AFFINITY_CONFLICT = ''SCHEDULER_AFFINITY_CONFLICT''"
| "scheduler_error_text SCHEDULER_CAPACITY_EXHAUSTED = ''SCHEDULER_CAPACITY_EXHAUSTED''"
| "scheduler_error_text SCHEDULER_ORIGIN_RATE_LIMITED = ''SCHEDULER_ORIGIN_RATE_LIMITED''"
| "scheduler_error_text SCHEDULER_CANCELLED = ''SCHEDULER_CANCELLED''"
| "scheduler_error_text SCHEDULER_CLAIM_SKIPPED = ''SCHEDULER_CLAIM_SKIPPED''"
| "scheduler_error_text WORKER_START_FAILED = ''WORKER_START_FAILED''"
| "scheduler_error_text WORKER_CONTEXT_FAILED = ''WORKER_CONTEXT_FAILED''"
| "scheduler_error_text WORKER_LEASE_LOST = ''WORKER_LEASE_LOST''"
| "scheduler_error_text WORKER_STALE_GENERATION = ''WORKER_STALE_GENERATION''"
| "scheduler_error_text WORKER_CRASHED = ''WORKER_CRASHED''"
| "scheduler_error_text PROXY_CIRCUIT_OPEN = ''PROXY_CIRCUIT_OPEN''"
| "scheduler_error_text PROXY_HALF_OPEN_FAILED = ''PROXY_HALF_OPEN_FAILED''"
| "scheduler_error_text STALE_COMMIT_REJECTED = ''STALE_COMMIT_REJECTED''"
| "scheduler_error_text SCHEDULER_PERSISTENCE_FAILED = ''SCHEDULER_PERSISTENCE_FAILED''"

definition safe_error_code :: "task_error \<Rightarrow> string" where
  "safe_error_code e = (case e of
     SchedulerFailure c \<Rightarrow> scheduler_error_text c
   | NamedFailure n \<Rightarrow> if safe_identifier n then n else ''WORKER_EXECUTION_FAILED''
   | OtherFailure \<Rightarrow> ''WORKER_EXECUTION_FAILED'')"

definition safe_failure_category :: "task_error \<Rightarrow> scheduler_category" where
  "safe_failure_category e = (case e of
     SchedulerFailure c \<Rightarrow>
       if c = SCHEDULER_CANCELLED then CatCancelled
       else if c \<in> {PROXY_CIRCUIT_OPEN, PROXY_HALF_OPEN_FAILED, SCHEDULER_NO_ELIGIBLE_PROXY} then CatProxy
       else if c = SCHEDULER_ORIGIN_RATE_LIMITED then CatOriginRateLimit
       else if c \<in> {WORKER_CONTEXT_FAILED, WORKER_CRASHED} then CatBrowser
       else CatUnknown
   | _ \<Rightarrow> CatUnknown)"

section \<open>The state of a run\<close>

type_synonym pending_job = "scheduler_job \<times> string"

record run_state =
  rn_pending :: "pending_job list"
  rn_active :: "reservation list"
  rn_completed :: "(string \<times> js_value) list"
  rn_failed :: "(string \<times> string \<times> scheduler_category) list"
  rn_skipped :: "(string \<times> string) list"
  rn_blocked :: "(string \<times> string) list"
  rn_cancelled :: bool
  rn_sequence :: nat
  rn_pool :: pool

text \<open>The options of the call: the proxies it may use, whether their credentials are at hand, the clocks of each attempt.\<close>

record run_options =
  ro_prefix :: string
  ro_proxies :: "proxy list"
  ro_available :: "proxy \<Rightarrow> bool"
  ro_readings :: "nat \<Rightarrow> readings"

definition start_run :: "pool_env \<Rightarrow> scheduler_job list \<Rightarrow> pool \<Rightarrow> scheduler_error + run_state" where
  "start_run E jobs pl = ebind (emap (normalize_scheduler_job (pe_url E)) jobs) (\<lambda>pending.
     Inr \<lparr>rn_pending = pending, rn_active = [], rn_completed = [], rn_failed = [], rn_skipped = [], rn_blocked = [],
       rn_cancelled = False, rn_sequence = 0, rn_pool = pl\<rparr>)"

text \<open>
  One scan of the pending jobs: the first that can be reserved starts, the first whose reservation throws is blocked, and
  either ends the scan.
\<close>

fun scan_pending :: "pool_env \<Rightarrow> run_options \<Rightarrow> pending_job list \<Rightarrow> pending_job list \<Rightarrow> run_state \<Rightarrow> bool \<times> run_state" where
  "scan_pending E o' before [] s = (False, s\<lparr>rn_pending := before\<rparr>)"
| "scan_pending E o' before (j # rest) s =
     (let n = rn_sequence s + 1 in
      case try_reserve_worker E (ro_readings o' n) (ro_available o') (ro_prefix o' @ ''-'' @ show_nat n) (fst j) (ro_proxies o') (rn_pool s) of
        (Inl e, pl) \<Rightarrow> (True, s\<lparr>rn_sequence := n, rn_pool := pl, rn_pending := before @ rest,
            rn_blocked := rn_blocked s @ [(jb_jobId (fst j), safe_error_code (SchedulerFailure e))]\<rparr>)
      | (Inr None, pl) \<Rightarrow> scan_pending E o' (before @ [j]) rest (s\<lparr>rn_sequence := n, rn_pool := pl\<rparr>)
      | (Inr (Some r), pl) \<Rightarrow> (True, s\<lparr>rn_sequence := n, rn_pool := pl, rn_pending := before @ rest,
            rn_active := rn_active s @ [r]\<rparr>))"

definition scan :: "pool_env \<Rightarrow> run_options \<Rightarrow> run_state \<Rightarrow> bool \<times> run_state" where
  "scan E o' s = scan_pending E o' [] (rn_pending s) s"

lemma scan_pending_length:
  "fst (scan_pending E o' before rest s) \<Longrightarrow>
   length (rn_pending (snd (scan_pending E o' before rest s))) + 1 = length before + length rest"
proof (induction rest arbitrary: before s)
  case Nil
  then show ?case by simp
next
  case (Cons j rest)
  have step: "length (rn_pending (snd (scan_pending E o' (before @ [j]) rest u))) = length before + length rest"
    if "fst (scan_pending E o' (before @ [j]) rest u)" for u
    using Cons.IH[of "before @ [j]" u] that by simp
  show ?case
    using Cons.prems step by (auto simp: Let_def split: prod.splits sum.splits option.splits)
qed

lemma scan_keeps_pending: "scan_pending E o' before rest s = (False, s') \<Longrightarrow> rn_pending s' = before @ rest"
proof (induction rest arbitrary: before s)
  case (Cons j rest)
  then show ?case by (auto simp: Let_def split: prod.splits sum.splits option.splits)
qed auto

lemma scan_length: "scan E o' s = (True, s') \<Longrightarrow> length (rn_pending s') < length (rn_pending s)"
  using scan_pending_length[of E o' "[]" "rn_pending s" s] by (simp add: scan_def)

text \<open>The loop \<open>while (scheduled && pending.length > 0 && active.size < ...)\<close>.\<close>

function schedule_pass :: "pool_env \<Rightarrow> run_options \<Rightarrow> run_state \<Rightarrow> run_state" where
  "schedule_pass E o' s =
     (if rn_pending s = [] \<or> wc_globalWorkers (pe_config E) \<le> length (rn_active s) then s
      else (case scan E o' s of (scheduled, s') \<Rightarrow> if scheduled then schedule_pass E o' s' else s'))"
  by pat_completeness auto

termination
  by (relation "measure (\<lambda>(E, o', s). length (rn_pending s))") (auto dest!: sym[of "(_, _)"] scan_length)

declare schedule_pass.simps [simp del]

definition skip_all :: "run_state \<Rightarrow> run_state" where
  "skip_all s = s\<lparr>rn_skipped := rn_skipped s @ map (\<lambda>j. (jb_jobId (fst j), ''CANCELLED'')) (rn_pending s), rn_pending := []\<rparr>"

text \<open>The head of the main loop, up to where it waits.\<close>

definition pass :: "pool_env \<Rightarrow> run_options \<Rightarrow> bool \<Rightarrow> run_state \<Rightarrow> run_state" where
  "pass E o' aborted s =
     (let s1 = (if aborted then s\<lparr>rn_cancelled := True\<rparr> else s)
      in if rn_cancelled s1 then skip_all s1 else schedule_pass E o' s1)"

text \<open>The snapshots of the Origins of the pending jobs; \<open>find\<close> looks for one that is cooling.\<close>

fun pending_snapshots :: "pool_env \<Rightarrow> int \<Rightarrow> pending_job list \<Rightarrow> budget \<Rightarrow> scheduler_error + origin_snapshot list \<times> budget" where
  "pending_snapshots E t [] b = Inr ([], b)"
| "pending_snapshots E t (j # js) b =
     ebind (snapshot (pe_url E) (pe_config E) (snd j) t b) (\<lambda>(sn, b1).
     ebind (pending_snapshots E t js b1) (\<lambda>(sns, b2). Inr (sn # sns, b2)))"

definition block_all :: "pool_env \<Rightarrow> run_state \<Rightarrow> run_state" where
  "block_all E s = s\<lparr>rn_blocked := rn_blocked s @ map (\<lambda>j. (jb_jobId (fst j),
     if wc_connectionMode (pe_config E) = DirectMode then ''CAPACITY_EXHAUSTED'' else ''SCHEDULER_NO_ELIGIBLE_PROXY'')) (rn_pending s),
     rn_pending := []\<rparr>"

text \<open>
  With nothing active: sleep while an Origin is cooling, an abort during the sleep cancelling the run, or block what is left.
  The clock reads \<open>t\<close> throughout.
\<close>

definition idle :: "pool_env \<Rightarrow> int \<Rightarrow> bool \<Rightarrow> run_state \<Rightarrow> scheduler_error + run_state" where
  "idle E t aborted s =
     ebind (pending_snapshots E t (rn_pending s) (pl_budget (rn_pool s))) (\<lambda>(sns, b).
     let s1 = s\<lparr>rn_pool := (rn_pool s)\<lparr>pl_budget := b\<rparr>\<rparr> in
     if list_ex (\<lambda>sn. case sn_cooldownUntilMs sn of None \<Rightarrow> False | Some u \<Rightarrow> t < u) sns
     then Inr (if aborted then s1\<lparr>rn_cancelled := True\<rparr> else s1)
     else Inr (block_all E s1))"

text \<open>The end of the task of an active reservation, with a value or with an error.\<close>

definition finish_failed :: "pool_env \<Rightarrow> int \<Rightarrow> reservation \<Rightarrow> task_error \<Rightarrow> run_state \<Rightarrow> run_state" where
  "finish_failed E t r e s =
     (let skip = (e = SchedulerFailure SCHEDULER_CLAIM_SKIPPED);
          cat = safe_failure_category e;
          pl = snd (release_worker E r (if skip then OutCancelled else OutFailed) (Some cat) t (rn_pool s));
          s1 = (if skip then s\<lparr>rn_skipped := rn_skipped s @ [(jb_jobId (rv_job r), ''CLAIM_CONFLICT'')]\<rparr>
                else s\<lparr>rn_failed := rn_failed s @ [(jb_jobId (rv_job r), safe_error_code e, cat)]\<rparr>)
      in s1\<lparr>rn_pool := pl, rn_active := remove1 r (rn_active s),
            rn_cancelled := (rn_cancelled s \<or> e = SchedulerFailure SCHEDULER_CANCELLED)\<rparr>)"

definition finish :: "pool_env \<Rightarrow> int \<Rightarrow> reservation \<Rightarrow> task_error + js_value \<Rightarrow> run_state \<Rightarrow> run_state" where
  "finish E t r result s = (case result of
     Inr v \<Rightarrow> (case release_worker E r OutCompleted None t (rn_pool s) of
         (Inl e, pl) \<Rightarrow> finish_failed E t r (SchedulerFailure e) (s\<lparr>rn_pool := pl\<rparr>)
       | (Inr _, pl) \<Rightarrow> s\<lparr>rn_pool := pl, rn_active := remove1 r (rn_active s),
             rn_completed := rn_completed s @ [(jb_jobId (rv_job r), v)]\<rparr>)
   | Inl e \<Rightarrow> finish_failed E t r e s)"

datatype run_point = AtTop | AtAwait

inductive run_step :: "pool_env \<Rightarrow> run_options \<Rightarrow> run_point \<times> run_state \<Rightarrow> run_point \<times> run_state \<Rightarrow> bool"
  for E :: pool_env and o' :: run_options where
  wait: "rn_pending s \<noteq> [] \<or> rn_active s \<noteq> [] \<Longrightarrow> s' = pass E o' aborted s \<Longrightarrow> rn_active s' \<noteq> [] \<Longrightarrow>
     run_step E o' (AtTop, s) (AtAwait, s')"
| again: "rn_pending s \<noteq> [] \<or> rn_active s \<noteq> [] \<Longrightarrow> s' = pass E o' aborted s \<Longrightarrow> rn_active s' = [] \<Longrightarrow>
     rn_pending s' = [] \<or> rn_cancelled s' \<Longrightarrow> run_step E o' (AtTop, s) (AtTop, s')"
| rest: "rn_pending s \<noteq> [] \<or> rn_active s \<noteq> [] \<Longrightarrow> s' = pass E o' aborted s \<Longrightarrow> rn_active s' = [] \<Longrightarrow>
     rn_pending s' \<noteq> [] \<Longrightarrow> \<not> rn_cancelled s' \<Longrightarrow> idle E t aborted' s' = Inr s'' \<Longrightarrow> run_step E o' (AtTop, s) (AtTop, s'')"
| ended: "r \<in> set (rn_active s) \<Longrightarrow> run_step E o' (AtAwait, s) (pc, finish E t r result s)"
| beat: "r \<in> set (rn_active s) \<Longrightarrow>
     run_step E o' (AtAwait, s) (AtAwait, s\<lparr>rn_pool := snd (heartbeat r t (rn_pool s))\<rparr>)"
| observe: "run_step E o' (AtAwait, s)
     (AtAwait, s\<lparr>rn_pool := snd (record_origin_response E url status header t (rn_pool s))\<rparr>)"

inductive_cases run_topE: "run_step E o' (AtTop, s) c"
inductive_cases run_awaitE: "run_step E o' (AtAwait, s) c"
inductive_simps run_done: "run_step E o' (AtTop, s) (pc, s')"

abbreviation run_path :: "pool_env \<Rightarrow> run_options \<Rightarrow> run_point \<times> run_state \<Rightarrow> run_point \<times> run_state \<Rightarrow> bool" where
  "run_path E o' \<equiv> (run_step E o')\<^sup>*\<^sup>*"

section \<open>Every job is accounted for\<close>

text \<open>The identifiers of all jobs of the run, wherever they are.\<close>

definition all_ids :: "run_state \<Rightarrow> string multiset" where
  "all_ids s = mset (map (\<lambda>j. jb_jobId (fst j)) (rn_pending s)) + mset (map (\<lambda>r. jb_jobId (rv_job r)) (rn_active s)) +
     mset (map fst (rn_completed s)) + mset (map fst (rn_failed s)) + mset (map fst (rn_skipped s)) + mset (map fst (rn_blocked s))"

lemma normalized_id: "normalize_scheduler_job pu j = Inr (j', origin) \<Longrightarrow> jb_jobId j' = jb_jobId j"
  by (auto simp: normalize_scheduler_job_def result_simps)

lemma reserved_id:
  assumes "try_reserve_worker E rd available w job proxies s = (Inr (Some r), s')" shows "jb_jobId (rv_job r) = jb_jobId job"
proof -
  have "pl_post (try_reserve_worker E rd available w job proxies) (\<lambda>r _. case r of None \<Rightarrow> True
      | Some r \<Rightarrow> \<exists>origin. normalize_scheduler_job (pe_url E) job = Inr (rv_job r, origin))"
  proof (cases "normalize_scheduler_job (pe_url E) job")
    case (Inl e)
    then have "pl_post (pl_lift (Inl e :: scheduler_error + scheduler_job \<times> string)) (\<lambda>_ _. False)" by (simp add: pl_post_def pl_lift_def)
    then show ?thesis using Inl
      by (auto simp: pl_post_def try_reserve_worker_def pl_bind_def pl_lift_def split: sum.splits prod.splits)
  next
    case (Inr jo)
    obtain j origin where jo: "jo = (j, origin)" by (cases jo)
    have lift: "pl_bind (pl_lift (Inr a)) f = f a" for a :: "scheduler_job \<times> string" and f :: "_ \<Rightarrow> reservation option pool_op"
      by (rule ext) (simp add: pl_bind_def pl_lift_def)
    show ?thesis
      unfolding try_reserve_worker_def Inr jo lift prod.case
      by (auto intro!: pl_post_bind pl_post_ret split: prod.splits)
  qed
  then show ?thesis using assms normalized_id by (fastforce simp: pl_post_def)
qed

lemma scan_pending_ids:
  "all_ids (snd (scan_pending E o' before rest s)) =
   all_ids (s\<lparr>rn_pending := before @ rest\<rparr>)"
proof (induction rest arbitrary: before s)
  case Nil
  then show ?case by simp
next
  case (Cons j rest)
  show ?case
    using Cons.IH[of "before @ [j]"] reserved_id
    by (fastforce simp: Let_def all_ids_def split: prod.splits sum.splits option.splits)
qed

lemma schedule_pass_ids: "all_ids (schedule_pass E o' s) = all_ids s"
proof (induction E o' s rule: schedule_pass.induct)
  case (1 E o' s)
  have "all_ids (snd (scan E o' s)) = all_ids s" using scan_pending_ids[of E o' "[]" "rn_pending s" s] by (simp add: scan_def)
  then show ?case using 1 by (subst schedule_pass.simps) (auto split: prod.splits)
qed

lemma pass_ids: "all_ids (pass E o' aborted s) = all_ids s"
proof -
  have "all_ids (s\<lparr>rn_cancelled := True\<rparr>) = all_ids s" by (simp add: all_ids_def)
  moreover have "all_ids (skip_all s) = all_ids s" for s by (simp add: all_ids_def skip_all_def comp_def)
  ultimately show ?thesis by (simp add: pass_def Let_def schedule_pass_ids)
qed

lemma all_ids_pool [simp]: "all_ids (s\<lparr>rn_pool := p\<rparr>) = all_ids s"
  by (simp add: all_ids_def)

lemma idle_ids: "idle E t aborted s = Inr s' \<Longrightarrow> all_ids s' = all_ids s"
proof -
  assume i: "idle E t aborted s = Inr s'"
  have block: "all_ids (block_all E u) = all_ids u" for u
    by (simp add: all_ids_def block_all_def image_mset.compositionality comp_def)
  have "all_ids (u\<lparr>rn_cancelled := True\<rparr>) = all_ids u" for u by (simp add: all_ids_def)
  then show ?thesis using i block by (auto simp: idle_def result_simps Let_def split: if_splits prod.splits)
qed

lemma image_remove: "r \<in> set xs \<Longrightarrow> add_mset (f r) (image_mset f (mset xs - {#r#})) = image_mset f (mset xs)"
  by (metis image_mset_add_mset insert_DiffM set_mset_mset)

lemma finish_failed_ids: "r \<in> set (rn_active s) \<Longrightarrow> all_ids (finish_failed E t r e s) = all_ids s"
  using image_remove[of r "rn_active s" "\<lambda>r. jb_jobId (rv_job r)"] by (simp add: all_ids_def finish_failed_def Let_def)

lemma finish_ids: "r \<in> set (rn_active s) \<Longrightarrow> all_ids (finish E t r result s) = all_ids s"
proof -
  assume r: "r \<in> set (rn_active s)"
  have "all_ids (s\<lparr>rn_pool := p, rn_active := remove1 r (rn_active s), rn_completed := rn_completed s @ [(jb_jobId (rv_job r), v)]\<rparr>)
    = all_ids s" for p v
    using image_remove[OF r, of "\<lambda>r. jb_jobId (rv_job r)"] by (simp add: all_ids_def)
  moreover have "all_ids (finish_failed E t r e (s\<lparr>rn_pool := p\<rparr>)) = all_ids s" for e p
    using finish_failed_ids[of r "s\<lparr>rn_pool := p\<rparr>"] r by simp
  ultimately show ?thesis using finish_failed_ids[OF r] by (simp add: finish_def split: sum.splits prod.splits)
qed

lemma run_step_ids: "run_step E o' c c' \<Longrightarrow> all_ids (snd c') = all_ids (snd c)"
proof (induction rule: run_step.induct)
  case (rest s s' aborted t aborted' s'')
  then show ?case using idle_ids pass_ids by simp
qed (simp_all add: pass_ids finish_ids)

lemma run_path_ids: "run_path E o' c c' \<Longrightarrow> all_ids (snd c') = all_ids (snd c)"
  by (induction rule: rtranclp_induct) (auto dest: run_step_ids)

lemma start_run_ids:
  assumes "start_run E jobs pl = Inr s"
  shows "all_ids s = mset (map jb_jobId jobs)" "rn_pool s = pl" "rn_active s = []"
proof -
  obtain ps where ps: "list_all2 (\<lambda>j p. normalize_scheduler_job (pe_url E) j = Inr p) jobs ps" "rn_pending s = ps"
    and s: "rn_active s = []" "rn_completed s = []" "rn_failed s = []" "rn_skipped s = []" "rn_blocked s = []" "rn_pool s = pl"
    using assms by (auto simp: start_run_def result_simps emap_Inr_iff)
  have "map (\<lambda>j. jb_jobId (fst j)) ps = map jb_jobId jobs"
    using ps(1)
  proof (induction rule: list_all2_induct)
    case (Cons x xs y ys)
    then show ?case using normalized_id[of "pe_url E" x "fst y" "snd y"] by simp
  qed simp
  then show "all_ids s = mset (map jb_jobId jobs)" using s ps(2) by (simp add: all_ids_def)
  show "rn_pool s = pl" "rn_active s = []" using s by simp_all
qed

section \<open>The limits hold throughout a run\<close>

definition run_ok :: "pool_env \<Rightarrow> run_state \<Rightarrow> bool" where
  "run_ok E s = (pool_ok E (rn_pool s) \<and> distinct (map rv_workerId (rn_active s)) \<and> (\<forall>r \<in> set (rn_active s). holds (rn_pool s) r))"

lemma holds_cong: "pl_workers s' = pl_workers s \<Longrightarrow> holds s' r = holds s r"
  by (simp add: holds_def)

lemma same_loads_run_ok:
  assumes "run_ok E s" "same_loads E (rn_pool s) pl" shows "run_ok E (s\<lparr>rn_pool := pl\<rparr>)"
  using assms same_loads_ok[of E "rn_pool s" pl] holds_cong[of pl "rn_pool s"]
  by (simp add: run_ok_def same_loads_def loads_def)

lemma run_ok_frame:
  "rn_pool s' = rn_pool s \<Longrightarrow> rn_active s' = rn_active s \<Longrightarrow> run_ok E s' = run_ok E s"
  by (simp add: run_ok_def)

lemma reserved_run_ok:
  assumes ok: "run_ok E s" and pool: "pool_ok E pl" and r: "reserved E rd available w job proxies (rn_pool s) r pl"
  shows "run_ok E (s\<lparr>rn_pool := pl, rn_active := rn_active s @ [r]\<rparr>)"
proof -
  have w: "rv_workerId r = w" "map_of (pl_workers (rn_pool s)) w = None"
    "\<And>w'. w' \<noteq> w \<Longrightarrow> map_of (pl_workers pl) w' = map_of (pl_workers (rn_pool s)) w'" and new: "holds pl r"
    using r by (auto simp: reserved_def holds_def)
  have old: "rv_workerId q \<noteq> w" "holds pl q" if "q \<in> set (rn_active s)" for q
  proof -
    have h: "holds (rn_pool s) q" using that ok by (simp add: run_ok_def)
    then show "rv_workerId q \<noteq> w" using w(2) by (auto simp: holds_def)
    then show "holds pl q" using h w(3) by (simp add: holds_def)
  qed
  have fresh: "rv_workerId r \<notin> set (map rv_workerId (rn_active s))" using old(1) w(1) by fastforce
  show ?thesis using ok pool new fresh old(2) by (simp add: run_ok_def)
qed

lemma scan_run_ok: "run_ok E s \<Longrightarrow> run_ok E (snd (scan_pending E o' before rest s))"
proof (induction rest arbitrary: before s)
  case Nil
  then show ?case by (simp add: run_ok_def)
next
  case (Cons j rest)
  let ?n = "rn_sequence s + 1"
  obtain res pl where t: "try_reserve_worker E (ro_readings o' ?n) (ro_available o') (ro_prefix o' @ ''-'' @ show_nat ?n) (fst j)
      (ro_proxies o') (rn_pool s) = (res, pl)" by (cases "try_reserve_worker E (ro_readings o' ?n) (ro_available o')
      (ro_prefix o' @ ''-'' @ show_nat ?n) (fst j) (ro_proxies o') (rn_pool s)")
  have pool: "pool_ok E (rn_pool s)" using Cons.prems by (simp add: run_ok_def)
  note cases = reserve_cases[OF pool t]
  show ?case
  proof (cases res)
    case (Inl e)
    then have "run_ok E (s\<lparr>rn_pool := pl\<rparr>)" using same_loads_run_ok[OF Cons.prems] cases by simp
    then show ?thesis using t Inl by (simp add: Let_def run_ok_def)
  next
    case (Inr x)
    show ?thesis
    proof (cases x)
      case None
      then have "run_ok E (s\<lparr>rn_pool := pl\<rparr>)" using same_loads_run_ok[OF Cons.prems] cases Inr by simp
      then have "run_ok E (s\<lparr>rn_sequence := ?n, rn_pool := pl\<rparr>)" by (simp add: run_ok_def)
      then show ?thesis using Cons.IH[of "s\<lparr>rn_sequence := ?n, rn_pool := pl\<rparr>" "before @ [j]"] t Inr None by (simp add: Let_def)
    next
      case (Some r)
      then have "run_ok E (s\<lparr>rn_pool := pl, rn_active := rn_active s @ [r]\<rparr>)"
        using reserved_run_ok[OF Cons.prems] cases Inr by auto
      then show ?thesis using t Inr Some by (simp add: Let_def run_ok_def)
    qed
  qed
qed

lemma schedule_pass_run_ok: "run_ok E s \<Longrightarrow> run_ok E (schedule_pass E o' s)"
proof (induction E o' s rule: schedule_pass.induct)
  case (1 E o' s)
  have "run_ok E (snd (scan E o' s))" using scan_run_ok[OF 1(2)] by (simp add: scan_def)
  then show ?case using 1 by (subst schedule_pass.simps) (auto split: prod.splits)
qed

lemma pass_run_ok: "run_ok E s \<Longrightarrow> run_ok E (pass E o' aborted s)"
  using schedule_pass_run_ok[of E s] by (auto simp: pass_def Let_def skip_all_def run_ok_def)

lemma budget_run_ok: "run_ok E s \<Longrightarrow> run_ok E (s\<lparr>rn_pool := (rn_pool s)\<lparr>pl_budget := b\<rparr>\<rparr>)"
  by (simp add: run_ok_def pool_ok_def holds_def circuits_ok_def pages_of_def workers_at_def workers_on_def active_on_def)

lemma idle_run_ok: "idle E t aborted s = Inr s' \<Longrightarrow> run_ok E s \<Longrightarrow> run_ok E s'"
  using budget_run_ok[of E s]
  by (auto simp: idle_def result_simps Let_def block_all_def run_ok_def split: if_splits prod.splits)

lemma released_run_ok:
  assumes ok: "run_ok E s" and r: "r \<in> set (rn_active s)" and cfg: "circuit_config_ok (pe_circuit E)"
    and run: "release_worker E r status cat t (rn_pool s) = (res, pl)"
  shows "run_ok E (s\<lparr>rn_pool := pl, rn_active := remove1 r (rn_active s)\<rparr>)" "res = Inr ()"
proof -
  have h: "pool_ok E (rn_pool s)" "holds (rn_pool s) r" and d: "distinct (map rv_workerId (rn_active s))"
    using ok r by (auto simp: run_ok_def)
  note rel = pool_release_keeps[OF h cfg run]
  show "res = Inr ()" by (rule rel(2))
  have dr: "distinct (rn_active s)" using d by (simp add: distinct_map)
  have other: "rv_workerId q \<noteq> rv_workerId r" if "q \<in> set (remove1 r (rn_active s))" for q
    using that d dr r by (auto simp: distinct_map inj_on_def)
  have "holds pl q" if q: "q \<in> set (remove1 r (rn_active s))" for q
  proof -
    have "holds (rn_pool s) q" using q ok dr by (auto simp: run_ok_def)
    then show ?thesis using other[OF q] rel(3) by (simp add: holds_def delete_conv')
  qed
  moreover have "distinct (map rv_workerId (remove1 r (rn_active s)))"
    using d dr by (auto simp: distinct_map intro: inj_on_subset)
  ultimately show "run_ok E (s\<lparr>rn_pool := pl, rn_active := remove1 r (rn_active s)\<rparr>)" using rel(1) by (simp add: run_ok_def)
qed

lemma finish_run_ok:
  assumes ok: "run_ok E s" and r: "r \<in> set (rn_active s)" and cfg: "circuit_config_ok (pe_circuit E)"
  shows "run_ok E (finish E t r result s)"
proof (cases result)
  case (Inl e)
  let ?st = "if e = SchedulerFailure SCHEDULER_CLAIM_SKIPPED then OutCancelled else OutFailed"
  obtain res pl where "release_worker E r ?st (Some (safe_failure_category e)) t (rn_pool s) = (res, pl)"
    by (cases "release_worker E r ?st (Some (safe_failure_category e)) t (rn_pool s)")
  then show ?thesis using released_run_ok[OF ok r cfg] Inl
    by (auto simp: finish_def finish_failed_def Let_def run_ok_def)
next
  case (Inr v)
  obtain res pl where rel: "release_worker E r OutCompleted None t (rn_pool s) = (res, pl)"
    by (cases "release_worker E r OutCompleted None t (rn_pool s)")
  then show ?thesis using released_run_ok[OF ok r cfg rel] Inr by (simp add: finish_def run_ok_def)
qed

lemma observe_run_ok: "run_ok E s \<Longrightarrow> run_ok E (s\<lparr>rn_pool := snd (record_origin_response E url status header t (rn_pool s))\<rparr>)"
  using budget_run_ok[of E s] by (auto simp: record_origin_response_def split: sum.splits prod.splits)

lemma beat_run_ok: "run_ok E s \<Longrightarrow> run_ok E (s\<lparr>rn_pool := snd (heartbeat r t (rn_pool s))\<rparr>)"
proof -
  assume ok: "run_ok E s"
  have "holds (snd (heartbeat r t p)) q = holds p q" for p q
    by (auto simp: heartbeat_def holds_def pl_bind_def pl_gets_def pl_throw_def pl_modify_def pl_ret_def Let_def update_conv'
        split: option.splits)
  then show ?thesis using ok heartbeat_keeps by (simp add: run_ok_def)
qed

lemma run_step_ok: "run_step E o' c c' \<Longrightarrow> circuit_config_ok (pe_circuit E) \<Longrightarrow> run_ok E (snd c) \<Longrightarrow> run_ok E (snd c')"
proof (induction rule: run_step.induct)
  case (rest s s' aborted t aborted' s'')
  then show ?case using idle_run_ok pass_run_ok by simp
qed (simp_all add: pass_run_ok finish_run_ok observe_run_ok beat_run_ok)

lemma run_path_ok: "run_path E o' c c' \<Longrightarrow> circuit_config_ok (pe_circuit E) \<Longrightarrow> run_ok E (snd c) \<Longrightarrow> run_ok E (snd c')"
  by (induction rule: rtranclp_induct) (auto dest: run_step_ok)

lemma active_le_workers: "run_ok E s \<Longrightarrow> length (rn_active s) \<le> length (pl_workers (rn_pool s))"
proof -
  assume ok: "run_ok E s"
  have "set (map rv_workerId (rn_active s)) \<subseteq> set (map fst (pl_workers (rn_pool s)))"
  proof
    fix w assume "w \<in> set (map rv_workerId (rn_active s))"
    then obtain r where "r \<in> set (rn_active s)" "w = rv_workerId r" by auto
    then have "holds (rn_pool s) r" using ok by (simp add: run_ok_def)
    then show "w \<in> set (map fst (pl_workers (rn_pool s)))"
      using \<open>w = rv_workerId r\<close> by (auto simp: holds_def split: option.splits dest: map_of_SomeD intro: rev_image_eqI)
  qed
  then have "card (set (map rv_workerId (rn_active s))) \<le> card (set (map fst (pl_workers (rn_pool s))))" by (simp add: card_mono)
  also have "\<dots> \<le> length (pl_workers (rn_pool s))" using card_length[of "map fst (pl_workers (rn_pool s))"] by simp
  finally show ?thesis using ok distinct_card[of "map rv_workerId (rn_active s)"] by (simp add: run_ok_def)
qed

end
