(* ===== verification/Sample_Network.thy ===== *)
theory Sample_Network
  imports Pool_Run
begin

text \<open>
  A small configuration on which the properties of the Worker Pool, the Proxies and the secret references are applied: one
  Proxy, created from a draft and found healthy, and a run of two jobs of one Origin over it.
\<close>

definition sample_now :: string where "sample_now = ''2026-01-01T00:00:00.000Z''"

definition sample_draft :: js_value where
  "sample_draft = VObj [(''id'', VStr ''p1''), (''protocol'', VStr ''http''), (''host'', VStr ''Proxy.Example.''),
     (''port'', VNum (Num 8080))]"

definition good_check :: check_outcome where
  "good_check = \<lparr>co_success = True, co_checkedAt = None, co_latencyMs = Some (Num 20), co_errorCode = VUndef, co_errorSummary = VUndef\<rparr>"

definition bad_check :: check_outcome where
  "bad_check = \<lparr>co_success = False, co_checkedAt = None, co_latencyMs = None, co_errorCode = VUndef, co_errorSummary = VUndef\<rparr>"

definition sample_proxy :: proxy where
  "sample_proxy = \<lparr>px_id = ''p1'', px_label = None, px_protocol = ''http'', px_host = ''proxy.example'', px_port = Num 8080,
     px_bypass = [], px_credentialRef = None, px_weight = Num 1, px_priority = Num 0, px_maxConcurrency = Num 1,
     px_enabled = True, px_healthState = Degraded, px_lastHealthCheckAt = None, px_lastSuccessAt = None,
     px_lastFailureAt = None, px_latencyMs = None, px_successCount = Num 0, px_failureCount = Num 0,
     px_consecutiveFailureCount = Num 0, px_successRate = Num 0, px_cooldownUntil = None, px_lastErrorCode = None,
     px_lastErrorSummary = None, px_createdAt = sample_now, px_updatedAt = sample_now, px_revision = Num 1\<rparr>"

definition healthy_proxy :: proxy where
  "healthy_proxy = sample_proxy\<lparr>px_healthState := Healthy, px_lastHealthCheckAt := Some sample_now,
     px_lastSuccessAt := Some sample_now, px_latencyMs := Some (Num 20), px_successCount := Num 1, px_successRate := Num 1,
     px_revision := Num 2\<rparr>"

definition sample_url :: url_parser where
  "sample_url u = Some \<lparr>pu_protocol = ''https:'', pu_username = [], pu_password = [], pu_origin = ''https://a.example''\<rparr>"

definition sample_pool_env :: pool_env where
  "sample_pool_env = \<lparr>pe_config = default_worker_config\<lparr>wc_connectionMode := ProxyPool, wc_globalWorkers := 2\<rparr>,
     pe_circuit = default_circuit_config, pe_runId = ''run-1'', pe_url = sample_url, pe_date = (\<lambda>_. None), pe_collate = (\<lambda>s. s)\<rparr>"

definition sample_readings :: readings where
  "sample_readings = \<lparr>rd_paused = 0, rd_now = sample_now, rd_eligible = 0, rd_view = 0, rd_probe = 0, rd_start = 0\<rparr>"

definition sample_options :: run_options where
  "sample_options = \<lparr>ro_prefix = ''worker'', ro_proxies = [healthy_proxy], ro_available = (\<lambda>_. False), ro_readings = (\<lambda>_. sample_readings)\<rparr>"

definition sample_worker_job :: "string \<Rightarrow> scheduler_job" where
  "sample_worker_job i = \<lparr>jb_jobId = i, jb_url = ''https://a.example/x'', jb_origin = None, jb_proxyId = None, jb_session = None\<rparr>"

definition sample_run :: run_state where
  "sample_run = (case start_run sample_pool_env [sample_worker_job ''j1'', sample_worker_job ''j2''] new_pool of
     Inr s \<Rightarrow> s | Inl _ \<Rightarrow> undefined)"

definition sample_pass :: run_state where
  "sample_pass = pass sample_pool_env sample_options False sample_run"

lemma sample_results:
  "create_proxy_metadata sample_draft sample_now = Inr sample_proxy"
  "record_health_check sample_proxy good_check sample_now default_health_policy = Inr healthy_proxy"
  by code_simp+

lemma sample_start:
  "start_run sample_pool_env [sample_worker_job ''j1'', sample_worker_job ''j2''] new_pool = Inr sample_run"
proof -
  have "is_ok (start_run sample_pool_env [sample_worker_job ''j1'', sample_worker_job ''j2''] new_pool)" by code_simp
  then show ?thesis by (auto simp: sample_run_def is_ok_iff)
qed

lemma sample_pass_state:
  "(map (\<lambda>r. (rv_workerId r, jb_jobId (rv_job r), map_option px_id (rv_proxy r))) (rn_active sample_pass),
    map (\<lambda>j. jb_jobId (fst j)) (rn_pending sample_pass)) = ([(''worker-1'', ''j1'', Some ''p1'')], [''j2''])"
  by code_simp

lemma sample_path: "run_path sample_pool_env sample_options (AtTop, sample_run) (AtAwait, sample_pass)"
proof -
  have "map (\<lambda>j. jb_jobId (fst j)) (rn_pending sample_run) = [''j1'', ''j2'']" by code_simp
  then have "rn_pending sample_run \<noteq> []" by auto
  moreover have "rn_active sample_pass \<noteq> []" using sample_pass_state by auto
  ultimately show ?thesis by (intro r_into_rtranclp run_step.wait) (simp_all add: sample_pass_def)
qed

end
