(* ===== verification/Network_Properties.thy ===== *)
theory Network_Properties
  imports Budget_Sound Circuit_Breaker Sample_Network Proxy_Sound Secret_Refs
begin

text \<open>
  The properties of the Worker Pool Scheduler (scheduler.ts), of the Proxy records (proxy.ts) and of the
  secret references (secrets.ts) of packages/archive-core.
\<close>

section \<open>The request budget of an Origin\<close>

text \<open>C34
  The token bucket bounds the rate: over any stretch of a run of the budget, the permits handed out for an Origin are at
  most the burst limit plus the rate times the time that passed, whatever calls were made in between.
\<close>

lemma token_bucket_bound:
  assumes "wc_requestsPerSecond c = Some rate" "budget_run pd c (new_budget, t0) s" "budget_run pd c s s'"
  shows "of_nat (granted origin (fst s')) - of_nat (granted origin (fst s)) \<le>
    (of_nat (wc_burstLimit c) + of_int (snd s' - snd s) / 1000 * of_nat rate :: rat)"
proof -
  have ok: "budget_ok c s" using run_keeps[OF assms(2) new_budget_ok] .
  then have "0 \<le> credit c rate origin s'" using run_keeps[OF assms(3)] credit_nonneg by blast
  then show ?thesis
    using run_credit[OF assms(3) ok assms(1), of origin] credit_le_burst[of c rate origin s] by linarith
qed

abbreviation two_per_second :: worker_config where
  "two_per_second \<equiv> default_worker_config\<lparr>wc_requestsPerSecond := Some 2, wc_maxInflight := 1\<rparr>"

abbreviation once_granted :: budget where
  "once_granted \<equiv> snd (acquire_turn two_per_second ''https://a.example'' 0 new_budget)"

lemma once_granted_run:
  "budget_run pd two_per_second (new_budget, 0) (once_granted, 0)"
  "budget_run pd two_per_second (once_granted, 0) (once_granted, 250)"
  by (auto intro!: r_into_rtranclp called intro: budget_call.turn[OF surjective_pairing] budget_call.tick)

lemma token_bucket_bound_witness:
  "rat_of_nat (granted ''https://a.example'' once_granted) - of_nat (granted ''https://a.example'' new_budget) \<le> 4 \<and>
   granted ''https://a.example'' once_granted = 1"
proof -
  have "granted ''https://a.example'' once_granted = 1"
    by (simp add: acquire_turn_def state_of_def new_budget_def default_worker_config_def Let_def refill_def fresh_state_def
        wait_milliseconds_def cooling_def granted_def count_where_def put_state_def take_token_def)
  then show ?thesis
    using token_bucket_bound[of two_per_second 2 "\<lambda>_. None" 0 "(new_budget, 0)" "(once_granted, 0)" "''https://a.example''",
        OF _ _ once_granted_run(1)] by (simp add: default_worker_config_def)
qed

text \<open>C35
  The permits of an Origin that were handed out and not released never exceed the configured maximum of requests in
  flight, and the counter the code keeps is their exact number.
\<close>

lemma inflight_never_exceeds_limit:
  assumes "budget_run pd c (new_budget, t0) (b, t)"
  shows "held origin b \<le> wc_maxInflight c \<and>
    (case bg_states b origin of None \<Rightarrow> held origin b = 0 | Some st \<Rightarrow> os_inflight st = held origin b)"
  using run_keeps[OF assms new_budget_ok] by (auto simp: budget_ok_iff state_ok_def split: option.splits dest!: spec[of _ origin])

lemma inflight_never_exceeds_limit_witness:
  "held ''https://a.example'' once_granted \<le> 1"
  using inflight_never_exceeds_limit[OF once_granted_run(1)[of "\<lambda>_. None"], of "''https://a.example''"]
  by (simp add: default_worker_config_def)

text \<open>
  After a response that asks for a delay (429, with the \<open>Retry-After\<close> value or the fallback, or 503) no request goes out to
  its Origin before the delay has passed, whatever other calls the budget serves; the delay never exceeds the configured
  maximum.
\<close>

lemma rate_limited_origin_is_left_alone:
  assumes "config_ok c" "response_delay pd c status header t = Some d" "0 < d"
    and "budget_calls pd c (snd (respond_at pd c origin status header t b), t) (b', t')" "t' < t + d"
  shows "granted origin b' = granted origin b \<and> d \<le> wc_cooldownMaximumMs c"
proof -
  let ?b1 = "put_state origin (respond_state pd c status header t (state_of c origin t b)) b"
  have "cool_until origin (t + d) (?b1, t)"
    using assms(2,3) by (auto simp: cool_until_iff respond_state_def Let_def put_state_def)
  then have "cool_until origin (t + d) (snd (respond_at pd c origin status header t b), t)"
    unfolding respond_at_def using assms(3) by (intro snapshot_cool) auto
  from calls_granted[OF assms(4) this] assms(5)
  have "granted origin b' = granted origin (snd (respond_at pd c origin status header t b))" by simp
  also have "\<dots> = granted origin b"
    using snapshot_is_put[of c origin t ?b1] by (auto simp: respond_at_def)
  finally show ?thesis using response_delay_bounds[OF assms(1,2)] by simp
qed

lemma rate_limited_origin_is_left_alone_witness:
  "granted ''https://a.example'' (snd (acquire_turn two_per_second ''https://a.example'' 10
     (snd (respond_at (\<lambda>_. None) two_per_second ''https://a.example'' 429 (Some ''120'') 10 new_budget)))) =
   granted ''https://a.example'' new_budget"
proof -
  let ?b = "snd (respond_at (\<lambda>_. None) two_per_second ''https://a.example'' 429 (Some ''120'') 10 new_budget)"
  have run: "budget_calls (\<lambda>_. None) two_per_second (?b, 10) (snd (acquire_turn two_per_second ''https://a.example'' 10 ?b), 10)"
    by (auto intro!: r_into_rtranclp intro: budget_call.turn[OF surjective_pairing])
  have d: "response_delay (\<lambda>_. None) two_per_second 429 (Some ''120'') 10 = Some 120000" by code_simp
  have c: "config_ok two_per_second" by (simp add: config_ok_def default_worker_config_def)
  show ?thesis using rate_limited_origin_is_left_alone[OF c d _ run] by simp
qed

text \<open>\<open>slept c origin b t t2\<close>: a caller told to wait at time \<open>t\<close> comes back, at \<open>t2\<close>, no sooner than it was told.\<close>

definition slept :: "worker_config \<Rightarrow> string \<Rightarrow> budget \<Rightarrow> int \<Rightarrow> int \<Rightarrow> bool" where
  "slept c origin b t t' = (case fst (acquire_turn c origin t b) of Inl w \<Rightarrow> t + sleep_ms w \<le> t' | Inr _ \<Rightarrow> True)"

text \<open>
  A request that keeps asking is served: when nobody else uses the Origin and a slot is free, a caller that sleeps as long
  as it is told has a permit after at most two sleeps, one for the cooldown and one for the token.
\<close>

lemma patient_request_is_served:
  assumes "config_ok c" "budget_run pd c (new_budget, t) (b, t0)" "held origin b < wc_maxInflight c"
    and "slept c origin b t0 t1" "slept c origin (snd (acquire_turn c origin t0 b)) t1 t2"
  shows "\<exists>i b'. acquire_loop c origin [Clock t0, Clock t1, Clock t2] b = (Permit i, b')"
proof -
  obtain r0 b1 r1 b2 where turns: "acquire_turn c origin t0 b = (r0, b1)" "acquire_turn c origin t1 b1 = (r1, b2)"
    by (meson surj_pair)
  show ?thesis
  proof (cases r0)
    case (Inl w0)
    then show ?thesis
    proof (cases r1)
      case (Inl w1)
      have "\<exists>i b3. acquire_turn c origin t2 b2 = (Inr i, b3)"
        using patient_turns[OF assms(1) run_keeps[OF assms(2) new_budget_ok] assms(3)] turns assms(4,5) \<open>r0 = Inl w0\<close> Inl
        by (simp add: slept_def)
      then show ?thesis using turns \<open>r0 = Inl w0\<close> Inl by auto
    qed (use turns Inl in auto)
  qed (use turns in auto)
qed

abbreviation one_token :: worker_config where
  "one_token \<equiv> default_worker_config\<lparr>wc_requestsPerSecond := Some 2, wc_burstLimit := 1\<rparr>"

abbreviation token_spent :: budget where
  "token_spent \<equiv> snd (acquire_turn one_token ''https://a.example'' 0 new_budget)"

lemma patient_request_is_served_witness:
  "\<exists>i b'. acquire_loop one_token ''https://a.example'' [Clock 0, Clock 500, Clock 600] token_spent = (Permit i, b')"
proof -
  let ?c = one_token and ?o = "''https://a.example''"
  have c: "config_ok ?c" by (simp add: config_ok_def default_worker_config_def)
  have run: "budget_run (\<lambda>_. None) ?c (new_budget, 0) (token_spent, 0)"
    by (auto intro!: r_into_rtranclp called intro: budget_call.turn[OF surjective_pairing])
  have free: "held ?o token_spent < wc_maxInflight ?c" by code_simp
  have waits: "slept ?c ?o token_spent 0 500" "slept ?c ?o (snd (acquire_turn ?c ?o 0 token_spent)) 500 600" by code_simp+
  show ?thesis by (rule patient_request_is_served[OF c run free waits])
qed

section \<open>The circuit breaker of a Proxy\<close>

text \<open>
  A failure that reaches the threshold, or that ends a probe, opens the circuit: nothing is scheduled on the Proxy for the
  whole open duration, and from then on a probe is admitted.
\<close>

lemma circuit_opens_and_reopens:
  assumes "circuit_config_ok c" "circuit_ok c b" "cb_state b = CbHalfOpen \<or> cc_failureThreshold c \<le> cb_failures b + 1"
  shows "if t' < t + cc_openDurationMs c
    then \<not> fst (can_schedule c t' (record_failure c t b)) \<and> \<not> fst (begin_probe c t' (record_failure c t b))
    else fst (begin_probe c t' (record_failure c t b)) \<and> cb_state (snd (begin_probe c t' (record_failure c t b))) = CbHalfOpen"
  using open_blocks[OF failure_opens[OF assms(3)]] open_reopens[OF record_failure_keeps[OF assms(1,2)] failure_opens[OF assms(3)]]
  by auto

lemma circuit_opens_and_reopens_witness:
  "let c = default_circuit_config; b = record_failure c 1000 (new_circuit\<lparr>cb_failures := 2\<rparr>)
   in \<not> fst (begin_probe c 30999 b) \<and> fst (begin_probe c 31000 b)"
proof -
  let ?c = default_circuit_config and ?b = "new_circuit\<lparr>cb_failures := 2\<rparr>"
  have ok: "circuit_config_ok ?c" "circuit_ok ?c ?b" "cb_state ?b = CbHalfOpen \<or> cc_failureThreshold ?c \<le> cb_failures ?b + 1"
    and d: "cc_openDurationMs ?c = 30000"
    by (simp_all add: circuit_config_ok_def circuit_ok_def default_circuit_config_def new_circuit_def)
  show ?thesis
    using circuit_opens_and_reopens[OF ok, of 30999 1000] circuit_opens_and_reopens[OF ok, of 31000 1000] d by (simp add: Let_def)
qed

text \<open>
  Whatever calls a circuit breaker serves, in any order, it keeps its bounds: a closed circuit has counted fewer
  failures than the threshold, an open or half-open one knows until when it is open, and the probes in flight never exceed
  their maximum.
\<close>

lemma circuit_keeps_its_bounds:
  assumes "make_circuit p f d n = Inr (c, b)"
  shows "circuit_ok c (run_circuit c ops b)"
  using make_circuit_ok[OF assms] run_keeps_circuit by blast

lemma circuit_keeps_its_bounds_witness:
  "circuit_ok default_circuit_config
     (run_circuit default_circuit_config [Fail 0, Fail 1, Fail 2, BeginProbe 30002, Succeed] new_circuit)"
proof -
  have "make_circuit ''proxy-1'' (Num 3) (Num 30000) (Num 1) = Inr (default_circuit_config, new_circuit)" by code_simp
  then show ?thesis using circuit_keeps_its_bounds by blast
qed

section \<open>The Worker Pool\<close>

text \<open>C36
  Whatever happens in a run - Jobs scheduled, finished, failed, heartbeats, responses, aborts - the pool stays within its
  configuration: the Workers in total, those on an Origin and those on a Proxy never exceed their limits, and the Origin and
  Proxy counters the code keeps are exactly the Workers there are.
\<close>

lemma pool_limits_hold:
  assumes "circuit_config_ok (pe_circuit E)" "start_run E jobs new_pool = Inr s0" "run_path E o' (AtTop, s0) (pc, s)"
  shows "length (rn_active s) \<le> wc_globalWorkers (pe_config E) \<and>
    length (pl_workers (rn_pool s)) \<le> wc_globalWorkers (pe_config E) \<and>
    pages_of (rn_pool s) origin = workers_at (rn_pool s) origin \<and> workers_at (rn_pool s) origin \<le> wc_perOriginPages (pe_config E) \<and>
    active_on (rn_pool s) i = workers_on (rn_pool s) i \<and> workers_on (rn_pool s) i \<le> wc_perProxyWorkers (pe_config E)"
proof -
  have "run_ok E s0" using start_run_ids[OF assms(2)] by (simp add: run_ok_def new_pool_ok)
  then have ok: "run_ok E s" using run_path_ok[OF assms(3,1)] by simp
  then have "pool_ok E (rn_pool s)" by (simp add: run_ok_def)
  then show ?thesis using active_le_workers[OF ok] by (auto simp: pool_ok_def)
qed

lemma pool_limits_hold_witness:
  "length (rn_active sample_pass) \<le> 2 \<and> workers_at (rn_pool sample_pass) ''https://a.example'' \<le> 1 \<and>
   workers_on (rn_pool sample_pass) ''p1'' \<le> 1"
  using pool_limits_hold[OF _ sample_start sample_path, of "''https://a.example''" "''p1''"]
  by (simp add: sample_pool_env_def default_worker_config_def circuit_config_ok_def default_circuit_config_def)

text \<open>C37
  No Job is lost and none is reported twice: at every point of a run the Jobs that wait, run, and were reported completed,
  failed, skipped or blocked are together the Jobs the run was given, so when the run ends its report holds each of them once.
\<close>

lemma every_job_is_reported_once:
  assumes "start_run E jobs pl = Inr s0" "run_path E o' (AtTop, s0) (pc, s)"
  shows "mset (map (\<lambda>j. jb_jobId (fst j)) (rn_pending s)) + mset (map (\<lambda>r. jb_jobId (rv_job r)) (rn_active s)) +
    mset (map fst (rn_completed s)) + mset (map fst (rn_failed s)) + mset (map fst (rn_skipped s)) + mset (map fst (rn_blocked s)) =
    mset (map jb_jobId jobs)"
  using run_path_ids[OF assms(2)] start_run_ids(1)[OF assms(1)] by (simp add: all_ids_def)

lemma every_job_is_reported_once_witness:
  "mset (map (\<lambda>j. jb_jobId (fst j)) (rn_pending sample_pass)) + mset (map (\<lambda>r. jb_jobId (rv_job r)) (rn_active sample_pass)) +
   mset (map fst (rn_completed sample_pass)) + mset (map fst (rn_failed sample_pass)) + mset (map fst (rn_skipped sample_pass)) +
   mset (map fst (rn_blocked sample_pass)) = {#''j1'', ''j2''#}"
  using every_job_is_reported_once[OF sample_start sample_path] by (simp add: sample_worker_job_def)

text \<open>
  A reservation respects affinity: in direct mode it never goes to a Job bound to a Proxy, and otherwise its Proxy is one of
  the given list, the one the Job's session or the Job itself asks for when it asks for one, eligible at that time, and with room
  for another Worker; only the reserved Worker is added to the pool.
\<close>

lemma reservation_respects_affinity:
  assumes "pool_ok E s" "try_reserve_worker E rd available w job proxies s = (Inr (Some r), s')"
  shows "pool_ok E s' \<and> map_of (pl_workers s) w = None \<and> length (pl_workers s') = length (pl_workers s) + 1 \<and>
    (\<forall>w'. w' \<noteq> w \<longrightarrow> map_of (pl_workers s') w' = map_of (pl_workers s) w') \<and>
    (case rv_proxy r of
       None \<Rightarrow> wc_connectionMode (pe_config E) = DirectMode \<and> requested_of (rv_job r) = None
     | Some x \<Rightarrow> wc_connectionMode (pe_config E) \<noteq> DirectMode \<and> x \<in> set proxies \<and>
         is_proxy_eligible x (rd_now rd) (available x) \<and> requested_of (rv_job r) \<in> {None, Some (px_id x)} \<and>
         int (active_on s (px_id x)) < proxy_capacity E x)"
  using reserve_cases[OF assms] by (auto simp: reserved_def candidate_for_def roomy_def split: option.splits)

lemma reservation_respects_affinity_witness:
  "\<exists>r s'. try_reserve_worker sample_pool_env sample_readings (\<lambda>_. False) ''w'' (sample_worker_job ''j1'') [healthy_proxy] new_pool =
     (Inr (Some r), s') \<and> rv_proxy r \<noteq> None \<and> pool_ok sample_pool_env s'"
proof -
  let ?run = "try_reserve_worker sample_pool_env sample_readings (\<lambda>_. False) ''w'' (sample_worker_job ''j1'') [healthy_proxy] new_pool"
  have "(case fst ?run of Inr (Some r) \<Rightarrow> rv_proxy r \<noteq> None | _ \<Rightarrow> False)" by code_simp
  then obtain r s' where run: "?run = (Inr (Some r), s')" "rv_proxy r \<noteq> None"
    by (cases ?run) (auto split: sum.splits option.splits)
  then show ?thesis using reservation_respects_affinity[OF new_pool_ok run(1)] by blast
qed

text \<open>
  The weighted rotation conserves the smooth weights: selecting a Proxy adds every candidate's weight and takes the total off
  the selected one, so their sum never changes and no Proxy gains on the others in the long run.
\<close>

lemma weighted_rotation_conserves:
  assumes "pool_ok E s" "select_weighted E xs s = (Inr (Some x), s')"
  shows "weight_sum s' = weight_sum s \<and> x \<in> set xs \<and> pool_ok E s'"
proof -
  have start: "loads E (pl_workers s) (pl_pages s) (active_on s) s" using same_loads_refl[OF assms(1)] by (simp add: same_loads_def)
  have "same_loads E s s'" "x \<in> set xs"
    using pl_specD[OF spec_weighted start assms(2)] by (simp_all add: same_loads_def)
  then show ?thesis using select_weighted_sum[OF assms(2)] same_loads_ok[OF assms(1)] assms(1) by (simp add: pool_ok_def)
qed

lemma weighted_rotation_conserves_witness:
  "\<exists>x s'. select_weighted sample_pool_env [healthy_proxy, healthy_proxy\<lparr>px_id := ''p2''\<rparr>] new_pool = (Inr (Some x), s') \<and>
     weight_sum s' = weight_sum new_pool"
proof -
  let ?run = "select_weighted sample_pool_env [healthy_proxy, healthy_proxy\<lparr>px_id := ''p2''\<rparr>] new_pool"
  have "(case fst ?run of Inr (Some x) \<Rightarrow> True | _ \<Rightarrow> False)" by code_simp
  then obtain x s' where run: "?run = (Inr (Some x), s')" by (cases ?run) (auto split: sum.splits option.splits)
  then show ?thesis using weighted_rotation_conserves[OF new_pool_ok run] by blast
qed


section \<open>Proxy records\<close>

text \<open>C38
  A Proxy record stays valid: one that was created from a draft, and whatever health checks and expired cooldowns were
  recorded in it, passes the validation the code applies before every use.
\<close>

lemma proxy_record_stays_valid:
  assumes "proxy_history x" shows "is_ok (assert_proxy_metadata x)"
  using assms by (simp add: assert_metadata_iff proxy_history_ok)

lemma proxy_record_stays_valid_witness:
  "proxy_history healthy_proxy \<and> is_ok (assert_proxy_metadata healthy_proxy)"
proof -
  have "four_digit_time (1767225600000 + 30000)" by (simp add: four_digit_time_def)
  moreover have "date_parse sample_now = Some 1767225600000" "int_of_num (hp_cooldownMs default_health_policy) = 30000" by code_simp+
  ultimately have "proxy_history healthy_proxy"
    using proxy_history.checked[OF proxy_history.created[OF sample_results(1)] sample_results(2)] by simp
  then show ?thesis using proxy_record_stays_valid by blast
qed

text \<open>
  Only a good check makes a Proxy eligible: after a check the record is healthy exactly when the Proxy is enabled, the
  check succeeded and it was faster than the degraded threshold, and then nothing of an earlier failure is left; it is in
  cooldown exactly when the check failed and reached the failure threshold.
\<close>

lemma only_a_good_check_makes_eligible:
  assumes "record_health_check x outcome now policy = Inr y"
  shows "(px_healthState y = Healthy \<longleftrightarrow> px_enabled x \<and> co_success outcome \<and>
      (case co_latencyMs outcome of None \<Rightarrow> True | Some n \<Rightarrow> int_of_num n < int_of_num (hp_degradedLatencyMs policy))) \<and>
    (px_healthState y = Healthy \<longrightarrow> px_consecutiveFailureCount y = Num 0 \<and> px_cooldownUntil y = None \<and> px_lastErrorCode y = None) \<and>
    (px_healthState y = Cooldown \<longleftrightarrow> px_enabled x \<and> \<not> co_success outcome \<and>
      int_of_num (hp_failureThreshold policy) \<le> failures_after x)"
  using assms
proof (rule check_cases)
  fix checked latency
  assume *: "px_enabled x" "co_success outcome" "check_latency (co_latencyMs outcome) = Inr latency"
    "y = checked_success x policy checked latency now"
  then have "latency = map_option int_of_num (co_latencyMs outcome)"
    by (auto simp: check_latency_def result_simps normalize_bounded_Inr split: option.splits)
  then show ?thesis using * by (auto simp: checked_success_def Let_def split: option.splits)
qed (auto simp: checked_disabled_def checked_failure_def Let_def)

lemma only_a_good_check_makes_eligible_witness:
  "px_healthState healthy_proxy = Healthy \<and> px_enabled sample_proxy \<and> co_success good_check"
proof -
  have "px_healthState healthy_proxy = Healthy" by (simp add: healthy_proxy_def)
  then show ?thesis using only_a_good_check_makes_eligible[OF sample_results(2)] by blast
qed

text \<open>
  The selected Proxy is an eligible one of the list, is the requested one when one was requested, and no eligible candidate
  precedes it in the order priority, greater weight, identifier.
\<close>

lemma selection_is_best_eligible:
  assumes "select_eligible_proxy col available input = Inr (Some x)"
  shows "si_mode input \<noteq> DirectMode \<and> x \<in> set (si_proxies input) \<and> is_proxy_eligible x (si_now input) (available x) \<and>
    (si_sessionProxyId input \<noteq> None \<longrightarrow> si_sessionProxyId input = Some (px_id x)) \<and>
    (si_selectedProxyId input \<noteq> None \<longrightarrow> si_selectedProxyId input = Some (px_id x)) \<and>
    (\<forall>y \<in> set (si_proxies input). is_proxy_eligible y (si_now input) (available y) \<and>
       (si_selectedProxyId input = None \<or> px_id y = px_id x) \<and> (si_sessionProxyId input = None \<or> px_id y = px_id x) \<longrightarrow>
       preference col x \<le> preference col y)"
proof -
  define requested where "requested = (if si_selectedProxyId input \<noteq> None then si_selectedProxyId input else si_sessionProxyId input)"
  define wanted where "wanted = (\<lambda>x. (case requested of None \<Rightarrow> True | Some i \<Rightarrow> px_id x = i) \<and>
    is_proxy_eligible x (si_now input) (available x))"
  have run: "select_eligible_proxy col available input =
     (if si_mode input = DirectMode
      then (if si_sessionProxyId input \<noteq> None then Inl (ProxyError PROXY_DIRECT_FALLBACK_BLOCKED) else Inr None)
      else ebind (if si_sessionProxyId input \<noteq> None then assert_proxy_affinity (si_sessionProxyId input) requested else Inr ()) (\<lambda>_.
        case select_first wanted (preference col) (si_proxies input) of
          Some x \<Rightarrow> Inr (Some x)
        | None \<Rightarrow> (case requested of
            Some i \<Rightarrow> Inl (ProxyError (why_unavailable available (List.find (\<lambda>x. px_id x = i) (si_proxies input))))
          | None \<Rightarrow> Inl (ProxyError PROXY_UNAVAILABLE))))"
    by (simp only: select_eligible_proxy_def Let_def wanted_def requested_def)
  have mode: "si_mode input \<noteq> DirectMode" and bound: "si_sessionProxyId input \<noteq> None \<longrightarrow> si_sessionProxyId input = requested"
    and x: "select_first wanted (preference col) (si_proxies input) = Some x"
    using assms unfolding run by (auto simp: assert_proxy_affinity_def result_simps split: if_splits option.splits)
  have "wanted x" "x \<in> set (si_proxies input)" "\<And>y. y \<in> set (si_proxies input) \<Longrightarrow> wanted y \<Longrightarrow> preference col x \<le> preference col y"
    using select_first_SomeD[OF x] by blast+
  then show ?thesis using mode bound by (auto simp: wanted_def requested_def split: option.splits if_splits)
qed

lemma selection_is_best_eligible_witness:
  "is_proxy_eligible healthy_proxy sample_now False \<and>
   preference (\<lambda>s. s) healthy_proxy \<le> preference (\<lambda>s. s) healthy_proxy"
proof -
  let ?i = "\<lparr>si_mode = ProxyPool, si_proxies = [sample_proxy, healthy_proxy], si_now = sample_now,
    si_selectedProxyId = None, si_sessionProxyId = None\<rparr>"
  have "select_eligible_proxy (\<lambda>s. s) (\<lambda>_. False) ?i = Inr (Some healthy_proxy)" by code_simp
  from selection_is_best_eligible[OF this] show ?thesis by simp
qed

text \<open>
  The canonical identity of a Proxy tells Proxies apart: two endpoints with the same identity have the same protocol, host
  and port once normalized.
\<close>

lemma proxy_identity_is_unique:
  assumes "canonical_proxy_identity p h n = Inr i" "canonical_proxy_identity p' h' n' = Inr i"
  shows "normalize_protocol p = normalize_protocol p' \<and> normalize_host h = normalize_host h' \<and> normalize_port n = normalize_port n'"
proof -
  obtain a b k where one: "normalize_protocol p = Inr a" "normalize_host h = Inr b" "normalize_port n = Inr k" "i = identity_text a b k"
    using assms(1) by (auto simp: canonical_proxy_identity_def result_simps)
  obtain a' b' k' where two: "normalize_protocol p' = Inr a'" "normalize_host h' = Inr b'" "normalize_port n' = Inr k'"
    "i = identity_text a' b' k'" using assms(2) by (auto simp: canonical_proxy_identity_def result_simps)
  have "a = a' \<and> b = b' \<and> k = k'"
    using identity_text_inj[OF normalize_protocol_ok[OF one(1)] normalize_protocol_ok[OF two(1)]
        normalize_host_ok(1)[OF one(2)] normalize_host_ok(1)[OF two(2)], of k k'] one(3,4) two(3,4) by (simp add: normalize_port_Inr)
  then show ?thesis using one two by simp
qed

lemma proxy_identity_is_unique_witness:
  "canonical_proxy_identity (VStr ''HTTP'') (VStr ''[::1]'') (VNum (Num 80)) = Inr ''http://[::1]:80'' \<and>
   normalize_protocol (VStr ''HTTP'') = normalize_protocol (VStr ''http'')"
proof -
  have a: "canonical_proxy_identity (VStr ''HTTP'') (VStr ''[::1]'') (VNum (Num 80)) = Inr ''http://[::1]:80''" by code_simp
  have b: "canonical_proxy_identity (VStr ''http'') (VStr ''::1'') (VNum (Num 80)) = Inr ''http://[::1]:80''" by code_simp
  show ?thesis using a proxy_identity_is_unique[OF a b] by simp
qed

section \<open>Secret references\<close>

text \<open>
  A reference that was written is read back as the Project and the Secret it was written for, in lower case.
\<close>

lemma secret_reference_round_trip:
  assumes "serialize_secret_ref p i = Inr s"
  shows "parse_secret_ref (VStr s) = Inr \<lparr>pr_serialized = s, pr_projectId = to_lower p, pr_secretId = to_lower i\<rparr>"
  using assms by (auto simp: serialize_secret_ref_def assert_project_id_def result_simps parse_ref_text)

lemma secret_reference_round_trip_witness:
  "parse_secret_ref (VStr ''secret://v1/project/11111111-1111-4111-8111-11111111111a/22222222-2222-4222-8222-222222222222'') =
   Inr \<lparr>pr_serialized = ''secret://v1/project/11111111-1111-4111-8111-11111111111a/22222222-2222-4222-8222-222222222222'',
     pr_projectId = ''11111111-1111-4111-8111-11111111111a'', pr_secretId = ''22222222-2222-4222-8222-222222222222''\<rparr>"
proof -
  let ?p = "''11111111-1111-4111-8111-11111111111A''" and ?i = "''22222222-2222-4222-8222-222222222222''"
  have s: "serialize_secret_ref ?p ?i =
      Inr ''secret://v1/project/11111111-1111-4111-8111-11111111111a/22222222-2222-4222-8222-222222222222''" by code_simp
  have "to_lower ?p = ''11111111-1111-4111-8111-11111111111a''" "to_lower ?i = ?i" by code_simp+
  then show ?thesis using secret_reference_round_trip[OF s] by simp
qed

end
