(* ===== verification/Url_Text.thy ===== *)
theory Url_Text
  imports Path_Safety Secret_Refs
begin

text \<open>
  What the scope engine uses of the URL standard: the fields of a parsed URL, their serialisation
  (\<open>href\<close>), and the \<open>application/x-www-form-urlencoded\<close> text behind
  \<open>searchParams\<close> with its UTF-8 coding. The fields of a parsed URL are ASCII text, the decoded
  keys and values of its query are lists of UTF-16 code units. The URL parser itself is a parameter
  of the scope engine.
\<close>

section \<open>UTF-8\<close>

definition is_cont :: "nat \<Rightarrow> bool" where
  "is_cont b = (128 \<le> b \<and> b < 192)"

definition replacement :: units where
  "replacement = [65533]"

text \<open>
  The first sequence of a byte stream and the rest after it, as the UTF-8 decoder reads it: a sequence
  that breaks off gives U+FFFD and the offending byte is read again.
\<close>

definition utf8_take :: "nat \<Rightarrow> nat list \<Rightarrow> units \<times> nat list" where
  "utf8_take b bs =
     (if b < 128 then ([b], bs)
      else if 194 \<le> b \<and> b < 224 then (case bs of
          c # r \<Rightarrow> if is_cont c then (utf16 (64 * (b - 192) + (c - 128)), r) else (replacement, bs)
        | [] \<Rightarrow> (replacement, []))
      else if 224 \<le> b \<and> b < 240 then (case bs of
          c # r \<Rightarrow> if is_cont c \<and> (b = 224 \<longrightarrow> 160 \<le> c) \<and> (b = 237 \<longrightarrow> c < 160) then (case r of
              d # r2 \<Rightarrow> if is_cont d then (utf16 (4096 * (b - 224) + 64 * (c - 128) + (d - 128)), r2) else (replacement, r)
            | [] \<Rightarrow> (replacement, [])) else (replacement, bs)
        | [] \<Rightarrow> (replacement, []))
      else if 240 \<le> b \<and> b < 245 then (case bs of
          c # r \<Rightarrow> if is_cont c \<and> (b = 240 \<longrightarrow> 144 \<le> c) \<and> (b = 244 \<longrightarrow> c < 144) then (case r of
              d # r2 \<Rightarrow> if is_cont d then (case r2 of
                  e # r3 \<Rightarrow> if is_cont e
                    then (utf16 (262144 * (b - 240) + 4096 * (c - 128) + 64 * (d - 128) + (e - 128)), r3)
                    else (replacement, r2)
                | [] \<Rightarrow> (replacement, [])) else (replacement, r)
            | [] \<Rightarrow> (replacement, [])) else (replacement, bs)
        | [] \<Rightarrow> (replacement, []))
      else (replacement, bs))"

lemma utf8_take_shorter: "utf8_take b bs = (us, r) \<Longrightarrow> length r \<le> length bs"
  by (auto simp: utf8_take_def split: if_splits list.splits)

function utf8_decode :: "nat list \<Rightarrow> units" where
  "utf8_decode [] = []"
| "utf8_decode (b # bs) = (case utf8_take b bs of (us, r) \<Rightarrow> us @ utf8_decode r)"
  by pat_completeness auto
termination
  by (relation "measure length") (auto dest: utf8_take_shorter[OF sym] simp: less_Suc_eq_le)

definition utf8_point :: "nat \<Rightarrow> nat list" where
  "utf8_point p =
     (if p < 128 then [p]
      else if p < 2048 then [192 + p div 64, 128 + p mod 64]
      else if p < 65536 then [224 + p div 4096, 128 + p div 64 mod 64, 128 + p mod 64]
      else [240 + p div 262144, 128 + p div 4096 mod 64, 128 + p div 64 mod 64, 128 + p mod 64])"

definition high_surrogate :: "nat \<Rightarrow> bool" where
  "high_surrogate u = (55296 \<le> u \<and> u < 56320)"

definition low_surrogate :: "nat \<Rightarrow> bool" where
  "low_surrogate u = (56320 \<le> u \<and> u < 57344)"

text \<open>The UTF-8 bytes of a text; a lone surrogate counts as U+FFFD.\<close>

fun utf8_encode :: "units \<Rightarrow> nat list" where
  "utf8_encode [] = []"
| "utf8_encode [u] = utf8_point (if high_surrogate u \<or> low_surrogate u then 65533 else u)"
| "utf8_encode (u # v # us) =
     (if high_surrogate u \<and> low_surrogate v
      then utf8_point (65536 + (u - 55296) * 1024 + (v - 56320)) @ utf8_encode us
      else utf8_point (if high_surrogate u \<or> low_surrogate u then 65533 else u) @ utf8_encode (v # us))"

text \<open>Text without a lone surrogate.\<close>

fun well_formed :: "units \<Rightarrow> bool" where
  "well_formed [] = True"
| "well_formed [u] = (u < 65536 \<and> \<not> high_surrogate u \<and> \<not> low_surrogate u)"
| "well_formed (u # v # us) =
     (u < 65536 \<and> (if high_surrogate u then low_surrogate v \<and> well_formed us
       else \<not> low_surrogate u \<and> well_formed (v # us)))"

text \<open>Code equations that compare quotients instead of large literals.\<close>

lemma surrogate_code [code]: "high_surrogate u = (u div 1024 = 54)" "low_surrogate u = (u div 1024 = 55)"
  by (auto simp: high_surrogate_def low_surrogate_def)

lemma utf8_point_code [code]:
  "utf8_point p =
     (if p div 128 = 0 then [p]
      else if p div 128 div 16 = 0 then [192 + p div 64, 128 + p mod 64]
      else if p div 256 div 256 = 0 then [224 + p div 64 div 64, 128 + p div 64 mod 64, 128 + p mod 64]
      else [240 + p div 64 div 64 div 64, 128 + p div 64 div 64 mod 64, 128 + p div 64 mod 64, 128 + p mod 64])"
  by (auto simp: utf8_point_def div_mult2_eq[symmetric] div_greater_zero_iff)

section \<open>Form encoding\<close>

definition to_units :: "string \<Rightarrow> units" where
  "to_units s = map code s"

definition hex_digit :: "nat \<Rightarrow> nat" where
  "hex_digit n = (if n < 10 then 48 + n else 55 + n)"

definition form_plain :: "nat \<Rightarrow> bool" where
  "form_plain b = ((48 \<le> b \<and> b \<le> 57) \<or> (65 \<le> b \<and> b \<le> 90) \<or> (97 \<le> b \<and> b \<le> 122) \<or> b \<in> {42, 45, 46, 95})"

definition form_byte :: "nat \<Rightarrow> units" where
  "form_byte b = (if b = 32 then [43] else if form_plain b then [b] else [37, hex_digit (b div 16), hex_digit (b mod 16)])"

definition form_encode :: "units \<Rightarrow> units" where
  "form_encode us = concat (map form_byte (utf8_encode us))"

type_synonym query_pair = "units \<times> units"

definition form_serialize :: "query_pair list \<Rightarrow> units" where
  "form_serialize ps = join_on 38 (map (\<lambda>(k, v). form_encode k @ 61 # form_encode v) ps)"

fun percent_decode :: "units \<Rightarrow> nat list" where
  "percent_decode (u # a # b # us) =
     (if u = 37 then (case hex_pair a b of Some x \<Rightarrow> x # percent_decode us | None \<Rightarrow> u # percent_decode (a # b # us))
      else u # percent_decode (a # b # us))"
| "percent_decode us = us"

definition form_decode :: "units \<Rightarrow> units" where
  "form_decode us = utf8_decode (percent_decode (map (\<lambda>u. if u = 43 then 32 else u) us))"

definition form_pair :: "units \<Rightarrow> query_pair" where
  "form_pair w = (form_decode (takeWhile (\<lambda>u. u \<noteq> 61) w), form_decode (drop 1 (dropWhile (\<lambda>u. u \<noteq> 61) w)))"

definition form_parse :: "units \<Rightarrow> query_pair list" where
  "form_parse q = map form_pair (filter (\<lambda>w. w \<noteq> []) (split_on 38 q))"

section \<open>Parsed URLs\<close>

text \<open>
  A parsed URL. \<open>ur_hostname\<close> has the brackets of an IPv6 address, \<open>ur_port\<close> is
  empty for the default port of the scheme, \<open>ur_query\<close> and \<open>ur_fragment\<close> are
  \<open>None\<close> when absent and do not hold their leading sign.
\<close>

record url =
  ur_protocol :: string
  ur_username :: string
  ur_password :: string
  ur_hostname :: string
  ur_port :: string
  ur_pathname :: string
  ur_query :: "string option"
  ur_fragment :: "string option"

definition is_http :: "url \<Rightarrow> bool" where
  "is_http u = (ur_protocol u = ''http:'' \<or> ur_protocol u = ''https:'')"

definition sign_part :: "char \<Rightarrow> string option \<Rightarrow> string" where
  "sign_part c v = (case v of None \<Rightarrow> [] | Some t \<Rightarrow> c # t)"

text \<open>\<open>href\<close>, \<open>origin\<close>, \<open>hash\<close> and \<open>searchParams\<close> of a URL with the scheme http or https.\<close>

definition host_part :: "url \<Rightarrow> string" where
  "host_part u = ur_hostname u @ (if ur_port u = [] then [] else CHR '':'' # ur_port u)"

definition origin_of :: "url \<Rightarrow> string" where
  "origin_of u = ur_protocol u @ ''//'' @ host_part u"

definition href :: "url \<Rightarrow> string" where
  "href u = ur_protocol u @ ''//'' @
     (if ur_username u = [] \<and> ur_password u = [] then []
      else ur_username u @ (if ur_password u = [] then [] else CHR '':'' # ur_password u) @ ''@'') @
     host_part u @ ur_pathname u @ sign_part (CHR ''?'') (ur_query u) @ sign_part (CHR ''#'') (ur_fragment u)"

definition hash_of :: "url \<Rightarrow> string" where
  "hash_of u = (case ur_fragment u of None \<Rightarrow> [] | Some t \<Rightarrow> if t = [] then [] else CHR ''#'' # t)"

definition search_params :: "url \<Rightarrow> query_pair list" where
  "search_params u = (case ur_query u of None \<Rightarrow> [] | Some q \<Rightarrow> form_parse (to_units q))"

definition set_params :: "query_pair list \<Rightarrow> url \<Rightarrow> url" where
  "set_params ps u = u\<lparr>ur_query := (if ps = [] then None else Some (map char_of (form_serialize ps)))\<rparr>"

lemma set_params_fields [simp]:
  "ur_fragment (set_params ps u) = ur_fragment u" "ur_pathname (set_params ps u) = ur_pathname u"
  "ur_hostname (set_params ps u) = ur_hostname u" "ur_protocol (set_params ps u) = ur_protocol u"
  "ur_username (set_params ps u) = ur_username u" "ur_password (set_params ps u) = ur_password u"
  "ur_port (set_params ps u) = ur_port u" "set_params ps (set_params qs u) = set_params ps u"
  "set_params ps (u\<lparr>ur_query := q\<rparr>) = set_params ps u"
  by (simp_all add: set_params_def)

section \<open>Round trips\<close>

lemma split_six_bits:
  "64 * (n div 64) + n mod 64 = (n::nat)"
  "4096 * (n div 4096) + 64 * (n div 64 mod 64) + n mod 64 = n"
  "262144 * (n div 262144) + 4096 * (n div 4096 mod 64) + 64 * (n div 64 mod 64) + n mod 64 = n"
proof -
  have twelve: "n div 4096 = n div 64 div 64" "n div 262144 = n div 64 div 64 div 64" by (simp_all add: div_mult2_eq[symmetric])
  show "64 * (n div 64) + n mod 64 = n" by simp
  then have one: "n = 64 * (n div 64) + n mod 64" by simp
  have two: "n div 64 = 64 * (n div 64 div 64) + n div 64 mod 64" by simp
  have three: "n div 64 div 64 = 64 * (n div 64 div 64 div 64) + n div 64 div 64 mod 64" by simp
  show "4096 * (n div 4096) + 64 * (n div 64 mod 64) + n mod 64 = n" unfolding twelve using one two by linarith
  show "262144 * (n div 262144) + 4096 * (n div 4096 mod 64) + 64 * (n div 64 mod 64) + n mod 64 = n"
    unfolding twelve using one two three by linarith
qed

lemma ten_bits: "w < 1024 \<Longrightarrow> (1024 * a + w) div 1024 = (a::nat)" "w < 1024 \<Longrightarrow> (1024 * a + w) mod 1024 = (w::nat)"
  by simp_all

lemma utf8_take_point:
  assumes "p < 1114112" "\<not> (55296 \<le> p \<and> p < 57344)"
  shows "\<exists>b bs. utf8_point p = b # bs \<and> utf8_take b (bs @ r) = (utf16 p, r)"
proof -
  consider "p < 128" | "128 \<le> p" "p < 2048" | "2048 \<le> p" "p < 65536" | "65536 \<le> p" by linarith
  then show ?thesis
  proof cases
    case 1
    then show ?thesis by (simp add: utf8_point_def utf8_take_def utf16_def)
  next
    case 2
    then have "2 \<le> p div 64" "p div 64 < 32" by auto
    moreover have "64 * (p div 64) + p mod 64 = p" by simp
    ultimately show ?thesis using 2 by (simp add: utf8_point_def utf8_take_def is_cont_def)
  next
    case 3
    have bounds: "p div 4096 < 16" "p div 64 mod 64 < 64" "p mod 64 < 64" using 3 by auto
    moreover note split = split_six_bits(2)[of p]
    moreover have "p div 4096 = 0 \<Longrightarrow> 32 \<le> p div 64 mod 64" using 3 split bounds by linarith
    moreover have "p div 4096 = 13 \<Longrightarrow> p div 64 mod 64 < 32" using assms(2) split bounds by linarith
    ultimately show ?thesis using 3 by (simp add: utf8_point_def utf8_take_def is_cont_def)
  next
    case 4
    have bounds: "p div 262144 < 5" "p div 4096 mod 64 < 64" "p div 64 mod 64 < 64" "p mod 64 < 64" using assms(1) by auto
    moreover note split = split_six_bits(3)[of p]
    moreover have "p div 262144 = 0 \<Longrightarrow> 16 \<le> p div 4096 mod 64" using 4 split bounds by linarith
    moreover have "p div 262144 = 4 \<Longrightarrow> p div 4096 mod 64 < 16" using assms(1) split bounds by linarith
    ultimately show ?thesis using 4 by (simp add: utf8_point_def utf8_take_def is_cont_def)
  qed
qed

lemma utf8_decode_point:
  "p < 1114112 \<Longrightarrow> \<not> (55296 \<le> p \<and> p < 57344) \<Longrightarrow> utf8_decode (utf8_point p @ r) = utf16 p @ utf8_decode r"
  using utf8_take_point[of p r] by auto

lemma utf8_round_trip: "well_formed us \<Longrightarrow> utf8_decode (utf8_encode us) = us"
proof (induction us rule: well_formed.induct)
  case 1
  then show ?case by simp
next
  case (2 u)
  then have "u < 65536" "\<not> high_surrogate u" "\<not> low_surrogate u" by simp_all
  then show ?case using utf8_decode_point[of u "[]"]
    by (auto simp: high_surrogate_def low_surrogate_def utf16_def not_le not_less)
next
  case (3 u v us)
  show ?case
  proof (cases "high_surrogate u")
    case True
    let ?p = "65536 + (u - 55296) * 1024 + (v - 56320)"
    have v: "low_surrogate v" "well_formed us" using 3(3) True by auto
    have p: "65536 \<le> ?p" "?p < 1114112" using True v by (auto simp: high_surrogate_def low_surrogate_def)
    have "v - 56320 < 1024" using v(1) by (auto simp: low_surrogate_def)
    then have "(1024 * (u - 55296) + (v - 56320)) div 1024 = u - 55296" "(1024 * (u - 55296) + (v - 56320)) mod 1024 = v - 56320"
      by (simp_all only: ten_bits)
    moreover have "?p - 65536 = 1024 * (u - 55296) + (v - 56320)" by simp
    ultimately have "(?p - 65536) div 1024 = u - 55296" "(?p - 65536) mod 1024 = v - 56320" by metis+
    moreover have "55296 \<le> u" "56320 \<le> v" using True v(1) by (auto simp: high_surrogate_def low_surrogate_def)
    ultimately have "utf16 ?p = [u, v]" using p unfolding utf16_def by (metis le_add_diff_inverse not_less)
    then show ?thesis using 3(1)[OF True v(2)] True v(1) p utf8_decode_point[of ?p "utf8_encode us"] by simp
  next
    case False
    then have w: "u < 65536" "\<not> low_surrogate u" "well_formed (v # us)" using 3(3) by auto
    have "utf8_decode (utf8_point u @ utf8_encode (v # us)) = utf16 u @ utf8_decode (utf8_encode (v # us))"
      using w False by (intro utf8_decode_point) (auto simp: high_surrogate_def low_surrogate_def)
    then show ?thesis using 3(2)[OF False w(3)] w False by (simp add: utf16_def)
  qed
qed

definition scalar :: "nat \<Rightarrow> bool" where
  "scalar p = (p < 1114112 \<and> \<not> (55296 \<le> p \<and> p < 57344))"

lemma well_formed_append_utf16: "well_formed us \<Longrightarrow> scalar p \<Longrightarrow> well_formed (utf16 p @ us)"
  by (cases us) (auto simp: utf16_def scalar_def high_surrogate_def low_surrogate_def)

lemma scalar_three: "x < 16 \<Longrightarrow> y < 64 \<Longrightarrow> z < 64 \<Longrightarrow> (x = 13 \<Longrightarrow> y < 32) \<Longrightarrow> scalar (4096 * x + 64 * y + z)"
  by (cases "x \<le> 12"; cases "x = 13") (auto simp: scalar_def)

lemma scalar_four:
  "w < 5 \<Longrightarrow> x < 64 \<Longrightarrow> y < 64 \<Longrightarrow> z < 64 \<Longrightarrow> (w = 0 \<Longrightarrow> 16 \<le> x) \<Longrightarrow> (w = 4 \<Longrightarrow> x < 16) \<Longrightarrow>
    scalar (262144 * w + 4096 * x + 64 * y + z)"
  by (cases "w = 0"; cases "w = 4") (auto simp: scalar_def)

lemma utf8_take_scalar: "utf8_take b bs = (w, r) \<Longrightarrow> \<exists>p. scalar p \<and> w = utf16 p"
proof -
  define good where "good w = (\<exists>p. scalar p \<and> w = utf16 p)" for w
  have point: "good (utf16 p)" if "scalar p" for p using that by (auto simp: good_def)
  have byte: "good [b]" if "b < 128" using point[of b] that by (simp add: scalar_def utf16_def)
  have repl: "good replacement" using point[of 65533] by (simp add: scalar_def utf16_def replacement_def)
  have two: "scalar (64 * (b - 192) + (c - 128))" if "b < 224" "is_cont c" for c
    using that by (auto simp: scalar_def is_cont_def)
  have three: "scalar (4096 * (b - 224) + 64 * (c - 128) + (d - 128))"
    if "224 \<le> b" "b < 240" "is_cont c" "is_cont d" "b = 237 \<longrightarrow> c < 160" for c d
  proof -
    show ?thesis by (rule scalar_three) (use that in \<open>auto simp: is_cont_def\<close>)
  qed
  have four: "scalar (262144 * (b - 240) + 4096 * (c - 128) + 64 * (d - 128) + (e - 128))"
    if "240 \<le> b" "b < 245" "is_cont c" "is_cont d" "is_cont e" "b = 240 \<longrightarrow> 144 \<le> c" "b = 244 \<longrightarrow> c < 144" for c d e
  proof -
    show ?thesis by (rule scalar_four) (use that in \<open>auto simp: is_cont_def\<close>)
  qed
  have "good (fst (utf8_take b bs))"
    unfolding utf8_take_def by (simp add: repl byte point two three four split: list.split)
  moreover assume "utf8_take b bs = (w, r)"
  ultimately show ?thesis by (simp add: good_def)
qed

lemma utf8_take_well_formed: "utf8_take b bs = (w, r) \<Longrightarrow> well_formed us \<Longrightarrow> well_formed (w @ us)"
  using utf8_take_scalar well_formed_append_utf16 by blast

lemma well_formed_utf8_decode: "well_formed (utf8_decode bs)"
proof (induction bs rule: utf8_decode.induct)
  case 1
  then show ?case by simp
next
  case (2 b bs)
  then show ?case by (cases "utf8_take b bs") (auto intro: utf8_take_well_formed)
qed

text \<open>Form encoding: the bytes come back, and the two separators never occur in an encoded text.\<close>

lemma hex_digit_unit: "n < 16 \<Longrightarrow> hex_unit (hex_digit n) = Some n"
  by (auto simp: hex_digit_def hex_unit_def)

lemma hex_digit_not: "hex_digit n \<noteq> 38" "hex_digit n \<noteq> 43" "hex_digit n \<noteq> 61"
  by (auto simp: hex_digit_def)

lemma form_byte_decode:
  assumes "b < 256"
  shows "percent_decode (map (\<lambda>u. if u = 43 then 32 else u) (form_byte b) @ us) = b # percent_decode us"
proof -
  have plain: "percent_decode (c # vs) = c # percent_decode vs" if "c \<noteq> 37" for c vs
    using that by (cases vs; cases "tl vs") auto
  have hex: "hex_pair (hex_digit (b div 16)) (hex_digit (b mod 16)) = Some b"
    using assms by (simp add: hex_pair_def hex_digit_unit)
  show ?thesis
  proof (cases "b = 32 \<or> form_plain b")
    case True
    then show ?thesis using plain by (auto simp: form_byte_def form_plain_def)
  next
    case False
    then show ?thesis using hex by (simp add: form_byte_def hex_digit_not)
  qed
qed

lemma utf8_point_byte: "p < 1114112 \<Longrightarrow> b \<in> set (utf8_point p) \<Longrightarrow> b < 256"
  by (auto simp: utf8_point_def split: if_splits)

lemma utf8_encode_byte: "well_formed us \<Longrightarrow> b \<in> set (utf8_encode us) \<Longrightarrow> b < 256"
  by (induction us rule: well_formed.induct)
    (auto simp: high_surrogate_def low_surrogate_def split: if_splits dest!: utf8_point_byte[rotated])

lemma form_bytes_decode:
  "list_all (\<lambda>b. b < 256) bs \<Longrightarrow>
    percent_decode (map (\<lambda>u. if u = 43 then 32 else u) (concat (map form_byte bs))) = bs"
  by (induction bs) (simp_all add: form_byte_decode)

lemma form_decode_encode: "well_formed us \<Longrightarrow> form_decode (form_encode us) = us"
  using form_bytes_decode[of "utf8_encode us"] utf8_encode_byte[of us]
  by (simp add: form_decode_def form_encode_def utf8_round_trip list_all_iff)

lemma form_byte_clean: "u \<in> set (form_byte b) \<Longrightarrow> u \<noteq> 38 \<and> u \<noteq> 61"
  by (cases "b = 32 \<or> form_plain b") (auto simp: form_byte_def form_plain_def hex_digit_not)

lemma form_encode_clean: "u \<in> set (form_encode us) \<Longrightarrow> u \<noteq> 38 \<and> u \<noteq> 61"
  by (auto simp: form_encode_def dest: form_byte_clean)

lemma form_pair_serialized:
  assumes "well_formed k" "well_formed v"
  shows "form_pair (form_encode k @ 61 # form_encode v) = (k, v)"
proof -
  have "\<forall>u \<in> set (form_encode k). u \<noteq> 61" using form_encode_clean by auto
  then have "takeWhile (\<lambda>u. u \<noteq> 61) (form_encode k @ 61 # form_encode v) = form_encode k"
    "dropWhile (\<lambda>u. u \<noteq> 61) (form_encode k @ 61 # form_encode v) = 61 # form_encode v"
    by (simp_all add: takeWhile_append2 dropWhile_append2)
  then show ?thesis using assms by (simp add: form_pair_def form_decode_encode)
qed

lemma split_on_free: "x \<notin> set w \<Longrightarrow> split_on x w = [w]"
  by (induction w) auto

lemma split_on_append: "x \<notin> set w \<Longrightarrow> split_on x (w @ x # cs) = w # split_on x cs"
  by (induction w) (auto split: list.split)

lemma split_join: "ws \<noteq> [] \<Longrightarrow> \<forall>w \<in> set ws. x \<notin> set w \<Longrightarrow> split_on x (join_on x ws) = ws"
  by (induction x ws rule: join_on.induct) (auto simp: split_on_free split_on_append)

definition well_formed_pair :: "query_pair \<Rightarrow> bool" where
  "well_formed_pair kv = (well_formed (fst kv) \<and> well_formed (snd kv))"

lemma form_round_trip:
  assumes "list_all well_formed_pair ps" shows "form_parse (form_serialize ps) = ps"
proof (cases "ps = []")
  case True
  then show ?thesis by (simp add: form_parse_def form_serialize_def)
next
  case False
  let ?ws = "map (\<lambda>(k, v). form_encode k @ 61 # form_encode v) ps"
  have "\<forall>w \<in> set ?ws. 38 \<notin> set w \<and> w \<noteq> []" by (auto dest: form_encode_clean)
  then have "split_on 38 (join_on 38 ?ws) = ?ws" "filter (\<lambda>w. w \<noteq> []) ?ws = ?ws"
    using False by (auto intro!: split_join simp: filter_id_conv)
  moreover have "map form_pair ?ws = ps"
    using assms by (intro nth_equalityI) (auto simp: list_all_length well_formed_pair_def form_pair_serialized split: prod.split)
  ultimately show ?thesis by (simp only: form_parse_def form_serialize_def)
qed

lemma form_parse_well_formed: "list_all well_formed_pair (form_parse q)"
  by (auto simp: form_parse_def form_pair_def form_decode_def well_formed_pair_def list_all_iff well_formed_utf8_decode)

lemma form_byte_ascii:
  assumes "b < 256" "u \<in> set (form_byte b)" shows "u < 128"
proof -
  have "hex_digit (b div 16) < 128" "hex_digit (b mod 16) < 128" using assms(1) by (auto simp: hex_digit_def)
  then show ?thesis using assms(2) by (cases "b = 32 \<or> form_plain b") (auto simp: form_byte_def form_plain_def)
qed

lemma form_encode_ascii: "well_formed us \<Longrightarrow> u \<in> set (form_encode us) \<Longrightarrow> u < 128"
  by (auto simp: form_encode_def intro: form_byte_ascii utf8_encode_byte)

lemma set_join_on: "set (join_on x ws) \<subseteq> insert x (\<Union> (set ` set ws))"
  by (induction x ws rule: join_on.induct) auto

lemma form_serialize_ascii:
  assumes "list_all well_formed_pair ps" "u \<in> set (form_serialize ps)" shows "u < 128"
proof -
  let ?ws = "map (\<lambda>(k, v). form_encode k @ 61 # form_encode v) ps"
  have "u \<in> insert 38 (\<Union> (set ` set ?ws))" using assms(2) set_join_on[of 38 ?ws] unfolding form_serialize_def by blast
  then consider "u = 38" | k v where "(k, v) \<in> set ps" "u \<in> set (form_encode k @ 61 # form_encode v)" by auto
  then show ?thesis
  proof cases
    case 2
    then have "well_formed k" "well_formed v" using assms(1) by (auto simp: list_all_iff well_formed_pair_def)
    then show ?thesis using 2 form_encode_ascii by auto
  qed simp
qed

lemma search_params_set:
  assumes "list_all well_formed_pair ps" shows "search_params (set_params ps u) = ps"
proof -
  have "map code (map char_of (form_serialize ps)) = form_serialize ps"
    using form_serialize_ascii[OF assms] by (force intro: map_idI)
  then show ?thesis using form_round_trip[OF assms] by (simp add: search_params_def set_params_def to_units_def)
qed

lemma search_params_well_formed: "list_all well_formed_pair (search_params u)"
  by (simp add: search_params_def form_parse_well_formed split: option.split)

end
