(* ===== verification/Scope_Hosts.thy ===== *)
theory Scope_Hosts
  imports Url_Text "HOL-Library.Word"
begin

text \<open>
  The hosts of the scope engine (packages/scope-engine/src/index.ts): IPv4 and IPv6 literals, the
  class of the address a host name denotes, the canonical form of a host name, and the checks of a
  raw URL. \<open>domainToASCII\<close> is a parameter.
\<close>

unbundle bit_operations_syntax

section \<open>Address literals\<close>

datatype ip_class = IpPublic | IpLoopback | IpPrivate | IpLinkLocal | IpMulticast | IpReserved | IpUnspecified
  | IpInvalid | IpUnknownHostname

text \<open>\<open>s.split(sep)\<close> for a separator of two characters.\<close>

fun split_pair :: "char \<Rightarrow> char \<Rightarrow> string \<Rightarrow> string list" where
  "split_pair x y [] = [[]]"
| "split_pair x y [c] = [[c]]"
| "split_pair x y (c # d # s) =
     (if c = x \<and> d = y then [] # split_pair x y s
      else (case split_pair x y (d # s) of [] \<Rightarrow> [[c]] | w # ws \<Rightarrow> (c # w) # ws))"

definition ipv4_bytes :: "string \<Rightarrow> nat list option" where
  "ipv4_bytes host =
     (let parts = split_on (CHR ''.'') host in
      if length parts \<noteq> 4 \<or> list_ex (\<lambda>p. \<not> (1 \<le> length p \<and> length p \<le> 3 \<and> list_all is_digit p)) parts then None
      else (let bytes = map dec_value parts in if list_all (\<lambda>v. v \<le> 255) bytes then Some bytes else None))"

definition hex_value :: "string \<Rightarrow> nat" where
  "hex_value s = foldl (\<lambda>n c. 16 * n + (if is_digit c then code c - 48 else code c - 87)) 0 s"

definition lower_hex :: "char \<Rightarrow> bool" where
  "lower_hex c = (is_digit c \<or> (97 \<le> code c \<and> code c \<le> 102))"

text \<open>\<open>parseSide\<close>: the 16-bit words of the part of an IPv6 literal on one side of \<open>::\<close>.\<close>

definition side_words :: "string \<Rightarrow> nat list option" where
  "side_words part = (case ipv4_bytes part of
     Some [a, b, c, d] \<Rightarrow> Some [push_bit 8 a OR b, push_bit 8 c OR d]
   | _ \<Rightarrow> if 1 \<le> length part \<and> length part \<le> 4 \<and> list_all lower_hex part then Some [hex_value part] else None)"

fun parse_parts :: "string list \<Rightarrow> nat list option" where
  "parse_parts [] = Some []"
| "parse_parts (p # ps) = (case side_words p of
     None \<Rightarrow> None
   | Some ws \<Rightarrow> (case parse_parts ps of None \<Rightarrow> None | Some vs \<Rightarrow> Some (ws @ vs)))"

definition parse_side :: "string \<Rightarrow> nat list option" where
  "parse_side side = (if side = [] then Some [] else parse_parts (split_on (CHR '':'') side))"

definition ipv6_words :: "string \<Rightarrow> nat list option" where
  "ipv6_words host =
     (let raw = hd (split_on (CHR ''%'') (to_lower host)) in
      if CHR '':'' \<notin> set raw then None
      else (let halves = split_pair (CHR '':'') (CHR '':'') raw in
        if 2 < length halves then None
        else (case (parse_side (hd halves), parse_side (if length halves = 2 then halves ! 1 else [])) of
            (Some left, Some right) \<Rightarrow>
              if length halves = 1 then (if length left = 8 then Some left else None)
              else if length left + length right < 8
                then Some (left @ replicate (8 - length left - length right) 0 @ right) else None
          | _ \<Rightarrow> None)))"

section \<open>The class of an address\<close>

definition classify_v4 :: "nat \<Rightarrow> nat \<Rightarrow> nat \<Rightarrow> ip_class" where
  "classify_v4 a b c =
     (if a = 0 then IpUnspecified
      else if a = 127 then IpLoopback
      else if a = 10 \<or> (a = 172 \<and> 16 \<le> b \<and> b \<le> 31) \<or> (a = 192 \<and> b = 168) then IpPrivate
      else if a = 169 \<and> b = 254 then IpLinkLocal
      else if 224 \<le> a \<and> a \<le> 239 then IpMulticast
      else if 240 \<le> a \<or> (a = 192 \<and> b = 0 \<and> c = 2) \<or> (a = 198 \<and> b = 51 \<and> c = 100) \<or> (a = 203 \<and> b = 0 \<and> c = 113)
        then IpReserved
      else IpPublic)"

definition v4_class :: "nat list \<Rightarrow> ip_class" where
  "v4_class bytes = (case bytes of a # b # c # _ \<Rightarrow> classify_v4 a b c | _ \<Rightarrow> IpPublic)"

text \<open>An IPv4-mapped address is classified as the text of the address it embeds.\<close>

definition v6_class :: "nat list \<Rightarrow> ip_class" where
  "v6_class w =
     (if list_all (\<lambda>x. x = 0) w then IpUnspecified
      else if list_all (\<lambda>x. x = 0) (take 7 w) \<and> w ! 7 = 1 then IpLoopback
      else if w ! 0 AND 0xfe00 = 0xfc00 then IpPrivate
      else if w ! 0 AND 0xffc0 = 0xfe80 then IpLinkLocal
      else if w ! 0 AND 0xff00 = 0xff00 then IpMulticast
      else if w ! 0 = 0x2001 \<and> w ! 1 = 0x0db8 then IpReserved
      else if list_all (\<lambda>x. x = 0) (take 5 w) \<and> w ! 5 = 0xffff
        then classify_v4 (drop_bit 8 (w ! 6)) (w ! 6 AND 255) (drop_bit 8 (w ! 7))
      else IpPublic)"

text \<open>\<open>replace(/^\[|\]$/g, "")\<close>.\<close>

definition strip_brackets :: "string \<Rightarrow> string" where
  "strip_brackets s =
     (let s1 = (case s of c # r \<Rightarrow> if c = CHR ''['' then r else s | [] \<Rightarrow> [])
      in if s1 \<noteq> [] \<and> last s1 = CHR '']'' then butlast s1 else s1)"

definition classify_host :: "string \<Rightarrow> ip_class" where
  "classify_host name =
     (let host = to_lower (strip_brackets name) in
      case ipv4_bytes host of
        Some bytes \<Rightarrow> v4_class bytes
      | None \<Rightarrow> (case ipv6_words host of
          Some w \<Rightarrow> v6_class w
        | None \<Rightarrow> if CHR '':'' \<in> set host then IpInvalid else IpUnknownHostname))"

section \<open>Canonical hosts\<close>

text \<open>\<open>ScopeForeignError\<close> stands for every error that is not a \<open>ScopeEngineError\<close>.\<close>

datatype scope_error = PROFILE_INVALID | SCOPE_BATCH_LIMIT_EXCEEDED | ScopeForeignError

definition bare_host :: "string \<Rightarrow> string" where
  "bare_host s = (if starts_with s ''['' \<and> ends_with s '']'' then butlast (tl s) else s)"

definition drop_root_dot :: "string \<Rightarrow> string" where
  "drop_root_dot s = (if ends_with s ''.'' then butlast s else s)"

definition canonical_hostname :: "(string \<Rightarrow> string) \<Rightarrow> string \<Rightarrow> scope_error + string" where
  "canonical_hostname to_ascii value =
     (let bare = bare_host value in
      if CHR '':'' \<in> set bare
      then (if ipv6_words bare = None then Inl PROFILE_INVALID else Inr (to_lower bare))
      else (let ascii = to_lower (to_ascii (drop_root_dot bare)) in
            if ascii = [] then Inl PROFILE_INVALID else Inr ascii))"

section \<open>Raw URLs\<close>

datatype scope_reason = URL_ACCEPTED | URL_INVALID | URL_TOO_LONG | URL_CONTROL_CHARACTER | URL_BACKSLASH_CONFUSION
  | URL_INVALID_PERCENT_ENCODING | URL_CREDENTIALS_FORBIDDEN | SCHEME_NOT_ALLOWED | DOMAIN_DENIED | DOMAIN_NOT_ALLOWED
  | PATH_DENIED | PATH_NOT_ALLOWED | QUERY_DENIED | SENSITIVE_QUERY_REMOVED | DEPTH_LIMIT_REACHED | PAGE_LIMIT_REACHED
  | KNOWN_IDENTITY | PRIVATE_NETWORK_NOT_ALLOWED | PROFILE_AUTHORIZATION_INCOMPLETE | PROFILE_REVISION_MISMATCH
  | SENSITIVE_FRAGMENT_REMOVED | DEPTH_INVALID | PAGE_COUNT_INVALID

definition scope_url_length :: nat where [policy_defs]: "scope_url_length = 8192"

fun broken_escape :: "string \<Rightarrow> bool" where
  "broken_escape [] = False"
| "broken_escape (c # s) =
     (c = CHR ''%'' \<and> (case s of a # b # _ \<Rightarrow> \<not> (is_hex a \<and> is_hex b) | _ \<Rightarrow> True) \<or> broken_escape s)"

definition validate_raw_url :: "string \<Rightarrow> scope_reason option" where
  "validate_raw_url s =
     (if scope_url_length < length s then Some URL_TOO_LONG
      else if list_ex is_control s then Some URL_CONTROL_CHARACTER
      else if CHR 0x5C \<in> set s then Some URL_BACKSLASH_CONFUSION
      else if broken_escape s then Some URL_INVALID_PERCENT_ENCODING
      else None)"

definition upper_char :: "char \<Rightarrow> char" where
  "upper_char c = (if is_lower c then char_of (code c - 32) else c)"

fun uppercase_escapes :: "string \<Rightarrow> string" where
  "uppercase_escapes (c # a # b # s) =
     (if c = CHR ''%'' \<and> is_hex a \<and> is_hex b then c # upper_char a # upper_char b # uppercase_escapes s
      else c # uppercase_escapes (a # b # s))"
| "uppercase_escapes s = s"

end
