(* ===== verification/Scope_Profile.thy ===== *)
theory Scope_Profile
  imports Scope_Hosts Service_Worker
begin

text \<open>
  Site Profiles of packages/scope-engine/src/index.ts: the schema of a draft, its normalisation and
  the checks of its rules, and the profile parser. The URL parser, the host parser,
  \<open>domainToASCII\<close>, \<open>toLowerCase\<close> on arbitrary text, the public-suffix lookup, SHA-256
  and the UUID schema are the fields of \<open>scope_env\<close>. A draft has no login flow here.
\<close>

section \<open>Platform\<close>

record scope_env =
  se_parse :: "string \<Rightarrow> string option \<Rightarrow> url option"
  se_host :: "string \<Rightarrow> string option"
  se_ascii :: "string \<Rightarrow> string"
  se_lower :: "units \<Rightarrow> units"
  se_domain :: "string \<Rightarrow> string option"
  se_sha :: "string \<Rightarrow> string"
  se_uuid :: "string \<Rightarrow> bool"

text \<open>The setter \<open>url.hostname\<close>: a host that does not parse changes nothing.\<close>

definition set_hostname :: "scope_env \<Rightarrow> string \<Rightarrow> url \<Rightarrow> url" where
  "set_hostname E v u = (case se_host E v of None \<Rightarrow> u | Some h \<Rightarrow> u\<lparr>ur_hostname := h\<rparr>)"

definition bracketed :: "string \<Rightarrow> string" where
  "bracketed host = (if CHR '':'' \<in> set host then ''['' @ host @ '']'' else host)"

section \<open>Profiles\<close>

datatype rule_effect = EffAllow | EffDeny
datatype domain_match = HostExact | HostSubdomains
datatype path_match = PathExact | PathPrefix
datatype query_class = QIdentity | QFunctional | QTracking | QIgnored | QDenied
datatype fragment_policy = IgnoreAll | PreserveAll | PreserveHashRoutes
datatype auth_status = AuthIncomplete | AuthApproved
datatype external_canonical = ExternalIgnore | ExternalReject

record domain_rule =
  dm_ruleId :: string
  dm_effect :: rule_effect
  dm_match :: domain_match
  dm_hostname :: string
  dm_schemes :: "string list"
  dm_ports :: "int list"

record path_rule =
  pth_ruleId :: string
  pth_effect :: rule_effect
  pth_match :: path_match
  pth_path :: string

record query_rule =
  qr_key :: units
  qr_class :: query_class
  qr_sensitive :: bool

record site_authorization =
  au_status :: auth_status
  au_reference :: "string option"
  au_approvedBy :: "string list"
  au_approvedAt :: "string option"
  au_expiresAt :: "string option"

record site_limits =
  lm_maxDepth :: "int option"
  lm_maxPages :: "int option"
  lm_maxRedirects :: int
  lm_maxBatch :: int

record site_draft =
  sp_name :: string
  sp_baseUrl :: string
  sp_seedUrls :: "string list"
  sp_authorization :: site_authorization
  sp_domainRules :: "domain_rule list"
  sp_pathRules :: "path_rule list"
  sp_unknownQuery :: query_class
  sp_queryRules :: "query_rule list"
  sp_fragmentPolicy :: fragment_policy
  sp_allowExternal :: bool
  sp_allowDowngrade :: bool
  sp_canonicalExternal :: external_canonical
  sp_ipClasses :: "ip_class list"
  sp_serviceWorker :: "sw_candidate option"
  sp_limits :: site_limits

record site_profile = site_draft +
  sp_schemaVersion :: int
  sp_engineVersion :: int
  sp_profileId :: string
  sp_projectId :: string
  sp_revisionId :: string
  sp_sequence :: int
  sp_createdAt :: string
  sp_updatedAt :: string

section \<open>Schema\<close>

definition scope_seeds :: nat where [policy_defs]: "scope_seeds = 100"
definition scope_domain_rules :: nat where [policy_defs]: "scope_domain_rules = 200"
definition scope_path_rules :: nat where [policy_defs]: "scope_path_rules = 500"
definition scope_query_rules :: nat where [policy_defs]: "scope_query_rules = 500"
definition scope_batch :: nat where [policy_defs]: "scope_batch = 500"

definition sized :: "nat \<Rightarrow> nat \<Rightarrow> 'a list \<Rightarrow> bool" where
  "sized lo hi xs = (lo \<le> length xs \<and> length xs \<le> hi)"

definition scope_timestamp :: "string \<Rightarrow> bool" where
  "scope_timestamp s = (utc_pattern s \<and> date_parse s \<noteq> None)"

definition null_or :: "('a \<Rightarrow> bool) \<Rightarrow> 'a option \<Rightarrow> bool" where
  "null_or P v = (case v of None \<Rightarrow> True | Some x \<Rightarrow> P x)"

definition lower_alnum :: "char \<Rightarrow> bool" where
  "lower_alnum c = (is_lower c \<or> is_digit c)"

text \<open>\<open>/^[a-z0-9]+(?:[._-][a-z0-9]+)*$/\<close>: non-empty words between single separators.\<close>

definition rule_id_ok :: "string \<Rightarrow> bool" where
  "rule_id_ok s = (sized 1 80 s \<and> list_all (\<lambda>w. w \<noteq> [] \<and> list_all lower_alnum w)
     (split_on (CHR ''.'') (map (\<lambda>c. if c \<in> set ''_-'' then CHR ''.'' else c) s)))"

definition hostname_ok :: "string \<Rightarrow> bool" where
  "hostname_ok s = (sized 1 253 s \<and> list_all (\<lambda>c. lower_alnum c \<or> c \<in> set ''.:-'') s)"

definition domain_rule_ok :: "domain_rule \<Rightarrow> bool" where
  "domain_rule_ok r =
     (rule_id_ok (dm_ruleId r) \<and> hostname_ok (dm_hostname r) \<and>
      sized 1 2 (dm_schemes r) \<and> list_all (\<lambda>s. s = ''http'' \<or> s = ''https'') (dm_schemes r) \<and>
      sized 0 20 (dm_ports r) \<and> list_all (\<lambda>p. 1 \<le> p \<and> p \<le> 65535) (dm_ports r))"

definition path_rule_ok :: "path_rule \<Rightarrow> bool" where
  "path_rule_ok r = (rule_id_ok (pth_ruleId r) \<and> sized 1 2048 (pth_path r) \<and> starts_with (pth_path r) ''/'')"

definition query_rule_ok :: "query_rule \<Rightarrow> bool" where
  "query_rule_ok r = sized 1 128 (qr_key r)"

text \<open>An authorization reference is no host path and has no control character.\<close>

definition drive_path :: "string \<Rightarrow> bool" where
  "drive_path s = (case s of a # b # c # _ \<Rightarrow> (is_upper a \<or> is_lower a) \<and> b = CHR '':'' \<and> (c = CHR ''/'' \<or> c = CHR 0x5C) | _ \<Rightarrow> False)"

definition reference_ok :: "string \<Rightarrow> bool" where
  "reference_ok s = (sized 1 256 s \<and> \<not> drive_path s \<and> \<not> starts_with s ''/'' \<and> \<not> starts_with s [CHR 0x5C] \<and>
     list_all (\<lambda>c. 31 < code c) s)"

definition authorization_ok :: "site_authorization \<Rightarrow> bool" where
  "authorization_ok a =
     (null_or reference_ok (au_reference a) \<and> sized 0 20 (au_approvedBy a) \<and> list_all (sized 1 120) (au_approvedBy a) \<and>
      null_or scope_timestamp (au_approvedAt a) \<and> null_or scope_timestamp (au_expiresAt a))"

definition limits_ok :: "site_limits \<Rightarrow> bool" where
  "limits_ok l =
     (null_or (\<lambda>n. 0 \<le> n \<and> n \<le> 1000) (lm_maxDepth l) \<and> null_or (\<lambda>n. 0 \<le> n \<and> n \<le> 10000000) (lm_maxPages l) \<and>
      0 \<le> lm_maxRedirects l \<and> lm_maxRedirects l \<le> 20 \<and> 0 < lm_maxBatch l \<and> lm_maxBatch l \<le> int scope_batch)"

definition draft_ok :: "'a site_draft_scheme \<Rightarrow> bool" where
  "draft_ok d =
     (sized 1 120 (js_trim (sp_name d)) \<and> sized 1 scope_url_length (sp_baseUrl d) \<and>
      sized 1 scope_seeds (sp_seedUrls d) \<and> list_all (sized 1 scope_url_length) (sp_seedUrls d) \<and>
      authorization_ok (sp_authorization d) \<and>
      sized 1 scope_domain_rules (sp_domainRules d) \<and> list_all domain_rule_ok (sp_domainRules d) \<and>
      sized 0 scope_path_rules (sp_pathRules d) \<and> list_all path_rule_ok (sp_pathRules d) \<and>
      sp_unknownQuery d \<in> {QIdentity, QIgnored, QDenied} \<and>
      sized 0 scope_query_rules (sp_queryRules d) \<and> list_all query_rule_ok (sp_queryRules d) \<and>
      sized 0 7 (sp_ipClasses d) \<and> list_all (\<lambda>c. c \<noteq> IpInvalid \<and> c \<noteq> IpUnknownHostname) (sp_ipClasses d) \<and>
      null_or is_service_worker_policy (sp_serviceWorker d) \<and> limits_ok (sp_limits d))"

definition profile_ok :: "scope_env \<Rightarrow> 'a site_profile_scheme \<Rightarrow> bool" where
  "profile_ok E p =
     (sp_schemaVersion p = 1 \<and> sp_engineVersion p = 1 \<and>
      se_uuid E (sp_profileId p) \<and> se_uuid E (sp_projectId p) \<and> se_uuid E (sp_revisionId p) \<and>
      0 < sp_sequence p \<and> scope_timestamp (sp_createdAt p) \<and> scope_timestamp (sp_updatedAt p) \<and> draft_ok p)"

section \<open>Rules\<close>

definition effective_port :: "url \<Rightarrow> int" where
  "effective_port u = (if ur_port u = [] then (if ur_protocol u = ''https:'' then 443 else 80) else int (dec_value (ur_port u)))"

definition domain_matches :: "string \<Rightarrow> domain_rule \<Rightarrow> url \<Rightarrow> bool" where
  "domain_matches host r u =
     ((host = dm_hostname r \<or> (dm_match r = HostSubdomains \<and> ends_with host (CHR ''.'' # dm_hostname r))) \<and>
      butlast (ur_protocol u) \<in> set (dm_schemes r) \<and>
      (dm_ports r = [] \<or> effective_port u \<in> set (dm_ports r)))"

definition bare_prefix :: "string \<Rightarrow> string" where
  "bare_prefix path = (if ends_with path ''/'' then butlast path else path)"

definition path_matches :: "string \<Rightarrow> path_rule \<Rightarrow> bool" where
  "path_matches pathname r =
     (if pth_match r = PathExact then pathname = pth_path r
      else if pth_path r = ''/'' then True
      else pathname = bare_prefix (pth_path r) \<or> starts_with pathname (bare_prefix (pth_path r) @ ''/''))"

section \<open>Normalisation\<close>

definition normalize_seed :: "scope_env \<Rightarrow> string \<Rightarrow> scope_error + string" where
  "normalize_seed E v =
     ebind (ensure (validate_raw_url v = None) PROFILE_INVALID) (\<lambda>_.
     case se_parse E v None of
       None \<Rightarrow> Inl ScopeForeignError
     | Some u \<Rightarrow>
         ebind (ensure (is_http u \<and> ur_username u = [] \<and> ur_password u = []) PROFILE_INVALID) (\<lambda>_.
         ebind (canonical_hostname (se_ascii E) (ur_hostname u)) (\<lambda>host.
         Inr (href ((set_hostname E (bracketed host) u)\<lparr>ur_fragment := None\<rparr>)))))"

definition normalize_base_url :: "scope_env \<Rightarrow> string \<Rightarrow> scope_error + string" where
  "normalize_base_url E v =
     ebind (normalize_seed E v) (\<lambda>seed.
     case se_parse E seed None of
       None \<Rightarrow> Inl ScopeForeignError
     | Some u \<Rightarrow> Inr (href (u\<lparr>ur_query := None, ur_fragment := None\<rparr>)))"

definition canonical_path_rule :: "scope_env \<Rightarrow> string \<Rightarrow> scope_error + string" where
  "canonical_path_rule E v =
     ebind (ensure (list_all (\<lambda>c. c \<notin> {CHR ''?'', CHR ''#'', CHR 0x5C} \<and> 31 < code c) v) PROFILE_INVALID) (\<lambda>_.
     case se_parse E v (Some ''https://example.invalid'') of
       None \<Rightarrow> Inl ScopeForeignError
     | Some u \<Rightarrow> Inr (uppercase_escapes (ur_pathname u)))"

fun ip_text :: "ip_class \<Rightarrow> string" where
  "ip_text IpPublic = ''public''"
| "ip_text IpLoopback = ''loopback''"
| "ip_text IpPrivate = ''private''"
| "ip_text IpLinkLocal = ''link-local''"
| "ip_text IpMulticast = ''multicast''"
| "ip_text IpReserved = ''reserved''"
| "ip_text IpUnspecified = ''unspecified''"
| "ip_text IpInvalid = ''invalid''"
| "ip_text IpUnknownHostname = ''unknown-hostname''"

definition normalize_domain_rule :: "scope_env \<Rightarrow> domain_rule \<Rightarrow> scope_error + domain_rule" where
  "normalize_domain_rule E r =
     ebind (canonical_hostname (se_ascii E) (dm_hostname r)) (\<lambda>host.
     Inr (r\<lparr>dm_hostname := host, dm_schemes := sort (remdups (dm_schemes r)), dm_ports := sort (remdups (dm_ports r))\<rparr>))"

definition normalize_path_rule :: "scope_env \<Rightarrow> path_rule \<Rightarrow> scope_error + path_rule" where
  "normalize_path_rule E r = ebind (canonical_path_rule E (pth_path r)) (\<lambda>path. Inr (r\<lparr>pth_path := path\<rparr>))"

definition normalize_authorization :: "site_authorization \<Rightarrow> site_authorization" where
  "normalize_authorization a = a\<lparr>au_approvedBy := sort (remdups (map js_trim (au_approvedBy a)))\<rparr>"

text \<open>The object literal of \<open>normalizeSiteProfileDraft\<close>, its fields in the order they are evaluated.\<close>

definition normalized_draft :: "scope_env \<Rightarrow> 'a site_draft_scheme \<Rightarrow> scope_error + 'a site_draft_scheme" where
  "normalized_draft E d =
     ebind (normalize_base_url E (sp_baseUrl d)) (\<lambda>base.
     ebind (emap (normalize_seed E) (sp_seedUrls d)) (\<lambda>seeds.
     ebind (emap (normalize_domain_rule E) (sp_domainRules d)) (\<lambda>domains.
     ebind (emap (normalize_path_rule E) (sp_pathRules d)) (\<lambda>paths.
     case normalize_sw_policy (sp_serviceWorker d) of
       Inl _ \<Rightarrow> Inl ScopeForeignError
     | Inr sw \<Rightarrow> Inr (d\<lparr>
         sp_name := js_trim (sp_name d), sp_baseUrl := base, sp_seedUrls := sort (remdups seeds),
         sp_authorization := normalize_authorization (sp_authorization d),
         sp_domainRules := sort_key dm_ruleId domains, sp_pathRules := sort_key pth_ruleId paths,
         sp_queryRules := sort_key qr_key (map (\<lambda>r. r\<lparr>qr_key := se_lower E (qr_key r)\<rparr>) (sp_queryRules d)),
         sp_ipClasses := sort_key ip_text (remdups (sp_ipClasses d)), sp_serviceWorker := Some sw\<rparr>)))))"

section \<open>Checks of a normalised draft\<close>

fun effect_text :: "rule_effect \<Rightarrow> string" where
  "effect_text EffAllow = ''allow''"
| "effect_text EffDeny = ''deny''"

definition opposite :: "rule_effect \<Rightarrow> rule_effect" where
  "opposite e = (if e = EffAllow then EffDeny else EffAllow)"

fun domain_match_text :: "domain_match \<Rightarrow> string" where
  "domain_match_text HostExact = ''exact''"
| "domain_match_text HostSubdomains = ''subdomains''"

fun path_match_text :: "path_match \<Rightarrow> string" where
  "path_match_text PathExact = ''exact''"
| "path_match_text PathPrefix = ''prefix''"

definition domain_key :: "domain_rule \<Rightarrow> string" where
  "domain_key r = domain_match_text (dm_match r) @ '':'' @ dm_hostname r @ '':'' @
     join_on (CHR '','') (dm_schemes r) @ '':'' @ join_on (CHR '','') (map show_int (dm_ports r))"

definition path_key :: "path_rule \<Rightarrow> string" where
  "path_key r = path_match_text (pth_match r) @ '':'' @
     (if pth_match r = PathPrefix \<and> pth_path r \<noteq> ''/'' \<and> ends_with (pth_path r) ''/'' then butlast (pth_path r) else pth_path r)"

text \<open>The two loops that look for an equivalent rule of the same or of the opposite effect.\<close>

fun rules_clash :: "('r \<Rightarrow> string) \<Rightarrow> ('r \<Rightarrow> rule_effect) \<Rightarrow> string list \<Rightarrow> 'r list \<Rightarrow> bool" where
  "rules_clash key eff seen [] = False"
| "rules_clash key eff seen (r # rs) =
     (key r @ '':'' @ effect_text (eff r) \<in> set seen \<or> key r @ '':'' @ effect_text (opposite (eff r)) \<in> set seen \<or>
      rules_clash key eff ((key r @ '':'' @ effect_text (eff r)) # seen) rs)"

definition approval_ok :: "site_authorization \<Rightarrow> bool" where
  "approval_ok a =
     ((au_status a = AuthApproved \<longrightarrow> au_reference a \<noteq> None \<and> au_approvedBy a \<noteq> [] \<and> au_approvedAt a \<noteq> None) \<and>
      (case (au_approvedAt a, au_expiresAt a) of
         (Some from, Some until) \<Rightarrow> (case (date_parse from, date_parse until) of (Some f, Some u) \<Rightarrow> f < u | _ \<Rightarrow> True)
       | _ \<Rightarrow> True))"

definition effect_is :: "rule_effect \<Rightarrow> domain_rule \<Rightarrow> bool" where
  "effect_is e r = (dm_effect r = e)"

definition path_effect_is :: "rule_effect \<Rightarrow> path_rule \<Rightarrow> bool" where
  "path_effect_is e r = (pth_effect r = e)"

text \<open>Is a URL, whose canonical host is \<open>host\<close>, let through by the domain and path rules?\<close>

definition rules_admit :: "'a site_draft_scheme \<Rightarrow> string \<Rightarrow> url \<Rightarrow> bool" where
  "rules_admit d host u =
     (\<not> list_ex (\<lambda>r. effect_is EffDeny r \<and> domain_matches host r u) (sp_domainRules d) \<and>
      list_ex (\<lambda>r. effect_is EffAllow r \<and> domain_matches host r u) (sp_domainRules d) \<and>
      \<not> list_ex (\<lambda>r. path_effect_is EffDeny r \<and> path_matches (ur_pathname u) r) (sp_pathRules d) \<and>
      (filter (path_effect_is EffAllow) (sp_pathRules d) = [] \<or>
       list_ex (path_matches (ur_pathname u)) (filter (path_effect_is EffAllow) (sp_pathRules d))))"

definition check_candidate :: "scope_env \<Rightarrow> 'a site_draft_scheme \<Rightarrow> string \<Rightarrow> scope_error + unit" where
  "check_candidate E d v = (case se_parse E v None of
     None \<Rightarrow> Inl ScopeForeignError
   | Some u \<Rightarrow> ebind (canonical_hostname (se_ascii E) (ur_hostname u)) (\<lambda>host.
       ensure (rules_admit d host u) PROFILE_INVALID))"

definition check_draft :: "scope_env \<Rightarrow> 'a site_draft_scheme \<Rightarrow> scope_error + unit" where
  "check_draft E n =
     ebind (ensure (distinct (map dm_ruleId (sp_domainRules n)) \<and> distinct (map pth_ruleId (sp_pathRules n)) \<and>
       distinct (map qr_key (sp_queryRules n)) \<and> \<not> rules_clash domain_key dm_effect [] (sp_domainRules n) \<and>
       \<not> rules_clash path_key pth_effect [] (sp_pathRules n) \<and> approval_ok (sp_authorization n)) PROFILE_INVALID) (\<lambda>_.
     ebind (emap (check_candidate E n) (sp_baseUrl n # sp_seedUrls n)) (\<lambda>_. Inr ()))"

definition normalize_site_draft :: "scope_env \<Rightarrow> 'a site_draft_scheme \<Rightarrow> scope_error + 'a site_draft_scheme" where
  "normalize_site_draft E d =
     ebind (ensure (draft_ok d) PROFILE_INVALID) (\<lambda>_.
     ebind (normalized_draft E d) (\<lambda>n.
     ebind (check_draft E n) (\<lambda>_.
     ebind (ensure (draft_ok n) ScopeForeignError) (\<lambda>_. Inr n))))"

section \<open>Profiles\<close>

definition parse_site_profile :: "scope_env \<Rightarrow> site_profile \<Rightarrow> scope_error + site_profile" where
  "parse_site_profile E p =
     ebind (ensure (profile_ok E p) PROFILE_INVALID) (\<lambda>_.
     ebind (normalize_site_draft E p) (\<lambda>n.
     ebind (ensure (profile_ok E n) ScopeForeignError) (\<lambda>_. Inr n)))"

record profile_validation =
  pv_valid :: bool
  pv_errors :: "scope_error list"
  pv_warnings :: "scope_reason list"

definition validate_site_profile :: "scope_env \<Rightarrow> site_profile \<Rightarrow> profile_validation" where
  "validate_site_profile E v = (case parse_site_profile E v of
     Inr p \<Rightarrow> \<lparr>pv_valid = True, pv_errors = [], pv_warnings =
       (if au_status (sp_authorization p) = AuthIncomplete then [PROFILE_AUTHORIZATION_INCOMPLETE] else [])\<rparr>
   | Inl e \<Rightarrow> \<lparr>pv_valid = False, pv_errors = [if e = ScopeForeignError then PROFILE_INVALID else e], pv_warnings = []\<rparr>)"

definition tracking_keys :: "string list" where [policy_defs]:
  "tracking_keys = [''fbclid'', ''gclid'', ''mc_cid'', ''mc_eid'', ''utm_campaign'', ''utm_content'', ''utm_medium'',
     ''utm_source'', ''utm_term'']"

definition sensitive_keys :: "string list" where [policy_defs]:
  "sensitive_keys = [''access_token'', ''api_key'', ''apikey'', ''auth'', ''code'', ''password'', ''secret'', ''session'', ''token'']"

definition default_draft :: "string \<Rightarrow> url \<Rightarrow> site_draft" where
  "default_draft name seed = \<lparr>
     sp_name = name, sp_baseUrl = href seed, sp_seedUrls = [href seed],
     sp_authorization = \<lparr>au_status = AuthIncomplete, au_reference = None, au_approvedBy = [], au_approvedAt = None,
       au_expiresAt = None\<rparr>,
     sp_domainRules = [\<lparr>dm_ruleId = ''seed-host'', dm_effect = EffAllow, dm_match = HostExact, dm_hostname = ur_hostname seed,
       dm_schemes = [butlast (ur_protocol seed)],
       dm_ports = (if ur_port seed = [] then [] else [int (dec_value (ur_port seed))])\<rparr>],
     sp_pathRules = [], sp_unknownQuery = QIdentity,
     sp_queryRules =
       map (\<lambda>k. \<lparr>qr_key = to_units k, qr_class = QTracking, qr_sensitive = False\<rparr>) tracking_keys @
       map (\<lambda>k. \<lparr>qr_key = to_units k, qr_class = QIgnored, qr_sensitive = True\<rparr>) sensitive_keys,
     sp_fragmentPolicy = IgnoreAll, sp_allowExternal = False, sp_allowDowngrade = False,
     sp_canonicalExternal = ExternalIgnore, sp_ipClasses = [IpPublic], sp_serviceWorker = None,
     sp_limits = \<lparr>lm_maxDepth = Some 10, lm_maxPages = Some 100000, lm_maxRedirects = 10, lm_maxBatch = 100\<rparr>\<rparr>"

definition create_default_draft :: "scope_env \<Rightarrow> string \<Rightarrow> string \<Rightarrow> scope_error + site_draft" where
  "create_default_draft E name seedUrl =
     ebind (normalize_seed E seedUrl) (\<lambda>s.
     case se_parse E s None of
       None \<Rightarrow> Inl ScopeForeignError
     | Some seed \<Rightarrow> normalize_site_draft E (default_draft name seed))"

end
