(* ===== verification/Scope_Engine.thy ===== *)
theory Scope_Engine
  imports Scope_Profile
begin

text \<open>
  The decisions of packages/scope-engine/src/index.ts: \<open>evaluateScope\<close> and its batch form,
  \<open>classifyCanonical\<close> and \<open>classifyRedirect\<close>. SHA-256 is applied to the UTF-8 bytes of
  its text, which the model writes as characters.
\<close>

section \<open>Inputs and decisions\<close>

record scope_input =
  si_rawUrl :: "string option"
  si_url :: "string option"
  si_sourceUrl :: "string option"
  si_baseUrl :: "string option"
  si_sourceDepth :: "jsnum option"
  si_depth :: "jsnum option"
  si_discoveryType :: "string option"
  si_profileRevision :: "string option"
  si_eligibleCount :: "jsnum option"
  si_knownHashes :: "string list"

definition no_input :: scope_input where
  "no_input = \<lparr>si_rawUrl = None, si_url = None, si_sourceUrl = None, si_baseUrl = None, si_sourceDepth = None,
     si_depth = None, si_discoveryType = None, si_profileRevision = None, si_eligibleCount = None, si_knownHashes = []\<rparr>"

datatype site_relation = SameOrigin | SameHost | SameRegistrableDomain | RelExternal | RelUnknown
datatype rule_type = RuleDomain | RulePath | RuleQuery

record matched_rule =
  mr_ruleId :: units
  mr_type :: rule_type
  mr_action :: string
  mr_match :: string

record scope_decision =
  dn_decisionId :: string
  dn_profileId :: string
  dn_revisionId :: string
  dn_eligible :: bool
  dn_shouldQueue :: bool
  dn_reasons :: "scope_reason list"
  dn_normalizedUrl :: "string option"
  dn_identityUrl :: "string option"
  dn_identityHash :: "string option"
  dn_displayUrl :: "string option"
  dn_matched :: "matched_rule list"
  dn_depth :: int
  dn_hostClass :: ip_class
  dn_networkAuthorized :: bool
  dn_preflight :: bool
  dn_relation :: site_relation
  dn_identityKeys :: "units list"
  dn_omittedKeys :: "units list"
  dn_deniedKeys :: "units list"

definition dn_matchedIds :: "scope_decision \<Rightarrow> units list" where
  "dn_matchedIds d = map mr_ruleId (dn_matched d)"

fun reason_text :: "scope_reason \<Rightarrow> string" where
  "reason_text URL_ACCEPTED = ''URL_ACCEPTED''"
| "reason_text URL_INVALID = ''URL_INVALID''"
| "reason_text URL_TOO_LONG = ''URL_TOO_LONG''"
| "reason_text URL_CONTROL_CHARACTER = ''URL_CONTROL_CHARACTER''"
| "reason_text URL_BACKSLASH_CONFUSION = ''URL_BACKSLASH_CONFUSION''"
| "reason_text URL_INVALID_PERCENT_ENCODING = ''URL_INVALID_PERCENT_ENCODING''"
| "reason_text URL_CREDENTIALS_FORBIDDEN = ''URL_CREDENTIALS_FORBIDDEN''"
| "reason_text SCHEME_NOT_ALLOWED = ''SCHEME_NOT_ALLOWED''"
| "reason_text DOMAIN_DENIED = ''DOMAIN_DENIED''"
| "reason_text DOMAIN_NOT_ALLOWED = ''DOMAIN_NOT_ALLOWED''"
| "reason_text PATH_DENIED = ''PATH_DENIED''"
| "reason_text PATH_NOT_ALLOWED = ''PATH_NOT_ALLOWED''"
| "reason_text QUERY_DENIED = ''QUERY_DENIED''"
| "reason_text SENSITIVE_QUERY_REMOVED = ''SENSITIVE_QUERY_REMOVED''"
| "reason_text DEPTH_LIMIT_REACHED = ''DEPTH_LIMIT_REACHED''"
| "reason_text PAGE_LIMIT_REACHED = ''PAGE_LIMIT_REACHED''"
| "reason_text KNOWN_IDENTITY = ''KNOWN_IDENTITY''"
| "reason_text PRIVATE_NETWORK_NOT_ALLOWED = ''PRIVATE_NETWORK_NOT_ALLOWED''"
| "reason_text PROFILE_AUTHORIZATION_INCOMPLETE = ''PROFILE_AUTHORIZATION_INCOMPLETE''"
| "reason_text PROFILE_REVISION_MISMATCH = ''PROFILE_REVISION_MISMATCH''"
| "reason_text SENSITIVE_FRAGMENT_REMOVED = ''SENSITIVE_FRAGMENT_REMOVED''"
| "reason_text DEPTH_INVALID = ''DEPTH_INVALID''"
| "reason_text PAGE_COUNT_INVALID = ''PAGE_COUNT_INVALID''"

definition safe_failure :: "scope_env \<Rightarrow> site_profile \<Rightarrow> int \<Rightarrow> scope_reason \<Rightarrow> scope_decision" where
  "safe_failure E p depth c = \<lparr>
     dn_decisionId = se_sha E (''1|'' @ sp_profileId p @ ''|'' @ sp_revisionId p @ ''|'' @ reason_text c @ ''|'' @ show_int depth),
     dn_profileId = sp_profileId p, dn_revisionId = sp_revisionId p, dn_eligible = False, dn_shouldQueue = False,
     dn_reasons = [c], dn_normalizedUrl = None, dn_identityUrl = None, dn_identityHash = None, dn_displayUrl = None,
     dn_matched = [], dn_depth = depth, dn_hostClass = IpInvalid, dn_networkAuthorized = False, dn_preflight = True,
     dn_relation = RelUnknown, dn_identityKeys = [], dn_omittedKeys = [], dn_deniedKeys = []\<rparr>"

section \<open>Rules\<close>

text \<open>What a block of \<open>evaluateScope\<close> adds: matched rules, reasons, and whether the URL stays eligible.\<close>

type_synonym verdict = "matched_rule list \<times> scope_reason list \<times> bool"

definition domain_hit :: "domain_rule \<Rightarrow> matched_rule" where
  "domain_hit r = \<lparr>mr_ruleId = to_units (dm_ruleId r), mr_type = RuleDomain, mr_action = effect_text (dm_effect r),
     mr_match = domain_match_text (dm_match r)\<rparr>"

definition path_hit :: "path_rule \<Rightarrow> matched_rule" where
  "path_hit r = \<lparr>mr_ruleId = to_units (pth_ruleId r), mr_type = RulePath, mr_action = effect_text (pth_effect r),
     mr_match = path_match_text (pth_match r)\<rparr>"

definition domain_verdict :: "'a site_draft_scheme \<Rightarrow> string \<Rightarrow> url \<Rightarrow> verdict" where
  "domain_verdict p host u =
     (case find (\<lambda>r. effect_is EffDeny r \<and> domain_matches host r u) (sp_domainRules p) of
        Some r \<Rightarrow> ([domain_hit r], [DOMAIN_DENIED], False)
      | None \<Rightarrow> (case find (\<lambda>r. effect_is EffAllow r \<and> domain_matches host r u) (sp_domainRules p) of
          None \<Rightarrow> ([], [DOMAIN_NOT_ALLOWED], False)
        | Some r \<Rightarrow> ([domain_hit r], [], True)))"

definition path_verdict :: "'a site_draft_scheme \<Rightarrow> url \<Rightarrow> verdict" where
  "path_verdict p u =
     (let allows = filter (path_effect_is EffAllow) (sp_pathRules p);
          allowed = find (path_matches (ur_pathname u)) allows
      in case find (\<lambda>r. path_effect_is EffDeny r \<and> path_matches (ur_pathname u) r) (sp_pathRules p) of
        Some r \<Rightarrow> ([path_hit r], [PATH_DENIED], False)
      | None \<Rightarrow> if allows \<noteq> [] \<and> allowed = None then ([], [PATH_NOT_ALLOWED], False)
          else (case allowed of Some r \<Rightarrow> ([path_hit r], [], True) | None \<Rightarrow> ([], [], True)))"

section \<open>The query\<close>

fun class_text :: "query_class \<Rightarrow> string" where
  "class_text QIdentity = ''identity''"
| "class_text QFunctional = ''functional''"
| "class_text QTracking = ''tracking''"
| "class_text QIgnored = ''ignored''"
| "class_text QDenied = ''denied''"

text \<open>\<open>ruleMap.get(key)\<close>: the last rule of a key wins in \<open>new Map(entries)\<close>.\<close>

definition query_rule_of :: "'a site_draft_scheme \<Rightarrow> units \<Rightarrow> query_rule option" where
  "query_rule_of p key = find (\<lambda>r. qr_key r = key) (rev (sp_queryRules p))"

definition query_hit :: "query_rule \<Rightarrow> matched_rule" where
  "query_hit r = \<lparr>mr_ruleId = qr_key r, mr_type = RuleQuery, mr_action = class_text (qr_class r), mr_match = ''key''\<rparr>"

text \<open>The variables of the loop over \<open>url.searchParams\<close>; the key sets keep their insertion order.\<close>

record query_state =
  qs_normalized :: "query_pair list"
  qs_identity :: "query_pair list"
  qs_identityKeys :: "units list"
  qs_omittedKeys :: "units list"
  qs_deniedKeys :: "units list"
  qs_matchedKeys :: "units list"
  qs_hits :: "matched_rule list"
  qs_reasons :: "scope_reason list"
  qs_eligible :: bool

definition query_start :: query_state where
  "query_start = \<lparr>qs_normalized = [], qs_identity = [], qs_identityKeys = [], qs_omittedKeys = [], qs_deniedKeys = [],
     qs_matchedKeys = [], qs_hits = [], qs_reasons = [], qs_eligible = True\<rparr>"

definition set_add :: "'a \<Rightarrow> 'a list \<Rightarrow> 'a list" where
  "set_add x xs = (if x \<in> set xs then xs else xs @ [x])"

definition query_step :: "scope_env \<Rightarrow> 'a site_draft_scheme \<Rightarrow> query_pair \<Rightarrow> query_state \<Rightarrow> query_state" where
  "query_step E p kv st =
     (let key = se_lower E (fst kv);
          rule = query_rule_of p key;
          class = (case rule of Some r \<Rightarrow> qr_class r | None \<Rightarrow> sp_unknownQuery p);
          sensitive = (case rule of Some r \<Rightarrow> qr_sensitive r | None \<Rightarrow> False);
          st1 = (case rule of
              Some r \<Rightarrow> if qr_key r \<in> set (qs_matchedKeys st) then st
                else st\<lparr>qs_matchedKeys := qs_matchedKeys st @ [qr_key r], qs_hits := qs_hits st @ [query_hit r]\<rparr>
            | None \<Rightarrow> st);
          st2 = (if sensitive
              then st1\<lparr>qs_omittedKeys := set_add key (qs_omittedKeys st1), qs_reasons := qs_reasons st1 @ [SENSITIVE_QUERY_REMOVED]\<rparr>
              else st1\<lparr>qs_normalized := qs_normalized st1 @ [kv]\<rparr>)
      in if class = QDenied
           then st2\<lparr>qs_deniedKeys := set_add key (qs_deniedKeys st2), qs_reasons := qs_reasons st2 @ [QUERY_DENIED],
                    qs_eligible := False\<rparr>
         else if sensitive then st2
         else if class = QTracking \<or> class = QIgnored then st2\<lparr>qs_omittedKeys := set_add key (qs_omittedKeys st2)\<rparr>
         else st2\<lparr>qs_identity := qs_identity st2 @ [kv], qs_identityKeys := set_add key (qs_identityKeys st2)\<rparr>)"

definition query_scan :: "scope_env \<Rightarrow> 'a site_draft_scheme \<Rightarrow> query_pair list \<Rightarrow> query_state" where
  "query_scan E p pairs = fold (query_step E p) pairs query_start"

text \<open>
  \<open>sortPairs\<close>: by key, then by value, then by the position in the query. The positions of the
  pairs of either list grow, so the position is what a stable sort by key and value keeps.
\<close>

definition sort_pairs :: "query_pair list \<Rightarrow> query_pair list" where
  "sort_pairs ps = sort_key (\<lambda>kv. kv) ps"

section \<open>The fragment\<close>

definition fragment_words :: "string list" where [policy_defs]:
  "fragment_words = [''access_token'', ''api_key'', ''apikey'', ''auth'', ''code'', ''password'', ''secret'', ''session'', ''token'']"

text \<open>
  \<open>/(?:^|[?&;/#])(?:access_token|...|token)=/i\<close>: one of the words and \<open>=\<close>, at the start
  or after one of the signs.
\<close>

definition word_here :: "units \<Rightarrow> bool" where
  "word_here us = list_ex (\<lambda>w. take (length w + 1) (map ascii_lower us) = to_units w @ [61]) fragment_words"

fun word_after_sign :: "units \<Rightarrow> bool" where
  "word_after_sign [] = False"
| "word_after_sign (u # us) = ((u \<in> {63, 38, 59, 47, 35} \<and> word_here us) \<or> word_after_sign us)"

definition has_sensitive_word :: "units \<Rightarrow> bool" where
  "has_sensitive_word us = (word_here us \<or> word_after_sign us)"

definition decoded_fragment :: "string \<Rightarrow> units" where
  "decoded_fragment fragment = (case decode_uri (to_units fragment) of Some us \<Rightarrow> us | None \<Rightarrow> to_units fragment)"

definition sensitive_fragment :: "string \<Rightarrow> bool" where
  "sensitive_fragment fragment = has_sensitive_word (decoded_fragment fragment)"

definition preserve_fragment :: "'a site_draft_scheme \<Rightarrow> string \<Rightarrow> bool" where
  "preserve_fragment p fragment =
     (\<not> sensitive_fragment fragment \<and>
      (sp_fragmentPolicy p = PreserveAll \<or> (sp_fragmentPolicy p = PreserveHashRoutes \<and> starts_with fragment ''#/'')))"

section \<open>The relation to the seeds\<close>

fun relation_loop :: "scope_env \<Rightarrow> url \<Rightarrow> bool \<Rightarrow> bool \<Rightarrow> string list \<Rightarrow> scope_error + site_relation" where
  "relation_loop E u sameHost sameDomain [] =
     Inr (if sameHost then SameHost else if sameDomain then SameRegistrableDomain else RelExternal)"
| "relation_loop E u sameHost sameDomain (seed # seeds) = (case se_parse E seed None of
     None \<Rightarrow> Inl ScopeForeignError
   | Some c \<Rightarrow>
       if origin_of c = origin_of u then Inr SameOrigin
       else relation_loop E u (sameHost \<or> ur_hostname c = ur_hostname u)
              (sameDomain \<or> (se_domain E (ur_hostname u) \<noteq> None \<and>
                 se_domain E (ur_hostname c) = se_domain E (ur_hostname u))) seeds)"

definition relation_to_seeds :: "scope_env \<Rightarrow> url \<Rightarrow> string list \<Rightarrow> scope_error + site_relation" where
  "relation_to_seeds E u seeds = relation_loop E u False False seeds"

section \<open>Evaluation\<close>

definition first_some :: "'a option \<Rightarrow> 'a option \<Rightarrow> 'a option" where
  "first_some a b = (case a of None \<Rightarrow> b | Some x \<Rightarrow> Some x)"

text \<open>The requested depth, \<open>None\<close> when it is no safe integer from 0 to 1001.\<close>

definition requested_depth :: "scope_input \<Rightarrow> int option" where
  "requested_depth i = (case first_some (si_sourceDepth i) (si_depth i) of
     None \<Rightarrow> Some 0 | Some n \<Rightarrow> bounded_safe_int 0 1001 n)"

definition eligible_count :: "scope_input \<Rightarrow> int option" where
  "eligible_count i = (case si_eligibleCount i of None \<Rightarrow> Some 0 | Some n \<Rightarrow> bounded_safe_int 0 10000000 n)"

text \<open>The URL an input names, with its canonical host, or the reason \<open>safeFailure\<close> gives.\<close>

definition resolve_url :: "scope_env \<Rightarrow> site_profile \<Rightarrow> scope_input \<Rightarrow> scope_reason + string \<times> url" where
  "resolve_url E p i =
     (case (si_rawUrl i, si_url i) of
        (Some _, Some _) \<Rightarrow> Inl URL_INVALID
      | (None, None) \<Rightarrow> Inl URL_INVALID
      | (raw, other) \<Rightarrow> (case first_some raw other of
          None \<Rightarrow> Inl URL_INVALID
        | Some rawUrl \<Rightarrow> (case validate_raw_url rawUrl of
            Some failure \<Rightarrow> Inl failure
          | None \<Rightarrow>
              (case se_parse E rawUrl (first_some (si_sourceUrl i) (first_some (si_baseUrl i) (Some (sp_baseUrl p)))) of
                None \<Rightarrow> Inl URL_INVALID
              | Some u \<Rightarrow>
                  if \<not> is_http u then Inl SCHEME_NOT_ALLOWED
                  else if ur_username u \<noteq> [] \<or> ur_password u \<noteq> [] then Inl URL_CREDENTIALS_FORBIDDEN
                  else (case canonical_hostname (se_ascii E) (ur_hostname u) of
                      Inl _ \<Rightarrow> Inl URL_INVALID
                    | Inr host \<Rightarrow> Inr (host, (set_hostname E (bracketed host) u)\<lparr>ur_pathname := uppercase_escapes (ur_pathname u)\<rparr>))))))"

definition drop_hash :: "bool \<Rightarrow> url \<Rightarrow> url" where
  "drop_hash keep u = (if keep then u else u\<lparr>ur_fragment := None\<rparr>)"

definition normalized_url :: "scope_env \<Rightarrow> 'a site_draft_scheme \<Rightarrow> url \<Rightarrow> url" where
  "normalized_url E p u = drop_hash (preserve_fragment p (hash_of u))
     (set_params (sort_pairs (qs_normalized (query_scan E p (search_params u)))) u)"

definition identity_url :: "scope_env \<Rightarrow> 'a site_draft_scheme \<Rightarrow> url \<Rightarrow> url" where
  "identity_url E p u = drop_hash (preserve_fragment p (hash_of u))
     (set_params (sort_pairs (qs_identity (query_scan E p (search_params u)))) u)"

text \<open>\<open>sha256(`scope-identity-v1\n${identityUrl}`)\<close>\<close>

definition identity_hash :: "scope_env \<Rightarrow> string \<Rightarrow> string" where
  "identity_hash E t = se_sha E (''scope-identity-v1'' @ [CHR 0x0A] @ t)"

definition ip_authorized :: "'a site_draft_scheme \<Rightarrow> ip_class \<Rightarrow> bool" where
  "ip_authorized p c = (c = IpUnknownHostname \<or> c = IpPublic \<or> c \<in> set (sp_ipClasses p))"

text \<open>\<open>[...new Set(xs)]\<close>: the first occurrence of every element.\<close>

definition js_set :: "'a list \<Rightarrow> 'a list" where
  "js_set xs = rev (remdups (rev xs))"

definition utf8_text :: "units \<Rightarrow> string" where
  "utf8_text us = map char_of (utf8_encode us)"

text \<open>A reason that is given under a condition.\<close>

definition reason_if :: "bool \<Rightarrow> scope_reason \<Rightarrow> scope_reason list" where
  "reason_if b r = (if b then [r] else [])"

definition decision_basis :: "site_profile \<Rightarrow> scope_input \<Rightarrow> string \<Rightarrow> string \<Rightarrow> int \<Rightarrow> int \<Rightarrow> bool \<Rightarrow> scope_reason list \<Rightarrow>
    matched_rule list \<Rightarrow> json" where
  "decision_basis p i normal ident depth pages known reasons matched = JObj [
     (''engineVersion'', JNum 1), (''profileId'', JStr (sp_profileId p)), (''revisionId'', JStr (sp_revisionId p)),
     (''normalizedUrl'', JStr normal), (''identityUrl'', JStr ident), (''depth'', JNum depth),
     (''discoveryType'', JStr (case si_discoveryType i of None \<Rightarrow> ''manual'' | Some t \<Rightarrow> t)),
     (''currentEligibleCount'', JNum pages), (''known'', JBool known),
     (''reasons'', JArr (map (\<lambda>r. JStr (reason_text r)) reasons)),
     (''matched'', JArr (map (\<lambda>m. JStr (utf8_text (mr_ruleId m))) matched))]"

text \<open>The rest of \<open>evaluateScope\<close>, once the URL is resolved; \<open>p\<close> is the parsed profile.\<close>

definition decide_scope :: "scope_env \<Rightarrow> site_profile \<Rightarrow> scope_input \<Rightarrow> int \<Rightarrow> int \<Rightarrow> string \<Rightarrow> url \<Rightarrow> scope_error + scope_decision" where
  "decide_scope E p i depth pages host u =
     (let hostClass = classify_host host;
          (domainHits, domainReasons, domainOk) = domain_verdict p host u;
          (pathHits, pathReasons, pathOk) = path_verdict p u;
          q = query_scan E p (search_params u);
          normal = href (normalized_url E p u);
          ident = href (identity_url E p u);
          ipOk = ip_authorized p hostClass;
          tooDeep = (case lm_maxDepth (sp_limits p) of None \<Rightarrow> False | Some m \<Rightarrow> m < depth);
          hash = identity_hash E ident;
          known = (hash \<in> set (si_knownHashes i));
          full = (\<not> known \<and> (case lm_maxPages (sp_limits p) of None \<Rightarrow> False | Some m \<Rightarrow> m \<le> pages));
          eligible = (domainOk \<and> pathOk \<and> qs_eligible q \<and> ipOk \<and> \<not> tooDeep \<and> \<not> full);
          approved = (au_status (sp_authorization p) = AuthApproved);
          reasons = reason_if eligible URL_ACCEPTED @ domainReasons @ pathReasons @ qs_reasons q @
            reason_if (sensitive_fragment (hash_of u)) SENSITIVE_FRAGMENT_REMOVED @
            reason_if (\<not> ipOk) PRIVATE_NETWORK_NOT_ALLOWED @ reason_if tooDeep DEPTH_LIMIT_REACHED @
            reason_if known KNOWN_IDENTITY @ reason_if full PAGE_LIMIT_REACHED @
            reason_if (\<not> approved) PROFILE_AUTHORIZATION_INCOMPLETE;
          matched = domainHits @ pathHits @ qs_hits q
      in ebind (relation_to_seeds E u (sp_seedUrls p)) (\<lambda>relation. Inr \<lparr>
           dn_decisionId = se_sha E (stringify (decision_basis p i normal ident depth pages known reasons matched)),
           dn_profileId = sp_profileId p, dn_revisionId = sp_revisionId p,
           dn_eligible = eligible, dn_shouldQueue = eligible \<and> approved, dn_reasons = js_set reasons,
           dn_normalizedUrl = Some normal, dn_identityUrl = Some ident, dn_identityHash = Some hash, dn_displayUrl = Some normal,
           dn_matched = matched, dn_depth = depth, dn_hostClass = hostClass,
           dn_networkAuthorized = (hostClass = IpPublic \<or> (hostClass \<noteq> IpUnknownHostname \<and> ipOk)),
           dn_preflight = (hostClass = IpUnknownHostname), dn_relation = relation,
           dn_identityKeys = sort (qs_identityKeys q), dn_omittedKeys = sort (qs_omittedKeys q),
           dn_deniedKeys = sort (qs_deniedKeys q)\<rparr>))"

definition evaluate_scope :: "scope_env \<Rightarrow> site_profile \<Rightarrow> scope_input \<Rightarrow> scope_error + scope_decision" where
  "evaluate_scope E profileValue i =
     ebind (parse_site_profile E profileValue) (\<lambda>p.
     case requested_depth i of
       None \<Rightarrow> Inr (safe_failure E p 0 DEPTH_INVALID)
     | Some depth \<Rightarrow> (case eligible_count i of
         None \<Rightarrow> Inr (safe_failure E p depth PAGE_COUNT_INVALID)
       | Some pages \<Rightarrow>
           if si_profileRevision i \<noteq> None \<and> si_profileRevision i \<noteq> Some (sp_revisionId p)
           then Inr (safe_failure E p depth PROFILE_REVISION_MISMATCH)
           else (case resolve_url E p i of
               Inl failure \<Rightarrow> Inr (safe_failure E p depth failure)
             | Inr (host, u) \<Rightarrow> decide_scope E p i depth pages host u)))"

definition evaluate_scope_batch :: "scope_env \<Rightarrow> site_profile \<Rightarrow> scope_input list \<Rightarrow> scope_error + scope_decision list" where
  "evaluate_scope_batch E p inputs =
     (if lm_maxBatch (sp_limits p) < int (length inputs) \<or> scope_batch < length inputs then Inl SCOPE_BATCH_LIMIT_EXCEEDED
      else emap (evaluate_scope E p) inputs)"

section \<open>Canonical links\<close>

datatype canonical_class = CanonSame | CanonNew | CanonAlias | CanonIgnoredExternal | CanonOutOfScope | CanonInvalid | CanonConflict
datatype canonical_reason = CANONICAL_INVALID | CANONICAL_SAME_IDENTITY | CANONICAL_CYCLE | CANONICAL_CONFLICT
  | CANONICAL_ALIAS_KNOWN | CANONICAL_NEW_IDENTITY | CanonicalScope scope_reason

record canonical_decision =
  cd_class :: canonical_class
  cd_reasons :: "canonical_reason list"
  cd_source :: "string option"
  cd_canonical :: "string option"

text \<open>
  The loop over the known aliases, from \<open>cursor\<close> on: does it reach the source or a hash it has
  visited? Aliases are an association list, an absent key is \<open>undefined\<close>.
\<close>

function alias_cycle :: "(string \<times> string) list \<Rightarrow> string \<Rightarrow> string list \<Rightarrow> string \<Rightarrow> bool" where
  "alias_cycle aliases source visited cursor =
     (if cursor = source \<or> cursor \<in> set visited then True
      else (case map_of aliases cursor of None \<Rightarrow> False | Some next \<Rightarrow> alias_cycle aliases source (cursor # visited) next))"
  by pat_completeness auto
termination
proof (relation "measure (\<lambda>(aliases, source, visited, cursor). card (dom (map_of aliases) - set visited))", goal_cases)
  case (2 aliases source visited cursor "next")
  have "dom (map_of aliases) - set (cursor # visited) \<subset> dom (map_of aliases) - set visited"
    using 2 by auto
  then show ?case by (simp add: finite_dom_map_of psubset_card_mono)
qed simp

declare alias_cycle.simps [simp del]

definition canonical_source_base :: "scope_input \<Rightarrow> scope_decision \<Rightarrow> string option" where
  "canonical_source_base i d = first_some (dn_normalizedUrl d) (first_some (si_sourceUrl i) (si_baseUrl i))"

definition classify_canonical :: "scope_env \<Rightarrow> site_profile \<Rightarrow> scope_input \<Rightarrow> string \<Rightarrow> (string \<times> string) list \<Rightarrow>
    scope_error + canonical_decision" where
  "classify_canonical E p i canonicalUrl aliases =
     ebind (evaluate_scope E p i) (\<lambda>src.
     ebind (evaluate_scope E p (i\<lparr>si_url := None, si_rawUrl := Some canonicalUrl, si_baseUrl := canonical_source_base i src\<rparr>)) (\<lambda>can.
     let answer = (\<lambda>c rs. Inr \<lparr>cd_class = c, cd_reasons = rs, cd_source = dn_identityHash src, cd_canonical = dn_identityHash can\<rparr>)
     in (case (dn_identityHash src, dn_identityHash can) of
          (Some s, Some c) \<Rightarrow>
            if \<not> dn_eligible can
            then answer (if sp_canonicalExternal p = ExternalIgnore \<and> DOMAIN_NOT_ALLOWED \<in> set (dn_reasons can)
              then CanonIgnoredExternal else CanonOutOfScope) (map CanonicalScope (dn_reasons can))
            else if s = c then answer CanonSame [CANONICAL_SAME_IDENTITY]
            else if alias_cycle aliases s [] c then answer CanonConflict [CANONICAL_CYCLE]
            else (case map_of aliases s of
                None \<Rightarrow> answer CanonNew [CANONICAL_NEW_IDENTITY]
              | Some e \<Rightarrow> if e \<noteq> c then answer CanonConflict [CANONICAL_CONFLICT] else answer CanonAlias [CANONICAL_ALIAS_KNOWN])
        | _ \<Rightarrow> answer CanonInvalid [CANONICAL_INVALID])))"

section \<open>Redirects\<close>

datatype redirect_class = FollowInScope | FollowApprovedExternal | StopExternal | StopDenied | StopInvalid | StopLoop | StopMaxRedirects
datatype redirect_reason = REDIRECT_INVALID | REDIRECT_LIMIT_REACHED | REDIRECT_LOOP | HTTPS_DOWNGRADE_DENIED
  | REDIRECT_IN_SCOPE | REDIRECT_APPROVED_EXTERNAL | RedirectScope scope_reason

record redirect_decision =
  rdd_class :: redirect_class
  rdd_reasons :: "redirect_reason list"
  rdd_target :: scope_decision

record redirect_input =
  rdi_sourceUrl :: string
  rdi_targetUrl :: string
  rdi_statusCode :: int
  rdi_chain :: "string list"
  rdi_depth :: "jsnum option"

definition redirect_target :: "redirect_input \<Rightarrow> scope_input" where
  "redirect_target r = no_input\<lparr>si_url := Some (rdi_targetUrl r), si_baseUrl := Some (rdi_sourceUrl r),
     si_depth := Some (case rdi_depth r of None \<Rightarrow> js_int 0 | Some d \<Rightarrow> d)\<rparr>"

definition chain_input :: "redirect_input \<Rightarrow> string \<Rightarrow> scope_input" where
  "chain_input r u = no_input\<lparr>si_url := Some u, si_baseUrl := Some (rdi_sourceUrl r)\<rparr>"

definition redirect_source :: "redirect_input \<Rightarrow> scope_input" where
  "redirect_source r = no_input\<lparr>si_url := Some (rdi_sourceUrl r)\<rparr>"

definition starts_opt :: "string option \<Rightarrow> string \<Rightarrow> bool" where
  "starts_opt v p = (case v of None \<Rightarrow> False | Some t \<Rightarrow> starts_with t p)"

text \<open>\<open>.filter(Boolean)\<close> drops \<open>null\<close> and the empty text.\<close>

definition chain_hashes :: "scope_decision list \<Rightarrow> string list" where
  "chain_hashes ds = filter (\<lambda>h. h \<noteq> []) (concat (map (\<lambda>d. case dn_identityHash d of None \<Rightarrow> [] | Some h \<Rightarrow> [h]) ds))"

definition classify_redirect :: "scope_env \<Rightarrow> site_profile \<Rightarrow> redirect_input \<Rightarrow> scope_error + redirect_decision" where
  "classify_redirect E p r =
     ebind (evaluate_scope E p (redirect_target r)) (\<lambda>target.
     let answer = (\<lambda>c rs. Inr \<lparr>rdd_class = c, rdd_reasons = rs, rdd_target = target\<rparr>)
     in if rdi_statusCode r \<notin> {301, 302, 303, 307, 308} \<or> dn_normalizedUrl target = None then answer StopInvalid [REDIRECT_INVALID]
        else if lm_maxRedirects (sp_limits p) \<le> int (length (rdi_chain r)) then answer StopMaxRedirects [REDIRECT_LIMIT_REACHED]
        else ebind (emap (\<lambda>u. evaluate_scope E p (chain_input r u)) (rdi_chain r)) (\<lambda>chain.
          if (case dn_identityHash target of None \<Rightarrow> False | Some h \<Rightarrow> h \<in> set (chain_hashes chain)) then answer StopLoop [REDIRECT_LOOP]
          else ebind (evaluate_scope E p (redirect_source r)) (\<lambda>source.
            if starts_opt (dn_normalizedUrl source) ''https:'' \<and> starts_opt (dn_normalizedUrl target) ''http:'' \<and> \<not> sp_allowDowngrade p
              then answer StopDenied [HTTPS_DOWNGRADE_DENIED]
            else if dn_eligible target \<and> dn_relation target \<noteq> RelExternal then answer FollowInScope [REDIRECT_IN_SCOPE]
            else if dn_eligible target \<and> sp_allowExternal p then answer FollowApprovedExternal [REDIRECT_APPROVED_EXTERNAL]
            else if list_ex (\<lambda>c. c \<in> {DOMAIN_DENIED, PATH_DENIED, QUERY_DENIED, PRIVATE_NETWORK_NOT_ALLOWED}) (dn_reasons target)
              then answer StopDenied (map RedirectScope (dn_reasons target))
            else answer StopExternal (map RedirectScope (dn_reasons target)))))"

end
