(* ===== verification/Scope_Sound.thy ===== *)
theory Scope_Sound
  imports Scope_Engine
begin

text \<open>
  Lemmas about the scope engine: what the query loop keeps, the verdicts of the rules, the shape of a
  decision, the identity of a URL and the alias chain.
\<close>

section \<open>The query loop\<close>

definition class_of_key :: "scope_env \<Rightarrow> 'a site_draft_scheme \<Rightarrow> units \<Rightarrow> query_class" where
  "class_of_key E p k = (case query_rule_of p (se_lower E k) of Some r \<Rightarrow> qr_class r | None \<Rightarrow> sp_unknownQuery p)"

definition sensitive_key :: "scope_env \<Rightarrow> 'a site_draft_scheme \<Rightarrow> units \<Rightarrow> bool" where
  "sensitive_key E p k = (case query_rule_of p (se_lower E k) of Some r \<Rightarrow> qr_sensitive r | None \<Rightarrow> False)"

definition identity_key :: "scope_env \<Rightarrow> 'a site_draft_scheme \<Rightarrow> units \<Rightarrow> bool" where
  "identity_key E p k = (\<not> sensitive_key E p k \<and> class_of_key E p k \<in> {QIdentity, QFunctional})"

lemma query_step_fields:
  "qs_normalized (query_step E p kv st) = qs_normalized st @ (if sensitive_key E p (fst kv) then [] else [kv])"
  "qs_identity (query_step E p kv st) = qs_identity st @ (if identity_key E p (fst kv) then [kv] else [])"
  "qs_eligible (query_step E p kv st) = (qs_eligible st \<and> class_of_key E p (fst kv) \<noteq> QDenied)"
proof -
  have classes: "(c = QIdentity \<or> c = QFunctional) = (c \<noteq> QDenied \<and> c \<noteq> QTracking \<and> c \<noteq> QIgnored)" for c by (cases c) auto
  note defs = query_step_def Let_def sensitive_key_def identity_key_def class_of_key_def
  show "qs_normalized (query_step E p kv st) = qs_normalized st @ (if sensitive_key E p (fst kv) then [] else [kv])"
    by (simp add: defs split: option.split)
  show "qs_identity (query_step E p kv st) = qs_identity st @ (if identity_key E p (fst kv) then [kv] else [])"
    by (simp add: defs classes split: option.split)
  show "qs_eligible (query_step E p kv st) = (qs_eligible st \<and> class_of_key E p (fst kv) \<noteq> QDenied)"
    by (simp add: defs split: option.split)
qed

lemma query_fold_fields:
  "qs_normalized (fold (query_step E p) ps st) = qs_normalized st @ filter (\<lambda>kv. \<not> sensitive_key E p (fst kv)) ps"
  "qs_identity (fold (query_step E p) ps st) = qs_identity st @ filter (\<lambda>kv. identity_key E p (fst kv)) ps"
  "qs_eligible (fold (query_step E p) ps st) = (qs_eligible st \<and> list_all (\<lambda>kv. class_of_key E p (fst kv) \<noteq> QDenied) ps)"
  by (induction ps arbitrary: st) (simp_all add: query_step_fields)

lemma query_scan_fields:
  "qs_normalized (query_scan E p ps) = filter (\<lambda>kv. \<not> sensitive_key E p (fst kv)) ps"
  "qs_identity (query_scan E p ps) = filter (\<lambda>kv. identity_key E p (fst kv)) ps"
  "qs_eligible (query_scan E p ps) = list_all (\<lambda>kv. class_of_key E p (fst kv) \<noteq> QDenied) ps"
  by (simp_all add: query_scan_def query_fold_fields query_start_def)

lemma sort_pairs_mset: "mset ps = mset qs \<Longrightarrow> sort_pairs ps = sort_pairs qs"
  unfolding sort_pairs_def by (metis properties_for_sort mset_sort sorted_sort)

lemma sort_pairs_idem: "sort_pairs (sort_pairs ps) = sort_pairs ps"
  by (simp add: sort_pairs_def sorted_sort_id)

lemma set_sort_pairs [simp]: "set (sort_pairs ps) = set ps"
  by (simp add: sort_pairs_def)

section \<open>Normalised and identity URLs\<close>

lemma drop_hash_fields [simp]:
  "search_params (drop_hash b u) = search_params u" "ur_pathname (drop_hash b u) = ur_pathname u"
  "ur_hostname (drop_hash b u) = ur_hostname u" "ur_protocol (drop_hash b u) = ur_protocol u"
  "ur_username (drop_hash b u) = ur_username u" "ur_password (drop_hash b u) = ur_password u"
  "ur_port (drop_hash b u) = ur_port u" "ur_query (drop_hash b u) = ur_query u"
  "set_params ps (drop_hash b u) = drop_hash b (set_params ps u)"
  by (simp_all add: drop_hash_def search_params_def set_params_def)

lemma filter_well_formed:
  "list_all well_formed_pair ps \<Longrightarrow> list_all well_formed_pair (sort_pairs (filter P ps))"
  by (auto simp: list_all_iff)

lemma normalized_params:
  "search_params (normalized_url E p u) = sort_pairs (filter (\<lambda>kv. \<not> sensitive_key E p (fst kv)) (search_params u))"
  by (simp add: normalized_url_def query_scan_fields search_params_set filter_well_formed search_params_well_formed)

lemma identity_params:
  "search_params (identity_url E p u) = sort_pairs (filter (\<lambda>kv. identity_key E p (fst kv)) (search_params u))"
  by (simp add: identity_url_def query_scan_fields search_params_set filter_well_formed search_params_well_formed)

lemma empty_fragment_not_sensitive: "\<not> sensitive_fragment []"
  by (simp add: sensitive_fragment_def decoded_fragment_def has_sensitive_word_def word_here_def fragment_words_def to_units_def)

lemma hash_of_drop:
  "hash_of (drop_hash (preserve_fragment p (hash_of u)) v) = (if preserve_fragment p (hash_of u) then hash_of v else [])"
  by (simp add: drop_hash_def hash_of_def)

lemma hash_of_set_params [simp]: "hash_of (set_params ps u) = hash_of u"
  by (simp add: hash_of_def)

lemma kept_fragment_clean:
  "\<not> sensitive_fragment (hash_of (normalized_url E p u))" "\<not> sensitive_fragment (hash_of (identity_url E p u))"
proof -
  have clean: "preserve_fragment p h \<Longrightarrow> \<not> sensitive_fragment h" for h by (simp add: preserve_fragment_def)
  show "\<not> sensitive_fragment (hash_of (normalized_url E p u))" "\<not> sensitive_fragment (hash_of (identity_url E p u))"
    unfolding normalized_url_def identity_url_def hash_of_drop using clean empty_fragment_not_sensitive by auto
qed

lemma drop_hash_again:
  "drop_hash (preserve_fragment p (hash_of (drop_hash (preserve_fragment p (hash_of u)) u))) (drop_hash (preserve_fragment p (hash_of u)) v)
   = drop_hash (preserve_fragment p (hash_of u)) v"
  by (simp add: drop_hash_def hash_of_def)

lemma filter_sort_pairs_id: "filter P (sort_pairs (filter P ps)) = sort_pairs (filter P ps)"
  by (auto simp: filter_id_conv)

text \<open>The identity URL is its own identity URL.\<close>

lemma identity_url_idem: "identity_url E p (identity_url E p u) = identity_url E p u"
proof -
  let ?F = "\<lambda>ps. sort_pairs (filter (\<lambda>kv. identity_key E p (fst kv)) ps)"
  have def: "identity_url E p v = drop_hash (preserve_fragment p (hash_of v)) (set_params (?F (search_params v)) v)" for v
    by (simp add: identity_url_def query_scan_fields)
  have "?F (search_params (identity_url E p u)) = ?F (search_params u)"
    by (simp only: identity_params filter_sort_pairs_id sort_pairs_idem)
  then have again: "identity_url E p (identity_url E p u) =
      drop_hash (preserve_fragment p (hash_of (identity_url E p u))) (set_params (?F (search_params u)) (identity_url E p u))"
    by (simp only: def)
  have "set_params (?F (search_params u)) (identity_url E p u) = identity_url E p u" by (simp add: def)
  moreover have "drop_hash (preserve_fragment p (hash_of (identity_url E p u))) (identity_url E p u) = identity_url E p u"
    by (cases "preserve_fragment p (hash_of u)") (simp_all add: def[of u] hash_of_drop, simp_all add: drop_hash_def)
  ultimately show ?thesis by (simp only: again)
qed

text \<open>URLs that differ in their query only, with the same identity pairs in any order, have one identity URL.\<close>

lemma identity_url_same:
  assumes "mset (filter (\<lambda>kv. identity_key E p (fst kv)) (search_params u)) =
      mset (filter (\<lambda>kv. identity_key E p (fst kv)) (search_params (u\<lparr>ur_query := q\<rparr>)))"
  shows "identity_url E p (u\<lparr>ur_query := q\<rparr>) = identity_url E p u"
  using sort_pairs_mset[OF assms] by (simp add: identity_url_def query_scan_fields hash_of_def)

section \<open>Verdicts\<close>

lemma find_None_list_ex: "find P xs = None \<longleftrightarrow> \<not> list_ex P xs"
  by (auto simp: find_None_iff list_ex_iff)

lemma list_ex_find: "list_ex P xs = (find P xs \<noteq> None)"
  by (simp add: find_None_list_ex)

lemma verdicts_admit:
  "(snd (snd (domain_verdict p host u)) \<and> snd (snd (path_verdict p u))) = rules_admit p host u"
proof -
  have domain: "snd (snd (domain_verdict p host u)) \<longleftrightarrow>
      \<not> list_ex (\<lambda>r. effect_is EffDeny r \<and> domain_matches host r u) (sp_domainRules p) \<and>
      list_ex (\<lambda>r. effect_is EffAllow r \<and> domain_matches host r u) (sp_domainRules p)"
    by (simp add: domain_verdict_def list_ex_find split: option.split)
  have path: "snd (snd (path_verdict p u)) \<longleftrightarrow>
      \<not> list_ex (\<lambda>r. path_effect_is EffDeny r \<and> path_matches (ur_pathname u) r) (sp_pathRules p) \<and>
      (filter (path_effect_is EffAllow) (sp_pathRules p) = [] \<or>
       list_ex (path_matches (ur_pathname u)) (filter (path_effect_is EffAllow) (sp_pathRules p)))"
    by (auto simp: path_verdict_def Let_def list_ex_find split: option.splits)
  show ?thesis unfolding domain path rules_admit_def by blast
qed

section \<open>Decisions\<close>

lemma decide_scope_fields:
  assumes "decide_scope E p i depth pages host u = Inr d"
  shows "dn_eligible d = (rules_admit p host u \<and> list_all (\<lambda>kv. class_of_key E p (fst kv) \<noteq> QDenied) (search_params u) \<and>
      ip_authorized p (classify_host host) \<and> (case lm_maxDepth (sp_limits p) of None \<Rightarrow> True | Some m \<Rightarrow> depth \<le> m) \<and>
      (identity_hash E (href (identity_url E p u)) \<in> set (si_knownHashes i) \<or>
       (case lm_maxPages (sp_limits p) of None \<Rightarrow> True | Some m \<Rightarrow> pages < m)))"
    and "dn_shouldQueue d = (dn_eligible d \<and> au_status (sp_authorization p) = AuthApproved)"
    and "dn_normalizedUrl d = Some (href (normalized_url E p u))"
    and "dn_identityUrl d = Some (href (identity_url E p u))"
    and "dn_identityHash d = Some (identity_hash E (href (identity_url E p u)))"
    and "dn_displayUrl d = dn_normalizedUrl d"
    and "dn_hostClass d = classify_host host" and "dn_preflight d = (classify_host host = IpUnknownHostname)"
    and "relation_to_seeds E u (sp_seedUrls p) = Inr (dn_relation d)"
proof -
  obtain dh dr dok where dv: "domain_verdict p host u = (dh, dr, dok)" by (cases "domain_verdict p host u") auto
  obtain ph pr pok where pv: "path_verdict p u = (ph, pr, pok)" by (cases "path_verdict p u") auto
  have ok: "(dok \<and> pok) = rules_admit p host u" using verdicts_admit[of p host u] dv pv by simp
  note run = assms[unfolded decide_scope_def Let_def dv pv prod.case, simplified result_simps]
  show "dn_eligible d = (rules_admit p host u \<and> list_all (\<lambda>kv. class_of_key E p (fst kv) \<noteq> QDenied) (search_params u) \<and>
      ip_authorized p (classify_host host) \<and> (case lm_maxDepth (sp_limits p) of None \<Rightarrow> True | Some m \<Rightarrow> depth \<le> m) \<and>
      (identity_hash E (href (identity_url E p u)) \<in> set (si_knownHashes i) \<or>
       (case lm_maxPages (sp_limits p) of None \<Rightarrow> True | Some m \<Rightarrow> pages < m)))"
    using run unfolding ok[symmetric]
    by (auto simp: query_scan_fields split: option.splits)
  show "dn_shouldQueue d = (dn_eligible d \<and> au_status (sp_authorization p) = AuthApproved)"
    "dn_normalizedUrl d = Some (href (normalized_url E p u))"
    "dn_identityUrl d = Some (href (identity_url E p u))"
    "dn_identityHash d = Some (identity_hash E (href (identity_url E p u)))"
    "dn_displayUrl d = dn_normalizedUrl d"
    "dn_hostClass d = classify_host host" "dn_preflight d = (classify_host host = IpUnknownHostname)"
    "relation_to_seeds E u (sp_seedUrls p) = Inr (dn_relation d)"
    using run by auto
qed

text \<open>What an evaluation that resolves its URL works with.\<close>

definition evaluates :: "scope_env \<Rightarrow> site_profile \<Rightarrow> scope_input \<Rightarrow> site_profile \<Rightarrow> int \<Rightarrow> int \<Rightarrow> string \<Rightarrow> url \<Rightarrow> bool" where
  "evaluates E p0 i p depth pages host u =
     (parse_site_profile E p0 = Inr p \<and> requested_depth i = Some depth \<and> eligible_count i = Some pages \<and>
      (si_profileRevision i = None \<or> si_profileRevision i = Some (sp_revisionId p)) \<and> resolve_url E p i = Inr (host, u))"

lemma evaluate_run: "evaluates E p0 i p depth pages host u \<Longrightarrow> evaluate_scope E p0 i = decide_scope E p i depth pages host u"
  by (auto simp: evaluates_def evaluate_scope_def)

lemma evaluated_decides:
  "evaluates E p0 i p depth pages host u \<Longrightarrow> evaluate_scope E p0 i = Inr d \<Longrightarrow> decide_scope E p i depth pages host u = Inr d"
  by (simp add: evaluate_run)

lemmas evaluated_fields = decide_scope_fields[OF evaluated_decides]

lemma safe_failure_fields [simp]:
  "dn_eligible (safe_failure E p depth c) = False" "dn_shouldQueue (safe_failure E p depth c) = False"
  "dn_normalizedUrl (safe_failure E p depth c) = None" "dn_identityUrl (safe_failure E p depth c) = None"
  "dn_identityHash (safe_failure E p depth c) = None" "dn_displayUrl (safe_failure E p depth c) = None"
  by (simp_all add: safe_failure_def)

lemma evaluate_cases:
  assumes "evaluate_scope E p0 i = Inr d"
  obtains (failed) p depth c where "d = safe_failure E p depth c"
  | (decided) p depth pages host u where "evaluates E p0 i p depth pages host u" "decide_scope E p i depth pages host u = Inr d"
proof -
  obtain p where p: "parse_site_profile E p0 = Inr p" using assms by (auto simp: evaluate_scope_def result_simps)
  show thesis
  proof (cases "\<exists>depth pages host u. evaluates E p0 i p depth pages host u")
    case True
    then show thesis using decided assms evaluate_run by metis
  next
    case False
    then show thesis using failed assms p
      by (auto simp: evaluate_scope_def evaluates_def split: option.splits sum.splits if_splits)
  qed
qed

lemma evaluate_with_url:
  assumes "evaluate_scope E p0 i = Inr d" "dn_normalizedUrl d \<noteq> None \<or> dn_identityHash d \<noteq> None \<or> dn_eligible d"
  obtains p depth pages host u where "evaluates E p0 i p depth pages host u" "decide_scope E p i depth pages host u = Inr d"
  using assms by (cases rule: evaluate_cases[OF assms(1)]) auto

section \<open>Aliases\<close>

definition alias_rel :: "(string \<times> string) list \<Rightarrow> (string \<times> string) set" where
  "alias_rel aliases = {(a, b). map_of aliases a = Some b}"

lemma alias_rel_first:
  "(c, s) \<in> (alias_rel aliases)\<^sup>* \<Longrightarrow> c \<noteq> s \<Longrightarrow> \<exists>n. map_of aliases c = Some n \<and> (n, s) \<in> (alias_rel aliases)\<^sup>*"
  by (erule converse_rtranclE) (auto simp: alias_rel_def)

text \<open>The walk finds a cycle exactly when the source is reachable, provided the aliases have no cycle.\<close>

lemma alias_cycle_iff:
  assumes "acyclic (alias_rel aliases)" "\<forall>v \<in> set visited. (v, c) \<in> (alias_rel aliases)\<^sup>+"
  shows "alias_cycle aliases s visited c = ((c, s) \<in> (alias_rel aliases)\<^sup>*)"
  using assms
proof (induction aliases s visited c rule: alias_cycle.induct)
  case (1 aliases s visited c)
  have fresh: "c \<notin> set visited" using 1(2,3) by (auto simp: acyclic_def)
  show ?case
  proof (cases "c = s")
    case True
    then show ?thesis by (simp add: alias_cycle.simps)
  next
    case False
    show ?thesis
    proof (cases "map_of aliases c")
      case None
      then show ?thesis using False fresh alias_rel_first[of c s aliases] by (auto simp: alias_cycle.simps[of _ _ _ c])
    next
      case (Some n)
      then have edge: "(c, n) \<in> alias_rel aliases" by (simp add: alias_rel_def)
      then have "\<forall>v \<in> set (c # visited). (v, n) \<in> (alias_rel aliases)\<^sup>+" using 1(3) by (auto intro: trancl_into_trancl)
      then have "alias_cycle aliases s (c # visited) n = ((n, s) \<in> (alias_rel aliases)\<^sup>*)"
        using 1(1) 1(2) False fresh Some by blast
      moreover have "(c, s) \<in> (alias_rel aliases)\<^sup>* \<longleftrightarrow> (n, s) \<in> (alias_rel aliases)\<^sup>*"
        using alias_rel_first[of c s aliases] False Some edge by (auto intro: converse_rtrancl_into_rtrancl)
      ultimately show ?thesis using False fresh Some by (simp add: alias_cycle.simps[of _ _ _ c])
    qed
  qed
qed

lemma alias_rel_new: "map_of aliases s = None \<Longrightarrow> alias_rel ((s, c) # aliases) = insert (s, c) (alias_rel aliases)"
  by (auto simp: alias_rel_def split: if_splits)

section \<open>Addresses\<close>

lemma address_chars:
  assumes "ipv4_bytes h = Some bytes" "c \<in> set h" shows "is_digit c \<or> c = CHR ''.''"
proof -
  have parts: "\<forall>w \<in> set (split_on (CHR ''.'') h). list_all is_digit w"
    using assms(1) by (auto simp: ipv4_bytes_def Let_def list_ex_iff list_all_iff split: if_splits)
  have "set h \<subseteq> insert (CHR ''.'') (\<Union> (set ` set (split_on (CHR ''.'') h)))"
    using set_join_on[of "CHR ''.''" "split_on (CHR ''.'') h"] by (simp add: join_split)
  then show ?thesis using assms(2) parts by (auto simp: list_all_iff)
qed

lemma hd_split_on: "set (hd (split_on x cs)) \<subseteq> set cs"
proof (induction cs)
  case (Cons c cs)
  then show ?case by (cases "split_on x cs") auto
qed simp

lemma words_have_colon: "ipv6_words h = Some w \<Longrightarrow> CHR '':'' \<in> set (to_lower h)"
  using hd_split_on[of "CHR ''%''" "to_lower h"] by (auto simp: ipv6_words_def Let_def split: if_splits)

lemma colon_lower: "CHR '':'' \<in> set (to_lower h) \<Longrightarrow> CHR '':'' \<in> set h"
proof -
  have colon: "x = CHR '':''" if "lower_char x = CHR '':''" for x
  proof (rule ccontr)
    assume "x \<noteq> CHR '':''"
    then have "is_upper x \<or> (192 \<le> code x \<and> code x \<le> 222)" "lower_char x = char_of (code x + 32)"
      using that by (auto simp: lower_char_def split: if_splits)
    then have "code (lower_char x) = code x + 32" "65 \<le> code x" by (auto simp: is_upper_def)
    moreover have "code (lower_char x) = 58" by (simp add: that code_def)
    ultimately show False by simp
  qed
  assume "CHR '':'' \<in> set (to_lower h)"
  then show ?thesis using colon by (auto simp: to_lower_def dest: sym)
qed

lemma words_not_v4: "ipv6_words h = Some w \<Longrightarrow> ipv4_bytes h = None"
proof (rule ccontr)
  assume "ipv6_words h = Some w" "ipv4_bytes h \<noteq> None"
  then obtain bytes where "ipv4_bytes h = Some bytes" "CHR '':'' \<in> set h" using words_have_colon colon_lower by blast
  then have "is_digit (CHR '':'')" using address_chars by blast
  then show False by (simp add: is_digit_def code_def)
qed

text \<open>The words of an IPv4-mapped address.\<close>

definition mapped_words :: "nat \<Rightarrow> nat \<Rightarrow> nat \<Rightarrow> nat \<Rightarrow> nat list" where
  "mapped_words a b c d = [0, 0, 0, 0, 0, 65535, 256 * a + b, 256 * c + d]"

lemma mapped_class:
  assumes "b < 256" "d < 256" shows "v6_class (mapped_words a b c d) = v4_class [a, b, c, d]"
proof -
  have "drop_bit 8 (256 * a + b) = a" "drop_bit 8 (256 * c + d) = c" using assms by (simp_all add: drop_bit_eq_div)
  moreover have "(256 * a + b) AND 255 = b"
  proof -
    have "(256 * a + b) AND mask 8 = b" using assms(1) by (simp only: take_bit_eq_mask[symmetric] take_bit_eq_mod) simp
    then show ?thesis by (simp add: mask_eq_exp_minus_1)
  qed
  moreover have "mapped_words a b c d ! 0 = 0" "mapped_words a b c d ! 1 = 0" "mapped_words a b c d ! 5 = 65535"
    "mapped_words a b c d ! 6 = 256 * a + b" "mapped_words a b c d ! 7 = 256 * c + d"
    "take 5 (mapped_words a b c d) = [0, 0, 0, 0, 0]" "\<not> list_all (\<lambda>x. x = 0) (mapped_words a b c d)"
    "\<not> list_all (\<lambda>x. x = 0) (take 7 (mapped_words a b c d))"
    by (simp_all add: mapped_words_def)
  ultimately show ?thesis by (simp add: v6_class_def v4_class_def)
qed

section \<open>Drafts\<close>

lemma no_clash_distinct:
  "\<not> rules_clash key eff seen rs \<Longrightarrow>
    distinct (map key rs) \<and> (\<forall>r \<in> set rs. \<forall>e. key r @ '':'' @ effect_text e \<notin> set seen)"
proof (induction key eff seen rs rule: rules_clash.induct)
  case (1 key eff seen)
  then show ?case by simp
next
  case (2 key eff seen r rs)
  let ?t = "\<lambda>r e. key r @ '':'' @ effect_text e"
  have two: "e = eff r \<or> e = opposite (eff r)" for e by (cases e; cases "eff r") (auto simp: opposite_def)
  have here: "?t r e \<notin> set seen" for e using 2(2) two[of e] by auto
  have rest: "distinct (map key rs)" "\<forall>r' \<in> set rs. \<forall>e. ?t r' e \<notin> set (?t r (eff r) # seen)"
    using 2(1,2) by simp_all
  have "key r \<notin> set (map key rs)"
  proof
    assume "key r \<in> set (map key rs)"
    then obtain r' where r': "r' \<in> set rs" "key r' = key r" by auto
    then have "?t r' (eff r) \<in> set (?t r (eff r) # seen)" by simp
    then show False using rest(2) r'(1) by blast
  qed
  moreover have "\<forall>r' \<in> set (r # rs). \<forall>e. ?t r' e \<notin> set seen" using here rest(2) by auto
  ultimately show ?case using rest(1) by (simp only: list.map distinct.simps simp_thms)
qed

lemma check_draft_sound:
  assumes "check_draft E n = Inr x"
  shows "distinct (map dm_ruleId (sp_domainRules n))" "distinct (map pth_ruleId (sp_pathRules n))"
    "distinct (map qr_key (sp_queryRules n))" "distinct (map domain_key (sp_domainRules n))"
    "distinct (map path_key (sp_pathRules n))"
    "v \<in> set (sp_baseUrl n # sp_seedUrls n) \<Longrightarrow>
      \<exists>u host. se_parse E v None = Some u \<and> canonical_hostname (se_ascii E) (ur_hostname u) = Inr host \<and> rules_admit n host u"
proof -
  note checks = assms[unfolded check_draft_def, simplified result_simps]
  show "distinct (map dm_ruleId (sp_domainRules n))" "distinct (map pth_ruleId (sp_pathRules n))"
    "distinct (map qr_key (sp_queryRules n))" using checks by auto
  show "distinct (map domain_key (sp_domainRules n))" "distinct (map path_key (sp_pathRules n))"
    using checks no_clash_distinct by blast+
  assume v: "v \<in> set (sp_baseUrl n # sp_seedUrls n)"
  from assms[unfolded check_draft_def ebind_Inr_iff]
  obtain ys where ys: "emap (check_candidate E n) (sp_baseUrl n # sp_seedUrls n) = Inr ys" by (elim exE conjE)
  obtain y where "check_candidate E n v = Inr y" using emap_member[OF ys v] by auto
  then show "\<exists>u host. se_parse E v None = Some u \<and> canonical_hostname (se_ascii E) (ur_hostname u) = Inr host \<and> rules_admit n host u"
    by (auto simp: check_candidate_def result_simps split: option.splits)
qed

lemma normalize_draft_sound:
  assumes "normalize_site_draft E d = Inr n"
  shows "normalized_draft E d = Inr n" "check_draft E n = Inr ()" "draft_ok d" "draft_ok n"
  using assms by (auto simp: normalize_site_draft_def result_simps)

text \<open>The domain rules of a normalised draft are the normalised rules of the draft.\<close>

lemma normalized_domains:
  assumes "normalized_draft E d = Inr n"
  obtains rs where "emap (normalize_domain_rule E) (sp_domainRules d) = Inr rs" "sp_domainRules n = sort_key dm_ruleId rs"
proof -
  obtain sw where sw: "normalize_sw_policy (sp_serviceWorker d) = Inr sw"
    using assms by (cases "normalize_sw_policy (sp_serviceWorker d)") (auto simp: normalized_draft_def result_simps)
  show thesis using assms that unfolding normalized_draft_def sw by (auto simp: result_simps)
qed

end
