(* ===== verification/Sample_Url.thy ===== *)
theory Sample_Url
  imports Url_Text
begin

text \<open>
  A concrete URL parser for the witnesses: plain \<open>http\<close> and \<open>https\<close> URLs without credentials,
  whose hosts are lower-case ASCII, and absolute paths below an \<open>https\<close> base.
\<close>

definition authority_end :: "char \<Rightarrow> bool" where
  "authority_end c = (c \<in> set ''/?#'')"

definition cut_at :: "(char \<Rightarrow> bool) \<Rightarrow> string \<Rightarrow> string \<times> string" where
  "cut_at P s = (takeWhile (\<lambda>c. \<not> P c) s, dropWhile (\<lambda>c. \<not> P c) s)"

definition after_sign :: "string \<Rightarrow> string option" where
  "after_sign s = (case s of [] \<Rightarrow> None | _ # t \<Rightarrow> Some t)"

definition plain_url :: "string \<Rightarrow> string \<Rightarrow> url" where
  "plain_url protocol rest =
     (let (authority, tail) = cut_at authority_end rest;
          (front, fragment) = cut_at (\<lambda>c. c = CHR ''#'') tail;
          (path, query) = cut_at (\<lambda>c. c = CHR ''?'') front;
          (host, port) = cut_at (\<lambda>c. c = CHR '':'') authority
      in \<lparr>ur_protocol = protocol, ur_username = [], ur_password = [], ur_hostname = host,
          ur_port = drop 1 port, ur_pathname = (if path = [] then ''/'' else path),
          ur_query = after_sign query, ur_fragment = after_sign fragment\<rparr>)"

definition sample_parse :: "string \<Rightarrow> string option \<Rightarrow> url option" where
  "sample_parse s base =
     (if starts_with s ''https://'' then Some (plain_url ''https:'' (drop 8 s))
      else if starts_with s ''http://'' then Some (plain_url ''http:'' (drop 7 s))
      else if starts_with s ''/'' then (case base of
          Some b \<Rightarrow> if starts_with b ''https://'' then Some (plain_url ''https:'' (fst (cut_at authority_end (drop 8 b)) @ s)) else None
        | None \<Rightarrow> None)
      else None)"

end
