(* ===== verification/Sample_Scope.thy ===== *)
theory Sample_Scope
  imports Scope_Sound Sample_Url
begin

text \<open>
  A concrete platform and profile on which the properties of the scope engine are witnessed: the plain
  URL parser and a profile that admits \<open>a.io\<close> and its subdomains.
\<close>

definition sample_scope_env :: scope_env where
  "sample_scope_env = \<lparr>se_parse = sample_parse, se_host = Some, se_ascii = (\<lambda>s. s), se_lower = map ascii_lower,
     se_domain = Some, se_sha = (\<lambda>t. t), se_uuid = (\<lambda>s. s \<noteq> [])\<rparr>"

definition sample_profile :: site_profile where
  "sample_profile = \<lparr>
     sp_name = ''A'', sp_baseUrl = ''https://a.io/'', sp_seedUrls = [''https://a.io/''],
     sp_authorization = \<lparr>au_status = AuthApproved, au_reference = Some ''ticket 7'', au_approvedBy = [''owner''],
       au_approvedAt = Some ''2024-01-01T00:00:00.000Z'', au_expiresAt = None\<rparr>,
     sp_domainRules = [\<lparr>dm_ruleId = ''site'', dm_effect = EffAllow, dm_match = HostSubdomains, dm_hostname = ''a.io'',
       dm_schemes = [''http'', ''https''], dm_ports = []\<rparr>],
     sp_pathRules = [\<lparr>pth_ruleId = ''admin'', pth_effect = EffDeny, pth_match = PathPrefix, pth_path = ''/admin''\<rparr>],
     sp_unknownQuery = QIdentity,
     sp_queryRules = [\<lparr>qr_key = to_units ''token'', qr_class = QIgnored, qr_sensitive = True\<rparr>,
       \<lparr>qr_key = to_units ''utm_source'', qr_class = QTracking, qr_sensitive = False\<rparr>],
     sp_fragmentPolicy = PreserveAll, sp_allowExternal = False, sp_allowDowngrade = False,
     sp_canonicalExternal = ExternalIgnore, sp_ipClasses = [IpPublic],
     sp_serviceWorker = Some default_sw_policy,
     sp_limits = \<lparr>lm_maxDepth = Some 3, lm_maxPages = Some 100, lm_maxRedirects = 2, lm_maxBatch = 2\<rparr>,
     sp_schemaVersion = 1, sp_engineVersion = 1, sp_profileId = ''pr'', sp_projectId = ''p'', sp_revisionId = ''r1'',
     sp_sequence = 1, sp_createdAt = ''2024-01-01T00:00:00.000Z'', sp_updatedAt = ''2024-01-01T00:00:00.000Z''\<rparr>"

definition sample_input :: "string \<Rightarrow> scope_input" where
  "sample_input u = no_input\<lparr>si_url := Some u\<rparr>"

lemma sample_parsed: "parse_site_profile sample_scope_env sample_profile = Inr sample_profile"
  by code_simp

text \<open>The URLs of the witnesses: one page under two queries.\<close>

definition sample_page :: url where
  "sample_page = plain_url ''https:'' ''a.io/x?b=1&utm_source=m&a=2''"

lemma sample_resolved:
  "resolve_url sample_scope_env sample_profile (sample_input ''https://a.io/x?b=1&utm_source=m&a=2'') = Inr (''a.io'', sample_page)"
  "resolve_url sample_scope_env sample_profile (sample_input ''https://a.io/x?a=2&token=t&b=1'') =
     Inr (''a.io'', sample_page\<lparr>ur_query := Some ''a=2&token=t&b=1''\<rparr>)"
  by code_simp+

lemma plain_input_fields [simp]:
  "requested_depth (sample_input t) = Some 0" "eligible_count (sample_input t) = Some 0" "si_profileRevision (sample_input t) = None"
  by (simp_all add: sample_input_def no_input_def requested_depth_def eligible_count_def first_some_def)

lemma sample_evaluates:
  assumes "resolve_url sample_scope_env sample_profile i = Inr (host, u)"
    and "requested_depth i = Some 0" "eligible_count i = Some 0" "si_profileRevision i = None"
  shows "evaluates sample_scope_env sample_profile i sample_profile 0 0 host u"
  using assms sample_parsed by (simp add: evaluates_def)

text \<open>The sample evaluation gives a decision, whatever is decided.\<close>

lemma sample_decides: "\<exists>d. decide_scope sample_scope_env sample_profile i depth pages host u = Inr d"
proof -
  have "se_parse sample_scope_env ''https://a.io/'' None = Some (plain_url ''https:'' ''a.io/'')"
    by (simp add: sample_scope_env_def sample_parse_def starts_with_def)
  then have "\<exists>r. relation_to_seeds sample_scope_env u (sp_seedUrls sample_profile) = Inr r"
    by (simp add: relation_to_seeds_def sample_profile_def)
  then show ?thesis by (auto simp: decide_scope_def Let_def split: prod.split)
qed

lemma sample_evaluated:
  assumes "evaluates sample_scope_env sample_profile i sample_profile 0 0 host u"
  obtains d where "evaluate_scope sample_scope_env sample_profile i = Inr d"
  using evaluate_run[OF assms] sample_decides[of i 0 0 host u] by auto

lemma sample_eligible:
  assumes "evaluates sample_scope_env sample_profile i sample_profile 0 0 host u"
    and "evaluate_scope sample_scope_env sample_profile i = Inr d"
    and "rules_admit sample_profile host u" "ip_authorized sample_profile (classify_host host)"
    and "list_all (\<lambda>kv. class_of_key sample_scope_env sample_profile (fst kv) \<noteq> QDenied) (search_params u)"
  shows "dn_eligible d"
proof -
  have "lm_maxDepth (sp_limits sample_profile) = Some 3" "lm_maxPages (sp_limits sample_profile) = Some 100"
    by (simp_all add: sample_profile_def)
  then show ?thesis using evaluated_fields(1)[OF assms(1,2)] assms(3-5) by simp
qed

text \<open>The two evaluations of the queries of one page, and a page to link to.\<close>

lemmas sample_queries =
  sample_evaluates[OF sample_resolved(1) plain_input_fields] sample_evaluates[OF sample_resolved(2) plain_input_fields]

definition sample_target :: url where
  "sample_target = plain_url ''https:'' ''a.io/y''"

lemma sample_target_rules:
  "rules_admit sample_profile ''a.io'' sample_target" "ip_authorized sample_profile (classify_host ''a.io'')"
  "list_all (\<lambda>kv. class_of_key sample_scope_env sample_profile (fst kv) \<noteq> QDenied) (search_params sample_target)"
  "relation_to_seeds sample_scope_env sample_target (sp_seedUrls sample_profile) = Inr SameOrigin"
  "href (normalized_url sample_scope_env sample_profile sample_target) = ''https://a.io/y''"
  "href (identity_url sample_scope_env sample_profile sample_target) = ''https://a.io/y''"
  by code_simp+

end
