(* ===== verification/Scope_Properties.thy ===== *)
theory Scope_Properties
  imports Sample_Scope
begin

text \<open>
  The properties of the scope engine. Each stands after its statement in words and is followed by an
  application at a concrete input.
\<close>

section \<open>Eligibility\<close>



section \<open>Identity\<close>

text \<open>C20
  Two URLs of one page get the same identity hash when their queries have the same identity pairs, in
  whatever order and with whatever tracking, ignored or sensitive parameters between them.
\<close>

lemma identity_ignores_noise:
  assumes "evaluate_scope E p0 i = Inr d" "evaluate_scope E p0 j = Inr d'"
    and "evaluates E p0 i p m c h u" "evaluates E p0 j p n k h (u\<lparr>ur_query := q\<rparr>)"
    and "mset (filter (\<lambda>kv. identity_key E p (fst kv)) (search_params u)) =
         mset (filter (\<lambda>kv. identity_key E p (fst kv)) (search_params (u\<lparr>ur_query := q\<rparr>)))"
  shows "dn_identityHash d' = dn_identityHash d \<and> dn_identityUrl d' = dn_identityUrl d"
  using evaluated_fields(4,5)[OF assms(3,1)] evaluated_fields(4,5)[OF assms(4,2)] identity_url_same[OF assms(5)] by simp_all

lemma identity_ignores_noise_witness:
  "\<exists>d d'. evaluate_scope sample_scope_env sample_profile (sample_input ''https://a.io/x?b=1&utm_source=m&a=2'') = Inr d \<and>
     evaluate_scope sample_scope_env sample_profile (sample_input ''https://a.io/x?a=2&token=t&b=1'') = Inr d' \<and>
     dn_identityHash d' = dn_identityHash d"
proof -
  note ev = sample_queries
  obtain d d' where d: "evaluate_scope sample_scope_env sample_profile (sample_input ''https://a.io/x?b=1&utm_source=m&a=2'') = Inr d"
    "evaluate_scope sample_scope_env sample_profile (sample_input ''https://a.io/x?a=2&token=t&b=1'') = Inr d'"
    using sample_evaluated[OF ev(1)] sample_evaluated[OF ev(2)] by metis
  have "filter (\<lambda>kv. identity_key sample_scope_env sample_profile (fst kv)) (search_params sample_page) = [([98], [49]), ([97], [50])]"
    "filter (\<lambda>kv. identity_key sample_scope_env sample_profile (fst kv)) (search_params (sample_page\<lparr>ur_query := Some ''a=2&token=t&b=1''\<rparr>))
     = [([97], [50]), ([98], [49])]" by code_simp+
  then have same: "mset (filter (\<lambda>kv. identity_key sample_scope_env sample_profile (fst kv)) (search_params sample_page)) =
      mset (filter (\<lambda>kv. identity_key sample_scope_env sample_profile (fst kv))
        (search_params (sample_page\<lparr>ur_query := Some ''a=2&token=t&b=1''\<rparr>)))"
    by simp
  show ?thesis using identity_ignores_noise[OF d ev same] d by blast
qed



section \<open>Credentials in URLs\<close>



text \<open>
  A fragment that \<open>decodeURIComponent\<close> rejects is inspected undecoded, so an escape that is no UTF-8
  hides a credential from the check: \<open>#%FF&%74oken=s\<close> is kept.
\<close>

lemma undecodable_fragment_is_kept:
  "decoded_fragment ''#%FF&%74oken=s'' = to_units ''#%FF&%74oken=s''"
  "preserve_fragment sample_profile ''#%FF&%74oken=s''"
  "\<not> preserve_fragment sample_profile ''#&%74oken=s''"
proof -
  have "decode_uri (to_units ''#%FF&%74oken=s'') = None" by code_simp
  then show "decoded_fragment ''#%FF&%74oken=s'' = to_units ''#%FF&%74oken=s''" by (simp add: decoded_fragment_def)
  show "preserve_fragment sample_profile ''#%FF&%74oken=s''" "\<not> preserve_fragment sample_profile ''#&%74oken=s''" by code_simp+
qed

section \<open>Profiles\<close>

text \<open>C25
  The default profile of a seed never leaves the host of the seed: every URL its rules admit has the
  canonical host, the scheme and, where the seed names one, the port of the seed.
\<close>

lemma default_profile_stays_on_seed:
  assumes "create_default_draft E name s = Inr n" "rules_admit n host u"
  shows "\<exists>t seed. normalize_seed E s = Inr t \<and> se_parse E t None = Some seed \<and>
      canonical_hostname (se_ascii E) (ur_hostname seed) = Inr host \<and> butlast (ur_protocol u) = butlast (ur_protocol seed) \<and>
      (ur_port seed = [] \<or> effective_port u = int (dec_value (ur_port seed)))"
proof -
  obtain t seed where t: "normalize_seed E s = Inr t" "se_parse E t None = Some seed"
    and n: "normalize_site_draft E (default_draft name seed) = Inr n"
    using assms(1) by (auto simp: create_default_draft_def result_simps split: option.splits)
  obtain rs where rs: "emap (normalize_domain_rule E) (sp_domainRules (default_draft name seed)) = Inr rs"
    "sp_domainRules n = sort_key dm_ruleId rs"
    using normalized_domains[OF normalize_draft_sound(1)[OF n]] .
  let ?ports = "if ur_port seed = [] then [] else [int (dec_value (ur_port seed))]"
  have ports: "sort (remdups ?ports) = ?ports" by simp
  obtain r where "rs = [r]" "normalize_domain_rule E (hd (sp_domainRules (default_draft name seed))) = Inr r"
    using rs(1) by (auto simp: default_draft_def result_simps)
  then have r: "rs = [r]" "canonical_hostname (se_ascii E) (ur_hostname seed) = Inr (dm_hostname r)"
    "dm_match r = HostExact" "dm_schemes r = [butlast (ur_protocol seed)]" "dm_ports r = sort (remdups ?ports)"
    by (auto simp: default_draft_def normalize_domain_rule_def result_simps)
  have "domain_matches host r u" using assms(2) rs(2) r(1) by (auto simp: rules_admit_def)
  then show ?thesis using t r ports by (auto simp: domain_matches_def split: if_splits)
qed

lemma default_profile_stays_on_seed_witness:
  "\<exists>n. create_default_draft sample_scope_env ''A'' ''https://a.io/'' = Inr n \<and>
     (\<exists>t seed. se_parse sample_scope_env t None = Some seed \<and> canonical_hostname (se_ascii sample_scope_env) (ur_hostname seed) = Inr ''a.io'')"
proof -
  let ?run = "create_default_draft sample_scope_env ''A'' ''https://a.io/''"
  have "case ?run of Inr n \<Rightarrow> rules_admit n ''a.io'' sample_page | Inl _ \<Rightarrow> False" by code_simp
  then obtain n where n: "?run = Inr n" "rules_admit n ''a.io'' sample_page" by (auto split: sum.splits)
  then show ?thesis using default_profile_stays_on_seed[OF n] by blast
qed

text \<open>
  A draft that normalisation accepts admits its own base URL and seeds, its rule identifiers and query
  keys are unique, and no two of its domain or path rules have the same pattern, of whatever effect.
\<close>

lemma accepted_draft_admits_its_seeds:
  assumes "normalize_site_draft E d = Inr n"
  shows "(\<forall>v \<in> set (sp_baseUrl n # sp_seedUrls n). \<exists>u host. se_parse E v None = Some u \<and>
      canonical_hostname (se_ascii E) (ur_hostname u) = Inr host \<and> rules_admit n host u) \<and>
      distinct (map dm_ruleId (sp_domainRules n)) \<and> distinct (map pth_ruleId (sp_pathRules n)) \<and>
      distinct (map qr_key (sp_queryRules n)) \<and> distinct (map domain_key (sp_domainRules n)) \<and>
      distinct (map path_key (sp_pathRules n))"
  using check_draft_sound[OF normalize_draft_sound(2)[OF assms]] by simp

lemma accepted_draft_admits_its_seeds_witness:
  "normalize_site_draft sample_scope_env sample_profile = Inr sample_profile \<and>
   distinct (map domain_key (sp_domainRules sample_profile))"
proof -
  have "normalize_site_draft sample_scope_env sample_profile = Inr sample_profile"
    using sample_parsed by (auto simp: parse_site_profile_def result_simps)
  then show ?thesis using accepted_draft_admits_its_seeds by blast
qed

text \<open>
  A seed whose host the URL parser writes in brackets, an IPv6 literal, never gets a default profile:
  the host name schema rejects the brackets.
\<close>

lemma ipv6_seed_has_no_default_profile:
  assumes "normalize_seed E s = Inr t" "se_parse E t None = Some seed" "CHR ''['' \<in> set (ur_hostname seed)"
  shows "create_default_draft E name s = Inl PROFILE_INVALID"
proof -
  have "\<not> hostname_ok (ur_hostname seed)"
    using assms(3) by (auto simp: hostname_ok_def list_all_iff lower_alnum_def is_lower_def is_digit_def code_def
        intro!: bexI[of _ "CHR ''[''"])
  then have "\<not> draft_ok (default_draft name seed)" by (simp add: draft_ok_def default_draft_def domain_rule_ok_def)
  then show ?thesis using assms(1,2) by (simp add: create_default_draft_def normalize_site_draft_def)
qed

definition bracket_parse :: "string \<Rightarrow> string option \<Rightarrow> url option" where
  "bracket_parse s base = (if s = ''http://[::1]/'' then Some \<lparr>ur_protocol = ''http:'', ur_username = [], ur_password = [],
     ur_hostname = ''[::1]'', ur_port = [], ur_pathname = ''/'', ur_query = None, ur_fragment = None\<rparr> else None)"

lemma ipv6_seed_has_no_default_profile_witness:
  "create_default_draft (sample_scope_env\<lparr>se_parse := bracket_parse\<rparr>) ''A'' ''http://[::1]/'' = Inl PROFILE_INVALID"
proof -
  let ?E = "sample_scope_env\<lparr>se_parse := bracket_parse\<rparr>"
  have "normalize_seed ?E ''http://[::1]/'' = Inr ''http://[::1]/''" by code_simp
  moreover obtain seed where "se_parse ?E ''http://[::1]/'' None = Some seed" "ur_hostname seed = ''[::1]''"
    by (simp add: bracket_parse_def)
  ultimately show ?thesis using ipv6_seed_has_no_default_profile by simp
qed

section \<open>Addresses\<close>

text \<open>
  An IPv6 literal that embeds an IPv4 address has the class of that address, so that a private or
  loopback address cannot pass as public in its mapped form.
\<close>

lemma mapped_address_has_embedded_class:
  assumes "ipv6_words h = Some (mapped_words a b c d)" "b < 256" "d < 256" "strip_brackets h = h" "to_lower h = h"
  shows "classify_host h = v4_class [a, b, c, d]"
  using assms words_not_v4[OF assms(1)] mapped_class[OF assms(2,3)] by (simp add: classify_host_def)

lemma mapped_address_has_embedded_class_witness:
  "classify_host ''::ffff:7f00:1'' = v4_class [127, 0, 0, 1] \<and> v4_class [127, 0, 0, 1] = IpLoopback"
proof -
  have five: "replicate 5 (0::nat) = [0, 0, 0, 0, 0]" by (simp add: numeral_eq_Suc)
  have "ipv6_words ''::ffff:7f00:1'' = Some (mapped_words 127 0 0 1)"
    by (simp add: mapped_words_def ipv6_words_def Let_def to_lower_def lower_char_def is_upper_def code_def parse_side_def
        side_words_def ipv4_bytes_def lower_hex_def hex_value_def is_digit_def five)
  then have "classify_host ''::ffff:7f00:1'' = v4_class [127, 0, 0, 1]"
    by (rule mapped_address_has_embedded_class)
      (simp_all add: strip_brackets_def to_lower_def lower_char_def is_upper_def code_def)
  then show ?thesis by (simp add: v4_class_def classify_v4_def)
qed

section \<open>Canonical links and redirects\<close>

lemma canonical_classes:
  assumes "classify_canonical E p i t aliases = Inr d" "acyclic (alias_rel aliases)"
  shows "cd_class d = CanonNew \<Longrightarrow> \<exists>s c. cd_source d = Some s \<and> cd_canonical d = Some c \<and>
      map_of aliases s = None \<and> acyclic (alias_rel ((s, c) # aliases))"
    and "CANONICAL_CYCLE \<in> set (cd_reasons d) \<Longrightarrow> \<exists>s c. cd_source d = Some s \<and> cd_canonical d = Some c \<and>
      (c, s) \<in> (alias_rel aliases)\<^sup>*"
proof -
  have walk: "alias_cycle aliases s [] c = ((c, s) \<in> (alias_rel aliases)\<^sup>*)" for s c
    using alias_cycle_iff[OF assms(2)] by simp
  obtain src can where can: "evaluate_scope E p i = Inr src"
    "evaluate_scope E p (i\<lparr>si_url := None, si_rawUrl := Some t, si_baseUrl := canonical_source_base i src\<rparr>) = Inr can"
    using assms(1) by (auto simp: classify_canonical_def result_simps)
  note run = assms(1)[unfolded classify_canonical_def Let_def can ebind_simps]
  have hashes: "\<exists>s c. dn_identityHash src = Some s \<and> dn_identityHash can = Some c"
    if "cd_class d = CanonNew \<or> CANONICAL_CYCLE \<in> set (cd_reasons d)"
    using run that by (cases "dn_identityHash src"; cases "dn_identityHash can") auto
  show "\<exists>s c. cd_source d = Some s \<and> cd_canonical d = Some c \<and> map_of aliases s = None \<and> acyclic (alias_rel ((s, c) # aliases))"
    if new: "cd_class d = CanonNew"
  proof -
    obtain s c where sc: "dn_identityHash src = Some s" "dn_identityHash can = Some c" using hashes new by blast
    have "\<not> alias_cycle aliases s [] c" "map_of aliases s = None" "cd_source d = Some s" "cd_canonical d = Some c"
      using run new by (auto simp: sc split: if_splits option.splits)
    then show ?thesis using assms(2) by (simp add: walk alias_rel_new acyclic_insert)
  qed
  show "\<exists>s c. cd_source d = Some s \<and> cd_canonical d = Some c \<and> (c, s) \<in> (alias_rel aliases)\<^sup>*"
    if cyc: "CANONICAL_CYCLE \<in> set (cd_reasons d)"
  proof -
    obtain s c where sc: "dn_identityHash src = Some s" "dn_identityHash can = Some c" using hashes cyc by blast
    have "alias_cycle aliases s [] c" "cd_source d = Some s" "cd_canonical d = Some c"
      using run cyc by (auto simp: sc split: if_splits option.splits)
    then show ?thesis by (simp add: walk)
  qed
qed

text \<open>C24
  A canonical link that is accepted keeps the aliases free of cycles: adding the source as an alias of
  the canonical identity closes no cycle, and a reported cycle would have been one.
\<close>

lemma canonical_keeps_aliases_acyclic:
  assumes "classify_canonical E p i t aliases = Inr d" "acyclic (alias_rel aliases)"
  shows "(cd_class d = CanonNew \<longrightarrow> (\<exists>s c. cd_source d = Some s \<and> cd_canonical d = Some c \<and>
      map_of aliases s = None \<and> acyclic (alias_rel ((s, c) # aliases)))) \<and>
    (CANONICAL_CYCLE \<in> set (cd_reasons d) \<longrightarrow> (\<exists>s c. cd_source d = Some s \<and> cd_canonical d = Some c \<and>
      (c, s) \<in> (alias_rel aliases)\<^sup>*))"
  using canonical_classes[OF assms] by blast

lemma canonical_keeps_aliases_acyclic_witness:
  "\<exists>d s c. classify_canonical sample_scope_env sample_profile (sample_input ''https://a.io/x?b=1&utm_source=m&a=2'') ''https://a.io/y'' [] = Inr d \<and>
     cd_class d = CanonNew \<and> cd_source d = Some s \<and> cd_canonical d = Some c \<and> acyclic (alias_rel [(s, c)])"
proof -
  let ?i = "sample_input ''https://a.io/x?b=1&utm_source=m&a=2''"
  obtain src where src: "evaluate_scope sample_scope_env sample_profile ?i = Inr src" using sample_evaluated[OF sample_queries(1)] .
  have normal: "dn_normalizedUrl src = Some (href (normalized_url sample_scope_env sample_profile sample_page))"
    using evaluated_fields(3)[OF sample_queries(1) src] .
  let ?j = "?i\<lparr>si_url := None, si_rawUrl := Some ''https://a.io/y'', si_baseUrl := canonical_source_base ?i src\<rparr>"
  have "se_parse sample_scope_env ''https://a.io/y'' base = Some sample_target" for base
    by (simp add: sample_scope_env_def sample_parse_def starts_with_def sample_target_def)
  then have "resolve_url sample_scope_env sample_profile ?j = resolve_url sample_scope_env sample_profile (sample_input ''https://a.io/y'')"
    by (simp add: resolve_url_def sample_input_def no_input_def first_some_def cong: option.case_cong)
  also have "\<dots> = Inr (''a.io'', sample_target)" by code_simp
  finally have ev: "evaluates sample_scope_env sample_profile ?j sample_profile 0 0 ''a.io'' sample_target"
    by (intro sample_evaluates) (simp_all add: sample_input_def no_input_def requested_depth_def eligible_count_def first_some_def)
  obtain can where can: "evaluate_scope sample_scope_env sample_profile ?j = Inr can" using sample_evaluated[OF ev] .
  have "dn_eligible can" using sample_eligible[OF ev can] sample_target_rules(1-3) .
  moreover have hashes: "dn_identityHash can = Some (''scope-identity-v1'' @ [CHR 0x0A] @ ''https://a.io/y'')"
    "dn_identityHash src = Some (''scope-identity-v1'' @ [CHR 0x0A] @ href (identity_url sample_scope_env sample_profile sample_page))"
    using evaluated_fields(5)[OF ev can] evaluated_fields(5)[OF sample_queries(1) src] sample_target_rules(6)
    by (simp_all add: identity_hash_def sample_scope_env_def)
  moreover have "href (identity_url sample_scope_env sample_profile sample_page) = ''https://a.io/x?a=2&b=1''" by code_simp
  ultimately obtain d where d: "classify_canonical sample_scope_env sample_profile ?i ''https://a.io/y'' [] = Inr d" "cd_class d = CanonNew"
    by (simp add: classify_canonical_def src can alias_cycle.simps)
  have "acyclic (alias_rel [])" by (simp add: alias_rel_def acyclic_def)
  then show ?thesis using canonical_keeps_aliases_acyclic[OF d(1)] d by blast
qed

lemma followed_redirect:
  assumes "classify_redirect E p r = Inr d" "rdd_class d = FollowInScope \<or> rdd_class d = FollowApprovedExternal"
  shows "evaluate_scope E p (redirect_target r) = Inr (rdd_target d)" "dn_eligible (rdd_target d)"
    "int (length (rdi_chain r)) < lm_maxRedirects (sp_limits p)"
    "\<forall>u c h. u \<in> set (rdi_chain r) \<and> evaluate_scope E p (chain_input r u) = Inr c \<and> dn_identityHash c = Some h \<and> h \<noteq> [] \<longrightarrow>
      dn_identityHash (rdd_target d) \<noteq> Some h"
    "\<exists>src. evaluate_scope E p (redirect_source r) = Inr src \<and>
      (starts_opt (dn_normalizedUrl src) ''https:'' \<and> starts_opt (dn_normalizedUrl (rdd_target d)) ''http:'' \<longrightarrow> sp_allowDowngrade p)"
    "rdd_class d = FollowInScope \<longrightarrow> dn_relation (rdd_target d) \<noteq> RelExternal"
    "rdd_class d = FollowApprovedExternal \<longrightarrow> sp_allowExternal p"
proof -
  obtain target where target: "evaluate_scope E p (redirect_target r) = Inr target"
    using assms(1) by (auto simp: classify_redirect_def result_simps)
  note run = assms(1)[unfolded classify_redirect_def Let_def target ebind_simps]
  have valid: "\<not> (rdi_statusCode r \<notin> {301, 302, 303, 307, 308} \<or> dn_normalizedUrl target = None)"
    using run assms(2) by (cases "rdi_statusCode r \<notin> {301, 302, 303, 307, 308} \<or> dn_normalizedUrl target = None") auto
  note run1 = run[unfolded if_not_P[OF valid]]
  have below: "\<not> lm_maxRedirects (sp_limits p) \<le> int (length (rdi_chain r))"
    using run1 assms(2) by (cases "lm_maxRedirects (sp_limits p) \<le> int (length (rdi_chain r))") auto
  note run2 = run1[unfolded if_not_P[OF below]]
  obtain chain where chain: "emap (\<lambda>u. evaluate_scope E p (chain_input r u)) (rdi_chain r) = Inr chain"
    using run2 by (auto simp: ebind_Inr_iff)
  note run3 = run2[unfolded chain ebind_simps]
  have fresh: "\<not> (case dn_identityHash target of None \<Rightarrow> False | Some h \<Rightarrow> h \<in> set (chain_hashes chain))"
    using run3 assms(2) by (cases "case dn_identityHash target of None \<Rightarrow> False | Some h \<Rightarrow> h \<in> set (chain_hashes chain)") auto
  note run4 = run3[unfolded if_not_P[OF fresh]]
  obtain src where src: "evaluate_scope E p (redirect_source r) = Inr src" using run4 by (auto simp: ebind_Inr_iff)
  note run5 = run4[unfolded src ebind_simps]
  let ?down = "starts_opt (dn_normalizedUrl src) ''https:'' \<and> starts_opt (dn_normalizedUrl target) ''http:'' \<and> \<not> sp_allowDowngrade p"
  have no_down: "\<not> ?down"
  proof
    assume down: ?down
    show False using run5[unfolded if_P[OF down]] assms(2) by auto
  qed
  note run6 = run5[unfolded if_not_P[OF no_down]]
  have facts: "rdd_target d = target \<and> dn_eligible target \<and> (rdd_class d = FollowInScope \<longrightarrow> dn_relation target \<noteq> RelExternal) \<and>
      (rdd_class d = FollowApprovedExternal \<longrightarrow> sp_allowExternal p)"
  proof (cases "dn_eligible target \<and> dn_relation target \<noteq> RelExternal")
    case True
    show ?thesis using run6[unfolded if_P[OF True]] True by auto
  next
    case False
    note run7 = run6[unfolded if_not_P[OF False]]
    show ?thesis
    proof (cases "dn_eligible target \<and> sp_allowExternal p")
      case True
      show ?thesis using run7[unfolded if_P[OF True]] True by auto
    next
      case False
      show ?thesis using run7[unfolded if_not_P[OF False]] assms(2)
        by (cases "list_ex (\<lambda>c. c \<in> {DOMAIN_DENIED, PATH_DENIED, QUERY_DENIED, PRIVATE_NETWORK_NOT_ALLOWED}) (dn_reasons target)") auto
    qed
  qed
  show "evaluate_scope E p (redirect_target r) = Inr (rdd_target d)" using target facts by simp
  show "dn_eligible (rdd_target d)" "int (length (rdi_chain r)) < lm_maxRedirects (sp_limits p)"
    "rdd_class d = FollowInScope \<longrightarrow> dn_relation (rdd_target d) \<noteq> RelExternal"
    "rdd_class d = FollowApprovedExternal \<longrightarrow> sp_allowExternal p"
    using facts below by simp_all
  show "\<exists>src. evaluate_scope E p (redirect_source r) = Inr src \<and>
      (starts_opt (dn_normalizedUrl src) ''https:'' \<and> starts_opt (dn_normalizedUrl (rdd_target d)) ''http:'' \<longrightarrow> sp_allowDowngrade p)"
    using src facts no_down by auto
  show "\<forall>u c h. u \<in> set (rdi_chain r) \<and> evaluate_scope E p (chain_input r u) = Inr c \<and> dn_identityHash c = Some h \<and> h \<noteq> [] \<longrightarrow>
      dn_identityHash (rdd_target d) \<noteq> Some h"
  proof (intro allI impI)
    fix u c h
    assume h: "u \<in> set (rdi_chain r) \<and> evaluate_scope E p (chain_input r u) = Inr c \<and> dn_identityHash c = Some h \<and> h \<noteq> []"
    have "c \<in> set chain" using emap_member[OF chain, of u] h by auto
    then have "h \<in> set (chain_hashes chain)" using h by (force simp: chain_hashes_def)
    then show "dn_identityHash (rdd_target d) \<noteq> Some h" using facts fresh by auto
  qed
qed

text \<open>C23
  A redirect that is followed leads to an eligible URL, after fewer hops than the profile allows, with
  an identity that no hop of the chain had, never from https to http unless the profile allows it, and
  off the site only where approved external targets are allowed.
\<close>

lemma followed_redirect_is_safe:
  assumes "classify_redirect E p r = Inr d" "rdd_class d = FollowInScope \<or> rdd_class d = FollowApprovedExternal"
  shows "evaluate_scope E p (redirect_target r) = Inr (rdd_target d) \<and> dn_eligible (rdd_target d) \<and>
    int (length (rdi_chain r)) < lm_maxRedirects (sp_limits p) \<and>
    (\<forall>u c h. u \<in> set (rdi_chain r) \<and> evaluate_scope E p (chain_input r u) = Inr c \<and> dn_identityHash c = Some h \<and> h \<noteq> [] \<longrightarrow>
      dn_identityHash (rdd_target d) \<noteq> Some h) \<and>
    (\<exists>src. evaluate_scope E p (redirect_source r) = Inr src \<and>
      (starts_opt (dn_normalizedUrl src) ''https:'' \<and> starts_opt (dn_normalizedUrl (rdd_target d)) ''http:'' \<longrightarrow> sp_allowDowngrade p)) \<and>
    (if rdd_class d = FollowInScope then dn_relation (rdd_target d) \<noteq> RelExternal else sp_allowExternal p)"
  using followed_redirect[OF assms] assms(2) by auto

definition sample_redirect :: redirect_input where
  "sample_redirect = \<lparr>rdi_sourceUrl = ''https://a.io/x?a=2&token=t&b=1'', rdi_targetUrl = ''https://a.io/y'', rdi_statusCode = 302,
     rdi_chain = [], rdi_depth = None\<rparr>"

lemma followed_redirect_is_safe_witness:
  "\<exists>d. classify_redirect sample_scope_env sample_profile sample_redirect = Inr d \<and> rdd_class d = FollowInScope \<and>
     dn_eligible (rdd_target d)"
proof -
  let ?t = "redirect_target sample_redirect"
  have "resolve_url sample_scope_env sample_profile ?t = Inr (''a.io'', sample_target)" by code_simp
  moreover have "bounded_safe_int 0 1001 (Num 0) = Some 0"
    using bounded_safe_int_js_int[of 0 1001 0] by (simp add: max_safe_integer_def)
  ultimately have ev: "evaluates sample_scope_env sample_profile ?t sample_profile 0 0 ''a.io'' sample_target"
    by (intro sample_evaluates) (simp_all add: redirect_target_def sample_redirect_def no_input_def requested_depth_def
        eligible_count_def first_some_def)
  obtain target where target: "evaluate_scope sample_scope_env sample_profile ?t = Inr target" using sample_evaluated[OF ev] .
  have eligible: "dn_eligible target" using sample_eligible[OF ev target] sample_target_rules(1-3) .
  have fields: "dn_relation target = SameOrigin" "dn_normalizedUrl target = Some ''https://a.io/y''"
    using evaluated_fields(3,9)[OF ev target] sample_target_rules(4,5) by simp_all
  have "redirect_source sample_redirect = sample_input ''https://a.io/x?a=2&token=t&b=1''"
    by (simp add: redirect_source_def sample_redirect_def sample_input_def)
  then obtain src where src: "evaluate_scope sample_scope_env sample_profile (redirect_source sample_redirect) = Inr src"
    using sample_evaluated[OF sample_queries(2)] by metis
  have "\<not> starts_opt (dn_normalizedUrl target) ''http:''" by (simp add: fields starts_opt_def starts_with_def)
  moreover have "lm_maxRedirects (sp_limits sample_profile) = 2" by (simp add: sample_profile_def)
  moreover have "\<not> (case dn_identityHash target of None \<Rightarrow> False | Some h \<Rightarrow> h \<in> set (chain_hashes []))"
    by (simp add: chain_hashes_def split: option.split)
  moreover have "rdi_statusCode sample_redirect = 302" "rdi_chain sample_redirect = []" by (simp_all add: sample_redirect_def)
  ultimately obtain d where d: "classify_redirect sample_scope_env sample_profile sample_redirect = Inr d" "rdd_class d = FollowInScope"
    using eligible fields by (simp add: classify_redirect_def target src)
  then show ?thesis using followed_redirect_is_safe[OF d(1)] by blast
qed

end
