(* ===== verification/Json_Inject.thy ===== *)
theory Json_Inject
  imports Json_Canon
begin

text \<open>
  \<open>JSON.stringify\<close> on strings and on objects whose values are strings loses nothing: a text can
  be read back, also when more text follows it.
\<close>

definition hex_value :: "char \<Rightarrow> nat" where
  "hex_value c = (if code c < 58 then code c - 48 else code c - 87)"

text \<open>The character at the head of an escaped text and the text after it; \<open>None\<close> at the closing quote.\<close>

definition unquote_char :: "string \<Rightarrow> (char \<times> string) option" where
  "unquote_char s = (case s of
     [] \<Rightarrow> None
   | x # r \<Rightarrow>
       if code x = 34 then None
       else if code x \<noteq> 92 then Some (x, r)
       else (case r of
           [] \<Rightarrow> None
         | y # t \<Rightarrow>
             if y = CHR ''b'' then Some (char_of (8::nat), t)
             else if y = CHR ''t'' then Some (char_of (9::nat), t)
             else if y = CHR ''n'' then Some (char_of (10::nat), t)
             else if y = CHR ''f'' then Some (char_of (12::nat), t)
             else if y = CHR ''r'' then Some (char_of (13::nat), t)
             else if y = CHR ''u'' then Some (char_of (16 * hex_value (t ! 2) + hex_value (t ! 3)), drop 4 t)
             else Some (y, t)))"

lemma hex_value_digit: "d < 16 \<Longrightarrow> hex_value (digit_char d) = d"
  by (auto simp: hex_value_def digit_char_def)

lemma unquote_quote_char: "unquote_char (quote_char c @ r) = Some (c, r)"
proof -
  have eq: "code c = n \<Longrightarrow> char_of n = c" for n by (metis char_of_code)
  have hex: "char_of (16 * hex_value (digit_char (code c div 16)) + hex_value (digit_char (code c mod 16))) = c" if "code c < 32"
    using that by (simp add: hex_value_digit)
  have letters: "code (CHR ''b'') = 98" "code (CHR ''t'') = 116" "code (CHR ''n'') = 110" "code (CHR ''f'') = 102"
    "code (CHR ''r'') = 114" "code (CHR ''u'') = 117" by (simp_all add: code_def)
  have other: "char_of (34::nat) \<noteq> CHR ''b''" "char_of (34::nat) \<noteq> CHR ''t''" "char_of (34::nat) \<noteq> CHR ''n''"
    "char_of (34::nat) \<noteq> CHR ''f''" "char_of (34::nat) \<noteq> CHR ''r''" "char_of (34::nat) \<noteq> CHR ''u''"
    "char_of (92::nat) \<noteq> CHR ''b''" "char_of (92::nat) \<noteq> CHR ''t''" "char_of (92::nat) \<noteq> CHR ''n''"
    "char_of (92::nat) \<noteq> CHR ''f''" "char_of (92::nat) \<noteq> CHR ''r''" "char_of (92::nat) \<noteq> CHR ''u''"
    by (simp_all add: char_of_def)
  show ?thesis
    by (auto simp: quote_char_def unquote_char_def Let_def other hex dest!: eq)
qed

lemma quote_char_unique: "quote_char c @ r = quote_char d @ s \<Longrightarrow> c = d \<and> r = s"
  by (metis unquote_quote_char option.inject prod.inject)

lemma quoted_unique:
  "concat (map quote_char s) @ char_of (34::nat) # r = concat (map quote_char t) @ char_of (34::nat) # r' \<Longrightarrow> s = t \<and> r = r'"
proof (induction s arbitrary: t)
  have closing: "unquote_char (char_of (34::nat) # x) = None" for x by (simp add: unquote_char_def)
  case Nil
  then show ?case
  proof (cases t)
    case (Cons d ds)
    then have "unquote_char (char_of (34::nat) # r) = Some (d, concat (map quote_char ds) @ char_of (34::nat) # r')"
      using Nil unquote_quote_char by simp
    then show ?thesis using closing by simp
  qed simp
next
  have closing: "unquote_char (char_of (34::nat) # x) = None" for x by (simp add: unquote_char_def)
  case (Cons c cs)
  then show ?case
  proof (cases t)
    case Nil
    then have "unquote_char (char_of (34::nat) # r') = Some (c, concat (map quote_char cs) @ char_of (34::nat) # r)"
      using Cons(2) unquote_quote_char[of c] by (metis append_assoc concat.simps list.map append_Nil)
    then show ?thesis using closing by simp
  next
    case (Cons d ds)
    then have "c = d \<and> concat (map quote_char cs) @ char_of (34::nat) # r = concat (map quote_char ds) @ char_of (34::nat) # r'"
      using Cons.prems quote_char_unique[of c "concat (map quote_char cs) @ char_of (34::nat) # r" d] by simp
    then show ?thesis using Cons.IH[of ds] Cons by simp
  qed
qed

lemma json_quote_unique: "json_quote s @ r = json_quote t @ r' \<longleftrightarrow> s = t \<and> r = r'"
  using quoted_unique[of s r t r'] by (auto simp: json_quote_def)

text \<open>Objects whose values are strings.\<close>

definition string_fields :: "(string \<times> string) list \<Rightarrow> string" where
  "string_fields kvs = commas (map (\<lambda>(k, v). json_quote k @ '':'' @ json_quote v) kvs)"

lemma stringify_strings: "stringify (JObj (map (\<lambda>(n, v). (n, JStr v)) kvs)) = ''{'' @ string_fields kvs @ ''}''"
proof -
  have "map (\<lambda>(k, v). json_quote k @ '':'' @ v) (map (map_prod id stringify) (map (\<lambda>(n, v). (n, JStr v)) kvs)) =
      map (\<lambda>(k, v). json_quote k @ '':'' @ json_quote v) kvs"
    by (induction kvs) auto
  then show ?thesis by (simp only: stringify.simps string_fields_def)
qed

lemma string_fields_simps:
  "string_fields [] = []"
  "string_fields [(k, v)] = json_quote k @ '':'' @ json_quote v"
  "string_fields ((k, v) # x # kvs) = json_quote k @ '':'' @ json_quote v @ '','' @ string_fields (x # kvs)"
  by (simp_all add: string_fields_def)

lemma string_fields_read: "string_fields kvs @ CHR ''}'' # r = string_fields kvs' @ CHR ''}'' # r' \<Longrightarrow> kvs = kvs' \<and> r = r'"
proof (induction kvs arbitrary: kvs')
  have quote_not: "\<not> (CHR ''}'' # x = json_quote k @ y)" "\<not> (json_quote k @ y = CHR ''}'' # x)" for x k y
    by (simp_all add: json_quote_def char_of_def)
  case Nil
  then show ?case
    by (cases kvs'; cases "tl kvs'") (auto simp: string_fields_simps quote_not)
next
  have quote_not: "\<not> (json_quote k @ y = CHR ''}'' # x)" for x k y by (simp add: json_quote_def char_of_def)
  case (Cons kv kvs)
  obtain k v where kv: "kv = (k, v)" by force
  obtain k' v' rest where k': "kvs' = (k', v') # rest"
    using Cons(2) by (cases kvs'; cases kvs) (auto simp: kv string_fields_simps quote_not)
  show ?case
    using Cons kv k' by (cases kvs; cases rest) (auto simp: string_fields_simps json_quote_unique)
qed

lemma string_fields_unique: "string_fields kvs @ CHR ''}'' # r = string_fields kvs' @ CHR ''}'' # r' \<longleftrightarrow> kvs = kvs' \<and> r = r'"
  using string_fields_read by auto

lemma string_fields_inj: "string_fields kvs = string_fields kvs' \<longleftrightarrow> kvs = kvs'"
  using string_fields_unique[of kvs "[]" kvs' "[]"] by auto

end
