(* ===== verification/Replay_Policy.thy ===== *)
theory Replay_Policy
  imports Url_Text Json_Inject
begin

text \<open>
  packages/archive-core/src/network.ts: the identity of a request that may be answered from the
  archive, the policy of what may be captured, the redaction of headers, URLs and bodies, and the
  Strict Offline decision. Headers and other JavaScript objects are association lists in the order
  \<open>Object.entries\<close> gives. The URL parser, \<open>toLowerCase\<close> on arbitrary text, SHA-256
  and, for a URL that is neither http nor https, its serialisation and its origin are the fields of
  \<open>replay_env\<close>; the serialisation of such a URL is the one after its fragment and its
  credentials have been cleared.
\<close>

section \<open>Platform and errors\<close>

record replay_env =
  rp_parse :: "string \<Rightarrow> url option"
  rp_text :: "url \<Rightarrow> string"
  rp_origin :: "url \<Rightarrow> string"
  rp_lower :: "units \<Rightarrow> units"
  rp_sha :: "nat list \<Rightarrow> string"

datatype replay_error = MethodUnsupported | UrlInvalid | ProtocolUnsupported | UrlHasCredentials
  | SensitiveQuery | ScopeValueInvalid | PolicyInvalid

definition url_text :: "'x replay_env_scheme \<Rightarrow> url \<Rightarrow> string" where
  "url_text E u = (if is_http u then href u else rp_text E u)"

definition url_origin :: "'x replay_env_scheme \<Rightarrow> url \<Rightarrow> string" where
  "url_origin E u = (if is_http u then origin_of u else rp_origin E u)"

text \<open>\<open>new URL(value)\<close>, and the cleared fields every redaction starts with.\<close>

definition parse_url :: "'x replay_env_scheme \<Rightarrow> string \<Rightarrow> replay_error + url" where
  "parse_url E v = (case rp_parse E v of None \<Rightarrow> Inl UrlInvalid | Some u \<Rightarrow> Inr u)"

definition without_login :: "url \<Rightarrow> url" where
  "without_login u = u\<lparr>ur_username := [], ur_password := [], ur_fragment := None\<rparr>"

definition search_of :: "url \<Rightarrow> string" where
  "search_of u = (case ur_query u of None \<Rightarrow> [] | Some q \<Rightarrow> if q = [] then [] else CHR ''?'' # q)"

text \<open>\<open>Object.fromEntries\<close>: a repeated key keeps its place and takes the last value.\<close>

definition from_entries :: "('k \<times> 'v) list \<Rightarrow> ('k \<times> 'v) list" where
  "from_entries kvs = foldl (\<lambda>m (k, v). AList.update k v m) [] kvs"

type_synonym headers = "(string \<times> string) list"

section \<open>The Phase 13 decision\<close>

record replay_response =
  rr_status :: int
  rr_headers :: headers
  rr_bodyDigest :: string
  rr_bodyBytes :: nat

record strict_offline_policy =
  so_version :: int
  so_enabled :: bool
  so_localOrigins :: "string list"

datatype replay_decision = Fulfill | Abort | AllowLocal | AllowNetwork

record replay_outcome =
  ro_decision :: replay_decision
  ro_reasonCode :: string
  ro_key :: string
  ro_safeUrl :: string

definition sensitive_headers :: "string list" where
  "sensitive_headers = [''authorization'', ''cookie'', ''proxy-authorization'', ''set-cookie'', ''x-api-key'',
     ''x-auth-token'', ''x-csrf-token'', ''x-forwarded-for'']"

definition safe_url :: "'x replay_env_scheme \<Rightarrow> string \<Rightarrow> string" where
  "safe_url E v = (case rp_parse E v of
     None \<Rightarrow> ''invalid-url''
   | Some u0 \<Rightarrow>
       (let u = without_login u0;
            u = (if search_of u \<noteq> [] then u\<lparr>ur_query := Some ''[redacted]''\<rparr> else u)
        in take 2048 (url_text E u)))"

definition replay_method :: "string \<Rightarrow> bool" where
  "replay_method m = (m = ''GET'' \<or> m = ''HEAD'')"

definition canonical_replay_request_key :: "'x replay_env_scheme \<Rightarrow> string \<Rightarrow> string \<Rightarrow> replay_error + string" where
  "canonical_replay_request_key E method v =
     ebind (ensure (replay_method method) MethodUnsupported) (\<lambda>_.
     ebind (parse_url E v) (\<lambda>u.
     ebind (ensure (is_http u) ProtocolUnsupported) (\<lambda>_.
     Inr (method @ '' '' @ url_text E (without_login u)))))"

definition filter_replay_headers :: "headers \<Rightarrow> headers" where
  "filter_replay_headers hs =
     from_entries (sort_key fst (filter (\<lambda>(n, v). n \<notin> set sensitive_headers)
       (map (\<lambda>(n, v). (to_lower n, take 2048 v)) hs)))"

definition decide_network_replay ::
    "'x replay_env_scheme \<Rightarrow> string \<Rightarrow> string \<Rightarrow> replay_response option \<Rightarrow> strict_offline_policy \<Rightarrow> replay_error + replay_outcome" where
  "decide_network_replay E method v matched strict =
     ebind (canonical_replay_request_key E method v) (\<lambda>key.
     ebind (parse_url E v) (\<lambda>parsed.
     (let local = (url_origin E parsed \<in> set (so_localOrigins strict));
          outcome = (\<lambda>d r. \<lparr>ro_decision = d, ro_reasonCode = r, ro_key = key, ro_safeUrl = safe_url E v\<rparr>)
      in if matched \<noteq> None then Inr (outcome Fulfill ''REPLAY_MATCH'')
         else if local then Inr (outcome AllowLocal ''LOCAL_RUNTIME_ALLOWED'')
         else if so_enabled strict then Inr (outcome Abort ''STRICT_OFFLINE_UNKNOWN_DEPENDENCY'')
         else Inr (outcome AllowNetwork ''NETWORK_ALLOWED''))))"

definition validate_strict_offline_policy :: "'x replay_env_scheme \<Rightarrow> strict_offline_policy \<Rightarrow> replay_error + strict_offline_policy" where
  "validate_strict_offline_policy E p =
     (if so_version p \<noteq> 1 \<or> list_ex (\<lambda>v. case rp_parse E v of None \<Rightarrow> True | Some u \<Rightarrow> url_origin E u \<noteq> v) (so_localOrigins p)
      then Inl PolicyInvalid
      else Inr (p\<lparr>so_localOrigins := sort (remdups (so_localOrigins p))\<rparr>))"

section \<open>Request identity\<close>

record replay_identity_input =
  rq_projectId :: string
  rq_runId :: string
  rq_revisionId :: string
  rq_method :: string
  rq_url :: string
  rq_headers :: headers
  rq_ignoredKeys :: "units list"

record replay_identity =
  ri_projectId :: string
  ri_runId :: string
  ri_revisionId :: string
  ri_method :: string
  ri_url :: string
  ri_headers :: headers
  ri_key :: string

definition selected_replay_headers :: "string list" where
  "selected_replay_headers = [''accept'', ''accept-language'', ''content-type'']"

definition default_tracking_keys :: "units list" where
  "default_tracking_keys = map to_units [''fbclid'', ''gclid'', ''mc_cid'', ''mc_eid'', ''utm_campaign'', ''utm_content'',
     ''utm_medium'', ''utm_source'', ''utm_term'']"

text \<open>The words of \<open>REPLAY_SENSITIVE_QUERY_KEYS\<close>, whose flag \<open>i\<close> folds ASCII letters only.\<close>

definition sensitive_query_words :: "units list" where
  "sensitive_query_words = map to_units [''accesstoken'', ''access_token'', ''access-token'', ''apikey'', ''api_key'', ''api-key'',
     ''authorization'', ''auth'', ''code'', ''cookie'', ''credential'', ''csrf'', ''jwt'', ''otp'', ''pass'', ''password'',
     ''secret'', ''session'', ''token'']"

definition sensitive_query_key :: "units \<Rightarrow> bool" where
  "sensitive_query_key k = (map ascii_lower k \<in> set sensitive_query_words)"

definition replay_scope_value :: "string \<Rightarrow> replay_error + string" where
  "replay_scope_value v = (if v = [] \<or> 256 < length v \<or> list_ex is_control v then Inl ScopeValueInvalid else Inr v)"

definition ignored_query_key :: "'x replay_env_scheme \<Rightarrow> units list \<Rightarrow> units \<Rightarrow> bool" where
  "ignored_query_key E ignored k = (rp_lower E k \<in> set (default_tracking_keys @ map (rp_lower E) ignored))"

definition normalize_replay_url :: "'x replay_env_scheme \<Rightarrow> units list \<Rightarrow> string \<Rightarrow> replay_error + string" where
  "normalize_replay_url E ignored v =
     ebind (parse_url E v) (\<lambda>u.
     ebind (ensure (is_http u) ProtocolUnsupported) (\<lambda>_.
     ebind (ensure (ur_username u = [] \<and> ur_password u = []) UrlHasCredentials) (\<lambda>_.
     ebind (ensure (\<not> list_ex (\<lambda>(k, x). sensitive_query_key k) (search_params u)) SensitiveQuery) (\<lambda>_.
     Inr (href (set_params (sort (filter (\<lambda>(k, x). \<not> ignored_query_key E ignored k) (search_params u)))
       (u\<lparr>ur_fragment := None\<rparr>)))))))"

definition safe_replay_url :: "'x replay_env_scheme \<Rightarrow> string \<Rightarrow> string" where
  "safe_replay_url E v = (case rp_parse E v of
     None \<Rightarrow> ''invalid-url''
   | Some u \<Rightarrow> take 2048 (url_text E (set_params
       (map (\<lambda>(k, x). (k, if sensitive_query_key k then to_units ''[redacted]'' else x)) (search_params u))
       (without_login u))))"

definition select_replay_match_headers :: "headers \<Rightarrow> headers" where
  "select_replay_match_headers hs =
     from_entries (sort_key fst (filter
       (\<lambda>(n, v). n \<in> set selected_replay_headers \<and> n \<notin> set sensitive_headers \<and> v \<noteq> [])
       (map (\<lambda>(n, v). (to_lower n, take 512 (js_trim v))) hs)))"

definition headers_json :: "headers \<Rightarrow> json" where
  "headers_json hs = JObj (map (\<lambda>(n, v). (n, JStr v)) hs)"

definition identity_basis :: "string \<Rightarrow> string \<Rightarrow> string \<Rightarrow> string \<Rightarrow> string \<Rightarrow> headers \<Rightarrow> json" where
  "identity_basis project run revision method u hs = JObj
     [(''contractVersion'', JNum 1), (''projectId'', JStr project), (''runId'', JStr run),
      (''projectRevisionId'', JStr revision), (''method'', JStr method), (''normalizedUrl'', JStr u),
      (''selectedHeaders'', headers_json hs)]"

definition canonical_replay_request_identity :: "'x replay_env_scheme \<Rightarrow> replay_identity_input \<Rightarrow> replay_error + replay_identity" where
  "canonical_replay_request_identity E q =
     ebind (ensure (replay_method (rq_method q)) MethodUnsupported) (\<lambda>_.
     ebind (replay_scope_value (rq_projectId q)) (\<lambda>project.
     ebind (replay_scope_value (rq_runId q)) (\<lambda>run.
     ebind (replay_scope_value (rq_revisionId q)) (\<lambda>revision.
     ebind (normalize_replay_url E (rq_ignoredKeys q) (rq_url q)) (\<lambda>u.
     (let hs = select_replay_match_headers (rq_headers q)
      in Inr \<lparr>ri_projectId = project, ri_runId = run, ri_revisionId = revision, ri_method = rq_method q, ri_url = u,
           ri_headers = hs, ri_key = canonical_json (identity_basis project run revision (rq_method q) u hs)\<rparr>))))))"

section \<open>Capture\<close>

record capture_policy =
  cp_enabled :: bool
  cp_allowedMethods :: "string list"
  cp_resourceTypes :: "string list"
  cp_contentTypes :: "string list"
  cp_maximumBytes :: int
  cp_rejectSensitive :: bool

definition default_replay_capture_policy :: capture_policy where
  "default_replay_capture_policy = \<lparr>cp_enabled = True, cp_allowedMethods = [''GET''], cp_resourceTypes = [''fetch'', ''xhr''],
     cp_contentTypes = [''application/json'', ''application/problem+json'', ''application/ld+json'', ''text/json''],
     cp_maximumBytes = 8 * 1024 * 1024, cp_rejectSensitive = True\<rparr>"

datatype eligibility_class = Capturable | CaptureIgnored | CaptureBlocked | CaptureSensitive | CaptureUnsupported | SideEffectRisk

record capture_request =
  cr_method :: string
  cr_url :: string
  cr_resourceType :: string
  cr_contentType :: "string option"
  cr_requestHeaders :: headers
  cr_responseHeaders :: headers

definition media_type :: "string \<Rightarrow> string" where
  "media_type v = to_lower (js_trim (takeWhile (\<lambda>c. c \<noteq> CHR '';'') v))"

definition classify_capture_eligibility ::
    "'x replay_env_scheme \<Rightarrow> capture_policy \<Rightarrow> capture_request \<Rightarrow> eligibility_class \<times> string \<times> string" where
  "classify_capture_eligibility E p r =
     (let safe = safe_replay_url E (cr_url r);
          mime = media_type (case cr_contentType r of None \<Rightarrow> [] | Some t \<Rightarrow> t)
      in if \<not> cp_enabled p then (CaptureIgnored, ''CAPTURE_DISABLED'', safe)
         else if cr_method r \<noteq> ''GET'' then
           (if cr_method r \<in> set [''POST'', ''PUT'', ''PATCH'', ''DELETE''] then SideEffectRisk else CaptureUnsupported,
            ''METHOD_NOT_ELIGIBLE'', safe)
         else if ''GET'' \<notin> set (cp_allowedMethods p) then (CaptureIgnored, ''METHOD_NOT_ENABLED'', safe)
         else if list_ex (\<lambda>(n, v). to_lower n \<in> set sensitive_headers) (cr_requestHeaders r @ cr_responseHeaders r)
           then (CaptureSensitive, ''SENSITIVE_HEADER_PRESENT'', safe)
         else if cr_resourceType r \<notin> set (cp_resourceTypes p) then (CaptureUnsupported, ''RESOURCE_TYPE_NOT_ELIGIBLE'', safe)
         else if mime = [] \<or> \<not> list_ex (\<lambda>prefix. starts_with mime (to_lower prefix)) (cp_contentTypes p)
           then (CaptureIgnored, ''CONTENT_TYPE_NOT_ELIGIBLE'', safe)
         else (Capturable, ''ELIGIBLE_GET_RESPONSE'', safe))"

text \<open>\<open>TextDecoder().decode\<close> drops a byte order mark and never throws.\<close>

definition text_decode :: "nat list \<Rightarrow> units" where
  "text_decode bs = utf8_decode (if take 3 bs = [239, 187, 191] then drop 3 bs else bs)"

definition unit_space :: "nat \<Rightarrow> bool" where
  "unit_space u = ((9 \<le> u \<and> u \<le> 13) \<or> (8192 \<le> u \<and> u \<le> 8202) \<or>
     u \<in> {32, 160, 5760, 8232, 8233, 8239, 8287, 12288, 65279})"

fun somewhere :: "('a list \<Rightarrow> bool) \<Rightarrow> 'a list \<Rightarrow> bool" where
  "somewhere P [] = P []"
| "somewhere P (x # xs) = (P (x # xs) \<or> somewhere P xs)"

definition sensitive_body_words :: "units list" where
  "sensitive_body_words = map to_units [''authorization'', ''cookie'', ''set-cookie'', ''password'', ''otp'', ''phone'',
     ''sessiontoken'', ''session_token'', ''session-token'', ''accesstoken'', ''access_token'', ''access-token'',
     ''apikey'', ''api_key'', ''api-key'']"

definition token_unit :: "nat \<Rightarrow> bool" where
  "token_unit u = ((97 \<le> ascii_lower u \<and> ascii_lower u \<le> 122) \<or> (48 \<le> u \<and> u \<le> 57) \<or> u \<in> {46, 95, 45})"

text \<open>
  \<open>REPLAY_SENSITIVE_BODY_MARKERS\<close> at one position of the text: a quoted sensitive key before
  a colon, or a bearer token of at least eight characters.
\<close>

definition marker_here :: "units \<Rightarrow> bool" where
  "marker_here us =
     (list_ex (\<lambda>w. let key = 34 # w @ [34]; rest = dropWhile unit_space (drop (length key) us)
        in map ascii_lower (take (length key) us) = key \<and> rest \<noteq> [] \<and> hd rest = 58) sensitive_body_words \<or>
      (let rest = drop 6 us; token = dropWhile unit_space rest
       in map ascii_lower (take 6 us) = to_units ''bearer'' \<and> takeWhile unit_space rest \<noteq> [] \<and>
          8 \<le> length (takeWhile token_unit token)))"

definition json_media :: "string \<Rightarrow> bool" where
  "json_media t = list_ex (starts_with (to_lower t)) [''application/json'', ''application/problem+json'', ''application/ld+json'', ''text/json'']"

definition contains_sensitive_replay_body :: "nat list \<Rightarrow> string \<Rightarrow> bool" where
  "contains_sensitive_replay_body body content_type =
     (json_media content_type \<and> somewhere marker_here (text_decode (take (1024 * 1024) body)))"

section \<open>Responses\<close>

definition safe_response_headers :: "string list" where
  "safe_response_headers = [''cache-control'', ''content-language'', ''content-type'', ''etag'', ''expires'', ''last-modified'',
     ''vary'', ''access-control-allow-origin'', ''access-control-allow-credentials'', ''access-control-expose-headers'', ''location'']"

definition unsafe_response_headers :: "string list" where
  "unsafe_response_headers = [''connection'', ''content-encoding'', ''content-length'', ''keep-alive'', ''proxy-authenticate'',
     ''proxy-authorization'', ''set-cookie'', ''transfer-encoding'']"

definition clean_header_value :: "string \<Rightarrow> string" where
  "clean_header_value v = js_trim (take 4096 (map (\<lambda>c. if code c \<in> {0, 10, 13} then CHR '' '' else c) v))"

definition keep_response_header :: "(string \<Rightarrow> bool) option \<Rightarrow> string \<times> string \<Rightarrow> bool" where
  "keep_response_header allow_redirect = (\<lambda>(n, v).
     n \<in> set safe_response_headers \<and> n \<notin> set unsafe_response_headers \<and> v \<noteq> [] \<and>
     (n = ''location'' \<longrightarrow> (case allow_redirect of None \<Rightarrow> False | Some f \<Rightarrow> f v)))"

definition sanitize_replay_response_headers :: "(string \<Rightarrow> bool) option \<Rightarrow> headers \<Rightarrow> headers" where
  "sanitize_replay_response_headers allow_redirect hs =
     from_entries (sort_key fst (from_entries (filter (keep_response_header allow_redirect)
       (map (\<lambda>(n, v). (to_lower n, clean_header_value v)) hs))))"

definition is_replayable_response_status :: "jsnum \<Rightarrow> bool" where
  "is_replayable_response_status s = (case int_value s of None \<Rightarrow> False | Some i \<Rightarrow> 200 \<le> i \<and> i \<le> 599)"

definition is_runtime_local_request :: "'x replay_env_scheme \<Rightarrow> string \<Rightarrow> string \<Rightarrow> bool" where
  "is_runtime_local_request E v runtime_origin = (case (rp_parse E v, rp_parse E runtime_origin) of
     (Some requested, Some expected) \<Rightarrow>
       url_origin E expected = runtime_origin \<and> url_origin E requested = url_origin E expected \<and> is_http requested
   | _ \<Rightarrow> False)"

section \<open>Lookup results and external dependencies\<close>

record replay_snapshot =
  sn_snapshotId :: string
  sn_identity :: replay_identity
  sn_originalUrl :: string
  sn_status :: int
  sn_contentType :: string
  sn_responseHeaders :: headers
  sn_bodySha256 :: string
  sn_bodyBytes :: int
  sn_bodyRelativePath :: string
  sn_capturedAt :: string
  sn_pageId :: "string option"
  sn_workerId :: "string option"

datatype miss_reason = NoCapture | AmbiguousMatch | RevisionMismatch | MethodNotSupported | BlockedByPolicy | SensitiveRequest
  | UnsupportedScheme | UnsupportedProtocol | ExternalDependency | MissingResponseBody | IntegrityFailure

datatype lookup_result = LookupMatch replay_snapshot | LookupMiss miss_reason | LookupAmbiguous "replay_snapshot list"
  | LookupBroken replay_snapshot string

definition classify_replay_miss :: "lookup_result option \<Rightarrow> miss_reason" where
  "classify_replay_miss v = (case v of
     None \<Rightarrow> NoCapture
   | Some (LookupMiss r) \<Rightarrow> r
   | Some (LookupAmbiguous cs) \<Rightarrow> AmbiguousMatch
   | Some (LookupBroken s r) \<Rightarrow> IntegrityFailure
   | Some (LookupMatch s) \<Rightarrow> NoCapture)"

record external_dependency =
  ed_projectId :: string
  ed_runId :: string
  ed_revisionId :: string
  ed_normalizedUrl :: "string option"
  ed_resolvedUrl :: "string option"
  ed_classification :: string

definition dependency_matches :: "'x replay_env_scheme \<Rightarrow> string \<Rightarrow> external_dependency \<Rightarrow> bool" where
  "dependency_matches E target d =
     (case (case ed_normalizedUrl d of Some v \<Rightarrow> Some v | None \<Rightarrow> ed_resolvedUrl d) of
        None \<Rightarrow> False
      | Some v \<Rightarrow> normalize_replay_url E [] v = Inr target)"

definition classify_replay_external_dependency :: "'x replay_env_scheme \<Rightarrow> string \<Rightarrow> external_dependency list option \<Rightarrow> string option" where
  "classify_replay_external_dependency E v dependencies = (case dependencies of
     None \<Rightarrow> None
   | Some ds \<Rightarrow> (case normalize_replay_url E [] v of
       Inl e \<Rightarrow> None
     | Inr target \<Rightarrow> map_option ed_classification (List.find (dependency_matches E target) ds)))"

end
