(* ===== verification/Replay_Store.thy ===== *)
theory Replay_Store
  imports Replay_Policy Schema
begin

text \<open>
  packages/persistence-sqlite/src/replay.ts: the repository of replay snapshots over the tables of
  migration 13 and the body files of the Project. An operation takes the state to a result and the
  state it leaves, also when it fails: a body file is written before the row is inserted. Which paths
  resolve inside the Project and which files can be written are fields of the platform, the random
  identifier of a row is an argument. The header columns hold JSON values, not their text.
\<close>

section \<open>Tables\<close>

datatype snapshot_state = SnapshotComplete | SnapshotRejected | SnapshotIncomplete

record replay_row =
  rw_snapshotId :: string
  rw_projectId :: string
  rw_runId :: string
  rw_revisionId :: string
  rw_captureVersion :: int
  rw_method :: string
  rw_originalUrl :: string
  rw_normalizedUrl :: string
  rw_requestHeaders :: json
  rw_identityKey :: string
  rw_status :: int
  rw_contentType :: string
  rw_responseHeaders :: json
  rw_bodySha256 :: string
  rw_bodyBytes :: int
  rw_bodyPath :: string
  rw_capturedAt :: string
  rw_pageId :: "string option"
  rw_workerId :: "string option"
  rw_state :: snapshot_state

record replay_event =
  rv_eventType :: string
  rv_projectId :: string
  rv_runId :: string
  rv_revisionId :: string
  rv_method :: string
  rv_safeUrl :: string
  rv_identity :: "string option"
  rv_resourceType :: "string option"
  rv_initiatingPage :: "string option"
  rv_reason :: string
  rv_matchState :: string
  rv_strictOffline :: bool
  rv_occurredAt :: string

record replay_event_row = replay_event +
  rv_eventId :: string

record replay_db =
  rd_projects :: "string list"
  rd_runs :: "(string \<times> string \<times> string) list"
  rd_revisions :: "(string \<times> string) list"
  rd_snapshots :: "replay_row list"
  rd_events :: "replay_event_row list"
  rd_files :: "string \<Rightarrow> nat list option"

record store_env = replay_env +
  st_resolves :: "string \<Rightarrow> bool"
  st_writes :: "string \<Rightarrow> bool"

datatype store_error = DatabaseInvalid | ValidationFailed | LimitExceeded | SqlFailure | FileFailure | BadIdentity replay_error

definition snapshot_check :: "replay_row \<Rightarrow> bool" where
  "snapshot_check r =
     (rw_captureVersion r = 1 \<and> rw_method r = ''GET'' \<and> text_between 1 8192 (rw_originalUrl r) \<and>
      text_between 1 8192 (rw_normalizedUrl r) \<and> text_between 1 32768 (rw_identityKey r) \<and>
      100 \<le> rw_status r \<and> rw_status r \<le> 599 \<and> text_between 1 512 (rw_contentType r) \<and>
      length (rw_bodySha256 r) = 64 \<and> 0 \<le> rw_bodyBytes r \<and> text_between 1 2048 (rw_bodyPath r))"

definition snapshot_identity :: "replay_row \<Rightarrow> string \<times> string \<times> string \<times> string \<times> string" where
  "snapshot_identity r = (rw_projectId r, rw_runId r, rw_revisionId r, rw_identityKey r, rw_bodySha256 r)"

definition snapshot_clash :: "replay_row \<Rightarrow> replay_row \<Rightarrow> bool" where
  "snapshot_clash a b = (rw_snapshotId a = rw_snapshotId b \<or> snapshot_identity a = snapshot_identity b)"

definition null_or_between :: "nat \<Rightarrow> nat \<Rightarrow> string option \<Rightarrow> bool" where
  "null_or_between lo hi v = (case v of None \<Rightarrow> True | Some t \<Rightarrow> text_between lo hi t)"

definition runtime_event_check :: "replay_event_row \<Rightarrow> bool" where
  "runtime_event_check r =
     (text_between 1 80 (rv_eventType r) \<and> text_between 1 16 (rv_method r) \<and> text_between 1 2048 (rv_safeUrl r) \<and>
      null_or_between 1 32768 (rv_identity r) \<and> null_or_between 1 80 (rv_resourceType r) \<and>
      null_or_between 1 2048 (rv_initiatingPage r) \<and> text_between 1 160 (rv_reason r) \<and> text_between 1 80 (rv_matchState r))"

definition runtime_event_clash :: "replay_event_row \<Rightarrow> replay_event_row \<Rightarrow> bool" where
  "runtime_event_clash a b = (rv_eventId a = rv_eventId b)"

text \<open>The three foreign keys both tables have.\<close>

definition replay_owner_fk :: "replay_db \<Rightarrow> string \<Rightarrow> string \<Rightarrow> string \<Rightarrow> bool" where
  "replay_owner_fk S project run revision =
     (project \<in> set (rd_projects S) \<and> run \<in> set (map fst (rd_runs S)) \<and> revision \<in> set (map fst (rd_revisions S)))"

interpretation snapshot_table: sql_table snapshot_check snapshot_clash rw_snapshotId
  by unfold_locales (simp add: snapshot_clash_def)

interpretation snapshot_unique: sql_table snapshot_check snapshot_clash snapshot_identity
  by unfold_locales (simp add: snapshot_clash_def)

interpretation runtime_event_table: sql_table runtime_event_check runtime_event_clash rv_eventId
  by unfold_locales (simp add: runtime_event_clash_def)

section \<open>Rows and snapshots\<close>

definition max_replay_body_bytes :: int where [policy_defs]: "max_replay_body_bytes = 8 * 1024 * 1024"

definition safe_text :: "nat \<Rightarrow> string \<Rightarrow> string" where
  "safe_text maximum v = take maximum (map (\<lambda>c. if is_control c then CHR '' '' else c) v)"

definition header_entry :: "string \<times> json \<Rightarrow> store_error + string \<times> string" where
  "header_entry = (\<lambda>(n, v). case v of
     JStr t \<Rightarrow> if 128 < length n \<or> 4096 < length t then Inl DatabaseInvalid else Inr (n, t)
   | _ \<Rightarrow> Inl DatabaseInvalid)"

definition parse_headers :: "json \<Rightarrow> store_error + headers" where
  "parse_headers v = (case v of JObj kvs \<Rightarrow> emap header_entry kvs | _ \<Rightarrow> Inl DatabaseInvalid)"

definition lift_identity :: "replay_error + 'a \<Rightarrow> store_error + 'a" where
  "lift_identity m = (case m of Inl e \<Rightarrow> Inl (BadIdentity e) | Inr a \<Rightarrow> Inr a)"

definition snapshot_from_row :: "'x replay_env_scheme \<Rightarrow> replay_row \<Rightarrow> store_error + replay_snapshot" where
  "snapshot_from_row E r =
     ebind (ensure (rw_captureVersion r = 1 \<and> rw_method r = ''GET'' \<and> rw_state r = SnapshotComplete) DatabaseInvalid) (\<lambda>_.
     ebind (parse_headers (rw_requestHeaders r)) (\<lambda>request.
     ebind (parse_headers (rw_responseHeaders r)) (\<lambda>response.
     ebind (lift_identity (canonical_replay_request_identity E
       \<lparr>rq_projectId = rw_projectId r, rq_runId = rw_runId r, rq_revisionId = rw_revisionId r, rq_method = ''GET'',
        rq_url = rw_normalizedUrl r, rq_headers = request, rq_ignoredKeys = []\<rparr>)) (\<lambda>identity.
     ebind (ensure (ri_key identity = rw_identityKey r) DatabaseInvalid) (\<lambda>_.
     Inr \<lparr>sn_snapshotId = rw_snapshotId r, sn_identity = identity, sn_originalUrl = safe_replay_url E (rw_originalUrl r),
          sn_status = rw_status r, sn_contentType = rw_contentType r,
          sn_responseHeaders = sanitize_replay_response_headers None response, sn_bodySha256 = rw_bodySha256 r,
          sn_bodyBytes = rw_bodyBytes r, sn_bodyRelativePath = rw_bodyPath r, sn_capturedAt = rw_capturedAt r,
          sn_pageId = rw_pageId r, sn_workerId = rw_workerId r\<rparr>)))))"

definition replay_scope_owned :: "replay_db \<Rightarrow> string \<Rightarrow> string \<Rightarrow> string \<Rightarrow> bool" where
  "replay_scope_owned S project run revision =
     (project \<in> set (rd_projects S) \<and> (run, project, revision) \<in> set (rd_runs S) \<and> (revision, project) \<in> set (rd_revisions S))"

definition body_path :: "string \<Rightarrow> string" where
  "body_path digest = ''api/responses/'' @ digest @ ''.bin''"

section \<open>Capture\<close>

record capture_input =
  ci_projectId :: string
  ci_runId :: string
  ci_revisionId :: string
  ci_originalUrl :: string
  ci_method :: string
  ci_url :: string
  ci_requestHeaders :: headers
  ci_status :: int
  ci_responseHeaders :: headers
  ci_contentType :: string
  ci_body :: "nat list"
  ci_capturedAt :: string
  ci_pageId :: "string option"
  ci_workerId :: "string option"
  ci_ignoredKeys :: "units list"

definition capture_identity_input :: "capture_input \<Rightarrow> replay_identity_input" where
  "capture_identity_input c = \<lparr>rq_projectId = ci_projectId c, rq_runId = ci_runId c, rq_revisionId = ci_revisionId c,
     rq_method = ''GET'', rq_url = ci_url c, rq_headers = ci_requestHeaders c, rq_ignoredKeys = ci_ignoredKeys c\<rparr>"

definition capture_content_type :: "capture_input \<Rightarrow> string" where
  "capture_content_type c = safe_text 512 (media_type (ci_contentType c))"

text \<open>The checks before anything is written, giving the identity.\<close>

definition capture_checks :: "'x replay_env_scheme \<Rightarrow> replay_db \<Rightarrow> capture_input \<Rightarrow> store_error + replay_identity" where
  "capture_checks E S c =
     ebind (ensure (int (length (ci_body c)) \<le> max_replay_body_bytes) LimitExceeded) (\<lambda>_.
     ebind (ensure (ci_method c = ''GET'') DatabaseInvalid) (\<lambda>_.
     ebind (ensure (replay_scope_owned S (ci_projectId c) (ci_runId c) (ci_revisionId c)) ValidationFailed) (\<lambda>_.
     ebind (lift_identity (canonical_replay_request_identity E (capture_identity_input c))) (\<lambda>identity.
     ebind (ensure (capture_content_type c \<noteq> [] \<and> 100 \<le> ci_status c \<and> ci_status c \<le> 599) DatabaseInvalid) (\<lambda>_.
     Inr identity)))))"

text \<open>The body file, which is left alone when it holds the same bytes already.\<close>

definition store_body :: "store_env \<Rightarrow> nat list \<Rightarrow> replay_db \<Rightarrow> store_error + replay_db" where
  "store_body E body S =
     (let digest = rp_sha E body; path = body_path digest
      in if \<not> st_resolves E path then Inl ValidationFailed
         else (case rd_files S path of
             Some existing \<Rightarrow>
               if length existing \<noteq> length body \<or> rp_sha E existing \<noteq> digest then Inl DatabaseInvalid else Inr S
           | None \<Rightarrow> if st_writes E path then Inr (S\<lparr>rd_files := (rd_files S)(path \<mapsto> body)\<rparr>) else Inl FileFailure))"

definition capture_row :: "'x replay_env_scheme \<Rightarrow> string \<Rightarrow> capture_input \<Rightarrow> replay_identity \<Rightarrow> replay_row" where
  "capture_row E snapshot_id c identity =
     (let digest = rp_sha E (ci_body c)
      in \<lparr>rw_snapshotId = snapshot_id, rw_projectId = ci_projectId c, rw_runId = ci_runId c, rw_revisionId = ci_revisionId c,
        rw_captureVersion = 1, rw_method = ''GET'', rw_originalUrl = safe_replay_url E (ci_originalUrl c),
        rw_normalizedUrl = ri_url identity, rw_requestHeaders = headers_json (ri_headers identity),
        rw_identityKey = ri_key identity, rw_status = ci_status c, rw_contentType = capture_content_type c,
        rw_responseHeaders = headers_json (sanitize_replay_response_headers None (ci_responseHeaders c)),
        rw_bodySha256 = digest, rw_bodyBytes = int (length (ci_body c)), rw_bodyPath = body_path digest,
        rw_capturedAt = safe_text 64 (ci_capturedAt c), rw_pageId = ci_pageId c, rw_workerId = ci_workerId c,
        rw_state = SnapshotComplete\<rparr>)"

definition insert_snapshot :: "replay_row \<Rightarrow> replay_db \<Rightarrow> store_error + replay_db" where
  "insert_snapshot r S =
     (case sql_insert_or_ignore snapshot_check snapshot_clash
         (replay_owner_fk S (rw_projectId r) (rw_runId r) (rw_revisionId r)) r (rd_snapshots S) of
        None \<Rightarrow> Inl SqlFailure
      | Some rows \<Rightarrow> Inr (S\<lparr>rd_snapshots := rows\<rparr>))"

definition select_captured :: "replay_row \<Rightarrow> replay_db \<Rightarrow> replay_row option" where
  "select_captured r S = select_first (\<lambda>x. snapshot_identity x = snapshot_identity r) rw_snapshotId (rd_snapshots S)"

definition capture_snapshot :: "store_env \<Rightarrow> string \<Rightarrow> capture_input \<Rightarrow> replay_db \<Rightarrow> (store_error + replay_snapshot) \<times> replay_db" where
  "capture_snapshot E snapshot_id c S =
     (case capture_checks E S c of
        Inl e \<Rightarrow> (Inl e, S)
      | Inr identity \<Rightarrow> (case store_body E (ci_body c) S of
          Inl e \<Rightarrow> (Inl e, S)
        | Inr S1 \<Rightarrow>
            (let row = capture_row E snapshot_id c identity
             in case insert_snapshot row S1 of
                  Inl e \<Rightarrow> (Inl e, S1)
                | Inr S2 \<Rightarrow> (case select_captured row S2 of
                    None \<Rightarrow> (Inl DatabaseInvalid, S2)
                  | Some stored \<Rightarrow> (snapshot_from_row E stored, S2)))))"

section \<open>Lookup\<close>

definition identity_rows :: "replay_identity \<Rightarrow> replay_db \<Rightarrow> replay_row list" where
  "identity_rows i S = select_order
     (\<lambda>r. rw_projectId r = ri_projectId i \<and> rw_runId r = ri_runId i \<and> rw_revisionId r = ri_revisionId i \<and>
        rw_identityKey r = ri_key i \<and> rw_state r = SnapshotComplete)
     (\<lambda>r. (rw_capturedAt r, rw_snapshotId r)) (rd_snapshots S)"

definition lookup_snapshot :: "'x replay_env_scheme \<Rightarrow> replay_db \<Rightarrow> replay_identity_input \<Rightarrow> lookup_result" where
  "lookup_snapshot E S q = (case canonical_replay_request_identity E q of
     Inl e \<Rightarrow> LookupMiss (if e = SensitiveQuery then SensitiveRequest else UnsupportedProtocol)
   | Inr identity \<Rightarrow>
       (let rows = identity_rows identity S
        in if rows = [] then LookupMiss NoCapture
           else (case emap (snapshot_from_row E) rows of
               Inl e \<Rightarrow> LookupMiss IntegrityFailure
             | Inr snapshots \<Rightarrow>
                 if 1 < length (remdups (map sn_bodySha256 snapshots)) then LookupAmbiguous snapshots
                 else LookupMatch (hd snapshots))))"

definition read_validated_body :: "store_env \<Rightarrow> replay_db \<Rightarrow> replay_snapshot \<Rightarrow> store_error + nat list" where
  "read_validated_body E S s =
     ebind (ensure (ri_projectId (sn_identity s) \<noteq> [] \<and> 0 \<le> sn_bodyBytes s \<and> sn_bodyBytes s \<le> max_replay_body_bytes \<and>
        sha256_hex (sn_bodySha256 s) \<and> sn_bodyRelativePath s = body_path (sn_bodySha256 s)) DatabaseInvalid) (\<lambda>_.
     ebind (ensure (st_resolves E (sn_bodyRelativePath s)) ValidationFailed) (\<lambda>_.
     (case rd_files S (sn_bodyRelativePath s) of
        None \<Rightarrow> Inl FileFailure
      | Some bytes \<Rightarrow>
          ebind (ensure (int (length bytes) = sn_bodyBytes s \<and> rp_sha E bytes = sn_bodySha256 s) DatabaseInvalid) (\<lambda>_.
          Inr bytes))))"

definition read_body :: "store_env \<Rightarrow> replay_db \<Rightarrow> replay_snapshot \<Rightarrow> store_error + nat list" where
  "read_body E S s =
     (let i = sn_identity s
      in ebind (ensure (replay_scope_owned S (ri_projectId i) (ri_runId i) (ri_revisionId i)) ValidationFailed) (\<lambda>_.
         case List.find (\<lambda>r. rw_snapshotId r = sn_snapshotId s) (rd_snapshots S) of
           None \<Rightarrow> Inl DatabaseInvalid
         | Some r \<Rightarrow>
             ebind (ensure (rw_projectId r = ri_projectId i \<and> rw_runId r = ri_runId i \<and> rw_revisionId r = ri_revisionId i \<and>
               rw_identityKey r = ri_key i \<and> rw_bodySha256 r = sn_bodySha256 s \<and> rw_bodyBytes r = sn_bodyBytes s \<and>
               rw_bodyPath r = sn_bodyRelativePath s \<and> rw_captureVersion r = 1 \<and> rw_method r = ''GET'' \<and>
               rw_state r = SnapshotComplete) DatabaseInvalid) (\<lambda>_.
             read_validated_body E S s)))"

section \<open>Runtime events\<close>

definition event_row :: "'x replay_env_scheme \<Rightarrow> string \<Rightarrow> string \<Rightarrow> replay_event \<Rightarrow> replay_event_row" where
  "event_row E event_id now e =
     \<lparr>rv_eventType = safe_text 80 (rv_eventType e), rv_projectId = rv_projectId e, rv_runId = rv_runId e,
      rv_revisionId = rv_revisionId e, rv_method = safe_text 16 (rv_method e),
      rv_safeUrl = safe_text 2048 (safe_replay_url E (rv_safeUrl e)),
      rv_identity = map_option (safe_text 32768) (rv_identity e),
      rv_resourceType = map_option (safe_text 80) (rv_resourceType e),
      rv_initiatingPage = map_option (safe_text 2048) (rv_initiatingPage e),
      rv_reason = safe_text 160 (rv_reason e), rv_matchState = safe_text 80 (rv_matchState e),
      rv_strictOffline = rv_strictOffline e,
      rv_occurredAt = safe_text 64 (if rv_occurredAt e = [] then now else rv_occurredAt e), rv_eventId = event_id\<rparr>"

definition record_runtime_event ::
    "'x replay_env_scheme \<Rightarrow> string \<Rightarrow> string \<Rightarrow> replay_event \<Rightarrow> replay_db \<Rightarrow> (store_error + unit) \<times> replay_db" where
  "record_runtime_event E event_id now e S =
     (if \<not> replay_scope_owned S (rv_projectId e) (rv_runId e) (rv_revisionId e) then (Inl ValidationFailed, S)
      else (case sql_insert runtime_event_check runtime_event_clash
          (replay_owner_fk S (rv_projectId e) (rv_runId e) (rv_revisionId e)) (event_row E event_id now e) (rd_events S) of
        None \<Rightarrow> (Inl SqlFailure, S)
      | Some rows \<Rightarrow> (Inr (), S\<lparr>rd_events := rows\<rparr>)))"

definition list_runtime_events :: "replay_db \<Rightarrow> string \<Rightarrow> string \<Rightarrow> string \<Rightarrow> jsnum \<Rightarrow> store_error + replay_event list" where
  "list_runtime_events S project run revision limit = (case bounded_int 1 10000 limit of
     None \<Rightarrow> Inl DatabaseInvalid
   | Some n \<Rightarrow>
       ebind (ensure (replay_scope_owned S project run revision) ValidationFailed) (\<lambda>_.
       Inr (map replay_event.truncate (take (nat n) (select_order
         (\<lambda>r. rv_projectId r = project \<and> rv_runId r = run \<and> rv_revisionId r = revision)
         (\<lambda>r. (rv_occurredAt r, rv_eventId r)) (rd_events S))))))"

end
