(* ===== verification/Replay_Sound.thy ===== *)
theory Replay_Sound
  imports Replay_Store
begin

text \<open>
  The laws of request identities and header selections: what normalisation keeps, when it is stable
  under a second pass, and that the identity key determines the request.
\<close>

section \<open>Object.fromEntries\<close>

lemma from_entries_fold: "distinct (map fst (m @ kvs)) \<Longrightarrow> foldl (\<lambda>m (k, v). AList.update k v m) m kvs = m @ kvs"
proof (induction kvs arbitrary: m)
  case Nil
  then show ?case by simp
next
  case (Cons kv kvs)
  then have "fst kv \<notin> fst ` set m" by auto
  then have "(case kv of (k, v) \<Rightarrow> AList.update k v m) = m @ [kv]" by (cases kv) (simp add: update_new)
  then show ?case using Cons.IH[of "m @ [kv]"] Cons.prems by simp
qed

lemma from_entries_id: "distinct (map fst kvs) \<Longrightarrow> from_entries kvs = kvs"
  using from_entries_fold[of "[]" kvs] by (simp add: from_entries_def)

definition ascending :: "('k::linorder \<times> 'v) list \<Rightarrow> bool" where
  "ascending kvs = (sorted (map fst kvs) \<and> distinct (map fst kvs))"

lemma update_ascending:
  assumes "ascending m" "\<forall>x \<in> set m. fst x \<le> k" shows "ascending (AList.update k v m)"
  using assms by (auto simp: ascending_def update_keys sorted_append distinct_update)

lemma from_entries_step:
  assumes "ascending m" "sorted (map fst kvs)" "\<forall>x \<in> set m. \<forall>y \<in> set kvs. fst x \<le> fst y"
  shows "ascending (foldl (\<lambda>m (k, v). AList.update k v m) m kvs) \<and>
    set (foldl (\<lambda>m (k, v). AList.update k v m) m kvs) \<subseteq> set m \<union> set kvs"
  using assms
proof (induction kvs arbitrary: m)
  case Nil
  then show ?case by simp
next
  case (Cons kv kvs)
  obtain k v where kv: "kv = (k, v)" by force
  have sub: "set (AList.update k v m) \<subseteq> insert (k, v) (set m)" by (induction m) auto
  have "ascending (AList.update k v m)" using Cons.prems kv by (intro update_ascending) auto
  moreover have "\<forall>x \<in> set (AList.update k v m). \<forall>y \<in> set kvs. fst x \<le> fst y" using sub Cons.prems kv by fastforce
  ultimately show ?case using Cons.IH[of "AList.update k v m"] Cons.prems sub kv by auto
qed

lemma from_entries_sorted:
  assumes "sorted (map fst kvs)"
  shows "ascending (from_entries kvs)" "set (from_entries kvs) \<subseteq> set kvs"
  using from_entries_step[of "[]" kvs] assms by (simp_all add: from_entries_def ascending_def)

lemma from_entries_subset: "set (from_entries kvs) \<subseteq> set kvs"
proof -
  have "set (foldl (\<lambda>m (k, v). AList.update k v m) m kvs) \<subseteq> set m \<union> set kvs" for m
  proof (induction kvs arbitrary: m)
    case (Cons kv kvs)
    obtain k v where kv: "kv = (k, v)" by force
    have "set (AList.update k v m) \<subseteq> insert (k, v) (set m)" by (induction m) auto
    then show ?case using Cons.IH[of "AList.update k v m"] kv by auto
  qed simp
  from this[of "[]"] show ?thesis by (simp add: from_entries_def)
qed

lemma ascending_sort: "ascending kvs \<Longrightarrow> sort_key fst kvs = kvs"
  by (simp add: ascending_def sort_key_id_if_sorted)

text \<open>Sorting by key and building an object from the entries leaves an object in that form alone.\<close>

lemma entries_of_ascending: "ascending kvs \<Longrightarrow> from_entries (sort_key fst kvs) = kvs"
  by (simp add: ascending_sort from_entries_id) (simp add: ascending_def from_entries_id)

lemma sorted_entries: "ascending (from_entries (sort_key fst kvs))" "set (from_entries (sort_key fst kvs)) \<subseteq> set kvs"
  using from_entries_sorted[of "sort_key fst kvs"] by auto

section \<open>Selected headers\<close>

lemma selected_headers_shape:
  "ascending (select_replay_match_headers hs)"
  "(n, v) \<in> set (select_replay_match_headers hs) \<Longrightarrow>
     n \<in> set selected_replay_headers \<and> v \<noteq> [] \<and> (\<exists>m w. (m, w) \<in> set hs \<and> n = to_lower m \<and> v = take 512 (js_trim w))"
  using sorted_entries[of "filter (\<lambda>(n, v). n \<in> set selected_replay_headers \<and> n \<notin> set sensitive_headers \<and> v \<noteq> [])
       (map (\<lambda>(n, v). (to_lower n, take 512 (js_trim v))) hs)"]
  unfolding select_replay_match_headers_def by fastforce+

text \<open>Values that a second trimming leaves alone: the cut at 512 characters does not end in a blank.\<close>

definition headers_stable :: "headers \<Rightarrow> bool" where
  "headers_stable hs = list_all (\<lambda>(n, v). js_trim (take 512 (js_trim v)) = take 512 (js_trim v)) hs"

lemma short_headers_stable: "list_all (\<lambda>(n, v). length v \<le> 512) hs \<Longrightarrow> headers_stable hs"
proof -
  have "js_trim (take 512 (js_trim v)) = take 512 (js_trim v)" if "length v \<le> 512" for v
    using that length_js_trim[of v] by simp
  then show "list_all (\<lambda>(n, v). length v \<le> 512) hs \<Longrightarrow> ?thesis" by (auto simp: headers_stable_def list_all_iff)
qed

lemma selected_names: "n \<in> set selected_replay_headers \<Longrightarrow> to_lower n = n \<and> n \<notin> set sensitive_headers \<and> length n \<le> 128"
proof -
  have "list_all (\<lambda>n. to_lower n = n \<and> n \<notin> set sensitive_headers \<and> length n \<le> 128) selected_replay_headers" by code_simp
  then show "n \<in> set selected_replay_headers \<Longrightarrow> ?thesis" by (simp add: list_all_iff)
qed

lemma select_again:
  assumes "headers_stable hs"
  shows "select_replay_match_headers (select_replay_match_headers hs) = select_replay_match_headers hs"
proof -
  let ?out = "select_replay_match_headers hs"
  have each: "to_lower n = n \<and> take 512 (js_trim v) = v \<and> n \<in> set selected_replay_headers \<and> n \<notin> set sensitive_headers \<and> v \<noteq> []"
    if nv: "(n, v) \<in> set ?out" for n v
  proof -
    obtain m w where mw: "(m, w) \<in> set hs" "v = take 512 (js_trim w)" "v \<noteq> []" "n \<in> set selected_replay_headers"
      using selected_headers_shape(2)[OF nv] by blast
    then have "js_trim v = v" using assms by (auto simp: headers_stable_def list_all_iff)
    moreover have "length v \<le> 512" using mw(2) by simp
    ultimately show ?thesis using mw selected_names by simp
  qed
  then have "map (\<lambda>(n, v). (to_lower n, take 512 (js_trim v))) ?out = ?out" by (auto intro!: map_idI)
  moreover have "filter (\<lambda>(n, v). n \<in> set selected_replay_headers \<and> n \<notin> set sensitive_headers \<and> v \<noteq> []) ?out = ?out"
    using each by (auto simp: filter_id_conv)
  ultimately show ?thesis
    using entries_of_ascending[OF selected_headers_shape(1)[of hs]]
    by (simp add: select_replay_match_headers_def[of ?out])
qed

section \<open>Response headers\<close>

lemma clean_header_again: "clean_header_value (clean_header_value v) = clean_header_value v"
proof -
  let ?f = "\<lambda>c. if code c \<in> {0, 10, 13} then CHR '' '' else c"
  let ?w = "clean_header_value v"
  have w: "?w = js_trim (take 4096 (map ?f v))" by (simp only: clean_header_value_def)
  have "set ?w \<subseteq> set (map ?f v)" unfolding w by (rule order_trans[OF set_js_trim set_take_subset])
  moreover have "?f c = c" if "c \<in> set (map ?f v)" for c using that by (auto simp: code_def split: if_splits)
  ultimately have "map ?f ?w = ?w" by (intro map_idI) blast
  moreover have "take 4096 ?w = ?w" using length_js_trim[of "take 4096 (map ?f v)"] w by simp
  moreover have "js_trim ?w = ?w" by (simp only: w js_trim_idem)
  ultimately show ?thesis by (simp only: clean_header_value_def[of ?w])
qed

lemma response_headers_shape:
  "ascending (sanitize_replay_response_headers allow hs)"
  "(n, v) \<in> set (sanitize_replay_response_headers allow hs) \<Longrightarrow>
     keep_response_header allow (n, v) \<and> (\<exists>m w. (m, w) \<in> set hs \<and> n = to_lower m \<and> v = clean_header_value w)"
proof -
  let ?kept = "filter (keep_response_header allow) (map (\<lambda>(n, v). (to_lower n, clean_header_value v)) hs)"
  show "ascending (sanitize_replay_response_headers allow hs)"
    using sorted_entries(1) by (simp add: sanitize_replay_response_headers_def)
  have "set (sanitize_replay_response_headers allow hs) \<subseteq> set ?kept"
    using sorted_entries(2)[of "from_entries ?kept"] from_entries_subset[of ?kept]
    by (simp add: sanitize_replay_response_headers_def)
  then show "(n, v) \<in> set (sanitize_replay_response_headers allow hs) \<Longrightarrow> keep_response_header allow (n, v) \<and>
      (\<exists>m w. (m, w) \<in> set hs \<and> n = to_lower m \<and> v = clean_header_value w)" by fastforce
qed

lemma safe_names: "n \<in> set safe_response_headers \<Longrightarrow> to_lower n = n \<and> length n \<le> 128"
proof -
  have "list_all (\<lambda>n. to_lower n = n \<and> length n \<le> 128) safe_response_headers" by code_simp
  then show "n \<in> set safe_response_headers \<Longrightarrow> ?thesis" by (simp add: list_all_iff)
qed

lemma sanitize_again: "sanitize_replay_response_headers allow (sanitize_replay_response_headers allow hs) = sanitize_replay_response_headers allow hs"
proof -
  let ?out = "sanitize_replay_response_headers allow hs"
  have each: "to_lower n = n \<and> clean_header_value v = v \<and> keep_response_header allow (n, v)" if "(n, v) \<in> set ?out" for n v
    using response_headers_shape(2)[OF that] safe_names clean_header_again by (auto simp: keep_response_header_def)
  then have "map (\<lambda>(n, v). (to_lower n, clean_header_value v)) ?out = ?out" by (auto intro!: map_idI)
  moreover have "filter (keep_response_header allow) ?out = ?out" using each by (auto simp: filter_id_conv)
  moreover have asc: "ascending ?out" by (rule response_headers_shape)
  then have "from_entries ?out = ?out" by (simp add: ascending_def from_entries_id)
  ultimately show ?thesis using entries_of_ascending[OF asc] by (simp add: sanitize_replay_response_headers_def[of allow ?out])
qed

lemma stored_headers_parse:
  assumes "\<And>n v. (n, v) \<in> set hs \<Longrightarrow> length n \<le> 128 \<and> length v \<le> 4096"
  shows "parse_headers (headers_json hs) = Inr hs"
proof -
  have "emap header_entry (map (\<lambda>(n, v). (n, JStr v)) hs) = Inr hs"
    using assms
  proof (induction hs)
    case (Cons x xs)
    obtain n v where x: "x = (n, v)" by force
    then have "header_entry (n, JStr v) = Inr (n, v)" using Cons.prems[of n v] by (simp add: header_entry_def)
    moreover have "emap header_entry (map (\<lambda>(n, v). (n, JStr v)) xs) = Inr xs"
      using Cons.prems by (intro Cons.IH) auto
    ultimately show ?case using x by simp
  qed simp
  then show ?thesis by (simp add: parse_headers_def headers_json_def)
qed

lemma selected_headers_parse: "parse_headers (headers_json (select_replay_match_headers hs)) = Inr (select_replay_match_headers hs)"
proof (rule stored_headers_parse)
  fix n v assume "(n, v) \<in> set (select_replay_match_headers hs)"
  from selected_headers_shape(2)[OF this] show "length n \<le> 128 \<and> length v \<le> 4096" using selected_names by auto
qed

lemma length_clean_header: "length (clean_header_value v) \<le> 4096"
  using length_js_trim[of "take 4096 (map (\<lambda>c. if code c \<in> {0, 10, 13} then CHR '' '' else c) v)"]
  by (simp add: clean_header_value_def)

lemma response_headers_parse:
  "parse_headers (headers_json (sanitize_replay_response_headers allow hs)) = Inr (sanitize_replay_response_headers allow hs)"
proof (rule stored_headers_parse)
  fix n v assume "(n, v) \<in> set (sanitize_replay_response_headers allow hs)"
  from response_headers_shape(2)[OF this] show "length n \<le> 128 \<and> length v \<le> 4096"
    using safe_names length_clean_header by (auto simp: keep_response_header_def)
qed

section \<open>Normalised URLs\<close>

definition replay_normal :: "'x replay_env_scheme \<Rightarrow> units list \<Rightarrow> url \<Rightarrow> url" where
  "replay_normal E ignored u =
     set_params (sort (filter (\<lambda>(k, x). \<not> ignored_query_key E ignored k) (search_params u))) (u\<lparr>ur_fragment := None\<rparr>)"

lemma normalize_Inr_iff:
  "normalize_replay_url E ignored v = Inr t \<longleftrightarrow> (\<exists>u. rp_parse E v = Some u \<and> is_http u \<and> ur_username u = [] \<and> ur_password u = [] \<and>
     \<not> list_ex (\<lambda>(k, x). sensitive_query_key k) (search_params u) \<and> t = href (replay_normal E ignored u))"
  by (auto simp: normalize_replay_url_def parse_url_def replay_normal_def result_simps split: option.splits)

lemma normal_params:
  "search_params (replay_normal E ignored u) = sort (filter (\<lambda>(k, x). \<not> ignored_query_key E ignored k) (search_params u))"
proof -
  have "list_all well_formed_pair (sort (filter (\<lambda>(k, x). \<not> ignored_query_key E ignored k) (search_params u)))"
    using search_params_well_formed[of u] by (auto simp: list_all_iff)
  then show ?thesis unfolding replay_normal_def by (rule search_params_set)
qed

lemma set_params_fragment [simp]: "(set_params ps u)\<lparr>ur_fragment := f\<rparr> = set_params ps (u\<lparr>ur_fragment := f\<rparr>)"
  by (simp add: set_params_def)

lemma normal_fields [simp]:
  "ur_protocol (replay_normal E ignored u) = ur_protocol u" "ur_username (replay_normal E ignored u) = ur_username u"
  "ur_password (replay_normal E ignored u) = ur_password u" "ur_fragment (replay_normal E ignored u) = None"
  by (simp_all add: replay_normal_def)

lemma ignored_key_mono: "ignored_query_key E [] k \<Longrightarrow> ignored_query_key E ignored k"
  by (auto simp: ignored_query_key_def)

lemma normal_again: "replay_normal E [] (replay_normal E ignored u) = replay_normal E ignored u"
proof -
  let ?kept = "sort (filter (\<lambda>(k, x). \<not> ignored_query_key E ignored k) (search_params u))"
  have "filter (\<lambda>(k, x). \<not> ignored_query_key E [] k) ?kept = ?kept"
    using ignored_key_mono[of E] by (auto simp: filter_id_conv)
  then have "replay_normal E [] (replay_normal E ignored u) = set_params ?kept ((replay_normal E ignored u)\<lparr>ur_fragment := None\<rparr>)"
    by (simp add: replay_normal_def[of E "[]"] normal_params sort_key_sorted_id)
  also have "\<dots> = replay_normal E ignored u" by (simp add: replay_normal_def)
  finally show ?thesis .
qed

text \<open>
  A normalised URL normalises to itself, with or without the ignored keys, when the parser reads the
  serialised URL back.
\<close>

definition reads_back :: "'x replay_env_scheme \<Rightarrow> units list \<Rightarrow> string \<Rightarrow> bool" where
  "reads_back E ignored v = (case rp_parse E v of None \<Rightarrow> True
     | Some u \<Rightarrow> rp_parse E (href (replay_normal E ignored u)) = Some (replay_normal E ignored u))"

lemma normalize_again:
  assumes "normalize_replay_url E ignored v = Inr t" "reads_back E ignored v"
  shows "normalize_replay_url E [] t = Inr t"
proof -
  obtain u where u: "rp_parse E v = Some u" "is_http u" "ur_username u = []" "ur_password u = []"
    "\<not> list_ex (\<lambda>(k, x). sensitive_query_key k) (search_params u)" "t = href (replay_normal E ignored u)"
    using assms(1) by (auto simp: normalize_Inr_iff)
  have "rp_parse E t = Some (replay_normal E ignored u)" using assms(2) u by (simp add: reads_back_def)
  moreover have "\<not> list_ex (\<lambda>(k, x). sensitive_query_key k) (search_params (replay_normal E ignored u))"
    using u(5) by (auto simp: normal_params list_ex_iff)
  ultimately show ?thesis using u by (auto simp: normalize_Inr_iff normal_again is_http_def)
qed

lemma normal_same:
  assumes "mset (filter (\<lambda>(k, x). \<not> ignored_query_key E ignored k) (search_params u)) =
      mset (filter (\<lambda>(k, x). \<not> ignored_query_key E ignored k) (search_params w))"
    and "w = u\<lparr>ur_query := q, ur_fragment := f\<rparr>"
  shows "replay_normal E ignored w = replay_normal E ignored u"
proof -
  have "sort (filter (\<lambda>(k, x). \<not> ignored_query_key E ignored k) (search_params u)) =
      sort (filter (\<lambda>(k, x). \<not> ignored_query_key E ignored k) (search_params w))"
    using assms(1) by (metis mset_sort properties_for_sort sorted_sort)
  then show ?thesis using assms(2) by (simp add: replay_normal_def set_params_def)
qed

section \<open>Identities\<close>

lemma show_one: "show_int 1 = ''1''"
  by code_simp

lemma basis_text:
  assumes "ascending hs"
  shows "canonical_json (identity_basis p r v m u hs) =
    ''{'' @ json_quote ''contractVersion'' @ '':1,'' @ json_quote ''method'' @ '':'' @ json_quote m @ '','' @
    json_quote ''normalizedUrl'' @ '':'' @ json_quote u @ '','' @ json_quote ''projectId'' @ '':'' @ json_quote p @ '','' @
    json_quote ''projectRevisionId'' @ '':'' @ json_quote v @ '','' @ json_quote ''runId'' @ '':'' @ json_quote r @ '','' @
    json_quote ''selectedHeaders'' @ '':{'' @ string_fields hs @ ''}}''"
proof -
  have "ordered (headers_json hs) = headers_json hs"
  proof -
    have m: "map (map_prod id (ordered_with (\<lambda>k. k))) (map (\<lambda>(n, v). (n, JStr v)) hs) = map (\<lambda>(n, v). (n, JStr v)) hs"
      by (induction hs) auto
    have "sort_key fst (map (\<lambda>(n, v). (n, JStr v)) hs) = map (\<lambda>(n, v). (n, JStr v)) hs"
      using assms by (intro sort_key_id_if_sorted) (simp add: ascending_def case_prod_beta comp_def)
    then show ?thesis by (simp add: ordered_def headers_json_def comp_def m[unfolded list.map_comp comp_def] del: list.map_comp)
  qed
  then have "ordered (identity_basis p r v m u hs) = JObj
     [(''contractVersion'', JNum 1), (''method'', JStr m), (''normalizedUrl'', JStr u), (''projectId'', JStr p),
      (''projectRevisionId'', JStr v), (''runId'', JStr r), (''selectedHeaders'', headers_json hs)]"
    by (simp add: identity_basis_def ordered_def sort_key_def insort_key.simps less_char_def)
  then show ?thesis
    by (simp add: canonical_json_def headers_json_def stringify_strings[simplified] show_one)
qed

lemma identity_Inr_iff:
  "canonical_replay_request_identity E q = Inr i \<longleftrightarrow> replay_method (rq_method q) \<and>
     replay_scope_value (rq_projectId q) = Inr (rq_projectId q) \<and> replay_scope_value (rq_runId q) = Inr (rq_runId q) \<and>
     replay_scope_value (rq_revisionId q) = Inr (rq_revisionId q) \<and>
     (\<exists>t. normalize_replay_url E (rq_ignoredKeys q) (rq_url q) = Inr t \<and>
       i = \<lparr>ri_projectId = rq_projectId q, ri_runId = rq_runId q, ri_revisionId = rq_revisionId q, ri_method = rq_method q,
          ri_url = t, ri_headers = select_replay_match_headers (rq_headers q),
          ri_key = canonical_json (identity_basis (rq_projectId q) (rq_runId q) (rq_revisionId q) (rq_method q) t
            (select_replay_match_headers (rq_headers q)))\<rparr>)"
  by (auto simp: canonical_replay_request_identity_def replay_scope_value_def result_simps Let_def split: if_splits)

lemma identity_key_unique:
  assumes "canonical_replay_request_identity E q = Inr i" "canonical_replay_request_identity E' q' = Inr i'"
    and "ri_key i = ri_key i'"
  shows "i = i'"
proof -
  obtain t t' where i: "i = \<lparr>ri_projectId = rq_projectId q, ri_runId = rq_runId q, ri_revisionId = rq_revisionId q,
      ri_method = rq_method q, ri_url = t, ri_headers = select_replay_match_headers (rq_headers q), ri_key = ri_key i\<rparr>"
    "ri_key i = canonical_json (identity_basis (rq_projectId q) (rq_runId q) (rq_revisionId q) (rq_method q) t
       (select_replay_match_headers (rq_headers q)))"
    and i': "i' = \<lparr>ri_projectId = rq_projectId q', ri_runId = rq_runId q', ri_revisionId = rq_revisionId q',
      ri_method = rq_method q', ri_url = t', ri_headers = select_replay_match_headers (rq_headers q'), ri_key = ri_key i'\<rparr>"
    "ri_key i' = canonical_json (identity_basis (rq_projectId q') (rq_runId q') (rq_revisionId q') (rq_method q') t'
       (select_replay_match_headers (rq_headers q')))"
    using assms(1,2) by (auto simp: identity_Inr_iff)
  show ?thesis using assms(3) i i'
    by (auto simp: basis_text[OF selected_headers_shape(1)] json_quote_unique string_fields_inj)
qed

end
