(* ===== verification/Runtime_Resolve.thy ===== *)
theory Runtime_Resolve
  imports Replay_Policy
begin

text \<open>
  packages/archive-core/src/runtime.ts: how the local runtime resolves a request path to an archived
  file, over the route map and the resource map. Paths are lists of UTF-16 code units; the Unicode
  normalisation and the lower-casing of path-safety.ts are the arguments \<open>nfc\<close> and
  \<open>lower\<close>.
\<close>

section \<open>Maps\<close>

datatype resolution_state = LocalMatch | RouteCollides | RouteUnresolved
datatype route_type = RootRoute | ExtensionlessRoute | DocumentRoute | SpaRoute

text \<open>A fallback has the mode \<open>entry-document\<close>, the only one there is; its entry resource is kept.\<close>

record route_entry =
  rt_routeId :: string
  rt_projectId :: string
  rt_runId :: string
  rt_revisionId :: string
  rt_localRoute :: units
  rt_localResource :: units
  rt_routeType :: route_type
  rt_state :: resolution_state
  rt_fallback :: "units option"

record route_map =
  rm_projectId :: string
  rm_runId :: string
  rm_revisionId :: string
  rm_routes :: "route_entry list"
  rm_collisions :: "string list list"

record resource_entry =
  oe_projectId :: string
  oe_runId :: string
  oe_revisionId :: string
  oe_localResource :: units
  oe_state :: resolution_state

record runtime_request =
  rtq_requestPath :: units
  rtq_method :: string
  rtq_routeMap :: route_map
  rtq_resources :: "resource_entry list"
  rtq_dependencies :: "external_dependency list option"
  rtq_additional :: "units list"

datatype resolution_kind = PageKind | ResourceKind | MissingKind | CollisionKind | InvalidKind

record runtime_resolution =
  rsl_status :: nat
  rsl_kind :: resolution_kind
  rsl_requestPath :: units
  rsl_resource :: "units option"
  rsl_route :: "route_entry option"
  rsl_reasonCode :: string

section \<open>Request paths\<close>

text \<open>The normalized path of \<open>validateCanonicalRelativePath\<close>, if the path is valid.\<close>

definition safe_path :: "(units \<Rightarrow> units) \<Rightarrow> (units \<Rightarrow> units) \<Rightarrow> units \<Rightarrow> units option" where
  "safe_path nfc lower v = (case validate_path nfc lower v of Inl _ \<Rightarrow> None | Inr (n, k) \<Rightarrow> Some n)"

definition normalized_route_path :: "(units \<Rightarrow> units) \<Rightarrow> (units \<Rightarrow> units) \<Rightarrow> units \<Rightarrow> units option" where
  "normalized_route_path nfc lower v =
     (if v = [47] then Some [47]
      else if v = [] \<or> hd v \<noteq> 47 \<or> 92 \<in> set v \<or> list_ex (\<lambda>u. u < 32 \<or> u = 127) v then None
      else map_option ((#) 47) (safe_path nfc lower (tl v)))"

fun decode_rounds :: "nat \<Rightarrow> units \<Rightarrow> units option" where
  "decode_rounds 0 decoded = Some decoded"
| "decode_rounds (Suc n) decoded = (case decode_uri decoded of
     None \<Rightarrow> None
   | Some next \<Rightarrow>
       if 92 \<in> set next \<or> list_ex (\<lambda>w. w = [46] \<or> w = [46, 46]) (split_on 47 next) then None
       else if next = decoded then Some decoded
       else decode_rounds n next)"

definition decode_runtime_path :: "(units \<Rightarrow> units) \<Rightarrow> (units \<Rightarrow> units) \<Rightarrow> units \<Rightarrow> units option" where
  "decode_runtime_path nfc lower v =
     (if v = [] \<or> hd v \<noteq> 47 \<or> 92 \<in> set v then None
      else (case decode_rounds 3 v of None \<Rightarrow> None | Some decoded \<Rightarrow> normalized_route_path nfc lower decoded))"

section \<open>Resources\<close>

definition in_collision :: "route_map \<Rightarrow> route_entry \<Rightarrow> bool" where
  "in_collision m r = list_ex (\<lambda>ids. rt_routeId r \<in> set ids) (rm_collisions m)"

definition route_blocked :: "route_map \<Rightarrow> route_entry \<Rightarrow> bool" where
  "route_blocked m r = (rt_state r \<noteq> LocalMatch \<or> in_collision m r)"

definition blocked_resources :: "(units \<Rightarrow> units) \<Rightarrow> (units \<Rightarrow> units) \<Rightarrow> route_map \<Rightarrow> units list" where
  "blocked_resources nfc lower m =
     List.map_filter (\<lambda>r. safe_path nfc lower (rt_localResource r)) (filter (route_blocked m) (rm_routes m))"

definition route_resources :: "(units \<Rightarrow> units) \<Rightarrow> (units \<Rightarrow> units) \<Rightarrow> route_entry \<Rightarrow> units list" where
  "route_resources nfc lower r =
     List.map_filter (safe_path nfc lower) (rt_localResource r # (case rt_fallback r of None \<Rightarrow> [] | Some f \<Rightarrow> [f]))"

definition resource_set :: "(units \<Rightarrow> units) \<Rightarrow> (units \<Rightarrow> units) \<Rightarrow> runtime_request \<Rightarrow> units list" where
  "resource_set nfc lower q =
     (let m = rtq_routeMap q; blocked = blocked_resources nfc lower m;
          free = filter (\<lambda>f. f \<notin> set blocked)
      in remdups (
           free (List.map_filter (\<lambda>e. if oe_state e \<noteq> LocalMatch then None else safe_path nfc lower (oe_localResource e)) (rtq_resources q)) @
           free (List.map_filter (safe_path nfc lower) (rtq_additional q)) @
           concat (map (route_resources nfc lower) (filter (\<lambda>r. \<not> route_blocked m r) (rm_routes m)))))"

definition maps_share_runtime_scope :: "runtime_request \<Rightarrow> bool" where
  "maps_share_runtime_scope q =
     (let m = rtq_routeMap q; scope = (rm_projectId m, rm_runId m, rm_revisionId m)
      in list_all (\<lambda>e. (oe_projectId e, oe_runId e, oe_revisionId e) = scope) (rtq_resources q) \<and>
         list_all (\<lambda>r. (rt_projectId r, rt_runId r, rt_revisionId r) = scope) (rm_routes m) \<and>
         (case rtq_dependencies q of None \<Rightarrow> True
          | Some ds \<Rightarrow> list_all (\<lambda>d. (ed_projectId d, ed_runId d, ed_revisionId d) = scope) ds))"

section \<open>Resolution\<close>

definition resolution ::
    "nat \<Rightarrow> resolution_kind \<Rightarrow> units \<Rightarrow> units option \<Rightarrow> route_entry option \<Rightarrow> string \<Rightarrow> runtime_resolution" where
  "resolution status kind path resource route reason =
     \<lparr>rsl_status = status, rsl_kind = kind, rsl_requestPath = path, rsl_resource = resource, rsl_route = route, rsl_reasonCode = reason\<rparr>"

definition page_resource :: "route_entry \<Rightarrow> units" where
  "page_resource r = (if rt_routeType r = SpaRoute then (case rt_fallback r of Some f \<Rightarrow> f | None \<Rightarrow> rt_localResource r)
     else rt_localResource r)"

definition resolve_resource :: "(units \<Rightarrow> units) \<Rightarrow> (units \<Rightarrow> units) \<Rightarrow> runtime_request \<Rightarrow> units \<Rightarrow> runtime_resolution" where
  "resolve_resource nfc lower q path =
     (if path \<noteq> [47] \<and> tl path \<in> set (resource_set nfc lower q)
      then resolution 200 ResourceKind path (Some (tl path)) None ''RUNTIME_RESOURCE_MATCH''
      else resolution 404 MissingKind path None None ''RUNTIME_RESOURCE_NOT_ARCHIVED'')"

text \<open>The resolution of a decoded path: a route first, then a resource.\<close>

definition resolve_path :: "(units \<Rightarrow> units) \<Rightarrow> (units \<Rightarrow> units) \<Rightarrow> runtime_request \<Rightarrow> units \<Rightarrow> runtime_resolution" where
  "resolve_path nfc lower q path =
     (let m = rtq_routeMap q; matches = filter (\<lambda>r. rt_localRoute r = path) (rm_routes m)
      in if 1 < length matches \<or> list_ex (\<lambda>r. rt_state r = RouteCollides \<or> in_collision m r) matches
           then resolution 409 CollisionKind path None None ''RUNTIME_ROUTE_COLLISION''
         else (case matches of
             [] \<Rightarrow> resolve_resource nfc lower q path
           | r # _ \<Rightarrow>
               if rt_state r \<noteq> LocalMatch
                 then resolution 409 CollisionKind path None (Some r)
                   (if rt_state r = RouteCollides then ''RUNTIME_ROUTE_COLLISION'' else ''RUNTIME_ROUTE_UNRESOLVED'')
               else (case canonical_relative_path nfc lower (page_resource r) of
                   Inl _ \<Rightarrow> resolve_resource nfc lower q path
                 | Inr f \<Rightarrow> resolution 200 PageKind path (Some f) (Some r)
                     (if rt_routeType r = SpaRoute then ''RUNTIME_SPA_ENTRY_DOCUMENT'' else ''RUNTIME_ROUTE_MATCH''))))"

definition resolve_runtime_request :: "(units \<Rightarrow> units) \<Rightarrow> (units \<Rightarrow> units) \<Rightarrow> runtime_request \<Rightarrow> runtime_resolution" where
  "resolve_runtime_request nfc lower q =
     (if \<not> replay_method (rtq_method q) then resolution 400 InvalidKind (rtq_requestPath q) None None ''RUNTIME_METHOD_NOT_ALLOWED''
      else if \<not> maps_share_runtime_scope q then resolution 409 InvalidKind (rtq_requestPath q) None None ''RUNTIME_MAP_SCOPE_MISMATCH''
      else (case decode_runtime_path nfc lower (rtq_requestPath q) of
          None \<Rightarrow> resolution 400 InvalidKind (rtq_requestPath q) None None ''RUNTIME_PATH_UNSAFE''
        | Some path \<Rightarrow> resolve_path nfc lower q path))"

definition runtime_resource_paths ::
    "(units \<Rightarrow> units) \<Rightarrow> (units \<Rightarrow> units) \<Rightarrow> runtime_request \<Rightarrow> units list" where
  "runtime_resource_paths nfc lower q = sort (resource_set nfc lower q)"

definition validate_runtime_origin :: "'x replay_env_scheme \<Rightarrow> string \<Rightarrow> replay_error + string" where
  "validate_runtime_origin E v =
     ebind (parse_url E v) (\<lambda>u.
     ebind (ensure (is_http u) ProtocolUnsupported) (\<lambda>_.
     ebind (ensure (ur_username u = [] \<and> ur_password u = [] \<and> ur_pathname u = ''/'' \<and> search_of u = [] \<and> hash_of u = []) PolicyInvalid) (\<lambda>_.
     ebind (ensure (ur_hostname u = ''127.0.0.1'') PolicyInvalid) (\<lambda>_.
     Inr (url_origin E u)))))"

section \<open>What is served\<close>

text \<open>The files the maps name: of a route that is matched and not in a collision, of a matched resource, or additional.\<close>

definition mapped_file :: "runtime_request \<Rightarrow> units \<Rightarrow> bool" where
  "mapped_file q f =
     ((\<exists>r \<in> set (rm_routes (rtq_routeMap q)). \<not> route_blocked (rtq_routeMap q) r \<and>
         (f = rt_localResource r \<or> rt_fallback r = Some f)) \<or>
      (\<exists>e \<in> set (rtq_resources q). oe_state e = LocalMatch \<and> f = oe_localResource e) \<or>
      f \<in> set (rtq_additional q))"

lemma map_filter_member: "x \<in> set (List.map_filter f xs) \<longleftrightarrow> (\<exists>y \<in> set xs. f y = Some x)"
  by (induction xs) (auto simp: List.map_filter_simps split: option.splits)

lemma safe_path_Some: "safe_path nfc lower v = Some n \<longleftrightarrow> n = v \<and> (\<exists>k. validate_path nfc lower v = Inr (v, k))"
  by (auto simp: safe_path_def dest: validate_path_sound(1) split: sum.splits)

lemma resource_set_member:
  assumes "f \<in> set (resource_set nfc lower q)"
  shows "mapped_file q f \<and> (\<exists>v k. validate_path nfc lower v = Inr (f, k))"
  using assms
  by (auto simp: resource_set_def Let_def map_filter_member route_resources_def mapped_file_def safe_path_Some
      split: if_splits option.splits; blast)

lemma canonical_Inr: "canonical_relative_path nfc lower v = Inr n \<Longrightarrow> safe_path nfc lower v = Some n"
  by (auto simp: canonical_relative_path_def safe_path_def split: sum.splits prod.splits)

lemma resource_file:
  "rsl_status (resolve_resource nfc lower q path) = 200 \<Longrightarrow> \<exists>f. rsl_resource (resolve_resource nfc lower q path) = Some f \<and>
     mapped_file q f \<and> (\<exists>v k. validate_path nfc lower v = Inr (f, k))"
  using resource_set_member[of "tl path" nfc lower q] by (auto simp: resolve_resource_def resolution_def split: if_splits)

lemma page_file:
  assumes "canonical_relative_path nfc lower (page_resource r) = Inr f" "r \<in> set (rm_routes (rtq_routeMap q))"
    "\<not> route_blocked (rtq_routeMap q) r"
  shows "mapped_file q f \<and> (\<exists>v k. validate_path nfc lower v = Inr (f, k))"
  using canonical_Inr[OF assms(1)] assms(2,3)
  by (auto simp: safe_path_Some mapped_file_def page_resource_def split: if_splits option.splits)

lemma resolved_path_file:
  assumes "rsl_status (resolve_path nfc lower q path) = 200"
  shows "\<exists>f. rsl_resource (resolve_path nfc lower q path) = Some f \<and> mapped_file q f \<and> (\<exists>v k. validate_path nfc lower v = Inr (f, k))"
proof -
  define matches where "matches = filter (\<lambda>r. rt_localRoute r = path) (rm_routes (rtq_routeMap q))"
  have in_map: "r \<in> set (rm_routes (rtq_routeMap q))" if "r \<in> set matches" for r using that by (simp add: matches_def)
  show ?thesis
  proof (cases "1 < length matches \<or> list_ex (\<lambda>r. rt_state r = RouteCollides \<or> in_collision (rtq_routeMap q) r) matches")
    case True
    then show ?thesis using assms by (simp add: resolve_path_def matches_def[symmetric] resolution_def)
  next
    case False
    show ?thesis
    proof (cases matches)
      case Nil
      then show ?thesis using assms resource_file[of nfc lower q path] by (simp add: resolve_path_def matches_def[symmetric])
    next
      case (Cons r rs)
      have run: "resolve_path nfc lower q path =
          (if rt_state r \<noteq> LocalMatch
           then resolution 409 CollisionKind path None (Some r)
             (if rt_state r = RouteCollides then ''RUNTIME_ROUTE_COLLISION'' else ''RUNTIME_ROUTE_UNRESOLVED'')
           else (case canonical_relative_path nfc lower (page_resource r) of
               Inl _ \<Rightarrow> resolve_resource nfc lower q path
             | Inr f \<Rightarrow> resolution 200 PageKind path (Some f) (Some r)
                 (if rt_routeType r = SpaRoute then ''RUNTIME_SPA_ENTRY_DOCUMENT'' else ''RUNTIME_ROUTE_MATCH'')))"
        using False Cons by (simp add: resolve_path_def matches_def[symmetric])
      have matched: "rt_state r = LocalMatch" using assms by (auto simp: run resolution_def split: if_splits)
      then have "\<not> route_blocked (rtq_routeMap q) r" using False Cons by (simp add: route_blocked_def)
      then show ?thesis using assms matched page_file[of nfc lower r _ q] in_map[of r] Cons resource_file[of nfc lower q path]
        by (cases "canonical_relative_path nfc lower (page_resource r)") (auto simp: run resolution_def)
    qed
  qed
qed

lemma resolved_file:
  assumes "rsl_status (resolve_runtime_request nfc lower q) = 200"
  shows "\<exists>f. rsl_resource (resolve_runtime_request nfc lower q) = Some f \<and> mapped_file q f \<and> (\<exists>v k. validate_path nfc lower v = Inr (f, k))"
  using assms resolved_path_file[of nfc lower q]
  by (auto simp: resolve_runtime_request_def resolution_def split: if_splits option.splits)

end
