(* ===== verification/Replay_Gate.thy ===== *)
theory Replay_Gate
  imports Replay_Store Runtime_Resolve
begin

text \<open>
  packages/browser-runtime/src/network-replay.ts: the adapter between the browser and the archive. A
  handler is a computation over the log of what was done with the request and which events were
  handed to the observer; it ends with an outcome or by throwing. The lookup port, the reading of
  bodies, the delivery to the browser, the observer and the clock are the fields of
  \<open>adapter_env\<close>.
\<close>

section \<open>Requests, actions and the observer\<close>

record net_request =
  nr_method :: string
  nr_url :: string
  nr_headers :: headers
  nr_resourceType :: string
  nr_page :: "string option"

datatype gate_action = ContinueRequest | AbortRequest | DeliverResponse int headers "nat list"

text \<open>What the observer does with an event: a promise it returns may reject, the call itself may throw.\<close>

datatype observer_result = Observed | ObserverRejects | ObserverThrows

record gate_log =
  gl_actions :: "gate_action list"
  gl_events :: "replay_event list"

definition empty_log :: gate_log where
  "empty_log = \<lparr>gl_actions = [], gl_events = []\<rparr>"

record adapter_env = replay_env +
  ad_lookup :: "replay_identity_input \<Rightarrow> unit + lookup_result"
  ad_readBody :: "replay_snapshot \<Rightarrow> unit + nat list"
  ad_delivers :: bool
  ad_observer :: "replay_event \<Rightarrow> observer_result"
  ad_now :: string

record replay_policy =
  np_version :: int
  np_projectId :: string
  np_runId :: string
  np_revisionId :: string
  np_runtimeOrigin :: string
  np_strictOffline :: bool
  np_dependencies :: "external_dependency list option"

type_synonym 'a gate = "gate_log \<Rightarrow> (unit + 'a) \<times> gate_log"

definition gate_ret :: "'a \<Rightarrow> 'a gate" where "gate_ret a l = (Inr a, l)"
definition gate_throw :: "'a gate" where "gate_throw l = (Inl (), l)"

definition gate_bind :: "'a gate \<Rightarrow> ('a \<Rightarrow> 'b gate) \<Rightarrow> 'b gate" where
  "gate_bind m f l = (case m l of (Inl e, l') \<Rightarrow> (Inl e, l') | (Inr a, l') \<Rightarrow> f a l')"

definition gate_catch :: "'a gate \<Rightarrow> 'a gate \<Rightarrow> 'a gate" where
  "gate_catch m h l = (case m l of (Inl e, l') \<Rightarrow> h l' | (Inr a, l') \<Rightarrow> (Inr a, l'))"

definition gate_lift :: "unit + 'a \<Rightarrow> 'a gate" where "gate_lift x l = (x, l)"
definition gate_check :: "bool \<Rightarrow> unit gate" where "gate_check b l = (ensure b (), l)"

definition gate_act :: "gate_action \<Rightarrow> unit gate" where
  "gate_act a l = (Inr (), l\<lparr>gl_actions := gl_actions l @ [a]\<rparr>)"

definition gate_emit :: "adapter_env \<Rightarrow> replay_event \<Rightarrow> unit gate" where
  "gate_emit E e l = (if ad_observer E e = ObserverThrows then Inl () else Inr (), l\<lparr>gl_events := gl_events l @ [e]\<rparr>)"

definition gate_deliver :: "adapter_env \<Rightarrow> int \<Rightarrow> headers \<Rightarrow> nat list \<Rightarrow> unit gate" where
  "gate_deliver E status hs body = (if ad_delivers E then gate_act (DeliverResponse status hs body) else gate_throw)"

section \<open>Events\<close>

definition policy_identity_input :: "replay_policy \<Rightarrow> net_request \<Rightarrow> replay_identity_input" where
  "policy_identity_input p r = \<lparr>rq_projectId = np_projectId p, rq_runId = np_runId p, rq_revisionId = np_revisionId p,
     rq_method = nr_method r, rq_url = nr_url r, rq_headers = nr_headers r, rq_ignoredKeys = []\<rparr>"

definition event_values :: "adapter_env \<Rightarrow> replay_policy \<Rightarrow> net_request \<Rightarrow> string \<Rightarrow> string \<Rightarrow> string \<Rightarrow> replay_event" where
  "event_values E p r reason match_state event_type =
     \<lparr>rv_eventType = event_type, rv_projectId = np_projectId p, rv_runId = np_runId p, rv_revisionId = np_revisionId p,
      rv_method = take 16 (nr_method r), rv_safeUrl = safe_replay_url E (nr_url r),
      rv_identity = (if replay_method (nr_method r)
        then (case canonical_replay_request_identity E (policy_identity_input p r) of Inl e \<Rightarrow> None | Inr i \<Rightarrow> Some (ri_key i))
        else None),
      rv_resourceType = Some (take 80 (nr_resourceType r)), rv_initiatingPage = nr_page r,
      rv_reason = take 160 reason, rv_matchState = take 80 match_state, rv_strictOffline = np_strictOffline p,
      rv_occurredAt = ad_now E\<rparr>"

primrec miss_text :: "miss_reason \<Rightarrow> string" where
  "miss_text NoCapture = ''no-capture''"
| "miss_text AmbiguousMatch = ''ambiguous-match''"
| "miss_text RevisionMismatch = ''revision-mismatch''"
| "miss_text MethodNotSupported = ''method-not-supported''"
| "miss_text BlockedByPolicy = ''blocked-by-policy''"
| "miss_text SensitiveRequest = ''sensitive-request''"
| "miss_text UnsupportedScheme = ''unsupported-scheme''"
| "miss_text UnsupportedProtocol = ''unsupported-protocol''"
| "miss_text ExternalDependency = ''external-dependency''"
| "miss_text MissingResponseBody = ''missing-response-body''"
| "miss_text IntegrityFailure = ''integrity-failure''"

primrec lookup_state_text :: "lookup_result \<Rightarrow> string" where
  "lookup_state_text (LookupMatch s) = ''match''"
| "lookup_state_text (LookupMiss r) = ''miss''"
| "lookup_state_text (LookupAmbiguous cs) = ''ambiguous''"
| "lookup_state_text (LookupBroken s r) = ''integrity-failure''"

definition replay_miss_reason :: "adapter_env \<Rightarrow> replay_policy \<Rightarrow> string \<Rightarrow> string \<Rightarrow> string" where
  "replay_miss_reason E p v fallback = (case classify_replay_external_dependency E v (np_dependencies p) of
     None \<Rightarrow> fallback | Some c \<Rightarrow> ''external-dependency:'' @ c)"

definition unmatched_reason :: "adapter_env \<Rightarrow> replay_policy \<Rightarrow> net_request \<Rightarrow> lookup_result \<Rightarrow> string" where
  "unmatched_reason E p r l = (case l of
     LookupAmbiguous cs \<Rightarrow> ''ambiguous-match''
   | LookupBroken s x \<Rightarrow> ''integrity-failure''
   | _ \<Rightarrow> replay_miss_reason E p (nr_url r) (miss_text (classify_replay_miss (Some l))))"

definition invalid_reason :: "replay_error \<Rightarrow> string" where
  "invalid_reason e = (if e = SensitiveQuery then ''sensitive-request'' else ''unsupported-protocol'')"

definition lookup_or_miss :: "adapter_env \<Rightarrow> replay_identity_input \<Rightarrow> lookup_result" where
  "lookup_or_miss E q = (case ad_lookup E q of Inl _ \<Rightarrow> LookupMiss IntegrityFailure | Inr l \<Rightarrow> l)"

section \<open>Handlers\<close>

datatype route_outcome = Fulfilled | Continued | Aborted
datatype cdp_outcome = CdpFulfilled | CdpAborted | CdpDefer

text \<open>
  The answer to a match: the body is read and its integrity verified before anything is delivered; any
  error on the way aborts the request.
\<close>

definition answer_match :: "adapter_env \<Rightarrow> replay_policy \<Rightarrow> net_request \<Rightarrow> replay_snapshot \<Rightarrow> unit gate" where
  "answer_match E p r s =
     gate_bind (gate_check (is_replayable_response_status (js_int (sn_status s)))) (\<lambda>_.
     gate_bind (gate_lift (ad_readBody E s)) (\<lambda>body.
     gate_bind (gate_check (\<not> (300 \<le> sn_status s \<and> sn_status s < 400 \<and> map_of (sn_responseHeaders s) ''location'' = None))) (\<lambda>_.
     gate_bind (gate_deliver E (sn_status s) (sn_responseHeaders s) (if nr_method r = ''HEAD'' then [] else body)) (\<lambda>_.
     gate_emit E (event_values E p r ''REPLAY_MATCH'' ''match'' ''replay-match'')))))"

definition refuse_match :: "adapter_env \<Rightarrow> replay_policy \<Rightarrow> net_request \<Rightarrow> unit gate" where
  "refuse_match E p r =
     gate_bind (gate_emit E (event_values E p r ''integrity-failure'' ''integrity-failure'' ''external-network-leakage'')) (\<lambda>_.
     gate_act AbortRequest)"

definition handle_route :: "adapter_env \<Rightarrow> replay_policy \<Rightarrow> net_request \<Rightarrow> route_outcome gate" where
  "handle_route E p r =
     (if \<not> replay_method (nr_method r) then
        gate_bind (gate_emit E (event_values E p r ''METHOD_NOT_SUPPORTED'' ''blocked'' ''mutation-blocked'')) (\<lambda>_.
        gate_bind (gate_act AbortRequest) (\<lambda>_. gate_ret Aborted))
      else if is_runtime_local_request E (nr_url r) (np_runtimeOrigin p) then
        gate_bind (gate_emit E (event_values E p r ''RUNTIME_LOCAL_ORIGIN'' ''local'' ''runtime-local-allow'')) (\<lambda>_.
        gate_bind (gate_act ContinueRequest) (\<lambda>_. gate_ret Continued))
      else (case canonical_replay_request_identity E (policy_identity_input p r) of
          Inl e \<Rightarrow>
            gate_bind (gate_emit E (event_values E p r (invalid_reason e) ''invalid'' ''external-network-leakage'')) (\<lambda>_.
            gate_bind (gate_act AbortRequest) (\<lambda>_. gate_ret Aborted))
        | Inr identity \<Rightarrow> (case lookup_or_miss E (policy_identity_input p r) of
            LookupMatch s \<Rightarrow>
              gate_catch (gate_bind (answer_match E p r s) (\<lambda>_. gate_ret Fulfilled))
                (gate_bind (refuse_match E p r) (\<lambda>_. gate_ret Aborted))
          | l \<Rightarrow>
              gate_bind (gate_emit E (event_values E p r (unmatched_reason E p r l) (lookup_state_text l) ''external-network-leakage'')) (\<lambda>_.
              if np_strictOffline p then gate_bind (gate_act AbortRequest) (\<lambda>_. gate_ret Aborted)
              else gate_bind (gate_act ContinueRequest) (\<lambda>_. gate_ret Continued)))))"

text \<open>\<open>handleCdpRequest\<close> fails or fulfils a request itself and defers to the network otherwise; it knows no page.\<close>

definition handle_cdp_request :: "adapter_env \<Rightarrow> replay_policy \<Rightarrow> net_request \<Rightarrow> cdp_outcome gate" where
  "handle_cdp_request E p r0 =
     (let r = r0\<lparr>nr_page := None\<rparr>
      in if \<not> replay_method (nr_method r) then
        gate_bind (gate_emit E (event_values E p r ''METHOD_NOT_SUPPORTED'' ''blocked'' ''mutation-blocked'')) (\<lambda>_.
        gate_bind (gate_act AbortRequest) (\<lambda>_. gate_ret CdpAborted))
      else if is_runtime_local_request E (nr_url r) (np_runtimeOrigin p) then
        gate_bind (gate_emit E (event_values E p r ''RUNTIME_LOCAL_ORIGIN'' ''local'' ''runtime-local-allow'')) (\<lambda>_.
        gate_ret CdpDefer)
      else (case canonical_replay_request_identity E (policy_identity_input p r) of
          Inl e \<Rightarrow>
            gate_bind (gate_emit E (event_values E p r (invalid_reason e) ''invalid'' ''external-network-leakage'')) (\<lambda>_.
            gate_bind (gate_act AbortRequest) (\<lambda>_. gate_ret CdpAborted))
        | Inr identity \<Rightarrow> (case lookup_or_miss E (policy_identity_input p r) of
            LookupMatch s \<Rightarrow>
              gate_catch (gate_bind (answer_match E p r s) (\<lambda>_. gate_ret CdpFulfilled))
                (gate_bind (refuse_match E p r) (\<lambda>_. gate_ret CdpAborted))
          | l \<Rightarrow>
              gate_bind (gate_emit E (event_values E p r (unmatched_reason E p r l) (lookup_state_text l) ''external-network-leakage'')) (\<lambda>_.
              if np_strictOffline p then gate_bind (gate_act AbortRequest) (\<lambda>_. gate_ret CdpAborted)
              else gate_ret CdpDefer))))"

section \<open>The adapter\<close>

definition new_replay_adapter :: "'x replay_env_scheme \<Rightarrow> replay_policy \<Rightarrow> replay_error + replay_policy" where
  "new_replay_adapter E p =
     ebind (ensure (np_version p = 1) PolicyInvalid) (\<lambda>_.
     ebind (validate_runtime_origin E (np_runtimeOrigin p)) (\<lambda>origin.
     ebind (ensure (origin = np_runtimeOrigin p) PolicyInvalid) (\<lambda>_.
     ebind (ensure (case np_dependencies p of None \<Rightarrow> True
         | Some ds \<Rightarrow> list_all (\<lambda>d. ed_projectId d = np_projectId p \<and> ed_runId d = np_runId p \<and> ed_revisionId d = np_revisionId p) ds)
       PolicyInvalid) (\<lambda>_.
     Inr p))))"

text \<open>Capture. The body of a response may fail to be read.\<close>

record net_response =
  ns_request :: net_request
  ns_status :: int
  ns_headers :: headers
  ns_body :: "nat list option"

record capture_config =
  cc_policy :: capture_policy
  cc_capturedAt :: string
  cc_pageId :: "string option"
  cc_workerId :: "string option"
  cc_ignoredKeys :: "units list"

definition capture_response :: "'x replay_env_scheme \<Rightarrow> replay_policy \<Rightarrow> capture_config option \<Rightarrow> net_response \<Rightarrow> capture_input option" where
  "capture_response E p config response = (case config of
     None \<Rightarrow> None
   | Some c \<Rightarrow>
       (let r = ns_request response;
            content_type = (case map_of (ns_headers response) ''content-type'' of None \<Rightarrow> [] | Some t \<Rightarrow> t)
        in if fst (classify_capture_eligibility E (cc_policy c)
             \<lparr>cr_method = nr_method r, cr_url = nr_url r, cr_resourceType = nr_resourceType r, cr_contentType = Some content_type,
              cr_requestHeaders = nr_headers r, cr_responseHeaders = ns_headers response\<rparr>) \<noteq> Capturable then None
           else (case ns_body response of
               None \<Rightarrow> None
             | Some body \<Rightarrow>
                 if cp_maximumBytes (cc_policy c) < int (length body) \<or> 8 * 1024 * 1024 < int (length body) then None
                 else if cp_rejectSensitive (cc_policy c) \<and> contains_sensitive_replay_body body content_type then None
                 else Some \<lparr>ci_projectId = np_projectId p, ci_runId = np_runId p, ci_revisionId = np_revisionId p,
                     ci_originalUrl = nr_url r, ci_method = nr_method r, ci_url = nr_url r, ci_requestHeaders = nr_headers r,
                     ci_status = ns_status response, ci_responseHeaders = ns_headers response, ci_contentType = content_type,
                     ci_body = body, ci_capturedAt = cc_capturedAt c, ci_pageId = cc_pageId c, ci_workerId = cc_workerId c,
                     ci_ignoredKeys = cc_ignoredKeys c\<rparr>)))"

text \<open>The sink is the repository; whether it accepts the capture is of no consequence to the page.\<close>

definition capture_into :: "store_env \<Rightarrow> string \<Rightarrow> replay_policy \<Rightarrow> capture_config option \<Rightarrow> net_response \<Rightarrow> replay_db \<Rightarrow> replay_db" where
  "capture_into E snapshot_id p config response S = (case capture_response E p config response of
     None \<Rightarrow> S
   | Some c \<Rightarrow> snd (capture_snapshot E snapshot_id c S))"

text \<open>An adapter over a lookup port, and the one whose port is the repository.\<close>

definition port_adapter ::
    "'x replay_env_scheme \<Rightarrow> (replay_identity_input \<Rightarrow> lookup_result) \<Rightarrow> (replay_snapshot \<Rightarrow> store_error + nat list) \<Rightarrow>
     bool \<Rightarrow> (replay_event \<Rightarrow> observer_result) \<Rightarrow> string \<Rightarrow> adapter_env" where
  "port_adapter E look body delivers observer now =
     \<lparr>rp_parse = rp_parse E, rp_text = rp_text E, rp_origin = rp_origin E, rp_lower = rp_lower E, rp_sha = rp_sha E,
      ad_lookup = (\<lambda>q. Inr (look q)),
      ad_readBody = (\<lambda>s. case body s of Inl _ \<Rightarrow> Inl () | Inr b \<Rightarrow> Inr b),
      ad_delivers = delivers, ad_observer = observer, ad_now = now\<rparr>"

definition store_adapter :: "store_env \<Rightarrow> replay_db \<Rightarrow> bool \<Rightarrow> (replay_event \<Rightarrow> observer_result) \<Rightarrow> string \<Rightarrow> adapter_env" where
  "store_adapter E S delivers observer now = port_adapter E (lookup_snapshot E S) (read_body E S) delivers observer now"

end
