(* ===== verification/Replay_Archive.thy ===== *)
theory Replay_Archive
  imports Replay_Sound Replay_Gate
begin

text \<open>
  The invariant of the replay store and what capture and lookup promise each other: every row names a
  body file with its digest and length, its identity key is the key of its URL and headers, and the
  lookup of a request is decided by the set of digests captured for it.
\<close>

section \<open>Invariant\<close>

definition row_body :: "'x replay_env_scheme \<Rightarrow> replay_db \<Rightarrow> replay_row \<Rightarrow> bool" where
  "row_body E S r = (rw_bodyPath r = body_path (rw_bodySha256 r) \<and>
     (case rd_files S (rw_bodyPath r) of None \<Rightarrow> False
      | Some bytes \<Rightarrow> rp_sha E bytes = rw_bodySha256 r \<and> int (length bytes) = rw_bodyBytes r \<and> rw_bodyBytes r \<le> max_replay_body_bytes))"

definition row_request :: "'x replay_env_scheme \<Rightarrow> replay_row \<Rightarrow> bool" where
  "row_request E r = (\<exists>q i hs. canonical_replay_request_identity E q = Inr i \<and> rq_method q = ''GET'' \<and>
     rw_projectId r = ri_projectId i \<and> rw_runId r = ri_runId i \<and> rw_revisionId r = ri_revisionId i \<and>
     rw_normalizedUrl r = ri_url i \<and> rw_requestHeaders r = headers_json (ri_headers i) \<and> rw_identityKey r = ri_key i \<and>
     rw_responseHeaders r = headers_json (sanitize_replay_response_headers None hs))"

definition row_sound :: "'x replay_env_scheme \<Rightarrow> replay_db \<Rightarrow> replay_row \<Rightarrow> bool" where
  "row_sound E S r = (rw_state r = SnapshotComplete \<and> row_body E S r \<and> row_request E r \<and>
     replay_scope_owned S (rw_projectId r) (rw_runId r) (rw_revisionId r))"

definition replay_ok :: "'x replay_env_scheme \<Rightarrow> replay_db \<Rightarrow> bool" where
  "replay_ok E S = (table_ok snapshot_check snapshot_clash (rd_snapshots S) \<and>
     table_ok runtime_event_check runtime_event_clash (rd_events S) \<and> list_all (row_sound E S) (rd_snapshots S))"

lemma identity_parts:
  assumes "canonical_replay_request_identity E q = Inr i"
  shows "ri_projectId i = rq_projectId q" "ri_runId i = rq_runId q" "ri_revisionId i = rq_revisionId q"
    "ri_method i = rq_method q" "ri_headers i = select_replay_match_headers (rq_headers q)"
    "normalize_replay_url E (rq_ignoredKeys q) (rq_url q) = Inr (ri_url i)"
  using assms by (auto simp: identity_Inr_iff)

lemma lift_identity_Inr [result_simps]: "lift_identity m = Inr a \<longleftrightarrow> m = Inr a"
  by (auto simp: lift_identity_def split: sum.splits)

lemma capture_checks_Inr:
  assumes "capture_checks E S c = Inr i"
  shows "int (length (ci_body c)) \<le> max_replay_body_bytes" "ci_method c = ''GET''"
    "replay_scope_owned S (ci_projectId c) (ci_runId c) (ci_revisionId c)"
    "canonical_replay_request_identity E (capture_identity_input c) = Inr i"
  using assms by (auto simp: capture_checks_def result_simps)

lemma store_body_Inr:
  assumes "store_body E body S = Inr S1"
  shows "\<exists>bytes. rd_files S1 (body_path (rp_sha E body)) = Some bytes \<and> rp_sha E bytes = rp_sha E body \<and> length bytes = length body"
    "rd_files S \<subseteq>\<^sub>m rd_files S1" "\<exists>f. S1 = S\<lparr>rd_files := f\<rparr>"
  using assms by (auto simp: store_body_def Let_def map_le_def split: option.splits if_splits
      intro: exI[of _ "rd_files S"])

lemma row_sound_files:
  assumes "rd_files S \<subseteq>\<^sub>m f" "row_sound E S r" shows "row_sound E (S\<lparr>rd_files := f, rd_snapshots := rows\<rparr>) r"
proof -
  have "rd_files S p = Some b \<Longrightarrow> f p = Some b" for p b using assms(1) by (metis domI map_le_def)
  then show ?thesis using assms(2) by (auto simp: row_sound_def row_body_def replay_scope_owned_def split: option.splits)
qed

lemma captured_row_sound:
  assumes "capture_checks E S c = Inr i" "store_body E (ci_body c) S = Inr S1"
  shows "row_sound E (S1\<lparr>rd_snapshots := rows\<rparr>) (capture_row E sid c i)"
proof -
  note checks = capture_checks_Inr[OF assms(1)] and body = store_body_Inr[OF assms(2)]
  note parts = identity_parts[OF checks(4)]
  have "row_request E (capture_row E sid c i)"
    unfolding row_request_def
    by (rule exI[of _ "capture_identity_input c"], rule exI[of _ i], rule exI[of _ "ci_responseHeaders c"])
      (use checks(4) parts in \<open>simp add: capture_row_def Let_def capture_identity_input_def\<close>)
  moreover have "row_body E (S1\<lparr>rd_snapshots := rows\<rparr>) (capture_row E sid c i)"
    using body(1) checks(1) by (auto simp: row_body_def capture_row_def Let_def)
  moreover have "replay_scope_owned (S1\<lparr>rd_snapshots := rows\<rparr>) (ci_projectId c) (ci_runId c) (ci_revisionId c)"
    using body(3) checks(3) by (auto simp: replay_scope_owned_def)
  ultimately show ?thesis by (simp add: row_sound_def capture_row_def Let_def)
qed

lemma insert_snapshot_Inr:
  assumes "insert_snapshot r S = Inr S2"
  shows "S2 = S\<lparr>rd_snapshots := rd_snapshots S2\<rparr>" "rd_snapshots S2 = rd_snapshots S \<or> rd_snapshots S2 = rd_snapshots S @ [r]"
    "table_ok snapshot_check snapshot_clash (rd_snapshots S) \<Longrightarrow> table_ok snapshot_check snapshot_clash (rd_snapshots S2)"
    "snapshot_check r \<Longrightarrow> (\<And>x. x \<in> set (rd_snapshots S) \<Longrightarrow> rw_snapshotId x \<noteq> rw_snapshotId r) \<Longrightarrow>
       \<exists>x \<in> set (rd_snapshots S2). snapshot_identity x = snapshot_identity r"
proof -
  obtain rows where rows: "sql_insert_or_ignore snapshot_check snapshot_clash
      (replay_owner_fk S (rw_projectId r) (rw_runId r) (rw_revisionId r)) r (rd_snapshots S) = Some rows"
    and s: "S2 = S\<lparr>rd_snapshots := rows\<rparr>"
    using assms by (auto simp: insert_snapshot_def split: option.splits)
  show "S2 = S\<lparr>rd_snapshots := rd_snapshots S2\<rparr>" using s by simp
  show "rd_snapshots S2 = rd_snapshots S \<or> rd_snapshots S2 = rd_snapshots S @ [r]"
    using rows s by (auto simp: sql_insert_or_ignore_def split: if_splits)
  show "table_ok snapshot_check snapshot_clash (rd_snapshots S) \<Longrightarrow> table_ok snapshot_check snapshot_clash (rd_snapshots S2)"
    using snapshot_table.insert_or_ignore_ok[OF rows] s by simp
  show "\<exists>x \<in> set (rd_snapshots S2). snapshot_identity x = snapshot_identity r"
    if "snapshot_check r" "\<And>x. x \<in> set (rd_snapshots S) \<Longrightarrow> rw_snapshotId x \<noteq> rw_snapshotId r"
    using rows s that by (auto simp: sql_insert_or_ignore_def snapshot_clash_def list_all_iff split: if_splits)
qed

text \<open>The states a capture can leave.\<close>

lemma capture_states:
  assumes "capture_snapshot E sid c S = (res, S')"
  shows "(S' = S \<and> \<not> is_ok res) \<or>
    (\<exists>i S1. capture_checks E S c = Inr i \<and> store_body E (ci_body c) S = Inr S1 \<and>
       ((S' = S1 \<and> \<not> is_ok res) \<or> (insert_snapshot (capture_row E sid c i) S1 = Inr S' \<and>
          res = (case select_captured (capture_row E sid c i) S' of None \<Rightarrow> Inl DatabaseInvalid | Some r \<Rightarrow> snapshot_from_row E r))))"
  using assms by (auto simp: capture_snapshot_def Let_def split: sum.splits option.splits)

lemma replay_ok_files:
  assumes "replay_ok E S" "rd_files S \<subseteq>\<^sub>m rd_files S1" "\<exists>f. S1 = S\<lparr>rd_files := f\<rparr>"
  shows "replay_ok E S1"
proof -
  obtain f where S1: "S1 = S\<lparr>rd_files := f\<rparr>" using assms(3) by blast
  have "row_sound E S1 r" if "row_sound E S r" for r
    using row_sound_files[of S "rd_files S1" E r "rd_snapshots S"] assms(2) that S1 by simp
  then show ?thesis using assms(1) S1 by (simp add: replay_ok_def list_all_iff)
qed

lemma capture_ok:
  assumes "replay_ok E S" "capture_snapshot E sid c S = (res, S')"
  shows "replay_ok E S'"
proof -
  consider "S' = S" | i S1 where "capture_checks E S c = Inr i" "store_body E (ci_body c) S = Inr S1" "S' = S1"
    | i S1 where "capture_checks E S c = Inr i" "store_body E (ci_body c) S = Inr S1" "insert_snapshot (capture_row E sid c i) S1 = Inr S'"
    using capture_states[OF assms(2)] by blast
  then show ?thesis
  proof cases
    case 2
    then show ?thesis using replay_ok_files[OF assms(1) store_body_Inr(2,3)[OF 2(2)]] by simp
  next
    case 3
    note ins = insert_snapshot_Inr[OF 3(3)]
    have one: "replay_ok E S1" by (rule replay_ok_files[OF assms(1) store_body_Inr(2,3)[OF 3(2)]])
    have "row_sound E S' r" if "r \<in> set (rd_snapshots S')" for r
    proof (cases "r \<in> set (rd_snapshots S1)")
      case True
      then have "row_sound E S1 r" using one by (simp add: replay_ok_def list_all_iff)
      then show ?thesis using row_sound_files[of S1 "rd_files S1" E r "rd_snapshots S'"] ins(1) by simp
    next
      case False
      then have "r = capture_row E sid c i" using ins(2) that by auto
      then show ?thesis using captured_row_sound[OF 3(1,2)] ins(1) by metis
    qed
    moreover have "rd_events S' = rd_events S1" using ins(1) by (metis replay_db.select_convs(5) replay_db.surjective replay_db.update_convs(4))
    ultimately show ?thesis using one ins(3) by (simp add: replay_ok_def list_all_iff)
  qed (simp add: assms(1))
qed

lemma record_event_ok:
  assumes "replay_ok E S" "record_runtime_event E' sid now e S = (res, S')"
  shows "replay_ok E S'"
proof -
  have "row_sound E (S\<lparr>rd_events := rows\<rparr>) r = row_sound E S r" for rows r
    by (simp add: row_sound_def row_body_def replay_scope_owned_def cong: option.case_cong)
  then show ?thesis
    using assms runtime_event_table.insert_ok
    by (auto simp: record_runtime_event_def replay_ok_def list_all_iff split: if_splits option.splits)
qed

section \<open>Sequences of operations\<close>

text \<open>An operation comes with what the file system allows while it runs.\<close>

datatype store_op =
    CaptureOp "string \<Rightarrow> bool" "string \<Rightarrow> bool" string capture_input
  | EventOp string string replay_event

primrec store_step :: "store_env \<Rightarrow> replay_db \<Rightarrow> store_op \<Rightarrow> replay_db" where
  "store_step E S (CaptureOp resolves writes sid c) =
     snd (capture_snapshot (E\<lparr>st_resolves := resolves, st_writes := writes\<rparr>) sid c S)"
| "store_step E S (EventOp sid now e) = snd (record_runtime_event E sid now e S)"

definition store_run :: "store_env \<Rightarrow> store_op list \<Rightarrow> replay_db \<Rightarrow> replay_db" where
  "store_run E ops S = foldl (store_step E) S ops"

lemma row_sound_faults: "row_sound (E\<lparr>st_resolves := a, st_writes := b\<rparr>) S r = row_sound E S r"
proof -
  let ?E = "E\<lparr>st_resolves := a, st_writes := b\<rparr>"
  have "normalize_replay_url ?E ks v = normalize_replay_url E ks v" for ks v
    by (simp add: normalize_replay_url_def parse_url_def ignored_query_key_def)
  then have "canonical_replay_request_identity ?E q = canonical_replay_request_identity E q" for q
    by (simp add: canonical_replay_request_identity_def)
  then show ?thesis by (simp add: row_sound_def row_body_def row_request_def cong: option.case_cong)
qed

lemma replay_ok_faults: "replay_ok (E\<lparr>st_resolves := a, st_writes := b\<rparr>) S = replay_ok E S"
  by (simp add: replay_ok_def row_sound_faults cong: list.pred_cong)

lemma store_run_ok: "replay_ok E S \<Longrightarrow> replay_ok E (store_run E ops S)"
proof (induction ops arbitrary: S)
  case (Cons op ops)
  have "replay_ok E (store_step E S op)"
  proof (cases op)
    case (CaptureOp a b sid c)
    then show ?thesis
      using capture_ok[of "E\<lparr>st_resolves := a, st_writes := b\<rparr>" S sid c] Cons.prems
      by (auto simp: replay_ok_faults prod_eq_iff)
  next
    case (EventOp sid now e)
    then show ?thesis using record_event_ok[OF Cons.prems, of E sid now e] by (auto simp: prod_eq_iff)
  qed
  then show ?case using Cons.IH by (simp add: store_run_def)
qed (simp add: store_run_def)

section \<open>Lookup\<close>

text \<open>The digests captured under an identity key.\<close>

definition captured_digests :: "replay_db \<Rightarrow> string \<Rightarrow> string set" where
  "captured_digests S key = rw_bodySha256 ` {r \<in> set (rd_snapshots S). rw_identityKey r = key}"

lemma captured_digestsI:
  "r \<in> set (rd_snapshots S) \<Longrightarrow> rw_identityKey r = key \<Longrightarrow> rw_bodySha256 r = d \<Longrightarrow> d \<in> captured_digests S key"
  by (force simp: captured_digests_def)

lemma row_of_identity:
  assumes "replay_ok E S" "r \<in> set (rd_snapshots S)" "canonical_replay_request_identity E q = Inr i" "rw_identityKey r = ri_key i"
  shows "rw_projectId r = ri_projectId i" "rw_runId r = ri_runId i" "rw_revisionId r = ri_revisionId i" "rw_state r = SnapshotComplete"
    "rw_normalizedUrl r = ri_url i" "rw_requestHeaders r = headers_json (ri_headers i)" "ri_method i = ''GET''"
    "rw_captureVersion r = 1" "rw_method r = ''GET''"
    "\<exists>hs. rw_responseHeaders r = headers_json (sanitize_replay_response_headers None hs)"
proof -
  have sound: "row_sound E S r" "snapshot_check r"
    using assms(1,2) by (auto simp: replay_ok_def list_all_iff table_ok_def)
  then obtain q' i' hs where r: "canonical_replay_request_identity E q' = Inr i'" "rq_method q' = ''GET''"
    "rw_projectId r = ri_projectId i'" "rw_runId r = ri_runId i'" "rw_revisionId r = ri_revisionId i'"
    "rw_normalizedUrl r = ri_url i'" "rw_requestHeaders r = headers_json (ri_headers i')" "rw_identityKey r = ri_key i'"
    "rw_responseHeaders r = headers_json (sanitize_replay_response_headers None hs)"
    by (auto simp: row_sound_def row_request_def)
  have "i = i'" using identity_key_unique[OF assms(3) r(1)] assms(4) r(8) by simp
  then show "rw_projectId r = ri_projectId i" "rw_runId r = ri_runId i" "rw_revisionId r = ri_revisionId i"
    "rw_normalizedUrl r = ri_url i" "rw_requestHeaders r = headers_json (ri_headers i)" "ri_method i = ''GET''"
    "\<exists>hs. rw_responseHeaders r = headers_json (sanitize_replay_response_headers None hs)"
    using r identity_parts(4)[OF r(1)] by auto
  show "rw_state r = SnapshotComplete" using sound by (simp add: row_sound_def)
  show "rw_captureVersion r = 1" "rw_method r = ''GET''" using sound by (auto simp: snapshot_check_def)
qed

lemma identity_rows_set:
  assumes "replay_ok E S" "canonical_replay_request_identity E q = Inr i"
  shows "set (identity_rows i S) = {r \<in> set (rd_snapshots S). rw_identityKey r = ri_key i}"
  using row_of_identity[OF assms(1) _ assms(2)] by (auto simp: identity_rows_def)

text \<open>
  The identity that is read back from the stored URL and headers. A row whose stored request no longer
  normalises to its key is not replayable.
\<close>

definition rereads :: "'x replay_env_scheme \<Rightarrow> replay_identity \<Rightarrow> bool" where
  "rereads E i = (select_replay_match_headers (ri_headers i) = ri_headers i \<and> normalize_replay_url E [] (ri_url i) = Inr (ri_url i))"

lemma snapshot_of_row:
  assumes "replay_ok E S" "r \<in> set (rd_snapshots S)" "canonical_replay_request_identity E q = Inr i" "rw_identityKey r = ri_key i"
    and "rereads E i"
  shows "\<exists>s. snapshot_from_row E r = Inr s \<and> sn_snapshotId s = rw_snapshotId r \<and> sn_identity s = i \<and> sn_status s = rw_status r \<and>
    headers_json (sn_responseHeaders s) = rw_responseHeaders r \<and> sn_bodySha256 s = rw_bodySha256 r \<and> sn_bodyBytes s = rw_bodyBytes r \<and>
    sn_bodyRelativePath s = rw_bodyPath r"
proof -
  note row = row_of_identity[OF assms(1-4)]
  obtain hs where hs: "rw_responseHeaders r = headers_json (sanitize_replay_response_headers None hs)" using row(10) by blast
  let ?q = "\<lparr>rq_projectId = rw_projectId r, rq_runId = rw_runId r, rq_revisionId = rw_revisionId r, rq_method = ''GET'',
        rq_url = rw_normalizedUrl r, rq_headers = ri_headers i, rq_ignoredKeys = []\<rparr>"
  have again: "canonical_replay_request_identity E ?q = Inr i"
    using assms(3,5) row by (auto simp: identity_Inr_iff rereads_def)
  have req: "parse_headers (rw_requestHeaders r) = Inr (ri_headers i)"
    using row(6) identity_parts(5)[OF assms(3)] selected_headers_parse by simp
  show ?thesis
    using again req row hs assms(4) response_headers_parse[of None hs]
    by (simp add: snapshot_from_row_def lift_identity_def sanitize_again)
qed

lemma broken_row:
  assumes "replay_ok E S" "r \<in> set (rd_snapshots S)" "canonical_replay_request_identity E q = Inr i" "rw_identityKey r = ri_key i"
    and "select_replay_match_headers (ri_headers i) \<noteq> ri_headers i"
  shows "snapshot_from_row E r = Inl DatabaseInvalid \<or> (\<exists>e. snapshot_from_row E r = Inl (BadIdentity e))"
proof -
  note row = row_of_identity[OF assms(1-4)]
  obtain hs where hs: "rw_responseHeaders r = headers_json (sanitize_replay_response_headers None hs)" using row(10) by blast
  let ?q = "\<lparr>rq_projectId = rw_projectId r, rq_runId = rw_runId r, rq_revisionId = rw_revisionId r, rq_method = ''GET'',
        rq_url = rw_normalizedUrl r, rq_headers = ri_headers i, rq_ignoredKeys = []\<rparr>"
  have req: "parse_headers (rw_requestHeaders r) = Inr (ri_headers i)"
    using row(6) identity_parts(5)[OF assms(3)] selected_headers_parse by simp
  have "ri_key j \<noteq> ri_key i" if "canonical_replay_request_identity E ?q = Inr j" for j
    using identity_key_unique[OF that assms(3)] identity_parts(5)[OF that] assms(5) by auto
  then show ?thesis
    using req row hs assms(4) response_headers_parse[of None hs]
    by (cases "canonical_replay_request_identity E ?q") (auto simp: snapshot_from_row_def lift_identity_def ensure_def)
qed

lemma emap_all:
  "(\<And>x. x \<in> set xs \<Longrightarrow> \<exists>y. f x = Inr y \<and> g y = h x) \<Longrightarrow> \<exists>ys. emap f xs = Inr ys \<and> map g ys = map h xs"
proof (induction xs)
  case (Cons x xs)
  obtain y where "f x = Inr y" "g y = h x" using Cons.prems[of x] by auto
  moreover obtain ys where "emap f xs = Inr ys" "map g ys = map h xs" using Cons by auto
  ultimately show ?case by simp
qed simp

text \<open>What a lookup of a stored request finds, by the digests captured for it.\<close>

lemma lookup_by_digests:
  assumes "replay_ok E S" "canonical_replay_request_identity E q = Inr i" "rereads E i"
  shows "captured_digests S (ri_key i) = {} \<Longrightarrow> lookup_snapshot E S q = LookupMiss NoCapture"
    "captured_digests S (ri_key i) = {d} \<Longrightarrow> \<exists>s. lookup_snapshot E S q = LookupMatch s \<and> sn_bodySha256 s = d \<and>
       (\<exists>r \<in> set (rd_snapshots S). rw_identityKey r = ri_key i \<and> snapshot_from_row E r = Inr s)"
    "\<lbrakk>d \<in> captured_digests S (ri_key i); d' \<in> captured_digests S (ri_key i); d \<noteq> d'\<rbrakk> \<Longrightarrow>
       \<exists>ss. lookup_snapshot E S q = LookupAmbiguous ss \<and> {d, d'} \<subseteq> set (map sn_bodySha256 ss)"
proof -
  let ?rows = "identity_rows i S"
  have rows: "set ?rows = {r \<in> set (rd_snapshots S). rw_identityKey r = ri_key i}" by (rule identity_rows_set[OF assms(1,2)])
  have dig: "captured_digests S (ri_key i) = rw_bodySha256 ` set ?rows" by (simp add: captured_digests_def rows)
  have ok: "\<exists>s. snapshot_from_row E r = Inr s \<and> sn_bodySha256 s = rw_bodySha256 r" if "r \<in> set ?rows" for r
    using snapshot_of_row[OF assms(1) _ assms(2) _ assms(3), of r] that rows by blast
  obtain ss where ss: "emap (snapshot_from_row E) ?rows = Inr ss" "map sn_bodySha256 ss = map rw_bodySha256 ?rows"
    using emap_all[of ?rows "snapshot_from_row E" sn_bodySha256 rw_bodySha256] ok by blast
  have look: "lookup_snapshot E S q = (if ?rows = [] then LookupMiss NoCapture
      else if 1 < length (remdups (map sn_bodySha256 ss)) then LookupAmbiguous ss else LookupMatch (hd ss))"
    using assms(2) ss(1) by (simp add: lookup_snapshot_def Let_def)
  have card: "length (remdups (map sn_bodySha256 ss)) = card (captured_digests S (ri_key i))"
    by (simp add: ss(2) dig length_remdups_card_conv)
  show "captured_digests S (ri_key i) = {} \<Longrightarrow> lookup_snapshot E S q = LookupMiss NoCapture" using look dig by simp
  show "\<exists>s. lookup_snapshot E S q = LookupMatch s \<and> sn_bodySha256 s = d \<and>
      (\<exists>r \<in> set (rd_snapshots S). rw_identityKey r = ri_key i \<and> snapshot_from_row E r = Inr s)"
    if one: "captured_digests S (ri_key i) = {d}"
  proof -
    obtain r rs where r: "?rows = r # rs" using one dig by (cases ?rows) auto
    then obtain s ss' where s: "ss = s # ss'" "snapshot_from_row E r = Inr s" using ss(1) by (auto simp: result_simps)
    have "r \<in> set ?rows" using r by simp
    moreover have "sn_bodySha256 s = d" using one ss(2) r s(1) dig by auto
    ultimately show ?thesis using look card one r s rows by auto
  qed
  show "\<exists>ss. lookup_snapshot E S q = LookupAmbiguous ss \<and> {d, d'} \<subseteq> set (map sn_bodySha256 ss)"
    if two: "d \<in> captured_digests S (ri_key i)" "d' \<in> captured_digests S (ri_key i)" "d \<noteq> d'"
  proof -
    have "card {d, d'} \<le> card (captured_digests S (ri_key i))" using two dig by (intro card_mono) auto
    then have "1 < length (remdups (map sn_bodySha256 ss))" using two(3) by (simp only: card) simp
    moreover have "?rows \<noteq> []" using two dig by auto
    ultimately have "lookup_snapshot E S q = LookupAmbiguous ss" using look by simp
    moreover have "set (map sn_bodySha256 ss) = captured_digests S (ri_key i)" by (simp only: ss(2) dig set_map)
    ultimately show ?thesis using two by auto
  qed
qed

section \<open>Capture, then lookup\<close>

lemma captured_row:
  assumes "replay_ok E S" "capture_snapshot E sid c S = (Inr s, S')"
  shows "\<exists>i r. capture_checks E S c = Inr i \<and> r \<in> set (rd_snapshots S') \<and> rw_identityKey r = ri_key i \<and>
    rw_bodySha256 r = rp_sha E (ci_body c) \<and> snapshot_from_row E r = Inr s"
proof -
  obtain i S1 where i: "capture_checks E S c = Inr i" "insert_snapshot (capture_row E sid c i) S1 = Inr S'"
    "Inr s = (case select_captured (capture_row E sid c i) S' of None \<Rightarrow> Inl DatabaseInvalid | Some r \<Rightarrow> snapshot_from_row E r)"
    using capture_states[OF assms(2)] by auto
  obtain r where r: "select_captured (capture_row E sid c i) S' = Some r" "snapshot_from_row E r = Inr s"
    using i(3) by (auto split: option.splits)
  have "r \<in> set (rd_snapshots S')" "snapshot_identity r = snapshot_identity (capture_row E sid c i)"
    using select_first_SomeD(1,2)[OF r(1)[unfolded select_captured_def]] by auto
  then show ?thesis using i(1) r(2) by (auto simp: snapshot_identity_def capture_row_def Let_def)
qed

lemma reread_after_capture:
  assumes "replay_ok E S" "r \<in> set (rd_snapshots S)" "canonical_replay_request_identity E q = Inr i" "rw_identityKey r = ri_key i"
    and "snapshot_from_row E r = Inr s"
  shows "rereads E i"
proof -
  note row = row_of_identity[OF assms(1-4)]
  have req: "parse_headers (rw_requestHeaders r) = Inr (ri_headers i)"
    using row(6) identity_parts(5)[OF assms(3)] selected_headers_parse by simp
  obtain j where j: "canonical_replay_request_identity E \<lparr>rq_projectId = rw_projectId r, rq_runId = rw_runId r, rq_revisionId = rw_revisionId r,
      rq_method = ''GET'', rq_url = rw_normalizedUrl r, rq_headers = ri_headers i, rq_ignoredKeys = []\<rparr> = Inr j" "ri_key j = rw_identityKey r"
    using assms(5) req by (auto simp: snapshot_from_row_def result_simps)
  have "j = i" using identity_key_unique[OF j(1) assms(3)] j(2) assms(4) by simp
  then show ?thesis using identity_parts(5,6)[OF j(1)] row(5) by (simp add: rereads_def)
qed

text \<open>A snapshot that was found can be read, and its bytes have the captured digest and length.\<close>

lemma found_body:
  assumes "replay_ok E S" "r \<in> set (rd_snapshots S)" "canonical_replay_request_identity E q = Inr i" "rw_identityKey r = ri_key i"
    "snapshot_from_row E r = Inr s" "st_resolves E (body_path (rw_bodySha256 r))" "sha256_hex (rw_bodySha256 r)"
  shows "\<exists>bytes. read_body E S s = Inr bytes \<and> rp_sha E bytes = rw_bodySha256 r \<and> int (length bytes) = rw_bodyBytes r"
proof -
  have re: "rereads E i" by (rule reread_after_capture[OF assms(1-5)])
  obtain s' where s': "snapshot_from_row E r = Inr s'" "sn_snapshotId s' = rw_snapshotId r" "sn_identity s' = i"
    "sn_bodySha256 s' = rw_bodySha256 r" "sn_bodyBytes s' = rw_bodyBytes r" "sn_bodyRelativePath s' = rw_bodyPath r"
    using snapshot_of_row[OF assms(1-4) re] by blast
  then have s: "sn_snapshotId s = rw_snapshotId r" "sn_identity s = i"
    "sn_bodySha256 s = rw_bodySha256 r" "sn_bodyBytes s = rw_bodyBytes r" "sn_bodyRelativePath s = rw_bodyPath r"
    using assms(5) by auto
  have tab: "table_ok snapshot_check snapshot_clash (rd_snapshots S)" and sound: "row_sound E S r"
    using assms(1,2) by (auto simp: replay_ok_def list_all_iff)
  have find: "List.find (\<lambda>x. rw_snapshotId x = rw_snapshotId r) (rd_snapshots S) = Some r"
    by (rule find_unique_key[OF snapshot_table.keys_distinct[OF tab] assms(2)])
  obtain bytes where b: "rd_files S (rw_bodyPath r) = Some bytes" "rp_sha E bytes = rw_bodySha256 r" "int (length bytes) = rw_bodyBytes r"
    "rw_bodyBytes r \<le> max_replay_body_bytes" "rw_bodyPath r = body_path (rw_bodySha256 r)"
    using sound by (auto simp: row_sound_def row_body_def split: option.splits)
  have "ri_projectId i \<noteq> []" using assms(3) by (auto simp: identity_Inr_iff replay_scope_value_def split: if_splits)
  then have "read_validated_body E S s = Inr bytes"
    using s b assms(6,7) by (simp add: read_validated_body_def)
  then show ?thesis
    using s b find row_of_identity[OF assms(1-4)] sound assms(4) by (simp add: read_body_def Let_def row_sound_def)
qed

text \<open>A capture that passes its checks is stored, or finds the row of the same request and body.\<close>

lemma capture_stores:
  assumes "replay_ok E S" "capture_checks E S c = Inr i" "store_body E (ci_body c) S = Inr S1"
    and "snapshot_check (capture_row E sid c i)" "\<And>x. x \<in> set (rd_snapshots S) \<Longrightarrow> rw_snapshotId x \<noteq> sid"
  shows "\<exists>S2 r. capture_snapshot E sid c S = (snapshot_from_row E r, S2) \<and> r \<in> set (rd_snapshots S2) \<and> rw_identityKey r = ri_key i \<and>
    rw_bodySha256 r = rp_sha E (ci_body c) \<and> replay_ok E S2 \<and>
    (rd_snapshots S2 = rd_snapshots S \<or> rd_snapshots S2 = rd_snapshots S @ [capture_row E sid c i]) \<and>
    captured_digests S2 (ri_key i) = insert (rp_sha E (ci_body c)) (captured_digests S (ri_key i))"
proof -
  let ?row = "capture_row E sid c i"
  have fields: "rw_snapshotId ?row = sid" "rw_projectId ?row = ci_projectId c" "rw_runId ?row = ci_runId c"
    "rw_revisionId ?row = ci_revisionId c" "rw_identityKey ?row = ri_key i" "rw_bodySha256 ?row = rp_sha E (ci_body c)"
    by (simp_all add: capture_row_def Let_def)
  obtain f where S1: "S1 = S\<lparr>rd_files := f\<rparr>" using store_body_Inr(3)[OF assms(3)] by blast
  have "replay_owner_fk S1 (ci_projectId c) (ci_runId c) (ci_revisionId c)"
    using capture_checks_Inr(3)[OF assms(2)] S1 by (force simp: replay_scope_owned_def replay_owner_fk_def)
  then have "\<exists>rows. sql_insert_or_ignore snapshot_check snapshot_clash True ?row (rd_snapshots S1) = Some rows \<and>
      insert_snapshot ?row S1 = Inr (S1\<lparr>rd_snapshots := rows\<rparr>)"
    by (auto simp: insert_snapshot_def fields sql_insert_or_ignore_def)
  then obtain S2 where ins: "insert_snapshot ?row S1 = Inr S2" by blast
  note facts = insert_snapshot_Inr[OF ins]
  have "\<exists>x \<in> set (rd_snapshots S2). snapshot_identity x = snapshot_identity ?row"
    using facts(4) assms(4,5) S1 fields(1) by auto
  then obtain r where r: "select_captured ?row S2 = Some r"
    by (cases "select_captured ?row S2") (auto simp: select_captured_def select_first_None_iff)
  have r2: "r \<in> set (rd_snapshots S2)" "snapshot_identity r = snapshot_identity ?row"
    using select_first_SomeD(1,2)[OF r[unfolded select_captured_def]] by auto
  have run: "capture_snapshot E sid c S = (snapshot_from_row E r, S2)"
    using assms(2,3) ins r by (simp add: capture_snapshot_def Let_def)
  have ok: "replay_ok E S2" by (rule capture_ok[OF assms(1) run])
  have key: "rw_identityKey r = ri_key i" "rw_bodySha256 r = rp_sha E (ci_body c)"
    using r2(2) fields by (auto simp: snapshot_identity_def)
  have "captured_digests S2 (ri_key i) = insert (rp_sha E (ci_body c)) (captured_digests S (ri_key i))"
  proof (cases "rd_snapshots S2 = rd_snapshots S1")
    case True
    then have "r \<in> set (rd_snapshots S)" using r2(1) S1 by simp
    then have "rp_sha E (ci_body c) \<in> captured_digests S (ri_key i)" using key captured_digestsI by blast
    then show ?thesis using True S1 by (auto simp: captured_digests_def)
  next
    case False
    then have "rd_snapshots S2 = rd_snapshots S @ [?row]" using facts(2) S1 by simp
    then have "set (rd_snapshots S2) = insert ?row (set (rd_snapshots S))" by simp
    then have "{r \<in> set (rd_snapshots S2). rw_identityKey r = ri_key i} =
        insert ?row {r \<in> set (rd_snapshots S). rw_identityKey r = ri_key i}" using fields(5) by blast
    then show ?thesis using fields(6) by (simp add: captured_digests_def)
  qed
  moreover have "rd_snapshots S2 = rd_snapshots S \<or> rd_snapshots S2 = rd_snapshots S @ [?row]" using facts(2) S1 by simp
  ultimately show ?thesis using run r2(1) key ok by blast
qed

lemma capture_digests:
  assumes "replay_ok E S" "capture_snapshot E sid c S = (Inr s, S')"
  shows "\<exists>i. capture_checks E S c = Inr i \<and> sn_identity s = i \<and> rereads E i \<and> replay_ok E S' \<and> sn_bodySha256 s = rp_sha E (ci_body c) \<and>
    rp_sha E (ci_body c) \<in> captured_digests S' (ri_key i) \<and> (\<exists>r \<in> set (rd_snapshots S'). rw_identityKey r = ri_key i \<and>
      rw_bodySha256 r = rp_sha E (ci_body c) \<and> snapshot_from_row E r = Inr s) \<and> st_resolves E (body_path (rp_sha E (ci_body c)))"
proof -
  obtain i r where r: "capture_checks E S c = Inr i" "r \<in> set (rd_snapshots S')" "rw_identityKey r = ri_key i"
    "rw_bodySha256 r = rp_sha E (ci_body c)" "snapshot_from_row E r = Inr s"
    using captured_row[OF assms] by blast
  have ok: "replay_ok E S'" by (rule capture_ok[OF assms])
  note can = capture_checks_Inr(4)[OF r(1)]
  have re: "rereads E i" by (rule reread_after_capture[OF ok r(2) can r(3,5)])
  have "sn_identity s = i" "sn_bodySha256 s = rw_bodySha256 r" using snapshot_of_row[OF ok r(2) can r(3) re] r(5) by auto
  moreover have "st_resolves E (body_path (rp_sha E (ci_body c)))"
    using assms(2) r(1) by (auto simp: capture_snapshot_def store_body_def Let_def split: if_splits)
  moreover have "rp_sha E (ci_body c) \<in> captured_digests S' (ri_key i)" by (rule captured_digestsI[OF r(2-4)])
  ultimately show ?thesis using r ok re by auto
qed

text \<open>What a capture may change: it adds at most one row and one body file.\<close>

lemma capture_grows:
  assumes "capture_snapshot E sid c S = (res, S')"
  shows "set (rd_snapshots S) \<subseteq> set (rd_snapshots S') \<and> rd_files S \<subseteq>\<^sub>m rd_files S'"
proof -
  consider "S' = S" | S1 where "store_body E (ci_body c) S = Inr S1" "S' = S1"
    | i S1 where "store_body E (ci_body c) S = Inr S1" "insert_snapshot (capture_row E sid c i) S1 = Inr S'"
    using capture_states[OF assms] by blast
  then show ?thesis
  proof cases
    case 2
    then show ?thesis using store_body_Inr(2,3)[OF 2(1)] by auto
  next
    case 3
    have "rd_files S' = rd_files S1" using insert_snapshot_Inr(1)[OF 3(2)]
      by (metis replay_db.select_convs(6) replay_db.surjective replay_db.update_convs(4))
    moreover obtain f where "S1 = S\<lparr>rd_files := f\<rparr>" using store_body_Inr(3)[OF 3(1)] by blast
    ultimately show ?thesis using insert_snapshot_Inr(2)[OF 3(2)] store_body_Inr(2)[OF 3(1)] by auto
  qed simp
qed

lemma store_step_grows: "set (rd_snapshots S) \<subseteq> set (rd_snapshots (store_step E S op)) \<and> rd_files S \<subseteq>\<^sub>m rd_files (store_step E S op)"
proof (cases op)
  case (CaptureOp a b sid c)
  then show ?thesis using capture_grows[of "E\<lparr>st_resolves := a, st_writes := b\<rparr>" sid c S] by (metis prod.collapse store_step.simps(1))
qed (simp add: record_runtime_event_def split: option.split)

lemma store_run_grows: "set (rd_snapshots S) \<subseteq> set (rd_snapshots (store_run E ops S)) \<and> rd_files S \<subseteq>\<^sub>m rd_files (store_run E ops S)"
proof (induction ops arbitrary: S)
  case (Cons op ops)
  have "set (rd_snapshots (store_step E S op)) \<subseteq> set (rd_snapshots (store_run E (op # ops) S)) \<and>
      rd_files (store_step E S op) \<subseteq>\<^sub>m rd_files (store_run E (op # ops) S)"
    using Cons.IH[of "store_step E S op"] by (simp add: store_run_def)
  then show ?case using store_step_grows[of S E op] map_le_trans by blast
qed (simp add: store_run_def)

lemma capture_rows:
  assumes "capture_snapshot E sid c S = (res, S')"
  shows "rd_snapshots S' = rd_snapshots S \<or>
    (\<exists>i. capture_checks E S c = Inr i \<and> rd_snapshots S' = rd_snapshots S @ [capture_row E sid c i])"
proof -
  have files: "rd_snapshots S1 = rd_snapshots S" if "store_body E (ci_body c) S = Inr S1" for S1
    using store_body_Inr(3)[OF that] by auto
  consider "S' = S" | S1 where "store_body E (ci_body c) S = Inr S1" "S' = S1"
    | i S1 where "capture_checks E S c = Inr i" "store_body E (ci_body c) S = Inr S1" "insert_snapshot (capture_row E sid c i) S1 = Inr S'"
    using capture_states[OF assms] by blast
  then show ?thesis
  proof cases
    case 3
    then show ?thesis using files[OF 3(2)] insert_snapshot_Inr(2)[OF 3(3)] by auto
  qed (use files in auto)
qed

lemma captured_digests_after:
  assumes "capture_snapshot E sid c S = (res, S')" "capture_checks E S c = Inr i" "rp_sha E (ci_body c) \<in> captured_digests S' (ri_key i)"
  shows "captured_digests S' (ri_key i) = insert (rp_sha E (ci_body c)) (captured_digests S (ri_key i))"
proof (cases "rd_snapshots S' = rd_snapshots S")
  case True
  then have "captured_digests S' (ri_key i) = captured_digests S (ri_key i)" by (simp add: captured_digests_def)
  then show ?thesis using assms(3) by auto
next
  case False
  let ?row = "capture_row E sid c i"
  have "rw_identityKey ?row = ri_key i" "rw_bodySha256 ?row = rp_sha E (ci_body c)" by (simp_all add: capture_row_def Let_def)
  moreover have "set (rd_snapshots S') = insert ?row (set (rd_snapshots S))" using capture_rows[OF assms(1)] False assms(2) by auto
  then have "{r \<in> set (rd_snapshots S'). rw_identityKey r = ri_key i} =
      insert ?row {r \<in> set (rd_snapshots S). rw_identityKey r = ri_key i}"
    using calculation(1) by blast
  ultimately show ?thesis by (simp add: captured_digests_def)
qed

lemma same_snapshot_row:
  assumes "replay_ok E S" "canonical_replay_request_identity E q = Inr i"
    "y \<in> set (rd_snapshots S)" "rw_identityKey y = ri_key i" "x \<in> set (rd_snapshots S)" "rw_identityKey x = ri_key i"
    "rw_bodySha256 y = rw_bodySha256 x"
  shows "y = x"
proof -
  have "snapshot_identity y = snapshot_identity x"
    using row_of_identity(1-3)[OF assms(1,3,2,4)] row_of_identity(1-3)[OF assms(1,5,2,6)] assms(4,6,7) by (simp add: snapshot_identity_def)
  then show ?thesis using snapshot_unique.lookup_unique assms(1,3,5) by (auto simp: replay_ok_def)
qed

lemma captured_length:
  assumes "replay_ok E S" "capture_snapshot E sid c S = (Inr s, S')" "x \<in> set (rd_snapshots S')" "rw_bodySha256 x = rp_sha E (ci_body c)"
  shows "rw_bodyBytes x = int (length (ci_body c))"
proof -
  obtain i S1 where i: "store_body E (ci_body c) S = Inr S1" "insert_snapshot (capture_row E sid c i) S1 = Inr S'"
    using capture_states[OF assms(2)] by auto
  have "rd_files S' = rd_files S1" using insert_snapshot_Inr(1)[OF i(2)]
    by (metis replay_db.select_convs(6) replay_db.surjective replay_db.update_convs(4))
  moreover have "row_sound E S' x" using capture_ok[OF assms(1,2)] assms(3) by (simp add: replay_ok_def list_all_iff)
  ultimately show ?thesis using store_body_Inr(1)[OF i(1)] assms(4) by (auto simp: row_sound_def row_body_def split: option.splits)
qed

section \<open>The abstract archive\<close>

text \<open>
  To its clients the store is a map from identity keys to sets of bodies; a lookup answers with the body
  when there is exactly one, and refuses to choose between several.
\<close>

datatype archive_answer = NoBody | OneBody string | ManyBodies "string set"

definition archive_lookup :: "string set \<Rightarrow> archive_answer" where
  "archive_lookup D = (if D = {} then NoBody else if card D = 1 then OneBody (the_elem D) else ManyBodies D)"

definition answer_of :: "lookup_result \<Rightarrow> archive_answer option" where
  "answer_of l = (case l of
     LookupMatch s \<Rightarrow> Some (OneBody (sn_bodySha256 s))
   | LookupAmbiguous ss \<Rightarrow> Some (ManyBodies (set (map sn_bodySha256 ss)))
   | LookupMiss r \<Rightarrow> if r = NoCapture then Some NoBody else None
   | LookupBroken s r \<Rightarrow> None)"

lemma finite_digests: "finite (captured_digests S key)"
  by (simp add: captured_digests_def)

lemma lookup_refines:
  assumes "replay_ok E S" "canonical_replay_request_identity E q = Inr i" "rereads E i"
  shows "answer_of (lookup_snapshot E S q) = Some (archive_lookup (captured_digests S (ri_key i)))"
proof -
  let ?D = "captured_digests S (ri_key i)"
  note by_digest = lookup_by_digests[OF assms]
  consider "?D = {}" | d where "?D = {d}" | d d' where "d \<in> ?D" "d' \<in> ?D" "d \<noteq> d'" by blast
  then show ?thesis
  proof cases
    case 1
    then show ?thesis using by_digest(1) by (simp add: answer_of_def archive_lookup_def)
  next
    case (2 d)
    obtain s where "lookup_snapshot E S q = LookupMatch s" "sn_bodySha256 s = d" using by_digest(2)[OF 2] by blast
    then have "answer_of (lookup_snapshot E S q) = Some (OneBody d)" by (simp add: answer_of_def)
    moreover have "archive_lookup ?D = OneBody d" unfolding 2 by (simp add: archive_lookup_def)
    ultimately show ?thesis by simp
  next
    case (3 d d')
    have "card {d, d'} \<le> card ?D" using 3 by (intro card_mono) (auto simp: finite_digests)
    then have card: "card ?D \<noteq> 1" using 3(3) by simp
    obtain ss where ss: "lookup_snapshot E S q = LookupAmbiguous ss" using by_digest(3)[OF 3] by blast
    then have run: "emap (snapshot_from_row E) (identity_rows i S) = Inr ss"
      using assms(2) by (auto simp: lookup_snapshot_def Let_def split: sum.splits if_splits)
    have each: "\<exists>s. snapshot_from_row E r = Inr s \<and> sn_bodySha256 s = rw_bodySha256 r" if "r \<in> set (identity_rows i S)" for r
    proof -
      have "r \<in> set (rd_snapshots S)" "rw_identityKey r = ri_key i" using that identity_rows_set[OF assms(1,2)] by simp_all
      from snapshot_of_row[OF assms(1) this(1) assms(2) this(2) assms(3)] show ?thesis by (elim exE conjE) simp
    qed
    have "\<exists>ys. emap (snapshot_from_row E) (identity_rows i S) = Inr ys \<and> map sn_bodySha256 ys = map rw_bodySha256 (identity_rows i S)"
      by (rule emap_all) (rule each)
    with run have "map sn_bodySha256 ss = map rw_bodySha256 (identity_rows i S)" by simp
    then have "set (map sn_bodySha256 ss) = ?D"
      by (simp only: set_map identity_rows_set[OF assms(1,2)] captured_digests_def)
    then show ?thesis using ss card 3(1) by (auto simp: answer_of_def archive_lookup_def)
  qed
qed

end
