(* ===== verification/Replay_Port.thy ===== *)
theory Replay_Port
  imports Replay_Archive
begin

text \<open>
  What the adapter does with a request, whatever its port answers, and the contract of the port - a
  match belongs to the request and its body has the digest of the snapshot - under which what it
  delivers is what was captured. The repository meets the contract in every state it can reach.
\<close>

section \<open>Handlers\<close>

lemmas gate_defs = gate_ret_def gate_throw_def gate_bind_def gate_catch_def gate_lift_def gate_check_def gate_act_def gate_emit_def
  gate_deliver_def

text \<open>The response a matched snapshot gives, if it gives one.\<close>

definition response_for :: "adapter_env \<Rightarrow> net_request \<Rightarrow> replay_snapshot \<Rightarrow> gate_action option" where
  "response_for E r s = (case ad_readBody E s of
     Inl _ \<Rightarrow> None
   | Inr bytes \<Rightarrow>
       if 200 \<le> sn_status s \<and> sn_status s \<le> 599 \<and> ad_delivers E \<and>
          \<not> (300 \<le> sn_status s \<and> sn_status s < 400 \<and> map_of (sn_responseHeaders s) ''location'' = None)
       then Some (DeliverResponse (sn_status s) (sn_responseHeaders s) (if nr_method r = ''HEAD'' then [] else bytes))
       else None)"

lemma answer_match_run:
  "answer_match E p r s l = (case response_for E r s of
     None \<Rightarrow> (Inl (), l)
   | Some a \<Rightarrow> gate_emit E (event_values E p r ''REPLAY_MATCH'' ''match'' ''replay-match'') (l\<lparr>gl_actions := gl_actions l @ [a]\<rparr>))"
proof (cases "200 \<le> sn_status s \<and> sn_status s \<le> 599")
  case True
  then have status: "is_replayable_response_status (js_int (sn_status s))" by (simp add: is_replayable_response_status_def)
  show ?thesis
  proof (cases "ad_readBody E s")
    case (Inl e)
    then show ?thesis using status by (simp add: answer_match_def response_for_def gate_defs)
  next
    case (Inr bytes)
    then show ?thesis using status True
      by (cases "300 \<le> sn_status s \<and> sn_status s < 400 \<and> map_of (sn_responseHeaders s) ''location'' = None"; cases "ad_delivers E")
        (simp_all add: answer_match_def response_for_def gate_defs)
  qed
next
  case False
  then have "\<not> is_replayable_response_status (js_int (sn_status s))" by (simp add: is_replayable_response_status_def)
  then have "answer_match E p r s l = (Inl (), l)" by (simp add: answer_match_def gate_bind_def gate_check_def)
  moreover have "response_for E r s = None" using False by (auto simp: response_for_def split: sum.split)
  ultimately show ?thesis by simp
qed

text \<open>How a request is settled: the action the handlers aim at, before the observer has a say.\<close>

datatype verdict = PassLocal | RefuseRequest | AnswerWith replay_snapshot | PassUnmatched

definition request_verdict :: "adapter_env \<Rightarrow> replay_policy \<Rightarrow> net_request \<Rightarrow> verdict" where
  "request_verdict E p r =
     (if \<not> replay_method (nr_method r) then RefuseRequest
      else if is_runtime_local_request E (nr_url r) (np_runtimeOrigin p) then PassLocal
      else if \<not> is_ok (canonical_replay_request_identity E (policy_identity_input p r)) then RefuseRequest
      else (case lookup_or_miss E (policy_identity_input p r) of
          LookupMatch s \<Rightarrow> AnswerWith s
        | _ \<Rightarrow> if np_strictOffline p then RefuseRequest else PassUnmatched))"

text \<open>The actions that may follow each verdict; a throwing observer can cut them short.\<close>

lemma route_actions:
  "gl_actions (snd (handle_route E p r empty_log)) \<in> (case request_verdict E p r of
     PassLocal \<Rightarrow> {[], [ContinueRequest]}
   | RefuseRequest \<Rightarrow> {[], [AbortRequest]}
   | PassUnmatched \<Rightarrow> {[], [ContinueRequest]}
   | AnswerWith s \<Rightarrow> (case response_for E r s of None \<Rightarrow> {[], [AbortRequest]} | Some a \<Rightarrow> {[a], [a, AbortRequest]}))"
proof -
  note start = handle_route_def request_verdict_def
  show ?thesis
  proof (cases "replay_method (nr_method r) \<and> \<not> is_runtime_local_request E (nr_url r) (np_runtimeOrigin p)")
    case False
    then show ?thesis by (auto simp: start gate_defs empty_log_def)
  next
    case True
    show ?thesis
    proof (cases "canonical_replay_request_identity E (policy_identity_input p r)")
      case (Inl e)
      then show ?thesis using True by (simp add: start gate_defs empty_log_def)
    next
      case (Inr i)
      show ?thesis
      proof (cases "lookup_or_miss E (policy_identity_input p r)")
        case (LookupMatch s)
        then show ?thesis using True Inr
          by (simp add: start gate_catch_def gate_bind_def answer_match_run refuse_match_def gate_emit_def gate_act_def gate_ret_def
              empty_log_def split: option.split)
      qed (use True Inr in \<open>simp_all add: start gate_defs empty_log_def\<close>)
    qed
  qed
qed

lemma cdp_actions:
  "fst (handle_cdp_request E p r empty_log) = Inr CdpDefer \<Longrightarrow>
     request_verdict E p (r\<lparr>nr_page := None\<rparr>) \<in> {PassLocal, PassUnmatched}"
  "ContinueRequest \<notin> set (gl_actions (snd (handle_cdp_request E p r empty_log)))"
proof -
  let ?r = "r\<lparr>nr_page := None\<rparr>"
  note start = handle_cdp_request_def request_verdict_def Let_def
  have both: "(fst (handle_cdp_request E p r empty_log) = Inr CdpDefer \<longrightarrow> request_verdict E p ?r \<in> {PassLocal, PassUnmatched}) \<and>
      ContinueRequest \<notin> set (gl_actions (snd (handle_cdp_request E p r empty_log)))"
  proof (cases "replay_method (nr_method r) \<and> \<not> is_runtime_local_request E (nr_url r) (np_runtimeOrigin p)")
    case False
    then show ?thesis by (auto simp: start gate_defs empty_log_def)
  next
    case True
    show ?thesis
    proof (cases "canonical_replay_request_identity E (policy_identity_input p ?r)")
      case (Inl e)
      then show ?thesis using True by (simp add: start gate_defs empty_log_def)
    next
      case (Inr i)
      show ?thesis
      proof (cases "lookup_or_miss E (policy_identity_input p ?r)")
        case (LookupMatch s)
        have "a \<noteq> ContinueRequest" if "response_for E ?r s = Some a" for a
          using that by (auto simp: response_for_def split: sum.splits if_splits)
        then show ?thesis using True Inr LookupMatch
          by (auto simp: start gate_catch_def gate_bind_def answer_match_run refuse_match_def gate_emit_def gate_act_def gate_ret_def
              empty_log_def split: option.split)
      qed (use True Inr in \<open>simp_all add: start gate_defs empty_log_def\<close>)
    qed
  qed
  then show "fst (handle_cdp_request E p r empty_log) = Inr CdpDefer \<Longrightarrow> request_verdict E p ?r \<in> {PassLocal, PassUnmatched}"
    "ContinueRequest \<notin> set (gl_actions (snd (handle_cdp_request E p r empty_log)))" by simp_all
qed

text \<open>With an observer that does not throw every request gets exactly one action.\<close>

lemma route_settles:
  assumes "\<And>e. ad_observer E e \<noteq> ObserverThrows"
  shows "\<exists>out a. fst (handle_route E p r empty_log) = Inr out \<and> gl_actions (snd (handle_route E p r empty_log)) = [a] \<and>
    length (gl_events (snd (handle_route E p r empty_log))) = 1 \<and>
    (case request_verdict E p r of
       PassLocal \<Rightarrow> out = Continued \<and> a = ContinueRequest
     | RefuseRequest \<Rightarrow> out = Aborted \<and> a = AbortRequest
     | PassUnmatched \<Rightarrow> out = Continued \<and> a = ContinueRequest
     | AnswerWith s \<Rightarrow> (case response_for E r s of None \<Rightarrow> out = Aborted \<and> a = AbortRequest | Some b \<Rightarrow> out = Fulfilled \<and> a = b))"
proof -
  note start = handle_route_def request_verdict_def
  show ?thesis
  proof (cases "replay_method (nr_method r) \<and> \<not> is_runtime_local_request E (nr_url r) (np_runtimeOrigin p)")
    case False
    then show ?thesis using assms by (auto simp: start gate_defs empty_log_def)
  next
    case True
    show ?thesis
    proof (cases "canonical_replay_request_identity E (policy_identity_input p r)")
      case (Inl e)
      then show ?thesis using True assms by (simp add: start gate_defs empty_log_def)
    next
      case (Inr i)
      show ?thesis
      proof (cases "lookup_or_miss E (policy_identity_input p r)")
        case (LookupMatch s)
        then show ?thesis using True Inr assms
          by (simp add: start gate_catch_def gate_bind_def answer_match_run refuse_match_def gate_emit_def gate_act_def gate_ret_def
              empty_log_def split: option.split)
      qed (use True Inr assms in \<open>simp_all add: start gate_defs empty_log_def\<close>)
    qed
  qed
qed

lemma throwing_observer:
  assumes "\<And>e. ad_observer E e = ObserverThrows" "\<And>s. request_verdict E p r \<noteq> AnswerWith s"
  shows "handle_route E p r empty_log = (Inl (), snd (handle_route E p r empty_log)) \<and> gl_actions (snd (handle_route E p r empty_log)) = []"
proof -
  note start = handle_route_def request_verdict_def
  show ?thesis
  proof (cases "replay_method (nr_method r) \<and> \<not> is_runtime_local_request E (nr_url r) (np_runtimeOrigin p)")
    case False
    then show ?thesis using assms(1) by (auto simp: start gate_defs empty_log_def)
  next
    case True
    show ?thesis
    proof (cases "canonical_replay_request_identity E (policy_identity_input p r)")
      case (Inl e)
      then show ?thesis using True assms(1) by (simp add: start gate_defs empty_log_def)
    next
      case (Inr i)
      show ?thesis
      proof (cases "lookup_or_miss E (policy_identity_input p r)")
        case (LookupMatch s)
        then show ?thesis using assms(2)[of s] True Inr by (simp add: request_verdict_def)
      qed (use True Inr assms(1) in \<open>simp_all add: start gate_defs empty_log_def\<close>)
    qed
  qed
qed

section \<open>The port contract\<close>

locale replay_port =
  fixes E :: "'x replay_env_scheme"
    and ok :: "'st \<Rightarrow> bool"
    and look :: "'st \<Rightarrow> replay_identity_input \<Rightarrow> lookup_result"
    and body :: "'st \<Rightarrow> replay_snapshot \<Rightarrow> store_error + nat list"
  assumes match_identity: "ok S \<Longrightarrow> look S q = LookupMatch s \<Longrightarrow> canonical_replay_request_identity E q = Inr (sn_identity s)"
    and body_digest: "ok S \<Longrightarrow> look S q = LookupMatch s \<Longrightarrow> body S s = Inr bytes \<Longrightarrow>
      rp_sha E bytes = sn_bodySha256 s \<and> int (length bytes) = sn_bodyBytes s"
begin

lemma delivered:
  assumes "ok S" "DeliverResponse status hs bytes \<in> set (gl_actions (snd (handle_route (port_adapter E (look S) (body S) d obs now) p r empty_log)))"
  shows "\<exists>s content. look S (policy_identity_input p r) = LookupMatch s \<and> canonical_replay_request_identity E (policy_identity_input p r) = Inr (sn_identity s) \<and>
    body S s = Inr content \<and> rp_sha E content = sn_bodySha256 s \<and> bytes = (if nr_method r = ''HEAD'' then [] else content) \<and>
    status = sn_status s \<and> hs = sn_responseHeaders s \<and> 200 \<le> status \<and> status \<le> 599"
proof -
  let ?A = "port_adapter E (look S) (body S) d obs now"
  obtain s where s: "request_verdict ?A p r = AnswerWith s" "response_for ?A r s = Some (DeliverResponse status hs bytes)"
    using route_actions[of ?A p r] assms(2) by (auto split: verdict.splits option.splits)
  have "look S (policy_identity_input p r) = LookupMatch s"
    using s(1) by (auto simp: request_verdict_def lookup_or_miss_def port_adapter_def split: if_splits lookup_result.splits)
  moreover obtain content where "body S s = Inr content" "bytes = (if nr_method r = ''HEAD'' then [] else content)"
      "status = sn_status s" "hs = sn_responseHeaders s" "200 \<le> status" "status \<le> 599"
    using s(2) by (auto simp: response_for_def port_adapter_def split: sum.splits if_splits)
  ultimately show ?thesis using match_identity[OF assms(1)] body_digest[OF assms(1)] by blast
qed

end

lemma lookup_match_row:
  assumes "lookup_snapshot E S q = LookupMatch s" "replay_ok E S"
  shows "\<exists>i r. canonical_replay_request_identity E q = Inr i \<and> r \<in> set (rd_snapshots S) \<and> rw_identityKey r = ri_key i \<and>
    snapshot_from_row E r = Inr s"
proof -
  obtain i ss where i: "canonical_replay_request_identity E q = Inr i" "identity_rows i S \<noteq> []"
    "emap (snapshot_from_row E) (identity_rows i S) = Inr ss" "s = hd ss"
    using assms(1) by (auto simp: lookup_snapshot_def Let_def split: sum.splits if_splits)
  obtain r rs where r: "identity_rows i S = r # rs" using i(2) by (cases "identity_rows i S") auto
  then have "snapshot_from_row E r = Inr s" using i(3,4) by (auto simp: result_simps)
  moreover have "r \<in> set (identity_rows i S)" using r by simp
  ultimately show ?thesis using i(1) identity_rows_set[OF assms(2) i(1)] by auto
qed

lemma row_snapshot_fields:
  assumes "replay_ok E S" "r \<in> set (rd_snapshots S)" "canonical_replay_request_identity E q = Inr i" "rw_identityKey r = ri_key i"
    "snapshot_from_row E r = Inr s"
  shows "sn_identity s = i" "sn_snapshotId s = rw_snapshotId r" "sn_status s = rw_status r" "sn_bodySha256 s = rw_bodySha256 r"
    "sn_bodyBytes s = rw_bodyBytes r" "headers_json (sn_responseHeaders s) = rw_responseHeaders r"
  using snapshot_of_row[OF assms(1-4) reread_after_capture[OF assms]] assms(5) by auto

lemma read_body_checked: "read_body E S s = Inr bytes \<Longrightarrow> rp_sha E bytes = sn_bodySha256 s \<and> int (length bytes) = sn_bodyBytes s"
  by (auto simp: read_body_def read_validated_body_def Let_def result_simps split: option.splits)

interpretation store_port: replay_port E "replay_ok E" "lookup_snapshot E" "read_body E" for E :: store_env
proof unfold_locales
  fix S q s bytes
  assume "replay_ok E S" "lookup_snapshot E S q = LookupMatch s"
  then show "canonical_replay_request_identity E q = Inr (sn_identity s)"
    using lookup_match_row row_snapshot_fields(1) by metis
qed (simp add: read_body_checked)

lemma store_adapter_simps:
  "lookup_or_miss (store_adapter E S d obs now) q = lookup_snapshot E S q"
  "ad_readBody (store_adapter E S d obs now) s = (case read_body E S s of Inl _ \<Rightarrow> Inl () | Inr b \<Rightarrow> Inr b)"
  "ad_observer (store_adapter E S d obs now) = obs" "ad_delivers (store_adapter E S d obs now) = d"
  by (simp_all add: store_adapter_def port_adapter_def lookup_or_miss_def)

lemma adapter_identity:
  "canonical_replay_request_identity (store_adapter E S d obs now) q = canonical_replay_request_identity E q"
  "is_runtime_local_request (store_adapter E S d obs now) v w = is_runtime_local_request E v w"
proof -
  have "normalize_replay_url (store_adapter E S d obs now) ks v = normalize_replay_url E ks v" for ks v
    by (simp add: normalize_replay_url_def parse_url_def ignored_query_key_def store_adapter_def port_adapter_def)
  then show "canonical_replay_request_identity (store_adapter E S d obs now) q = canonical_replay_request_identity E q"
    by (simp add: canonical_replay_request_identity_def)
  show "is_runtime_local_request (store_adapter E S d obs now) v w = is_runtime_local_request E v w"
    by (auto simp: is_runtime_local_request_def url_origin_def store_adapter_def port_adapter_def split: option.split)
qed

section \<open>Capture, then delivery\<close>

lemma deliver_captured:
  assumes "replay_ok E S" "capture_snapshot E sid c S = (Inr s, S')"
    and "policy_identity_input p r = capture_identity_input c"
    and "\<not> is_runtime_local_request E (nr_url r) (np_runtimeOrigin p)"
    and "captured_digests S (ri_key (sn_identity s)) \<subseteq> {rp_sha E (ci_body c)}"
    and "200 \<le> sn_status s" "sn_status s < 300" "sha256_hex (rp_sha E (ci_body c))"
    and "\<forall>b. rp_sha E b = rp_sha E (ci_body c) \<and> length b = length (ci_body c) \<longrightarrow> b = ci_body c"
    and "\<forall>e. obs e \<noteq> ObserverThrows"
  shows "fst (handle_route (store_adapter E S' True obs now) p r empty_log) = Inr Fulfilled \<and>
    gl_actions (snd (handle_route (store_adapter E S' True obs now) p r empty_log)) =
      [DeliverResponse (sn_status s) (sn_responseHeaders s) (ci_body c)]"
proof -
  let ?A = "store_adapter E S' True obs now"
  obtain i x where i: "capture_checks E S c = Inr i" "sn_identity s = i" "rereads E i" "replay_ok E S'"
    "x \<in> set (rd_snapshots S')" "rw_identityKey x = ri_key i" "rw_bodySha256 x = rp_sha E (ci_body c)" "snapshot_from_row E x = Inr s"
    "st_resolves E (body_path (rp_sha E (ci_body c)))" "rp_sha E (ci_body c) \<in> captured_digests S' (ri_key i)"
    using capture_digests[OF assms(1,2)] by blast
  note can = capture_checks_Inr(4)[OF i(1)]
  have "captured_digests S' (ri_key i) = {rp_sha E (ci_body c)}"
    using captured_digests_after[OF assms(2) i(1,10)] assms(5) i(2) by auto
  then obtain s2 y where s2: "lookup_snapshot E S' (capture_identity_input c) = LookupMatch s2" "y \<in> set (rd_snapshots S')"
    "rw_identityKey y = ri_key i" "snapshot_from_row E y = Inr s2" "sn_bodySha256 s2 = rp_sha E (ci_body c)"
    using lookup_by_digests(2)[OF i(4) can i(3)] by blast
  have "rw_bodySha256 y = rw_bodySha256 x" using row_snapshot_fields(4)[OF i(4) s2(2) can s2(3,4)] s2(5) i(7) by simp
  then have "y = x" by (rule same_snapshot_row[OF i(4) can s2(2,3) i(5,6)])
  then have look: "lookup_snapshot E S' (capture_identity_input c) = LookupMatch s" using s2(1,4) i(8) by simp
  obtain b where b: "read_body E S' s = Inr b" "rp_sha E b = rw_bodySha256 x" "int (length b) = rw_bodyBytes x"
    using found_body[OF i(4,5) can i(6,8)] i(7,9) assms(8) by auto
  have "rw_bodyBytes x = int (length (ci_body c))" by (rule captured_length[OF assms(1,2) i(5,7)])
  then have body: "b = ci_body c" using b i(7) assms(9) by simp
  have get: "nr_method r = ''GET''"
    using assms(3) by (simp add: policy_identity_input_def capture_identity_input_def)
  have "response_for ?A r s = Some (DeliverResponse (sn_status s) (sn_responseHeaders s) (ci_body c))"
    using b(1) body assms(6,7) get by (simp add: response_for_def store_adapter_simps)
  moreover have "request_verdict ?A p r = AnswerWith s"
    using assms(3,4) can look get by (simp add: request_verdict_def adapter_identity store_adapter_simps replay_method_def)
  moreover have "ad_observer ?A e \<noteq> ObserverThrows" for e using assms(10) by (simp add: store_adapter_simps)
  ultimately show ?thesis using route_settles[of ?A p r] by auto
qed

section \<open>What is handed to the sink\<close>

lemma capturable_request:
  assumes "fst (classify_capture_eligibility E p r) = Capturable"
  shows "cp_enabled p" "cr_method r = ''GET''" "cr_resourceType r \<in> set (cp_resourceTypes p)"
    "h \<in> set (cr_requestHeaders r) \<union> set (cr_responseHeaders r) \<Longrightarrow> to_lower (fst h) \<notin> set sensitive_headers"
    "media_type (case cr_contentType r of None \<Rightarrow> [] | Some t \<Rightarrow> t) \<noteq> []"
    "\<exists>prefix \<in> set (cp_contentTypes p). starts_with (media_type (case cr_contentType r of None \<Rightarrow> [] | Some t \<Rightarrow> t)) (to_lower prefix)"
  using assms by (auto simp: classify_capture_eligibility_def Let_def list_ex_iff case_prod_beta split: if_splits)

lemma captured_response_facts:
  assumes "capture_response E p (Some config) response = Some c"
  shows "\<exists>body t. ns_body response = Some body \<and> ci_body c = body \<and> ci_url c = nr_url (ns_request response) \<and>
    ci_method c = ''GET'' \<and> nr_method (ns_request response) = ''GET'' \<and> cp_enabled (cc_policy config) \<and>
    nr_resourceType (ns_request response) \<in> set (cp_resourceTypes (cc_policy config)) \<and>
    (\<forall>h \<in> set (nr_headers (ns_request response)) \<union> set (ns_headers response). to_lower (fst h) \<notin> set sensitive_headers) \<and>
    int (length body) \<le> cp_maximumBytes (cc_policy config) \<and> int (length body) \<le> max_replay_body_bytes \<and>
    map_of (ns_headers response) ''content-type'' = Some t \<and>
    (cp_rejectSensitive (cc_policy config) \<longrightarrow> \<not> contains_sensitive_replay_body body t)"
proof -
  let ?r = "ns_request response" and ?t = "case map_of (ns_headers response) ''content-type'' of None \<Rightarrow> [] | Some t \<Rightarrow> t"
  let ?q = "\<lparr>cr_method = nr_method ?r, cr_url = nr_url ?r, cr_resourceType = nr_resourceType ?r, cr_contentType = Some ?t,
      cr_requestHeaders = nr_headers ?r, cr_responseHeaders = ns_headers response\<rparr>"
  have elig: "fst (classify_capture_eligibility E (cc_policy config) ?q) = Capturable"
    using assms by (simp add: capture_response_def Let_def split: if_splits)
  note cap = capturable_request[OF elig]
  have "media_type [] = []" by (simp add: media_type_def js_trim_def to_lower_def)
  then obtain t where t: "map_of (ns_headers response) ''content-type'' = Some t" using cap(5) by (auto split: option.splits)
  obtain body where body: "ns_body response = Some body" using assms elig by (auto simp: capture_response_def Let_def split: option.splits)
  show ?thesis using assms elig body t cap(1-3) cap(4)
    by (auto simp: capture_response_def Let_def max_replay_body_bytes_def split: if_splits)
qed

end
