(* ===== verification/Sample_Replay.thy ===== *)
theory Sample_Replay
  imports Replay_Port Sample_Url
begin

text \<open>
  A Project with one Run, a platform with the plain URL parser and a stand-in for SHA-256 that tells two
  bodies apart, and a captured API response on which the replay properties are witnessed.
\<close>

definition sample_store :: store_env where
  "sample_store = \<lparr>rp_parse = (\<lambda>v. sample_parse v None), rp_text = href, rp_origin = origin_of, rp_lower = map ascii_lower,
     rp_sha = (\<lambda>b. replicate 64 (if b = [123, 125] then CHR ''a'' else if b = [91, 93] then CHR ''b'' else CHR ''c'')),
     st_resolves = (\<lambda>_. True), st_writes = (\<lambda>_. True)\<rparr>"

definition empty_archive :: replay_db where
  "empty_archive = \<lparr>rd_projects = [''p''], rd_runs = [(''r'', ''p'', ''v'')], rd_revisions = [(''v'', ''p'')],
     rd_snapshots = [], rd_events = [], rd_files = Map.empty\<rparr>"

definition api_url :: string where
  "api_url = ''https://a.io/api?b=1&utm_source=m&a=2''"

definition sample_capture :: capture_input where
  "sample_capture = \<lparr>ci_projectId = ''p'', ci_runId = ''r'', ci_revisionId = ''v'', ci_originalUrl = api_url,
     ci_method = ''GET'', ci_url = api_url, ci_requestHeaders = [(''Accept'', '' application/json '')],
     ci_status = 200, ci_responseHeaders = [(''ETag'', ''x''), (''Connection'', ''close'')], ci_contentType = ''application/json; charset=utf-8'',
     ci_body = [123, 125], ci_capturedAt = ''2024-01-01T00:00:00.000Z'', ci_pageId = None, ci_workerId = None, ci_ignoredKeys = []\<rparr>"

definition sample_headers :: headers where
  "sample_headers = [(''accept'', ''application/json'')]"

definition sample_identity :: replay_identity where
  "sample_identity = \<lparr>ri_projectId = ''p'', ri_runId = ''r'', ri_revisionId = ''v'', ri_method = ''GET'',
     ri_url = ''https://a.io/api?a=2&b=1'', ri_headers = sample_headers,
     ri_key = canonical_json (identity_basis ''p'' ''r'' ''v'' ''GET'' ''https://a.io/api?a=2&b=1'' sample_headers)\<rparr>"

definition api_page :: url where
  "api_page = plain_url ''https:'' ''a.io/api?b=1&utm_source=m&a=2''"

lemma sample_parsed_api:
  "rp_parse sample_store api_url = Some api_page" "replay_normal sample_store [] api_page = api_page\<lparr>ur_query := Some ''a=2&b=1''\<rparr>"
  "\<not> list_ex (\<lambda>(k, x). sensitive_query_key k) (search_params api_page)"
  "rp_parse sample_store ''https://a.io/api?a=2&b=1'' = Some (api_page\<lparr>ur_query := Some ''a=2&b=1''\<rparr>)"
  "href (api_page\<lparr>ur_query := Some ''a=2&b=1''\<rparr>) = ''https://a.io/api?a=2&b=1''"
  "is_http api_page" "ur_username api_page = []" "ur_password api_page = []"
  by code_simp+

lemma sample_normalized:
  "normalize_replay_url sample_store [] api_url = Inr ''https://a.io/api?a=2&b=1''"
  "reads_back sample_store [] api_url"
  "normalize_replay_url sample_store [] ''https://a.io/api?a=2&b=1'' = Inr ''https://a.io/api?a=2&b=1''"
proof -
  show one: "normalize_replay_url sample_store [] api_url = Inr ''https://a.io/api?a=2&b=1''"
    using sample_parsed_api by (simp add: normalize_Inr_iff)
  show two: "reads_back sample_store [] api_url" using sample_parsed_api by (simp add: reads_back_def)
  show "normalize_replay_url sample_store [] ''https://a.io/api?a=2&b=1'' = Inr ''https://a.io/api?a=2&b=1''"
    by (rule normalize_again[OF one two])
qed

text \<open>\<open>take\<close> by pattern on the list, so that a large bound is not counted down in unary.\<close>

lemma take_code [code]: "take n [] = []" "take n (x # xs) = (if n = 0 then [] else x # take (n - 1) xs)"
  by (cases n; simp)+

lemma sample_selected: "select_replay_match_headers [(''Accept'', '' application/json '')] = sample_headers"
  "select_replay_match_headers sample_headers = sample_headers"
  by code_simp+

lemma sample_scope: "replay_scope_value ''p'' = Inr ''p''" "replay_scope_value ''r'' = Inr ''r''" "replay_scope_value ''v'' = Inr ''v''"
  by code_simp+

lemma sample_identified: "canonical_replay_request_identity sample_store (capture_identity_input sample_capture) = Inr sample_identity"
  using sample_normalized(1) sample_selected(1) sample_scope
  by (simp add: identity_Inr_iff capture_identity_input_def sample_capture_def sample_identity_def replay_method_def)

lemma sample_checks: "capture_checks sample_store empty_archive sample_capture = Inr sample_identity"
proof -
  have "capture_content_type sample_capture = ''application/json''" by code_simp
  moreover have "replay_scope_owned empty_archive ''p'' ''r'' ''v''" by (simp add: replay_scope_owned_def empty_archive_def)
  ultimately show ?thesis using sample_identified
    by (simp add: capture_checks_def lift_identity_def max_replay_body_bytes_def) (simp add: sample_capture_def)
qed

lemma sample_rereads: "rereads sample_store sample_identity"
  using sample_normalized(3) sample_selected(2) by (simp add: rereads_def sample_identity_def)

lemma sample_row_check: "snapshot_check (capture_row sample_store sid (sample_capture\<lparr>ci_body := b\<rparr>) sample_identity)"
proof -
  have len: "length (ri_key sample_identity) = 179" "length (safe_replay_url sample_store api_url) = 37"
    "capture_content_type sample_capture = ''application/json''" by code_simp+
  have "capture_content_type (sample_capture\<lparr>ci_body := b\<rparr>) = capture_content_type sample_capture" by (simp add: capture_content_type_def)
  moreover have "length (rp_sha sample_store b) = 64" by (simp add: sample_store_def)
  ultimately show ?thesis using len
    by (simp add: snapshot_check_def capture_row_def Let_def text_between_def body_path_def sample_capture_def)
      (simp add: sample_identity_def)
qed

lemma sample_empty_ok: "replay_ok sample_store empty_archive"
  by (simp add: replay_ok_def empty_archive_def table_ok_def)

definition archive_one :: replay_db where
  "archive_one = snd (capture_snapshot sample_store ''s1'' sample_capture empty_archive)"

abbreviation sample_digest :: "char \<Rightarrow> string" where
  "sample_digest c \<equiv> replicate 64 c"

lemma sample_digests: "rp_sha sample_store [123, 125] = sample_digest CHR ''a''" "rp_sha sample_store [91, 93] = sample_digest CHR ''b''"
  by (simp_all add: sample_store_def)

lemma sample_stored:
  "\<exists>s. capture_snapshot sample_store ''s1'' sample_capture empty_archive = (Inr s, archive_one) \<and> sn_identity s = sample_identity \<and>
     sn_status s = 200 \<and> replay_ok sample_store archive_one \<and>
     captured_digests archive_one (ri_key sample_identity) = {sample_digest CHR ''a''} \<and>
     (\<forall>x \<in> set (rd_snapshots archive_one). rw_snapshotId x = ''s1'')"
proof -
  have body: "ci_body sample_capture = [123, 125]" "ci_status sample_capture = 200" by (simp_all add: sample_capture_def)
  have "\<exists>S1. store_body sample_store (ci_body sample_capture) empty_archive = Inr S1"
    by (simp add: store_body_def Let_def sample_store_def empty_archive_def)
  then obtain S1 where S1: "store_body sample_store (ci_body sample_capture) empty_archive = Inr S1" by blast
  have "sample_capture\<lparr>ci_body := [123, 125]\<rparr> = sample_capture" by (simp add: sample_capture_def)
  then have check: "snapshot_check (capture_row sample_store ''s1'' sample_capture sample_identity)"
    using sample_row_check[of "''s1''" "[123, 125]"] by simp
  obtain S2 r where r: "capture_snapshot sample_store ''s1'' sample_capture empty_archive = (snapshot_from_row sample_store r, S2)"
    "r \<in> set (rd_snapshots S2)" "rw_identityKey r = ri_key sample_identity" "replay_ok sample_store S2"
    "rd_snapshots S2 = rd_snapshots empty_archive \<or> rd_snapshots S2 = rd_snapshots empty_archive @ [capture_row sample_store ''s1'' sample_capture sample_identity]"
    "captured_digests S2 (ri_key sample_identity) = insert (rp_sha sample_store (ci_body sample_capture)) (captured_digests empty_archive (ri_key sample_identity))"
    using capture_stores[OF sample_empty_ok sample_checks S1 check] by (auto simp: empty_archive_def)
  have S2: "S2 = archive_one" using r(1) by (simp add: archive_one_def)
  have rows: "rd_snapshots S2 = [capture_row sample_store ''s1'' sample_capture sample_identity]"
    using r(2,5) by (auto simp: empty_archive_def)
  then have row: "r = capture_row sample_store ''s1'' sample_capture sample_identity" using r(2) by simp
  obtain s where s: "snapshot_from_row sample_store r = Inr s" "sn_identity s = sample_identity" "sn_status s = rw_status r"
    using snapshot_of_row[OF r(4,2) sample_identified r(3) sample_rereads] by blast
  have "sn_status s = 200" "rw_snapshotId r = ''s1''" using s(3) row body by (simp_all add: capture_row_def Let_def)
  then show ?thesis using r s rows row S2 body by (simp add: sample_digests captured_digests_def empty_archive_def)
qed

text \<open>The same request answered a second time with another body.\<close>

definition archive_two :: replay_db where
  "archive_two = snd (capture_snapshot sample_store ''s2'' (sample_capture\<lparr>ci_body := [91, 93]\<rparr>) archive_one)"

lemma sample_second:
  "\<exists>s. capture_snapshot sample_store ''s2'' (sample_capture\<lparr>ci_body := [91, 93]\<rparr>) archive_one = (Inr s, archive_two) \<and>
     sn_identity s = sample_identity \<and> captured_digests archive_one (ri_key sample_identity) = {sample_digest CHR ''a''}"
proof -
  let ?c = "sample_capture\<lparr>ci_body := [91, 93]\<rparr>"
  obtain s1 where one: "replay_ok sample_store archive_one" "captured_digests archive_one (ri_key sample_identity) = {sample_digest CHR ''a''}"
    "\<And>x. x \<in> set (rd_snapshots archive_one) \<Longrightarrow> rw_snapshotId x = ''s1''" using sample_stored by blast
  have "rd_projects archive_one = rd_projects empty_archive \<and> rd_runs archive_one = rd_runs empty_archive \<and> rd_revisions archive_one = rd_revisions empty_archive \<and>
      rd_files archive_one = Map.empty(body_path (sample_digest CHR ''a'') \<mapsto> [123, 125])"
  proof -
    have "store_body sample_store [123, 125] empty_archive =
        Inr (empty_archive\<lparr>rd_files := Map.empty(body_path (sample_digest CHR ''a'') \<mapsto> [123, 125])\<rparr>)"
      by (simp add: store_body_def Let_def sample_digests) (simp add: sample_store_def empty_archive_def)
    then show ?thesis using sample_checks
      by (auto simp: archive_one_def capture_snapshot_def Let_def insert_snapshot_def sample_capture_def split: option.splits)
  qed
  note same = this
  have "capture_checks sample_store archive_one ?c = Inr sample_identity"
  proof -
    have "replay_scope_owned archive_one = replay_scope_owned empty_archive" using same by (intro ext) (simp add: replay_scope_owned_def)
    moreover have "capture_identity_input ?c = capture_identity_input sample_capture" "capture_content_type ?c = capture_content_type sample_capture"
      by (simp_all add: capture_identity_input_def capture_content_type_def)
    ultimately show ?thesis using sample_checks
      by (simp add: capture_checks_def max_replay_body_bytes_def) (simp add: sample_capture_def)
  qed
  moreover obtain S1 where "store_body sample_store (ci_body ?c) archive_one = Inr S1"
  proof -
    have "body_path (sample_digest CHR ''b'') \<noteq> body_path (sample_digest CHR ''a'')" by (simp add: body_path_def numeral_eq_Suc)
    then show thesis using that same by (simp add: store_body_def Let_def sample_digests) (simp add: sample_store_def)
  qed
  moreover have "snapshot_check (capture_row sample_store ''s2'' ?c sample_identity)" by (rule sample_row_check)
  moreover have "rw_snapshotId x \<noteq> ''s2''" if "x \<in> set (rd_snapshots archive_one)" for x using one(3)[OF that] by simp
  ultimately obtain S2 r where r: "capture_snapshot sample_store ''s2'' ?c archive_one = (snapshot_from_row sample_store r, S2)"
    "r \<in> set (rd_snapshots S2)" "rw_identityKey r = ri_key sample_identity" "replay_ok sample_store S2"
    using capture_stores[OF one(1), of ?c sample_identity S1 "''s2''"] by blast
  obtain s where "snapshot_from_row sample_store r = Inr s" "sn_identity s = sample_identity"
    using snapshot_of_row[OF r(4,2) sample_identified r(3) sample_rereads] by blast
  then show ?thesis using r(1) one(2) by (simp add: archive_two_def)
qed

text \<open>The browser's side: a strict policy at a loopback origin and two requests.\<close>

definition sample_policy :: replay_policy where
  "sample_policy = \<lparr>np_version = 1, np_projectId = ''p'', np_runId = ''r'', np_revisionId = ''v'',
     np_runtimeOrigin = ''http://127.0.0.1:8080'', np_strictOffline = True, np_dependencies = None\<rparr>"

definition sample_request :: net_request where
  "sample_request = \<lparr>nr_method = ''GET'', nr_url = api_url, nr_headers = [(''Accept'', '' application/json '')],
     nr_resourceType = ''fetch'', nr_page = None\<rparr>"

definition sample_adapter :: "replay_db \<Rightarrow> adapter_env" where
  "sample_adapter S = store_adapter sample_store S True (\<lambda>_. Observed) ''2024-01-01T00:00:01.000Z''"

lemma sample_not_local: "\<not> is_runtime_local_request sample_store api_url ''http://127.0.0.1:8080''"
  by code_simp

lemma sample_input: "policy_identity_input sample_policy sample_request = capture_identity_input sample_capture"
  by (simp add: policy_identity_input_def capture_identity_input_def sample_policy_def sample_request_def sample_capture_def)

lemma sample_body: "ci_body sample_capture = [123, 125]"
  by (simp add: sample_capture_def)

lemma sample_remote: "\<not> is_runtime_local_request sample_store (nr_url sample_request) (np_runtimeOrigin sample_policy)"
  using sample_not_local by (simp add: sample_request_def sample_policy_def)

lemma sample_only: "captured_digests empty_archive k \<subseteq> {d}"
  by (simp add: captured_digests_def empty_archive_def)

lemma sample_digest_ok:
  "sha256_hex (rp_sha sample_store (ci_body sample_capture))"
  "\<forall>b. rp_sha sample_store b = rp_sha sample_store (ci_body sample_capture) \<and> length b = length (ci_body sample_capture) \<longrightarrow> b = ci_body sample_capture"
  by (simp_all add: sample_body sample_store_def sha256_hex_def is_hex_lower_def is_digit_def code_def list_all_iff)

lemma sample_delivered:
  "\<exists>s. capture_snapshot sample_store ''s1'' sample_capture empty_archive = (Inr s, archive_one) \<and> sn_status s = 200 \<and>
     gl_actions (snd (handle_route (sample_adapter archive_one) sample_policy sample_request empty_log)) =
       [DeliverResponse (sn_status s) (sn_responseHeaders s) [123, 125]]"
proof -
  obtain s where s: "capture_snapshot sample_store ''s1'' sample_capture empty_archive = (Inr s, archive_one)" "sn_status s = 200"
    using sample_stored by blast
  have "200 \<le> sn_status s" "sn_status s < 300" using s(2) by simp_all
  then show ?thesis
    using deliver_captured[OF sample_empty_ok s(1) sample_input sample_remote sample_only _ _ sample_digest_ok(1,2),
        of "\<lambda>_. Observed" "''2024-01-01T00:00:01.000Z''"] s sample_body
    by (auto simp: sample_adapter_def)
qed

section \<open>A header that is cut in front of a blank\<close>

definition long_value :: string where
  "long_value = replicate 511 (CHR ''a'') @ '' ''"

definition long_capture :: capture_input where
  "long_capture = sample_capture\<lparr>ci_requestHeaders := [(''Accept'', long_value @ ''b'')]\<rparr>"

definition long_identity :: replay_identity where
  "long_identity = sample_identity\<lparr>ri_headers := [(''accept'', long_value)],
     ri_key := canonical_json (identity_basis ''p'' ''r'' ''v'' ''GET'' ''https://a.io/api?a=2&b=1'' [(''accept'', long_value)])\<rparr>"

lemma select_accept: "take 512 (js_trim v) \<noteq> [] \<Longrightarrow> select_replay_match_headers [(''Accept'', v)] = [(''accept'', take 512 (js_trim v))]"
  "take 512 (js_trim v) \<noteq> [] \<Longrightarrow> select_replay_match_headers [(''accept'', v)] = [(''accept'', take 512 (js_trim v))]"
proof -
  have names: "lower_char CHR ''A'' = CHR ''a''" "lower_char CHR ''a'' = CHR ''a''" "lower_char CHR ''c'' = CHR ''c''"
    "lower_char CHR ''e'' = CHR ''e''" "lower_char CHR ''p'' = CHR ''p''" "lower_char CHR ''t'' = CHR ''t''" "''accept'' \<in> set selected_replay_headers"
    "''accept'' \<notin> set sensitive_headers" by code_simp+
  show "take 512 (js_trim v) \<noteq> [] \<Longrightarrow> select_replay_match_headers [(''Accept'', v)] = [(''accept'', take 512 (js_trim v))]"
    "take 512 (js_trim v) \<noteq> [] \<Longrightarrow> select_replay_match_headers [(''accept'', v)] = [(''accept'', take 512 (js_trim v))]"
    by (simp_all add: select_replay_match_headers_def names from_entries_def to_lower_def)
qed

lemma long_selected: "select_replay_match_headers [(''Accept'', long_value @ ''b'')] = [(''accept'', long_value)]"
proof -
  have "js_trim (long_value @ ''b'') = long_value @ ''b''"
    by (rule js_trim_id) (simp_all add: long_value_def is_space_def code_def hd_append)
  moreover have "take 512 (long_value @ ''b'') = long_value" by (simp add: long_value_def)
  moreover have "long_value \<noteq> []" by (simp add: long_value_def)
  ultimately show ?thesis using select_accept(1)[of "long_value @ ''b''"] by simp
qed

lemma long_unstable: "select_replay_match_headers (ri_headers long_identity) \<noteq> ri_headers long_identity"
proof
  assume eq: "select_replay_match_headers (ri_headers long_identity) = ri_headers long_identity"
  have headers: "ri_headers long_identity = [(''accept'', long_value)]" by (simp add: long_identity_def)
  have "\<exists>w. long_value = take 512 (js_trim w) \<and> w = long_value \<and> long_value \<noteq> []"
    using selected_headers_shape(2)[of "''accept''" long_value "[(''accept'', long_value)]"] eq headers by auto
  moreover have "length (js_trim long_value) \<le> 512" using length_js_trim[of long_value] by (simp add: long_value_def)
  ultimately have "js_trim long_value = long_value" "js_trim long_value \<noteq> []" by auto
  then have "\<not> is_space (last long_value)" using js_trim_ends(2)[of long_value] by simp
  then show False by (simp add: long_value_def is_space_def code_def)
qed

lemma quote_plain:
  assumes "list_all (\<lambda>c. 32 \<le> code c \<and> code c \<noteq> 34 \<and> code c \<noteq> 92) s" shows "length (json_quote s) = length s + 2"
proof -
  have "concat (map quote_char s) = s" using assms by (induction s) (simp_all add: quote_char_def Let_def)
  then show ?thesis by (simp add: json_quote_def)
qed

lemma long_checks: "capture_checks sample_store empty_archive long_capture = Inr long_identity"
proof -
  have "canonical_replay_request_identity sample_store (capture_identity_input long_capture) = Inr long_identity"
    using sample_normalized(1) long_selected sample_scope
    by (simp add: identity_Inr_iff capture_identity_input_def long_capture_def sample_capture_def long_identity_def sample_identity_def replay_method_def)
  moreover have "capture_content_type long_capture = capture_content_type sample_capture" by (simp add: capture_content_type_def long_capture_def)
  ultimately show ?thesis using sample_checks
    by (simp add: capture_checks_def lift_identity_def max_replay_body_bytes_def result_simps) (simp add: long_capture_def sample_capture_def)
qed

lemma long_row_check: "snapshot_check (capture_row sample_store ''s1'' long_capture long_identity)"
proof -
  have "list_all (\<lambda>c. 32 \<le> code c \<and> code c \<noteq> 34 \<and> code c \<noteq> 92) long_value" by (simp add: long_value_def code_def list_all_iff)
  then have q: "length (json_quote long_value) = 514" by (simp add: quote_plain long_value_def)
  have names: "length (json_quote ''contractVersion'') = 17" "length (json_quote ''method'') = 8" "length (json_quote ''normalizedUrl'') = 15"
    "length (json_quote ''projectId'') = 11" "length (json_quote ''projectRevisionId'') = 19" "length (json_quote ''runId'') = 7"
    "length (json_quote ''selectedHeaders'') = 17" "length (json_quote ''accept'') = 8" "length (json_quote ''GET'') = 5"
    "length (json_quote ''p'') = 3" "length (json_quote ''r'') = 3" "length (json_quote ''v'') = 3"
    "length (json_quote ''https://a.io/api?a=2&b=1'') = 26" by code_simp+
  have "ascending [(''accept'', long_value)]" by (simp add: ascending_def)
  then have "length (ri_key long_identity) = 675"
    by (simp add: long_identity_def basis_text names string_fields_simps q)
  then have key: "text_between 1 32768 (ri_key long_identity)" by (simp add: text_between_def)
  have "snapshot_check (capture_row sample_store ''s1'' sample_capture sample_identity)"
    using sample_row_check[of "''s1''" "[123, 125]"] by (simp add: sample_capture_def)
  moreover have "capture_content_type long_capture = capture_content_type sample_capture" by (simp add: capture_content_type_def long_capture_def)
  ultimately show ?thesis using key
    by (simp add: snapshot_check_def capture_row_def Let_def long_capture_def long_identity_def)
qed

section \<open>A capture that ignores a key of its URL\<close>

lemma ignoring_normalized:
  "normalize_replay_url sample_store [[98]] api_url = Inr ''https://a.io/api?a=2''"
  "normalize_replay_url sample_store [] ''https://a.io/api?a=2'' = Inr ''https://a.io/api?a=2''"
proof -
  have n: "replay_normal sample_store [[98]] api_page = api_page\<lparr>ur_query := Some ''a=2''\<rparr>"
    "href (api_page\<lparr>ur_query := Some ''a=2''\<rparr>) = ''https://a.io/api?a=2''"
    "rp_parse sample_store ''https://a.io/api?a=2'' = Some (api_page\<lparr>ur_query := Some ''a=2''\<rparr>)" by code_simp+
  show one: "normalize_replay_url sample_store [[98]] api_url = Inr ''https://a.io/api?a=2''"
    using sample_parsed_api n by (simp add: normalize_Inr_iff)
  have "reads_back sample_store [[98]] api_url" using sample_parsed_api n by (simp add: reads_back_def)
  then show "normalize_replay_url sample_store [] ''https://a.io/api?a=2'' = Inr ''https://a.io/api?a=2''"
    by (rule normalize_again[OF one])
qed

definition ignoring_identity :: replay_identity where
  "ignoring_identity = sample_identity\<lparr>ri_url := ''https://a.io/api?a=2'',
     ri_key := canonical_json (identity_basis ''p'' ''r'' ''v'' ''GET'' ''https://a.io/api?a=2'' sample_headers)\<rparr>"

lemma ignoring_stored:
  "\<exists>s S'. capture_snapshot sample_store ''s1'' (sample_capture\<lparr>ci_ignoredKeys := [[98]]\<rparr>) empty_archive = (Inr s, S')"
proof -
  let ?c = "sample_capture\<lparr>ci_ignoredKeys := [[98]]\<rparr>"
  have ident: "canonical_replay_request_identity sample_store (capture_identity_input ?c) = Inr ignoring_identity"
    using ignoring_normalized(1) sample_selected(1) sample_scope
    by (simp add: identity_Inr_iff capture_identity_input_def sample_capture_def ignoring_identity_def sample_identity_def replay_method_def)
  have same: "capture_content_type ?c = capture_content_type sample_capture" by (simp add: capture_content_type_def)
  have checks: "capture_checks sample_store empty_archive ?c = Inr ignoring_identity"
    using sample_checks ident same by (simp add: capture_checks_def lift_identity_def max_replay_body_bytes_def result_simps)
  obtain S1 where S1: "store_body sample_store (ci_body ?c) empty_archive = Inr S1"
    by (simp add: store_body_def Let_def sample_store_def empty_archive_def)
  have len: "length (ri_key ignoring_identity) = 175" by code_simp
  have "snapshot_check (capture_row sample_store ''s1'' sample_capture sample_identity)"
    using sample_row_check[of "''s1''" "[123, 125]"] by (simp add: sample_capture_def)
  then have check: "snapshot_check (capture_row sample_store ''s1'' ?c ignoring_identity)"
    using len same by (simp add: snapshot_check_def capture_row_def Let_def text_between_def) (simp add: ignoring_identity_def)
  obtain S2 r where r: "capture_snapshot sample_store ''s1'' ?c empty_archive = (snapshot_from_row sample_store r, S2)"
    "r \<in> set (rd_snapshots S2)" "rw_identityKey r = ri_key ignoring_identity" "replay_ok sample_store S2"
    using capture_stores[OF sample_empty_ok checks S1 check] by (auto simp: empty_archive_def)
  have "rereads sample_store ignoring_identity"
    using ignoring_normalized(2) sample_selected(2) by (simp add: rereads_def ignoring_identity_def sample_identity_def)
  then show ?thesis using snapshot_of_row[OF r(4,2) ident r(3)] r(1) by auto
qed

section \<open>A response and a runtime request\<close>

definition sample_response :: net_response where
  "sample_response = \<lparr>ns_request = sample_request, ns_status = 200,
     ns_headers = [(''content-type'', ''application/json; charset=utf-8''), (''ETag'', ''x''), (''Connection'', ''close'')],
     ns_body = Some [123, 125]\<rparr>"

definition sample_config :: capture_config where
  "sample_config = \<lparr>cc_policy = default_replay_capture_policy, cc_capturedAt = ''2024-01-01T00:00:00.000Z'', cc_pageId = None,
     cc_workerId = None, cc_ignoredKeys = []\<rparr>"

definition captured_sample :: capture_input where
  "captured_sample = sample_capture\<lparr>ci_responseHeaders := ns_headers sample_response\<rparr>"

lemma sample_captured: "capture_response sample_store sample_policy (Some sample_config) sample_response = Some captured_sample"
proof -
  have "fst (classify_capture_eligibility sample_store default_replay_capture_policy
      \<lparr>cr_method = ''GET'', cr_url = api_url, cr_resourceType = ''fetch'', cr_contentType = Some ''application/json; charset=utf-8'',
       cr_requestHeaders = [(''Accept'', '' application/json '')], cr_responseHeaders = ns_headers sample_response\<rparr>) = Capturable"
    by code_simp
  moreover have "\<not> somewhere marker_here (text_decode [123, 125])" by code_simp
  then have "\<not> contains_sensitive_replay_body [123, 125] ''application/json; charset=utf-8''"
    by (simp add: contains_sensitive_replay_body_def)
  moreover have "cp_maximumBytes default_replay_capture_policy = 8388608" by (simp add: default_replay_capture_policy_def)
  ultimately show ?thesis
    by (simp add: capture_response_def sample_config_def sample_response_def sample_request_def sample_policy_def captured_sample_def sample_capture_def Let_def)
qed

lemma captured_stored: "\<exists>x. x \<in> set (rd_snapshots (capture_into sample_store ''s1'' sample_policy (Some sample_config) sample_response empty_archive))"
proof -
  have same: "capture_content_type captured_sample = capture_content_type sample_capture"
    "capture_identity_input captured_sample = capture_identity_input sample_capture" "ci_body captured_sample = ci_body sample_capture"
    by (simp_all add: captured_sample_def capture_content_type_def capture_identity_input_def)
  have checks: "capture_checks sample_store empty_archive captured_sample = Inr sample_identity"
    using sample_checks same by (simp add: capture_checks_def captured_sample_def)
  obtain S1 where S1: "store_body sample_store (ci_body captured_sample) empty_archive = Inr S1"
    by (simp add: store_body_def Let_def sample_store_def empty_archive_def)
  have "snapshot_check (capture_row sample_store ''s1'' sample_capture sample_identity)"
    using sample_row_check[of "''s1''" "[123, 125]"] by (simp add: sample_capture_def)
  then have check: "snapshot_check (capture_row sample_store ''s1'' captured_sample sample_identity)"
    using same(1) by (simp add: snapshot_check_def capture_row_def Let_def captured_sample_def)
  show ?thesis using capture_stores[OF sample_empty_ok checks S1 check] sample_captured
    by (auto simp: capture_into_def empty_archive_def)
qed

definition sample_route :: route_entry where
  "sample_route = \<lparr>rt_routeId = ''r1'', rt_projectId = ''p'', rt_runId = ''r'', rt_revisionId = ''v'', rt_localRoute = [47],
     rt_localResource = to_units ''pages/index.html'', rt_routeType = RootRoute, rt_state = LocalMatch, rt_fallback = None\<rparr>"

definition sample_route_map :: route_map where
  "sample_route_map = \<lparr>rm_projectId = ''p'', rm_runId = ''r'', rm_revisionId = ''v'', rm_routes = [sample_route], rm_collisions = []\<rparr>"

definition sample_runtime_request :: runtime_request where
  "sample_runtime_request = \<lparr>rtq_requestPath = [47], rtq_method = ''GET'', rtq_routeMap = sample_route_map, rtq_resources = [],
     rtq_dependencies = None, rtq_additional = []\<rparr>"

lemma sample_root_path: "decode_runtime_path latin1_nfc latin1_lower [47] = Some [47]"
  by (simp add: decode_runtime_path_def normalized_route_path_def numeral_3_eq_3)

lemma sample_page_served: "rsl_status (resolve_runtime_request latin1_nfc latin1_lower sample_runtime_request) = 200"
proof -
  have "validate_path latin1_nfc latin1_lower (to_units ''pages/index.html'') = Inr (to_units ''pages/index.html'', latin1_lower (to_units ''pages/index.html''))"
    by (rule validate_path_complete) (simp_all add: to_units_def path_eval code_def)
  then have "canonical_relative_path latin1_nfc latin1_lower (page_resource sample_route) = Inr (to_units ''pages/index.html'')"
    by (simp add: canonical_relative_path_def page_resource_def sample_route_def)
  moreover have "rt_localRoute sample_route = [47]" "rt_state sample_route = LocalMatch" "rt_routeType sample_route \<noteq> SpaRoute"
    by (simp_all add: sample_route_def)
  moreover have "maps_share_runtime_scope sample_runtime_request"
    by (simp add: maps_share_runtime_scope_def sample_runtime_request_def sample_route_map_def sample_route_def)
  ultimately show ?thesis using sample_root_path
    by (simp add: resolve_runtime_request_def resolve_path_def sample_runtime_request_def sample_route_map_def in_collision_def replay_method_def
        resolution_def)
qed

end
