(* ===== verification/Replay_Properties.thy ===== *)
theory Replay_Properties
  imports Sample_Replay
begin

text \<open>
  The properties of network replay: the Strict Offline gate, the archive behind it, request identities,
  what may be captured, and the files the local runtime serves.
\<close>

section \<open>The gate\<close>

text \<open>C16
  Strict Offline is strict: whatever the lookup port answers and the observer does, a request that is
  not for the local runtime is never passed on to the network, by either handler.
\<close>

lemma strict_offline_never_leaks:
  assumes "np_strictOffline p" "\<not> is_runtime_local_request E (nr_url r) (np_runtimeOrigin p)"
  shows "ContinueRequest \<notin> set (gl_actions (snd (handle_route E p r empty_log))) \<and>
    ContinueRequest \<notin> set (gl_actions (snd (handle_cdp_request E p r empty_log))) \<and>
    fst (handle_cdp_request E p r empty_log) \<noteq> Inr CdpDefer"
proof -
  have verdict: "request_verdict E p w \<noteq> PassLocal \<and> request_verdict E p w \<noteq> PassUnmatched" if "nr_url w = nr_url r" for w
    using assms that by (auto simp: request_verdict_def split: lookup_result.split)
  have "response_for E r s \<noteq> Some ContinueRequest" for s
    by (auto simp: response_for_def split: sum.splits)
  then have "ContinueRequest \<notin> set (gl_actions (snd (handle_route E p r empty_log)))"
    using route_actions[of E p r] verdict[of r] by (auto split: verdict.splits option.splits)
  then show ?thesis using cdp_actions[of E p r] verdict[of "r\<lparr>nr_page := None\<rparr>"] by auto
qed

lemma sample_adapter_remote:
  "\<not> is_runtime_local_request (sample_adapter S) (nr_url sample_request) (np_runtimeOrigin sample_policy)"
  using sample_not_local by (simp add: sample_adapter_def adapter_identity sample_request_def sample_policy_def)

lemma strict_offline_never_leaks_witness:
  "ContinueRequest \<notin> set (gl_actions (snd (handle_route (sample_adapter empty_archive) sample_policy sample_request empty_log)))"
  using strict_offline_never_leaks[of sample_policy "sample_adapter empty_archive" sample_request] sample_adapter_remote
  by (simp add: sample_policy_def)

text \<open>C26
  As long as the observer does not throw, the handler settles every request with exactly one action and
  one event, and its outcome names that action: local requests pass, matches are answered, everything
  else is refused, or passed on when Strict Offline is off.
\<close>

lemma requests_are_settled_once:
  assumes "\<forall>e. ad_observer E e \<noteq> ObserverThrows"
  shows "\<exists>out a. fst (handle_route E p r empty_log) = Inr out \<and> gl_actions (snd (handle_route E p r empty_log)) = [a] \<and>
    length (gl_events (snd (handle_route E p r empty_log))) = 1 \<and>
    (case request_verdict E p r of
       PassLocal \<Rightarrow> out = Continued \<and> a = ContinueRequest
     | RefuseRequest \<Rightarrow> out = Aborted \<and> a = AbortRequest
     | PassUnmatched \<Rightarrow> out = Continued \<and> a = ContinueRequest
     | AnswerWith s \<Rightarrow> (case response_for E r s of None \<Rightarrow> out = Aborted \<and> a = AbortRequest | Some b \<Rightarrow> out = Fulfilled \<and> a = b))"
  using route_settles[of E p r] assms by blast

lemma requests_are_settled_once_witness:
  "\<exists>out. fst (handle_route (sample_adapter empty_archive) sample_policy sample_request empty_log) = Inr out"
proof -
  have "\<forall>e. ad_observer (sample_adapter empty_archive) e \<noteq> ObserverThrows"
    by (simp add: sample_adapter_def store_adapter_simps)
  from requests_are_settled_once[OF this] show ?thesis by blast
qed



section \<open>The archive\<close>

text \<open>C18
  The invariant of the store: constraints, body files with the recorded digest and length, identity keys
  that belong to the stored request. It survives every sequence of captures and events, whatever the
  file system refuses, and no captured row or body is ever lost or overwritten.
\<close>

lemma replay_store_invariant:
  assumes "replay_ok E S"
  shows "replay_ok E (store_run E ops S) \<and> set (rd_snapshots S) \<subseteq> set (rd_snapshots (store_run E ops S)) \<and>
    rd_files S \<subseteq>\<^sub>m rd_files (store_run E ops S)"
  using store_run_ok[OF assms] store_run_grows by blast

lemma replay_store_invariant_witness:
  "replay_ok sample_store (store_run sample_store [CaptureOp (\<lambda>_. True) (\<lambda>_. True) ''s1'' sample_capture] empty_archive)"
  using replay_store_invariant[OF sample_empty_ok] by blast

text \<open>C17
  Refinement: to its clients the store is a map from identity keys to sets of bodies. After a capture, a
  lookup of the captured request answers like the map with the body inserted: with the body when it is
  the only one, and with all of them when there are several.
\<close>

lemma capture_lookup_refines_archive:
  assumes "replay_ok E S" "capture_snapshot E sid c S = (Inr s, S')" "canonical_replay_request_identity E q = Inr (sn_identity s)"
  shows "answer_of (lookup_snapshot E S' q) =
    Some (archive_lookup (insert (rp_sha E (ci_body c)) (captured_digests S (ri_key (sn_identity s)))))"
proof -
  obtain i where i: "capture_checks E S c = Inr i" "sn_identity s = i" "rereads E i" "replay_ok E S'"
    "rp_sha E (ci_body c) \<in> captured_digests S' (ri_key i)" using capture_digests[OF assms(1,2)] by blast
  have "captured_digests S' (ri_key i) = insert (rp_sha E (ci_body c)) (captured_digests S (ri_key i))"
    by (rule captured_digests_after[OF assms(2) i(1,5)])
  then show ?thesis using lookup_refines[OF i(4) _ i(3), of q] assms(3) i(2) by simp
qed

lemma capture_lookup_refines_archive_witness:
  "answer_of (lookup_snapshot sample_store archive_two (capture_identity_input sample_capture)) =
     Some (ManyBodies {sample_digest CHR ''a'', sample_digest CHR ''b''})"
proof -
  obtain s where s: "capture_snapshot sample_store ''s2'' (sample_capture\<lparr>ci_body := [91, 93]\<rparr>) archive_one = (Inr s, archive_two)"
    "sn_identity s = sample_identity" "captured_digests archive_one (ri_key sample_identity) = {sample_digest CHR ''a''}"
    using sample_second by blast
  have ok: "replay_ok sample_store archive_one" using sample_stored by blast
  have "sample_digest CHR ''a'' \<noteq> sample_digest CHR ''b''" by (simp add: replicate_eq_replicate)
  then have "archive_lookup {sample_digest CHR ''b'', sample_digest CHR ''a''} = ManyBodies {sample_digest CHR ''b'', sample_digest CHR ''a''}"
    by (simp add: archive_lookup_def card_insert_if)
  then show ?thesis
    using capture_lookup_refines_archive[OF ok s(1), of "capture_identity_input sample_capture"] sample_identified s(2,3)
    by (simp add: sample_digests insert_commute)
qed



text \<open>C15
  Safety of delivery: in every state the store can reach, whatever the adapter delivers to the browser
  was captured for exactly this Project, Run, revision, method, URL and header selection, and its bytes have
  the recorded digest.
\<close>

lemma delivered_response_was_captured:
  assumes "replay_ok E S0"
    and "DeliverResponse status hs bytes \<in> set (gl_actions (snd (handle_route (store_adapter E (store_run E ops S0) d obs now) p r empty_log)))"
  shows "\<exists>i x content. canonical_replay_request_identity E (policy_identity_input p r) = Inr i \<and>
    x \<in> set (rd_snapshots (store_run E ops S0)) \<and> rw_identityKey x = ri_key i \<and> rw_status x = status \<and>
    rw_responseHeaders x = headers_json hs \<and> rp_sha E content = rw_bodySha256 x \<and> int (length content) = rw_bodyBytes x \<and>
    bytes = (if nr_method r = ''HEAD'' then [] else content)"
proof -
  let ?S = "store_run E ops S0"
  have ok: "replay_ok E ?S" by (rule store_run_ok[OF assms(1)])
  obtain s content where s: "lookup_snapshot E ?S (policy_identity_input p r) = LookupMatch s" "read_body E ?S s = Inr content"
    "rp_sha E content = sn_bodySha256 s" "bytes = (if nr_method r = ''HEAD'' then [] else content)" "status = sn_status s" "hs = sn_responseHeaders s"
    using store_port.delivered[OF ok assms(2)[unfolded store_adapter_def]] by blast
  obtain i x where x: "canonical_replay_request_identity E (policy_identity_input p r) = Inr i" "x \<in> set (rd_snapshots ?S)"
    "rw_identityKey x = ri_key i" "snapshot_from_row E x = Inr s"
    using lookup_match_row[OF s(1) ok] by blast
  note f = row_snapshot_fields[OF ok x(2,1,3,4)]
  have "int (length content) = sn_bodyBytes s" using read_body_checked[OF s(2)] by simp
  then show ?thesis using x s f by auto
qed

lemma delivered_response_was_captured_witness:
  "\<exists>(s::replay_snapshot) (i::replay_identity) x. gl_actions (snd (handle_route (sample_adapter archive_one) sample_policy sample_request empty_log)) =
     [DeliverResponse (sn_status s) (sn_responseHeaders s) [123, 125]] \<and> x \<in> set (rd_snapshots archive_one) \<and> rw_identityKey x = ri_key i"
proof -
  obtain s where s: "capture_snapshot sample_store ''s1'' sample_capture empty_archive = (Inr s, archive_one)" "sn_status s = 200"
    "gl_actions (snd (handle_route (sample_adapter archive_one) sample_policy sample_request empty_log)) =
       [DeliverResponse (sn_status s) (sn_responseHeaders s) [123, 125]]"
    using sample_delivered by blast
  have ok: "replay_ok sample_store archive_one" using sample_stored by blast
  have run: "store_run sample_store [] archive_one = archive_one" by (simp add: store_run_def)
  have "DeliverResponse (sn_status s) (sn_responseHeaders s) [123, 125] \<in> set (gl_actions (snd (handle_route
      (store_adapter sample_store (store_run sample_store [] archive_one) True (\<lambda>_. Observed) ''2024-01-01T00:00:01.000Z'')
      sample_policy sample_request empty_log)))"
    using s(3) by (simp add: run sample_adapter_def)
  from delivered_response_was_captured[OF ok this] show ?thesis using s(3) unfolding run by blast
qed

section \<open>Request identities\<close>

text \<open>C27
  The identity key of a request determines it: two requests with the same key agree on Project, Run,
  revision, method, normalised URL and every selected header.
\<close>

lemma replay_key_identifies_request:
  assumes "canonical_replay_request_identity E q = Inr i" "canonical_replay_request_identity E q' = Inr i'" "ri_key i = ri_key i'"
  shows "rq_projectId q = rq_projectId q' \<and> rq_runId q = rq_runId q' \<and> rq_revisionId q = rq_revisionId q' \<and>
    rq_method q = rq_method q' \<and> ri_url i = ri_url i' \<and>
    select_replay_match_headers (rq_headers q) = select_replay_match_headers (rq_headers q')"
proof -
  have "i = i'" by (rule identity_key_unique[OF assms])
  then show ?thesis using identity_parts[OF assms(1)] identity_parts[OF assms(2)] by simp
qed

lemma replay_key_identifies_request_witness:
  "\<exists>i i'. canonical_replay_request_identity sample_store (capture_identity_input sample_capture) = Inr i \<and>
     canonical_replay_request_identity sample_store (policy_identity_input sample_policy sample_request) = Inr i' \<and> ri_url i = ri_url i'"
  using replay_key_identifies_request[OF sample_identified sample_identified[folded sample_input] refl] sample_identified sample_input
  by auto

text \<open>C28
  The normalised URL of a request does not depend on its fragment, on the order of its parameters or on
  ignored and tracking parameters, and it is its own normal form when the parser reads a serialised URL
  back.
\<close>

lemma replay_url_is_a_normal_form:
  assumes "normalize_replay_url E ignored v = Inr t" "rp_parse E v = Some u" "rp_parse E w = Some (u\<lparr>ur_query := query, ur_fragment := f\<rparr>)"
    and "mset (filter (\<lambda>(k, x). \<not> ignored_query_key E ignored k) (search_params u)) =
         mset (filter (\<lambda>(k, x). \<not> ignored_query_key E ignored k) (search_params (u\<lparr>ur_query := query, ur_fragment := f\<rparr>)))"
    and "\<not> list_ex (\<lambda>(k, x). sensitive_query_key k) (search_params (u\<lparr>ur_query := query, ur_fragment := f\<rparr>))"
    and "reads_back E ignored v"
  shows "normalize_replay_url E ignored w = Inr t \<and> normalize_replay_url E [] t = Inr t"
proof -
  have u: "is_http u" "ur_username u = []" "ur_password u = []" "t = href (replay_normal E ignored u)"
    using assms(1,2) by (auto simp: normalize_Inr_iff)
  have "replay_normal E ignored (u\<lparr>ur_query := query, ur_fragment := f\<rparr>) = replay_normal E ignored u"
    by (rule normal_same[OF assms(4) refl])
  then have "normalize_replay_url E ignored w = Inr t" using assms(3,5) u by (simp add: normalize_Inr_iff is_http_def)
  then show ?thesis using normalize_again[OF assms(1,6)] by simp
qed

lemma replay_url_is_a_normal_form_witness:
  "normalize_replay_url sample_store [] ''https://a.io/api?a=2&b=1'' = Inr ''https://a.io/api?a=2&b=1''"
proof -
  have same: "api_page\<lparr>ur_query := Some ''a=2&b=1'', ur_fragment := None\<rparr> = api_page\<lparr>ur_query := Some ''a=2&b=1''\<rparr>" by code_simp
  have parse: "rp_parse sample_store ''https://a.io/api?a=2&b=1'' = Some (api_page\<lparr>ur_query := Some ''a=2&b=1'', ur_fragment := None\<rparr>)"
    using sample_parsed_api(4) same by simp
  have one: "filter (\<lambda>(k, x). \<not> ignored_query_key sample_store [] k) (search_params api_page) = [([98], [49]), ([97], [50])]" by code_simp
  have two: "filter (\<lambda>(k, x). \<not> ignored_query_key sample_store [] k)
      (search_params (api_page\<lparr>ur_query := Some ''a=2&b=1'', ur_fragment := None\<rparr>)) = [([97], [50]), ([98], [49])]" by code_simp
  have sens: "\<not> list_ex (\<lambda>(k, x). sensitive_query_key k) (search_params (api_page\<lparr>ur_query := Some ''a=2&b=1'', ur_fragment := None\<rparr>))"
    by code_simp
  have perm: "mset (filter (\<lambda>(k, x). \<not> ignored_query_key sample_store [] k) (search_params api_page)) =
      mset (filter (\<lambda>(k, x). \<not> ignored_query_key sample_store [] k)
        (search_params (api_page\<lparr>ur_query := Some ''a=2&b=1'', ur_fragment := None\<rparr>)))"
    by (simp only: one two) simp
  show ?thesis
    using replay_url_is_a_normal_form[OF sample_normalized(1) sample_parsed_api(1) parse perm sens sample_normalized(2)] by simp
qed

text \<open>
  The method is part of the identity key and only GET responses are stored, so no HEAD request is ever
  answered from the archive, although both handlers prepare an empty body for one.
\<close>

lemma head_requests_never_match:
  assumes "replay_ok E S" "rq_method q = ''HEAD''"
  shows "\<exists>reason. lookup_snapshot E S q = LookupMiss reason"
proof (cases "canonical_replay_request_identity E q")
  case (Inl e)
  then show ?thesis by (simp add: lookup_snapshot_def)
next
  case (Inr i)
  have "rw_identityKey r \<noteq> ri_key i" if "r \<in> set (rd_snapshots S)" for r
    using row_of_identity(7)[OF assms(1) that Inr] identity_parts(4)[OF Inr] assms(2) by auto
  then have "identity_rows i S = []" using identity_rows_set[OF assms(1) Inr] by (metis (mono_tags, lifting) empty_Collect_eq set_empty)
  then show ?thesis using Inr by (simp add: lookup_snapshot_def)
qed

lemma head_requests_never_match_witness:
  "\<exists>reason. lookup_snapshot sample_store archive_one ((capture_identity_input sample_capture)\<lparr>rq_method := ''HEAD''\<rparr>) = LookupMiss reason"
proof -
  have "replay_ok sample_store archive_one" using sample_stored by blast
  from head_requests_never_match[OF this, of "(capture_identity_input sample_capture)\<lparr>rq_method := ''HEAD''\<rparr>"] show ?thesis by simp
qed



text \<open>
  The adapter's lookups know no query policy. A response captured under extra ignored keys that its URL
  uses is filed under another key than the adapter asks for, so the very same request misses.
\<close>

lemma ignored_keys_are_never_found:
  assumes "replay_ok E S" "capture_snapshot E sid c S = (Inr s, S')"
    and "canonical_replay_request_identity E ((capture_identity_input c)\<lparr>rq_ignoredKeys := []\<rparr>) = Inr j"
    and "normalize_replay_url E (ci_ignoredKeys c) (ci_url c) \<noteq> normalize_replay_url E [] (ci_url c)"
    and "captured_digests S (ri_key j) = {}"
  shows "lookup_snapshot E S' ((capture_identity_input c)\<lparr>rq_ignoredKeys := []\<rparr>) = LookupMiss NoCapture"
proof -
  have ok: "replay_ok E S'" by (rule capture_ok[OF assms(1,2)])
  have "rw_identityKey x \<noteq> ri_key j" if x: "x \<in> set (rd_snapshots S')" for x
  proof (cases "x \<in> set (rd_snapshots S)")
    case True
    then show ?thesis using captured_digestsI[of x S "ri_key j"] assms(5) by auto
  next
    case False
    then obtain i where i: "capture_checks E S c = Inr i" "x = capture_row E sid c i" using capture_rows[OF assms(2)] x by auto
    note can = capture_checks_Inr(4)[OF i(1)]
    have "ri_url i \<noteq> ri_url j" using identity_parts(6)[OF can] identity_parts(6)[OF assms(3)] assms(4)
      by (auto simp: capture_identity_input_def)
    then have "ri_key i \<noteq> ri_key j" using identity_key_unique[OF can assms(3)] by auto
    then show ?thesis using i(2) by (simp add: capture_row_def Let_def)
  qed
  then have "set (identity_rows j S') = {}" using identity_rows_set[OF ok assms(3)] by auto
  then show ?thesis using assms(3) by (simp add: lookup_snapshot_def)
qed

lemma ignored_keys_are_never_found_witness:
  "\<exists>s S'. capture_snapshot sample_store ''s1'' (sample_capture\<lparr>ci_ignoredKeys := [[98]]\<rparr>) empty_archive = (Inr s, S') \<and>
     lookup_snapshot sample_store S' (capture_identity_input sample_capture) = LookupMiss NoCapture"
proof -
  let ?c = "sample_capture\<lparr>ci_ignoredKeys := [[98]]\<rparr>"
  obtain s S' where s: "capture_snapshot sample_store ''s1'' ?c empty_archive = (Inr s, S')" using ignoring_stored by blast
  have same: "(capture_identity_input ?c)\<lparr>rq_ignoredKeys := []\<rparr> = capture_identity_input sample_capture"
    by (simp add: capture_identity_input_def sample_capture_def)
  have "normalize_replay_url sample_store (ci_ignoredKeys ?c) (ci_url ?c) \<noteq> normalize_replay_url sample_store [] (ci_url ?c)"
    using sample_normalized(1) ignoring_normalized(1) by (simp add: sample_capture_def)
  moreover have "captured_digests empty_archive (ri_key sample_identity) = {}" by (simp add: captured_digests_def empty_archive_def)
  ultimately show ?thesis
    using ignored_keys_are_never_found[OF sample_empty_ok s, of sample_identity] sample_identified s same by auto
qed

section \<open>What is captured\<close>



section \<open>The local runtime\<close>

text \<open>C30
  The local runtime serves a file only for a safe request path under maps of one Project, Run and
  revision, and the file is one the maps name: of a matched route outside every collision, of a matched
  resource, or an additional one. Every segment of its path is portable, so it never climbs out of the archive.
\<close>

lemma runtime_serves_only_mapped_files:
  assumes "rsl_status (resolve_runtime_request nfc lower q) = 200"
  shows "\<exists>f. rsl_resource (resolve_runtime_request nfc lower q) = Some f \<and> mapped_file q f \<and>
    (\<forall>w \<in> set (split_on 47 f). portable_segment w) \<and> maps_share_runtime_scope q \<and>
    decode_runtime_path nfc lower (rtq_requestPath q) \<noteq> None"
proof -
  obtain f v k where f: "rsl_resource (resolve_runtime_request nfc lower q) = Some f" "mapped_file q f" "validate_path nfc lower v = Inr (f, k)"
    using resolved_file[OF assms] by blast
  have "maps_share_runtime_scope q" "decode_runtime_path nfc lower (rtq_requestPath q) \<noteq> None"
    using assms by (auto simp: resolve_runtime_request_def resolution_def split: if_splits option.splits)
  then show ?thesis using f validate_path_sound(1,9)[OF f(3)] by blast
qed

lemma runtime_serves_only_mapped_files_witness:
  "\<exists>f. rsl_resource (resolve_runtime_request latin1_nfc latin1_lower sample_runtime_request) = Some f \<and> mapped_file sample_runtime_request f"
  using runtime_serves_only_mapped_files[OF sample_page_served] by blast

text \<open>C31
  A path that two routes claim, or whose route is in a collision, is refused with 409 and no file,
  whatever else the maps offer under it.
\<close>

lemma colliding_routes_are_refused:
  assumes "replay_method (rtq_method q)" "maps_share_runtime_scope q" "decode_runtime_path nfc lower (rtq_requestPath q) = Some path"
    and "r \<in> set (rm_routes (rtq_routeMap q))" "rt_localRoute r = path"
    and "in_collision (rtq_routeMap q) r \<or> rt_state r = RouteCollides \<or> 1 < count_where (\<lambda>r. rt_localRoute r = path) (rm_routes (rtq_routeMap q))"
  shows "rsl_status (resolve_runtime_request nfc lower q) = 409 \<and> rsl_resource (resolve_runtime_request nfc lower q) = None"
proof -
  let ?matches = "filter (\<lambda>r. rt_localRoute r = path) (rm_routes (rtq_routeMap q))"
  have "1 < length ?matches \<or> list_ex (\<lambda>r. rt_state r = RouteCollides \<or> in_collision (rtq_routeMap q) r) ?matches"
    using assms(4-6) by (auto simp: list_ex_iff count_where_def)
  then show ?thesis using assms(1-3) by (simp add: resolve_runtime_request_def resolve_path_def resolution_def)
qed

lemma colliding_routes_are_refused_witness:
  "rsl_status (resolve_runtime_request latin1_nfc latin1_lower
     (sample_runtime_request\<lparr>rtq_routeMap := sample_route_map\<lparr>rm_collisions := [[''r1'']]\<rparr>\<rparr>)) = 409"
proof -
  let ?q = "sample_runtime_request\<lparr>rtq_routeMap := sample_route_map\<lparr>rm_collisions := [[''r1'']]\<rparr>\<rparr>"
  have "replay_method (rtq_method ?q)" "maps_share_runtime_scope ?q" "decode_runtime_path latin1_nfc latin1_lower (rtq_requestPath ?q) = Some [47]"
    "sample_route \<in> set (rm_routes (rtq_routeMap ?q))" "rt_localRoute sample_route = [47]" "in_collision (rtq_routeMap ?q) sample_route"
    using sample_root_path
    by (simp_all add: sample_runtime_request_def sample_route_map_def sample_route_def maps_share_runtime_scope_def in_collision_def replay_method_def)
  then show ?thesis using colliding_routes_are_refused[of ?q latin1_nfc latin1_lower "[47]" sample_route] by blast
qed

end
