(* ===== verification/Spec2Isabelle.thy ===== *)
theory Spec2Isabelle
  imports Repository_Properties Core_Properties Network_Properties Scope_Properties Replay_Properties
begin

text \<open>
  Verification development of the Offline Web Archive Builder (sasanzare/OfflineWebArchiver).

  The program crawls a web site and stores it for offline reading. Its core is a durable queue of Page Jobs in SQLite, a
  layer of Leases, checkpoints and recovery over the same tables, pure policies that both use, and a Worker Pool Scheduler
  that hands jobs to Workers, over Proxies and within request budgets. The scope engine decides which URLs belong to a
  crawl; network replay answers the requests of an archived page from captured responses, and the local runtime maps its
  paths to archived files. This library models these parts from the TypeScript sources under src/packages.

  \<^bold>\<open>Foundations.\<close>
  OWA_Prelude: errors as sums, ordered selection (\<open>ORDER BY ... LIMIT\<close>), updates and counts over tables.
  Js_Values: the numbers, strings and patterns of JavaScript the sources use; Js_Unknown: values of type \<open>unknown\<close>;
  Js_Time: \<open>Date.parse\<close> and \<open>toISOString\<close> on the proleptic Gregorian calendar, with their round trip and the agreement of
  text order and time order; Json_Canon: \<open>JSON.stringify\<close> and the canonical JSON that idempotency hashes are made of.

  \<^bold>\<open>Policies.\<close>
  Core_Types (archive-core/src/index.ts, the queue and recovery contracts), Queue_Policy (queue/src/index.ts), Run_State
  (run-state.ts, concurrency.ts), Path_Safety (path-safety.ts, on UTF-16 code units), Service_Worker
  (service-worker.ts), Recovery_Policy (recovery/src/index.ts), Secret_Refs (secrets.ts), Proxy_Policy (proxy.ts).

  \<^bold>\<open>Durable repositories.\<close>
  Schema holds the tables and constraints of persistence-sqlite/src/migrations.ts (migrations 4 and 5) as lists of records
  with an insertion and an update that fail when a CHECK, UNIQUE or foreign-key constraint would break; the locale
  \<open>sql_table\<close> states what a table promises and is interpreted for each table. Transactions is the state monad of a session:
  the database, the clock and the identifier source; \<open>run_transaction\<close> rolls back on an error. Queue_Repo and Queue_Claims
  model every method of createSqliteQueueRepository (queue.ts); Recovery_Repo and Recovery_Control those of
  createSqliteRecoveryRepository (recovery.ts). Job_Evolution is the abstract specification - how rows, Leases and logs may
  change - and Queue_Sound, Queue_Ops, Recovery_Sound, Recovery_Ops and Recovery_Done show that every operation follows
  it, so that Repository_Properties holds for any sequence of operations of both repositories. Sample_Project is a concrete
  Project on which the properties are applied.

  \<^bold>\<open>Scheduler.\<close>
  Worker_Config (configuration, jobs, Retry-After), Origin_Budget (InMemoryOriginNetworkBudget; tokens are rationals, the
  asynchronous \<open>acquire\<close> is a list of turns, a run is a relation \<open>budget_run\<close>) with Budget_Sound, Circuit_Breaker
  (ProxyCircuitBreaker), Worker_Pool (WorkerPoolScheduler without \<open>run\<close>) with Pool_Sound, and Pool_Run: \<open>run\<close> as a step relation
  whose steps are the stretches of code between two awaits. Proxy_Sound shows that normalization is idempotent
  and records stay valid. Network_Properties holds their properties, Sample_Network the values they are applied to.

  \<^bold>\<open>Scope engine.\<close>
  Url_Text: the URL record, percent decoding, \<open>searchParams\<close> and the serialisation of the URL standard. Scope_Hosts (host names
  and address classes), Scope_Profile (profile schema, rule normalisation and checks, the default profile) and Scope_Engine
  (evaluateScope, classifyCanonical, classifyRedirect) model scope-engine/src/index.ts. Scope_Sound and Scope_Properties hold
  their theorems; Sample_Url is a URL parser that computes, Sample_Scope a profile.

  \<^bold>\<open>Network replay and local runtime.\<close>
  Replay_Policy models archive-core/src/network.ts: request identities, capture eligibility, header and body rules.
  Replay_Store models createSqliteReplayRepository (persistence-sqlite/src/replay.ts) over the replay tables of migrations.ts
  and a file store whose path resolution and writes may fail. Replay_Gate models PlaywrightNetworkReplayAdapter
  (browser-runtime/src/network-replay.ts): each handler is a computation that may throw and logs the actions on the request
  and the events for the observer, in order. Runtime_Resolve models archive-core/src/runtime.ts. Json_Inject shows
  that the canonical JSON of string records is injective, Replay_Sound the laws of identities, Replay_Archive the
  invariant of the store and its refinement of a map from identity keys to sets of bodies. Replay_Port states the lookup port as the
  locale \<open>replay_port\<close>, in which delivery is proved safe, and interprets it on the repository. Replay_Properties holds the
  properties, Sample_Replay the archive they are applied to.

  \<^bold>\<open>What the theorems show.\<close>
  Of the repositories: constraints and history survive any sequence of operations, the job state machine is refined, failed
  operations leave no trace, requests are idempotent, claims follow the queue order, stale holders are refused, recovery
  leaves no abandoned job, one active Lease per job. Of the scheduler: the token bucket and in-flight bounds, cooldowns are
  respected, patient requests are served, pool limits, no job lost or reported twice, affinity, circuit behaviour. Of the
  policies: round trips, order equivalences, path safety, partial-file decisions, validity of Proxy records. Of the scope
  engine: a URL is eligible exactly when the rules admit it, identities are normal forms that ignore noise, decisions carry no
  credentials, redirects and canonical links keep within their bounds. Of network replay: what was captured is what is
  delivered, nothing else ever is, Strict Offline never reaches the network, every request is settled once, nothing
  sensitive is captured, and the runtime serves mapped files only.

  \<^bold>\<open>Parameters, bounds and fuel.\<close>
  SHA-256, the random identifiers, the clock, string collation, the URL and host parsers, domainToASCII, the lower-casing of
  UTF-16 text, the public-suffix lookup, Unicode normalization, the outcomes of file operations, the browser and the event observer
  are parameters. No definition uses fuel: every loop is structural or has a termination measure (the percent
  decoding of at most three rounds, the scheduling pass that shrinks the pending list); \<open>acquire\<close> waits on a clock and is
  given the finite list of its turns.

  \<^bold>\<open>Not modelled.\<close>
  The diagnostic events and fault points of the repositories (no effect on the state); the import formats of proxy.ts; drafts
  with a login flow and the text form of a profile in the scope engine; the other policies of archive-core (sessions, assets,
  authentication, interaction, rewrite), rendering, the secret vault, the other SQLite adapters, the project format and the
  application service, which orchestrates the rest; the page driver of the browser runtime, the user interfaces and the wire
  contracts, which are I/O or declarations.
\<close>

end
